(* ===== verification/Skyrict_Prelude.thy ===== *)
theory Skyrict_Prelude
  imports Complex_Main "HOL-Library.Char_ord" "HOL-Library.List_Lexorder"
begin

text \<open>
  Shared ground of the development: the exceptions of the service layer as values, the
  state-and-error computations the service methods are translated to, a weakest-precondition
  calculus that the simplifier evaluates, the few relational operations the repositories
  perform on tables (lists of rows), Python's decimal rounding, and document numbers.
\<close>

named_theorems wp_simps \<open>rewrite rules of the weakest-precondition calculus\<close>
named_theorems table_simps \<open>facts about select, update and insert on tables\<close>

section \<open>Names of the model's types\<close>

text \<open>
  Identifiers are the 128-bit values of Python's \<open>uuid.UUID\<close>, read as numbers. Decimals are
  exact rationals: the sums, differences and products the services form stay within the 28
  digits of Python's default context for every value a \<open>Numeric(18,4)\<close> column can hold, except
  where the code quantizes, which is written out.
\<close>

type_synonym uuid = nat
type_synonym decimal = rat
type_synonym date = int

text \<open>One reading of the clock: the instant, its calendar date and that date's year.\<close>

record clock =
  instant :: int
  today :: date
  year :: nat

section \<open>Exceptions as values\<close>

text \<open>
  The exceptions the modelled services raise. The string is the fixed part of the message
  where one class is raised for several reasons. \<open>IntegrityError\<close> carries the violated
  constraint, \<open>DataError\<close> is the database's refusal of a value that does not fit its column;
  \<open>AssertionError\<close>, \<open>TypeError\<close>, \<open>KeyError\<close>, \<open>ValueError\<close> and \<open>IndexError\<close> are Python's own, and
  \<open>InvalidOperation\<close> is the \<open>decimal\<close> module's.
\<close>

datatype error =
    ValidationError string
  | NotFoundError string
  | ConflictError string
  | PermissionDeniedError string
  | InsufficientStockError
  | MovementImmutableError
  | DuplicateSkuError
  | InactiveItemError string
  | StockReservedError string
  | TransferRequiresDistinctWarehousesError
  | CreditLimitExceededError
  | IllegalStateTransitionError string
  | IntegrityError string
  | AssertionError
  | TypeError
  | KeyError
  | InvalidOperation
  | PendingRollbackError
  | ApprovalDefinitionMissingError
  | PayrollPeriodConflictError
  | PayrollEntryImmutableError
  | DuplicateRecordError
  | EmployeeTerminatedError
  | LeaveBalanceExceededError
  | SelfApprovalForbiddenError
  | DataError
  | ValueError
  | IndexError

section \<open>Computations with state and errors\<close>

type_synonym ('s, 'a) comp = "'s \<Rightarrow> (error + 'a) \<times> 's"

definition returnM :: "'a \<Rightarrow> ('s, 'a) comp" where
  "returnM a = (\<lambda>s. (Inr a, s))"

definition raiseM :: "error \<Rightarrow> ('s, 'a) comp" where
  "raiseM e = (\<lambda>s. (Inl e, s))"

definition bindM :: "('s, 'a) comp \<Rightarrow> ('a \<Rightarrow> ('s, 'b) comp) \<Rightarrow> ('s, 'b) comp" where
  "bindM m f = (\<lambda>s. case m s of (Inl e, t) \<Rightarrow> (Inl e, t) | (Inr a, t) \<Rightarrow> f a t)"

definition thenM :: "('s, 'a) comp \<Rightarrow> ('s, 'b) comp \<Rightarrow> ('s, 'b) comp" where
  "thenM m k = bindM m (\<lambda>_. k)"

definition requireM :: "bool \<Rightarrow> error \<Rightarrow> ('s, unit) comp" where
  "requireM b e = (if b then returnM () else raiseM e)"

definition getsM :: "('s \<Rightarrow> 'a) \<Rightarrow> ('s, 'a) comp" where
  "getsM f = (\<lambda>s. (Inr (f s), s))"

definition modifyM :: "('s \<Rightarrow> 's) \<Rightarrow> ('s, unit) comp" where
  "modifyM f = (\<lambda>s. (Inr (), f s))"

text \<open>A Python \<open>try ... except E\<close>: the handler sees the state the exception left.\<close>

definition catchM :: "('s, 'a) comp \<Rightarrow> (error \<Rightarrow> ('s, 'a) comp) \<Rightarrow> ('s, 'a) comp" where
  "catchM m h = (\<lambda>s. case m s of (Inl e, t) \<Rightarrow> h e t | (Inr a, t) \<Rightarrow> (Inr a, t))"

text \<open>A Python \<open>for\<close> loop that collects its bodies' results, stopping at the first exception.\<close>

primrec mapM :: "('x \<Rightarrow> ('s, 'a) comp) \<Rightarrow> 'x list \<Rightarrow> ('s, 'a list) comp" where
  "mapM f [] = returnM []"
| "mapM f (x # xs) = bindM (f x) (\<lambda>y. bindM (mapM f xs) (\<lambda>ys. returnM (y # ys)))"

text \<open>A lookup whose absence is an exception.\<close>

definition the_or_raise :: "error \<Rightarrow> 'a option \<Rightarrow> ('s, 'a) comp" where
  "the_or_raise e x = (case x of None \<Rightarrow> raiseM e | Some a \<Rightarrow> returnM a)"

text \<open>A pure computation that may raise, inside a service method.\<close>

definition resultM :: "error + 'a \<Rightarrow> ('s, 'a) comp" where
  "resultM r = (case r of Inl e \<Rightarrow> raiseM e | Inr a \<Rightarrow> returnM a)"

text \<open>A \<open>for\<close> loop run for its effects.\<close>

primrec forM :: "('x \<Rightarrow> ('s, unit) comp) \<Rightarrow> 'x list \<Rightarrow> ('s, unit) comp" where
  "forM f [] = returnM ()"
| "forM f (x # xs) = thenM (f x) (forM f xs)"

section \<open>Weakest preconditions\<close>

text \<open>
  \<open>wp m Q E s\<close>: run from \<open>s\<close>, the computation either returns and satisfies \<open>Q\<close> or raises and
  satisfies \<open>E\<close>. Every operator of the previous section has a rewrite rule, so the simplifier
  executes a service method symbolically.
\<close>

definition wp ::
  "('s, 'a) comp \<Rightarrow> ('a \<Rightarrow> 's \<Rightarrow> bool) \<Rightarrow> (error \<Rightarrow> 's \<Rightarrow> bool) \<Rightarrow> 's \<Rightarrow> bool" where
  "wp m Q E s = (case m s of (Inl e, t) \<Rightarrow> E e t | (Inr a, t) \<Rightarrow> Q a t)"

lemma wp_return [wp_simps]: "wp (returnM a) Q E s = Q a s"
  by (simp add: wp_def returnM_def)

lemma wp_raise [wp_simps]: "wp (raiseM e) Q E s = E e s"
  by (simp add: wp_def raiseM_def)

lemma wp_bind [wp_simps]: "wp (bindM m f) Q E s = wp m (\<lambda>a t. wp (f a) Q E t) E s"
  by (auto simp: wp_def bindM_def split: prod.splits sum.splits)

lemma wp_then [wp_simps]: "wp (thenM m k) Q E s = wp m (\<lambda>_ t. wp k Q E t) E s"
  by (simp add: thenM_def wp_bind)

text \<open>The same rules for a precondition that is not applied to a state.\<close>

lemma wp_return_fun: "wp (returnM a) Q E = Q a"
  and wp_bind_fun: "wp (bindM m f) Q E = wp m (\<lambda>a. wp (f a) Q E) E"
  and wp_then_fun: "wp (thenM m k) Q E = wp m (\<lambda>_. wp k Q E) E"
  by (simp_all add: fun_eq_iff wp_return wp_bind wp_then)

lemma wp_require [wp_simps]: "wp (requireM b e) Q E s = (if b then Q () s else E e s)"
  by (simp add: requireM_def wp_return wp_raise)

lemma wp_gets [wp_simps]: "wp (getsM f) Q E s = Q (f s) s"
  by (simp add: wp_def getsM_def)

lemma wp_modify [wp_simps]: "wp (modifyM f) Q E s = Q () (f s)"
  by (simp add: wp_def modifyM_def)

lemma wp_catch [wp_simps]: "wp (catchM m h) Q E s = wp m Q (\<lambda>e t. wp (h e) Q E t) s"
  by (auto simp: wp_def catchM_def split: prod.splits sum.splits)

lemma wp_the_or_raise [wp_simps]:
  "wp (the_or_raise e x) Q E s = (case x of None \<Rightarrow> E e s | Some a \<Rightarrow> Q a s)"
  by (simp add: the_or_raise_def wp_return wp_raise split: option.split)

lemma wp_result [wp_simps]:
  "wp (resultM r) Q E s = (case r of Inl e \<Rightarrow> E e s | Inr a \<Rightarrow> Q a s)"
  by (simp add: resultM_def wp_return wp_raise split: sum.split)

lemma wp_if [wp_simps]: "wp (if b then m else k) Q E s = (if b then wp m Q E s else wp k Q E s)"
  by simp

lemma wp_option [wp_simps]:
  "wp (case x of None \<Rightarrow> m | Some a \<Rightarrow> f a) Q E s =
     (case x of None \<Rightarrow> wp m Q E s | Some a \<Rightarrow> wp (f a) Q E s)"
  by (simp split: option.split)

lemma wp_prod [wp_simps]:
  "wp (case p of (a, b) \<Rightarrow> f a b) Q E s = (case p of (a, b) \<Rightarrow> wp (f a b) Q E s)"
  by (simp split: prod.split)

lemma wp_mono:
  "wp m Q E s \<Longrightarrow> (\<And>a t. Q a t \<Longrightarrow> Q' a t) \<Longrightarrow> (\<And>e t. E e t \<Longrightarrow> E' e t) \<Longrightarrow> wp m Q' E' s"
  by (auto simp: wp_def split: prod.splits sum.splits)

lemma wp_conj:
  "wp m Q E s \<Longrightarrow> wp m Q' E' s \<Longrightarrow> wp m (\<lambda>a t. Q a t \<and> Q' a t) (\<lambda>e t. E e t \<and> E' e t) s"
  by (auto simp: wp_def split: prod.splits sum.splits)

text \<open>From the calculus back to runs, and the other way.\<close>

lemma wpD: "wp m Q E s \<Longrightarrow> m s = (Inr a, t) \<Longrightarrow> Q a t"
  by (simp add: wp_def)

lemma wpD_error: "wp m Q E s \<Longrightarrow> m s = (Inl e, t) \<Longrightarrow> E e t"
  by (simp add: wp_def)

lemma wp_run: "wp m (\<lambda>a t. (Inr a, t) = r) (\<lambda>e t. (Inl e, t) = r) s = (m s = r)"
  by (auto simp: wp_def split: prod.splits sum.splits)

lemma wp_returns: "wp m Q (\<lambda>_ _. False) s \<Longrightarrow> \<exists>a t. m s = (Inr a, t) \<and> Q a t"
  by (auto simp: wp_def split: prod.splits sum.splits)

lemma wp_raises: "wp m (\<lambda>_ _. False) E s \<Longrightarrow> \<exists>e t. m s = (Inl e, t) \<and> E e t"
  by (auto simp: wp_def split: prod.splits sum.splits)

text \<open>A loop keeps what each of its bodies keeps.\<close>

lemma wp_mapM_inv:
  assumes "\<And>x s. x \<in> set xs \<Longrightarrow> I s \<Longrightarrow> wp (f x) (\<lambda>_. I) (\<lambda>_. J) s"
  shows "I s \<Longrightarrow> wp (mapM f xs) (\<lambda>_. I) (\<lambda>_. J) s"
  using assms
proof (induction xs arbitrary: s)
  case Nil
  then show ?case by (simp add: wp_simps)
next
  case (Cons x xs)
  have "wp (f x) (\<lambda>_. I) (\<lambda>_. J) s" using Cons.prems by simp
  then have "wp (f x) (\<lambda>a t. wp (mapM f xs) (\<lambda>_. I) (\<lambda>_. J) t) (\<lambda>_. J) s"
    by (rule wp_mono) (use Cons in auto)
  then show ?case by (simp add: wp_simps)
qed

lemma wp_forM_inv:
  assumes "\<And>x s. x \<in> set xs \<Longrightarrow> I s \<Longrightarrow> wp (f x) (\<lambda>_. I) (\<lambda>_. J) s"
  shows "I s \<Longrightarrow> wp (forM f xs) (\<lambda>_. I) (\<lambda>_. J) s"
  using assms
proof (induction xs arbitrary: s)
  case Nil
  then show ?case by (simp add: wp_simps)
next
  case (Cons x xs)
  have "wp (f x) (\<lambda>_. I) (\<lambda>_. J) s" using Cons.prems by simp
  then have "wp (f x) (\<lambda>a t. wp (forM f xs) (\<lambda>_. I) (\<lambda>_. J) t) (\<lambda>_. J) s"
    by (rule wp_mono) (use Cons in auto)
  then show ?case by (simp add: wp_simps)
qed

section \<open>Tables\<close>

text \<open>
  A table is the list of its rows in insertion order. \<open>select_one\<close> is
  \<open>session.execute(select ... where P).scalar_one_or_none()\<close> on a key, \<open>update_where\<close> an
  \<open>UPDATE ... WHERE P\<close>, \<open>rows_matched\<close> its \<open>rowcount\<close>.
\<close>

definition select_one :: "('r \<Rightarrow> bool) \<Rightarrow> 'r list \<Rightarrow> 'r option" where
  "select_one P rows = List.find P rows"

definition update_where :: "('r \<Rightarrow> bool) \<Rightarrow> ('r \<Rightarrow> 'r) \<Rightarrow> 'r list \<Rightarrow> 'r list" where
  "update_where P f rows = map (\<lambda>r. if P r then f r else r) rows"

definition rows_matched :: "('r \<Rightarrow> bool) \<Rightarrow> 'r list \<Rightarrow> nat" where
  "rows_matched P rows = length (filter P rows)"

lemma select_one_Nil [simp]: "select_one P [] = None"
  by (simp add: select_one_def)

lemma select_one_Cons [simp]:
  "select_one P (r # rs) = (if P r then Some r else select_one P rs)"
  by (simp add: select_one_def)

lemma select_one_append [table_simps]:
  "select_one P (rs @ ts) = (case select_one P rs of None \<Rightarrow> select_one P ts | Some r \<Rightarrow> Some r)"
  by (induction rs) simp_all

lemma select_one_SomeD: "select_one P rows = Some r \<Longrightarrow> r \<in> set rows \<and> P r"
  by (induction rows) (auto split: if_splits)

lemma select_one_None: "select_one P rows = None \<longleftrightarrow> (\<forall>r \<in> set rows. \<not> P r)"
  by (induction rows) auto

lemma select_one_unique:
  assumes "r \<in> set rows" "P r" "\<And>q. q \<in> set rows \<Longrightarrow> P q \<Longrightarrow> q = r"
  shows "select_one P rows = Some r"
proof (cases "select_one P rows")
  case None
  with assms(1,2) show ?thesis by (simp add: select_one_None)
next
  case (Some q)
  then have "q \<in> set rows" "P q" by (simp_all add: select_one_SomeD)
  with assms(3) have "q = r" by blast
  with Some show ?thesis by simp
qed

lemma update_where_Nil [simp]: "update_where P f [] = []"
  by (simp add: update_where_def)

lemma update_where_Cons [simp]:
  "update_where P f (r # rs) = (if P r then f r else r) # update_where P f rs"
  by (simp add: update_where_def)

lemma update_where_append [table_simps]:
  "update_where P f (rs @ ts) = update_where P f rs @ update_where P f ts"
  by (simp add: update_where_def)

lemma length_update_where [simp]: "length (update_where P f rows) = length rows"
  by (simp add: update_where_def)

lemma set_update_where: "set (update_where P f rows) = (\<lambda>r. if P r then f r else r) ` set rows"
  by (simp add: update_where_def)

lemma map_update_where:
  assumes "\<And>r. P r \<Longrightarrow> g (f r) = g r"
  shows "map g (update_where P f rows) = map g rows"
  using assms by (induction rows) simp_all

lemma image_update_where:
  "(\<And>r. P r \<Longrightarrow> g (f r) = g r) \<Longrightarrow> g ` set (update_where P f rows) = g ` set rows"
  by (metis image_set map_update_where)

lemma bex_update_where:
  "(\<And>r. P r \<Longrightarrow> Q (f r) = Q r) \<Longrightarrow> (\<exists>r \<in> set (update_where P f rows). Q r) \<longleftrightarrow> (\<exists>r \<in> set rows. Q r)"
  by (induction rows) auto

lemma ball_update_where:
  "(\<forall>r \<in> set (update_where P f rows). Q r) \<longleftrightarrow> (\<forall>r \<in> set rows. if P r then Q (f r) else Q r)"
  by (induction rows) auto

lemma filter_update_where_disjoint:
  assumes "\<And>r. P r \<Longrightarrow> \<not> S r \<and> \<not> S (f r)"
  shows "filter S (update_where P f rows) = filter S rows"
  using assms by (induction rows) simp_all

lemma rows_matched_0: "rows_matched P rows = 0 \<longleftrightarrow> select_one P rows = None"
  by (simp add: rows_matched_def select_one_None filter_empty_conv)

lemma rows_matched_pos: "0 < rows_matched P rows \<longleftrightarrow> select_one P rows \<noteq> None"
  using rows_matched_0 [of P rows] by auto

text \<open>
  Selecting by a condition that the update keeps: the selected row is updated when it matches.
\<close>

lemma select_one_update_where:
  assumes "\<And>r. P r \<Longrightarrow> S (f r) = S r"
  shows "select_one S (update_where P f rows) =
    map_option (\<lambda>r. if P r then f r else r) (select_one S rows)"
  using assms by (induction rows) auto

lemma select_one_update_other:
  assumes "\<And>r. P r \<Longrightarrow> \<not> S r \<and> \<not> S (f r)"
  shows "select_one S (update_where P f rows) = select_one S rows"
  using assms by (induction rows) auto

lemma distinct_map_select_one:
  "distinct (map k rows) \<Longrightarrow> r \<in> set rows \<Longrightarrow> select_one (\<lambda>q. k q = k r) rows = Some r"
  by (rule select_one_unique) (auto simp: distinct_map inj_on_def)

text \<open>\<open>ORDER BY\<close>, \<open>OFFSET\<close> and \<open>LIMIT\<close>.\<close>

definition page :: "nat \<Rightarrow> nat \<Rightarrow> 'r list \<Rightarrow> 'r list" where
  "page offset limit rows = take limit (drop offset rows)"

lemma set_page: "set (page offset limit rows) \<subseteq> set rows"
  unfolding page_def by (meson set_drop_subset set_take_subset subset_trans)

section \<open>Decimal rounding\<close>

text \<open>
  \<open>Decimal.quantize\<close> with the default context rounds half to even; \<open>ROUND_HALF_UP\<close> rounds
  half away from zero. Both are computed exactly on rationals.
\<close>

definition round_half_even :: "decimal \<Rightarrow> int" where
  "round_half_even x =
     (let f = \<lfloor>x\<rfloor>; d = x - of_int f in
      if d < 1/2 then f else if 1/2 < d then f + 1 else if even f then f else f + 1)"

definition round_half_up :: "decimal \<Rightarrow> int" where
  "round_half_up x = (if x < 0 then - \<lfloor>1/2 - x\<rfloor> else \<lfloor>x + 1/2\<rfloor>)"

definition quantize :: "nat \<Rightarrow> decimal \<Rightarrow> decimal" where
  "quantize digits x = of_int (round_half_even (x * 10 ^ digits)) / 10 ^ digits"

lemma round_half_even_of_int [simp]: "round_half_even (of_int n) = n"
  by (simp add: round_half_even_def)

lemma round_half_even_error: "\<bar>of_int (round_half_even x) - x\<bar> \<le> 1/2"
proof -
  have "of_int \<lfloor>x\<rfloor> \<le> x" "x < of_int \<lfloor>x\<rfloor> + 1" by linarith+
  then show ?thesis
    by (auto simp: round_half_even_def Let_def abs_le_iff field_simps)
qed

lemma round_half_even_mono: "x \<le> y \<Longrightarrow> round_half_even x \<le> round_half_even y"
proof -
  assume le: "x \<le> y"
  show ?thesis
  proof (cases "\<lfloor>x\<rfloor> = \<lfloor>y\<rfloor>")
    case True
    with le show ?thesis by (simp add: round_half_even_def Let_def)
  next
    case False
    with le have "\<lfloor>x\<rfloor> + 1 \<le> \<lfloor>y\<rfloor>" using floor_mono [OF le] by simp
    moreover have "round_half_even x \<le> \<lfloor>x\<rfloor> + 1" by (simp add: round_half_even_def Let_def)
    moreover have "\<lfloor>y\<rfloor> \<le> round_half_even y" by (simp add: round_half_even_def Let_def)
    ultimately show ?thesis by linarith
  qed
qed

lemma quantize_error: "\<bar>quantize k x - x\<bar> \<le> 1 / (2 * 10 ^ k)"
proof -
  have "\<bar>quantize k x - x\<bar> = \<bar>of_int (round_half_even (x * 10 ^ k)) - x * 10 ^ k\<bar> / 10 ^ k"
    by (simp add: quantize_def field_simps abs_divide)
  also have "\<dots> \<le> (1/2) / 10 ^ k"
    by (intro divide_right_mono round_half_even_error) simp
  finally show ?thesis by simp
qed

lemma quantize_nonneg: "0 \<le> x \<Longrightarrow> 0 \<le> quantize k x"
  using round_half_even_mono [of 0 "x * 10 ^ k"] round_half_even_of_int [of 0]
  by (simp add: quantize_def)

lemma quantize_mono: "x \<le> y \<Longrightarrow> quantize k x \<le> quantize k y"
  by (simp add: quantize_def divide_right_mono round_half_even_mono mult_right_mono)

lemma quantize_idem [simp]: "quantize k (quantize k x) = quantize k x"
  by (simp add: quantize_def)

lemma quantize_0 [simp]: "quantize k 0 = 0"
  using round_half_even_of_int [of 0] by (simp add: quantize_def)

text \<open>The values \<open>quantize\<close> returns, and the closure facts that make a second rounding vanish.\<close>

definition at_scale :: "nat \<Rightarrow> decimal \<Rightarrow> bool" where
  "at_scale k x \<longleftrightarrow> quantize k x = x"

lemma at_scale_iff: "at_scale k x \<longleftrightarrow> (\<exists>n. x = of_int n / 10 ^ k)"
proof
  assume "at_scale k x"
  then show "\<exists>n. x = of_int n / 10 ^ k"
    by (metis at_scale_def quantize_def)
next
  assume "\<exists>n. x = of_int n / 10 ^ k"
  then show "at_scale k x" by (auto simp: at_scale_def quantize_def)
qed

lemma at_scale_quantize [simp]: "at_scale k (quantize k x)"
  by (simp add: at_scale_def)

lemma at_scale_0 [simp]: "at_scale k 0"
  by (simp add: at_scale_def)

lemma at_scale_add: "at_scale k x \<Longrightarrow> at_scale k y \<Longrightarrow> at_scale k (x + y)"
  unfolding at_scale_iff by (metis add_divide_distrib of_int_add)

lemma at_scale_sum_list: "(\<And>x. x \<in> set xs \<Longrightarrow> at_scale k x) \<Longrightarrow> at_scale k (sum_list xs)"
  by (induction xs) (auto intro: at_scale_add)

text \<open>
  The value a \<open>NUMERIC(p, k)\<close> column stores: the server rounds what is written to \<open>k\<close> places,
  half away from zero.
\<close>

definition numeric :: "nat \<Rightarrow> decimal \<Rightarrow> decimal" where
  "numeric k x = of_int (round_half_up (x * 10 ^ k)) / 10 ^ k"

lemma round_half_up_of_int [simp]: "round_half_up (of_int n) = n"
proof -
  have "\<lfloor>1/2 - (of_int n :: rat)\<rfloor> = - n" by (simp add: floor_unique)
  moreover have "\<lfloor>(of_int n :: rat) + 1/2\<rfloor> = n" by (simp add: floor_unique)
  ultimately show ?thesis by (simp add: round_half_up_def)
qed

lemma at_scale_numeric [simp]: "at_scale k (numeric k x)"
  by (auto simp: at_scale_iff numeric_def)

lemma numeric_at_scale [simp]: "at_scale k x \<Longrightarrow> numeric k x = x"
  by (auto simp: at_scale_iff numeric_def)

lemma round_half_up_mono: "x \<le> y \<Longrightarrow> round_half_up x \<le> round_half_up y"
proof -
  assume le: "x \<le> y"
  consider "y < 0" | "x < 0" "0 \<le> y" | "0 \<le> x" using le by linarith
  then show ?thesis
  proof cases
    case 1
    with le show ?thesis using floor_mono [of "1/2 - y" "1/2 - x"] by (simp add: round_half_up_def)
  next
    case 2
    then have "0 \<le> 1/2 - x" "0 \<le> y + 1/2" by simp_all
    then have "0 \<le> \<lfloor>1/2 - x\<rfloor>" "0 \<le> \<lfloor>y + 1/2\<rfloor>" by (simp_all only: zero_le_floor)
    moreover have "round_half_up x = - \<lfloor>1/2 - x\<rfloor>" "round_half_up y = \<lfloor>y + 1/2\<rfloor>"
      using 2 unfolding round_half_up_def by simp_all
    ultimately show ?thesis by linarith
  next
    case 3
    with le show ?thesis using floor_mono [of "x + 1/2" "y + 1/2"] by (simp add: round_half_up_def)
  qed
qed

lemma numeric_mono: "x \<le> y \<Longrightarrow> numeric k x \<le> numeric k y"
  by (simp add: numeric_def divide_right_mono round_half_up_mono mult_right_mono)

lemma numeric_0 [simp]: "numeric k 0 = 0"
  by (rule numeric_at_scale) simp

lemma numeric_nonneg: "0 \<le> x \<Longrightarrow> 0 \<le> numeric k x"
  using numeric_mono [of 0 x k] by simp

lemma at_scale_diff: "at_scale k x \<Longrightarrow> at_scale k y \<Longrightarrow> at_scale k (x - y)"
  unfolding at_scale_iff by (metis diff_divide_distrib of_int_diff)

section \<open>Text\<close>

text \<open>Decimal numerals and the zero-padded document numbers \<open>PREFIX-YEAR-00042\<close>.\<close>

definition digit_char :: "nat \<Rightarrow> char" where
  "digit_char d = char_of (48 + d)"

fun nat_text :: "nat \<Rightarrow> string" where
  "nat_text n = (if n < 10 then [digit_char n] else nat_text (n div 10) @ [digit_char (n mod 10)])"

declare nat_text.simps [simp del]

definition pad5 :: "nat \<Rightarrow> string" where
  "pad5 n = replicate (5 - length (nat_text n)) (CHR ''0'') @ nat_text n"

fun read_digits :: "nat \<Rightarrow> string \<Rightarrow> nat" where
  "read_digits acc [] = acc"
| "read_digits acc (c # cs) = read_digits (10 * acc + (of_char c - 48)) cs"

lemma read_digits_append: "read_digits a (xs @ ys) = read_digits (read_digits a xs) ys"
  by (induction xs arbitrary: a) simp_all

lemma of_char_digit [simp]: "d < 10 \<Longrightarrow> of_char (digit_char d) = 48 + d"
  by (simp add: digit_char_def)

lemma read_nat_text: "read_digits 0 (nat_text n) = n"
proof (induction n rule: nat_text.induct)
  case (1 n)
  show ?case
  proof (cases "n < 10")
    case True
    then show ?thesis by (subst nat_text.simps) simp
  next
    case False
    with "1.IH" show ?thesis by (subst nat_text.simps) (simp add: read_digits_append)
  qed
qed

lemma read_pad5: "read_digits 0 (pad5 n) = n"
proof -
  have "read_digits 0 (replicate k (CHR ''0'')) = 0" for k
    by (induction k) simp_all
  then show ?thesis by (simp add: pad5_def read_digits_append read_nat_text)
qed

lemma pad5_inject [simp]: "pad5 m = pad5 n \<longleftrightarrow> m = n"
  using read_pad5 by metis

lemma nat_text_inject [simp]: "nat_text m = nat_text n \<longleftrightarrow> m = n"
  using read_nat_text by metis

lemma no_dash_nat_text: "CHR ''-'' \<notin> set (nat_text n)"
proof (induction n rule: nat_text.induct)
  case (1 n)
  have "CHR ''-'' \<noteq> digit_char d" if "d < 10" for d
  proof
    assume "CHR ''-'' = digit_char d"
    then have "(of_char (CHR ''-'') :: nat) = of_char (digit_char d)" by simp
    with that show False by simp
  qed
  with "1.IH" show ?case
    by (subst nat_text.simps) (auto simp: not_less)
qed

text \<open>The canonical text of a UUID: 32 hexadecimal digits in groups of 8, 4, 4, 4 and 12.\<close>

definition hex_char :: "nat \<Rightarrow> char" where
  "hex_char d = (if d < 10 then char_of (48 + d) else char_of (87 + d))"

primrec hex_text :: "nat \<Rightarrow> nat \<Rightarrow> string" where
  "hex_text 0 n = []"
| "hex_text (Suc k) n = hex_text k (n div 16) @ [hex_char (n mod 16)]"

definition canonical_text :: "uuid \<Rightarrow> string" where
  "canonical_text u =
     (let h = hex_text 32 u in
      take 8 h @ ''-'' @ take 4 (drop 8 h) @ ''-'' @ take 4 (drop 12 h) @ ''-'' @
      take 4 (drop 16 h) @ ''-'' @ drop 20 h)"

lemma length_hex_text [simp]: "length (hex_text k n) = k"
  by (induction k arbitrary: n) simp_all

lemma hex_char_inject: "a < 16 \<Longrightarrow> b < 16 \<Longrightarrow> hex_char a = hex_char b \<Longrightarrow> a = b"
proof -
  assume "a < 16" "b < 16" "hex_char a = hex_char b"
  then have "(of_char (hex_char a) :: nat) = of_char (hex_char b)" by simp
  with \<open>a < 16\<close> \<open>b < 16\<close> show "a = b"
    by (auto simp: hex_char_def split: if_splits)
qed

lemma hex_text_inject:
  "m < 16 ^ k \<Longrightarrow> n < 16 ^ k \<Longrightarrow> hex_text k m = hex_text k n \<Longrightarrow> m = n"
proof (induction k arbitrary: m n)
  case 0
  then show ?case by simp
next
  case (Suc k)
  from Suc.prems have "hex_text k (m div 16) = hex_text k (n div 16)"
    and "hex_char (m mod 16) = hex_char (n mod 16)" by simp_all
  moreover have "m div 16 < 16 ^ k" "n div 16 < 16 ^ k"
    using Suc.prems by (simp_all add: less_mult_imp_div_less mult.commute)
  ultimately have "m div 16 = n div 16" "m mod 16 = n mod 16"
    using Suc.IH [of "m div 16" "n div 16"] by (auto intro: hex_char_inject)
  then show ?case by (metis div_mult_mod_eq)
qed

lemma canonical_text_inject:
  assumes "m < 2 ^ 128" "n < 2 ^ 128" "canonical_text m = canonical_text n"
  shows "m = n"
proof -
  define g where "g h = take 8 h @ ''-'' @ take 4 (drop 8 h) @ ''-'' @ take 4 (drop 12 h) @ ''-'' @
      take 4 (drop 16 h) @ ''-'' @ drop 20 h" for h :: string
  define unsplit where "unsplit t = take 8 t @ take 4 (drop 9 t) @ take 4 (drop 14 t) @
      take 4 (drop 19 t) @ drop 24 t" for t :: string
  have unsplit: "unsplit (g h) = h" if "length h = 32" for h
  proof -
    have "drop 16 h = take 4 (drop 16 h) @ drop 20 h"
      using append_take_drop_id [of 4 "drop 16 h"] by simp
    moreover have "drop 12 h = take 4 (drop 12 h) @ drop 16 h"
      using append_take_drop_id [of 4 "drop 12 h"] by simp
    moreover have "drop 8 h = take 4 (drop 8 h) @ drop 12 h"
      using append_take_drop_id [of 4 "drop 8 h"] by simp
    ultimately have "take 8 h @ take 4 (drop 8 h) @ take 4 (drop 12 h) @ take 4 (drop 16 h) @ drop 20 h = h"
      using append_take_drop_id [of 8 h] by simp
    then show ?thesis using that by (simp add: unsplit_def g_def)
  qed
  have "g (hex_text 32 m) = g (hex_text 32 n)"
    using assms(3) by (simp only: canonical_text_def Let_def g_def)
  then have "hex_text 32 m = hex_text 32 n"
    using unsplit by (metis length_hex_text)
  then show ?thesis using assms(1,2) hex_text_inject [of m 32 n] by simp
qed

text \<open>
  \<open>str\<close> of an identifier. A number beyond the 128 bits, which no identifier is, is given its
  numeral, so that the text determines the number without a side condition.
\<close>

definition uuid_text :: "uuid \<Rightarrow> string" where
  "uuid_text u = (if u < 2 ^ 128 then canonical_text u else nat_text u)"

lemma uuid_text_canonical: "u < 2 ^ 128 \<Longrightarrow> uuid_text u = canonical_text u"
  by (simp add: uuid_text_def)

lemma uuid_text_inject [simp]: "uuid_text m = uuid_text n \<longleftrightarrow> m = n"
proof
  have dash: "CHR ''-'' \<in> set (canonical_text u)" for u
    by (simp add: canonical_text_def Let_def)
  assume eq: "uuid_text m = uuid_text n"
  show "m = n"
  proof (cases "m < 2 ^ 128"; cases "n < 2 ^ 128")
    assume "m < 2 ^ 128" "n < 2 ^ 128"
    with eq show "m = n" by (simp add: uuid_text_def canonical_text_inject)
  next
    assume "m < 2 ^ 128" "\<not> n < 2 ^ 128"
    with eq have "canonical_text m = nat_text n" by (simp add: uuid_text_def)
    with dash [of m] no_dash_nat_text [of n] show "m = n" by simp
  next
    assume "\<not> m < 2 ^ 128" "n < 2 ^ 128"
    with eq have "nat_text m = canonical_text n" by (simp add: uuid_text_def)
    with dash [of n] no_dash_nat_text [of m] show "m = n" by simp
  next
    assume "\<not> m < 2 ^ 128" "\<not> n < 2 ^ 128"
    with eq show "m = n" by (simp add: uuid_text_def)
  qed
qed simp

end
