(* ===== verification/Money_Values.thy ===== *)
theory Money_Values
  imports Skyrict_Prelude
begin

text \<open>
  The value object \<open>Money\<close> of \<open>core/domain/value_objects.py\<close>: a decimal amount and a currency of
  the supported set, with arithmetic that refuses to mix currencies. Python's decimal context
  (28 significant digits, half to even) is applied to each arithmetic result, as the default
  context does. Strings are read as 8-bit text; characters outside it cannot occur in a currency
  code the constructor accepts.
\<close>

section \<open>Decimal context\<close>

definition pow10 :: "int \<Rightarrow> decimal" where
  "pow10 k = (if 0 \<le> k then 10 ^ nat k else 1 / 10 ^ nat (- k))"

lemma pow10_pos [simp]: "0 < pow10 k"
  by (simp add: pow10_def)

lemma pow10_nonneg [simp]: "0 \<le> pow10 k"
  using pow10_pos [of k] by linarith

lemma pow10_neq0 [simp]: "pow10 k \<noteq> 0"
  using pow10_pos [of k] by linarith

lemma pow10_powi: "pow10 k = 10 powi k"
  by (simp add: pow10_def power_int_def field_simps)

lemma pow10_add: "pow10 (a + b) = pow10 a * pow10 b"
  by (simp add: pow10_powi power_int_add)

lemma pow10_diff: "pow10 (a - b) = pow10 a / pow10 b"
  by (simp add: pow10_powi power_int_diff)

lemma pow10_mono: "a \<le> b \<Longrightarrow> pow10 a \<le> pow10 b"
  by (simp add: pow10_powi power_int_increasing)

lemma pow10_of_nat: "pow10 (int n) = 10 ^ n"
  by (simp add: pow10_def)

fun dec_len :: "nat \<Rightarrow> nat" where
  "dec_len n = (if n < 10 then 1 else Suc (dec_len (n div 10)))"

declare dec_len.simps [simp del]

lemma dec_len_upper: "n < 10 ^ dec_len n"
proof (induction n rule: dec_len.induct)
  case (1 n)
  show ?case
  proof (cases "n < 10")
    case False
    then have "n div 10 < 10 ^ dec_len (n div 10)" by (rule "1.IH")
    then have "n < 10 * 10 ^ dec_len (n div 10)" by linarith
    with False show ?thesis by (subst dec_len.simps) simp
  qed (subst dec_len.simps, simp)
qed

lemma dec_len_lower: "0 < n \<Longrightarrow> 10 ^ (dec_len n - 1) \<le> n"
proof (induction n rule: dec_len.induct)
  case (1 n)
  show ?case
  proof (cases "n < 10")
    case True
    then have "dec_len n = 1" by (subst dec_len.simps) simp
    with 1 show ?thesis by simp
  next
    case False
    then have "10 ^ (dec_len (n div 10) - 1) \<le> n div 10" by (intro "1.IH") simp_all
    moreover have "dec_len n = Suc (dec_len (n div 10))" using False by (subst dec_len.simps) simp
    moreover have "0 < dec_len (n div 10)" by (subst dec_len.simps) simp
    ultimately have "10 * 10 ^ (dec_len (n div 10) - 1) \<le> n" "dec_len n - 1 = Suc (dec_len (n div 10) - 1)"
      by linarith+
    then show ?thesis by simp
  qed
qed

text \<open>The adjusted exponent of a nonzero decimal, Python's \<open>Decimal.adjusted\<close>.\<close>

definition adjusted :: "decimal \<Rightarrow> int" where
  "adjusted x =
     (case quotient_of \<bar>x\<bar> of (p, q) \<Rightarrow>
        let e = int (dec_len (nat p)) - int (dec_len (nat q)) in
        if pow10 e \<le> \<bar>x\<bar> then e else e - 1)"

lemma adjusted_bounds:
  assumes "x \<noteq> 0"
  shows "pow10 (adjusted x) \<le> \<bar>x\<bar>" "\<bar>x\<bar> < pow10 (adjusted x + 1)"
proof -
  obtain p q where pq: "quotient_of \<bar>x\<bar> = (p, q)" by fastforce
  from pq have q: "0 < q" by (simp add: quotient_of_denom_pos)
  from pq have xq: "\<bar>x\<bar> = of_int p / of_int q" by (rule quotient_of_div)
  with assms q have p: "0 < p" using divide_nonpos_pos [of "of_int p :: rat" "of_int q"] by (cases "p \<le> 0") auto
  define a where "a = int (dec_len (nat p))"
  define b where "b = int (dec_len (nat q))"
  have one: "1 \<le> dec_len m" for m by (subst dec_len.simps) simp
  have up: "of_int r < pow10 (int (dec_len (nat r)))"
    and lo: "pow10 (int (dec_len (nat r)) - 1) \<le> of_int r" if "0 < r" for r
  proof -
    have "of_nat (nat r) < (10 :: rat) ^ dec_len (nat r)"
      using dec_len_upper [of "nat r"] of_nat_less_iff [where 'a = rat] by fastforce
    with that show "of_int r < pow10 (int (dec_len (nat r)))" by (simp add: pow10_of_nat)
    have "(10 :: nat) ^ (dec_len (nat r) - 1) \<le> nat r" using that by (intro dec_len_lower) simp
    then have "(10 :: rat) ^ (dec_len (nat r) - 1) \<le> of_nat (nat r)"
      using of_nat_le_iff [where 'a = rat] by fastforce
    moreover have "int (dec_len (nat r)) - 1 = int (dec_len (nat r) - 1)"
      using one [of "nat r"] by simp
    ultimately show "pow10 (int (dec_len (nat r)) - 1) \<le> of_int r"
      using that by (simp only: pow10_of_nat)
  qed
  have low: "pow10 (a - b - 1) \<le> \<bar>x\<bar>"
  proof -
    have "pow10 (a - 1 - b) = pow10 (a - 1) / pow10 b" by (rule pow10_diff)
    also have "\<dots> \<le> of_int p / of_int q"
      using lo [OF p] up [OF q] q p by (intro frac_le) (simp_all add: a_def b_def)
    finally show ?thesis by (simp add: xq algebra_simps)
  qed
  have high: "\<bar>x\<bar> < pow10 (a - b + 1)"
  proof -
    have "of_int p / of_int q < pow10 a / pow10 (b - 1)"
      using up [OF p] lo [OF q] q p by (intro frac_less) (simp_all add: a_def b_def)
    also have "\<dots> = pow10 (a - (b - 1))" by (simp add: pow10_diff)
    finally show ?thesis by (simp add: xq algebra_simps)
  qed
  have adj: "adjusted x = (if pow10 (a - b) \<le> \<bar>x\<bar> then a - b else a - b - 1)"
    by (simp add: adjusted_def pq a_def b_def Let_def)
  show "pow10 (adjusted x) \<le> \<bar>x\<bar>" using low by (simp add: adj)
  show "\<bar>x\<bar> < pow10 (adjusted x + 1)" using high by (simp add: adj)
qed

text \<open>The result of one arithmetic operation in the default context.\<close>

definition prec28 :: "decimal \<Rightarrow> decimal" where
  "prec28 x = (if x = 0 then 0 else
     let k = 27 - adjusted x in of_int (round_half_even (x * pow10 k)) / pow10 k)"

lemma prec28_error: "\<bar>prec28 x - x\<bar> \<le> \<bar>x\<bar> / (2 * 10 ^ 27)"
proof (cases "x = 0")
  case False
  define k where "k = 27 - adjusted x"
  have "prec28 x - x = (of_int (round_half_even (x * pow10 k)) - x * pow10 k) / pow10 k"
    using False by (simp add: prec28_def k_def [symmetric] Let_def diff_divide_distrib)
  then have "\<bar>prec28 x - x\<bar> = \<bar>of_int (round_half_even (x * pow10 k)) - x * pow10 k\<bar> / pow10 k"
    by (simp add: abs_divide)
  also have "\<dots> \<le> (1/2) / pow10 k"
    by (intro divide_right_mono round_half_even_error) simp
  also have "\<dots> = pow10 (adjusted x) / (2 * 10 ^ 27)"
    using pow10_of_nat [of 27] by (simp add: k_def pow10_diff)
  also have "\<dots> \<le> \<bar>x\<bar> / (2 * 10 ^ 27)"
    using adjusted_bounds(1) [OF False] by (intro divide_right_mono) simp_all
  finally show ?thesis .
qed (simp add: prec28_def)

text \<open>A decimal of at most 28 digits is not changed.\<close>

lemma prec28_exact:
  assumes "at_scale d x" "\<bar>x\<bar> * 10 ^ d < 10 ^ 28"
  shows "prec28 x = x"
proof (cases "x = 0")
  case False
  define k where "k = 27 - adjusted x"
  from assms(1) obtain n where n: "x = of_int n / 10 ^ d" by (auto simp: at_scale_iff)
  have "int d \<le> k"
  proof (rule ccontr)
    assume "\<not> int d \<le> k"
    then have "28 \<le> adjusted x + int d" by (simp add: k_def)
    then have "pow10 28 \<le> pow10 (adjusted x) * pow10 (int d)"
      by (metis pow10_add pow10_mono)
    also have "\<dots> \<le> \<bar>x\<bar> * 10 ^ d"
      using adjusted_bounds(1) [OF False] by (simp add: pow10_of_nat)
    finally show False using assms(2) pow10_of_nat [of 28] by simp
  qed
  then have "pow10 k = pow10 (k - int d) * 10 ^ d" and "0 \<le> k - int d"
    by (simp_all add: pow10_add [symmetric] pow10_of_nat [symmetric])
  then have "x * pow10 k = of_int (n * 10 ^ nat (k - int d))"
    by (simp add: n pow10_def)
  then have "of_int (round_half_even (x * pow10 k)) = x * pow10 k"
    by (metis round_half_even_of_int)
  then show ?thesis using False by (simp add: prec28_def k_def [symmetric] Let_def)
qed (simp add: prec28_def)

text \<open>\<open>Decimal.quantize\<close>: the coefficient must fit the 28 digits of the context.\<close>

definition quantize_ctx :: "nat \<Rightarrow> decimal \<Rightarrow> error + decimal" where
  "quantize_ctx digits x =
     (let r = quantize digits x in
      if \<bar>r\<bar> * 10 ^ digits < 10 ^ 28 then Inr r else Inl InvalidOperation)"

definition quantize_half_up :: "nat \<Rightarrow> decimal \<Rightarrow> error + decimal" where
  "quantize_half_up digits x =
     (let r = of_int (round_half_up (x * 10 ^ digits)) / 10 ^ digits in
      if \<bar>r\<bar> * 10 ^ digits < 10 ^ 28 then Inr r else Inl InvalidOperation)"

section \<open>Python text\<close>

definition py_space :: "char \<Rightarrow> bool" where
  "py_space c = (let n = of_char c :: nat in
     9 \<le> n \<and> n \<le> 13 \<or> 28 \<le> n \<and> n \<le> 32 \<or> n = 133 \<or> n = 160)"

definition strip :: "string \<Rightarrow> string" where
  "strip s = rev (dropWhile py_space (rev (dropWhile py_space s)))"

definition upper_char :: "char \<Rightarrow> char" where
  "upper_char c = (let n = of_char c :: nat in if 97 \<le> n \<and> n \<le> 122 then char_of (n - 32) else c)"

definition upper :: "string \<Rightarrow> string" where
  "upper s = map upper_char s"

definition lower_char :: "char \<Rightarrow> char" where
  "lower_char c = (let n = of_char c :: nat in if 65 \<le> n \<and> n \<le> 90 then char_of (n + 32) else c)"

definition lower :: "string \<Rightarrow> string" where
  "lower s = map lower_char s"

section \<open>Money\<close>

definition SUPPORTED_CURRENCIES :: "string list" where
  "SUPPORTED_CURRENCIES =
     [''USD'', ''EUR'', ''GBP'', ''JPY'', ''CHF'', ''CAD'', ''AUD'', ''NZD'', ''INR'', ''CNY'',
      ''SGD'', ''HKD'', ''SEK'', ''NOK'', ''DKK'', ''PLN'', ''BRL'', ''MXN'', ''ZAR'', ''AED'']"

definition ZERO_MINOR_UNITS :: "string list" where
  "ZERO_MINOR_UNITS = [''JPY'']"

text \<open>\<open>_quantum_of\<close>, as the number of decimal places of the quantum.\<close>

definition quantum_digits :: "string \<Rightarrow> nat" where
  "quantum_digits currency = (if currency \<in> set ZERO_MINOR_UNITS then 0 else 2)"

record money =
  amount :: decimal
  currency :: string

definition require_currency :: "string \<Rightarrow> error + unit" where
  "require_currency c =
     (if upper (strip c) \<in> set SUPPORTED_CURRENCIES then Inr ()
      else Inl (ValidationError ''Unsupported currency''))"

definition Money :: "decimal \<Rightarrow> string \<Rightarrow> error + money" where
  "Money a c = (case require_currency c of
     Inl e \<Rightarrow> Inl e
   | Inr _ \<Rightarrow> Inr \<lparr>amount = a, currency = upper (strip c)\<rparr>)"

definition assert_same_currency :: "money \<Rightarrow> money \<Rightarrow> error + unit" where
  "assert_same_currency x y =
     (if currency x \<noteq> currency y then Inl (ValidationError ''Cannot combine currencies'') else Inr ())"

definition money_add :: "money \<Rightarrow> money \<Rightarrow> error + money" where
  "money_add x y = (case assert_same_currency x y of
     Inl e \<Rightarrow> Inl e | Inr _ \<Rightarrow> Money (prec28 (amount x + amount y)) (currency x))"

definition money_sub :: "money \<Rightarrow> money \<Rightarrow> error + money" where
  "money_sub x y = (case assert_same_currency x y of
     Inl e \<Rightarrow> Inl e | Inr _ \<Rightarrow> Money (prec28 (amount x - amount y)) (currency x))"

definition money_mul :: "money \<Rightarrow> decimal \<Rightarrow> error + money" where
  "money_mul x factor = Money (prec28 (amount x * factor)) (currency x)"

definition money_div :: "money \<Rightarrow> decimal \<Rightarrow> error + money" where
  "money_div x factor =
     (if factor = 0 then Inl (ValidationError ''Cannot divide Money by zero'')
      else case quantize_ctx (quantum_digits (currency x)) (prec28 (amount x / factor)) of
             Inl e \<Rightarrow> Inl e
           | Inr a \<Rightarrow> Money a (currency x))"

definition money_neg :: "money \<Rightarrow> error + money" where
  "money_neg x = Money (prec28 (- amount x)) (currency x)"

definition money_abs :: "money \<Rightarrow> error + money" where
  "money_abs x = Money (prec28 \<bar>amount x\<bar>) (currency x)"

definition money_lt :: "money \<Rightarrow> money \<Rightarrow> error + bool" where
  "money_lt x y = (case assert_same_currency x y of
     Inl e \<Rightarrow> Inl e | Inr _ \<Rightarrow> Inr (amount x < amount y))"

definition money_le :: "money \<Rightarrow> money \<Rightarrow> error + bool" where
  "money_le x y = (case assert_same_currency x y of
     Inl e \<Rightarrow> Inl e | Inr _ \<Rightarrow> Inr (amount x \<le> amount y))"

definition money_rounded :: "money \<Rightarrow> nat \<Rightarrow> error + money" where
  "money_rounded x digits = (case quantize_half_up digits (amount x) of
     Inl e \<Rightarrow> Inl e | Inr a \<Rightarrow> Money a (currency x))"

definition with_currency :: "money \<Rightarrow> string \<Rightarrow> error + money" where
  "with_currency x c = (case require_currency c of Inl e \<Rightarrow> Inl e | Inr _ \<Rightarrow> Money (amount x) c)"

definition money_zero :: "string \<Rightarrow> error + money" where
  "money_zero c = Money 0 c"

text \<open>The values the constructor accepts.\<close>

definition valid_money :: "money \<Rightarrow> bool" where
  "valid_money m \<longleftrightarrow> currency m \<in> set SUPPORTED_CURRENCIES"

end
