(* ===== verification/Erp_Tables.thy ===== *)
theory Erp_Tables
  imports Money_Values
begin

text \<open>
  The data model: the enumerations of \<open>core/domain/value_objects.py\<close>, the entities of
  \<open>core/domain/entities.py\<close> as rows of the tables they are stored in, and the tables of the
  service's database. An identifier column is always present on a stored row. The timestamp
  columns that no modelled operation reads are left out; \<open>created_at\<close> is kept where one does.
\<close>

section \<open>Enumerations\<close>

datatype movement_type = RECEIPT | ISSUE | TRANSFER | ADJUSTMENT | RESERVATION | RELEASE

datatype order_status = ORDER_DRAFT | ORDER_CONFIRMED | ORDER_FULFILLED | ORDER_CANCELLED

datatype credit_check = CREDIT_PENDING | CREDIT_PASSED | CREDIT_FAILED

datatype account_type = ASSET | LIABILITY | EQUITY | REVENUE | EXPENSE

datatype entry_status = ENTRY_DRAFT | ENTRY_POSTED | ENTRY_VOIDED | ENTRY_REVERSED

datatype invoice_status =
  INVOICE_DRAFT | INVOICE_ISSUED | INVOICE_APPROVED | INVOICE_PAID | INVOICE_VOIDED

datatype payment_status = PAYMENT_APPLIED

datatype intent_status = INTENT_OPEN | INTENT_CANDIDATE | INTENT_APPLIED | INTENT_DISMISSED

section \<open>Payloads\<close>

text \<open>
  The values of an audit row's \<open>details\<close> and of an event's \<open>metadata\<close>: text, decimals (also
  where the code formats them with \<open>str\<close>), identifiers, flags, whole numbers and null.
\<close>

datatype pval = PStr string | PDec decimal | PId uuid | PBool bool | PInt int | PDate date | PNull

definition opt_str :: "string option \<Rightarrow> pval" where
  "opt_str x = (case x of None \<Rightarrow> PNull | Some s \<Rightarrow> PStr s)"

definition opt_id :: "uuid option \<Rightarrow> pval" where
  "opt_id x = (case x of None \<Rightarrow> PNull | Some i \<Rightarrow> PId i)"

type_synonym payload = "(string \<times> pval) list"

section \<open>Inventory rows\<close>

record product =
  p_id :: uuid
  p_tenant :: uuid
  p_sku :: string
  p_name :: string
  p_category :: "string option"
  p_unit :: "string option"
  p_cost :: money
  p_sell :: money
  p_reorder :: decimal
  p_active :: bool
  p_supplier :: "uuid option"

record warehouse =
  w_id :: uuid
  w_tenant :: uuid
  w_name :: string
  w_location :: "string option"
  w_active :: bool

record supplier =
  s_id :: uuid
  s_tenant :: uuid
  s_name :: string
  s_lead_time :: int
  s_contact_name :: "string option"
  s_contact_email :: "string option"
  s_active :: bool

record supplier_performance =
  sp_id :: uuid
  sp_tenant :: uuid
  sp_supplier :: uuid
  sp_start :: date
  sp_end :: date
  sp_on_time :: decimal
  sp_defect :: decimal
  sp_stability :: decimal
  sp_response :: decimal

record stock_level =
  l_id :: uuid
  l_tenant :: uuid
  l_product :: uuid
  l_warehouse :: uuid
  l_on_hand :: decimal
  l_reserved :: decimal

record stock_movement =
  m_id :: uuid
  m_tenant :: uuid
  m_product :: uuid
  m_warehouse :: uuid
  m_type :: movement_type
  m_qty :: decimal
  m_ref_type :: string
  m_ref_id :: string
  m_created :: int

section \<open>Sales rows\<close>

record customer =
  c_id :: uuid
  c_tenant :: uuid
  c_name :: string
  c_limit :: "money option"
  c_active :: bool

record sales_order =
  o_id :: uuid
  o_tenant :: uuid
  o_number :: string
  o_customer :: uuid
  o_status :: order_status
  o_credit :: credit_check
  o_subtotal :: decimal
  o_discount :: decimal
  o_tax :: decimal
  o_total :: decimal
  o_currency :: string
  o_confirmed_at :: "int option"

record order_line =
  ol_id :: uuid
  ol_tenant :: uuid
  ol_order :: uuid
  ol_product :: uuid
  ol_product_name :: string
  ol_sku :: string
  ol_quantity :: decimal
  ol_unit_price :: decimal
  ol_discount :: decimal
  ol_tax :: decimal
  ol_total :: decimal

section \<open>Finance rows\<close>

record account =
  a_id :: uuid
  a_tenant :: uuid
  a_code :: string
  a_name :: string
  a_type :: account_type
  a_active :: bool

record fiscal_period =
  fp_id :: uuid
  fp_tenant :: uuid
  fp_name :: string
  fp_start :: date
  fp_end :: date
  fp_closed :: bool

record journal_entry =
  je_id :: uuid
  je_tenant :: uuid
  je_date :: date
  je_memo :: "string option"
  je_status :: entry_status
  je_source :: string
  je_ref :: "string option"
  je_posted_at :: "int option"
  je_posted_by :: "uuid option"
  je_voided_at :: "int option"

record journal_line =
  jl_id :: uuid
  jl_tenant :: uuid
  jl_entry :: uuid
  jl_account :: uuid
  jl_debit :: "decimal option"
  jl_credit :: "decimal option"
  jl_currency :: string

record invoice =
  i_id :: uuid
  i_tenant :: uuid
  i_number :: string
  i_customer :: uuid
  i_date :: date
  i_due :: date
  i_status :: invoice_status
  i_total :: decimal
  i_currency :: string
  i_rate :: decimal
  i_source :: string
  i_ref :: "string option"
  i_issued_at :: "int option"
  i_approved_at :: "int option"
  i_voided_at :: "int option"

record invoice_line =
  il_id :: uuid
  il_tenant :: uuid
  il_invoice :: uuid
  il_no :: nat
  il_description :: string
  il_account :: uuid
  il_quantity :: decimal
  il_price :: decimal
  il_amount :: decimal

record exchange_rate =
  x_tenant :: uuid
  x_base :: string
  x_quote :: string
  x_effective :: date
  x_rate :: decimal

record payment =
  pay_id :: uuid
  pay_tenant :: uuid
  pay_number :: string
  pay_invoice :: uuid
  pay_amount :: decimal
  pay_method :: string
  pay_paid_at :: clock
  pay_status :: payment_status
  pay_source :: string
  pay_ref :: "string option"

record payment_intent =
  pi_id :: uuid
  pi_tenant :: uuid
  pi_amount :: decimal
  pi_paid_at :: clock
  pi_method :: string
  pi_source :: string
  pi_created_by :: uuid
  pi_status :: intent_status
  pi_reference :: "string option"
  pi_ref :: "string option"
  pi_customer :: "uuid option"
  pi_score :: "decimal option"
  pi_suggested :: "uuid option"
  pi_applied_invoice :: "uuid option"
  pi_applied_payment :: "uuid option"
  pi_applied_at :: "int option"
  pi_applied_by :: "uuid option"
  pi_dismissed_at :: "int option"
  pi_created :: int

section \<open>Payroll settings\<close>

datatype payroll_rounding = ROUND_NEAREST | ROUND_UP | ROUND_DOWN

record payroll_setting =
  ps_tenant :: uuid
  ps_currency :: string
  ps_pf_rate :: decimal
  ps_tax_rate :: decimal
  ps_rounding :: payroll_rounding
  ps_automation :: bool
  ps_je_bridge :: bool
  ps_drift :: decimal

section \<open>Approval rows\<close>

text \<open>The definition language of \<open>core/features/approval_workflow/dsl.py\<close>.\<close>

datatype routing_strategy = DETERMINISTIC | AI_ASSISTED

datatype assignee_spec = RoleAssignee string | PermissionAssignee string | UserListAssignee "uuid list"

datatype routing_condition = AmountBelow decimal | AmountAtLeast decimal

record sla_policy =
  sla_hours :: int
  sla_reminder :: int
  sla_escalation :: "assignee_spec option"

record workflow_step =
  ws_key :: string
  ws_assignee :: assignee_spec
  ws_routing :: routing_strategy
  ws_auto_approval :: "routing_condition option"
  ws_sla :: "sla_policy option"
  ws_delegation_allowed :: bool

record workflow_definition =
  wd_name :: string
  wd_resource_type :: string
  wd_version :: int
  wd_steps :: "workflow_step list"

datatype definition_status = DEF_DRAFT | DEF_ACTIVE | DEF_RETIRED

record definition_row =
  df_id :: uuid
  df_tenant :: uuid
  df_name :: string
  df_resource_type :: string
  df_version :: nat
  df_body :: workflow_definition
  df_status :: definition_status

datatype instance_status =
  INSTANCE_PENDING | INSTANCE_AUTO_APPROVED | INSTANCE_APPROVED | INSTANCE_REJECTED
| INSTANCE_REQUEST_CHANGES | INSTANCE_CANCELLED

record instance_row =
  wi_id :: uuid
  wi_tenant :: uuid
  wi_definition :: uuid
  wi_version :: int
  wi_resource_type :: string
  wi_resource :: uuid
  wi_status :: instance_status
  wi_current :: nat
  wi_submitted_by :: uuid
  wi_submitted_at :: int
  wi_sla_due :: "int option"
  wi_completed_at :: "int option"
  wi_updated_by :: uuid

datatype step_status = STEP_PENDING | STEP_APPROVED | STEP_REJECTED | STEP_SKIPPED | STEP_ESCALATED

datatype assignee_kind = KIND_ROLE | KIND_PERMISSION | KIND_USERS

record step_row =
  st_id :: uuid
  st_tenant :: uuid
  st_instance :: uuid
  st_index :: nat
  st_key :: string
  st_kind :: assignee_kind
  st_value :: string
  st_status :: step_status
  st_assigned_to :: "uuid option"
  st_delegated_from :: "uuid option"
  st_sla_due :: "int option"
  st_decided_at :: "int option"
  st_decided_by :: "uuid option"

datatype actor_type = ACTOR_HUMAN | ACTOR_DELEGATED | ACTOR_SYSTEM | ACTOR_AI_SUGGESTION | ACTOR_ESCALATION

record transition_row =
  tr_id :: uuid
  tr_tenant :: uuid
  tr_instance :: uuid
  tr_step :: "uuid option"
  tr_previous :: "string option"
  tr_new :: string
  tr_actor :: "uuid option"
  tr_actor_type :: actor_type
  tr_reason :: "string option"
  tr_original :: "uuid option"
  tr_delegate :: "uuid option"
  tr_context :: "payload option"
  tr_at :: int

record delegation_row =
  dg_id :: uuid
  dg_tenant :: uuid
  dg_delegator :: uuid
  dg_delegate :: uuid
  dg_permission :: "string option"
  dg_resource_type :: "string option"
  dg_from :: int
  dg_to :: "int option"
  dg_revoked :: "int option"
  dg_created_by :: uuid

record role_row =
  cr_tenant :: uuid
  cr_id :: uuid
  cr_name :: string
  cr_permissions :: "string list"

record user_role_row =
  ur_tenant :: uuid
  ur_user :: uuid
  ur_role :: uuid

record tenant_setting =
  ts_tenant :: uuid
  ts_key :: string
  ts_value :: string

record approval_tables =
  wf_definitions :: "definition_row list"
  wf_instances :: "instance_row list"
  wf_steps :: "step_row list"
  wf_transitions :: "transition_row list"
  wf_delegations :: "delegation_row list"
  core_roles :: "role_row list"
  core_user_roles :: "user_role_row list"
  tenant_settings :: "tenant_setting list"

definition no_approvals :: approval_tables where
  "no_approvals = \<lparr>wf_definitions = [], wf_instances = [], wf_steps = [], wf_transitions = [], wf_delegations = [],
     core_roles = [], core_user_roles = [], tenant_settings = []\<rparr>"

section \<open>People rows\<close>

record department =
  dp_id :: uuid
  dp_tenant :: uuid
  dp_name :: string
  dp_manager :: "uuid option"
  dp_active :: bool

datatype employment_status = EMPLOYEE_ACTIVE | EMPLOYEE_ON_LEAVE | EMPLOYEE_TERMINATED

record employee =
  em_id :: uuid
  em_tenant :: uuid
  em_number :: string
  em_first :: string
  em_last :: string
  em_email :: "string option"
  em_phone :: "string option"
  em_user :: "uuid option"
  em_department :: "uuid option"
  em_title :: string
  em_status :: employment_status
  em_hired :: date
  em_terminated :: "date option"
  em_bank_account :: "string option"
  em_bank_name :: "string option"

record leave_type =
  lt_id :: uuid
  lt_tenant :: uuid
  lt_code :: string
  lt_name :: string
  lt_accrual :: bool
  lt_days :: "int option"

record leave_policy =
  lp_id :: uuid
  lp_tenant :: uuid
  lp_casual :: int
  lp_sick :: int
  lp_from :: date
  lp_last_year :: "int option"

datatype leave_status = LEAVE_PENDING | LEAVE_APPROVED | LEAVE_REJECTED | LEAVE_CANCELLED

record leave_request =
  lr_id :: uuid
  lr_tenant :: uuid
  lr_employee :: uuid
  lr_type :: string
  lr_start :: date
  lr_end :: date
  lr_days :: int
  lr_status :: leave_status
  lr_reason :: "string option"
  lr_approved_by :: "uuid option"
  lr_approved_at :: "int option"
  lr_created :: int

record leave_movement =
  lm_id :: uuid
  lm_tenant :: uuid
  lm_employee :: uuid
  lm_type :: string
  lm_qty :: int
  lm_ref_type :: string
  lm_ref_id :: "string option"
  lm_reason :: "string option"
  lm_at :: int

record leave_balance =
  lb_id :: uuid
  lb_tenant :: uuid
  lb_employee :: uuid
  lb_type :: string
  lb_balance :: int

datatype attendance_status = ON_TIME | LATE | ABSENT

datatype pay_impact = FULL_PAY | HALF_PAY | NO_PAY

record attendance_record =
  at_id :: uuid
  at_tenant :: uuid
  at_employee :: uuid
  at_date :: date
  at_status :: attendance_status
  at_impact :: pay_impact
  at_note :: "string option"
  at_created :: int

section \<open>Payroll rows\<close>

record compensation =
  co_id :: uuid
  co_tenant :: uuid
  co_employee :: uuid
  co_salary :: decimal
  co_currency :: string
  co_from :: date
  co_active :: bool

datatype run_status = RUN_DRAFT | RUN_COMPUTED | RUN_APPROVED | RUN_PAID | RUN_VOID

datatype bridge_status = BRIDGE_NONE | BRIDGE_PENDING | BRIDGE_DRAFT

datatype skip_category = SKIP | RISK

datatype skip_code =
  NO_COMPENSATION | UNPAID_LEAVE | TERMINATED_MID_PERIOD | NOT_ON_ROSTER | NO_PAYABLE_DAYS
  | MISSING_BANK_DETAILS | UNCLASSIFIED

record skip_record =
  sk_employee :: uuid
  sk_code :: skip_code
  sk_reason :: string
  sk_category :: skip_category

record payroll_run =
  pr_id :: uuid
  pr_tenant :: uuid
  pr_code :: string
  pr_start :: date
  pr_end :: date
  pr_status :: run_status
  pr_gross :: "decimal option"
  pr_net :: "decimal option"
  pr_computed_by :: "uuid option"
  pr_approved_by :: "uuid option"
  pr_paid_by :: "uuid option"
  pr_computed_at :: "int option"
  pr_approved_at :: "int option"
  pr_paid_at :: "int option"
  pr_void_reason :: "string option"
  pr_skipped :: "skip_record list option"
  pr_bridge :: bridge_status

record payroll_entry =
  pe_id :: uuid
  pe_tenant :: uuid
  pe_run :: uuid
  pe_employee :: uuid
  pe_base :: decimal
  pe_days :: int
  pe_gross :: decimal
  pe_deductions :: decimal
  pe_net :: decimal
  pe_adjustments :: "payload option"

datatype review_status = REVIEW_DRAFT | REVIEW_APPROVED | REVIEW_REJECTED

record payslip_review =
  rv_id :: uuid
  rv_tenant :: uuid
  rv_run :: uuid
  rv_employee :: uuid
  rv_number :: string
  rv_name :: string
  rv_gross :: decimal
  rv_deductions :: decimal
  rv_net :: decimal
  rv_status :: review_status
  rv_version :: nat
  rv_reason :: "string option"
  rv_reviewed_by :: "uuid option"
  rv_reviewed_at :: "int option"
  rv_rejected_by :: "uuid option"
  rv_rejected_at :: "int option"

record benefit_election =
  be_id :: uuid
  be_tenant :: uuid
  be_employee :: uuid
  be_plan :: uuid
  be_status :: string
  be_from :: date

record people_tables =
  departments :: "department list"
  employees :: "employee list"
  leave_types :: "leave_type list"
  leave_policies :: "leave_policy list"
  leave_requests :: "leave_request list"
  leave_movements :: "leave_movement list"
  leave_balances :: "leave_balance list"
  attendance :: "attendance_record list"
  compensations :: "compensation list"
  payroll_runs :: "payroll_run list"
  payroll_entries :: "payroll_entry list"
  payslip_reviews :: "payslip_review list"
  benefit_elections :: "benefit_election list"

definition no_people :: people_tables where
  "no_people = \<lparr>departments = [], employees = [], leave_types = [], leave_policies = [], leave_requests = [],
     leave_movements = [], leave_balances = [], attendance = [], compensations = [], payroll_runs = [],
     payroll_entries = [], payslip_reviews = [], benefit_elections = []\<rparr>"

section \<open>Shared rows\<close>

record sequence_row =
  q_tenant :: uuid
  q_entity :: string
  q_value :: nat

record audit_row =
  au_tenant :: uuid
  au_actor :: "uuid option"
  au_action :: string
  au_target :: string
  au_details :: "payload option"

record timeline_row =
  t_tenant :: uuid
  t_entity_type :: string
  t_entity_id :: uuid
  t_event_type :: string
  t_title :: string
  t_actor :: "uuid option"
  t_payload :: payload

section \<open>The database\<close>

text \<open>
  \<open>collation\<close> is the sort key the database server derives from a text column; the server's
  locale is not part of the code.
\<close>

record db =
  collation :: "string \<Rightarrow> string"
  products :: "product list"
  warehouses :: "warehouse list"
  suppliers :: "supplier list"
  performances :: "supplier_performance list"
  levels :: "stock_level list"
  movements :: "stock_movement list"
  customers :: "customer list"
  orders :: "sales_order list"
  order_lines :: "order_line list"
  accounts :: "account list"
  periods :: "fiscal_period list"
  entries :: "journal_entry list"
  journal_lines :: "journal_line list"
  invoices :: "invoice list"
  invoice_lines :: "invoice_line list"
  payments :: "payment list"
  intents :: "payment_intent list"
  rates :: "exchange_rate list"
  payroll_settings :: "payroll_setting list"
  sequences :: "sequence_row list"
  audit_logs :: "audit_row list"
  timeline :: "timeline_row list"
  approvals :: approval_tables
  people :: people_tables

definition empty_db :: db where
  "empty_db = \<lparr>collation = (\<lambda>x. x), products = [], warehouses = [], suppliers = [], performances = [], levels = [],
     movements = [], customers = [], orders = [], order_lines = [],
     accounts = [], periods = [], entries = [], journal_lines = [], invoices = [], invoice_lines = [],
     payments = [], intents = [], rates = [], payroll_settings = [], sequences = [],
     audit_logs = [], timeline = [], approvals = no_approvals, people = no_people\<rparr>"

section \<open>Patches\<close>

text \<open>The \<open>_UNSET\<close> sentinel of the PATCH operations: a field is left alone or set.\<close>

datatype 'a patch = Unset | Set 'a

primrec patched :: "'a patch \<Rightarrow> 'a \<Rightarrow> 'a" where
  "patched Unset old = old"
| "patched (Set new) old = new"

end
