(* ===== verification/Db_Session.thy ===== *)
theory Db_Session
  imports Erp_Tables
begin

text \<open>
  The request session every service of one request shares (\<open>core/db/session.py\<close>), with the
  event producers (\<open>core/events/producers\<close>), the audit log (\<open>core/features/audit\<close>) and the
  document counters (\<open>core/db/sequence_repository.py\<close>). \<open>work\<close> is what the open transaction
  sees, \<open>durable\<close> what survives; \<open>published\<close> is the log of the event producer.
\<close>

section \<open>Session state\<close>

record event =
  ev_topic :: string
  ev_tenant :: uuid
  ev_payload :: payload

record sess =
  work :: db
  durable :: db
  ctx_buffer :: "event list option"
  fin_pending :: "event list"
  published :: "event list"
  next_id :: nat
  number_seq :: "string \<Rightarrow> nat"
  ctx_user :: "uuid option"
  clk :: clock

type_synonym 'a service = "(sess, 'a) comp"

text \<open>Updates of the session in one order, whatever order they were made in.\<close>

lemma sess_updates_ordered [simp]:
  fixes s :: sess
  shows
  "work_update f0 (durable_update f1 s) = durable_update f1 (work_update f0 s)"
  "work_update f0 (ctx_buffer_update f2 s) = ctx_buffer_update f2 (work_update f0 s)"
  "work_update f0 (fin_pending_update f3 s) = fin_pending_update f3 (work_update f0 s)"
  "work_update f0 (published_update f4 s) = published_update f4 (work_update f0 s)"
  "work_update f0 (next_id_update f5 s) = next_id_update f5 (work_update f0 s)"
  "work_update f0 (number_seq_update f6 s) = number_seq_update f6 (work_update f0 s)"
  "durable_update f1 (ctx_buffer_update f2 s) = ctx_buffer_update f2 (durable_update f1 s)"
  "durable_update f1 (fin_pending_update f3 s) = fin_pending_update f3 (durable_update f1 s)"
  "durable_update f1 (published_update f4 s) = published_update f4 (durable_update f1 s)"
  "durable_update f1 (next_id_update f5 s) = next_id_update f5 (durable_update f1 s)"
  "durable_update f1 (number_seq_update f6 s) = number_seq_update f6 (durable_update f1 s)"
  "ctx_buffer_update f2 (fin_pending_update f3 s) = fin_pending_update f3 (ctx_buffer_update f2 s)"
  "ctx_buffer_update f2 (published_update f4 s) = published_update f4 (ctx_buffer_update f2 s)"
  "ctx_buffer_update f2 (next_id_update f5 s) = next_id_update f5 (ctx_buffer_update f2 s)"
  "ctx_buffer_update f2 (number_seq_update f6 s) = number_seq_update f6 (ctx_buffer_update f2 s)"
  "fin_pending_update f3 (published_update f4 s) = published_update f4 (fin_pending_update f3 s)"
  "fin_pending_update f3 (next_id_update f5 s) = next_id_update f5 (fin_pending_update f3 s)"
  "fin_pending_update f3 (number_seq_update f6 s) = number_seq_update f6 (fin_pending_update f3 s)"
  "published_update f4 (next_id_update f5 s) = next_id_update f5 (published_update f4 s)"
  "published_update f4 (number_seq_update f6 s) = number_seq_update f6 (published_update f4 s)"
  "next_id_update f5 (number_seq_update f6 s) = number_seq_update f6 (next_id_update f5 s)"
  by simp_all

section \<open>Access to the open transaction\<close>

definition readM :: "(db \<Rightarrow> 'a) \<Rightarrow> 'a service" where
  "readM f = getsM (\<lambda>s. f (work s))"

definition writeM :: "(db \<Rightarrow> db) \<Rightarrow> unit service" where
  "writeM f = modifyM (\<lambda>s. s\<lparr>work := f (work s)\<rparr>)"

text \<open>A constraint of the database, checked when a statement is flushed.\<close>

definition check_constraint :: "string \<Rightarrow> (db \<Rightarrow> bool) \<Rightarrow> unit service" where
  "check_constraint name P = bindM (readM P) (\<lambda>b. requireM b (IntegrityError name))"

text \<open>The constraints of one written row, in the order the database checks them.\<close>

primrec check_all :: "(string \<times> (db \<Rightarrow> bool)) list \<Rightarrow> unit service" where
  "check_all [] = returnM ()"
| "check_all (c # cs) = thenM (check_constraint (fst c) (snd c)) (check_all cs)"

text \<open>\<open>uuid.uuid4\<close>: an identifier not used before.\<close>

definition fresh_id :: "uuid service" where
  "fresh_id = bindM (getsM next_id) (\<lambda>i. thenM (modifyM (\<lambda>s. s\<lparr>next_id := Suc i\<rparr>)) (returnM i))"

lemma wp_read [wp_simps]: "wp (readM f) Q E s = Q (f (work s)) s"
  by (simp add: readM_def wp_simps)

lemma wp_write [wp_simps]: "wp (writeM f) Q E s = Q () (s\<lparr>work := f (work s)\<rparr>)"
  by (simp add: writeM_def wp_simps)

lemma wp_check [wp_simps]:
  "wp (check_constraint c P) Q E s = (if P (work s) then Q () s else E (IntegrityError c) s)"
  by (simp add: check_constraint_def wp_simps)

lemma wp_check_all [wp_simps]:
  "wp (check_all cs) Q E s =
     (case List.find (\<lambda>c. \<not> snd c (work s)) cs of
        None \<Rightarrow> Q () s | Some c \<Rightarrow> E (IntegrityError (fst c)) s)"
  by (induction cs) (simp_all add: wp_simps)

lemma wp_fresh [wp_simps]: "wp fresh_id Q E s = Q (next_id s) (s\<lparr>next_id := Suc (next_id s)\<rparr>)"
  by (simp add: fresh_id_def wp_simps)

section \<open>Events\<close>

text \<open>\<open>StubEventProducer.publish\<close>: the log of emitted envelopes.\<close>

definition publish :: "event \<Rightarrow> unit service" where
  "publish e = modifyM (\<lambda>s. s\<lparr>published := published s @ [e]\<rparr>)"

definition start_event_buffer :: "sess \<Rightarrow> sess" where
  "start_event_buffer s = s\<lparr>ctx_buffer := Some []\<rparr>"

definition buffered_events :: "sess \<Rightarrow> event list" where
  "buffered_events s = (case ctx_buffer s of None \<Rightarrow> [] | Some es \<Rightarrow> es)"

definition clear_event_buffer :: "sess \<Rightarrow> sess" where
  "clear_event_buffer s = s\<lparr>ctx_buffer := None\<rparr>"

text \<open>\<open>apublish\<close>: queued while a request buffers, published at once otherwise.\<close>

definition apublish :: "event \<Rightarrow> unit service" where
  "apublish e = bindM (getsM ctx_buffer) (\<lambda>b. case b of
     None \<Rightarrow> publish e
   | Some es \<Rightarrow> modifyM (\<lambda>s. s\<lparr>ctx_buffer := Some (es @ [e])\<rparr>))"

lemma wp_publish [wp_simps]: "wp (publish e) Q E s = Q () (s\<lparr>published := published s @ [e]\<rparr>)"
  by (simp add: publish_def wp_simps)

lemma wp_apublish [wp_simps]:
  "wp (apublish e) Q E s = (case ctx_buffer s of
     None \<Rightarrow> Q () (s\<lparr>published := published s @ [e]\<rparr>)
   | Some es \<Rightarrow> Q () (s\<lparr>ctx_buffer := Some (es @ [e])\<rparr>))"
  by (simp add: apublish_def wp_simps split: option.split)

text \<open>\<open>FinanceEventPublisher\<close>: an event waits for the commit of its session.\<close>

definition finance_event :: "event \<Rightarrow> unit service" where
  "finance_event e = modifyM (\<lambda>s. s\<lparr>fin_pending := fin_pending s @ [e]\<rparr>)"

lemma wp_finance_event [wp_simps]:
  "wp (finance_event e) Q E s = Q () (s\<lparr>fin_pending := fin_pending s @ [e]\<rparr>)"
  by (simp add: finance_event_def wp_simps)

section \<open>Transactions\<close>

text \<open>
  \<open>session.commit()\<close> and its \<open>after_commit\<close> hooks: the transaction becomes durable, the finance
  publisher emits and forgets its pending events, and the buffered events are published by
  \<open>flush_events\<close>. That coroutine runs in a task of its own, in a copy of the request's context:
  the \<open>_event_buffer.set(None)\<close> it ends with is made in the copy, so the buffer the request
  sees keeps its events.
\<close>

definition flush_events :: "sess \<Rightarrow> sess" where
  "flush_events s = s\<lparr>published := published s @ buffered_events s\<rparr>"

definition flush_finance_events :: "sess \<Rightarrow> sess" where
  "flush_finance_events s = s\<lparr>published := published s @ fin_pending s, fin_pending := []\<rparr>"

definition commit_state :: "sess \<Rightarrow> sess" where
  "commit_state s = flush_finance_events (flush_events (s\<lparr>durable := work s\<rparr>))"

definition commit :: "unit service" where
  "commit = modifyM commit_state"

text \<open>Leaving the session without a commit: the open transaction and its events are dropped.\<close>

definition rollback_state :: "sess \<Rightarrow> sess" where
  "rollback_state s = (clear_event_buffer s)\<lparr>work := durable s, fin_pending := []\<rparr>"

lemma wp_commit [wp_simps]: "wp commit Q E s = Q () (commit_state s)"
  by (simp add: commit_def wp_simps)

lemma commit_state_simps [simp]:
  "work (commit_state s) = work s"
  "durable (commit_state s) = work s"
  "next_id (commit_state s) = next_id s"
  "number_seq (commit_state s) = number_seq s"
  "ctx_user (commit_state s) = ctx_user s"
  "clk (commit_state s) = clk s"
  "ctx_buffer (commit_state s) = ctx_buffer s"
  "fin_pending (commit_state s) = []"
  "published (commit_state s) = published s @ buffered_events s @ fin_pending s"
  by (simp_all add: commit_state_def flush_events_def flush_finance_events_def buffered_events_def)

lemma rollback_state_simps [simp]:
  "work (rollback_state s) = durable s"
  "durable (rollback_state s) = durable s"
  "next_id (rollback_state s) = next_id s"
  "published (rollback_state s) = published s"
  "fin_pending (rollback_state s) = []"
  "ctx_buffer (rollback_state s) = None"
  by (simp_all add: rollback_state_def clear_event_buffer_def)

text \<open>
  \<open>get_db\<close> around a route handler: a fresh transaction and a fresh buffer, a commit when the
  handler returns, a rollback when it raises.
\<close>

definition run_request :: "'a service \<Rightarrow> sess \<Rightarrow> (error + 'a) \<times> sess" where
  "run_request m s =
     (case m (start_event_buffer (s\<lparr>work := durable s, fin_pending := []\<rparr>)) of
        (Inr a, t) \<Rightarrow> (Inr a, commit_state t)
      | (Inl e, t) \<Rightarrow> (Inl e, rollback_state t))"

definition begin_state :: "sess \<Rightarrow> sess" where
  "begin_state s = start_event_buffer (s\<lparr>work := durable s, fin_pending := []\<rparr>)"

lemma begin_state_simps [simp]:
  "work (begin_state s) = durable s"
  "durable (begin_state s) = durable s"
  "ctx_buffer (begin_state s) = Some []"
  "fin_pending (begin_state s) = []"
  "next_id (begin_state s) = next_id s"
  "published (begin_state s) = published s"
  "ctx_user (begin_state s) = ctx_user s"
  "number_seq (begin_state s) = number_seq s"
  "clk (begin_state s) = clk s"
  by (simp_all add: begin_state_def start_event_buffer_def)

lemma run_request_wp:
  "wp m (\<lambda>a t. P (Inr a) (commit_state t)) (\<lambda>e t. P (Inl e) (rollback_state t)) (begin_state s) \<Longrightarrow>
   case run_request m s of (r, t) \<Rightarrow> P r t"
  by (auto simp: run_request_def begin_state_def wp_def split: prod.splits sum.splits)

text \<open>The two ways a request can end.\<close>

definition outcome ::
  "(error + 'a) \<times> sess \<Rightarrow> ('a \<Rightarrow> sess \<Rightarrow> bool) \<Rightarrow> (error \<Rightarrow> sess \<Rightarrow> bool) \<Rightarrow> bool" where
  "outcome r Q E = (case r of (Inr a, t) \<Rightarrow> Q a t | (Inl e, t) \<Rightarrow> E e t)"

lemma outcomeI:
  "wp m (\<lambda>a t. Q a (commit_state t)) (\<lambda>e t. E e (rollback_state t)) (begin_state s) \<Longrightarrow>
   outcome (run_request m s) Q E"
  by (auto simp: outcome_def run_request_def begin_state_def wp_def split: prod.splits sum.splits)

lemma outcome_mono:
  "outcome r Q E \<Longrightarrow> (\<And>a t. Q a t \<Longrightarrow> Q' a t) \<Longrightarrow> (\<And>e t. E e t \<Longrightarrow> E' e t) \<Longrightarrow> outcome r Q' E'"
  by (auto simp: outcome_def split: prod.splits sum.splits)

section \<open>Audit\<close>

text \<open>
  \<open>AuditRepository.log\<close>, and \<open>AuditService.log\<close> for the callers of the model: every one passes
  its tenant explicitly, so the row is always appended, and takes the user from the context.
\<close>

definition audit_by ::
  "uuid \<Rightarrow> uuid option \<Rightarrow> string \<Rightarrow> string \<Rightarrow> payload option \<Rightarrow> unit service" where
  "audit_by tenant user action target details =
     writeM (\<lambda>d. d\<lparr>audit_logs := audit_logs d @
       [\<lparr>au_tenant = tenant, au_actor = user, au_action = action, au_target = target,
         au_details = details\<rparr>]\<rparr>)"

definition audit :: "uuid \<Rightarrow> string \<Rightarrow> string \<Rightarrow> payload option \<Rightarrow> unit service" where
  "audit tenant action target details =
     bindM (getsM ctx_user) (\<lambda>user. audit_by tenant user action target details)"

lemma wp_audit_by [wp_simps]:
  "wp (audit_by tid user act tgt det) Q E s =
     Q () (s\<lparr>work := (work s)\<lparr>audit_logs := audit_logs (work s) @
       [\<lparr>au_tenant = tid, au_actor = user, au_action = act, au_target = tgt,
         au_details = det\<rparr>]\<rparr>\<rparr>)"
  by (simp add: audit_by_def wp_simps)

lemma wp_audit [wp_simps]:
  "wp (audit tid act tgt det) Q E s =
     Q () (s\<lparr>work := (work s)\<lparr>audit_logs := audit_logs (work s) @
       [\<lparr>au_tenant = tid, au_actor = ctx_user s, au_action = act, au_target = tgt,
         au_details = det\<rparr>]\<rparr>\<rparr>)"
  by (simp add: audit_def wp_simps)

definition target :: "string \<Rightarrow> uuid \<Rightarrow> string" where
  "target kind i = kind @ '':'' @ uuid_text i"

text \<open>\<open>CrmRepository.record_timeline_event\<close>: one row of the customer-facing timeline.\<close>

definition record_timeline_event ::
  "uuid \<Rightarrow> string \<Rightarrow> uuid \<Rightarrow> string \<Rightarrow> string \<Rightarrow> uuid option \<Rightarrow> payload \<Rightarrow> unit service" where
  "record_timeline_event tenant entity_type entity_id event_type title actor details =
     writeM (\<lambda>d. d\<lparr>timeline := timeline d @
       [\<lparr>t_tenant = tenant, t_entity_type = entity_type, t_entity_id = entity_id,
         t_event_type = event_type, t_title = title, t_actor = actor, t_payload = details\<rparr>]\<rparr>)"

lemma wp_record_timeline_event [wp_simps]:
  "wp (record_timeline_event t et ei ev title actor details) Q E s =
     Q () (s\<lparr>work := (work s)\<lparr>timeline := timeline (work s) @
       [\<lparr>t_tenant = t, t_entity_type = et, t_entity_id = ei, t_event_type = ev, t_title = title,
         t_actor = actor, t_payload = details\<rparr>]\<rparr>\<rparr>)"
  by (simp add: record_timeline_event_def wp_simps)

section \<open>Document counters\<close>

text \<open>\<open>nextval\<close> on a database sequence: its values are not given back by a rollback.\<close>

definition nextval :: "string \<Rightarrow> nat service" where
  "nextval name = bindM (getsM number_seq) (\<lambda>f.
     thenM (modifyM (\<lambda>s. s\<lparr>number_seq := f(name := f name + 1)\<rparr>)) (returnM (f name + 1)))"

lemma wp_nextval [wp_simps]:
  "wp (nextval name) Q E s = Q (number_seq s name + 1)
     (s\<lparr>number_seq := (number_seq s)(name := number_seq s name + 1)\<rparr>)"
  by (simp add: nextval_def wp_simps)

definition sequence_key :: "uuid \<Rightarrow> string \<Rightarrow> sequence_row \<Rightarrow> bool" where
  "sequence_key tenant entity q \<longleftrightarrow> q_tenant q = tenant \<and> q_entity q = entity"

definition bump_sequence :: "uuid \<Rightarrow> string \<Rightarrow> db \<Rightarrow> db" where
  "bump_sequence tenant entity d =
     d\<lparr>sequences := update_where (sequence_key tenant entity)
         (\<lambda>q. q\<lparr>q_value := q_value q + 1\<rparr>) (sequences d)\<rparr>"

definition sequence_value :: "uuid \<Rightarrow> string \<Rightarrow> db \<Rightarrow> nat option" where
  "sequence_value tenant entity d =
     map_option q_value (select_one (sequence_key tenant entity) (sequences d))"

text \<open>
  \<open>SequenceRepository.next_value\<close>: the row-locking \<open>UPDATE ... RETURNING\<close>; on first use the
  counter row is inserted (\<open>ON CONFLICT DO NOTHING\<close>) and the update retried.
\<close>

definition next_value :: "uuid \<Rightarrow> string \<Rightarrow> nat service" where
  "next_value tenant entity =
     thenM (writeM (bump_sequence tenant entity))
       (bindM (readM (sequence_value tenant entity)) (\<lambda>v. case v of
          Some n \<Rightarrow> returnM n
        | None \<Rightarrow>
            thenM (writeM (\<lambda>d. if rows_matched (sequence_key tenant entity) (sequences d) = 0
                then d\<lparr>sequences := sequences d @ [\<lparr>q_tenant = tenant, q_entity = entity, q_value = 0\<rparr>]\<rparr>
                else d))
              (thenM (writeM (bump_sequence tenant entity))
                (bindM (readM (sequence_value tenant entity)) (the_or_raise AssertionError)))))"

section \<open>Invariants of the database\<close>

text \<open>
  \<open>keeps P m\<close>: from a session in which the open transaction and the durable state satisfy \<open>P\<close>,
  \<open>m\<close> returns to such a session, and when it raises the durable state still satisfies \<open>P\<close>.
\<close>

definition keeps :: "(db \<Rightarrow> bool) \<Rightarrow> 'a service \<Rightarrow> bool" where
  "keeps P m \<longleftrightarrow> (\<forall>s. P (work s) \<and> P (durable s) \<longrightarrow>
     wp m (\<lambda>_ t. P (work t) \<and> P (durable t)) (\<lambda>_ t. P (durable t)) s)"

named_theorems keeps_intros \<open>structural rules for operations that keep an invariant\<close>

lemma keepsI:
  "(\<And>s. P (work s) \<Longrightarrow> P (durable s) \<Longrightarrow>
     wp m (\<lambda>_ t. P (work t) \<and> P (durable t)) (\<lambda>_ t. P (durable t)) s) \<Longrightarrow> keeps P m"
  by (simp add: keeps_def)

lemma keepsD:
  "keeps P m \<Longrightarrow> P (work s) \<Longrightarrow> P (durable s) \<Longrightarrow>
     wp m (\<lambda>_ t. P (work t) \<and> P (durable t)) (\<lambda>_ t. P (durable t)) s"
  by (simp add: keeps_def)

lemma keeps_return [keeps_intros]: "keeps P (returnM a)"
  and keeps_raise [keeps_intros]: "keeps P (raiseM e)"
  and keeps_require [keeps_intros]: "keeps P (requireM b e)"
  and keeps_gets [keeps_intros]: "keeps P (getsM f)"
  and keeps_read [keeps_intros]: "keeps P (readM g)"
  and keeps_check [keeps_intros]: "keeps P (check_constraint c C)"
  and keeps_check_all [keeps_intros]: "keeps P (check_all cs)"
  and keeps_fresh [keeps_intros]: "keeps P fresh_id"
  and keeps_the_or_raise [keeps_intros]: "keeps P (the_or_raise e x)"
  and keeps_result [keeps_intros]: "keeps P (resultM r)"
  and keeps_publish [keeps_intros]: "keeps P (publish ev)"
  and keeps_apublish [keeps_intros]: "keeps P (apublish ev)"
  and keeps_commit [keeps_intros]: "keeps P commit"
  and keeps_finance_event [keeps_intros]: "keeps P (finance_event ev)"
  and keeps_nextval [keeps_intros]: "keeps P (nextval nm)"
  by (simp_all add: keeps_def wp_simps split: option.split sum.split)

lemma keeps_bind [keeps_intros]:
  assumes "keeps P m" "\<And>a. keeps P (f a)"
  shows "keeps P (bindM m f)"
proof (rule keepsI)
  fix s :: sess
  assume "P (work s)" "P (durable s)"
  with assms(1) have "wp m (\<lambda>_ t. P (work t) \<and> P (durable t)) (\<lambda>_ t. P (durable t)) s"
    by (rule keepsD)
  then have "wp m (\<lambda>a t. wp (f a) (\<lambda>_ t. P (work t) \<and> P (durable t)) (\<lambda>_ t. P (durable t)) t)
      (\<lambda>_ t. P (durable t)) s"
    by (rule wp_mono) (use assms(2) in \<open>auto intro: keepsD\<close>)
  then show "wp (bindM m f) (\<lambda>_ t. P (work t) \<and> P (durable t)) (\<lambda>_ t. P (durable t)) s"
    by (simp add: wp_bind)
qed

lemma keeps_then [keeps_intros]: "keeps P m \<Longrightarrow> keeps P k \<Longrightarrow> keeps P (thenM m k)"
  by (simp add: thenM_def keeps_bind)

lemma keeps_if [keeps_intros]: "(b \<Longrightarrow> keeps P m) \<Longrightarrow> (\<not> b \<Longrightarrow> keeps P k) \<Longrightarrow> keeps P (if b then m else k)"
  by simp

lemma keeps_option [keeps_intros]:
  "(x = None \<Longrightarrow> keeps P m) \<Longrightarrow> (\<And>a. x = Some a \<Longrightarrow> keeps P (f a)) \<Longrightarrow>
     keeps P (case x of None \<Rightarrow> m | Some a \<Rightarrow> f a)"
  by (cases x) simp_all

lemma keeps_prod [keeps_intros]: "(\<And>a b. p = (a, b) \<Longrightarrow> keeps P (f a b)) \<Longrightarrow> keeps P (case p of (a, b) \<Rightarrow> f a b)"
  by (cases p) simp

lemma keeps_patch [keeps_intros]:
  "(x = Unset \<Longrightarrow> keeps P m) \<Longrightarrow> (\<And>a. x = Set a \<Longrightarrow> keeps P (f a)) \<Longrightarrow>
     keeps P (case x of Unset \<Rightarrow> m | Set a \<Rightarrow> f a)"
  by (cases x) simp_all

lemma keeps_Let [keeps_intros]: "keeps P (f x) \<Longrightarrow> keeps P (let y = x in f y)"
  by simp

lemma keeps_write: "(\<And>d. P d \<Longrightarrow> P (f d)) \<Longrightarrow> keeps P (writeM f)"
  by (simp add: keeps_def wp_simps)

lemma keeps_mapM [keeps_intros]: "(\<And>x. keeps P (f x)) \<Longrightarrow> keeps P (mapM f xs)"
  by (induction xs) (auto intro!: keeps_intros)

lemma keeps_forM [keeps_intros]: "(\<And>x. keeps P (f x)) \<Longrightarrow> keeps P (forM f xs)"
  by (induction xs) (auto intro!: keeps_intros)

lemma keeps_catch:
  assumes "\<And>s. P (work s) \<Longrightarrow> P (durable s) \<Longrightarrow>
      wp m (\<lambda>_ t. P (work t) \<and> P (durable t)) (\<lambda>_ t. P (work t) \<and> P (durable t)) s"
    and "\<And>e. keeps P (h e)"
  shows "keeps P (catchM m h)"
proof (rule keepsI)
  fix s :: sess
  assume "P (work s)" "P (durable s)"
  then have "wp m (\<lambda>_ t. P (work t) \<and> P (durable t)) (\<lambda>_ t. P (work t) \<and> P (durable t)) s"
    by (rule assms(1))
  then have "wp m (\<lambda>_ t. P (work t) \<and> P (durable t))
      (\<lambda>e t. wp (h e) (\<lambda>_ t. P (work t) \<and> P (durable t)) (\<lambda>_ t. P (durable t)) t) s"
    by (rule wp_mono) (use assms(2) in \<open>auto intro: keepsD\<close>)
  then show "wp (catchM m h) (\<lambda>_ t. P (work t) \<and> P (durable t)) (\<lambda>_ t. P (durable t)) s"
    by (simp add: wp_catch)
qed

text \<open>A handler that raises again, whatever the failed step left.\<close>

lemma keeps_reraise [keeps_intros]:
  assumes "keeps P m"
  shows "keeps P (catchM m (\<lambda>e. raiseM (g e)))"
  using assms by (simp add: keeps_def wp_catch wp_raise)

text \<open>What holds of every result of a step.\<close>

definition yields :: "('a \<Rightarrow> bool) \<Rightarrow> 'a service \<Rightarrow> bool" where
  "yields R m \<longleftrightarrow> (\<forall>s. wp m (\<lambda>a _. R a) (\<lambda>_ _. True) s)"

named_theorems yields_intros \<open>structural rules for the results of an operation\<close>

lemma yields_return [yields_intros]: "R a \<Longrightarrow> yields R (returnM a)"
  and yields_raise [yields_intros]: "yields R (raiseM e)"
  by (simp_all add: yields_def wp_simps)

lemma wp_trivial: "wp m (\<lambda>_ _. True) (\<lambda>_ _. True) s"
  by (simp add: wp_def split: prod.split sum.split)

lemma yields_bind [yields_intros]: "(\<And>a. yields R (f a)) \<Longrightarrow> yields R (bindM m f)"
  by (auto simp: yields_def wp_bind intro: wp_mono [OF wp_trivial])

lemma yields_then [yields_intros]: "yields R k \<Longrightarrow> yields R (thenM m k)"
  by (simp add: thenM_def yields_bind)

lemma yields_mapM:
  assumes "\<And>x. yields R (f x)"
  shows "yields (\<lambda>ys. \<forall>y \<in> set ys. R y) (mapM f xs)"
proof (induction xs)
  case (Cons x xs)
  have "wp (f x) (\<lambda>y t. wp (mapM f xs) (\<lambda>ys _. \<forall>z \<in> set (y # ys). R z) (\<lambda>_ _. True) t) (\<lambda>_ _. True) s" for s
    by (rule wp_mono [OF assms [unfolded yields_def, rule_format]])
      (use Cons in \<open>auto simp: yields_def intro: wp_mono\<close>)
  then show ?case by (simp add: yields_def wp_bind wp_return)
qed (simp add: yields_intros)

lemma yields_prod [yields_intros]:
  "(\<And>a b. p = (a, b) \<Longrightarrow> yields R (f a b)) \<Longrightarrow> yields R (case p of (a, b) \<Rightarrow> f a b)"
  by (cases p) simp

lemma yields_result: "(\<And>a. r = Inr a \<Longrightarrow> R a) \<Longrightarrow> yields R (resultM r)"
  by (simp add: yields_def wp_result split: sum.split)

lemma yields_bind_yields:
  assumes "yields R m" "\<And>a. R a \<Longrightarrow> yields R' (f a)"
  shows "yields R' (bindM m f)"
  unfolding yields_def wp_bind
proof
  fix s
  from assms(1) have "wp m (\<lambda>a _. R a) (\<lambda>_ _. True) s" by (simp add: yields_def)
  then show "wp m (\<lambda>a t. wp (f a) (\<lambda>a _. R' a) (\<lambda>_ _. True) t) (\<lambda>_ _. True) s"
    by (rule wp_mono) (use assms(2) in \<open>auto simp: yields_def\<close>)
qed

lemma yields_true: "yields (\<lambda>_. True) m"
  by (simp add: yields_def wp_trivial)

lemma yields_if: "(b \<Longrightarrow> yields R m) \<Longrightarrow> (\<not> b \<Longrightarrow> yields R k) \<Longrightarrow> yields R (if b then m else k)"
  by simp

lemma yields_option:
  "(x = None \<Longrightarrow> yields R m) \<Longrightarrow> (\<And>a. x = Some a \<Longrightarrow> yields R (f a)) \<Longrightarrow> yields R (case x of None \<Rightarrow> m | Some a \<Rightarrow> f a)"
  by (cases x) simp_all

lemma keeps_bind_yields:
  assumes "keeps P m" "yields R m" "\<And>a. R a \<Longrightarrow> keeps P (f a)"
  shows "keeps P (bindM m f)"
proof (rule keepsI)
  fix s :: sess
  assume "P (work s)" "P (durable s)"
  from wp_conj [OF keepsD [OF assms(1) this] assms(2) [unfolded yields_def, rule_format, of s]]
  show "wp (bindM m f) (\<lambda>_ t. P (work t) \<and> P (durable t)) (\<lambda>_ t. P (durable t)) s"
    unfolding wp_bind by (rule wp_mono) (use assms(3) in \<open>auto intro: keepsD\<close>)
qed

text \<open>A route handler's answer is not part of the state.\<close>

definition request :: "'a service \<Rightarrow> unit service" where
  "request m = thenM m (returnM ())"

lemma keeps_request: "keeps P m \<Longrightarrow> keeps P (request m)"
  unfolding request_def by (intro keeps_intros)

text \<open>A request made of kept steps leaves the durable state well-formed, also when it raises.\<close>

lemma run_request_keeps:
  assumes "keeps P m" "P (durable s)"
  shows "P (durable (snd (run_request m s)))"
proof -
  have "case run_request m s of (r, t) \<Rightarrow> P (durable t)"
    by (rule run_request_wp, rule wp_mono [OF keepsD [OF assms(1)]]) (use assms(2) in auto)
  then show ?thesis by (simp add: case_prod_unfold)
qed

text \<open>What every invariant of this development says of the shared tables: nothing.\<close>

locale table_invariant =
  fixes P :: "db \<Rightarrow> bool"
  assumes audit_free: "P d \<Longrightarrow> P (d\<lparr>audit_logs := a\<rparr>)"
    and sequence_free: "P d \<Longrightarrow> P (d\<lparr>sequences := q\<rparr>)"
    and timeline_free: "P d \<Longrightarrow> P (d\<lparr>timeline := t\<rparr>)"
begin

lemma audit_keeps: "keeps P (audit tenant act tgt details)"
  by (simp add: keeps_def wp_simps audit_free)

lemma audit_by_keeps: "keeps P (audit_by tenant user act tgt details)"
  by (simp add: keeps_def wp_simps audit_free)

lemma timeline_keeps: "keeps P (record_timeline_event tenant et ei ev title actor details)"
  by (simp add: keeps_def wp_simps timeline_free)

lemma next_value_keeps: "keeps P (next_value tenant entity)"
  unfolding next_value_def bump_sequence_def
  by (intro keeps_intros keeps_write) (auto simp: sequence_free)

end

end
