(* ===== verification/Inventory_Repository.thy ===== *)
theory Inventory_Repository
  imports Db_Session
begin

text \<open>
  \<open>InventoryRepository\<close> of \<open>core/features/inventory/repository.py\<close>, with the constraints that
  \<open>core/features/inventory/models\<close> declares on its tables. A level is the materialized sum of the
  immutable movement ledger; \<open>add_movement\<close> appends to the ledger and recomputes the level in the
  same transaction. An entity to be inserted carries a placeholder identifier, which the insert
  replaces by a fresh one.
\<close>

section \<open>Products\<close>

definition product_key :: "uuid \<Rightarrow> uuid \<Rightarrow> product \<Rightarrow> bool" where
  "product_key tenant pid p \<longleftrightarrow> p_tenant p = tenant \<and> p_id p = pid"

definition supplier_key :: "uuid \<Rightarrow> uuid \<Rightarrow> supplier \<Rightarrow> bool" where
  "supplier_key tenant sid s \<longleftrightarrow> s_tenant s = tenant \<and> s_id s = sid"

definition warehouse_key :: "uuid \<Rightarrow> uuid \<Rightarrow> warehouse \<Rightarrow> bool" where
  "warehouse_key tenant wid w \<longleftrightarrow> w_tenant w = tenant \<and> w_id w = wid"

text \<open>The table constraints of \<open>erp_products\<close>, for a written row.\<close>

definition product_constraints :: "product \<Rightarrow> (string \<times> (db \<Rightarrow> bool)) list" where
  "product_constraints p =
     [(''ck_erp_products_cost_price_non_negative'', \<lambda>_. 0 \<le> amount (p_cost p)),
      (''ck_erp_products_reorder_point_non_negative'', \<lambda>_. 0 \<le> p_reorder p),
      (''ck_erp_products_sell_price_non_negative'', \<lambda>_. 0 \<le> amount (p_sell p)),
      (''uq_erp_products_tenant_sku'', \<lambda>d. \<forall>q \<in> set (products d).
         p_tenant q = p_tenant p \<and> p_sku q = p_sku p \<longrightarrow> p_id q = p_id p),
      (''fk_erp_products_supplier_tenant'', \<lambda>d. case p_supplier p of None \<Rightarrow> True
         | Some sid \<Rightarrow> \<exists>s \<in> set (suppliers d). supplier_key (p_tenant p) sid s)]"

definition create_product_row :: "product \<Rightarrow> product service" where
  "create_product_row p = bindM fresh_id (\<lambda>i.
     let row = p\<lparr>p_id := i\<rparr> in
     thenM (check_all (product_constraints row))
       (thenM (writeM (\<lambda>d. d\<lparr>products := products d @ [row]\<rparr>)) (returnM row)))"

definition get_product :: "uuid \<Rightarrow> uuid \<Rightarrow> product option service" where
  "get_product pid tenant = readM (\<lambda>d. select_one (product_key tenant pid) (products d))"

definition get_product_by_sku :: "string \<Rightarrow> uuid \<Rightarrow> product option service" where
  "get_product_by_sku sku tenant =
     readM (\<lambda>d. select_one (\<lambda>p. p_tenant p = tenant \<and> p_sku p = sku) (products d))"

text \<open>Loading a product, changing attributes of the loaded object and flushing it.\<close>

definition change_product :: "(product \<Rightarrow> product) \<Rightarrow> uuid \<Rightarrow> uuid \<Rightarrow> product option service" where
  "change_product f pid tenant = bindM (get_product pid tenant) (\<lambda>found. case found of
     None \<Rightarrow> returnM None
   | Some p \<Rightarrow>
       thenM (check_all (product_constraints (f p)))
         (thenM (writeM (\<lambda>d. d\<lparr>products := update_where (product_key tenant pid) (\<lambda>_. f p) (products d)\<rparr>))
           (returnM (Some (f p)))))"

definition deactivate_product_row :: "uuid \<Rightarrow> uuid \<Rightarrow> product option service" where
  "deactivate_product_row = change_product (\<lambda>p. p\<lparr>p_active := False\<rparr>)"

definition reactivate_product_row :: "uuid \<Rightarrow> uuid \<Rightarrow> product option service" where
  "reactivate_product_row = change_product (\<lambda>p. p\<lparr>p_active := True\<rparr>)"

record product_patch =
  pp_sku :: "string patch"
  pp_name :: "string patch"
  pp_category :: "string option patch"
  pp_unit :: "string option patch"
  pp_cost :: "money patch"
  pp_sell :: "money patch"
  pp_reorder :: "decimal patch"
  pp_supplier :: "uuid option patch"

definition apply_product_patch :: "product_patch \<Rightarrow> product \<Rightarrow> product" where
  "apply_product_patch c p = p\<lparr>
     p_sku := patched (pp_sku c) (p_sku p),
     p_name := patched (pp_name c) (p_name p),
     p_category := patched (pp_category c) (p_category p),
     p_unit := patched (pp_unit c) (p_unit p),
     p_cost := patched (pp_cost c) (p_cost p),
     p_sell := patched (pp_sell c) (p_sell p),
     p_reorder := patched (pp_reorder c) (p_reorder p),
     p_supplier := patched (pp_supplier c) (p_supplier p)\<rparr>"

definition update_product_row :: "uuid \<Rightarrow> uuid \<Rightarrow> product_patch \<Rightarrow> product option service" where
  "update_product_row pid tenant c = change_product (apply_product_patch c) pid tenant"

text \<open>A category filter applies when it is a non-empty string.\<close>

definition product_filter :: "uuid \<Rightarrow> bool \<Rightarrow> string option \<Rightarrow> product \<Rightarrow> bool" where
  "product_filter tenant include_inactive category p \<longleftrightarrow>
     p_tenant p = tenant \<and> (include_inactive \<or> p_active p) \<and>
     (case category of None \<Rightarrow> True | Some c \<Rightarrow> c = [] \<or> p_category p = Some c)"

definition list_products :: "uuid \<Rightarrow> bool \<Rightarrow> string option \<Rightarrow> nat \<Rightarrow> nat \<Rightarrow> product list service" where
  "list_products tenant include_inactive category offset limit = readM (\<lambda>d.
     page offset limit (sort_key (\<lambda>p. collation d (p_sku p))
       (filter (product_filter tenant include_inactive category) (products d))))"

definition count_products :: "uuid \<Rightarrow> bool \<Rightarrow> string option \<Rightarrow> nat service" where
  "count_products tenant include_inactive category = readM (\<lambda>d.
     rows_matched (product_filter tenant include_inactive category) (products d))"

section \<open>Suppliers\<close>

definition supplier_constraints :: "supplier \<Rightarrow> (string \<times> (db \<Rightarrow> bool)) list" where
  "supplier_constraints s =
     [(''ck_erp_suppliers_lead_time_non_negative'', \<lambda>_. 0 \<le> s_lead_time s),
      (''uq_erp_suppliers_tenant_name'', \<lambda>d. \<forall>q \<in> set (suppliers d).
         s_tenant q = s_tenant s \<and> s_name q = s_name s \<longrightarrow> s_id q = s_id s)]"

definition create_supplier_row :: "supplier \<Rightarrow> supplier service" where
  "create_supplier_row x = bindM fresh_id (\<lambda>i.
     let row = x\<lparr>s_id := i\<rparr> in
     thenM (check_all (supplier_constraints row))
       (thenM (writeM (\<lambda>d. d\<lparr>suppliers := suppliers d @ [row]\<rparr>)) (returnM row)))"

definition get_supplier :: "uuid \<Rightarrow> uuid \<Rightarrow> supplier option service" where
  "get_supplier sid tenant = readM (\<lambda>d. select_one (supplier_key tenant sid) (suppliers d))"

definition get_supplier_by_name :: "string \<Rightarrow> uuid \<Rightarrow> supplier option service" where
  "get_supplier_by_name name tenant =
     readM (\<lambda>d. select_one (\<lambda>s. s_tenant s = tenant \<and> s_name s = name) (suppliers d))"

record supplier_patch =
  ps_name :: "string patch"
  ps_contact_name :: "string option patch"
  ps_contact_email :: "string option patch"
  ps_lead_time :: "int patch"
  ps_active :: "bool patch"

definition apply_supplier_patch :: "supplier_patch \<Rightarrow> supplier \<Rightarrow> supplier" where
  "apply_supplier_patch c x = x\<lparr>
     s_name := patched (ps_name c) (s_name x),
     s_contact_name := patched (ps_contact_name c) (s_contact_name x),
     s_contact_email := patched (ps_contact_email c) (s_contact_email x),
     s_lead_time := patched (ps_lead_time c) (s_lead_time x),
     s_active := patched (ps_active c) (s_active x)\<rparr>"

definition no_supplier_change :: supplier_patch where
  "no_supplier_change = \<lparr>ps_name = Unset, ps_contact_name = Unset, ps_contact_email = Unset,
     ps_lead_time = Unset, ps_active = Unset\<rparr>"

definition update_supplier_row :: "uuid \<Rightarrow> uuid \<Rightarrow> supplier_patch \<Rightarrow> supplier option service" where
  "update_supplier_row sid tenant c = bindM (get_supplier sid tenant) (\<lambda>found. case found of
     None \<Rightarrow> returnM None
   | Some x \<Rightarrow> let row = apply_supplier_patch c x in
       thenM (check_all (supplier_constraints row))
         (thenM (writeM (\<lambda>d. d\<lparr>suppliers := update_where (supplier_key tenant sid) (\<lambda>_. row) (suppliers d)\<rparr>))
           (returnM (Some row))))"

definition deactivate_supplier_row :: "uuid \<Rightarrow> uuid \<Rightarrow> supplier option service" where
  "deactivate_supplier_row sid tenant =
     update_supplier_row sid tenant (no_supplier_change\<lparr>ps_active := Set False\<rparr>)"

definition list_suppliers :: "uuid \<Rightarrow> bool \<Rightarrow> nat \<Rightarrow> nat \<Rightarrow> supplier list service" where
  "list_suppliers tenant include_inactive offset limit = readM (\<lambda>d.
     page offset limit (sort_key (\<lambda>s. collation d (s_name s))
       (filter (\<lambda>s. s_tenant s = tenant \<and> (include_inactive \<or> s_active s)) (suppliers d))))"

definition count_suppliers :: "uuid \<Rightarrow> bool \<Rightarrow> nat service" where
  "count_suppliers tenant include_inactive = readM (\<lambda>d.
     rows_matched (\<lambda>s. s_tenant s = tenant \<and> (include_inactive \<or> s_active s)) (suppliers d))"

definition performance_constraints ::
  "supplier_performance \<Rightarrow> (string \<times> (db \<Rightarrow> bool)) list" where
  "performance_constraints f =
     [(''ck_erp_supplier_performance_defect_range'', \<lambda>_. 0 \<le> sp_defect f \<and> sp_defect f \<le> 100),
      (''ck_erp_supplier_performance_otd_range'', \<lambda>_. 0 \<le> sp_on_time f \<and> sp_on_time f \<le> 100),
      (''ck_erp_supplier_performance_period_range'', \<lambda>_. sp_start f \<le> sp_end f),
      (''ck_erp_supplier_performance_price_range'', \<lambda>_. 0 \<le> sp_stability f \<and> sp_stability f \<le> 100),
      (''ck_erp_supplier_performance_responsiveness_non_negative'', \<lambda>_. 0 \<le> sp_response f),
      (''uq_erp_supplier_performance_period'', \<lambda>d. \<forall>q \<in> set (performances d).
         \<not> (sp_tenant q = sp_tenant f \<and> sp_supplier q = sp_supplier f \<and>
            sp_start q = sp_start f \<and> sp_end q = sp_end f)),
      (''fk_erp_supplier_performance_supplier_tenant'', \<lambda>d.
         \<exists>s \<in> set (suppliers d). supplier_key (sp_tenant f) (sp_supplier f) s)]"

definition add_supplier_performance_row :: "supplier_performance \<Rightarrow> supplier_performance service" where
  "add_supplier_performance_row f = bindM fresh_id (\<lambda>i.
     let row = f\<lparr>sp_id := i\<rparr> in
     thenM (check_all (performance_constraints row))
       (thenM (writeM (\<lambda>d. d\<lparr>performances := performances d @ [row]\<rparr>)) (returnM row)))"

definition list_supplier_performance_rows ::
  "uuid \<Rightarrow> uuid \<Rightarrow> nat \<Rightarrow> nat \<Rightarrow> supplier_performance list service" where
  "list_supplier_performance_rows sid tenant offset limit = readM (\<lambda>d.
     page offset limit (sort_key (\<lambda>f. - sp_start f)
       (filter (\<lambda>f. sp_tenant f = tenant \<and> sp_supplier f = sid) (performances d))))"

definition count_supplier_performance_rows :: "uuid \<Rightarrow> uuid \<Rightarrow> nat service" where
  "count_supplier_performance_rows sid tenant = readM (\<lambda>d.
     rows_matched (\<lambda>f. sp_tenant f = tenant \<and> sp_supplier f = sid) (performances d))"

section \<open>Warehouses\<close>

definition warehouse_constraints :: "warehouse \<Rightarrow> (string \<times> (db \<Rightarrow> bool)) list" where
  "warehouse_constraints w =
     [(''uq_erp_warehouses_tenant_name'', \<lambda>d. \<forall>q \<in> set (warehouses d).
         w_tenant q = w_tenant w \<and> w_name q = w_name w \<longrightarrow> w_id q = w_id w)]"

definition create_warehouse_row :: "warehouse \<Rightarrow> warehouse service" where
  "create_warehouse_row w = bindM fresh_id (\<lambda>i.
     let row = w\<lparr>w_id := i\<rparr> in
     thenM (check_all (warehouse_constraints row))
       (thenM (writeM (\<lambda>d. d\<lparr>warehouses := warehouses d @ [row]\<rparr>)) (returnM row)))"

definition get_warehouse :: "uuid \<Rightarrow> uuid \<Rightarrow> warehouse option service" where
  "get_warehouse wid tenant = readM (\<lambda>d. select_one (warehouse_key tenant wid) (warehouses d))"

definition change_warehouse ::
  "(warehouse \<Rightarrow> warehouse) \<Rightarrow> uuid \<Rightarrow> uuid \<Rightarrow> warehouse option service" where
  "change_warehouse f wid tenant = bindM (get_warehouse wid tenant) (\<lambda>found. case found of
     None \<Rightarrow> returnM None
   | Some w \<Rightarrow>
       thenM (check_all (warehouse_constraints (f w)))
         (thenM (writeM (\<lambda>d. d\<lparr>warehouses := update_where (warehouse_key tenant wid) (\<lambda>_. f w) (warehouses d)\<rparr>))
           (returnM (Some (f w)))))"

definition deactivate_warehouse_row :: "uuid \<Rightarrow> uuid \<Rightarrow> warehouse option service" where
  "deactivate_warehouse_row = change_warehouse (\<lambda>w. w\<lparr>w_active := False\<rparr>)"

definition reactivate_warehouse_row :: "uuid \<Rightarrow> uuid \<Rightarrow> warehouse option service" where
  "reactivate_warehouse_row = change_warehouse (\<lambda>w. w\<lparr>w_active := True\<rparr>)"

definition update_warehouse_row ::
  "uuid \<Rightarrow> uuid \<Rightarrow> string patch \<Rightarrow> string option patch \<Rightarrow> warehouse option service" where
  "update_warehouse_row wid tenant name location = change_warehouse (\<lambda>w. w\<lparr>
     w_name := patched name (w_name w), w_location := patched location (w_location w)\<rparr>) wid tenant"

definition list_warehouses :: "uuid \<Rightarrow> bool \<Rightarrow> nat \<Rightarrow> nat \<Rightarrow> warehouse list service" where
  "list_warehouses tenant include_inactive offset limit = readM (\<lambda>d.
     page offset limit (sort_key (\<lambda>w. collation d (w_name w))
       (filter (\<lambda>w. w_tenant w = tenant \<and> (include_inactive \<or> w_active w)) (warehouses d))))"

definition count_warehouses :: "uuid \<Rightarrow> bool \<Rightarrow> nat service" where
  "count_warehouses tenant include_inactive = readM (\<lambda>d.
     rows_matched (\<lambda>w. w_tenant w = tenant \<and> (include_inactive \<or> w_active w)) (warehouses d))"

section \<open>Stock levels\<close>

definition is_reservation :: "movement_type \<Rightarrow> bool" where
  "is_reservation t \<longleftrightarrow> t = RESERVATION \<or> t = RELEASE"

definition level_at :: "uuid \<Rightarrow> uuid \<Rightarrow> uuid \<Rightarrow> stock_level \<Rightarrow> bool" where
  "level_at tenant pid wid l \<longleftrightarrow> l_tenant l = tenant \<and> l_product l = pid \<and> l_warehouse l = wid"

definition movement_at :: "uuid \<Rightarrow> uuid \<Rightarrow> uuid \<Rightarrow> stock_movement \<Rightarrow> bool" where
  "movement_at tenant pid wid m \<longleftrightarrow> m_tenant m = tenant \<and> m_product m = pid \<and> m_warehouse m = wid"

text \<open>The two \<open>SUM(CASE ...)\<close> expressions over the ledger of one product in one warehouse.\<close>

definition ledger_on_hand :: "uuid \<Rightarrow> uuid \<Rightarrow> uuid \<Rightarrow> stock_movement list \<Rightarrow> decimal" where
  "ledger_on_hand tenant pid wid ms =
     sum_list (map (\<lambda>m. if \<not> is_reservation (m_type m) then m_qty m else 0)
       (filter (movement_at tenant pid wid) ms))"

definition ledger_reserved :: "uuid \<Rightarrow> uuid \<Rightarrow> uuid \<Rightarrow> stock_movement list \<Rightarrow> decimal" where
  "ledger_reserved tenant pid wid ms =
     sum_list (map (\<lambda>m. if is_reservation (m_type m) then m_qty m else 0)
       (filter (movement_at tenant pid wid) ms))"

definition get_stock_level :: "uuid \<Rightarrow> uuid \<Rightarrow> uuid \<Rightarrow> stock_level option service" where
  "get_stock_level pid wid tenant = readM (\<lambda>d. select_one (level_at tenant pid wid) (levels d))"

text \<open>The \<open>CHECK\<close> constraints of \<open>erp_stock_levels\<close>.\<close>

definition level_constraints :: "decimal \<Rightarrow> decimal \<Rightarrow> (string \<times> (db \<Rightarrow> bool)) list" where
  "level_constraints on_hand reserved =
     [(''ck_erp_stock_levels_on_hand_non_negative'', \<lambda>_. 0 \<le> on_hand),
      (''ck_erp_stock_levels_reserved_range'', \<lambda>_. 0 \<le> reserved \<and> reserved \<le> on_hand)]"

definition level_foreign_keys :: "string \<Rightarrow> uuid \<Rightarrow> uuid \<Rightarrow> uuid \<Rightarrow> (string \<times> (db \<Rightarrow> bool)) list" where
  "level_foreign_keys prefix tenant pid wid =
     [(prefix @ ''_product_tenant'', \<lambda>d. \<exists>p \<in> set (products d). product_key tenant pid p),
      (prefix @ ''_warehouse_tenant'', \<lambda>d. \<exists>w \<in> set (warehouses d). warehouse_key tenant wid w)]"

definition recompute_stock_level :: "uuid \<Rightarrow> uuid \<Rightarrow> uuid \<Rightarrow> stock_level service" where
  "recompute_stock_level pid wid tenant =
     bindM (readM (\<lambda>d. ledger_on_hand tenant pid wid (movements d))) (\<lambda>on_hand.
     bindM (readM (\<lambda>d. ledger_reserved tenant pid wid (movements d))) (\<lambda>reserved.
     bindM (get_stock_level pid wid tenant) (\<lambda>found. case found of
       None \<Rightarrow> bindM fresh_id (\<lambda>i.
         let row = \<lparr>l_id = i, l_tenant = tenant, l_product = pid, l_warehouse = wid,
                    l_on_hand = on_hand, l_reserved = reserved\<rparr> in
         thenM (check_all (level_constraints on_hand reserved @
                  level_foreign_keys ''fk_erp_stock_levels'' tenant pid wid))
           (thenM (writeM (\<lambda>d. d\<lparr>levels := levels d @ [row]\<rparr>)) (returnM row)))
     | Some l \<Rightarrow>
         let row = l\<lparr>l_on_hand := on_hand, l_reserved := reserved\<rparr> in
         thenM (check_all (level_constraints on_hand reserved))
           (thenM (writeM (\<lambda>d. d\<lparr>levels := update_where (level_at tenant pid wid) (\<lambda>_. row) (levels d)\<rparr>))
             (returnM row)))))"

definition level_filter :: "uuid \<Rightarrow> uuid option \<Rightarrow> uuid option \<Rightarrow> stock_level \<Rightarrow> bool" where
  "level_filter tenant pid wid l \<longleftrightarrow> l_tenant l = tenant \<and>
     (case pid of None \<Rightarrow> True | Some i \<Rightarrow> l_product l = i) \<and>
     (case wid of None \<Rightarrow> True | Some i \<Rightarrow> l_warehouse l = i)"

definition list_stock_levels ::
  "uuid \<Rightarrow> uuid option \<Rightarrow> uuid option \<Rightarrow> nat \<Rightarrow> nat \<Rightarrow> stock_level list service" where
  "list_stock_levels tenant pid wid offset limit = readM (\<lambda>d.
     page offset limit (sort_key (\<lambda>l. [l_product l, l_warehouse l])
       (filter (level_filter tenant pid wid) (levels d))))"

definition count_stock_levels :: "uuid \<Rightarrow> uuid option \<Rightarrow> uuid option \<Rightarrow> nat service" where
  "count_stock_levels tenant pid wid = readM (\<lambda>d. rows_matched (level_filter tenant pid wid) (levels d))"

definition sum_levels :: "(stock_level \<Rightarrow> bool) \<Rightarrow> db \<Rightarrow> decimal \<times> decimal" where
  "sum_levels P d = (let ls = filter P (levels d) in
     (sum_list (map l_on_hand ls), sum_list (map l_reserved ls)))"

definition sum_stock_by_product :: "uuid \<Rightarrow> uuid \<Rightarrow> (decimal \<times> decimal) service" where
  "sum_stock_by_product pid tenant =
     readM (sum_levels (\<lambda>l. l_tenant l = tenant \<and> l_product l = pid))"

definition sum_stock_by_warehouse :: "uuid \<Rightarrow> uuid \<Rightarrow> (decimal \<times> decimal) service" where
  "sum_stock_by_warehouse wid tenant =
     readM (sum_levels (\<lambda>l. l_tenant l = tenant \<and> l_warehouse l = wid))"

text \<open>The join of the levels at or below the reorder point with their active products.\<close>

definition low_stock_rows :: "uuid \<Rightarrow> db \<Rightarrow> (stock_level \<times> product) list" where
  "low_stock_rows tenant d = concat (map (\<lambda>l. map (\<lambda>p. (l, p))
     (filter (\<lambda>p. product_key (l_tenant l) (l_product l) p \<and> p_active p \<and> l_on_hand l \<le> p_reorder p)
       (products d)))
     (filter (\<lambda>l. l_tenant l = tenant) (levels d)))"

definition list_low_stock :: "uuid \<Rightarrow> nat \<Rightarrow> nat \<Rightarrow> (stock_level \<times> product) list service" where
  "list_low_stock tenant offset limit =
     readM (\<lambda>d. page offset limit (sort_key (\<lambda>x. l_on_hand (fst x)) (low_stock_rows tenant d)))"

definition count_low_stock :: "uuid \<Rightarrow> nat service" where
  "count_low_stock tenant = readM (\<lambda>d. length (low_stock_rows tenant d))"

section \<open>Guarded reservation updates\<close>

text \<open>
  One conditional \<open>UPDATE\<close> of the reserved quantity: the rows of the key that satisfy the guard
  are rewritten, the table's \<open>CHECK\<close>s are evaluated on them, and the row count is the answer.
\<close>

definition guarded_update ::
  "(stock_level \<Rightarrow> bool) \<Rightarrow> (stock_level \<Rightarrow> decimal) \<Rightarrow> bool service" where
  "guarded_update guard reserved =
     bindM (readM (\<lambda>d. rows_matched guard (levels d))) (\<lambda>rowcount.
     thenM (check_constraint ''ck_erp_stock_levels_reserved_range'' (\<lambda>d. \<forall>l \<in> set (levels d).
         guard l \<longrightarrow> 0 \<le> reserved l \<and> reserved l \<le> l_on_hand l))
       (thenM (writeM (\<lambda>d. d\<lparr>levels := update_where guard (\<lambda>l. l\<lparr>l_reserved := reserved l\<rparr>) (levels d)\<rparr>))
         (returnM (0 < rowcount))))"

definition apply_reservation_qty :: "uuid \<Rightarrow> uuid \<Rightarrow> decimal \<Rightarrow> uuid \<Rightarrow> bool service" where
  "apply_reservation_qty pid wid qty tenant =
     guarded_update (\<lambda>l. level_at tenant pid wid l \<and> l_reserved l + qty \<le> l_on_hand l)
       (\<lambda>l. l_reserved l + qty)"

definition apply_release_qty :: "uuid \<Rightarrow> uuid \<Rightarrow> decimal \<Rightarrow> uuid \<Rightarrow> bool service" where
  "apply_release_qty pid wid qty tenant =
     guarded_update (\<lambda>l. level_at tenant pid wid l \<and> 0 \<le> l_reserved l - qty)
       (\<lambda>l. l_reserved l - qty)"

definition apply_consume_qty :: "uuid \<Rightarrow> uuid \<Rightarrow> decimal \<Rightarrow> uuid \<Rightarrow> bool service" where
  "apply_consume_qty pid wid qty tenant = apply_release_qty pid wid qty tenant"

section \<open>Movements\<close>

definition movement_ref :: "uuid \<Rightarrow> string \<Rightarrow> string \<Rightarrow> uuid \<Rightarrow> uuid \<Rightarrow> stock_movement \<Rightarrow> bool" where
  "movement_ref tenant ref_type ref_id wid pid m \<longleftrightarrow>
     m_tenant m = tenant \<and> m_ref_type m = ref_type \<and> m_ref_id m = ref_id \<and>
     m_warehouse m = wid \<and> m_product m = pid"

definition movement_key :: "stock_movement \<Rightarrow> uuid \<times> string \<times> string \<times> uuid \<times> uuid" where
  "movement_key m = (m_tenant m, m_ref_type m, m_ref_id m, m_warehouse m, m_product m)"

text \<open>
  \<open>INSERT ... ON CONFLICT DO NOTHING RETURNING\<close>, then the recomputation. A conflict on the
  idempotency key returns no row, which is the exception.
\<close>

definition add_movement :: "stock_movement \<Rightarrow> stock_movement service" where
  "add_movement movement =
     bindM fresh_id (\<lambda>i. bindM (getsM (\<lambda>s. instant (clk s))) (\<lambda>now.
       let row = movement\<lparr>m_id := i, m_created := now\<rparr> in
       thenM (check_all [(''ck_erp_stock_movements_qty_nonzero'', \<lambda>_. m_qty row \<noteq> 0)])
       (bindM (readM (\<lambda>d. \<exists>m \<in> set (movements d). movement_key m = movement_key row)) (\<lambda>conflict.
         if conflict then raiseM MovementImmutableError else
         thenM (check_all (level_foreign_keys ''fk_erp_stock_movements''
                  (m_tenant row) (m_product row) (m_warehouse row)))
         (thenM (writeM (\<lambda>d. d\<lparr>movements := movements d @ [row]\<rparr>))
         (thenM (recompute_stock_level (m_product row) (m_warehouse row) (m_tenant row))
           (returnM row)))))))"

definition get_movement_by_ref ::
  "string \<Rightarrow> string \<Rightarrow> uuid \<Rightarrow> uuid \<Rightarrow> uuid \<Rightarrow> stock_movement option service" where
  "get_movement_by_ref ref_type ref_id wid tenant pid =
     readM (\<lambda>d. select_one (movement_ref tenant ref_type ref_id wid pid) (movements d))"

definition movement_filter ::
  "uuid \<Rightarrow> uuid option \<Rightarrow> uuid option \<Rightarrow> movement_type option \<Rightarrow> stock_movement \<Rightarrow> bool" where
  "movement_filter tenant pid wid mtype m \<longleftrightarrow> m_tenant m = tenant \<and>
     (case pid of None \<Rightarrow> True | Some i \<Rightarrow> m_product m = i) \<and>
     (case wid of None \<Rightarrow> True | Some i \<Rightarrow> m_warehouse m = i) \<and>
     (case mtype of None \<Rightarrow> True | Some t \<Rightarrow> m_type m = t)"

definition list_movements ::
  "uuid \<Rightarrow> uuid option \<Rightarrow> uuid option \<Rightarrow> movement_type option \<Rightarrow> nat \<Rightarrow> nat \<Rightarrow> stock_movement list service" where
  "list_movements tenant pid wid mtype offset limit = readM (\<lambda>d.
     page offset limit (sort_key (\<lambda>m. - m_created m)
       (filter (movement_filter tenant pid wid mtype) (movements d))))"

definition count_movements ::
  "uuid \<Rightarrow> uuid option \<Rightarrow> uuid option \<Rightarrow> movement_type option \<Rightarrow> nat service" where
  "count_movements tenant pid wid mtype =
     readM (\<lambda>d. rows_matched (movement_filter tenant pid wid mtype) (movements d))"

end
