(* ===== verification/Inventory_Service.thy ===== *)
theory Inventory_Service
  imports Inventory_Repository
begin

text \<open>
  \<open>InventoryService\<close> of \<open>core/features/inventory/service.py\<close> and the event emitters of
  \<open>core/features/inventory/events/producers\<close>. Every mutating method does its checks and ledger
  writes in the open transaction, commits, and only then writes audit rows and publishes events.
\<close>

section \<open>Events\<close>

definition emit_stock_level_changed ::
  "uuid \<Rightarrow> uuid \<Rightarrow> uuid \<Rightarrow> decimal \<Rightarrow> decimal \<Rightarrow> bool \<Rightarrow> unit service" where
  "emit_stock_level_changed tenant pid wid on_hand reorder crossed = publish
     \<lparr>ev_topic = ''inventory.stock.level_changed'', ev_tenant = tenant,
      ev_payload = [(''product_id'', PId pid), (''warehouse_id'', PId wid),
        (''qty_on_hand'', PDec on_hand), (''reorder_point'', PDec reorder),
        (''breach_crossed'', PBool crossed)]\<rparr>"

definition emit_inventory_product_upserted :: "uuid \<Rightarrow> product \<Rightarrow> unit service" where
  "emit_inventory_product_upserted tenant p = publish
     \<lparr>ev_topic = ''inventory.product.upserted'', ev_tenant = tenant,
      ev_payload = [(''product_id'', PId (p_id p)), (''sku'', PStr (p_sku p)),
        (''name'', PStr (p_name p)), (''category'', opt_str (p_category p)),
        (''unit'', opt_str (p_unit p))]\<rparr>"

definition emit_inventory_product_removed :: "uuid \<Rightarrow> uuid \<Rightarrow> unit service" where
  "emit_inventory_product_removed tenant pid = publish
     \<lparr>ev_topic = ''inventory.product.removed'', ev_tenant = tenant,
      ev_payload = [(''product_id'', PId pid)]\<rparr>"

section \<open>Shared helpers\<close>

definition blank :: "string \<Rightarrow> bool" where
  "blank s \<longleftrightarrow> strip s = []"

definition step_ref :: "string \<Rightarrow> string \<Rightarrow> string" where
  "step_ref ref_id step = ref_id @ '':'' @ step"

definition reject_replay :: "string \<Rightarrow> string \<Rightarrow> uuid \<Rightarrow> uuid \<Rightarrow> uuid \<Rightarrow> unit service" where
  "reject_replay ref_type ref_id wid tenant pid =
     bindM (get_movement_by_ref ref_type ref_id wid tenant pid)
       (\<lambda>existing. requireM (existing = None) MovementImmutableError)"

definition require_product :: "uuid \<Rightarrow> uuid \<Rightarrow> product service" where
  "require_product pid tenant =
     bindM (get_product pid tenant) (the_or_raise (NotFoundError ''Product''))"

definition require_active_product :: "uuid \<Rightarrow> uuid \<Rightarrow> product service" where
  "require_active_product pid tenant = bindM (require_product pid tenant)
     (\<lambda>p. thenM (requireM (p_active p) (InactiveItemError ''Product'')) (returnM p))"

definition require_warehouse :: "uuid \<Rightarrow> uuid \<Rightarrow> warehouse service" where
  "require_warehouse wid tenant =
     bindM (get_warehouse wid tenant) (the_or_raise (NotFoundError ''Warehouse''))"

definition require_active_warehouse :: "uuid \<Rightarrow> uuid \<Rightarrow> warehouse service" where
  "require_active_warehouse wid tenant = bindM (require_warehouse wid tenant)
     (\<lambda>w. thenM (requireM (w_active w) (InactiveItemError ''Warehouse'')) (returnM w))"

definition current_on_hand :: "uuid \<Rightarrow> uuid \<Rightarrow> uuid \<Rightarrow> decimal service" where
  "current_on_hand pid wid tenant = bindM (get_stock_level pid wid tenant)
     (\<lambda>l. returnM (case l of None \<Rightarrow> 0 | Some r \<Rightarrow> l_on_hand r))"

definition current_reserved :: "uuid \<Rightarrow> uuid \<Rightarrow> uuid \<Rightarrow> decimal service" where
  "current_reserved pid wid tenant = bindM (get_stock_level pid wid tenant)
     (\<lambda>l. returnM (case l of None \<Rightarrow> 0 | Some r \<Rightarrow> l_reserved r))"

definition assert_non_negative :: "decimal \<Rightarrow> unit service" where
  "assert_non_negative v = requireM (\<not> v < 0) InsufficientStockError"

definition breach_crossed :: "decimal \<Rightarrow> decimal \<Rightarrow> decimal \<Rightarrow> bool" where
  "breach_crossed reorder before after \<longleftrightarrow> before > reorder \<and> after \<le> reorder"

definition emit_level_changed ::
  "uuid \<Rightarrow> product \<Rightarrow> uuid \<Rightarrow> decimal \<Rightarrow> decimal \<Rightarrow> unit service" where
  "emit_level_changed tenant product wid before after =
     (let crossed = breach_crossed (p_reorder product) before after in
      thenM (emit_stock_level_changed tenant (p_id product) wid after (p_reorder product) crossed)
        (if crossed then audit tenant ''inventory.stock.reorder_alerted'' (target ''product'' (p_id product))
           (Some [(''product_id'', PId (p_id product)), (''warehouse_id'', PId wid),
             (''qty_on_hand'', PDec after), (''reorder_point'', PDec (p_reorder product))])
         else returnM ()))"

section \<open>Products and warehouses\<close>

definition create_product ::
  "string \<Rightarrow> uuid \<Rightarrow> string \<Rightarrow> string \<Rightarrow> string option \<Rightarrow> string option \<Rightarrow> money option \<Rightarrow>
   money option \<Rightarrow> decimal \<Rightarrow> product service" where
  "create_product default_currency tenant sku name category unit cost sell reorder =
     thenM (requireM (\<not> blank sku) (ValidationError ''Product SKU is required''))
    (thenM (requireM (\<not> blank name) (ValidationError ''Product name is required''))
    (thenM (requireM (\<not> reorder < 0) (ValidationError ''Reorder point cannot be negative''))
    (bindM (get_product_by_sku sku tenant) (\<lambda>existing.
     thenM (requireM (existing = None) DuplicateSkuError)
    (bindM (case cost of Some m \<Rightarrow> returnM m | None \<Rightarrow> resultM (money_zero default_currency)) (\<lambda>cost_price.
     bindM (case sell of Some m \<Rightarrow> returnM m | None \<Rightarrow> resultM (money_zero default_currency)) (\<lambda>sell_price.
     bindM (create_product_row \<lparr>p_id = 0, p_tenant = tenant, p_sku = sku, p_name = name,
         p_category = category, p_unit = unit, p_cost = cost_price, p_sell = sell_price,
         p_reorder = reorder, p_active = True, p_supplier = None\<rparr>) (\<lambda>created.
     thenM commit
    (thenM (audit tenant ''inventory.product.created'' (target ''product'' (p_id created))
        (Some [(''sku'', PStr sku), (''name'', PStr name)]))
    (thenM (emit_inventory_product_upserted tenant created)
    (returnM created)))))))))))"

definition create_warehouse :: "uuid \<Rightarrow> string \<Rightarrow> string option \<Rightarrow> warehouse service" where
  "create_warehouse tenant name location =
     thenM (requireM (\<not> blank name) (ValidationError ''Warehouse name is required''))
    (bindM (create_warehouse_row \<lparr>w_id = 0, w_tenant = tenant, w_name = name,
        w_location = location, w_active = True\<rparr>) (\<lambda>created.
     thenM commit
    (thenM (audit tenant ''inventory.warehouse.created'' (target ''warehouse'' (w_id created))
        (Some [(''name'', PStr name)]))
    (returnM created))))"

section \<open>Suppliers\<close>

definition create_supplier ::
  "uuid \<Rightarrow> string \<Rightarrow> int \<Rightarrow> string option \<Rightarrow> string option \<Rightarrow> supplier service" where
  "create_supplier tenant name lead_time_days contact_name contact_email =
     thenM (requireM (\<not> blank name) (ValidationError ''Supplier name is required''))
    (thenM (requireM (\<not> lead_time_days < 0) (ValidationError ''Supplier lead time cannot be negative''))
    (bindM (get_supplier_by_name name tenant) (\<lambda>existing.
     thenM (requireM (existing = None) (ValidationError ''Supplier already exists''))
    (bindM (create_supplier_row \<lparr>s_id = 0, s_tenant = tenant, s_name = name,
        s_lead_time = lead_time_days, s_contact_name = contact_name,
        s_contact_email = contact_email, s_active = True\<rparr>) (\<lambda>created.
     thenM commit
    (thenM (audit tenant ''inventory.supplier.created'' (target ''supplier'' (s_id created))
        (Some [(''name'', PStr name), (''lead_time_days'', PInt lead_time_days)]))
    (returnM created)))))))"

definition update_supplier ::
  "uuid \<Rightarrow> uuid \<Rightarrow> string patch \<Rightarrow> string option patch \<Rightarrow> string option patch \<Rightarrow> int patch \<Rightarrow>
   supplier service" where
  "update_supplier tenant sid name contact_name contact_email lead_time_days =
     thenM (requireM (case name of Unset \<Rightarrow> True | Set n \<Rightarrow> \<not> blank n)
        (ValidationError ''Supplier name is required''))
    (thenM (requireM (case lead_time_days of Unset \<Rightarrow> True | Set n \<Rightarrow> \<not> n < 0)
        (ValidationError ''Supplier lead time cannot be negative''))
    (thenM (case name of Unset \<Rightarrow> returnM ()
        | Set n \<Rightarrow> bindM (get_supplier_by_name n tenant) (\<lambda>clash. requireM
            (case clash of None \<Rightarrow> True | Some c \<Rightarrow> s_id c = sid)
            (ValidationError ''Supplier already exists'')))
    (bindM (update_supplier_row sid tenant \<lparr>ps_name = name, ps_contact_name = contact_name,
        ps_contact_email = contact_email, ps_lead_time = lead_time_days, ps_active = Unset\<rparr>) (\<lambda>found.
     bindM (the_or_raise (NotFoundError ''Supplier'') found) (\<lambda>updated.
     thenM commit
    (thenM (audit tenant ''inventory.supplier.updated'' (target ''supplier'' (s_id updated))
        (Some [(''name'', PStr (s_name updated))]))
    (returnM updated)))))))"

definition require_supplier :: "uuid \<Rightarrow> uuid \<Rightarrow> supplier service" where
  "require_supplier sid tenant =
     bindM (get_supplier sid tenant) (the_or_raise (NotFoundError ''Supplier''))"

definition deactivate_supplier :: "uuid \<Rightarrow> uuid \<Rightarrow> supplier service" where
  "deactivate_supplier tenant sid =
     thenM (require_supplier sid tenant)
    (bindM (bindM (deactivate_supplier_row sid tenant) (the_or_raise AssertionError)) (\<lambda>updated.
     thenM commit
    (thenM (audit tenant ''inventory.supplier.deactivated'' (target ''supplier'' sid) None)
    (returnM updated))))"

definition reactivate_supplier :: "uuid \<Rightarrow> uuid \<Rightarrow> supplier service" where
  "reactivate_supplier tenant sid =
     thenM (require_supplier sid tenant)
    (bindM (bindM (update_supplier_row sid tenant (no_supplier_change\<lparr>ps_active := Set True\<rparr>))
        (the_or_raise AssertionError)) (\<lambda>updated.
     thenM commit
    (thenM (audit tenant ''inventory.supplier.updated'' (target ''supplier'' sid)
        (Some [(''reactivated'', PBool True)]))
    (returnM updated))))"

definition within_percent :: "decimal \<Rightarrow> bool" where
  "within_percent v \<longleftrightarrow> 0 \<le> v \<and> v \<le> 100"

definition add_supplier_performance ::
  "uuid \<Rightarrow> uuid \<Rightarrow> date \<Rightarrow> date \<Rightarrow> decimal \<Rightarrow> decimal \<Rightarrow> decimal \<Rightarrow> decimal \<Rightarrow>
   supplier_performance service" where
  "add_supplier_performance tenant sid period_start period_end on_time defect stability response =
     thenM (require_supplier sid tenant)
    (thenM (requireM (\<not> period_end < period_start)
        (ValidationError ''Performance period end is before its start''))
    (thenM (requireM (within_percent on_time) (ValidationError ''On-time delivery % must be within 0-100''))
    (thenM (requireM (within_percent defect) (ValidationError ''Defect rate % must be within 0-100''))
    (thenM (requireM (within_percent stability) (ValidationError ''Price stability index must be within 0-100''))
    (thenM (requireM (\<not> response < 0) (ValidationError ''Responsiveness cannot be negative''))
    (bindM (add_supplier_performance_row \<lparr>sp_id = 0, sp_tenant = tenant, sp_supplier = sid,
        sp_start = period_start, sp_end = period_end, sp_on_time = on_time, sp_defect = defect,
        sp_stability = stability, sp_response = response\<rparr>) (\<lambda>added.
     thenM commit
    (thenM (audit tenant ''inventory.supplier.performance_added'' (target ''supplier'' sid)
        (Some [(''period_start'', PDate period_start), (''period_end'', PDate period_end)]))
    (returnM added)))))))))"

definition list_supplier_performance ::
  "uuid \<Rightarrow> uuid \<Rightarrow> nat \<Rightarrow> nat \<Rightarrow> supplier_performance list service" where
  "list_supplier_performance tenant sid offset limit =
     thenM (require_supplier sid tenant) (list_supplier_performance_rows sid tenant offset limit)"

section \<open>Changes of products and warehouses\<close>

definition update_product :: "uuid \<Rightarrow> uuid \<Rightarrow> product_patch \<Rightarrow> product service" where
  "update_product tenant pid c =
     thenM (requireM (case pp_sku c of Unset \<Rightarrow> True | Set x \<Rightarrow> \<not> blank x)
        (ValidationError ''Product SKU is required''))
    (thenM (requireM (case pp_name c of Unset \<Rightarrow> True | Set x \<Rightarrow> \<not> blank x)
        (ValidationError ''Product name is required''))
    (thenM (requireM (case pp_reorder c of Unset \<Rightarrow> True | Set x \<Rightarrow> \<not> x < 0)
        (ValidationError ''Reorder point cannot be negative''))
    (thenM (case pp_supplier c of
          Set (Some sid) \<Rightarrow> bindM (get_supplier sid tenant)
            (\<lambda>x. requireM (x \<noteq> None) (NotFoundError ''Supplier''))
        | _ \<Rightarrow> returnM ())
    (thenM (bindM (get_product pid tenant) (\<lambda>x. requireM (x \<noteq> None) (NotFoundError ''Product'')))
    (thenM (case pp_sku c of Unset \<Rightarrow> returnM ()
        | Set sku \<Rightarrow> bindM (get_product_by_sku sku tenant) (\<lambda>clash. requireM
            (case clash of None \<Rightarrow> True | Some q \<Rightarrow> p_id q = pid) DuplicateSkuError))
    (bindM (bindM (update_product_row pid tenant c) (the_or_raise AssertionError)) (\<lambda>updated.
     thenM commit
    (thenM (audit tenant ''inventory.product.updated'' (target ''product'' pid)
        (Some [(''sku'', PStr (p_sku updated)), (''name'', PStr (p_name updated))]))
    (thenM (emit_inventory_product_upserted tenant updated)
    (returnM updated))))))))))"

definition update_warehouse ::
  "uuid \<Rightarrow> uuid \<Rightarrow> string patch \<Rightarrow> string option patch \<Rightarrow> warehouse service" where
  "update_warehouse tenant wid name location =
     thenM (requireM (case name of Unset \<Rightarrow> True | Set x \<Rightarrow> \<not> blank x)
        (ValidationError ''Warehouse name is required''))
    (thenM (require_warehouse wid tenant)
    (bindM (bindM (update_warehouse_row wid tenant name location) (the_or_raise AssertionError)) (\<lambda>updated.
     thenM commit
    (thenM (audit tenant ''inventory.warehouse.updated'' (target ''warehouse'' wid)
        (Some [(''name'', PStr (w_name updated))]))
    (returnM updated)))))"

definition deactivate_product :: "uuid \<Rightarrow> uuid \<Rightarrow> product service" where
  "deactivate_product tenant pid =
     bindM (require_product pid tenant) (\<lambda>product.
     bindM (sum_stock_by_product pid tenant) (\<lambda>qtys. case qtys of (on_hand, reserved) \<Rightarrow>
     thenM (requireM (\<not> reserved > 0) (StockReservedError ''Cannot deactivate product''))
    (bindM (bindM (deactivate_product_row pid tenant) (the_or_raise AssertionError)) (\<lambda>deactivated.
     thenM commit
    (thenM (audit tenant ''inventory.product.deactivated'' (target ''product'' pid)
        (Some [(''sku'', PStr (p_sku product)), (''name'', PStr (p_name product)),
          (''on_hand_qty'', PDec on_hand), (''reserved_qty'', PDec reserved)]))
    (thenM (emit_inventory_product_removed tenant pid)
    (returnM deactivated)))))))"

definition reactivate_product :: "uuid \<Rightarrow> uuid \<Rightarrow> product service" where
  "reactivate_product tenant pid =
     bindM (bindM (reactivate_product_row pid tenant) (the_or_raise (NotFoundError ''Product''))) (\<lambda>reactivated.
     thenM commit
    (thenM (audit tenant ''inventory.product.reactivated'' (target ''product'' pid)
        (Some [(''sku'', PStr (p_sku reactivated)), (''name'', PStr (p_name reactivated))]))
    (thenM (emit_inventory_product_upserted tenant reactivated)
    (returnM reactivated))))"

definition deactivate_warehouse :: "uuid \<Rightarrow> uuid \<Rightarrow> warehouse service" where
  "deactivate_warehouse tenant wid =
     bindM (require_warehouse wid tenant) (\<lambda>warehouse.
     bindM (sum_stock_by_warehouse wid tenant) (\<lambda>qtys. case qtys of (on_hand, reserved) \<Rightarrow>
     thenM (requireM (\<not> reserved > 0) (StockReservedError ''Cannot deactivate warehouse''))
    (bindM (bindM (deactivate_warehouse_row wid tenant) (the_or_raise AssertionError)) (\<lambda>deactivated.
     thenM commit
    (thenM (audit tenant ''inventory.warehouse.deactivated'' (target ''warehouse'' wid)
        (Some [(''name'', PStr (w_name warehouse)), (''on_hand_qty'', PDec on_hand),
          (''reserved_qty'', PDec reserved)]))
    (returnM deactivated))))))"

definition reactivate_warehouse :: "uuid \<Rightarrow> uuid \<Rightarrow> warehouse service" where
  "reactivate_warehouse tenant wid =
     bindM (bindM (reactivate_warehouse_row wid tenant) (the_or_raise (NotFoundError ''Warehouse''))) (\<lambda>reactivated.
     thenM commit
    (thenM (audit tenant ''inventory.warehouse.reactivated'' (target ''warehouse'' wid)
        (Some [(''name'', PStr (w_name reactivated))]))
    (returnM reactivated)))"

section \<open>Adjustments and transfers\<close>

text \<open>A ledger row to be inserted: its identifier and time are set by the insert.\<close>

definition movement ::
  "uuid \<Rightarrow> uuid \<Rightarrow> uuid \<Rightarrow> movement_type \<Rightarrow> decimal \<Rightarrow> string \<Rightarrow> string \<Rightarrow> stock_movement" where
  "movement tenant pid wid mtype qty ref_type ref_id =
     \<lparr>m_id = 0, m_tenant = tenant, m_product = pid, m_warehouse = wid, m_type = mtype,
      m_qty = qty, m_ref_type = ref_type, m_ref_id = ref_id, m_created = 0\<rparr>"

definition adjust_stock ::
  "decimal \<Rightarrow> uuid \<Rightarrow> uuid \<Rightarrow> uuid \<Rightarrow> decimal \<Rightarrow> string \<Rightarrow> string \<Rightarrow> bool \<Rightarrow> stock_movement service" where
  "adjust_stock approve_threshold tenant pid wid qty reason ref_id approved =
     thenM (requireM (qty \<noteq> 0) (ValidationError ''Adjustment quantity must be non-zero''))
    (thenM (requireM (\<not> blank reason) (ValidationError ''Adjustment requires a reason''))
    (thenM (requireM (\<not> (\<bar>qty\<bar> > approve_threshold \<and> \<not> approved))
        (PermissionDeniedError ''Adjustment exceeds the approval threshold''))
    (thenM (reject_replay ''adjustment'' ref_id wid tenant pid)
    (bindM (require_product pid tenant) (\<lambda>product.
     thenM (require_warehouse wid tenant)
    (bindM (current_on_hand pid wid tenant) (\<lambda>before.
     thenM (assert_non_negative (before + qty))
    (bindM (add_movement (movement tenant pid wid ADJUSTMENT qty ''adjustment'' ref_id)) (\<lambda>created.
     thenM commit
    (thenM (audit tenant ''inventory.stock.adjusted'' (target ''stock_movement'' (m_id created))
        (Some [(''product_id'', PId pid), (''warehouse_id'', PId wid), (''qty'', PDec qty),
          (''reason'', PStr reason), (''ref_id'', PStr ref_id)]))
    (thenM (emit_level_changed tenant product wid before (before + qty))
    (returnM created))))))))))))"

definition transfer_stock ::
  "uuid \<Rightarrow> uuid \<Rightarrow> uuid \<Rightarrow> uuid \<Rightarrow> decimal \<Rightarrow> string \<Rightarrow> (stock_movement \<times> stock_movement) service" where
  "transfer_stock tenant pid from_wid to_wid qty ref_id =
     thenM (requireM (from_wid \<noteq> to_wid) TransferRequiresDistinctWarehousesError)
    (thenM (requireM (\<not> qty \<le> 0) (ValidationError ''Transfer quantity must be positive''))
    (thenM (reject_replay ''transfer'' ref_id from_wid tenant pid)
    (bindM (require_active_product pid tenant) (\<lambda>product.
     thenM (require_active_warehouse from_wid tenant)
    (thenM (require_active_warehouse to_wid tenant)
    (bindM (current_on_hand pid from_wid tenant) (\<lambda>from_before.
     bindM (current_on_hand pid to_wid tenant) (\<lambda>to_before.
     thenM (assert_non_negative (from_before - qty))
    (bindM (add_movement (movement tenant pid from_wid TRANSFER (- qty) ''transfer'' ref_id)) (\<lambda>out_movement.
     bindM (add_movement (movement tenant pid to_wid TRANSFER qty ''transfer'' ref_id)) (\<lambda>in_movement.
     thenM commit
    (thenM (audit tenant ''inventory.stock.transferred'' (target ''stock_movement'' (m_id out_movement))
        (Some [(''product_id'', PId pid), (''from_warehouse_id'', PId from_wid),
          (''to_warehouse_id'', PId to_wid), (''qty'', PDec qty), (''ref_id'', PStr ref_id)]))
    (thenM (emit_level_changed tenant product from_wid from_before (from_before - qty))
    (thenM (emit_level_changed tenant product to_wid to_before (to_before + qty))
    (returnM (out_movement, in_movement))))))))))))))))"

section \<open>Reservation lifecycle\<close>

definition reserve_step :: "string \<Rightarrow> uuid \<Rightarrow> uuid \<Rightarrow> decimal \<Rightarrow> uuid \<Rightarrow> string \<Rightarrow> unit service" where
  "reserve_step ref_type pid wid qty tenant ref_id =
     thenM (requireM (\<not> qty \<le> 0) (ValidationError ''Reservation quantity must be positive''))
    (thenM (reject_replay ref_type (step_ref ref_id ''reserve'') wid tenant pid)
    (thenM (require_active_product pid tenant)
    (thenM (require_active_warehouse wid tenant)
    (bindM (apply_reservation_qty pid wid qty tenant) (\<lambda>ok.
     thenM (requireM ok InsufficientStockError)
    (thenM (add_movement (movement tenant pid wid RESERVATION qty ref_type (step_ref ref_id ''reserve'')))
    (returnM ())))))))"

definition release_step :: "string \<Rightarrow> uuid \<Rightarrow> uuid \<Rightarrow> decimal \<Rightarrow> uuid \<Rightarrow> string \<Rightarrow> unit service" where
  "release_step ref_type pid wid qty tenant ref_id =
     thenM (requireM (\<not> qty \<le> 0) (ValidationError ''Release quantity must be positive''))
    (thenM (reject_replay ref_type (step_ref ref_id ''release'') wid tenant pid)
    (thenM (require_active_product pid tenant)
    (thenM (require_active_warehouse wid tenant)
    (bindM (apply_release_qty pid wid qty tenant) (\<lambda>ok.
     thenM (requireM ok (ValidationError ''Cannot release more than the reserved quantity''))
    (thenM (add_movement (movement tenant pid wid RELEASE (- qty) ref_type (step_ref ref_id ''release'')))
    (returnM ())))))))"

text \<open>The body of a fulfilment: the product fulfilled and its on-hand quantity before.\<close>

definition fulfil_step ::
  "string \<Rightarrow> uuid \<Rightarrow> uuid \<Rightarrow> decimal \<Rightarrow> uuid \<Rightarrow> string \<Rightarrow> (product \<times> decimal \<times> decimal) service" where
  "fulfil_step ref_type pid wid qty tenant ref_id =
     thenM (requireM (\<not> qty \<le> 0) (ValidationError ''Fulfilment quantity must be positive''))
    (bindM (require_active_product pid tenant) (\<lambda>product.
     thenM (require_active_warehouse wid tenant)
    (bindM (current_on_hand pid wid tenant) (\<lambda>before.
     bindM (apply_consume_qty pid wid qty tenant) (\<lambda>ok.
     thenM (requireM ok InsufficientStockError)
    (thenM (add_movement (movement tenant pid wid RELEASE (- qty) ref_type (step_ref ref_id ''release'')))
    (thenM (add_movement (movement tenant pid wid ISSUE (- qty) ref_type (step_ref ref_id ''issue'')))
    (returnM (product, before, qty)))))))))"

definition reread_level :: "uuid \<Rightarrow> uuid \<Rightarrow> uuid \<Rightarrow> stock_level service" where
  "reread_level pid wid tenant = bindM (get_stock_level pid wid tenant) (the_or_raise AssertionError)"

definition reserve_stock ::
  "string \<Rightarrow> uuid \<Rightarrow> uuid \<Rightarrow> decimal \<Rightarrow> uuid \<Rightarrow> string \<Rightarrow> stock_level service" where
  "reserve_stock ref_type pid wid qty tenant ref_id =
     thenM (reserve_step ref_type pid wid qty tenant ref_id) (thenM commit (reread_level pid wid tenant))"

definition release_reservation ::
  "string \<Rightarrow> uuid \<Rightarrow> uuid \<Rightarrow> decimal \<Rightarrow> uuid \<Rightarrow> string \<Rightarrow> stock_level service" where
  "release_reservation ref_type pid wid qty tenant ref_id =
     thenM (release_step ref_type pid wid qty tenant ref_id) (thenM commit (reread_level pid wid tenant))"

definition fulfil_order_stock ::
  "string \<Rightarrow> uuid \<Rightarrow> uuid \<Rightarrow> decimal \<Rightarrow> uuid \<Rightarrow> string \<Rightarrow> stock_level service" where
  "fulfil_order_stock ref_type pid wid qty tenant ref_id =
     bindM (fulfil_step ref_type pid wid qty tenant ref_id) (\<lambda>(product, before, _).
     thenM commit
    (thenM (emit_level_changed tenant product wid before (before - qty))
    (reread_level pid wid tenant)))"

section \<open>Whole orders\<close>

text \<open>The bulk operations run the per-line steps and commit once at the end.\<close>

definition reserve_order :: "string \<Rightarrow> uuid \<Rightarrow> uuid \<Rightarrow> uuid \<Rightarrow> order_line list \<Rightarrow> unit service" where
  "reserve_order ref_type tenant wid order_id lines =
     thenM (forM (\<lambda>l. reserve_step ref_type (ol_product l) wid (ol_quantity l) tenant (uuid_text order_id)) lines)
       commit"

definition release_order :: "string \<Rightarrow> uuid \<Rightarrow> uuid \<Rightarrow> uuid \<Rightarrow> order_line list \<Rightarrow> unit service" where
  "release_order ref_type tenant wid order_id lines =
     thenM (forM (\<lambda>l. release_step ref_type (ol_product l) wid (ol_quantity l) tenant (uuid_text order_id)) lines)
       commit"

definition fulfil_order_lines ::
  "string \<Rightarrow> uuid \<Rightarrow> uuid \<Rightarrow> uuid \<Rightarrow> order_line list \<Rightarrow> (uuid \<times> decimal \<times> decimal) list service" where
  "fulfil_order_lines ref_type tenant wid order_id lines =
     bindM (mapM (\<lambda>l. fulfil_step ref_type (ol_product l) wid (ol_quantity l) tenant (uuid_text order_id)) lines)
      (\<lambda>emitted.
     thenM commit
    (thenM (forM (\<lambda>(product, before, qty). emit_level_changed tenant product wid before (before - qty)) emitted)
    (returnM (map (\<lambda>(product, before, qty). (p_id product, qty, amount (p_cost product))) emitted))))"

section \<open>Reads\<close>

definition list_alerts :: "uuid \<Rightarrow> nat \<Rightarrow> nat \<Rightarrow> (stock_level \<times> product) list service" where
  "list_alerts tenant offset limit = list_low_stock tenant offset limit"

definition count_alerts :: "uuid \<Rightarrow> nat service" where
  "count_alerts tenant = count_low_stock tenant"

end
