(* ===== verification/Finance_Repository.thy ===== *)
theory Finance_Repository
  imports Db_Session
begin

text \<open>
  \<open>FinanceRepository\<close> of \<open>core/features/finance/repository.py\<close> for the core of the finance
  feature: chart of accounts, journal, fiscal periods, invoices, payments, the payment inbox,
  exchange rates and numbering, with the constraints of \<open>core/features/finance/models\<close>. A journal
  entry and an invoice are a header row and the rows of its lines. Money columns are
  \<open>NUMERIC(18,4)\<close>, so a written amount is rounded by the server (\<open>numeric 4\<close>). Amounts below
  \<open>10^14\<close> are assumed, which is what those columns hold.
\<close>

section \<open>Constraint violations\<close>

definition UNIQUE_VIOLATION_MESSAGES :: "(string \<times> string) list" where
  "UNIQUE_VIOLATION_MESSAGES =
     [(''uq_erp_journal_entries_source_ref'', ''A journal entry for this source document already exists''),
      (''uq_erp_invoices_tenant_number'', ''An invoice with this number already exists''),
      (''uq_erp_invoices_source_ref'', ''An invoice for this source document already exists''),
      (''uq_erp_payments_tenant_number'', ''A payment with this number already exists''),
      (''uq_erp_payments_source_ref'', ''A payment for this source document already exists''),
      (''uq_erp_payment_intents_source_ref'', ''A payment intent for this source document already exists''),
      (''uq_erp_chart_of_accounts_tenant_code'', ''An account with this code already exists''),
      (''uq_erp_fiscal_periods_tenant_name'', ''A fiscal period with this name already exists'')]"

definition DEFAULT_CONFLICT_MESSAGE :: string where
  "DEFAULT_CONFLICT_MESSAGE = ''The resource conflicts with existing data''"

text \<open>SQLSTATE 23505: the violated constraint is unique, or a primary key (\<open>..._pkey\<close>).\<close>

definition unique_constraint :: "string \<Rightarrow> bool" where
  "unique_constraint c \<longleftrightarrow> take 3 c = ''uq_'' \<or> drop (length c - 5) c = ''_pkey''"

definition conflict_or_reraise :: "error \<Rightarrow> error" where
  "conflict_or_reraise e = (case e of
     IntegrityError c \<Rightarrow>
       (case map_of UNIQUE_VIOLATION_MESSAGES c of
          Some m \<Rightarrow> ConflictError m
        | None \<Rightarrow> if unique_constraint c then ConflictError DEFAULT_CONFLICT_MESSAGE else e)
   | _ \<Rightarrow> e)"

text \<open>A flush inside \<open>try ... except IntegrityError\<close>.\<close>

definition flush_unique :: "(string \<times> (db \<Rightarrow> bool)) list \<Rightarrow> unit service" where
  "flush_unique cs = catchM (check_all cs) (\<lambda>e. raiseM (conflict_or_reraise e))"

definition first_violation :: "(string \<times> (db \<Rightarrow> bool)) list \<Rightarrow> db \<Rightarrow> string option" where
  "first_violation cs d = map_option fst (List.find (\<lambda>c. \<not> snd c d) cs)"

lemma first_violation_simps [simp]:
  "first_violation [] d = None"
  "first_violation (c # cs) d = (if snd c d then first_violation cs d else Some (fst c))"
  by (simp_all add: first_violation_def)

lemma first_violation_append:
  "first_violation (cs @ ds) d =
     (case first_violation cs d of None \<Rightarrow> first_violation ds d | Some c \<Rightarrow> Some c)"
  by (induction cs) simp_all

lemma first_violation_None: "first_violation cs d = None \<longleftrightarrow> (\<forall>c \<in> set cs. snd c d)"
  by (induction cs) auto

lemma wp_flush_unique [wp_simps]:
  "wp (flush_unique cs) Q E s = (case first_violation cs (work s) of
     None \<Rightarrow> Q () s | Some c \<Rightarrow> E (conflict_or_reraise (IntegrityError c)) s)"
  by (simp add: flush_unique_def wp_simps first_violation_def split: option.split)

lemma wp_check_all_violation:
  "wp (check_all cs) Q E s = (case first_violation cs (work s) of
     None \<Rightarrow> Q () s | Some c \<Rightarrow> E (IntegrityError c) s)"
  by (simp add: wp_simps first_violation_def split: option.split)

lemma keeps_flush_unique [keeps_intros]: "keeps P (flush_unique cs)"
  by (rule keepsI) (simp add: wp_simps split: option.split)

section \<open>Chart of accounts\<close>

definition account_key :: "uuid \<Rightarrow> uuid \<Rightarrow> account \<Rightarrow> bool" where
  "account_key tenant i a \<longleftrightarrow> a_tenant a = tenant \<and> a_id a = i"

definition account_constraints :: "account \<Rightarrow> (string \<times> (db \<Rightarrow> bool)) list" where
  "account_constraints a =
     [(''erp_chart_of_accounts_pkey'', \<lambda>d. \<forall>b \<in> set (accounts d). \<not> account_key (a_tenant a) (a_id a) b),
      (''uq_erp_chart_of_accounts_tenant_code'', \<lambda>d. \<forall>b \<in> set (accounts d).
         \<not> (a_tenant b = a_tenant a \<and> a_code b = a_code a))]"

definition create_account_row :: "account \<Rightarrow> account service" where
  "create_account_row a = bindM fresh_id (\<lambda>i.
     let row = a\<lparr>a_id := i\<rparr> in
     thenM (flush_unique (account_constraints row))
       (thenM (writeM (\<lambda>d. d\<lparr>accounts := accounts d @ [row]\<rparr>)) (returnM row)))"

definition get_account_by_id :: "uuid \<Rightarrow> uuid \<Rightarrow> account option service" where
  "get_account_by_id i tenant = readM (\<lambda>d. select_one (account_key tenant i) (accounts d))"

definition get_account_by_code :: "string \<Rightarrow> uuid \<Rightarrow> account option service" where
  "get_account_by_code code tenant =
     readM (\<lambda>d. select_one (\<lambda>a. a_tenant a = tenant \<and> a_code a = code) (accounts d))"

definition list_accounts :: "uuid \<Rightarrow> bool \<Rightarrow> account list service" where
  "list_accounts tenant include_inactive = readM (\<lambda>d.
     sort_key (\<lambda>a. collation d (a_code a))
       (filter (\<lambda>a. a_tenant a = tenant \<and> (include_inactive \<or> a_active a)) (accounts d)))"

definition deactivate_account_row :: "uuid \<Rightarrow> uuid \<Rightarrow> account option service" where
  "deactivate_account_row i tenant = bindM (get_account_by_id i tenant) (\<lambda>found. case found of
     None \<Rightarrow> returnM None
   | Some a \<Rightarrow> thenM (writeM (\<lambda>d. d\<lparr>accounts :=
         update_where (account_key tenant i) (\<lambda>b. b\<lparr>a_active := False\<rparr>) (accounts d)\<rparr>))
       (returnM (Some (a\<lparr>a_active := False\<rparr>))))"

section \<open>Journal entries\<close>

type_synonym entry_doc = "journal_entry \<times> journal_line list"

definition entry_key :: "uuid \<Rightarrow> uuid \<Rightarrow> journal_entry \<Rightarrow> bool" where
  "entry_key tenant i e \<longleftrightarrow> je_tenant e = tenant \<and> je_id e = i"

definition line_of :: "uuid \<Rightarrow> uuid \<Rightarrow> journal_line \<Rightarrow> bool" where
  "line_of tenant i l \<longleftrightarrow> jl_tenant l = tenant \<and> jl_entry l = i"

definition same_source :: "uuid \<Rightarrow> string \<Rightarrow> string \<Rightarrow> journal_entry \<Rightarrow> bool" where
  "same_source tenant source ref e \<longleftrightarrow>
     je_tenant e = tenant \<and> je_source e = source \<and> je_ref e = Some ref"

definition entry_constraints :: "journal_entry \<Rightarrow> (string \<times> (db \<Rightarrow> bool)) list" where
  "entry_constraints e =
     [(''erp_journal_entries_pkey'', \<lambda>d. \<forall>f \<in> set (entries d). \<not> entry_key (je_tenant e) (je_id e) f),
      (''uq_erp_journal_entries_source_ref'', \<lambda>d. case je_ref e of None \<Rightarrow> True
         | Some r \<Rightarrow> \<forall>f \<in> set (entries d). \<not> same_source (je_tenant e) (je_source e) r f)]"

definition opt_all :: "('a \<Rightarrow> bool) \<Rightarrow> 'a option \<Rightarrow> bool" where
  "opt_all P x = (case x of None \<Rightarrow> True | Some a \<Rightarrow> P a)"

definition line_checks :: "journal_line \<Rightarrow> (string \<times> (db \<Rightarrow> bool)) list" where
  "line_checks l =
     [(''ck_erp_journal_lines_amount_non_negative'', \<lambda>_.
         opt_all (\<lambda>x. 0 \<le> x) (jl_debit l) \<and> opt_all (\<lambda>x. 0 \<le> x) (jl_credit l)),
      (''ck_erp_journal_lines_amount_nonzero'', \<lambda>_.
         opt_all (\<lambda>x. x \<noteq> 0) (jl_debit l) \<and> opt_all (\<lambda>x. x \<noteq> 0) (jl_credit l)),
      (''ck_erp_journal_lines_debit_xor_credit'', \<lambda>_.
         jl_debit l \<noteq> None \<and> jl_credit l = None \<or> jl_debit l = None \<and> jl_credit l \<noteq> None)]"

definition line_foreign_keys :: "journal_line \<Rightarrow> (string \<times> (db \<Rightarrow> bool)) list" where
  "line_foreign_keys l =
     [(''fk_erp_journal_lines_account'', \<lambda>d. \<exists>a \<in> set (accounts d). account_key (jl_tenant l) (jl_account l) a),
      (''fk_erp_journal_lines_entry'', \<lambda>d. \<exists>e \<in> set (entries d). entry_key (jl_tenant l) (jl_entry l) e)]"

text \<open>The checks of one insert of several rows: row checks first, foreign keys at its end.\<close>

definition lines_constraints :: "journal_line list \<Rightarrow> (string \<times> (db \<Rightarrow> bool)) list" where
  "lines_constraints ls = concat (map line_checks ls) @ concat (map line_foreign_keys ls)"

definition stored_line :: "uuid \<Rightarrow> uuid \<Rightarrow> uuid \<Rightarrow> journal_line \<Rightarrow> journal_line" where
  "stored_line i tenant entry_id l = l\<lparr>jl_id := i, jl_tenant := tenant, jl_entry := entry_id,
     jl_debit := map_option (numeric 4) (jl_debit l), jl_credit := map_option (numeric 4) (jl_credit l)\<rparr>"

definition create_journal_entry :: "entry_doc \<Rightarrow> entry_doc service" where
  "create_journal_entry doc = (case doc of (e, ls) \<Rightarrow>
     bindM fresh_id (\<lambda>i.
     let row = e\<lparr>je_id := i\<rparr> in
     thenM (flush_unique (entry_constraints row))
     (thenM (writeM (\<lambda>d. d\<lparr>entries := entries d @ [row]\<rparr>))
     (bindM (mapM (\<lambda>l. bindM fresh_id (\<lambda>k. returnM (stored_line k (je_tenant e) i l))) ls) (\<lambda>rows.
     thenM (check_all (lines_constraints rows))
     (thenM (writeM (\<lambda>d. d\<lparr>journal_lines := journal_lines d @ rows\<rparr>))
     (returnM (row, ls))))))))"

definition entry_lines :: "uuid \<Rightarrow> uuid \<Rightarrow> db \<Rightarrow> journal_line list" where
  "entry_lines tenant i d = filter (line_of tenant i) (journal_lines d)"

definition load_entry :: "uuid \<Rightarrow> db \<Rightarrow> journal_entry \<Rightarrow> entry_doc" where
  "load_entry tenant d e = (e, entry_lines tenant (je_id e) d)"

definition get_journal_entry_row :: "uuid \<Rightarrow> uuid \<Rightarrow> entry_doc option service" where
  "get_journal_entry_row i tenant = readM (\<lambda>d.
     map_option (load_entry tenant d) (select_one (entry_key tenant i) (entries d)))"

definition get_journal_entry_by_source_ref :: "string \<Rightarrow> string \<Rightarrow> uuid \<Rightarrow> entry_doc option service" where
  "get_journal_entry_by_source_ref source ref tenant = readM (\<lambda>d.
     map_option (load_entry tenant d) (select_one (same_source tenant source ref) (entries d)))"

definition entry_filter ::
  "uuid \<Rightarrow> entry_status option \<Rightarrow> date option \<Rightarrow> date option \<Rightarrow> journal_entry \<Rightarrow> bool" where
  "entry_filter tenant status from_date to_date e \<longleftrightarrow> je_tenant e = tenant \<and>
     opt_all (\<lambda>st. je_status e = st) status \<and> opt_all (\<lambda>x. x \<le> je_date e) from_date \<and>
     opt_all (\<lambda>x. je_date e \<le> x) to_date"

text \<open>Newest date first; entries of one date newest first (\<open>created_at\<close> is the insertion order).\<close>

definition list_journal_entries_rows ::
  "uuid \<Rightarrow> entry_status option \<Rightarrow> date option \<Rightarrow> date option \<Rightarrow> nat \<Rightarrow> nat \<Rightarrow> entry_doc list service" where
  "list_journal_entries_rows tenant status from_date to_date offset limit = readM (\<lambda>d.
     map (load_entry tenant d) (page offset limit (sort_key (\<lambda>e. - je_date e)
       (rev (filter (entry_filter tenant status from_date to_date) (entries d))))))"

definition count_journal_entries_rows ::
  "uuid \<Rightarrow> entry_status option \<Rightarrow> date option \<Rightarrow> date option \<Rightarrow> nat service" where
  "count_journal_entries_rows tenant status from_date to_date =
     readM (\<lambda>d. rows_matched (entry_filter tenant status from_date to_date) (entries d))"

text \<open>The guarded transitions: an \<open>UPDATE\<close> conditional on the current status.\<close>

definition flip_entry ::
  "entry_status \<Rightarrow> (journal_entry \<Rightarrow> journal_entry) \<Rightarrow> uuid \<Rightarrow> uuid \<Rightarrow> entry_doc option service" where
  "flip_entry expected f i tenant =
     (let guard = (\<lambda>e. entry_key tenant i e \<and> je_status e = expected) in
      bindM (readM (\<lambda>d. rows_matched guard (entries d))) (\<lambda>n.
      thenM (writeM (\<lambda>d. d\<lparr>entries := update_where guard f (entries d)\<rparr>))
        (if n = 0 then returnM None else get_journal_entry_row i tenant)))"

definition post_journal_entry_row ::
  "uuid \<Rightarrow> uuid \<Rightarrow> uuid option \<Rightarrow> int \<Rightarrow> entry_doc option service" where
  "post_journal_entry_row i tenant posted_by posted_at = flip_entry ENTRY_DRAFT
     (\<lambda>e. e\<lparr>je_status := ENTRY_POSTED, je_posted_at := Some posted_at, je_posted_by := posted_by\<rparr>) i tenant"

definition void_journal_entry_row :: "uuid \<Rightarrow> uuid \<Rightarrow> int \<Rightarrow> entry_doc option service" where
  "void_journal_entry_row i tenant voided_at = flip_entry ENTRY_DRAFT
     (\<lambda>e. e\<lparr>je_status := ENTRY_VOIDED, je_voided_at := Some voided_at\<rparr>) i tenant"

definition reverse_journal_entry_row :: "uuid \<Rightarrow> uuid \<Rightarrow> entry_doc option service" where
  "reverse_journal_entry_row i tenant =
     flip_entry ENTRY_POSTED (\<lambda>e. e\<lparr>je_status := ENTRY_REVERSED\<rparr>) i tenant"

section \<open>Fiscal periods\<close>

definition period_constraints :: "fiscal_period \<Rightarrow> (string \<times> (db \<Rightarrow> bool)) list" where
  "period_constraints p =
     [(''ck_erp_fiscal_periods_date_range'', \<lambda>_. fp_start p \<le> fp_end p),
      (''erp_fiscal_periods_pkey'', \<lambda>d. \<forall>q \<in> set (periods d).
         \<not> (fp_tenant q = fp_tenant p \<and> fp_id q = fp_id p)),
      (''uq_erp_fiscal_periods_tenant_name'', \<lambda>d. \<forall>q \<in> set (periods d).
         \<not> (fp_tenant q = fp_tenant p \<and> fp_name q = fp_name p))]"

definition create_fiscal_period_row :: "fiscal_period \<Rightarrow> fiscal_period service" where
  "create_fiscal_period_row p = bindM fresh_id (\<lambda>i.
     let row = p\<lparr>fp_id := i\<rparr> in
     thenM (flush_unique (period_constraints row))
       (thenM (writeM (\<lambda>d. d\<lparr>periods := periods d @ [row]\<rparr>)) (returnM row)))"

definition list_fiscal_periods :: "uuid \<Rightarrow> fiscal_period list service" where
  "list_fiscal_periods tenant = readM (\<lambda>d.
     sort_key fp_start (filter (\<lambda>p. fp_tenant p = tenant) (periods d)))"

definition period_key :: "uuid \<Rightarrow> uuid \<Rightarrow> fiscal_period \<Rightarrow> bool" where
  "period_key tenant i p \<longleftrightarrow> fp_tenant p = tenant \<and> fp_id p = i"

definition close_fiscal_period_row :: "uuid \<Rightarrow> uuid \<Rightarrow> fiscal_period option service" where
  "close_fiscal_period_row i tenant =
     bindM (readM (\<lambda>d. select_one (period_key tenant i) (periods d))) (\<lambda>found. case found of
       None \<Rightarrow> returnM None
     | Some p \<Rightarrow> thenM (writeM (\<lambda>d. d\<lparr>periods :=
           update_where (period_key tenant i) (\<lambda>q. q\<lparr>fp_closed := True\<rparr>) (periods d)\<rparr>))
         (returnM (Some (p\<lparr>fp_closed := True\<rparr>))))"

definition closed_on :: "uuid \<Rightarrow> date \<Rightarrow> db \<Rightarrow> bool" where
  "closed_on tenant x d \<longleftrightarrow> (\<exists>p \<in> set (periods d).
     fp_tenant p = tenant \<and> fp_start p \<le> x \<and> x \<le> fp_end p \<and> fp_closed p)"

definition is_period_closed :: "date \<Rightarrow> uuid \<Rightarrow> bool service" where
  "is_period_closed entry_date tenant = readM (closed_on tenant entry_date)"

end
