(* ===== verification/Billing_Repository.thy ===== *)
theory Billing_Repository
  imports Finance_Repository
begin

text \<open>
  The receivables side of \<open>FinanceRepository\<close>: invoices with their lines, payments, the
  payment-matching inbox, exchange rates and document numbers.
\<close>

section \<open>Invoices\<close>

type_synonym invoice_doc = "invoice \<times> invoice_line list"

definition invoice_key :: "uuid \<Rightarrow> uuid \<Rightarrow> invoice \<Rightarrow> bool" where
  "invoice_key tenant i v \<longleftrightarrow> i_tenant v = tenant \<and> i_id v = i"

definition invoice_line_of :: "uuid \<Rightarrow> uuid \<Rightarrow> invoice_line \<Rightarrow> bool" where
  "invoice_line_of tenant i l \<longleftrightarrow> il_tenant l = tenant \<and> il_invoice l = i"

definition invoice_source :: "uuid \<Rightarrow> string \<Rightarrow> string \<Rightarrow> invoice \<Rightarrow> bool" where
  "invoice_source tenant source ref v \<longleftrightarrow>
     i_tenant v = tenant \<and> i_source v = source \<and> i_ref v = Some ref"

text \<open>The currency column refers to the seeded table of supported currencies.\<close>

definition invoice_constraints :: "invoice \<Rightarrow> (string \<times> (db \<Rightarrow> bool)) list" where
  "invoice_constraints v =
     [(''ck_erp_invoices_due_date_range'', \<lambda>_. i_date v \<le> i_due v),
      (''ck_erp_invoices_total_non_negative'', \<lambda>_. 0 \<le> i_total v),
      (''erp_invoices_pkey'', \<lambda>d. \<forall>w \<in> set (invoices d). \<not> invoice_key (i_tenant v) (i_id v) w),
      (''uq_erp_invoices_tenant_number'', \<lambda>d. \<forall>w \<in> set (invoices d).
         \<not> (i_tenant w = i_tenant v \<and> i_number w = i_number v)),
      (''uq_erp_invoices_source_ref'', \<lambda>d. case i_ref v of None \<Rightarrow> True
         | Some r \<Rightarrow> \<forall>w \<in> set (invoices d). \<not> invoice_source (i_tenant v) (i_source v) r w),
      (''erp_invoices_currency_fkey'', \<lambda>_. i_currency v \<in> set SUPPORTED_CURRENCIES)]"

definition invoice_line_checks :: "invoice_line \<Rightarrow> (string \<times> (db \<Rightarrow> bool)) list" where
  "invoice_line_checks l =
     [(''ck_erp_invoice_lines_amount_consistent'', \<lambda>_. il_amount l = il_quantity l * il_price l),
      (''ck_erp_invoice_lines_amount_non_negative'', \<lambda>_. 0 \<le> il_amount l),
      (''ck_erp_invoice_lines_quantity_positive'', \<lambda>_. 0 < il_quantity l),
      (''ck_erp_invoice_lines_unit_price_non_negative'', \<lambda>_. 0 \<le> il_price l)]"

definition invoice_line_foreign_keys :: "invoice_line \<Rightarrow> (string \<times> (db \<Rightarrow> bool)) list" where
  "invoice_line_foreign_keys l =
     [(''fk_erp_invoice_lines_account'', \<lambda>d. \<exists>a \<in> set (accounts d). account_key (il_tenant l) (il_account l) a),
      (''fk_erp_invoice_lines_invoice'', \<lambda>d. \<exists>v \<in> set (invoices d). invoice_key (il_tenant l) (il_invoice l) v)]"

definition invoice_lines_constraints :: "invoice_line list \<Rightarrow> (string \<times> (db \<Rightarrow> bool)) list" where
  "invoice_lines_constraints ls =
     concat (map invoice_line_checks ls) @ concat (map invoice_line_foreign_keys ls)"

definition stored_invoice_line :: "uuid \<Rightarrow> uuid \<Rightarrow> uuid \<Rightarrow> invoice_line \<Rightarrow> invoice_line" where
  "stored_invoice_line k tenant i l = l\<lparr>il_id := k, il_tenant := tenant, il_invoice := i,
     il_quantity := numeric 4 (il_quantity l), il_price := numeric 4 (il_price l),
     il_amount := numeric 4 (il_amount l)\<rparr>"

text \<open>
  The header columns \<open>create_invoice\<close> writes. The time stamps of the entity are not among them:
  an invoice created as issued is stored without \<open>issued_at\<close>.
\<close>

definition stored_invoice :: "uuid \<Rightarrow> invoice \<Rightarrow> invoice" where
  "stored_invoice i v = v\<lparr>i_id := i, i_total := numeric 4 (i_total v), i_rate := numeric 6 (i_rate v),
     i_issued_at := None, i_approved_at := None, i_voided_at := None\<rparr>"

definition create_invoice :: "invoice_doc \<Rightarrow> invoice_doc service" where
  "create_invoice doc = (case doc of (v, ls) \<Rightarrow>
     bindM fresh_id (\<lambda>i.
     let row = stored_invoice i v in
     thenM (flush_unique (invoice_constraints row))
     (thenM (writeM (\<lambda>d. d\<lparr>invoices := invoices d @ [row]\<rparr>))
     (bindM (mapM (\<lambda>l. bindM fresh_id (\<lambda>k. returnM (stored_invoice_line k (i_tenant v) i l))) ls) (\<lambda>rows.
     thenM (check_all (invoice_lines_constraints rows))
     (thenM (writeM (\<lambda>d. d\<lparr>invoice_lines := invoice_lines d @ rows\<rparr>))
     (returnM (row, rows))))))))"

definition lines_of_invoice :: "uuid \<Rightarrow> uuid \<Rightarrow> db \<Rightarrow> invoice_line list" where
  "lines_of_invoice tenant i d = sort_key il_no (filter (invoice_line_of tenant i) (invoice_lines d))"

definition load_invoice :: "uuid \<Rightarrow> db \<Rightarrow> invoice \<Rightarrow> invoice_doc" where
  "load_invoice tenant d v = (v, lines_of_invoice tenant (i_id v) d)"

definition invoice_in :: "uuid \<Rightarrow> uuid \<Rightarrow> db \<Rightarrow> invoice_doc option" where
  "invoice_in i tenant d =
     map_option (load_invoice tenant d) (select_one (invoice_key tenant i) (invoices d))"

definition get_invoice_row :: "uuid \<Rightarrow> uuid \<Rightarrow> invoice_doc option service" where
  "get_invoice_row i tenant = readM (invoice_in i tenant)"

text \<open>The same read under a row lock, which is held to the end of the transaction.\<close>

definition get_invoice_for_update :: "uuid \<Rightarrow> uuid \<Rightarrow> invoice_doc option service" where
  "get_invoice_for_update i tenant = readM (invoice_in i tenant)"

definition invoice_by_source :: "string \<Rightarrow> string \<Rightarrow> uuid \<Rightarrow> db \<Rightarrow> invoice_doc option" where
  "invoice_by_source source ref tenant d =
     map_option (load_invoice tenant d) (select_one (invoice_source tenant source ref) (invoices d))"

definition get_invoice_by_source_ref :: "string \<Rightarrow> string \<Rightarrow> uuid \<Rightarrow> invoice_doc option service" where
  "get_invoice_by_source_ref source ref tenant = readM (invoice_by_source source ref tenant)"

definition invoice_filter :: "uuid \<Rightarrow> invoice_status option \<Rightarrow> invoice \<Rightarrow> bool" where
  "invoice_filter tenant status v \<longleftrightarrow> i_tenant v = tenant \<and> opt_all (\<lambda>st. i_status v = st) status"

definition list_invoices_rows ::
  "uuid \<Rightarrow> invoice_status option \<Rightarrow> nat \<Rightarrow> nat \<Rightarrow> invoice_doc list service" where
  "list_invoices_rows tenant status offset limit = readM (\<lambda>d.
     map (load_invoice tenant d) (page offset limit (sort_key (\<lambda>v. - i_date v)
       (rev (filter (invoice_filter tenant status) (invoices d))))))"

definition count_invoices_rows :: "uuid \<Rightarrow> invoice_status option \<Rightarrow> nat service" where
  "count_invoices_rows tenant status = readM (\<lambda>d. rows_matched (invoice_filter tenant status) (invoices d))"

text \<open>
  \<open>_flip_invoice_status\<close> and the assignment of a time stamp to the returned row, flushed with it.
\<close>

definition flip_invoice ::
  "invoice_status list \<Rightarrow> (invoice \<Rightarrow> invoice) \<Rightarrow> uuid \<Rightarrow> uuid \<Rightarrow> invoice_doc option service" where
  "flip_invoice expected f i tenant =
     (let guard = (\<lambda>v. invoice_key tenant i v \<and> i_status v \<in> set expected) in
      bindM (readM (\<lambda>d. rows_matched guard (invoices d))) (\<lambda>n.
      thenM (writeM (\<lambda>d. d\<lparr>invoices := update_where guard f (invoices d)\<rparr>))
        (if n = 0 then returnM None else get_invoice_row i tenant)))"

definition issue_invoice_row :: "uuid \<Rightarrow> uuid \<Rightarrow> int \<Rightarrow> invoice_doc option service" where
  "issue_invoice_row i tenant issued_at = flip_invoice [INVOICE_DRAFT]
     (\<lambda>v. v\<lparr>i_status := INVOICE_ISSUED, i_issued_at := Some issued_at\<rparr>) i tenant"

definition approve_invoice_row :: "uuid \<Rightarrow> uuid \<Rightarrow> int \<Rightarrow> invoice_doc option service" where
  "approve_invoice_row i tenant approved_at = flip_invoice [INVOICE_ISSUED]
     (\<lambda>v. v\<lparr>i_status := INVOICE_APPROVED, i_approved_at := Some approved_at\<rparr>) i tenant"

definition void_invoice_row :: "uuid \<Rightarrow> uuid \<Rightarrow> int \<Rightarrow> invoice_doc option service" where
  "void_invoice_row i tenant voided_at = flip_invoice [INVOICE_DRAFT, INVOICE_ISSUED]
     (\<lambda>v. v\<lparr>i_status := INVOICE_VOIDED, i_voided_at := Some voided_at\<rparr>) i tenant"

definition mark_invoice_paid :: "uuid \<Rightarrow> uuid \<Rightarrow> invoice_doc option service" where
  "mark_invoice_paid i tenant =
     flip_invoice [INVOICE_APPROVED] (\<lambda>v. v\<lparr>i_status := INVOICE_PAID\<rparr>) i tenant"

section \<open>Payments\<close>

definition payment_key :: "uuid \<Rightarrow> uuid \<Rightarrow> payment \<Rightarrow> bool" where
  "payment_key tenant i p \<longleftrightarrow> pay_tenant p = tenant \<and> pay_id p = i"

definition payment_source :: "uuid \<Rightarrow> string \<Rightarrow> string \<Rightarrow> payment \<Rightarrow> bool" where
  "payment_source tenant source ref p \<longleftrightarrow>
     pay_tenant p = tenant \<and> pay_source p = source \<and> pay_ref p = Some ref"

definition payment_constraints :: "payment \<Rightarrow> (string \<times> (db \<Rightarrow> bool)) list" where
  "payment_constraints p =
     [(''ck_erp_payments_amount_positive'', \<lambda>_. 0 < pay_amount p),
      (''erp_payments_pkey'', \<lambda>d. \<forall>q \<in> set (payments d). \<not> payment_key (pay_tenant p) (pay_id p) q),
      (''uq_erp_payments_tenant_number'', \<lambda>d. \<forall>q \<in> set (payments d).
         \<not> (pay_tenant q = pay_tenant p \<and> pay_number q = pay_number p)),
      (''uq_erp_payments_source_ref'', \<lambda>d. case pay_ref p of None \<Rightarrow> True
         | Some r \<Rightarrow> \<forall>q \<in> set (payments d). \<not> payment_source (pay_tenant p) (pay_source p) r q),
      (''fk_erp_payments_invoice'', \<lambda>d. \<exists>v \<in> set (invoices d). invoice_key (pay_tenant p) (pay_invoice p) v)]"

definition create_payment :: "payment \<Rightarrow> payment service" where
  "create_payment p = bindM fresh_id (\<lambda>i.
     let row = p\<lparr>pay_id := i, pay_amount := numeric 4 (pay_amount p)\<rparr> in
     thenM (flush_unique (payment_constraints row))
       (thenM (writeM (\<lambda>d. d\<lparr>payments := payments d @ [row]\<rparr>)) (returnM row)))"

definition get_payment_row :: "uuid \<Rightarrow> uuid \<Rightarrow> payment option service" where
  "get_payment_row i tenant = readM (\<lambda>d. select_one (payment_key tenant i) (payments d))"

definition get_payment_by_source_ref :: "string \<Rightarrow> string \<Rightarrow> uuid \<Rightarrow> payment option service" where
  "get_payment_by_source_ref source ref tenant =
     readM (\<lambda>d. select_one (payment_source tenant source ref) (payments d))"

definition paid_on :: "uuid \<Rightarrow> uuid \<Rightarrow> payment \<Rightarrow> bool" where
  "paid_on tenant i p \<longleftrightarrow> pay_tenant p = tenant \<and> pay_invoice p = i \<and> pay_status p = PAYMENT_APPLIED"

definition paid_sum :: "uuid \<Rightarrow> uuid \<Rightarrow> db \<Rightarrow> decimal" where
  "paid_sum tenant i d = sum_list (map pay_amount (filter (paid_on tenant i) (payments d)))"

definition sum_payments_for_invoice :: "uuid \<Rightarrow> uuid \<Rightarrow> decimal service" where
  "sum_payments_for_invoice i tenant = readM (paid_sum tenant i)"

text \<open>
  The entry a document posted, with its lines; deleting the lines first, then the header.
\<close>

definition delete_journal_entry_by_source_ref :: "string \<Rightarrow> string \<Rightarrow> uuid \<Rightarrow> unit service" where
  "delete_journal_entry_by_source_ref source ref tenant =
     bindM (readM (\<lambda>d. select_one (same_source tenant source ref) (entries d))) (\<lambda>found. case found of
       None \<Rightarrow> returnM ()
     | Some e \<Rightarrow>
         thenM (writeM (\<lambda>d. d\<lparr>journal_lines :=
           filter (\<lambda>l. \<not> line_of tenant (je_id e) l) (journal_lines d)\<rparr>))
         (writeM (\<lambda>d. d\<lparr>entries := filter (\<lambda>f. \<not> entry_key tenant (je_id e) f) (entries d)\<rparr>)))"

definition delete_payment :: "uuid \<Rightarrow> uuid \<Rightarrow> bool service" where
  "delete_payment i tenant = bindM (get_payment_row i tenant) (\<lambda>found. case found of
     None \<Rightarrow> returnM False
   | Some p \<Rightarrow>
       thenM (writeM (\<lambda>d. d\<lparr>payments := filter (\<lambda>q. \<not> payment_key tenant i q) (payments d)\<rparr>))
       (thenM (delete_journal_entry_by_source_ref ''payment'' (uuid_text i) tenant)
         (returnM True)))"

text \<open>Paid or approved, from the payments that are left on the invoice.\<close>

definition settled_status :: "decimal \<Rightarrow> decimal \<Rightarrow> invoice_status" where
  "settled_status applied owed = (if owed \<le> applied then INVOICE_PAID else INVOICE_APPROVED)"

definition settle_invoice_payment_status :: "uuid \<Rightarrow> uuid \<Rightarrow> invoice_doc option service" where
  "settle_invoice_payment_status i tenant =
     bindM (readM (\<lambda>d. select_one (invoice_key tenant i) (invoices d))) (\<lambda>found. case found of
       None \<Rightarrow> returnM None
     | Some v \<Rightarrow> bindM (sum_payments_for_invoice i tenant) (\<lambda>applied.
         thenM (writeM (\<lambda>d. d\<lparr>invoices := update_where (invoice_key tenant i)
             (\<lambda>w. w\<lparr>i_status := settled_status applied (i_total v)\<rparr>) (invoices d)\<rparr>))
           (get_invoice_row i tenant)))"

section \<open>The payment inbox\<close>

definition intent_key :: "uuid \<Rightarrow> uuid \<Rightarrow> payment_intent \<Rightarrow> bool" where
  "intent_key tenant i p \<longleftrightarrow> pi_tenant p = tenant \<and> pi_id p = i"

definition intent_constraints :: "payment_intent \<Rightarrow> (string \<times> (db \<Rightarrow> bool)) list" where
  "intent_constraints p =
     [(''erp_payment_intents_pkey'', \<lambda>d. \<forall>q \<in> set (intents d). \<not> intent_key (pi_tenant p) (pi_id p) q),
      (''uq_erp_payment_intents_source_ref'', \<lambda>d. case pi_ref p of None \<Rightarrow> True
         | Some r \<Rightarrow> \<forall>q \<in> set (intents d).
             \<not> (pi_tenant q = pi_tenant p \<and> pi_source q = pi_source p \<and> pi_ref q = Some r))]"

text \<open>The database stamps \<open>created_at\<close> with its own clock, which is taken to be the request's.\<close>

definition stored_intent :: "uuid \<Rightarrow> int \<Rightarrow> payment_intent \<Rightarrow> payment_intent" where
  "stored_intent i now p = p\<lparr>pi_id := i, pi_amount := numeric 2 (pi_amount p),
     pi_score := map_option (numeric 4) (pi_score p), pi_applied_invoice := None,
     pi_applied_payment := None, pi_applied_at := None, pi_applied_by := None,
     pi_dismissed_at := None, pi_created := now\<rparr>"

definition create_payment_intent :: "payment_intent \<Rightarrow> payment_intent service" where
  "create_payment_intent p = bindM fresh_id (\<lambda>i. bindM (getsM clk) (\<lambda>c.
     let row = stored_intent i (instant c) p in
     thenM (flush_unique (intent_constraints row))
       (thenM (writeM (\<lambda>d. d\<lparr>intents := intents d @ [row]\<rparr>)) (returnM row))))"

definition get_payment_intent :: "uuid \<Rightarrow> uuid \<Rightarrow> payment_intent option service" where
  "get_payment_intent i tenant = readM (\<lambda>d. select_one (intent_key tenant i) (intents d))"

definition list_payment_intents_rows ::
  "uuid \<Rightarrow> intent_status option \<Rightarrow> nat \<Rightarrow> nat \<Rightarrow> payment_intent list service" where
  "list_payment_intents_rows tenant status offset limit = readM (\<lambda>d.
     page offset limit (sort_key (\<lambda>p. - pi_created p) (filter
       (\<lambda>p. pi_tenant p = tenant \<and> opt_all (\<lambda>st. pi_status p = st) status) (intents d))))"

text \<open>The columns \<open>update_payment_intent\<close> copies from the entity.\<close>

definition restamped :: "payment_intent \<Rightarrow> payment_intent \<Rightarrow> payment_intent" where
  "restamped p row = row\<lparr>pi_status := pi_status p, pi_applied_invoice := pi_applied_invoice p,
     pi_applied_payment := pi_applied_payment p, pi_applied_at := pi_applied_at p,
     pi_applied_by := pi_applied_by p, pi_dismissed_at := pi_dismissed_at p\<rparr>"

definition update_payment_intent :: "payment_intent \<Rightarrow> payment_intent option service" where
  "update_payment_intent p = bindM (get_payment_intent (pi_id p) (pi_tenant p)) (\<lambda>found. case found of
     None \<Rightarrow> returnM None
   | Some row \<Rightarrow> thenM (writeM (\<lambda>d. d\<lparr>intents :=
         update_where (intent_key (pi_tenant p) (pi_id p)) (restamped p) (intents d)\<rparr>))
       (returnM (Some (restamped p row))))"

text \<open>Approved invoices with what is left to pay on each, oldest invoice first.\<close>

definition outstanding_in :: "uuid \<Rightarrow> db \<Rightarrow> (invoice_doc \<times> decimal) list" where
  "outstanding_in tenant d =
     map (\<lambda>v. (load_invoice tenant d v, i_total v - paid_sum tenant (i_id v) d))
       (sort_key i_date (filter (\<lambda>v. i_tenant v = tenant \<and> i_status v = INVOICE_APPROVED) (invoices d)))"

definition outstanding_invoices :: "uuid \<Rightarrow> (invoice_doc \<times> decimal) list service" where
  "outstanding_invoices tenant = readM (outstanding_in tenant)"

section \<open>Numbering and exchange rates\<close>

definition document_number :: "string \<Rightarrow> nat \<Rightarrow> nat \<Rightarrow> string" where
  "document_number prefix yr seq = prefix @ ''-'' @ nat_text yr @ ''-'' @ pad5 seq"

definition next_invoice_number :: "nat \<Rightarrow> string service" where
  "next_invoice_number yr = bindM (nextval ''seq_erp_invoice_number'')
     (\<lambda>n. returnM (document_number ''INV'' yr n))"

definition next_payment_number :: "nat \<Rightarrow> string service" where
  "next_payment_number yr = bindM (nextval ''seq_erp_payment_number'')
     (\<lambda>n. returnM (document_number ''PMT'' yr n))"

definition rate_for :: "uuid \<Rightarrow> string \<Rightarrow> string \<Rightarrow> exchange_rate \<Rightarrow> bool" where
  "rate_for tenant base quote r \<longleftrightarrow> x_tenant r = tenant \<and> x_base r = base \<and> x_quote r = quote"

text \<open>The latest rate that is effective on the date.\<close>

definition rate_on :: "uuid \<Rightarrow> string \<Rightarrow> string \<Rightarrow> date \<Rightarrow> db \<Rightarrow> exchange_rate option" where
  "rate_on tenant base quote on_date d =
     (case sort_key (\<lambda>r. - x_effective r)
        (filter (\<lambda>r. rate_for tenant base quote r \<and> x_effective r \<le> on_date) (rates d)) of
        [] \<Rightarrow> None | r # _ \<Rightarrow> Some r)"

definition get_exchange_rate_row ::
  "uuid \<Rightarrow> string \<Rightarrow> string \<Rightarrow> date \<Rightarrow> exchange_rate option service" where
  "get_exchange_rate_row tenant base quote on_date = readM (rate_on tenant base quote on_date)"

text \<open>\<open>session.merge\<close> by primary key: update the row of that date, or insert it.\<close>

definition upsert_exchange_rate :: "exchange_rate \<Rightarrow> exchange_rate service" where
  "upsert_exchange_rate r =
     (let same = (\<lambda>q. rate_for (x_tenant r) (x_base r) (x_quote r) q \<and> x_effective q = x_effective r);
          row = r\<lparr>x_rate := numeric 6 (x_rate r)\<rparr> in
      thenM (writeM (\<lambda>d. if rows_matched same (rates d) = 0
          then d\<lparr>rates := rates d @ [row]\<rparr> else d\<lparr>rates := update_where same (\<lambda>_. row) (rates d)\<rparr>))
        (returnM r))"

definition list_exchange_rates :: "uuid \<Rightarrow> string option \<Rightarrow> exchange_rate list service" where
  "list_exchange_rates tenant code = readM (\<lambda>d.
     sort_key (\<lambda>r. collation d (x_base r)) (sort_key (\<lambda>r. collation d (x_quote r))
       (sort_key (\<lambda>r. - x_effective r) (filter (\<lambda>r. x_tenant r = tenant \<and>
          opt_all (\<lambda>c. x_base r = c \<or> x_quote r = c) code) (rates d)))))"

end
