(* ===== verification/Finance_Service.thy ===== *)
theory Finance_Service
  imports Billing_Repository
begin

text \<open>
  \<open>FinanceService\<close> of \<open>core/features/finance/service.py\<close>: chart of accounts, journal entries,
  fiscal periods, invoices, payments, cost of goods sold, the payroll accrual and exchange rates.
  The clock of a request is read once. A failed flush leaves the SQLAlchemy session unusable
  until it is rolled back; where the code catches the resulting \<open>ConflictError\<close> and goes on, the
  next statement (or the commit) raises \<open>PendingRollbackError\<close>, which is what those branches do here.
\<close>

section \<open>Chart of accounts\<close>

definition create_account :: "uuid \<Rightarrow> string \<Rightarrow> string \<Rightarrow> account_type \<Rightarrow> account service" where
  "create_account tenant code name ty =
     bindM (create_account_row \<lparr>a_id = 0, a_tenant = tenant, a_code = upper (strip code),
         a_name = name, a_type = ty, a_active = True\<rparr>) (\<lambda>created.
     thenM (audit_by tenant None ''finance.chart_of_accounts.created''
         (target ''chart_of_account'' (a_id created))
         (Some [(''code'', PStr (a_code created)), (''name'', PStr (a_name created))]))
     (returnM created))"

definition deactivate_account :: "uuid \<Rightarrow> uuid \<Rightarrow> account service" where
  "deactivate_account tenant i =
     bindM (deactivate_account_row i tenant) (\<lambda>found.
     bindM (the_or_raise (NotFoundError ''Account'') found) (\<lambda>a.
     thenM (audit_by tenant None ''finance.chart_of_accounts.deactivated''
         (target ''chart_of_account'' (a_id a)) (Some [(''code'', PStr (a_code a))]))
     (returnM a)))"

section \<open>Journal entries\<close>

record journal_line_input =
  in_code :: string
  in_debit :: "decimal option"
  in_credit :: "decimal option"

definition normalize_amount :: "decimal option \<Rightarrow> decimal option" where
  "normalize_amount = map_option (quantize 4)"

definition new_line :: "uuid \<Rightarrow> decimal option \<Rightarrow> decimal option \<Rightarrow> journal_line" where
  "new_line i debit credit = \<lparr>jl_id = 0, jl_tenant = 0, jl_entry = 0, jl_account = i,
     jl_debit = debit, jl_credit = credit, jl_currency = ''USD''\<rparr>"

definition new_entry ::
  "uuid \<Rightarrow> date \<Rightarrow> string option \<Rightarrow> entry_status \<Rightarrow> string \<Rightarrow> string option \<Rightarrow> int option \<Rightarrow>
   uuid option \<Rightarrow> journal_entry" where
  "new_entry tenant entry_date memo status source ref posted_at posted_by =
     \<lparr>je_id = 0, je_tenant = tenant, je_date = entry_date, je_memo = memo, je_status = status,
      je_source = source, je_ref = ref, je_posted_at = posted_at, je_posted_by = posted_by,
      je_voided_at = None\<rparr>"

definition resolve_line :: "uuid \<Rightarrow> journal_line_input \<Rightarrow> journal_line service" where
  "resolve_line tenant line =
     bindM (get_account_by_code (in_code line) tenant) (\<lambda>found.
     bindM (the_or_raise (NotFoundError ''Account with code'') found) (\<lambda>a.
     thenM (requireM (a_active a) (ConflictError ''Account is deactivated''))
     (let debit = normalize_amount (in_debit line); credit = normalize_amount (in_credit line);
          amount = (case debit of Some x \<Rightarrow> x | None \<Rightarrow> (case credit of Some x \<Rightarrow> x | None \<Rightarrow> 0)) in
      thenM (requireM ((debit = None) \<noteq> (credit = None))
         (ValidationError ''Line must set exactly one of debit or credit''))
      (thenM (requireM (\<not> amount \<le> 0) (ValidationError ''Line must be > 0''))
      (returnM (new_line (a_id a) debit credit))))))"

definition create_manual_entry ::
  "uuid \<Rightarrow> date \<Rightarrow> string option \<Rightarrow> journal_line_input list \<Rightarrow> entry_doc service" where
  "create_manual_entry tenant entry_date memo ls =
     thenM (requireM (ls \<noteq> []) (ValidationError ''A journal entry must have at least one line''))
     (bindM (mapM (resolve_line tenant) ls) (\<lambda>resolved.
      create_journal_entry
        (new_entry tenant entry_date memo ENTRY_DRAFT ''manual'' None None None, resolved)))"

definition get_journal_entry :: "uuid \<Rightarrow> uuid \<Rightarrow> entry_doc service" where
  "get_journal_entry tenant i = bindM (get_journal_entry_row i tenant)
     (the_or_raise (NotFoundError ''Journal entry''))"

definition debit_of :: "journal_line \<Rightarrow> decimal" where
  "debit_of l = (case jl_debit l of None \<Rightarrow> 0 | Some x \<Rightarrow> x)"

definition credit_of :: "journal_line \<Rightarrow> decimal" where
  "credit_of l = (case jl_credit l of None \<Rightarrow> 0 | Some x \<Rightarrow> x)"

definition debit_total :: "journal_line list \<Rightarrow> decimal" where
  "debit_total ls = sum_list (map debit_of (filter (\<lambda>l. jl_debit l \<noteq> None) ls))"

definition credit_total :: "journal_line list \<Rightarrow> decimal" where
  "credit_total ls = sum_list (map credit_of (filter (\<lambda>l. jl_credit l \<noteq> None) ls))"

definition complete_posting ::
  "uuid \<Rightarrow> uuid option \<Rightarrow> uuid \<Rightarrow> int \<Rightarrow> entry_doc service" where
  "complete_posting tenant user i posted_at =
     bindM (get_journal_entry tenant i) (\<lambda>doc. case doc of (e, ls) \<Rightarrow>
     thenM (requireM (je_status e = ENTRY_DRAFT) (ConflictError ''Journal entry could not be posted''))
     (bindM (is_period_closed (je_date e) tenant) (\<lambda>closed.
     thenM (requireM (\<not> closed) (ConflictError ''Entry date falls in a closed fiscal period''))
     (bindM (post_journal_entry_row i tenant user posted_at) (\<lambda>posted.
     bindM (the_or_raise (ConflictError ''Journal entry could not be posted'') posted) (\<lambda>p.
     thenM (audit_by tenant user ''finance.journal_entry.posted'' (target ''journal_entry'' i)
         (Some [(''entry_date'', PDate (je_date (fst p))), (''memo'', opt_str (je_memo (fst p)))]))
     (thenM (finance_event \<lparr>ev_topic = ''finance.journal_entry.posted'', ev_tenant = tenant,
         ev_payload = [(''entry_id'', PId i)]\<rparr>)
     (returnM p))))))))"

text \<open>
  The optional approval engine is an argument (\<open>JournalEntryApprovalPort\<close>), as it is of the
  service's constructor.
\<close>

type_synonym approval_port = "uuid \<Rightarrow> uuid \<Rightarrow> entry_doc \<Rightarrow> decimal \<Rightarrow> entry_doc service"

definition post_journal_entry ::
  "approval_port option \<Rightarrow> uuid \<Rightarrow> uuid \<Rightarrow> uuid \<Rightarrow> entry_doc service" where
  "post_journal_entry approval tenant user i =
     bindM (get_journal_entry tenant i) (\<lambda>doc. case doc of (e, ls) \<Rightarrow>
     thenM (requireM (je_status e = ENTRY_DRAFT) (ConflictError ''Only draft journal entries can be posted''))
     (bindM (is_period_closed (je_date e) tenant) (\<lambda>closed.
     thenM (requireM (\<not> closed) (ConflictError ''Entry date falls in a closed fiscal period''))
     (thenM (requireM (debit_total ls = credit_total ls) (ValidationError ''Journal entry is not balanced''))
     (case approval of
        Some submit \<Rightarrow> submit tenant user (e, ls) (debit_total ls)
      | None \<Rightarrow> bindM (getsM clk) (\<lambda>c. complete_posting tenant (Some user) i (instant c)))))))"

definition void_journal_entry :: "uuid \<Rightarrow> uuid \<Rightarrow> uuid \<Rightarrow> entry_doc service" where
  "void_journal_entry tenant user i =
     bindM (get_journal_entry tenant i) (\<lambda>doc.
     thenM (requireM (je_status (fst doc) = ENTRY_DRAFT) (ConflictError ''Only draft journal entries can be voided''))
     (bindM (getsM clk) (\<lambda>c.
     bindM (void_journal_entry_row i tenant (instant c)) (\<lambda>voided.
     bindM (the_or_raise (ConflictError ''Journal entry could not be voided'') voided) (\<lambda>v.
     thenM (audit_by tenant (Some user) ''finance.journal_entry.voided'' (target ''journal_entry'' i)
         (Some [(''entry_date'', PDate (je_date (fst doc)))]))
     (returnM v))))))"

text \<open>\<open>FinanceAutomationService.reverse_journal_entry\<close> (\<open>core/features/finance/automation.py\<close>).\<close>

definition reverse_journal_entry :: "uuid \<Rightarrow> uuid \<Rightarrow> uuid \<Rightarrow> entry_doc service" where
  "reverse_journal_entry tenant user i =
     bindM (get_journal_entry_row i tenant) (\<lambda>found.
     bindM (the_or_raise (NotFoundError ''Journal entry'') found) (\<lambda>doc.
     thenM (requireM (je_status (fst doc) = ENTRY_POSTED) (NotFoundError ''Only posted journal entries can be reversed''))
     (bindM (reverse_journal_entry_row i tenant) (\<lambda>changed.
     bindM (the_or_raise (NotFoundError ''Journal entry could not be reversed'') changed) (\<lambda>r.
     thenM (audit_by tenant (Some user) ''finance.journal_entry.reversed'' (target ''journal_entry'' i) None)
     (returnM r))))))"

section \<open>Fiscal periods\<close>

definition overlaps :: "date \<Rightarrow> date \<Rightarrow> fiscal_period \<Rightarrow> bool" where
  "overlaps start_date end_date p \<longleftrightarrow> fp_start p \<le> end_date \<and> start_date \<le> fp_end p"

definition create_fiscal_period :: "uuid \<Rightarrow> string \<Rightarrow> date \<Rightarrow> date \<Rightarrow> fiscal_period service" where
  "create_fiscal_period tenant name start_date end_date =
     thenM (requireM (\<not> end_date < start_date)
         (ValidationError ''Fiscal period end date must be on or after its start date''))
     (bindM (list_fiscal_periods tenant) (\<lambda>existing.
     thenM (requireM (\<not> list_ex (overlaps start_date end_date) existing)
         (ConflictError ''Fiscal period overlaps''))
     (bindM (create_fiscal_period_row \<lparr>fp_id = 0, fp_tenant = tenant, fp_name = name,
         fp_start = start_date, fp_end = end_date, fp_closed = False\<rparr>) (\<lambda>created.
     thenM (audit_by tenant None ''finance.fiscal_period.created'' (target ''fiscal_period'' (fp_id created))
         (Some [(''name'', PStr (fp_name created)), (''start_date'', PDate (fp_start created)),
           (''end_date'', PDate (fp_end created))]))
     (returnM created)))))"

definition close_fiscal_period :: "uuid \<Rightarrow> uuid \<Rightarrow> fiscal_period service" where
  "close_fiscal_period tenant i =
     bindM (close_fiscal_period_row i tenant) (\<lambda>found.
     bindM (the_or_raise (NotFoundError ''Fiscal period'') found) (\<lambda>p.
     thenM (audit_by tenant None ''finance.fiscal_period.closed'' (target ''fiscal_period'' i)
         (Some [(''name'', PStr (fp_name p))]))
     (returnM p)))"

section \<open>Currencies and exchange rates\<close>

definition configured_currency :: "uuid \<Rightarrow> db \<Rightarrow> string option" where
  "configured_currency tenant d =
     (case select_one (\<lambda>p. ps_tenant p = tenant) (payroll_settings d) of
        None \<Rightarrow> None
      | Some p \<Rightarrow> if ps_currency p = [] then None else Some (ps_currency p))"

text \<open>\<open>_default_currency_code\<close>; \<open>dc\<close> is \<open>settings.DEFAULT_CURRENCY\<close>.\<close>

definition default_currency_of :: "string \<Rightarrow> uuid \<Rightarrow> db \<Rightarrow> string" where
  "default_currency_of dc tenant d =
     (case configured_currency tenant d of Some c \<Rightarrow> upper (strip c) | None \<Rightarrow> upper (strip dc))"

definition default_currency :: "string \<Rightarrow> uuid \<Rightarrow> string service" where
  "default_currency dc tenant = readM (default_currency_of dc tenant)"

definition get_exchange_rate :: "uuid \<Rightarrow> string \<Rightarrow> string \<Rightarrow> date \<Rightarrow> exchange_rate service" where
  "get_exchange_rate tenant base quote on_date = bindM (get_exchange_rate_row tenant base quote on_date)
     (the_or_raise (NotFoundError ''No exchange rate''))"

definition set_exchange_rate ::
  "uuid \<Rightarrow> string \<Rightarrow> string \<Rightarrow> date \<Rightarrow> decimal \<Rightarrow> exchange_rate service" where
  "set_exchange_rate tenant base quote effective rate =
     (let b = upper (strip base); q = upper (strip quote) in
      thenM (requireM (b \<in> set SUPPORTED_CURRENCIES) (ValidationError ''Unsupported currency''))
      (thenM (requireM (q \<in> set SUPPORTED_CURRENCIES) (ValidationError ''Unsupported currency''))
      (thenM (requireM (b \<noteq> q) (ValidationError ''Base and quote currencies must differ''))
      (thenM (requireM (\<not> rate \<le> 0) (ValidationError ''Exchange rate must be positive''))
      (upsert_exchange_rate \<lparr>x_tenant = tenant, x_base = b, x_quote = q, x_effective = effective,
         x_rate = quantize 6 rate\<rparr>)))))"

definition exchange_rate_to_default :: "string \<Rightarrow> uuid \<Rightarrow> string \<Rightarrow> date \<Rightarrow> exchange_rate service" where
  "exchange_rate_to_default dc tenant quote on_date =
     bindM (default_currency dc tenant) (\<lambda>base.
     (let q = upper (strip quote) in
      if q = base then returnM \<lparr>x_tenant = tenant, x_base = base, x_quote = base,
        x_effective = on_date, x_rate = 1\<rparr>
      else get_exchange_rate tenant base q on_date))"

definition resolve_invoice_currency :: "string \<Rightarrow> uuid \<Rightarrow> string option \<Rightarrow> string service" where
  "resolve_invoice_currency dc tenant requested =
     bindM (case requested of
         Some c \<Rightarrow> if c = [] then default_currency dc tenant else returnM c
       | None \<Rightarrow> default_currency dc tenant) (\<lambda>c.
     thenM (requireM (upper (strip c) \<in> set SUPPORTED_CURRENCIES) (ValidationError ''Unsupported currency''))
     (returnM (upper (strip c))))"

definition resolve_exchange_rate :: "string \<Rightarrow> uuid \<Rightarrow> string \<Rightarrow> date \<Rightarrow> decimal service" where
  "resolve_exchange_rate dc tenant code on_date =
     bindM (default_currency dc tenant) (\<lambda>base.
     if code = base then returnM 1
     else bindM (get_exchange_rate_row tenant base code on_date) (\<lambda>found.
       bindM (the_or_raise (ValidationError ''No exchange rate on file'') found)
         (\<lambda>r. returnM (quantize 6 (x_rate r)))))"

end
