(* ===== verification/Billing_Service.thy ===== *)
theory Billing_Service
  imports Finance_Service
begin

text \<open>
  The receivables side of \<open>FinanceService\<close>: invoices from requests and from sales orders, revenue
  recognition, payments, cost of goods sold and the payroll accrual.
\<close>

section \<open>Invoices\<close>

record invoice_line_input =
  in_description :: string
  in_account :: string
  in_quantity :: decimal
  in_price :: decimal

definition new_invoice_line ::
  "nat \<Rightarrow> string \<Rightarrow> uuid \<Rightarrow> decimal \<Rightarrow> decimal \<Rightarrow> invoice_line" where
  "new_invoice_line n description acc quantity price =
     \<lparr>il_id = 0, il_tenant = 0, il_invoice = 0, il_no = n, il_description = description,
      il_account = acc, il_quantity = quantity, il_price = price,
      il_amount = quantize 4 (quantity * price)\<rparr>"

definition check_invoice_line :: "decimal \<Rightarrow> decimal \<Rightarrow> unit service" where
  "check_invoice_line quantity price =
     thenM (requireM (\<not> quantity \<le> 0) (ValidationError ''Invoice line quantity must be positive''))
       (requireM (\<not> price < 0) (ValidationError ''Invoice line unit price must be non-negative''))"

definition resolve_invoice_line :: "uuid \<Rightarrow> nat \<times> invoice_line_input \<Rightarrow> invoice_line service" where
  "resolve_invoice_line tenant x = (case x of (n, line) \<Rightarrow>
     bindM (get_account_by_code (in_account line) tenant) (\<lambda>found.
     bindM (the_or_raise (NotFoundError ''Account with code'') found) (\<lambda>a.
     thenM (requireM (a_active a) (ConflictError ''Account is deactivated''))
     (thenM (check_invoice_line (in_quantity line) (in_price line))
     (returnM (new_invoice_line n (in_description line) (a_id a) (in_quantity line) (in_price line)))))))"

definition invoice_total :: "invoice_line list \<Rightarrow> decimal" where
  "invoice_total ls = sum_list (map il_amount ls)"

definition announce_invoice_created :: "uuid \<Rightarrow> invoice \<Rightarrow> uuid option \<Rightarrow> unit service" where
  "announce_invoice_created tenant v user =
     thenM (audit_by tenant user ''finance.invoice.created'' (target ''invoice'' (i_id v))
       (Some [(''invoice_number'', PStr (i_number v)), (''total'', PDec (i_total v)),
         (''source'', PStr (i_source v))]))
     (finance_event \<lparr>ev_topic = ''finance.invoice.created'', ev_tenant = tenant,
       ev_payload = [(''invoice_id'', PId (i_id v)), (''invoice_number'', PStr (i_number v))]\<rparr>)"

definition create_manual_invoice ::
  "string \<Rightarrow> uuid \<Rightarrow> uuid \<Rightarrow> uuid \<Rightarrow> clock \<Rightarrow> date \<Rightarrow> invoice_line_input list \<Rightarrow> string option \<Rightarrow>
   invoice_doc service" where
  "create_manual_invoice dc tenant user customer invoice_date due_date ls requested =
     thenM (requireM (ls \<noteq> []) (ValidationError ''An invoice must have at least one line''))
     (thenM (requireM (\<not> due_date < today invoice_date)
         (ValidationError ''Invoice due date must be on or after its invoice date''))
     (bindM (mapM (resolve_invoice_line tenant) (enumerate 1 ls)) (\<lambda>invoice_lines.
     bindM (resolve_invoice_currency dc tenant requested) (\<lambda>code.
     bindM (resolve_exchange_rate dc tenant code (today invoice_date)) (\<lambda>rate.
     bindM (next_invoice_number (year invoice_date)) (\<lambda>number.
     bindM (create_invoice (\<lparr>i_id = 0, i_tenant = tenant, i_number = number, i_customer = customer,
         i_date = today invoice_date, i_due = due_date, i_status = INVOICE_DRAFT,
         i_total = invoice_total invoice_lines, i_currency = code, i_rate = rate,
         i_source = ''manual'', i_ref = None, i_issued_at = None, i_approved_at = None,
         i_voided_at = None\<rparr>, invoice_lines)) (\<lambda>created.
     thenM (announce_invoice_created tenant (fst created) (Some user))
     (returnM created))))))))"

text \<open>\<open>SalesOrderForInvoicing\<close> and its lines (\<open>core/features/finance/ports.py\<close>).\<close>

record billing_line =
  b_description :: string
  b_account :: "uuid option"
  b_quantity :: decimal
  b_price :: decimal

record billing_order =
  b_tenant :: uuid
  b_order :: string
  b_customer :: uuid
  b_date :: clock
  b_due :: date
  b_lines :: "billing_line list"
  b_currency :: string

definition billing_account :: "uuid \<Rightarrow> billing_line \<Rightarrow> account service" where
  "billing_account tenant line = (case b_account line of
     Some i \<Rightarrow> bindM (get_account_by_id i tenant) (the_or_raise (NotFoundError ''Account''))
   | None \<Rightarrow> bindM (get_account_by_code ''4000'' tenant) (the_or_raise (NotFoundError ''Revenue account'')))"

definition resolve_billing_line :: "uuid \<Rightarrow> nat \<times> billing_line \<Rightarrow> invoice_line service" where
  "resolve_billing_line tenant x = (case x of (n, line) \<Rightarrow>
     bindM (billing_account tenant line) (\<lambda>a.
     thenM (check_invoice_line (b_quantity line) (b_price line))
     (returnM (new_invoice_line n (b_description line) (a_id a) (b_quantity line) (b_price line)))))"

definition order_currency :: "string \<Rightarrow> string \<Rightarrow> string" where
  "order_currency dc c = upper (strip (if c = [] then dc else c))"

definition create_from_order :: "string \<Rightarrow> billing_order \<Rightarrow> invoice_doc service" where
  "create_from_order dc order =
     bindM (get_invoice_by_source_ref ''sales_order'' (b_order order) (b_tenant order)) (\<lambda>existing.
     case existing of
       Some v \<Rightarrow> returnM v
     | None \<Rightarrow>
     bindM (mapM (resolve_billing_line (b_tenant order)) (enumerate 1 (b_lines order))) (\<lambda>invoice_lines.
     let code = order_currency dc (b_currency order) in
     bindM (resolve_exchange_rate dc (b_tenant order) code (today (b_date order))) (\<lambda>rate.
     bindM (next_invoice_number (year (b_date order))) (\<lambda>number.
     bindM (getsM clk) (\<lambda>c.
     bindM (catchM
       (create_invoice (\<lparr>i_id = 0, i_tenant = b_tenant order, i_number = number,
         i_customer = b_customer order, i_date = today (b_date order), i_due = b_due order,
         i_status = INVOICE_ISSUED, i_total = invoice_total invoice_lines, i_currency = code,
         i_rate = rate, i_source = ''sales_order'', i_ref = Some (b_order order),
         i_issued_at = Some (instant c), i_approved_at = None, i_voided_at = None\<rparr>, invoice_lines))
       (\<lambda>e. raiseM (case e of ConflictError _ \<Rightarrow> PendingRollbackError | _ \<Rightarrow> e))) (\<lambda>created.
     thenM (announce_invoice_created (b_tenant order) (fst created) None)
     (returnM created)))))))"

definition get_invoice :: "uuid \<Rightarrow> uuid \<Rightarrow> invoice_doc service" where
  "get_invoice tenant i = bindM (get_invoice_row i tenant) (the_or_raise (NotFoundError ''Invoice''))"

definition issue_invoice :: "uuid \<Rightarrow> uuid \<Rightarrow> uuid \<Rightarrow> invoice_doc service" where
  "issue_invoice tenant user i =
     bindM (get_invoice tenant i) (\<lambda>doc.
     thenM (requireM (i_status (fst doc) = INVOICE_DRAFT) (ConflictError ''Only draft invoices can be issued''))
     (bindM (getsM clk) (\<lambda>c.
     bindM (issue_invoice_row i tenant (instant c)) (\<lambda>found.
     bindM (the_or_raise (ConflictError ''Invoice could not be issued'') found) (\<lambda>v.
     thenM (audit_by tenant (Some user) ''finance.invoice.issued'' (target ''invoice'' i)
         (Some [(''invoice_number'', PStr (i_number (fst v)))]))
     (returnM v))))))"

text \<open>\<open>revenue_legs.get(account, 0) + amount\<close>, over the lines of the invoice.\<close>

fun add_leg :: "uuid \<Rightarrow> decimal \<Rightarrow> (uuid \<times> decimal) list \<Rightarrow> (uuid \<times> decimal) list" where
  "add_leg acc x [] = [(acc, x)]"
| "add_leg acc x ((b, y) # legs) = (if b = acc then (b, y + x) # legs else (b, y) # add_leg acc x legs)"

definition revenue_legs :: "invoice_line list \<Rightarrow> (uuid \<times> decimal) list" where
  "revenue_legs ls = sort_key fst (fold (\<lambda>l. add_leg (il_account l) (il_amount l)) ls [])"

definition accrual_lines :: "uuid \<Rightarrow> invoice_doc \<Rightarrow> journal_line list" where
  "accrual_lines ar doc = new_line ar (Some (i_total (fst doc))) None #
     map (\<lambda>(acc, x). new_line acc None (Some x)) (revenue_legs (snd doc))"

definition accrual_entry :: "uuid \<Rightarrow> uuid \<Rightarrow> int \<Rightarrow> invoice \<Rightarrow> journal_entry" where
  "accrual_entry tenant user now v =
     new_entry tenant (i_date v) (Some (''Revenue recognition for invoice '' @ i_number v))
       ENTRY_POSTED ''invoice'' (Some (uuid_text (i_id v))) (Some now) (Some user)"

definition approve_invoice :: "uuid \<Rightarrow> uuid \<Rightarrow> uuid \<Rightarrow> invoice_doc service" where
  "approve_invoice tenant user i =
     bindM (get_invoice tenant i) (\<lambda>doc. case doc of (v, ls) \<Rightarrow>
     thenM (requireM (i_status v = INVOICE_ISSUED) (ConflictError ''Only issued invoices can be approved''))
     (bindM (is_period_closed (i_date v) tenant) (\<lambda>closed.
     thenM (requireM (\<not> closed) (ConflictError ''Invoice date falls in a closed fiscal period''))
     (bindM (get_account_by_code ''1100'' tenant) (\<lambda>found.
     bindM (the_or_raise (NotFoundError ''AR account'') found) (\<lambda>ar.
     bindM (getsM clk) (\<lambda>c.
     bindM (create_journal_entry
       (accrual_entry tenant user (instant c) v, accrual_lines (a_id ar) (v, ls))) (\<lambda>revenue.
     bindM (approve_invoice_row i tenant (instant c)) (\<lambda>approved.
     bindM (the_or_raise (ConflictError ''Invoice could not be approved'') approved) (\<lambda>w.
     thenM (audit_by tenant (Some user) ''finance.invoice.approved'' (target ''invoice'' i)
         (Some [(''invoice_number'', PStr (i_number (fst w))), (''revenue_entry_id'', PId (je_id (fst revenue)))]))
     (thenM (finance_event \<lparr>ev_topic = ''finance.invoice.approved'', ev_tenant = tenant,
         ev_payload = [(''invoice_id'', PId i), (''invoice_number'', PStr (i_number (fst w))),
           (''revenue_entry_id'', PId (je_id (fst revenue)))]\<rparr>)
     (thenM (record_timeline_event tenant ''customer'' (i_customer v) ''invoice.approved''
         (''Invoice '' @ i_number (fst w) @ '' approved'') None
         [(''invoice_id'', PId i), (''invoice_number'', PStr (i_number (fst w))), (''total'', PDec (i_total v))])
     (returnM w)))))))))))))"

definition void_invoice :: "uuid \<Rightarrow> uuid \<Rightarrow> uuid \<Rightarrow> invoice_doc service" where
  "void_invoice tenant user i =
     bindM (get_invoice tenant i) (\<lambda>doc.
     thenM (requireM (i_status (fst doc) \<in> set [INVOICE_DRAFT, INVOICE_ISSUED])
         (ConflictError ''Only draft or issued invoices can be voided''))
     (bindM (getsM clk) (\<lambda>c.
     bindM (void_invoice_row i tenant (instant c)) (\<lambda>found.
     bindM (the_or_raise (ConflictError ''Invoice could not be voided'') found) (\<lambda>v.
     thenM (audit_by tenant (Some user) ''finance.invoice.voided'' (target ''invoice'' i)
         (Some [(''invoice_number'', PStr (i_number (fst v)))]))
     (returnM v))))))"

section \<open>Payments\<close>

definition preflight_payment :: "uuid \<Rightarrow> uuid \<Rightarrow> decimal \<Rightarrow> (invoice_doc \<times> decimal) service" where
  "preflight_payment tenant i received =
     bindM (get_invoice_for_update i tenant) (\<lambda>found.
     bindM (the_or_raise (NotFoundError ''Invoice'') found) (\<lambda>doc.
     thenM (requireM (i_status (fst doc) = INVOICE_APPROVED)
         (ConflictError ''Only approved invoices can receive payments''))
     (thenM (requireM (\<not> received \<le> 0) (ValidationError ''Payment amount must be positive''))
     (bindM (sum_payments_for_invoice i tenant) (\<lambda>already_paid.
     let outstanding = i_total (fst doc) - already_paid in
     thenM (requireM (\<not> received > outstanding) (ValidationError ''Payment exceeds the outstanding balance''))
     (returnM (doc, outstanding)))))))"

text \<open>
  The idempotency key \<open>uuid5(NAMESPACE_URL, "{invoice_id}:{amount}:{paid_at.isoformat()}")\<close> is a
  name-based hash of the identifier, of the amount as written (\<open>amount_text\<close>) and of the time;
  the hash is the argument \<open>key\<close>. A handler's failed flush of the payment is a
  \<open>PendingRollbackError\<close>, as above.
\<close>

type_synonym payment_hash = "uuid \<Rightarrow> string \<Rightarrow> clock \<Rightarrow> uuid"

definition active_account :: "string \<Rightarrow> string \<Rightarrow> uuid \<Rightarrow> account service" where
  "active_account code missing tenant =
     bindM (get_account_by_code code tenant) (\<lambda>found. case found of
       None \<Rightarrow> raiseM (NotFoundError missing)
     | Some a \<Rightarrow> if a_active a then returnM a else raiseM (NotFoundError missing))"

definition payment_ref :: "payment_hash \<Rightarrow> uuid \<Rightarrow> string \<Rightarrow> clock \<Rightarrow> string" where
  "payment_ref key i amount_text paid_at = ''manual:'' @ uuid_text (key i amount_text paid_at)"

definition receipt_lines :: "uuid \<Rightarrow> uuid \<Rightarrow> decimal \<Rightarrow> journal_line list" where
  "receipt_lines cash ar received = [new_line cash (Some received) None, new_line ar None (Some received)]"

definition receipt_entry :: "uuid \<Rightarrow> int \<Rightarrow> invoice \<Rightarrow> payment \<Rightarrow> journal_entry" where
  "receipt_entry tenant now v p =
     new_entry tenant (today (pay_paid_at p))
       (Some (''Payment '' @ pay_number p @ '' applied to '' @ i_number v))
       ENTRY_POSTED ''payment'' (Some (uuid_text (pay_id p))) (Some now) None"

definition book_payment ::
  "uuid \<Rightarrow> uuid \<Rightarrow> invoice \<Rightarrow> payment \<Rightarrow> decimal \<Rightarrow> payment service" where
  "book_payment tenant user v created received =
     bindM (active_account ''1200'' ''Cash account'' tenant) (\<lambda>cash.
     bindM (active_account ''1100'' ''AR account'' tenant) (\<lambda>ar.
     bindM (getsM clk) (\<lambda>c.
     thenM (create_journal_entry
       (receipt_entry tenant (instant c) v created, receipt_lines (a_id cash) (a_id ar) received))
     (thenM (audit_by tenant (Some user) ''finance.payment.applied'' (target ''payment'' (pay_id created))
         (Some [(''payment_number'', PStr (pay_number created)), (''invoice_id'', PId (i_id v)),
           (''amount'', PDec (pay_amount created))]))
     (thenM (finance_event \<lparr>ev_topic = ''finance.payment.applied'', ev_tenant = tenant,
         ev_payload = [(''payment_id'', PId (pay_id created)),
           (''payment_number'', PStr (pay_number created)), (''invoice_id'', PId (i_id v))]\<rparr>)
     (thenM (record_timeline_event tenant ''customer'' (i_customer v) ''payment.applied''
         (''Payment '' @ pay_number created @ '' applied to '' @ i_number v) None
         [(''payment_id'', PId (pay_id created)), (''payment_number'', PStr (pay_number created)),
          (''invoice_id'', PId (i_id v)), (''amount'', PDec (pay_amount created)),
          (''method'', PStr (pay_method created))])
     (returnM created)))))))"

definition manual_payment ::
  "uuid \<Rightarrow> uuid \<Rightarrow> decimal \<Rightarrow> string \<Rightarrow> clock \<Rightarrow> string \<Rightarrow> string \<Rightarrow> payment" where
  "manual_payment tenant i received method paid_at ref number =
     \<lparr>pay_id = 0, pay_tenant = tenant, pay_number = number, pay_invoice = i,
      pay_amount = received, pay_method = method, pay_paid_at = paid_at,
      pay_status = PAYMENT_APPLIED, pay_source = ''manual'', pay_ref = Some ref\<rparr>"

definition apply_payment ::
  "payment_hash \<Rightarrow> uuid \<Rightarrow> uuid \<Rightarrow> uuid \<Rightarrow> decimal \<Rightarrow> string \<Rightarrow> string \<Rightarrow> clock \<Rightarrow> payment service" where
  "apply_payment key tenant user i received amount_text method paid_at =
     (let ref = payment_ref key i amount_text paid_at in
      bindM (get_payment_by_source_ref ''manual'' ref tenant) (\<lambda>existing. case existing of
        Some p \<Rightarrow> returnM p
      | None \<Rightarrow>
      bindM (preflight_payment tenant i received) (\<lambda>x. case x of (doc, outstanding) \<Rightarrow>
      bindM (next_payment_number (year paid_at)) (\<lambda>number.
      bindM (catchM
        (create_payment (manual_payment tenant i received method paid_at ref number))
        (\<lambda>e. raiseM (case e of ConflictError _ \<Rightarrow> PendingRollbackError | _ \<Rightarrow> e))) (\<lambda>created.
      thenM (if outstanding - received = 0
             then thenM (mark_invoice_paid i tenant) (returnM ()) else returnM ())
      (book_payment tenant user (fst doc) created received))))))"

definition get_payment :: "uuid \<Rightarrow> uuid \<Rightarrow> payment service" where
  "get_payment tenant i = bindM (get_payment_row i tenant) (the_or_raise (NotFoundError ''Payment''))"

section \<open>Cost of goods sold\<close>

text \<open>The lines are product, quantity and unit cost, as fulfilment reports them.\<close>

definition cogs_total :: "(uuid \<times> decimal \<times> decimal) list \<Rightarrow> decimal" where
  "cogs_total ls = sum_list (map (\<lambda>(_, quantity, unit_cost). quantize 4 (quantity * unit_cost)) ls)"

definition cogs_entry :: "uuid \<Rightarrow> string \<Rightarrow> date \<Rightarrow> int \<Rightarrow> journal_entry" where
  "cogs_entry tenant order_id entry_date now =
     new_entry tenant entry_date (Some (''COGS for sales order '' @ order_id)) ENTRY_POSTED
       ''cogs'' (Some order_id) (Some now) None"

definition post_cogs_for_order ::
  "uuid \<Rightarrow> string \<Rightarrow> date \<Rightarrow> (uuid \<times> decimal \<times> decimal) list \<Rightarrow> unit service" where
  "post_cogs_for_order tenant order_id entry_date ls =
     (let total = cogs_total ls in
      if ls = [] \<or> total \<le> 0 then returnM () else
      bindM (get_account_by_code ''5000'' tenant) (\<lambda>found.
      bindM (the_or_raise (NotFoundError ''COGS account'') found) (\<lambda>cogs.
      bindM (get_account_by_code ''1300'' tenant) (\<lambda>found'.
      bindM (the_or_raise (NotFoundError ''Inventory asset account'') found') (\<lambda>inv.
      bindM (getsM clk) (\<lambda>c.
      bindM (get_journal_entry_by_source_ref ''cogs'' order_id tenant) (\<lambda>existing. case existing of
        Some _ \<Rightarrow> returnM ()
      | None \<Rightarrow>
      bindM (catchM (create_journal_entry
        (cogs_entry tenant order_id entry_date (instant c),
         [new_line (a_id cogs) (Some total) None, new_line (a_id inv) None (Some total)]))
        (\<lambda>e. raiseM (case e of ConflictError _ \<Rightarrow> PendingRollbackError | _ \<Rightarrow> e))) (\<lambda>created.
      audit_by tenant None ''finance.journal_entry.posted'' (target ''journal_entry'' (je_id (fst created)))
        (Some [(''source'', PStr ''cogs''), (''source_ref'', PStr order_id), (''total_cogs'', PDec total)])))))))))"

section \<open>Payroll accrual\<close>

datatype accrual_outcome = MissingAccounts "string list" | AccrualBooked uuid

definition usable_account :: "uuid \<Rightarrow> db \<Rightarrow> string \<Rightarrow> account option" where
  "usable_account tenant d code =
     (case select_one (\<lambda>a. a_tenant a = tenant \<and> a_code a = code) (accounts d) of
        None \<Rightarrow> None | Some a \<Rightarrow> if a_active a then Some a else None)"

definition payroll_lines :: "uuid \<Rightarrow> uuid \<Rightarrow> uuid \<Rightarrow> decimal \<Rightarrow> decimal \<Rightarrow> journal_line list" where
  "payroll_lines salary accrued deductions_acc gross net =
     (let deductions = quantize 4 (gross - net) in
      [new_line salary (Some gross) None, new_line accrued None (Some net)] @
      (if deductions > 0 then [new_line deductions_acc None (Some deductions)] else []))"

definition create_payroll_accrual_draft ::
  "uuid \<Rightarrow> uuid \<Rightarrow> date \<Rightarrow> decimal \<Rightarrow> decimal \<Rightarrow> accrual_outcome service" where
  "create_payroll_accrual_draft tenant run_id entry_date gross net =
     bindM (readM (\<lambda>d. (usable_account tenant d ''5010'', usable_account tenant d ''2010'',
       usable_account tenant d ''2020''))) (\<lambda>found. case found of
       (Some salary, Some accrued, Some deductions) \<Rightarrow>
         bindM (catchM (create_journal_entry
           (new_entry tenant entry_date (Some (''Payroll accrual for run '' @ uuid_text run_id)) ENTRY_DRAFT
              ''payroll'' (Some (uuid_text run_id)) None None,
            payroll_lines (a_id salary) (a_id accrued) (a_id deductions) gross net))
           (\<lambda>e. raiseM (case e of ConflictError _ \<Rightarrow> PendingRollbackError | _ \<Rightarrow> e)))
           (\<lambda>created. returnM (AccrualBooked (je_id (fst created))))
     | (s, a, x) \<Rightarrow> returnM (MissingAccounts
         ((if s = None then [''5010''] else []) @ (if a = None then [''2010''] else []) @
          (if x = None then [''2020''] else []))))"

end
