(* ===== verification/Sales_Service.thy ===== *)
theory Sales_Service
  imports Inventory_Service Billing_Service
begin

text \<open>
  Sales orders: \<open>features/sales/repository.py\<close> and \<open>features/sales/service.py\<close>. An order is drafted
  from snapshots of catalog products, confirmed (credit check and stock reservation), fulfilled
  (invoice, stock consumption, cost of goods sold) or cancelled (reservation released). The
  service calls the inventory service for the stock and the finance service for the invoice and
  the cost entry, all in the request's one session.
\<close>

section \<open>The order tables\<close>

definition order_key :: "uuid \<Rightarrow> uuid \<Rightarrow> sales_order \<Rightarrow> bool" where
  "order_key tenant i r \<longleftrightarrow> o_tenant r = tenant \<and> o_id r = i"

definition order_line_of :: "uuid \<Rightarrow> uuid \<Rightarrow> order_line \<Rightarrow> bool" where
  "order_line_of tenant i l \<longleftrightarrow> ol_tenant l = tenant \<and> ol_order l = i"

definition order_checks :: "sales_order \<Rightarrow> (string \<times> (db \<Rightarrow> bool)) list" where
  "order_checks r =
     [(''ck_erp_sales_orders_amounts_non_negative'', \<lambda>_.
         0 \<le> o_subtotal r \<and> 0 \<le> o_discount r \<and> 0 \<le> o_tax r \<and> 0 \<le> o_total r),
      (''ck_erp_sales_orders_status_confirmed_at'', \<lambda>_.
         (o_status r \<in> {ORDER_CONFIRMED, ORDER_FULFILLED}) = (o_confirmed_at r \<noteq> None))]"

definition order_references :: "sales_order \<Rightarrow> (string \<times> (db \<Rightarrow> bool)) list" where
  "order_references r =
     [(''fk_erp_sales_orders_customer_tenant'', \<lambda>d. \<exists>c \<in> set (customers d).
         c_tenant c = o_tenant r \<and> c_id c = o_customer r),
      (''erp_sales_orders_currency_code_fkey'', \<lambda>_. o_currency r \<in> set SUPPORTED_CURRENCIES)]"

definition order_constraints :: "sales_order \<Rightarrow> (string \<times> (db \<Rightarrow> bool)) list" where
  "order_constraints r = order_checks r @
     [(''erp_sales_orders_pkey'', \<lambda>d. \<forall>q \<in> set (orders d). \<not> order_key (o_tenant r) (o_id r) q),
      (''uq_erp_sales_orders_tenant_number'', \<lambda>d. \<forall>q \<in> set (orders d).
         \<not> (o_tenant q = o_tenant r \<and> o_number q = o_number r))] @ order_references r"

definition order_line_constraints :: "order_line \<Rightarrow> (string \<times> (db \<Rightarrow> bool)) list" where
  "order_line_constraints l =
     [(''ck_erp_sales_order_lines_discount_non_negative'', \<lambda>_. 0 \<le> ol_discount l),
      (''ck_erp_sales_order_lines_quantity_positive'', \<lambda>_. 0 < ol_quantity l),
      (''ck_erp_sales_order_lines_tax_non_negative'', \<lambda>_. 0 \<le> ol_tax l),
      (''ck_erp_sales_order_lines_total_non_negative'', \<lambda>_. 0 \<le> ol_total l),
      (''ck_erp_sales_order_lines_unit_price_non_negative'', \<lambda>_. 0 \<le> ol_unit_price l),
      (''fk_erp_sales_order_lines_order_tenant'', \<lambda>d. \<exists>r \<in> set (orders d). order_key (ol_tenant l) (ol_order l) r),
      (''fk_erp_sales_order_lines_product_tenant'', \<lambda>d. \<exists>p \<in> set (products d).
         p_tenant p = ol_tenant l \<and> p_id p = ol_product l)]"

text \<open>The \<open>NUMERIC(18, 4)\<close> columns of a stored order and line.\<close>

definition stored_order :: "uuid \<Rightarrow> sales_order \<Rightarrow> sales_order" where
  "stored_order i r = r\<lparr>o_id := i, o_subtotal := numeric 4 (o_subtotal r), o_discount := numeric 4 (o_discount r),
     o_tax := numeric 4 (o_tax r), o_total := numeric 4 (o_total r)\<rparr>"

definition stored_order_line :: "uuid \<Rightarrow> uuid \<Rightarrow> order_line \<Rightarrow> order_line" where
  "stored_order_line k i l = l\<lparr>ol_id := k, ol_order := i, ol_quantity := numeric 4 (ol_quantity l),
     ol_unit_price := numeric 4 (ol_unit_price l), ol_discount := numeric 4 (ol_discount l),
     ol_tax := numeric 4 (ol_tax l), ol_total := numeric 4 (ol_total l)\<rparr>"

definition order_conflict :: "error \<Rightarrow> error" where
  "order_conflict e = (case e of
     IntegrityError c \<Rightarrow>
       if c = ''uq_erp_sales_orders_tenant_number'' then ConflictError ''An order with this number already exists''
       else if c = ''erp_sales_orders_pkey'' then ConflictError ''The resource conflicts with existing data''
       else e
   | _ \<Rightarrow> e)"

definition insert_order_lines :: "uuid \<Rightarrow> order_line list \<Rightarrow> unit service" where
  "insert_order_lines i ls =
     bindM (mapM (\<lambda>l. bindM fresh_id (\<lambda>k. returnM (stored_order_line k i l))) ls) (\<lambda>rows.
     thenM (check_all (concat (map order_line_constraints rows)))
       (writeM (\<lambda>d. d\<lparr>order_lines := order_lines d @ rows\<rparr>)))"

definition create_order_row :: "sales_order \<Rightarrow> order_line list \<Rightarrow> sales_order service" where
  "create_order_row r ls = bindM fresh_id (\<lambda>i.
     let row = stored_order i r in
     thenM (catchM (check_all (order_constraints row)) (\<lambda>e. raiseM (order_conflict e)))
     (thenM (writeM (\<lambda>d. d\<lparr>orders := orders d @ [row]\<rparr>))
     (thenM (insert_order_lines i ls)
     (returnM row))))"

definition get_order_row :: "uuid \<Rightarrow> uuid \<Rightarrow> sales_order option service" where
  "get_order_row i tenant = readM (\<lambda>d. select_one (order_key tenant i) (orders d))"

definition get_order_by_number :: "string \<Rightarrow> uuid \<Rightarrow> sales_order option service" where
  "get_order_by_number number tenant =
     readM (\<lambda>d. select_one (\<lambda>r. o_tenant r = tenant \<and> o_number r = number) (orders d))"

definition order_filter :: "uuid \<Rightarrow> order_status option \<Rightarrow> uuid option \<Rightarrow> sales_order \<Rightarrow> bool" where
  "order_filter tenant status customer r \<longleftrightarrow> o_tenant r = tenant \<and>
     opt_all (\<lambda>st. o_status r = st) status \<and> opt_all (\<lambda>c. o_customer r = c) customer"

text \<open>Newest first; \<open>created_at\<close> is the insertion order.\<close>

definition list_orders_rows ::
  "uuid \<Rightarrow> order_status option \<Rightarrow> uuid option \<Rightarrow> nat \<Rightarrow> nat \<Rightarrow> sales_order list service" where
  "list_orders_rows tenant status customer offset limit =
     readM (\<lambda>d. page offset limit (rev (filter (order_filter tenant status customer) (orders d))))"

definition count_orders_rows :: "uuid \<Rightarrow> order_status option \<Rightarrow> uuid option \<Rightarrow> nat service" where
  "count_orders_rows tenant status customer =
     readM (\<lambda>d. rows_matched (order_filter tenant status customer) (orders d))"

text \<open>The lines of one order share a \<open>created_at\<close>; the rows come in insertion order.\<close>

definition lines_of_order :: "uuid \<Rightarrow> uuid \<Rightarrow> db \<Rightarrow> order_line list" where
  "lines_of_order tenant i d = filter (order_line_of tenant i) (order_lines d)"

definition list_order_lines_rows :: "uuid \<Rightarrow> uuid \<Rightarrow> order_line list service" where
  "list_order_lines_rows i tenant = readM (lines_of_order tenant i)"

text \<open>
  The conditional \<open>UPDATE\<close> of one order on its status: the constraints hold of the new row, and the
  caller gets the updated order, or nothing when the guard loses.
\<close>

definition guarded_order_update ::
  "order_status list \<Rightarrow> (sales_order \<Rightarrow> sales_order) \<Rightarrow> uuid \<Rightarrow> uuid \<Rightarrow> bool service" where
  "guarded_order_update expected f i tenant =
     (let guard = (\<lambda>r. order_key tenant i r \<and> o_status r \<in> set expected) in
      bindM (readM (\<lambda>d. filter guard (orders d))) (\<lambda>rows.
      thenM (check_all (concat (map (\<lambda>r. order_checks (f r) @ order_references (f r)) rows)))
      (thenM (writeM (\<lambda>d. d\<lparr>orders := update_where guard f (orders d)\<rparr>))
      (returnM (rows \<noteq> [])))))"

definition order_transition ::
  "order_status list \<Rightarrow> (sales_order \<Rightarrow> sales_order) \<Rightarrow> uuid \<Rightarrow> uuid \<Rightarrow> sales_order option service" where
  "order_transition expected f i tenant =
     bindM (guarded_order_update expected f i tenant) (\<lambda>won.
       if won then get_order_row i tenant else returnM None)"

definition confirm_order_row :: "uuid \<Rightarrow> uuid \<Rightarrow> int \<Rightarrow> credit_check \<Rightarrow> sales_order option service" where
  "confirm_order_row i tenant confirmed_at credit = order_transition [ORDER_DRAFT]
     (\<lambda>r. r\<lparr>o_status := ORDER_CONFIRMED, o_confirmed_at := Some confirmed_at, o_credit := credit\<rparr>) i tenant"

definition fulfil_order_row :: "uuid \<Rightarrow> uuid \<Rightarrow> sales_order option service" where
  "fulfil_order_row i tenant = order_transition [ORDER_CONFIRMED] (\<lambda>r. r\<lparr>o_status := ORDER_FULFILLED\<rparr>) i tenant"

definition cancel_order_row :: "uuid \<Rightarrow> uuid \<Rightarrow> sales_order option service" where
  "cancel_order_row i tenant = order_transition [ORDER_DRAFT, ORDER_CONFIRMED]
     (\<lambda>r. r\<lparr>o_status := ORDER_CANCELLED, o_confirmed_at := None\<rparr>) i tenant"

definition mark_credit_check_failed :: "uuid \<Rightarrow> uuid \<Rightarrow> sales_order option service" where
  "mark_credit_check_failed i tenant = order_transition [ORDER_DRAFT] (\<lambda>r. r\<lparr>o_credit := CREDIT_FAILED\<rparr>) i tenant"

record order_totals =
  tot_subtotal :: decimal
  tot_discount :: decimal
  tot_tax :: decimal
  tot_total :: decimal

definition with_totals :: "(order_totals \<times> string) option \<Rightarrow> sales_order \<Rightarrow> sales_order" where
  "with_totals x r = (case x of None \<Rightarrow> r
   | Some (t, cur) \<Rightarrow> r\<lparr>o_subtotal := numeric 4 (tot_subtotal t), o_discount := numeric 4 (tot_discount t),
       o_tax := numeric 4 (tot_tax t), o_total := numeric 4 (tot_total t), o_currency := cur\<rparr>)"

definition update_draft_row ::
  "uuid \<Rightarrow> uuid \<Rightarrow> uuid option \<Rightarrow> order_line list option \<Rightarrow> (order_totals \<times> string) option \<Rightarrow> sales_order option service" where
  "update_draft_row i tenant customer ls totals =
     bindM (guarded_order_update [ORDER_DRAFT]
       (\<lambda>r. with_totals totals (r\<lparr>o_customer := (case customer of None \<Rightarrow> o_customer r | Some c \<Rightarrow> c)\<rparr>)) i tenant) (\<lambda>won.
     if \<not> won then returnM None
     else thenM (case ls of
         None \<Rightarrow> returnM ()
       | Some new \<Rightarrow> thenM (writeM (\<lambda>d. d\<lparr>order_lines := filter (\<lambda>l. \<not> order_line_of tenant i l) (order_lines d)\<rparr>))
           (insert_order_lines i new))
       (get_order_row i tenant))"

section \<open>Building the lines\<close>

record order_line_input =
  oi_product :: uuid
  oi_quantity :: decimal

definition require_customer :: "uuid \<Rightarrow> uuid \<Rightarrow> customer service" where
  "require_customer i tenant =
     bindM (readM (\<lambda>d. select_one (\<lambda>c. c_tenant c = tenant \<and> c_id c = i) (customers d)))
       (the_or_raise (NotFoundError ''Customer''))"

definition require_sold_product :: "uuid \<Rightarrow> uuid \<Rightarrow> product service" where
  "require_sold_product i tenant = bindM (get_product i tenant) (the_or_raise (NotFoundError ''Product''))"

text \<open>\<open>_quantize\<close>: to the money quantum of two decimals.\<close>

definition quantize_money :: "decimal \<Rightarrow> error + decimal" where
  "quantize_money x = quantize_ctx 2 x"

definition snapshot_line :: "uuid \<Rightarrow> product \<Rightarrow> decimal \<Rightarrow> decimal \<Rightarrow> order_line" where
  "snapshot_line tenant p qty tot =
     \<lparr>ol_id = 0, ol_tenant = tenant, ol_order = 0, ol_product = p_id p, ol_product_name = p_name p, ol_sku = p_sku p,
      ol_quantity = qty, ol_unit_price = amount (p_sell p), ol_discount = 0, ol_tax = 0, ol_total = tot\<rparr>"

text \<open>The loop of \<open>_build_lines\<close>: \<open>cur\<close> is the currency of the lines before.\<close>

fun build_lines_from :: "uuid \<Rightarrow> string option \<Rightarrow> order_line_input list \<Rightarrow> (order_line list \<times> string option) service" where
  "build_lines_from tenant cur [] = returnM ([], cur)"
| "build_lines_from tenant cur (x # xs) =
     thenM (requireM (\<not> oi_quantity x \<le> 0) (ValidationError ''Line quantity must be positive''))
     (bindM (require_sold_product (oi_product x) tenant) (\<lambda>p.
     thenM (requireM (p_active p) (ValidationError ''Product is deactivated''))
     (thenM (requireM (cur = None \<or> cur = Some (currency (p_sell p)))
         (ValidationError ''All order lines must share one currency''))
     (bindM (resultM (quantize_money (prec28 (oi_quantity x * amount (p_sell p))))) (\<lambda>tot.
     bindM (build_lines_from tenant (Some (currency (p_sell p))) xs) (\<lambda>(ls, last).
     returnM (snapshot_line tenant p (oi_quantity x) tot # ls, last)))))))"

definition build_lines :: "order_line_input list \<Rightarrow> uuid \<Rightarrow> (order_line list \<times> string) service" where
  "build_lines xs tenant =
     thenM (requireM (xs \<noteq> []) (ValidationError ''An order needs at least one line''))
     (bindM (build_lines_from tenant None xs) (\<lambda>(ls, cur).
     bindM (the_or_raise AssertionError cur) (\<lambda>c. returnM (ls, c))))"

definition order_totals_of :: "order_line list \<Rightarrow> order_totals service" where
  "order_totals_of ls =
     (let subtotal = sum_list (map ol_total ls);
          discount = sum_list (map ol_discount ls);
          tax = sum_list (map ol_tax ls) in
      bindM (resultM (quantize_money subtotal)) (\<lambda>a.
      bindM (resultM (quantize_money discount)) (\<lambda>b.
      bindM (resultM (quantize_money tax)) (\<lambda>c.
      bindM (resultM (quantize_money (subtotal - discount + tax))) (\<lambda>e.
      returnM \<lparr>tot_subtotal = a, tot_discount = b, tot_tax = c, tot_total = e\<rparr>)))))"

text \<open>A customer without a limit passes; the currencies of limit and total are not compared.\<close>

definition credit_check_passed :: "customer \<Rightarrow> decimal \<Rightarrow> bool" where
  "credit_check_passed c due = (case c_limit c of None \<Rightarrow> True | Some m \<Rightarrow> due \<le> amount m)"

section \<open>Drafting\<close>

definition next_order_number :: "uuid \<Rightarrow> string service" where
  "next_order_number tenant =
     bindM (next_value tenant ''sales_order'') (\<lambda>n. bindM (getsM clk) (\<lambda>c. returnM (document_number ''SO'' (year c) n)))"

definition order_target :: "uuid \<Rightarrow> string" where
  "order_target i = target ''sales_order'' i"

definition sales_event :: "string \<Rightarrow> uuid \<Rightarrow> payload \<Rightarrow> unit service" where
  "sales_event topic tenant details = apublish \<lparr>ev_topic = topic, ev_tenant = tenant, ev_payload = details\<rparr>"

definition emit_order_created :: "sales_order \<Rightarrow> string \<Rightarrow> unit service" where
  "emit_order_created r cur = sales_event ''sales.order.created'' (o_tenant r)
     [(''order_id'', PId (o_id r)), (''order_number'', PStr (o_number r)), (''customer_id'', PId (o_customer r)),
      (''total'', PDec (o_total r)), (''currency'', PStr cur)]"

definition emit_order_confirmed :: "sales_order \<Rightarrow> unit service" where
  "emit_order_confirmed r = sales_event ''sales.order.confirmed'' (o_tenant r)
     [(''order_id'', PId (o_id r)), (''order_number'', PStr (o_number r)), (''credit_check'', PStr ''passed'')]"

definition emit_order_fulfilled :: "sales_order \<Rightarrow> uuid \<Rightarrow> unit service" where
  "emit_order_fulfilled r v = sales_event ''sales.order.fulfilled'' (o_tenant r)
     [(''order_id'', PId (o_id r)), (''order_number'', PStr (o_number r)), (''invoice_id'', PId v)]"

definition emit_order_cancelled :: "sales_order \<Rightarrow> bool \<Rightarrow> unit service" where
  "emit_order_cancelled r released = sales_event ''sales.order.cancelled'' (o_tenant r)
     [(''order_id'', PId (o_id r)), (''order_number'', PStr (o_number r)), (''released_stock'', PBool released)]"

definition new_order :: "uuid \<Rightarrow> string \<Rightarrow> uuid \<Rightarrow> order_totals \<Rightarrow> string \<Rightarrow> sales_order" where
  "new_order tenant number customer tot cur =
     \<lparr>o_id = 0, o_tenant = tenant, o_number = number, o_customer = customer, o_status = ORDER_DRAFT,
      o_credit = CREDIT_PENDING, o_subtotal = tot_subtotal tot, o_discount = tot_discount tot, o_tax = tot_tax tot,
      o_total = tot_total tot, o_currency = cur, o_confirmed_at = None\<rparr>"

definition create_order :: "uuid \<Rightarrow> uuid \<Rightarrow> order_line_input list \<Rightarrow> sales_order service" where
  "create_order tenant customer xs =
     bindM (require_customer customer tenant) (\<lambda>c.
     thenM (requireM (c_active c) (ValidationError ''Customer is deactivated''))
     (bindM (build_lines xs tenant) (\<lambda>(ls, cur).
     bindM (next_order_number tenant) (\<lambda>number.
     bindM (order_totals_of ls) (\<lambda>tot.
     bindM (create_order_row (new_order tenant number customer tot cur) ls) (\<lambda>created.
     thenM (audit tenant ''sales.order.created'' (order_target (o_id created))
         (Some [(''order_number'', PStr (o_number created)), (''customer_id'', PId customer),
           (''total'', PDec (o_total created)), (''currency'', PStr cur)]))
     (thenM (emit_order_created created cur)
     (bindM (getsM ctx_user) (\<lambda>user.
     thenM (record_timeline_event tenant ''customer'' customer ''order.created''
         (''Order '' @ o_number created @ '' created'') user
         [(''order_id'', PId (o_id created)), (''order_number'', PStr (o_number created)),
          (''total'', PDec (o_total created)), (''currency'', PStr cur)])
     (returnM created)))))))))) "

definition get_order :: "uuid \<Rightarrow> uuid \<Rightarrow> sales_order service" where
  "get_order i tenant = bindM (get_order_row i tenant) (the_or_raise (NotFoundError ''Sales order''))"

definition list_order_lines :: "uuid \<Rightarrow> uuid \<Rightarrow> order_line list service" where
  "list_order_lines i tenant = thenM (get_order i tenant) (list_order_lines_rows i tenant)"

definition update_draft_order ::
  "uuid \<Rightarrow> uuid \<Rightarrow> uuid option \<Rightarrow> order_line_input list option \<Rightarrow> sales_order service" where
  "update_draft_order i tenant customer xs =
     thenM (case customer of None \<Rightarrow> returnM ()
       | Some c \<Rightarrow> bindM (require_customer c tenant) (\<lambda>r.
           requireM (c_active r) (ValidationError ''Customer is deactivated'')))
     (bindM (case xs of None \<Rightarrow> returnM None
       | Some new \<Rightarrow> bindM (build_lines new tenant) (\<lambda>(ls, cur).
           bindM (order_totals_of ls) (\<lambda>tot. returnM (Some (ls, tot, cur))))) (\<lambda>built.
     bindM (update_draft_row i tenant customer (map_option fst built) (map_option snd built)) (\<lambda>updated.
     case updated of
       None \<Rightarrow> bindM (get_order_row i tenant) (\<lambda>current. case current of
           None \<Rightarrow> raiseM (NotFoundError ''Sales order'')
         | Some _ \<Rightarrow> raiseM (IllegalStateTransitionError ''Cannot update an order in this status''))
     | Some r \<Rightarrow>
         thenM (audit tenant ''sales.order.updated'' (order_target i) (Some [(''customer_id'', opt_id customer)]))
           (returnM r))))"

section \<open>State transitions\<close>

text \<open>The warehouse of an order is the first active one, at every step anew.\<close>

definition resolve_warehouse :: "uuid \<Rightarrow> uuid service" where
  "resolve_warehouse tenant = bindM (list_warehouses tenant False 0 20) (\<lambda>ws. case ws of
     [] \<Rightarrow> raiseM (ValidationError ''No active warehouse available to process the order'')
   | w # _ \<Rightarrow> returnM (w_id w))"

text \<open>After a lost guard: the order as it is now, when another caller made the same transition.\<close>

definition reprobe :: "order_status \<Rightarrow> uuid \<Rightarrow> uuid \<Rightarrow> sales_order service" where
  "reprobe reached i tenant = bindM (get_order_row i tenant) (\<lambda>current. case current of
     Some r \<Rightarrow> if o_status r = reached then returnM r
       else raiseM (IllegalStateTransitionError ''Order was already transitioning'')
   | None \<Rightarrow> raiseM (IllegalStateTransitionError ''Order was already transitioning''))"

definition confirm_order :: "uuid \<Rightarrow> uuid \<Rightarrow> sales_order service" where
  "confirm_order i tenant =
     bindM (get_order i tenant) (\<lambda>order.
     if o_status order = ORDER_CONFIRMED then returnM order
     else thenM (requireM (o_status order = ORDER_DRAFT)
         (IllegalStateTransitionError ''Cannot confirm an order in this status''))
     (bindM (require_customer (o_customer order) tenant) (\<lambda>customer.
     bindM (list_order_lines_rows i tenant) (\<lambda>ls.
     bindM (resolve_warehouse tenant) (\<lambda>wid.
     if \<not> credit_check_passed customer (o_total order) then
       thenM (mark_credit_check_failed i tenant)
       (thenM (audit tenant ''sales.order.updated'' (order_target i) (Some [(''credit_check'', PStr ''failed'')]))
       (thenM commit
       (raiseM CreditLimitExceededError)))
     else
     bindM (getsM clk) (\<lambda>c.
     bindM (confirm_order_row i tenant (instant c) CREDIT_PASSED) (\<lambda>confirmed.
     case confirmed of
       None \<Rightarrow> reprobe ORDER_CONFIRMED i tenant
     | Some r \<Rightarrow>
         thenM (audit tenant ''sales.order.confirmed'' (order_target i)
             (Some [(''order_number'', PStr (o_number r)), (''credit_check'', PStr ''passed'')]))
         (thenM (emit_order_confirmed r)
         (thenM (reserve_order ''sale_order'' tenant wid i ls)
         (returnM r))))))))))"

definition order_for_invoicing :: "clock \<Rightarrow> sales_order \<Rightarrow> order_line list \<Rightarrow> billing_order" where
  "order_for_invoicing now r ls =
     \<lparr>b_tenant = o_tenant r, b_order = uuid_text (o_id r), b_customer = o_customer r, b_date = now,
      b_due = today now + 30,
      b_lines = map (\<lambda>l. \<lparr>b_description = ol_product_name l, b_account = None, b_quantity = ol_quantity l,
        b_price = ol_unit_price l\<rparr>) ls,
      b_currency = o_currency r\<rparr>"

definition fulfil_order :: "string \<Rightarrow> uuid \<Rightarrow> uuid \<Rightarrow> sales_order service" where
  "fulfil_order dc i tenant =
     bindM (get_order i tenant) (\<lambda>order.
     if o_status order = ORDER_FULFILLED then returnM order
     else thenM (requireM (o_status order = ORDER_CONFIRMED)
         (IllegalStateTransitionError ''Cannot fulfil an order in this status''))
     (bindM (list_order_lines_rows i tenant) (\<lambda>ls.
     bindM (resolve_warehouse tenant) (\<lambda>wid.
     bindM (getsM clk) (\<lambda>c.
     bindM (create_from_order dc (order_for_invoicing c order ls)) (\<lambda>inv_doc.
     bindM (fulfil_order_row i tenant) (\<lambda>fulfilled.
     case fulfilled of
       None \<Rightarrow> reprobe ORDER_FULFILLED i tenant
     | Some r \<Rightarrow>
         thenM (audit tenant ''sales.order.fulfilled'' (order_target i)
             (Some [(''order_number'', PStr (o_number r)), (''invoice_id'', PId (i_id (fst inv_doc)))]))
         (thenM (emit_order_fulfilled r (i_id (fst inv_doc)))
         (bindM (fulfil_order_lines ''sale_order'' tenant wid i ls) (\<lambda>costs.
         thenM (if costs = [] then returnM ()
             else thenM (post_cogs_for_order tenant (uuid_text i) (today c) costs) (returnM ()))
         (returnM r)))))))))))"

definition cancel_order :: "uuid \<Rightarrow> uuid \<Rightarrow> sales_order service" where
  "cancel_order i tenant =
     bindM (get_order i tenant) (\<lambda>order.
     if o_status order = ORDER_CANCELLED then returnM order
     else thenM (requireM (o_status order = ORDER_DRAFT \<or> o_status order = ORDER_CONFIRMED)
         (IllegalStateTransitionError ''Cannot cancel an order in this status''))
     (let released = (o_status order = ORDER_CONFIRMED) in
     bindM (cancel_order_row i tenant) (\<lambda>cancelled.
     case cancelled of
       None \<Rightarrow> reprobe ORDER_CANCELLED i tenant
     | Some r \<Rightarrow>
         thenM (audit tenant ''sales.order.cancelled'' (order_target i)
             (Some [(''order_number'', PStr (o_number r)), (''released_stock'', PBool released)]))
         (thenM (emit_order_cancelled r released)
         (thenM (if released
             then bindM (list_order_lines_rows i tenant) (\<lambda>ls.
               bindM (resolve_warehouse tenant) (\<lambda>wid. release_order ''sale_order'' tenant wid i ls))
             else commit)
         (returnM r))))))"

end
