(* ===== verification/Inventory_Ledger.thy ===== *)
theory Inventory_Ledger
  imports Inventory_Service
begin

text \<open>
  The stock ledger's invariant and the specifications of the repository's writes. The abstract
  state of the stock is the pair of ledger sums of every cell (tenant, product, warehouse); the
  materialized levels are a projection of it, and every service operation is specified by what
  it does to the sums.
\<close>

section \<open>Cells and their sums\<close>

type_synonym cell = "uuid \<times> uuid \<times> uuid"

definition level_cell :: "stock_level \<Rightarrow> cell" where
  "level_cell l = (l_tenant l, l_product l, l_warehouse l)"

definition movement_cell :: "stock_movement \<Rightarrow> cell" where
  "movement_cell m = (m_tenant m, m_product m, m_warehouse m)"

definition on_hand_in :: "db \<Rightarrow> cell \<Rightarrow> decimal" where
  "on_hand_in d c = (case c of (tenant, pid, wid) \<Rightarrow> ledger_on_hand tenant pid wid (movements d))"

definition reserved_in :: "db \<Rightarrow> cell \<Rightarrow> decimal" where
  "reserved_in d c = (case c of (tenant, pid, wid) \<Rightarrow> ledger_reserved tenant pid wid (movements d))"

lemma level_at_cell: "level_at tenant pid wid l \<longleftrightarrow> level_cell l = (tenant, pid, wid)"
  by (auto simp: level_at_def level_cell_def)

lemma movement_at_cell: "movement_at tenant pid wid m \<longleftrightarrow> movement_cell m = (tenant, pid, wid)"
  by (auto simp: movement_at_def movement_cell_def)

lemma ledger_on_hand_append:
  "ledger_on_hand tenant pid wid (ms @ [m]) = ledger_on_hand tenant pid wid ms +
     (if movement_cell m = (tenant, pid, wid) \<and> \<not> is_reservation (m_type m) then m_qty m else 0)"
  by (simp add: ledger_on_hand_def movement_at_cell)

lemma ledger_reserved_append:
  "ledger_reserved tenant pid wid (ms @ [m]) = ledger_reserved tenant pid wid ms +
     (if movement_cell m = (tenant, pid, wid) \<and> is_reservation (m_type m) then m_qty m else 0)"
  by (simp add: ledger_reserved_def movement_at_cell)

lemma on_hand_append:
  "movements d' = movements d @ [m] \<Longrightarrow> on_hand_in d' c = on_hand_in d c +
     (if movement_cell m = c \<and> \<not> is_reservation (m_type m) then m_qty m else 0)"
  by (auto simp: on_hand_in_def ledger_on_hand_append split: prod.split)

lemma reserved_append:
  "movements d' = movements d @ [m] \<Longrightarrow> reserved_in d' c = reserved_in d c +
     (if movement_cell m = c \<and> is_reservation (m_type m) then m_qty m else 0)"
  by (auto simp: reserved_in_def ledger_reserved_append split: prod.split)

lemma sums_cong:
  "movements d = movements d' \<Longrightarrow> on_hand_in d = on_hand_in d'"
  "movements d = movements d' \<Longrightarrow> reserved_in d = reserved_in d'"
  by (auto simp: on_hand_in_def reserved_in_def fun_eq_iff)

lemma sums_empty:
  assumes "c \<notin> movement_cell ` set (movements d)"
  shows "on_hand_in d c = 0" "reserved_in d c = 0"
proof -
  obtain t p w where c: "c = (t, p, w)" by (cases c)
  have "filter (movement_at t p w) (movements d) = []"
    using assms by (force simp: filter_empty_conv movement_at_cell c)
  then show "on_hand_in d c = 0" "reserved_in d c = 0"
    by (simp_all add: on_hand_in_def reserved_in_def ledger_on_hand_def ledger_reserved_def c)
qed

section \<open>The invariant\<close>

text \<open>
  Off the cells in \<open>X\<close> the levels are the ledger's sums; \<open>X\<close> is the cell a reservation is being
  written to, between its guarded update and its movement.
\<close>

definition stock_wf_off :: "cell set \<Rightarrow> db \<Rightarrow> bool" where
  "stock_wf_off X d \<longleftrightarrow>
     distinct (map level_cell (levels d)) \<and>
     (\<forall>l \<in> set (levels d). 0 \<le> l_reserved l \<and> l_reserved l \<le> l_on_hand l) \<and>
     (\<forall>l \<in> set (levels d). level_cell l \<notin> X \<longrightarrow>
        l_on_hand l = on_hand_in d (level_cell l) \<and> l_reserved l = reserved_in d (level_cell l)) \<and>
     distinct (map movement_key (movements d)) \<and>
     (\<forall>m \<in> set (movements d). m_qty m \<noteq> 0) \<and>
     movement_cell ` set (movements d) - X \<subseteq> level_cell ` set (levels d)"

definition stock_wf :: "db \<Rightarrow> bool" where
  "stock_wf = stock_wf_off {}"

lemma stock_wf_off_mono: "stock_wf_off X d \<Longrightarrow> X \<subseteq> Y \<Longrightarrow> stock_wf_off Y d"
  by (auto simp: stock_wf_off_def)

lemma stock_wf_offI: "stock_wf d \<Longrightarrow> stock_wf_off X d"
  unfolding stock_wf_def by (erule stock_wf_off_mono) simp

lemma stock_wf_off_level:
  "stock_wf_off X d \<Longrightarrow> l \<in> set (levels d) \<Longrightarrow> 0 \<le> l_reserved l \<and> l_reserved l \<le> l_on_hand l"
  by (simp add: stock_wf_off_def)

lemma stock_wf_off_sums:
  "stock_wf_off X d \<Longrightarrow> l \<in> set (levels d) \<Longrightarrow> level_cell l \<notin> X \<Longrightarrow>
     l_on_hand l = on_hand_in d (level_cell l) \<and> l_reserved l = reserved_in d (level_cell l)"
  by (simp add: stock_wf_off_def)

lemma stock_wf_distinct_movements: "stock_wf d \<Longrightarrow> distinct (map movement_key (movements d))"
  by (simp add: stock_wf_def stock_wf_off_def)

text \<open>The invariant speaks of the levels and the movements only.\<close>

lemma stock_wf_off_cong:
  "levels d = levels d' \<Longrightarrow> movements d = movements d' \<Longrightarrow> stock_wf_off X d = stock_wf_off X d'"
  by (simp add: stock_wf_off_def on_hand_in_def reserved_in_def)

lemma stock_wf_cong:
  "levels d = levels d' \<Longrightarrow> movements d = movements d' \<Longrightarrow> stock_wf d = stock_wf d'"
  unfolding stock_wf_def by (rule stock_wf_off_cong)

lemma stock_wf_unaffected:
  "stock_wf (d\<lparr>products := x1\<rparr>) = stock_wf d"
  "stock_wf (d\<lparr>warehouses := x2\<rparr>) = stock_wf d"
  "stock_wf (d\<lparr>suppliers := x3\<rparr>) = stock_wf d"
  "stock_wf (d\<lparr>performances := x4\<rparr>) = stock_wf d"
  "stock_wf (d\<lparr>customers := x5\<rparr>) = stock_wf d"
  "stock_wf (d\<lparr>orders := x6\<rparr>) = stock_wf d"
  "stock_wf (d\<lparr>order_lines := x7\<rparr>) = stock_wf d"
  "stock_wf (d\<lparr>sequences := x8\<rparr>) = stock_wf d"
  "stock_wf (d\<lparr>audit_logs := x9\<rparr>) = stock_wf d"
  "stock_wf (d\<lparr>timeline := x10\<rparr>) = stock_wf d"
  "stock_wf (d\<lparr>accounts := x11\<rparr>) = stock_wf d"
  "stock_wf (d\<lparr>periods := x12\<rparr>) = stock_wf d"
  "stock_wf (d\<lparr>entries := x13\<rparr>) = stock_wf d"
  "stock_wf (d\<lparr>journal_lines := x14\<rparr>) = stock_wf d"
  "stock_wf (d\<lparr>invoices := x15\<rparr>) = stock_wf d"
  "stock_wf (d\<lparr>invoice_lines := x16\<rparr>) = stock_wf d"
  "stock_wf (d\<lparr>payments := x17\<rparr>) = stock_wf d"
  "stock_wf (d\<lparr>intents := x18\<rparr>) = stock_wf d"
  "stock_wf (d\<lparr>rates := x19\<rparr>) = stock_wf d"
  by (rule stock_wf_cong; simp)+

lemma sums_unaffected [simp]:
  "on_hand_in (d\<lparr>levels := x1\<rparr>) = on_hand_in d" "reserved_in (d\<lparr>levels := x1\<rparr>) = reserved_in d"
  "on_hand_in (d\<lparr>audit_logs := x2\<rparr>) = on_hand_in d" "reserved_in (d\<lparr>audit_logs := x2\<rparr>) = reserved_in d"
  by (rule sums_cong; simp)+

interpretation stock: table_invariant stock_wf
  by unfold_locales (simp_all add: stock_wf_unaffected)

text \<open>A stored level, or its absence, tells the sums.\<close>

lemma level_sums:
  assumes "stock_wf d" "select_one (level_at t p w) (levels d) = Some l"
  shows "l_on_hand l = on_hand_in d (t, p, w)" "l_reserved l = reserved_in d (t, p, w)"
proof -
  from select_one_SomeD [OF assms(2)] have "l \<in> set (levels d)" "level_cell l = (t, p, w)"
    by (simp_all add: level_at_cell)
  with assms(1) show "l_on_hand l = on_hand_in d (t, p, w)" "l_reserved l = reserved_in d (t, p, w)"
    by (auto simp: stock_wf_def stock_wf_off_def)
qed

lemma no_level_sums:
  assumes "stock_wf d" "select_one (level_at t p w) (levels d) = None"
  shows "on_hand_in d (t, p, w) = 0" "reserved_in d (t, p, w) = 0"
proof -
  from assms have "(t, p, w) \<notin> movement_cell ` set (movements d)"
    by (force simp: stock_wf_def stock_wf_off_def select_one_None level_at_cell)
  then show "on_hand_in d (t, p, w) = 0" "reserved_in d (t, p, w) = 0"
    by (rule sums_empty)+
qed

lemma wp_current_on_hand:
  "stock_wf (work s) \<Longrightarrow>
   wp (current_on_hand pid wid tenant) Q E s = Q (on_hand_in (work s) (tenant, pid, wid)) s"
  by (auto simp: current_on_hand_def get_stock_level_def wp_simps level_sums no_level_sums
      split: option.split)

lemma stock_bounds:
  assumes "stock_wf d"
  shows "0 \<le> reserved_in d c" "reserved_in d c \<le> on_hand_in d c"
proof -
  obtain t p w where c: "c = (t, p, w)" by (cases c)
  have "0 \<le> reserved_in d c \<and> reserved_in d c \<le> on_hand_in d c"
  proof (cases "select_one (level_at t p w) (levels d)")
    case None
    with assms show ?thesis by (simp add: c no_level_sums)
  next
    case (Some l)
    from select_one_SomeD [OF Some] have "l \<in> set (levels d)" by simp
    with assms have "0 \<le> l_reserved l \<and> l_reserved l \<le> l_on_hand l"
      unfolding stock_wf_def by (rule stock_wf_off_level)
    with level_sums [OF assms Some] show ?thesis by (simp add: c)
  qed
  then show "0 \<le> reserved_in d c" "reserved_in d c \<le> on_hand_in d c" by simp_all
qed

section \<open>Appending to the ledger\<close>

text \<open>What the database accepts of a movement.\<close>

definition postable :: "db \<Rightarrow> stock_movement \<Rightarrow> bool" where
  "postable d m \<longleftrightarrow>
     m_qty m \<noteq> 0 \<and>
     (\<exists>p \<in> set (products d). product_key (m_tenant m) (m_product m) p) \<and>
     (\<exists>w \<in> set (warehouses d). warehouse_key (m_tenant m) (m_warehouse m) w) \<and>
     (let d' = d\<lparr>movements := movements d @ [m]\<rparr>; c = movement_cell m in
      0 \<le> reserved_in d' c \<and> reserved_in d' c \<le> on_hand_in d' c)"

definition known_ref :: "db \<Rightarrow> stock_movement \<Rightarrow> bool" where
  "known_ref d m \<longleftrightarrow> movement_key m \<in> movement_key ` set (movements d)"

text \<open>The recomputed projection is well-formed everywhere.\<close>

lemma recomputed_wf:
  assumes wf: "stock_wf_off {c} d" and c: "movement_cell m = c"
    and new: "movement_key m \<notin> movement_key ` set (movements d)" and q: "m_qty m \<noteq> 0"
    and d': "movements d' = movements d @ [m]"
    and L: "distinct (map level_cell (levels d'))" "c \<in> level_cell ` set (levels d')"
      "level_cell ` set (levels d) \<subseteq> level_cell ` set (levels d')"
      "\<And>l. l \<in> set (levels d') \<Longrightarrow> level_cell l \<noteq> c \<Longrightarrow> l \<in> set (levels d)"
      "\<And>l. l \<in> set (levels d') \<Longrightarrow> level_cell l = c \<Longrightarrow>
         l_on_hand l = on_hand_in d' c \<and> l_reserved l = reserved_in d' c"
      "0 \<le> reserved_in d' c" "reserved_in d' c \<le> on_hand_in d' c"
  shows "stock_wf d'"
proof -
  have other: "on_hand_in d' k = on_hand_in d k" "reserved_in d' k = reserved_in d k" if "k \<noteq> c" for k
    using that c on_hand_append [OF d'] reserved_append [OF d'] by auto
  have sums: "l_on_hand l = on_hand_in d' (level_cell l) \<and> l_reserved l = reserved_in d' (level_cell l)"
    and bounds: "0 \<le> reserved_in d' (level_cell l) \<and> reserved_in d' (level_cell l) \<le> on_hand_in d' (level_cell l)"
    if "l \<in> set (levels d')" for l
  proof -
    have "l_on_hand l = on_hand_in d' (level_cell l) \<and> l_reserved l = reserved_in d' (level_cell l)
      \<and> 0 \<le> l_reserved l \<and> l_reserved l \<le> l_on_hand l"
    proof (cases "level_cell l = c")
      case True
      with that L show ?thesis by simp
    next
      case False
      with that L have "l \<in> set (levels d)" by blast
      from stock_wf_off_level [OF wf this] stock_wf_off_sums [OF wf this] False other show ?thesis by simp
    qed
    then show "l_on_hand l = on_hand_in d' (level_cell l) \<and> l_reserved l = reserved_in d' (level_cell l)"
      "0 \<le> reserved_in d' (level_cell l) \<and> reserved_in d' (level_cell l) \<le> on_hand_in d' (level_cell l)"
      by simp_all
  qed
  have "movement_cell ` set (movements d') \<subseteq> level_cell ` set (levels d')"
  proof -
    have "movement_cell ` set (movements d) - {c} \<subseteq> level_cell ` set (levels d)"
      using wf by (simp add: stock_wf_off_def)
    then have "movement_cell ` set (movements d) - {c} \<subseteq> level_cell ` set (levels d')"
      using L(3) by (rule order_trans)
    with L(2) c show ?thesis unfolding d' by auto
  qed
  then show ?thesis
    using wf L(1) new q sums bounds by (simp add: stock_wf_def stock_wf_off_def d')
qed

text \<open>
  Everything \<open>add_movement\<close> can do, from a state that is well-formed off the movement's cell: it
  appends the row and leaves a well-formed stock, or it raises for a reason \<open>postable\<close> and
  \<open>known_ref\<close> tell.
\<close>

definition stamped :: "sess \<Rightarrow> stock_movement \<Rightarrow> stock_movement" where
  "stamped s m = m\<lparr>m_id := next_id s, m_created := instant (clk s)\<rparr>"

lemma stamped_simps [simp]:
  "m_tenant (stamped s m) = m_tenant m" "m_product (stamped s m) = m_product m"
  "m_warehouse (stamped s m) = m_warehouse m" "m_type (stamped s m) = m_type m"
  "m_qty (stamped s m) = m_qty m" "m_ref_type (stamped s m) = m_ref_type m"
  "m_ref_id (stamped s m) = m_ref_id m" "movement_cell (stamped s m) = movement_cell m"
  "movement_key (stamped s m) = movement_key m" "m_id (stamped s m) = next_id s"
  by (simp_all add: stamped_def movement_cell_def movement_key_def)

lemma postable_stamped [simp]: "postable d (stamped s m) = postable d m"
  by (simp add: postable_def Let_def on_hand_append [of "d\<lparr>movements := movements d @ [x]\<rparr>" d x for x]
      reserved_append [of "d\<lparr>movements := movements d @ [x]\<rparr>" d x for x])

definition movement_error :: "db \<Rightarrow> stock_movement \<Rightarrow> error \<Rightarrow> bool" where
  "movement_error d m e \<longleftrightarrow>
     e = MovementImmutableError \<and> known_ref d m \<or> (\<exists>c. e = IntegrityError c) \<and> \<not> postable d m"

text \<open>The session after a step that may only touch the stock tables.\<close>

definition stock_frame :: "sess \<Rightarrow> sess \<Rightarrow> bool" where
  "stock_frame s t \<longleftrightarrow> (\<exists>L M n. t = s\<lparr>work := (work s)\<lparr>levels := L, movements := M\<rparr>, next_id := n\<rparr>)"

lemma stock_frameI:
  "t = s\<lparr>work := (work s)\<lparr>levels := L, movements := M\<rparr>, next_id := n\<rparr> \<Longrightarrow> stock_frame s t"
  by (auto simp: stock_frame_def)

lemma stock_frame_refl [simp]: "stock_frame s s"
  by (rule stock_frameI [where L = "levels (work s)" and M = "movements (work s)" and n = "next_id s"]) simp

lemma stock_frame_trans: "stock_frame s t \<Longrightarrow> stock_frame t u \<Longrightarrow> stock_frame s u"
  by (force simp: stock_frame_def)

lemma stock_frame_eqs:
  assumes "stock_frame s t"
  shows "durable t = durable s" "ctx_buffer t = ctx_buffer s" "fin_pending t = fin_pending s"
    "published t = published s" "ctx_user t = ctx_user s" "clk t = clk s" "number_seq t = number_seq s"
    "products (work t) = products (work s)" "warehouses (work t) = warehouses (work s)"
    "suppliers (work t) = suppliers (work s)" "customers (work t) = customers (work s)"
    "orders (work t) = orders (work s)" "order_lines (work t) = order_lines (work s)"
    "audit_logs (work t) = audit_logs (work s)" "sequences (work t) = sequences (work s)"
  using assms by (auto simp: stock_frame_def)

lemma wp_add_movement:
  assumes wf: "stock_wf_off {movement_cell m} (work s)"
    and ok: "\<And>t. postable (work s) m \<Longrightarrow> \<not> known_ref (work s) m \<Longrightarrow> stock_frame s t \<Longrightarrow>
      movements (work t) = movements (work s) @ [stamped s m] \<Longrightarrow> stock_wf (work t) \<Longrightarrow>
      Q (stamped s m) t"
    and err: "\<And>e t. movement_error (work s) m e \<Longrightarrow> stock_frame s t \<Longrightarrow> E e t"
  shows "wp (add_movement m) Q E s"
proof -
  let ?d = "work s" and ?r = "stamped s m" and ?c = "movement_cell m"
  let ?M = "movements ?d @ [?r]"
  let ?d' = "?d\<lparr>movements := ?M\<rparr>"
  let ?at = "level_at (m_tenant m) (m_product m) (m_warehouse m)"
  have cell: "?at l \<longleftrightarrow> level_cell l = ?c" for l
    by (simp add: level_at_cell movement_cell_def)
  have oh: "ledger_on_hand (m_tenant m) (m_product m) (m_warehouse m) ?M = on_hand_in ?d' ?c"
    and rs: "ledger_reserved (m_tenant m) (m_product m) (m_warehouse m) ?M = reserved_in ?d' ?c"
    by (simp_all add: on_hand_in_def reserved_in_def movement_cell_def)
  have post: "postable ?d m \<longleftrightarrow> m_qty m \<noteq> 0 \<and>
      (\<exists>p \<in> set (products ?d). product_key (m_tenant m) (m_product m) p) \<and>
      (\<exists>w \<in> set (warehouses ?d). warehouse_key (m_tenant m) (m_warehouse m) w) \<and>
      0 \<le> reserved_in ?d' ?c \<and> reserved_in ?d' ?c \<le> on_hand_in ?d' ?c"
    using postable_stamped [of ?d s m] by (simp add: postable_def Let_def)
  have insert: "stock_wf (?d'\<lparr>levels := levels ?d @ [l]\<rparr>)"
    if "postable ?d m" "\<not> known_ref ?d m" "select_one ?at (levels ?d) = None"
      "level_cell l = ?c" "l_on_hand l = on_hand_in ?d' ?c" "l_reserved l = reserved_in ?d' ?c" for l
    using that wf post
    by (intro recomputed_wf [OF wf, of ?r])
      (auto simp: known_ref_def select_one_None cell stock_wf_off_def)
  have update: "stock_wf (?d'\<lparr>levels := update_where ?at (\<lambda>_. l) (levels ?d)\<rparr>)"
    if "postable ?d m" "\<not> known_ref ?d m" "select_one ?at (levels ?d) = Some k"
      "level_cell l = ?c" "l_on_hand l = on_hand_in ?d' ?c" "l_reserved l = reserved_in ?d' ?c" for l k
  proof (rule recomputed_wf [OF wf, of ?r])
    have k: "k \<in> set (levels ?d)" "level_cell k = ?c"
      using select_one_SomeD [OF that(3)] by (simp_all add: cell)
    show "distinct (map level_cell (levels (?d'\<lparr>levels := update_where ?at (\<lambda>_. l) (levels ?d)\<rparr>)))"
      using wf map_update_where [of ?at level_cell "\<lambda>_. l" "levels ?d"] that(4)
      by (simp add: cell stock_wf_off_def)
    have same: "level_cell ` set (update_where ?at (\<lambda>_. l) (levels ?d)) = level_cell ` set (levels ?d)"
      using that(4) by (intro image_update_where) (simp add: cell)
    then show "?c \<in> level_cell ` set (levels (?d'\<lparr>levels := update_where ?at (\<lambda>_. l) (levels ?d)\<rparr>))"
      "level_cell ` set (levels ?d) \<subseteq> level_cell ` set (levels (?d'\<lparr>levels := update_where ?at (\<lambda>_. l) (levels ?d)\<rparr>))"
      using k by force+
  qed (use that post in \<open>auto simp: set_update_where cell known_ref_def split: if_splits\<close>)
  have frame: "stock_frame s (s\<lparr>next_id := n\<rparr>)"
    "stock_frame s (s\<lparr>work := ?d\<lparr>movements := M\<rparr>, next_id := n\<rparr>)"
    "stock_frame s (s\<lparr>work := ?d\<lparr>movements := M, levels := L\<rparr>, next_id := n\<rparr>)" for n M L
    by (rule stock_frameI [where n = n and L = "levels ?d" and M = "movements ?d"]
        stock_frameI [where n = n and L = "levels ?d" and M = M]
        stock_frameI [where n = n and L = L and M = M], simp)+
  note errs = err [OF _ frame(1)] err [OF _ frame(2)]
  note defs = add_movement_def recompute_stock_level_def get_stock_level_def level_foreign_keys_def
    level_constraints_def
  have run: "wp (add_movement m) Q E s = (
      if m_qty m = 0 then E (IntegrityError ''ck_erp_stock_movements_qty_nonzero'') (s\<lparr>next_id := Suc (next_id s)\<rparr>)
      else if known_ref ?d m then E MovementImmutableError (s\<lparr>next_id := Suc (next_id s)\<rparr>)
      else undefined)" if "m_qty m = 0 \<or> known_ref ?d m"
    using that by (auto simp: defs wp_simps Let_def known_ref_def stamped_def [symmetric] image_iff)
  show ?thesis
  proof (cases "m_qty m = 0 \<or> known_ref ?d m")
    case True
    with run errs show ?thesis by (auto simp: movement_error_def post)
  next
    case False
    then have new: "\<not> known_ref ?d m" "m_qty m \<noteq> 0" "\<forall>k \<in> set (movements ?d). movement_key k \<noteq> movement_key m"
      unfolding known_ref_def by (simp_all, metis imageI)
    show ?thesis
    proof (cases "postable ?d m")
      case False
      with new(1) have bad: "movement_error ?d m (IntegrityError c)" for c
        by (auto simp: movement_error_def)
      show ?thesis
        using new False errs [OF bad] bad
        by (auto simp: defs wp_simps Let_def oh rs post stamped_def [symmetric] split: option.split)
    next
      case good: True
      show ?thesis
      proof (cases "select_one ?at (levels ?d)")
        case None
        with insert [OF good new(1) None] show ?thesis
          using good new by (auto simp: defs wp_simps Let_def oh rs post stamped_def [symmetric]
            level_cell_def movement_cell_def intro!: ok frame)
      next
        case (Some l)
        then have "level_cell l = ?c" using select_one_SomeD [OF Some] by (simp add: cell)
        with update [OF good new(1) Some] show ?thesis
          using good new Some by (auto simp: defs wp_simps Let_def oh rs post stamped_def [symmetric]
            level_cell_def intro!: ok frame)
      qed
    qed
  qed
qed

section \<open>Guarded updates\<close>

lemma update_where_no_match: "select_one P rows = None \<Longrightarrow> update_where P f rows = rows"
  by (induction rows) (auto split: if_splits)

text \<open>
  A guarded update of one cell whose guard implies the table's checks answers whether the guard
  holds of the cell's sums; a guard that fails on an empty cell also fails where no level exists.
\<close>

lemma wp_guarded_update:
  fixes G :: "decimal \<Rightarrow> decimal \<Rightarrow> bool" and F :: "decimal \<Rightarrow> decimal"
  defines "guard \<equiv> \<lambda>t p w l. level_at t p w l \<and> G (l_reserved l) (l_on_hand l)"
  assumes wf: "stock_wf (work s)"
    and checks: "\<And>r h. 0 \<le> r \<Longrightarrow> r \<le> h \<Longrightarrow> G r h \<Longrightarrow> 0 \<le> F r \<and> F r \<le> h"
    and empty: "\<not> G 0 0"
    and yes: "\<And>u. G (reserved_in (work s) (t, p, w)) (on_hand_in (work s) (t, p, w)) \<Longrightarrow> stock_frame s u \<Longrightarrow>
      movements (work u) = movements (work s) \<Longrightarrow> stock_wf_off {(t, p, w)} (work u) \<Longrightarrow> Q True u"
    and no: "\<not> G (reserved_in (work s) (t, p, w)) (on_hand_in (work s) (t, p, w)) \<Longrightarrow> Q False s"
  shows "wp (guarded_update (guard t p w) (\<lambda>l. F (l_reserved l))) Q E s"
proof -
  let ?g = "guard t p w" and ?d = "work s"
  let ?d' = "?d\<lparr>levels := update_where ?g (\<lambda>l. l\<lparr>l_reserved := F (l_reserved l)\<rparr>) (levels ?d)\<rparr>"
  have off: "stock_wf_off {} ?d" using wf by (simp add: stock_wf_def)
  have cell: "?g l \<Longrightarrow> level_cell l = (t, p, w)" for l
    by (simp add: guard_def level_at_cell)
  have ok: "\<forall>l \<in> set (levels ?d). ?g l \<longrightarrow> 0 \<le> F (l_reserved l) \<and> F (l_reserved l) \<le> l_on_hand l"
    unfolding guard_def using stock_wf_off_level [OF off] checks by blast
  have same: "level_cell (l\<lparr>l_reserved := x\<rparr>) = level_cell l" for l x
    by (simp add: level_cell_def)
  have wf': "stock_wf_off {(t, p, w)} ?d'"
    unfolding stock_wf_off_def
  proof (intro conjI ballI impI)
    show "distinct (map level_cell (levels ?d'))"
      using off by (simp add: map_update_where same stock_wf_off_def)
    show "0 \<le> l_reserved l" "l_reserved l \<le> l_on_hand l" if "l \<in> set (levels ?d')" for l
      using that ok stock_wf_off_level [OF off] by (auto simp: set_update_where)
    show "l_on_hand l = on_hand_in ?d' (level_cell l)" "l_reserved l = reserved_in ?d' (level_cell l)"
      if "l \<in> set (levels ?d')" "level_cell l \<notin> {(t, p, w)}" for l
      using that cell stock_wf_off_sums [OF off, of l] by (auto simp: set_update_where same)
    show "m_qty m \<noteq> 0" if "m \<in> set (movements ?d')" for m
      using off that by (simp_all add: stock_wf_off_def)
    have "level_cell ` set (levels ?d') = level_cell ` set (levels ?d)"
      by (simp add: image_update_where same)
    with off show "movement_cell ` set (movements ?d') - {(t, p, w)} \<subseteq> level_cell ` set (levels ?d')"
      by (auto simp: stock_wf_off_def)
    show "distinct (map movement_key (movements ?d'))"
      using off by (simp add: stock_wf_off_def)
  qed
  have frame: "stock_frame s (s\<lparr>work := ?d'\<rparr>)"
    by (rule stock_frameI [where L = "levels ?d'" and M = "movements ?d" and n = "next_id s"]) simp
  show ?thesis
  proof (cases "select_one ?g (levels ?d)")
    case None
    have "\<not> G (reserved_in ?d (t, p, w)) (on_hand_in ?d (t, p, w))"
    proof (cases "select_one (level_at t p w) (levels ?d)")
      case None
      with no_level_sums [OF wf None] empty show ?thesis by simp
    next
      case (Some l)
      from select_one_SomeD [OF Some] level_sums [OF wf Some] \<open>select_one ?g (levels ?d) = None\<close>
      show ?thesis by (auto simp: guard_def select_one_None)
    qed
    with None no ok show ?thesis
      by (simp add: guarded_update_def wp_simps update_where_no_match rows_matched_0 [THEN iffD2])
  next
    case (Some l)
    from select_one_SomeD [OF Some] have l: "l \<in> set (levels ?d)" "level_cell l = (t, p, w)"
      "G (l_reserved l) (l_on_hand l)" by (simp_all add: guard_def level_at_cell)
    from stock_wf_off_sums [OF off l(1)] l
    have "G (reserved_in ?d (t, p, w)) (on_hand_in ?d (t, p, w))" by simp
    from yes [OF this frame] wf' Some ok rows_matched_pos [of ?g "levels ?d"] show ?thesis
      by (simp add: guarded_update_def wp_simps)
  qed
qed

lemma wp_apply_reservation:
  assumes "stock_wf (work s)" "0 < qty"
    and "\<And>u. reserved_in (work s) (t, p, w) + qty \<le> on_hand_in (work s) (t, p, w) \<Longrightarrow> stock_frame s u \<Longrightarrow>
      movements (work u) = movements (work s) \<Longrightarrow> stock_wf_off {(t, p, w)} (work u) \<Longrightarrow> Q True u"
    and "\<not> reserved_in (work s) (t, p, w) + qty \<le> on_hand_in (work s) (t, p, w) \<Longrightarrow> Q False s"
  shows "wp (apply_reservation_qty p w qty t) Q E s"
  unfolding apply_reservation_qty_def
  by (rule wp_guarded_update [where G = "\<lambda>r h. r + qty \<le> h" and F = "\<lambda>r. r + qty"])
    (use assms in auto)

lemma wp_apply_release:
  assumes "stock_wf (work s)" "0 < qty"
    and "\<And>u. qty \<le> reserved_in (work s) (t, p, w) \<Longrightarrow> stock_frame s u \<Longrightarrow>
      movements (work u) = movements (work s) \<Longrightarrow> stock_wf_off {(t, p, w)} (work u) \<Longrightarrow> Q True u"
    and "\<not> qty \<le> reserved_in (work s) (t, p, w) \<Longrightarrow> Q False s"
  shows "wp (apply_release_qty p w qty t) Q E s"
  unfolding apply_release_qty_def
  by (rule wp_guarded_update [where G = "\<lambda>r h. 0 \<le> r - qty" and F = "\<lambda>r. r - qty"])
    (use assms in auto)

end
