(* ===== verification/Inventory_Specs.thy ===== *)
theory Inventory_Specs
  imports Inventory_Ledger
begin

text \<open>
  What the steps of the inventory service do, in terms of the ledger sums. Each step has a pure
  function that tells whether and why it refuses; from a well-formed stock the step raises
  exactly that exception, and otherwise appends exactly its movements.
\<close>

section \<open>Movements that must succeed\<close>

lemma postable_sums:
  "postable d m \<longleftrightarrow> m_qty m \<noteq> 0 \<and>
     (\<exists>p \<in> set (products d). product_key (m_tenant m) (m_product m) p) \<and>
     (\<exists>w \<in> set (warehouses d). warehouse_key (m_tenant m) (m_warehouse m) w) \<and>
     (let c = movement_cell m in
      if is_reservation (m_type m)
      then 0 \<le> reserved_in d c + m_qty m \<and> reserved_in d c + m_qty m \<le> on_hand_in d c
      else 0 \<le> reserved_in d c \<and> reserved_in d c \<le> on_hand_in d c + m_qty m)"
  by (simp add: postable_def Let_def on_hand_append [of "d\<lparr>movements := movements d @ [m]\<rparr>" d m]
      reserved_append [of "d\<lparr>movements := movements d @ [m]\<rparr>" d m])

lemma wp_add_movement_ok:
  assumes "stock_wf_off {movement_cell m} (work s)" "postable (work s) m" "\<not> known_ref (work s) m"
    and "\<And>t. stock_frame s t \<Longrightarrow> movements (work t) = movements (work s) @ [stamped s m] \<Longrightarrow>
      stock_wf (work t) \<Longrightarrow> Q (stamped s m) t"
  shows "wp (add_movement m) Q E s"
  by (rule wp_add_movement) (use assms in \<open>auto simp: movement_error_def\<close>)

lemma wp_add_movement_known:
  assumes "stock_wf_off {movement_cell m} (work s)" "postable (work s) m" "known_ref (work s) m"
    and "\<And>t. stock_frame s t \<Longrightarrow> E MovementImmutableError t"
  shows "wp (add_movement m) Q E s"
  by (rule wp_add_movement) (use assms in \<open>auto simp: movement_error_def\<close>)

lemma movement_simps [simp]:
  "m_tenant (movement t p w k q rt r) = t" "m_product (movement t p w k q rt r) = p"
  "m_warehouse (movement t p w k q rt r) = w" "m_type (movement t p w k q rt r) = k"
  "m_qty (movement t p w k q rt r) = q" "m_ref_type (movement t p w k q rt r) = rt"
  "m_ref_id (movement t p w k q rt r) = r"
  "movement_cell (movement t p w k q rt r) = (t, p, w)"
  "movement_key (movement t p w k q rt r) = (t, rt, r, w, p)"
  by (simp_all add: movement_def movement_cell_def movement_key_def)

lemma is_reservation_simps [simp]:
  "is_reservation RESERVATION" "is_reservation RELEASE" "\<not> is_reservation ISSUE"
  "\<not> is_reservation RECEIPT" "\<not> is_reservation TRANSFER" "\<not> is_reservation ADJUSTMENT"
  by (simp_all add: is_reservation_def)

text \<open>Whether the ledger already has a row for a reference at a cell.\<close>

definition ref_posted :: "db \<Rightarrow> string \<Rightarrow> string \<Rightarrow> cell \<Rightarrow> bool" where
  "ref_posted d ref_type ref_id c = (case c of (tenant, pid, wid) \<Rightarrow>
     \<exists>m \<in> set (movements d). movement_key m = (tenant, ref_type, ref_id, wid, pid))"

lemma known_ref_movement: "known_ref d (movement t p w k q rt r) = ref_posted d rt r (t, p, w)"
  by (auto simp: known_ref_def ref_posted_def image_iff) metis

lemma ref_posted_append:
  "movements d' = movements d @ [m] \<Longrightarrow>
   ref_posted d' rt r (t, p, w) \<longleftrightarrow> ref_posted d rt r (t, p, w) \<or> movement_key m = (t, rt, r, w, p)"
  by (auto simp: ref_posted_def)

lemma ref_posted_cong: "movements d' = movements d \<Longrightarrow> ref_posted d' = ref_posted d"
  by (simp add: ref_posted_def fun_eq_iff)

lemma wp_reject_replay:
  "wp (reject_replay rt r w t p) Q E s =
     (if ref_posted (work s) rt r (t, p, w) then E MovementImmutableError s else Q () s)"
proof -
  have "movement_ref t rt r w p m \<longleftrightarrow> movement_key m = (t, rt, r, w, p)" for m
    by (auto simp: movement_ref_def movement_key_def)
  then show ?thesis
    by (simp add: reject_replay_def get_movement_by_ref_def wp_simps select_one_None ref_posted_def)
qed

section \<open>Parents\<close>

text \<open>The refusals of \<open>_require_active_product\<close> and \<open>_require_active_warehouse\<close>.\<close>

definition product_in :: "db \<Rightarrow> uuid \<Rightarrow> uuid \<Rightarrow> product option" where
  "product_in d pid tenant = select_one (product_key tenant pid) (products d)"

definition warehouse_in :: "db \<Rightarrow> uuid \<Rightarrow> uuid \<Rightarrow> warehouse option" where
  "warehouse_in d wid tenant = select_one (warehouse_key tenant wid) (warehouses d)"

definition parents_refusal :: "db \<Rightarrow> uuid \<Rightarrow> uuid \<Rightarrow> uuid \<Rightarrow> error option" where
  "parents_refusal d pid wid tenant =
     (case product_in d pid tenant of None \<Rightarrow> Some (NotFoundError ''Product'') | Some p \<Rightarrow>
      if \<not> p_active p then Some (InactiveItemError ''Product'') else
      case warehouse_in d wid tenant of None \<Rightarrow> Some (NotFoundError ''Warehouse'') | Some w \<Rightarrow>
      if \<not> w_active w then Some (InactiveItemError ''Warehouse'') else None)"

lemma wp_require_product:
  "wp (require_product p t) Q E s = (case product_in (work s) p t of
     None \<Rightarrow> E (NotFoundError ''Product'') s | Some x \<Rightarrow> Q x s)"
  by (simp add: require_product_def get_product_def product_in_def wp_simps)

lemma wp_require_warehouse:
  "wp (require_warehouse w t) Q E s = (case warehouse_in (work s) w t of
     None \<Rightarrow> E (NotFoundError ''Warehouse'') s | Some x \<Rightarrow> Q x s)"
  by (simp add: require_warehouse_def get_warehouse_def warehouse_in_def wp_simps)

lemma wp_require_active_product:
  "wp (require_active_product p t) Q E s = (case product_in (work s) p t of
     None \<Rightarrow> E (NotFoundError ''Product'') s
   | Some x \<Rightarrow> if p_active x then Q x s else E (InactiveItemError ''Product'') s)"
  by (simp add: require_active_product_def wp_simps wp_require_product split: option.split)

lemma wp_require_active_warehouse:
  "wp (require_active_warehouse w t) Q E s = (case warehouse_in (work s) w t of
     None \<Rightarrow> E (NotFoundError ''Warehouse'') s
   | Some x \<Rightarrow> if w_active x then Q x s else E (InactiveItemError ''Warehouse'') s)"
  by (simp add: require_active_warehouse_def wp_simps wp_require_warehouse split: option.split)

lemma parents_exist:
  "product_in d p t = Some x \<Longrightarrow> \<exists>p' \<in> set (products d). product_key t p p'"
  "warehouse_in d w t = Some y \<Longrightarrow> \<exists>w' \<in> set (warehouses d). warehouse_key t w w'"
  by (auto simp: product_in_def warehouse_in_def dest: select_one_SomeD)

lemma parents_frame:
  "stock_frame s t \<Longrightarrow> product_in (work t) = product_in (work s)"
  "stock_frame s t \<Longrightarrow> warehouse_in (work t) = warehouse_in (work s)"
  by (auto simp: product_in_def warehouse_in_def stock_frame_eqs fun_eq_iff)

section \<open>Reserving\<close>

definition reserve_refusal ::
  "db \<Rightarrow> string \<Rightarrow> uuid \<Rightarrow> uuid \<Rightarrow> decimal \<Rightarrow> uuid \<Rightarrow> string \<Rightarrow> error option" where
  "reserve_refusal d rt p w qty t r =
     (if qty \<le> 0 then Some (ValidationError ''Reservation quantity must be positive'')
      else if ref_posted d rt (step_ref r ''reserve'') (t, p, w) then Some MovementImmutableError
      else case parents_refusal d p w t of Some e \<Rightarrow> Some e | None \<Rightarrow>
        if reserved_in d (t, p, w) + qty \<le> on_hand_in d (t, p, w) then None
        else Some InsufficientStockError)"

lemma wp_reserve_step:
  assumes wf: "stock_wf (work s)"
    and ok: "\<And>u x. reserve_refusal (work s) rt p w qty t r = None \<Longrightarrow> stock_frame s u \<Longrightarrow>
      movements (work u) = movements (work s) @
        [stamped x (movement t p w RESERVATION qty rt (step_ref r ''reserve''))] \<Longrightarrow>
      stock_wf (work u) \<Longrightarrow> Q () u"
    and err: "\<And>e. reserve_refusal (work s) rt p w qty t r = Some e \<Longrightarrow> E e s"
  shows "wp (reserve_step rt p w qty t r) Q E s"
proof (cases "reserve_refusal (work s) rt p w qty t r")
  case None
  let ?m = "movement t p w RESERVATION qty rt (step_ref r ''reserve'')"
  from None obtain x y where pos: "\<not> qty \<le> 0" "0 < qty" and new: "\<not> ref_posted (work s) rt (step_ref r ''reserve'') (t, p, w)"
    and par: "product_in (work s) p t = Some x" "p_active x"
      "warehouse_in (work s) w t = Some y" "w_active y"
    and room: "reserved_in (work s) (t, p, w) + qty \<le> on_hand_in (work s) (t, p, w)"
    by (auto simp: reserve_refusal_def parents_refusal_def split: if_splits option.splits)
  have add: "wp (add_movement ?m) (\<lambda>_. Q ()) E u"
    if u: "stock_frame s u" "movements (work u) = movements (work s)" "stock_wf_off {(t, p, w)} (work u)" for u
  proof (rule wp_add_movement_ok)
    have "0 \<le> reserved_in (work s) (t, p, w)" using wf by (rule stock_bounds)
    then show "postable (work u) ?m"
      using pos room par u(1) parents_exist [of "work s"]
      by (simp add: postable_sums sums_cong [OF u(2)] stock_frame_eqs [OF u(1)])
    show "\<not> known_ref (work u) ?m"
      using new by (simp add: known_ref_movement ref_posted_cong [OF u(2)])
    show "stock_wf_off {movement_cell ?m} (work u)" using u by simp
    show "Q () v" if "stock_frame u v" "movements (work v) = movements (work u) @ [stamped u ?m]"
      "stock_wf (work v)" for v
      using that u by (intro ok [OF None, of v u]) (auto intro: stock_frame_trans)
  qed
  show ?thesis
    unfolding reserve_step_def
    by (simp add: wp_simps wp_reject_replay wp_require_active_product wp_require_active_warehouse
        par pos new) (rule wp_apply_reservation [OF wf pos(2)]; use room add in simp)
next
  case (Some e)
  then show ?thesis
    using err [OF Some] unfolding reserve_step_def
    by (auto simp: reserve_refusal_def parents_refusal_def wp_simps wp_reject_replay
        wp_require_active_product wp_require_active_warehouse split: if_splits option.splits
        intro!: wp_apply_reservation [OF wf])
qed

section \<open>Releasing\<close>

definition release_refusal ::
  "db \<Rightarrow> string \<Rightarrow> uuid \<Rightarrow> uuid \<Rightarrow> decimal \<Rightarrow> uuid \<Rightarrow> string \<Rightarrow> error option" where
  "release_refusal d rt p w qty t r =
     (if qty \<le> 0 then Some (ValidationError ''Release quantity must be positive'')
      else if ref_posted d rt (step_ref r ''release'') (t, p, w) then Some MovementImmutableError
      else case parents_refusal d p w t of Some e \<Rightarrow> Some e | None \<Rightarrow>
        if qty \<le> reserved_in d (t, p, w) then None
        else Some (ValidationError ''Cannot release more than the reserved quantity''))"

lemma wp_release_step:
  assumes wf: "stock_wf (work s)"
    and ok: "\<And>u x. release_refusal (work s) rt p w qty t r = None \<Longrightarrow> stock_frame s u \<Longrightarrow>
      movements (work u) = movements (work s) @
        [stamped x (movement t p w RELEASE (- qty) rt (step_ref r ''release''))] \<Longrightarrow>
      stock_wf (work u) \<Longrightarrow> Q () u"
    and err: "\<And>e. release_refusal (work s) rt p w qty t r = Some e \<Longrightarrow> E e s"
  shows "wp (release_step rt p w qty t r) Q E s"
proof (cases "release_refusal (work s) rt p w qty t r")
  case None
  let ?m = "movement t p w RELEASE (- qty) rt (step_ref r ''release'')"
  from None obtain x y where pos: "\<not> qty \<le> 0" "0 < qty"
    and new: "\<not> ref_posted (work s) rt (step_ref r ''release'') (t, p, w)"
    and par: "product_in (work s) p t = Some x" "p_active x"
      "warehouse_in (work s) w t = Some y" "w_active y"
    and room: "qty \<le> reserved_in (work s) (t, p, w)"
    by (auto simp: release_refusal_def parents_refusal_def split: if_splits option.splits)
  have add: "wp (add_movement ?m) (\<lambda>_. Q ()) E u"
    if u: "stock_frame s u" "movements (work u) = movements (work s)" "stock_wf_off {(t, p, w)} (work u)" for u
  proof (rule wp_add_movement_ok)
    have "reserved_in (work s) (t, p, w) \<le> on_hand_in (work s) (t, p, w)" using wf by (rule stock_bounds)
    then show "postable (work u) ?m"
      using pos room par u(1) parents_exist [of "work s"]
      by (simp add: postable_sums sums_cong [OF u(2)] stock_frame_eqs [OF u(1)])
    show "\<not> known_ref (work u) ?m"
      using new by (simp add: known_ref_movement ref_posted_cong [OF u(2)])
    show "stock_wf_off {movement_cell ?m} (work u)" using u by simp
    show "Q () v" if "stock_frame u v" "movements (work v) = movements (work u) @ [stamped u ?m]"
      "stock_wf (work v)" for v
      using that u by (intro ok [OF None, of v u]) (auto intro: stock_frame_trans)
  qed
  show ?thesis
    unfolding release_step_def
    by (simp add: wp_simps wp_reject_replay wp_require_active_product wp_require_active_warehouse
        par pos new) (rule wp_apply_release [OF wf pos(2)]; use room add in simp)
next
  case (Some e)
  then show ?thesis
    using err [OF Some] unfolding release_step_def
    by (auto simp: release_refusal_def parents_refusal_def wp_simps wp_reject_replay
        wp_require_active_product wp_require_active_warehouse split: if_splits option.splits
        intro!: wp_apply_release [OF wf])
qed

section \<open>Fulfilling\<close>

definition fulfil_refusal ::
  "db \<Rightarrow> string \<Rightarrow> uuid \<Rightarrow> uuid \<Rightarrow> decimal \<Rightarrow> uuid \<Rightarrow> string \<Rightarrow> error option" where
  "fulfil_refusal d rt p w qty t r =
     (if qty \<le> 0 then Some (ValidationError ''Fulfilment quantity must be positive'')
      else case parents_refusal d p w t of Some e \<Rightarrow> Some e | None \<Rightarrow>
        if \<not> qty \<le> reserved_in d (t, p, w) then Some InsufficientStockError
        else if ref_posted d rt (step_ref r ''release'') (t, p, w) \<or>
          ref_posted d rt (step_ref r ''issue'') (t, p, w) then Some MovementImmutableError
        else None)"

lemma step_ref_inject [simp]: "step_ref r a = step_ref r b \<longleftrightarrow> a = b"
  by (simp add: step_ref_def)

lemma wp_fulfil_step:
  assumes wf: "stock_wf (work s)"
    and ok: "\<And>u x y product. fulfil_refusal (work s) rt p w qty t r = None \<Longrightarrow>
      product_in (work s) p t = Some product \<Longrightarrow> stock_frame s u \<Longrightarrow>
      movements (work u) = movements (work s) @
        [stamped x (movement t p w RELEASE (- qty) rt (step_ref r ''release'')),
         stamped y (movement t p w ISSUE (- qty) rt (step_ref r ''issue''))] \<Longrightarrow>
      stock_wf (work u) \<Longrightarrow> Q (product, on_hand_in (work s) (t, p, w), qty) u"
    and err: "\<And>e u. fulfil_refusal (work s) rt p w qty t r = Some e \<Longrightarrow> stock_frame s u \<Longrightarrow> E e u"
  shows "wp (fulfil_step rt p w qty t r) Q E s"
proof (cases "0 < qty \<and> parents_refusal (work s) p w t = None \<and> qty \<le> reserved_in (work s) (t, p, w)")
  case True
  let ?m = "movement t p w RELEASE (- qty) rt (step_ref r ''release'')"
  let ?n = "movement t p w ISSUE (- qty) rt (step_ref r ''issue'')"
  from True obtain x y where pos: "\<not> qty \<le> 0" "0 < qty"
    and par: "product_in (work s) p t = Some x" "p_active x"
      "warehouse_in (work s) w t = Some y" "w_active y"
    and room: "qty \<le> reserved_in (work s) (t, p, w)"
    by (auto simp: parents_refusal_def split: if_splits option.splits)
  have bounds: "reserved_in (work s) (t, p, w) \<le> on_hand_in (work s) (t, p, w)"
    using wf by (rule stock_bounds)
  have refusal: "fulfil_refusal (work s) rt p w qty t r =
      (if ref_posted (work s) rt (step_ref r ''release'') (t, p, w) \<or>
          ref_posted (work s) rt (step_ref r ''issue'') (t, p, w) then Some MovementImmutableError else None)"
    using True by (simp add: fulfil_refusal_def)
  have issue: "wp (add_movement ?n) (\<lambda>_. Q (x, on_hand_in (work s) (t, p, w), qty)) E v"
    if v: "stock_frame s v" "movements (work v) = movements (work s) @ [stamped u ?m]" "stock_wf (work v)"
      and new: "\<not> ref_posted (work s) rt (step_ref r ''release'') (t, p, w)" for u v
  proof -
    have post: "postable (work v) ?n"
      using pos room bounds par v(1) parents_exist [of "work s"]
      by (simp add: postable_sums on_hand_append [OF v(2)] reserved_append [OF v(2)]
          stock_frame_eqs [OF v(1)])
    have known: "known_ref (work v) ?n \<longleftrightarrow> ref_posted (work s) rt (step_ref r ''issue'') (t, p, w)"
      by (simp add: known_ref_movement ref_posted_append [OF v(2)])
    show ?thesis
    proof (cases "known_ref (work v) ?n")
      case True
      with known refusal err v(1) show ?thesis
        by (intro wp_add_movement_known [OF stock_wf_offI [OF v(3)] post])
          (auto intro: stock_frame_trans)
    next
      case False
      show ?thesis
      proof (rule wp_add_movement_ok [OF stock_wf_offI [OF v(3)] post False])
        fix z
        assume "stock_frame v z" "movements (work z) = movements (work v) @ [stamped v ?n]" "stock_wf (work z)"
        with v show "Q (x, on_hand_in (work s) (t, p, w), qty) z"
          using False known new refusal by (intro ok [of x z u v] par) (auto intro: stock_frame_trans)
      qed
    qed
  qed
  have release: "wp (add_movement ?m) (\<lambda>_. wp (add_movement ?n) (\<lambda>_. Q (x, on_hand_in (work s) (t, p, w), qty)) E) E u"
    if u: "stock_frame s u" "movements (work u) = movements (work s)" "stock_wf_off {(t, p, w)} (work u)" for u
  proof -
    have post: "postable (work u) ?m"
      using pos room bounds par u(1) parents_exist [of "work s"]
      by (simp add: postable_sums sums_cong [OF u(2)] stock_frame_eqs [OF u(1)])
    have off: "stock_wf_off {movement_cell ?m} (work u)" using u by simp
    have known: "known_ref (work u) ?m \<longleftrightarrow> ref_posted (work s) rt (step_ref r ''release'') (t, p, w)"
      by (simp add: known_ref_movement ref_posted_cong [OF u(2)])
    show ?thesis
    proof (cases "known_ref (work u) ?m")
      case True
      with known refusal err u(1) show ?thesis
        by (intro wp_add_movement_known [OF off post]) (auto intro: stock_frame_trans)
    next
      case False
      with known u show ?thesis
        by (intro wp_add_movement_ok [OF off post] issue [of _ u]) (auto intro: stock_frame_trans)
    qed
  qed
  show ?thesis
    unfolding fulfil_step_def apply_consume_qty_def
    by (simp add: wp_simps wp_require_active_product wp_require_active_warehouse
        wp_current_on_hand [OF wf] par pos) (rule wp_apply_release [OF wf pos(2)]; use room release in simp)
next
  case False
  have "E e s" if "fulfil_refusal (work s) rt p w qty t r = Some e" for e
    using err [OF that] by simp
  with False show ?thesis
    unfolding fulfil_step_def apply_consume_qty_def
    by (auto simp: fulfil_refusal_def parents_refusal_def wp_simps wp_current_on_hand [OF wf]
        wp_require_active_product wp_require_active_warehouse split: if_splits option.splits
        intro!: wp_apply_release [OF wf])
qed

end
