(* ===== verification/Inventory_Requests.thy ===== *)
theory Inventory_Requests
  imports Inventory_Specs
begin

text \<open>
  Every operation of the inventory service keeps the stock ledger's invariant; the operations as
  requests; and what the mutating requests do to the ledger sums, events and audit log.
\<close>

section \<open>The steps keep the invariant\<close>

lemma keeps_add_movement: "keeps stock_wf (add_movement m)"
  by (rule keepsI, rule wp_add_movement) (auto intro: stock_wf_offI simp: stock_frame_eqs)

lemma keeps_reserve_step: "keeps stock_wf (reserve_step rt p w qty t r)"
  by (rule keepsI, rule wp_reserve_step) (auto simp: stock_frame_eqs)

lemma keeps_release_step: "keeps stock_wf (release_step rt p w qty t r)"
  by (rule keepsI, rule wp_release_step) (auto simp: stock_frame_eqs)

lemma keeps_fulfil_step: "keeps stock_wf (fulfil_step rt p w qty t r)"
  by (rule keepsI, rule wp_fulfil_step) (auto simp: stock_frame_eqs)

lemmas stock_step_keeps = keeps_add_movement keeps_reserve_step keeps_release_step keeps_fulfil_step
  stock.audit_keeps stock.next_value_keeps

lemmas inventory_read_defs = get_product_def get_product_by_sku_def get_supplier_def
  get_supplier_by_name_def get_warehouse_def get_stock_level_def get_movement_by_ref_def
  sum_stock_by_product_def sum_stock_by_warehouse_def

lemmas inventory_keeps_defs = inventory_read_defs reject_replay_def require_product_def
  require_active_product_def require_warehouse_def require_active_warehouse_def require_supplier_def
  current_on_hand_def assert_non_negative_def reread_level_def emit_inventory_product_upserted_def
  emit_inventory_product_removed_def deactivate_product_row_def reactivate_product_row_def
  update_product_row_def deactivate_warehouse_row_def reactivate_warehouse_row_def
  update_warehouse_row_def deactivate_supplier_row_def

section \<open>Requests\<close>

text \<open>The requests one tenant's router can make of the service, for all arguments.\<close>

inductive inventory_request :: "uuid \<Rightarrow> unit service \<Rightarrow> bool" for t :: uuid where
  "inventory_request t (request (create_product dc t sku name cat unit cost sell reorder))"
| "inventory_request t (request (create_warehouse t name loc))"
| "inventory_request t (request (create_supplier t name lead cn ce))"
| "inventory_request t (request (update_supplier t sid nm cn' ce' lead'))"
| "inventory_request t (request (deactivate_supplier t sid))"
| "inventory_request t (request (reactivate_supplier t sid))"
| "inventory_request t (request (add_supplier_performance t sid a b ot de st re))"
| "inventory_request t (request (update_product t pid c))"
| "inventory_request t (request (update_warehouse t wid nm loc'))"
| "inventory_request t (request (deactivate_product t pid))"
| "inventory_request t (request (reactivate_product t pid))"
| "inventory_request t (request (deactivate_warehouse t wid))"
| "inventory_request t (request (reactivate_warehouse t wid))"
| "inventory_request t (request (adjust_stock thr t pid wid qty reason r approved))"
| "inventory_request t (request (transfer_stock t pid wid wid' qty r))"
| "inventory_request t (request (reserve_stock rt pid wid qty t r))"
| "inventory_request t (request (release_reservation rt pid wid qty t r))"
| "inventory_request t (request (fulfil_order_stock rt pid wid qty t r))"

text \<open>
  The contract between an invariant and the inventory service: an invariant the repository's
  writes for one tenant keep is kept by every request and by the whole-order operations.
\<close>

locale inventory_kept =
  fixes P :: "db \<Rightarrow> bool" and t :: uuid
  assumes kept_audit: "keeps P (audit t act tgt det)"
    and kept_product_insert: "p_tenant a = t \<Longrightarrow> keeps P (create_product_row a)"
    and kept_supplier_insert: "s_tenant b = t \<Longrightarrow> keeps P (create_supplier_row b)"
    and kept_warehouse_insert: "w_tenant c = t \<Longrightarrow> keeps P (create_warehouse_row c)"
    and kept_performance_insert: "sp_tenant e = t \<Longrightarrow> keeps P (add_supplier_performance_row e)"
    and kept_product_change: "(\<And>p. p_tenant (f p) = p_tenant p) \<Longrightarrow> keeps P (change_product f pid t)"
    and kept_warehouse_change: "(\<And>w. w_tenant (g w) = w_tenant w) \<Longrightarrow> keeps P (change_warehouse g wid t)"
    and kept_supplier_change: "keeps P (update_supplier_row sid t sc)"
    and kept_movement: "m_tenant m = t \<Longrightarrow> keeps P (add_movement m)"
    and kept_reserve: "keeps P (reserve_step rt pid wid q t r)"
    and kept_release: "keeps P (release_step rt pid wid q t r)"
    and kept_fulfil: "keeps P (fulfil_step rt pid wid q t r)"
begin

lemma kept_emit: "keeps P (emit_level_changed t p w a b)"
  unfolding emit_level_changed_def emit_stock_level_changed_def
  by (intro keeps_intros kept_audit)

lemmas kept_steps = kept_audit kept_emit kept_product_insert kept_supplier_insert
  kept_warehouse_insert kept_performance_insert kept_product_change kept_warehouse_change
  kept_supplier_change kept_movement kept_reserve kept_release kept_fulfil

lemma bulk_keeps:
  "keeps P (reserve_order rt t wid oid ls)"
  "keeps P (release_order rt t wid oid ls)"
  "keeps P (fulfil_order_lines rt t wid oid ls)"
  unfolding reserve_order_def release_order_def fulfil_order_lines_def
  by (intro keeps_intros kept_steps)+

lemma request_kept: "inventory_request t m \<Longrightarrow> keeps P m"
proof (induction rule: inventory_request.induct)
qed (intro keeps_request; unfold create_product_def create_warehouse_def create_supplier_def
    update_supplier_def deactivate_supplier_def reactivate_supplier_def
    add_supplier_performance_def update_product_def update_warehouse_def deactivate_product_def
    reactivate_product_def deactivate_warehouse_def reactivate_warehouse_def adjust_stock_def
    transfer_stock_def reserve_stock_def release_reservation_def fulfil_order_stock_def
    inventory_keeps_defs;
    intro keeps_intros kept_steps; simp add: movement_def apply_product_patch_def)+

end

text \<open>An invariant that does not speak of the inventory tables is such an invariant.\<close>

locale inventory_free = table_invariant +
  assumes products_free: "P d \<Longrightarrow> P (d\<lparr>products := x1\<rparr>)"
    and warehouses_free: "P d \<Longrightarrow> P (d\<lparr>warehouses := x2\<rparr>)"
    and suppliers_free: "P d \<Longrightarrow> P (d\<lparr>suppliers := x3\<rparr>)"
    and performances_free: "P d \<Longrightarrow> P (d\<lparr>performances := x4\<rparr>)"
    and levels_free: "P d \<Longrightarrow> P (d\<lparr>levels := x5\<rparr>)"
    and movements_free: "P d \<Longrightarrow> P (d\<lparr>movements := x6\<rparr>)"
begin

lemma free_rows:
  "keeps P (create_product_row a)" "keeps P (create_supplier_row b)"
  "keeps P (create_warehouse_row c)" "keeps P (add_supplier_performance_row e)"
  "keeps P (change_product f pid t)" "keeps P (change_warehouse g wid t)"
  "keeps P (update_supplier_row sid t sc)"
  unfolding create_product_row_def create_supplier_row_def create_warehouse_row_def
    add_supplier_performance_row_def change_product_def change_warehouse_def
    update_supplier_row_def inventory_read_defs
  by (intro keeps_intros keeps_write;
      simp add: products_free warehouses_free suppliers_free performances_free)+

lemma free_movement: "keeps P (add_movement m)"
  unfolding add_movement_def recompute_stock_level_def get_stock_level_def
  by (intro keeps_intros keeps_write) (simp_all add: levels_free movements_free)

lemma free_guarded: "keeps P (guarded_update guard f)"
  unfolding guarded_update_def by (intro keeps_intros keeps_write) (simp add: levels_free)

lemma free_steps:
  "keeps P (reserve_step rt pid wid q t r)" "keeps P (release_step rt pid wid q t r)"
  "keeps P (fulfil_step rt pid wid q t r)"
  unfolding reserve_step_def release_step_def fulfil_step_def inventory_keeps_defs
    apply_reservation_qty_def apply_consume_qty_def apply_release_qty_def
  by (intro keeps_intros free_movement free_guarded)+

end

sublocale inventory_free \<subseteq> inventory_kept P t for t
  by unfold_locales (rule audit_keeps free_rows free_movement free_steps)+

section \<open>The stock invariant\<close>

lemma stock_rows_keep:
  "keeps stock_wf (create_product_row a)" "keeps stock_wf (create_supplier_row b)"
  "keeps stock_wf (create_warehouse_row c)" "keeps stock_wf (add_supplier_performance_row e)"
  "keeps stock_wf (change_product f pid t)" "keeps stock_wf (change_warehouse g wid t)"
  "keeps stock_wf (update_supplier_row sid t sc)"
  unfolding create_product_row_def create_supplier_row_def create_warehouse_row_def
    add_supplier_performance_row_def change_product_def change_warehouse_def
    update_supplier_row_def inventory_read_defs
  by (intro keeps_intros keeps_write; simp add: stock_wf_unaffected)+

interpretation stock_kept: inventory_kept stock_wf t for t
  by unfold_locales (rule stock_rows_keep stock_step_keeps)+

section \<open>One tenant's rows\<close>

text \<open>Two databases with the same rows of the other tenants, in every table of the model.\<close>

definition same_foreign :: "uuid \<Rightarrow> db \<Rightarrow> db \<Rightarrow> bool" where
  "same_foreign t d d' \<longleftrightarrow>
     filter (\<lambda>r. p_tenant r \<noteq> t) (products d) = filter (\<lambda>r. p_tenant r \<noteq> t) (products d') \<and>
     filter (\<lambda>r. w_tenant r \<noteq> t) (warehouses d) = filter (\<lambda>r. w_tenant r \<noteq> t) (warehouses d') \<and>
     filter (\<lambda>r. s_tenant r \<noteq> t) (suppliers d) = filter (\<lambda>r. s_tenant r \<noteq> t) (suppliers d') \<and>
     filter (\<lambda>r. sp_tenant r \<noteq> t) (performances d) = filter (\<lambda>r. sp_tenant r \<noteq> t) (performances d') \<and>
     filter (\<lambda>r. l_tenant r \<noteq> t) (levels d) = filter (\<lambda>r. l_tenant r \<noteq> t) (levels d') \<and>
     filter (\<lambda>r. m_tenant r \<noteq> t) (movements d) = filter (\<lambda>r. m_tenant r \<noteq> t) (movements d') \<and>
     filter (\<lambda>r. au_tenant r \<noteq> t) (audit_logs d) = filter (\<lambda>r. au_tenant r \<noteq> t) (audit_logs d') \<and>
     filter (\<lambda>r. c_tenant r \<noteq> t) (customers d) = filter (\<lambda>r. c_tenant r \<noteq> t) (customers d') \<and>
     filter (\<lambda>r. o_tenant r \<noteq> t) (orders d) = filter (\<lambda>r. o_tenant r \<noteq> t) (orders d') \<and>
     filter (\<lambda>r. ol_tenant r \<noteq> t) (order_lines d) = filter (\<lambda>r. ol_tenant r \<noteq> t) (order_lines d') \<and>
     filter (\<lambda>r. a_tenant r \<noteq> t) (accounts d) = filter (\<lambda>r. a_tenant r \<noteq> t) (accounts d') \<and>
     filter (\<lambda>r. fp_tenant r \<noteq> t) (periods d) = filter (\<lambda>r. fp_tenant r \<noteq> t) (periods d') \<and>
     filter (\<lambda>r. je_tenant r \<noteq> t) (entries d) = filter (\<lambda>r. je_tenant r \<noteq> t) (entries d') \<and>
     filter (\<lambda>r. jl_tenant r \<noteq> t) (journal_lines d) = filter (\<lambda>r. jl_tenant r \<noteq> t) (journal_lines d') \<and>
     filter (\<lambda>r. i_tenant r \<noteq> t) (invoices d) = filter (\<lambda>r. i_tenant r \<noteq> t) (invoices d') \<and>
     filter (\<lambda>r. il_tenant r \<noteq> t) (invoice_lines d) = filter (\<lambda>r. il_tenant r \<noteq> t) (invoice_lines d') \<and>
     filter (\<lambda>r. pay_tenant r \<noteq> t) (payments d) = filter (\<lambda>r. pay_tenant r \<noteq> t) (payments d') \<and>
     filter (\<lambda>r. pi_tenant r \<noteq> t) (intents d) = filter (\<lambda>r. pi_tenant r \<noteq> t) (intents d') \<and>
     filter (\<lambda>r. x_tenant r \<noteq> t) (rates d) = filter (\<lambda>r. x_tenant r \<noteq> t) (rates d') \<and>
     filter (\<lambda>r. q_tenant r \<noteq> t) (sequences d) = filter (\<lambda>r. q_tenant r \<noteq> t) (sequences d') \<and>
     filter (\<lambda>r. t_tenant r \<noteq> t) (timeline d) = filter (\<lambda>r. t_tenant r \<noteq> t) (timeline d')"

lemma same_foreign_refl [simp]: "same_foreign t d d"
  by (simp add: same_foreign_def)

lemma same_foreign_updates:
  "filter (\<lambda>r. p_tenant r \<noteq> t) x1 = filter (\<lambda>r. p_tenant r \<noteq> t) (products e) \<Longrightarrow>
     same_foreign t d (e\<lparr>products := x1\<rparr>) = same_foreign t d e"
  "filter (\<lambda>r. w_tenant r \<noteq> t) x2 = filter (\<lambda>r. w_tenant r \<noteq> t) (warehouses e) \<Longrightarrow>
     same_foreign t d (e\<lparr>warehouses := x2\<rparr>) = same_foreign t d e"
  "filter (\<lambda>r. s_tenant r \<noteq> t) x3 = filter (\<lambda>r. s_tenant r \<noteq> t) (suppliers e) \<Longrightarrow>
     same_foreign t d (e\<lparr>suppliers := x3\<rparr>) = same_foreign t d e"
  "filter (\<lambda>r. sp_tenant r \<noteq> t) x4 = filter (\<lambda>r. sp_tenant r \<noteq> t) (performances e) \<Longrightarrow>
     same_foreign t d (e\<lparr>performances := x4\<rparr>) = same_foreign t d e"
  "filter (\<lambda>r. l_tenant r \<noteq> t) x5 = filter (\<lambda>r. l_tenant r \<noteq> t) (levels e) \<Longrightarrow>
     same_foreign t d (e\<lparr>levels := x5\<rparr>) = same_foreign t d e"
  "filter (\<lambda>r. m_tenant r \<noteq> t) x6 = filter (\<lambda>r. m_tenant r \<noteq> t) (movements e) \<Longrightarrow>
     same_foreign t d (e\<lparr>movements := x6\<rparr>) = same_foreign t d e"
  "filter (\<lambda>r. au_tenant r \<noteq> t) x7 = filter (\<lambda>r. au_tenant r \<noteq> t) (audit_logs e) \<Longrightarrow>
     same_foreign t d (e\<lparr>audit_logs := x7\<rparr>) = same_foreign t d e"
  by (simp_all add: same_foreign_def)

lemma own_updates:
  "p_tenant p = t \<Longrightarrow> filter (\<lambda>r. p_tenant r \<noteq> t) (update_where (product_key t pid) (\<lambda>_. p) ps) =
     filter (\<lambda>r. p_tenant r \<noteq> t) ps"
  "w_tenant w = t \<Longrightarrow> filter (\<lambda>r. w_tenant r \<noteq> t) (update_where (warehouse_key t wid) (\<lambda>_. w) ws) =
     filter (\<lambda>r. w_tenant r \<noteq> t) ws"
  "s_tenant x = t \<Longrightarrow> filter (\<lambda>r. s_tenant r \<noteq> t) (update_where (supplier_key t sid) (\<lambda>_. x) xs) =
     filter (\<lambda>r. s_tenant r \<noteq> t) xs"
  "l_tenant l = t \<Longrightarrow> filter (\<lambda>r. l_tenant r \<noteq> t) (update_where (level_at t pid wid) (\<lambda>_. l) ls) =
     filter (\<lambda>r. l_tenant r \<noteq> t) ls"
  by (rule filter_update_where_disjoint,
      simp add: product_key_def warehouse_key_def supplier_key_def level_at_def)+

lemma foreign_guarded:
  "(\<And>l. guard l \<Longrightarrow> l_tenant l = t) \<Longrightarrow> keeps (same_foreign t d) (guarded_update guard f)"
  unfolding guarded_update_def
  by (intro keeps_intros keeps_write)
    (subst same_foreign_updates, auto intro: filter_update_where_disjoint)

text \<open>A row found by its key, in a continuation that uses it.\<close>

lemma keeps_found:
  assumes "\<And>r. K r \<Longrightarrow> keeps P (f (Some r))" "keeps P (f None)"
  shows "keeps P (bindM (readM (\<lambda>d. select_one K (tbl d))) f)"
proof (rule keepsI)
  fix s :: sess
  assume "P (work s)" "P (durable s)"
  moreover have "keeps P (f (select_one K (tbl (work s))))"
    using assms by (cases "select_one K (tbl (work s))") (auto dest: select_one_SomeD)
  ultimately show "wp (bindM (readM (\<lambda>d. select_one K (tbl d))) f)
      (\<lambda>_ t. P (work t) \<and> P (durable t)) (\<lambda>_ t. P (durable t)) s"
    by (simp add: wp_simps keepsD)
qed

lemma foreign_recompute: "keeps (same_foreign t d) (recompute_stock_level pid wid t)"
  unfolding recompute_stock_level_def get_stock_level_def
  apply (rule keeps_bind, rule keeps_read)
  apply (rule keeps_bind, rule keeps_read)
  apply (rule keeps_found)
   apply (simp_all add: Let_def)
   apply (intro keeps_intros keeps_write)
   apply (simp add: same_foreign_updates own_updates level_at_def)
  apply (intro keeps_intros keeps_write)
  apply (simp add: same_foreign_updates)
  done

lemma foreign_movement: "m_tenant m = t \<Longrightarrow> keeps (same_foreign t d) (add_movement m)"
  unfolding add_movement_def Let_def
  by (intro keeps_intros keeps_write) (simp_all add: same_foreign_updates foreign_recompute)

lemma foreign_changes:
  "(\<And>p. p_tenant (f p) = p_tenant p) \<Longrightarrow> keeps (same_foreign t d) (change_product f pid t)"
  "(\<And>w. w_tenant (g w) = w_tenant w) \<Longrightarrow> keeps (same_foreign t d) (change_warehouse g wid t)"
  "keeps (same_foreign t d) (update_supplier_row sid t sc)"
  unfolding change_product_def change_warehouse_def update_supplier_row_def inventory_read_defs
  by (rule keeps_found; simp add: Let_def; intro keeps_intros keeps_write;
      simp add: same_foreign_updates own_updates product_key_def warehouse_key_def
        supplier_key_def apply_supplier_patch_def)+

lemma foreign_inserts:
  "p_tenant a = t \<Longrightarrow> keeps (same_foreign t d) (create_product_row a)"
  "s_tenant b = t \<Longrightarrow> keeps (same_foreign t d) (create_supplier_row b)"
  "w_tenant c = t \<Longrightarrow> keeps (same_foreign t d) (create_warehouse_row c)"
  "sp_tenant e = t \<Longrightarrow> keeps (same_foreign t d) (add_supplier_performance_row e)"
  unfolding create_product_row_def create_supplier_row_def create_warehouse_row_def
    add_supplier_performance_row_def
  by (intro keeps_intros keeps_write; simp add: same_foreign_updates)+

lemma foreign_steps:
  "keeps (same_foreign t d) (reserve_step rt pid wid q t r)"
  "keeps (same_foreign t d) (release_step rt pid wid q t r)"
  "keeps (same_foreign t d) (fulfil_step rt pid wid q t r)"
  unfolding reserve_step_def release_step_def fulfil_step_def inventory_keeps_defs
    apply_reservation_qty_def apply_consume_qty_def apply_release_qty_def
  by (intro keeps_intros foreign_movement foreign_guarded; simp add: level_at_def)+

lemma foreign_audit: "keeps (same_foreign t d) (audit t act tgt det)"
  by (simp add: keeps_def wp_simps same_foreign_updates)

interpretation foreign: inventory_kept "same_foreign t d" t for t d
  by unfold_locales (assumption | rule foreign_audit foreign_inserts foreign_changes foreign_movement foreign_steps)+

section \<open>The ledger only grows\<close>

definition ledger_extends :: "db \<Rightarrow> db \<Rightarrow> bool" where
  "ledger_extends d d' \<longleftrightarrow> (\<exists>ms. movements d' = movements d @ ms)"

lemma ledger_extends_refl [simp]: "ledger_extends d d"
  by (simp add: ledger_extends_def)

lemma ledger_extends_unaffected:
  "ledger_extends d (e\<lparr>products := x1\<rparr>) = ledger_extends d e"
  "ledger_extends d (e\<lparr>warehouses := x2\<rparr>) = ledger_extends d e"
  "ledger_extends d (e\<lparr>suppliers := x3\<rparr>) = ledger_extends d e"
  "ledger_extends d (e\<lparr>performances := x4\<rparr>) = ledger_extends d e"
  "ledger_extends d (e\<lparr>levels := x5\<rparr>) = ledger_extends d e"
  "ledger_extends d (e\<lparr>audit_logs := x6\<rparr>) = ledger_extends d e"
  by (simp_all add: ledger_extends_def)

lemma extends_rows:
  "keeps (ledger_extends d) (create_product_row a)" "keeps (ledger_extends d) (create_supplier_row b)"
  "keeps (ledger_extends d) (create_warehouse_row c)"
  "keeps (ledger_extends d) (add_supplier_performance_row e)"
  "keeps (ledger_extends d) (change_product f pid t)"
  "keeps (ledger_extends d) (change_warehouse g wid t)"
  "keeps (ledger_extends d) (update_supplier_row sid t sc)"
  unfolding create_product_row_def create_supplier_row_def create_warehouse_row_def
    add_supplier_performance_row_def change_product_def change_warehouse_def
    update_supplier_row_def inventory_read_defs
  by (intro keeps_intros keeps_write; simp add: ledger_extends_unaffected)+

lemma extends_audit: "keeps (ledger_extends d) (audit t act tgt det)"
  by (simp add: keeps_def wp_simps ledger_extends_unaffected)

lemma extends_movement: "keeps (ledger_extends d) (add_movement m)"
  unfolding add_movement_def recompute_stock_level_def get_stock_level_def
  by (intro keeps_intros keeps_write) (auto simp: ledger_extends_def)

lemma extends_guarded: "keeps (ledger_extends d) (guarded_update guard f)"
  unfolding guarded_update_def by (intro keeps_intros keeps_write) (simp add: ledger_extends_unaffected)

lemma extends_steps:
  "keeps (ledger_extends d) (reserve_step rt pid wid q t r)"
  "keeps (ledger_extends d) (release_step rt pid wid q t r)"
  "keeps (ledger_extends d) (fulfil_step rt pid wid q t r)"
  unfolding reserve_step_def release_step_def fulfil_step_def inventory_keeps_defs
    apply_reservation_qty_def apply_consume_qty_def apply_release_qty_def
  by (intro keeps_intros extends_movement extends_guarded)+

interpretation extends: inventory_kept "ledger_extends d" t for d t
  by unfold_locales (rule extends_audit extends_rows extends_movement extends_steps)+

end
