(* ===== verification/Inventory_Orders.thy ===== *)
theory Inventory_Orders
  imports Inventory_Requests
begin

text \<open>
  The whole-order operations. The three per-line steps share one contract: a step refuses for a
  reason that only the line's own cell decides, changes the sums of that cell alone, and makes a
  second line of the same product refuse. From the contract follows what a loop over an order's
  lines does, once for all three.
\<close>

section \<open>A loop over the lines of an order\<close>

definition line_sum :: "uuid \<Rightarrow> uuid \<Rightarrow> order_line list \<Rightarrow> cell \<Rightarrow> decimal" where
  "line_sum t w ls c =
     sum_list (map ol_quantity (filter (\<lambda>l. (t, ol_product l, w) = c) ls))"

lemma line_sum_Nil [simp]: "line_sum t w [] c = 0"
  by (simp add: line_sum_def)

lemma line_sum_Cons [simp]:
  "line_sum t w (l # ls) c = (if (t, ol_product l, w) = c then ol_quantity l else 0) + line_sum t w ls c"
  by (simp add: line_sum_def)

definition all_accepted :: "(db \<Rightarrow> uuid \<Rightarrow> decimal \<Rightarrow> error option) \<Rightarrow> db \<Rightarrow> order_line list \<Rightarrow> bool" where
  "all_accepted refusal d ls \<longleftrightarrow>
     distinct (map ol_product ls) \<and> (\<forall>l \<in> set ls. refusal d (ol_product l) (ol_quantity l) = None)"

locale line_step =
  fixes t w :: uuid
    and step :: "uuid \<Rightarrow> decimal \<Rightarrow> 'a service"
    and refusal :: "db \<Rightarrow> uuid \<Rightarrow> decimal \<Rightarrow> error option"
    and on_hand_sign reserved_sign :: decimal
  assumes step_spec: "stock_wf (work s) \<Longrightarrow>
      (\<And>u a. refusal (work s) p q = None \<Longrightarrow> stock_frame s u \<Longrightarrow> stock_wf (work u) \<Longrightarrow>
        (\<And>c. on_hand_in (work u) c = on_hand_in (work s) c + (if c = (t, p, w) then on_hand_sign * q else 0)) \<Longrightarrow>
        (\<And>c. reserved_in (work u) c = reserved_in (work s) c + (if c = (t, p, w) then reserved_sign * q else 0)) \<Longrightarrow>
        (\<And>p' q'. p' \<noteq> p \<Longrightarrow> refusal (work u) p' q' = refusal (work s) p' q') \<Longrightarrow>
        (\<And>q'. refusal (work u) p q' \<noteq> None) \<Longrightarrow> Q a u) \<Longrightarrow>
      (\<And>e u. refusal (work s) p q = Some e \<Longrightarrow> stock_frame s u \<Longrightarrow> E e u) \<Longrightarrow>
      wp (step p q) Q E s"
begin

lemma wp_lines:
  assumes "stock_wf (work s)"
    and "\<And>u as. all_accepted refusal (work s) ls \<Longrightarrow> stock_frame s u \<Longrightarrow> stock_wf (work u) \<Longrightarrow>
        (\<And>c. on_hand_in (work u) c = on_hand_in (work s) c + on_hand_sign * line_sum t w ls c) \<Longrightarrow>
        (\<And>c. reserved_in (work u) c = reserved_in (work s) c + reserved_sign * line_sum t w ls c) \<Longrightarrow>
        Q as u"
    and "\<And>e u. \<not> all_accepted refusal (work s) ls \<Longrightarrow> stock_frame s u \<Longrightarrow> E e u"
  shows "wp (mapM (\<lambda>l. step (ol_product l) (ol_quantity l)) ls) Q E s"
  using assms
proof (induction ls arbitrary: s Q)
  case Nil
  then show ?case by (simp add: wp_simps all_accepted_def)
next
  case (Cons l ls)
  let ?p = "ol_product l" and ?q = "ol_quantity l"
  show ?case
    unfolding mapM.simps wp_bind
  proof (rule step_spec [OF Cons.prems(1)])
    fix e u
    assume "refusal (work s) ?p ?q = Some e" "stock_frame s u"
    then show "E e u" by (intro Cons.prems(3)) (auto simp: all_accepted_def)
  next
    fix u a
    assume none: "refusal (work s) ?p ?q = None" and fr: "stock_frame s u" and wf: "stock_wf (work u)"
      and oh: "\<And>c. on_hand_in (work u) c = on_hand_in (work s) c + (if c = (t, ?p, w) then on_hand_sign * ?q else 0)"
      and rs: "\<And>c. reserved_in (work u) c = reserved_in (work s) c + (if c = (t, ?p, w) then reserved_sign * ?q else 0)"
      and other: "\<And>p' q'. p' \<noteq> ?p \<Longrightarrow> refusal (work u) p' q' = refusal (work s) p' q'"
      and again: "\<And>q'. refusal (work u) ?p q' \<noteq> None"
    have acc: "all_accepted refusal (work u) ls \<longleftrightarrow> all_accepted refusal (work s) (l # ls)"
    proof (cases "?p \<in> set (map ol_product ls)")
      case True
      then obtain k where "k \<in> set ls" "ol_product k = ?p" by auto
      moreover from this have "refusal (work u) (ol_product k) (ol_quantity k) \<noteq> None" using again by simp
      ultimately have "\<not> all_accepted refusal (work u) ls" by (force simp: all_accepted_def)
      moreover have "\<not> all_accepted refusal (work s) (l # ls)" using True by (simp add: all_accepted_def)
      ultimately show ?thesis by simp
    next
      case False
      then have "refusal (work u) (ol_product k) (ol_quantity k) = refusal (work s) (ol_product k) (ol_quantity k)"
        if "k \<in> set ls" for k using that False by (intro other) (metis imageI image_set)
      with False none show ?thesis by (auto simp: all_accepted_def)
    qed
    show "wp (mapM (\<lambda>l. step (ol_product l) (ol_quantity l)) ls)
        (\<lambda>ys v. wp (returnM (a # ys)) Q E v) E u"
      unfolding wp_return
    proof (rule Cons.IH [OF wf])
      fix v as
      assume "all_accepted refusal (work u) ls" "stock_frame u v" "stock_wf (work v)"
        "\<And>c. on_hand_in (work v) c = on_hand_in (work u) c + on_hand_sign * line_sum t w ls c"
        "\<And>c. reserved_in (work v) c = reserved_in (work u) c + reserved_sign * line_sum t w ls c"
      with acc fr show "Q (a # as) v"
        by (intro Cons.prems(2)) (auto simp: oh rs algebra_simps intro: stock_frame_trans)
    next
      fix e v
      assume "\<not> all_accepted refusal (work u) ls" "stock_frame u v"
      with acc fr show "E e v" by (intro Cons.prems(3)) (auto intro: stock_frame_trans)
    qed
  qed
qed

end

lemma wp_forM_mapM: "wp (forM f xs) Q E s = wp (mapM f xs) (\<lambda>_. Q ()) E s"
  by (induction xs arbitrary: s) (simp_all add: wp_simps)

section \<open>The three steps\<close>

lemma parents_refusal_frame: "stock_frame s u \<Longrightarrow> parents_refusal (work u) = parents_refusal (work s)"
  by (rule ext)+ (simp only: parents_refusal_def parents_frame)

lemma refusals_elsewhere:
  assumes "stock_frame s u" "p' \<noteq> p"
    and "\<And>c. c \<noteq> (t, p, w) \<Longrightarrow> on_hand_in (work u) c = on_hand_in (work s) c"
    and "\<And>c. c \<noteq> (t, p, w) \<Longrightarrow> reserved_in (work u) c = reserved_in (work s) c"
    and "\<And>rt r c. c \<noteq> (t, p, w) \<Longrightarrow> ref_posted (work u) rt r c = ref_posted (work s) rt r c"
  shows "reserve_refusal (work u) rt p' w q t r = reserve_refusal (work s) rt p' w q t r"
    "release_refusal (work u) rt p' w q t r = release_refusal (work s) rt p' w q t r"
    "fulfil_refusal (work u) rt p' w q t r = fulfil_refusal (work s) rt p' w q t r"
  using assms by (simp_all add: reserve_refusal_def release_refusal_def fulfil_refusal_def
      parents_refusal_frame)

lemma ref_posted_elsewhere:
  assumes "movements d' = movements d @ ms" "\<And>m. m \<in> set ms \<Longrightarrow> movement_cell m \<noteq> c"
  shows "ref_posted d' rt r c = ref_posted d rt r c"
  using assms by (cases c) (force simp: ref_posted_def movement_key_def movement_cell_def)

lemma ref_posted_own:
  "movements d' = movements d @ ms \<Longrightarrow> \<exists>m \<in> set ms. movement_key m = (t, rt, r, w, p) \<Longrightarrow>
     ref_posted d' rt r (t, p, w)"
  by (auto simp: ref_posted_def)

interpretation reserve_lines: line_step t w
  "\<lambda>p q. reserve_step rt p w q t r" "\<lambda>d p q. reserve_refusal d rt p w q t r" 0 1
  for t w rt r
proof (unfold_locales, rule wp_reserve_step)
  fix s p q E u x and Q :: "unit \<Rightarrow> sess \<Rightarrow> bool"
  let ?m = "stamped x (movement t p w RESERVATION q rt (step_ref r ''reserve''))"
  assume ok: "\<And>u a. reserve_refusal (work s) rt p w q t r = None \<Longrightarrow> stock_frame s u \<Longrightarrow> stock_wf (work u) \<Longrightarrow>
        (\<And>c. on_hand_in (work u) c = on_hand_in (work s) c + (if c = (t, p, w) then 0 * q else 0)) \<Longrightarrow>
        (\<And>c. reserved_in (work u) c = reserved_in (work s) c + (if c = (t, p, w) then 1 * q else 0)) \<Longrightarrow>
        (\<And>p' q'. p' \<noteq> p \<Longrightarrow> reserve_refusal (work u) rt p' w q' t r = reserve_refusal (work s) rt p' w q' t r) \<Longrightarrow>
        (\<And>q'. reserve_refusal (work u) rt p w q' t r \<noteq> None) \<Longrightarrow> Q a u"
    and none: "reserve_refusal (work s) rt p w q t r = None" and fr: "stock_frame s u"
    and mv: "movements (work u) = movements (work s) @ [?m]" and wf: "stock_wf (work u)"
  show "Q () u"
  proof (rule ok [OF none fr wf])
    show "on_hand_in (work u) c = on_hand_in (work s) c + (if c = (t, p, w) then 0 * q else 0)" for c
      by (simp add: on_hand_append [OF mv])
    show "reserved_in (work u) c = reserved_in (work s) c + (if c = (t, p, w) then 1 * q else 0)" for c
      by (auto simp: reserved_append [OF mv])
    show "reserve_refusal (work u) rt p' w q' t r = reserve_refusal (work s) rt p' w q' t r"
      if "p' \<noteq> p" for p' q'
      by (rule refusals_elsewhere [OF fr that _ _ ref_posted_elsewhere [OF mv]])
        (auto simp: on_hand_append [OF mv] reserved_append [OF mv])
    have "ref_posted (work u) rt (step_ref r ''reserve'') (t, p, w)"
      by (rule ref_posted_own [OF mv]) simp
    then show "reserve_refusal (work u) rt p w q' t r \<noteq> None" for q'
      by (simp add: reserve_refusal_def)
  qed
qed auto

interpretation release_lines: line_step t w
  "\<lambda>p q. release_step rt p w q t r" "\<lambda>d p q. release_refusal d rt p w q t r" 0 "-1"
  for t w rt r
proof (unfold_locales, rule wp_release_step)
  fix s p q E u x and Q :: "unit \<Rightarrow> sess \<Rightarrow> bool"
  let ?m = "stamped x (movement t p w RELEASE (- q) rt (step_ref r ''release''))"
  assume ok: "\<And>u a. release_refusal (work s) rt p w q t r = None \<Longrightarrow> stock_frame s u \<Longrightarrow> stock_wf (work u) \<Longrightarrow>
        (\<And>c. on_hand_in (work u) c = on_hand_in (work s) c + (if c = (t, p, w) then 0 * q else 0)) \<Longrightarrow>
        (\<And>c. reserved_in (work u) c = reserved_in (work s) c + (if c = (t, p, w) then - 1 * q else 0)) \<Longrightarrow>
        (\<And>p' q'. p' \<noteq> p \<Longrightarrow> release_refusal (work u) rt p' w q' t r = release_refusal (work s) rt p' w q' t r) \<Longrightarrow>
        (\<And>q'. release_refusal (work u) rt p w q' t r \<noteq> None) \<Longrightarrow> Q a u"
    and none: "release_refusal (work s) rt p w q t r = None" and fr: "stock_frame s u"
    and mv: "movements (work u) = movements (work s) @ [?m]" and wf: "stock_wf (work u)"
  show "Q () u"
  proof (rule ok [OF none fr wf])
    show "on_hand_in (work u) c = on_hand_in (work s) c + (if c = (t, p, w) then 0 * q else 0)" for c
      by (simp add: on_hand_append [OF mv])
    show "reserved_in (work u) c = reserved_in (work s) c + (if c = (t, p, w) then - 1 * q else 0)" for c
      by (auto simp: reserved_append [OF mv])
    show "release_refusal (work u) rt p' w q' t r = release_refusal (work s) rt p' w q' t r"
      if "p' \<noteq> p" for p' q'
      by (rule refusals_elsewhere [OF fr that _ _ ref_posted_elsewhere [OF mv]])
        (auto simp: on_hand_append [OF mv] reserved_append [OF mv])
    have "ref_posted (work u) rt (step_ref r ''release'') (t, p, w)"
      by (rule ref_posted_own [OF mv]) simp
    then show "release_refusal (work u) rt p w q' t r \<noteq> None" for q'
      by (simp add: release_refusal_def)
  qed
qed auto

lemma append_two:
  assumes "movements d' = movements d @ [m, n]"
  shows "on_hand_in d' c = on_hand_in d c +
      (if movement_cell m = c \<and> \<not> is_reservation (m_type m) then m_qty m else 0) +
      (if movement_cell n = c \<and> \<not> is_reservation (m_type n) then m_qty n else 0)"
    "reserved_in d' c = reserved_in d c +
      (if movement_cell m = c \<and> is_reservation (m_type m) then m_qty m else 0) +
      (if movement_cell n = c \<and> is_reservation (m_type n) then m_qty n else 0)"
  using on_hand_append [of "d\<lparr>movements := movements d @ [m]\<rparr>" d m c]
    on_hand_append [of d' "d\<lparr>movements := movements d @ [m]\<rparr>" n c]
    reserved_append [of "d\<lparr>movements := movements d @ [m]\<rparr>" d m c]
    reserved_append [of d' "d\<lparr>movements := movements d @ [m]\<rparr>" n c] assms
  by simp_all

interpretation fulfil_lines: line_step t w
  "\<lambda>p q. fulfil_step rt p w q t r" "\<lambda>d p q. fulfil_refusal d rt p w q t r" "-1" "-1"
  for t w rt r
proof (unfold_locales, rule wp_fulfil_step)
  fix s p q E u x y product and Q :: "product \<times> decimal \<times> decimal \<Rightarrow> sess \<Rightarrow> bool"
  let ?ms = "[stamped x (movement t p w RELEASE (- q) rt (step_ref r ''release'')),
      stamped y (movement t p w ISSUE (- q) rt (step_ref r ''issue''))]"
  assume ok: "\<And>u a. fulfil_refusal (work s) rt p w q t r = None \<Longrightarrow> stock_frame s u \<Longrightarrow> stock_wf (work u) \<Longrightarrow>
        (\<And>c. on_hand_in (work u) c = on_hand_in (work s) c + (if c = (t, p, w) then - 1 * q else 0)) \<Longrightarrow>
        (\<And>c. reserved_in (work u) c = reserved_in (work s) c + (if c = (t, p, w) then - 1 * q else 0)) \<Longrightarrow>
        (\<And>p' q'. p' \<noteq> p \<Longrightarrow> fulfil_refusal (work u) rt p' w q' t r = fulfil_refusal (work s) rt p' w q' t r) \<Longrightarrow>
        (\<And>q'. fulfil_refusal (work u) rt p w q' t r \<noteq> None) \<Longrightarrow> Q a u"
    and none: "fulfil_refusal (work s) rt p w q t r = None" and fr: "stock_frame s u"
    and mv: "movements (work u) = movements (work s) @ ?ms" and wf: "stock_wf (work u)"
  show "Q (product, on_hand_in (work s) (t, p, w), q) u"
  proof (rule ok [OF none fr wf])
    show "on_hand_in (work u) c = on_hand_in (work s) c + (if c = (t, p, w) then - 1 * q else 0)" for c
      by (auto simp: append_two [OF mv])
    show "reserved_in (work u) c = reserved_in (work s) c + (if c = (t, p, w) then - 1 * q else 0)" for c
      by (auto simp: append_two [OF mv])
    show "fulfil_refusal (work u) rt p' w q' t r = fulfil_refusal (work s) rt p' w q' t r"
      if "p' \<noteq> p" for p' q'
      by (rule refusals_elsewhere [OF fr that _ _ ref_posted_elsewhere [OF mv]])
        (auto simp: append_two [OF mv])
    have "ref_posted (work u) rt (step_ref r ''release'') (t, p, w)"
      by (rule ref_posted_own [OF mv]) simp
    then show "fulfil_refusal (work u) rt p w q' t r \<noteq> None" for q'
      by (auto simp: fulfil_refusal_def split: option.splits)
  qed
qed auto

end
