(* ===== verification/Finance_Ledger.thy ===== *)
theory Finance_Ledger
  imports Billing_Service
begin

text \<open>
  The double-entry invariant of the journal: entries and accounts have distinct identifiers,
  every line belongs to an entry and an account and has one positive side, and the entries that
  count in the reports (posted, or posted and later reversed) balance. Every operation of the
  journal keeps it.
\<close>

section \<open>The invariant\<close>

definition entry_id :: "journal_entry \<Rightarrow> uuid \<times> uuid" where
  "entry_id e = (je_tenant e, je_id e)"

definition account_id :: "account \<Rightarrow> uuid \<times> uuid" where
  "account_id a = (a_tenant a, a_id a)"

definition booked :: "entry_status \<Rightarrow> bool" where
  "booked st \<longleftrightarrow> st = ENTRY_POSTED \<or> st = ENTRY_REVERSED"

lemma booked_simps [simp]:
  "booked ENTRY_POSTED" "booked ENTRY_REVERSED" "\<not> booked ENTRY_DRAFT" "\<not> booked ENTRY_VOIDED"
  by (simp_all add: booked_def)

definition one_sided :: "journal_line \<Rightarrow> bool" where
  "one_sided l \<longleftrightarrow>
     (\<exists>x. 0 < x \<and> (jl_debit l = Some x \<and> jl_credit l = None \<or> jl_debit l = None \<and> jl_credit l = Some x))"

definition balanced :: "journal_line list \<Rightarrow> bool" where
  "balanced ls \<longleftrightarrow> debit_total ls = credit_total ls"

definition line_placed :: "db \<Rightarrow> journal_line \<Rightarrow> bool" where
  "line_placed d l \<longleftrightarrow> (\<exists>e \<in> set (entries d). entry_key (jl_tenant l) (jl_entry l) e) \<and>
     (\<exists>a \<in> set (accounts d). account_key (jl_tenant l) (jl_account l) a)"

text \<open>No two entries of a tenant carry the same source document.\<close>

definition same_document :: "journal_entry \<Rightarrow> journal_entry \<Rightarrow> bool" where
  "same_document e f \<longleftrightarrow> je_tenant e = je_tenant f \<and> je_source e = je_source f \<and>
     je_ref e = je_ref f \<and> je_ref e \<noteq> None"

definition refs_distinct :: "journal_entry list \<Rightarrow> bool" where
  "refs_distinct es \<longleftrightarrow> (\<forall>e \<in> set es. \<forall>f \<in> set es. same_document e f \<longrightarrow> entry_id e = entry_id f)"

definition entry_stamp :: "journal_entry \<Rightarrow> uuid \<times> uuid \<times> string \<times> string option" where
  "entry_stamp e = (je_tenant e, je_id e, je_source e, je_ref e)"

lemma entry_stamp_eq:
  "entry_stamp e = entry_stamp f \<longleftrightarrow> je_tenant e = je_tenant f \<and> je_id e = je_id f \<and>
     je_source e = je_source f \<and> je_ref e = je_ref f"
  by (simp add: entry_stamp_def)

lemma same_document_sym: "same_document e f \<Longrightarrow> same_document f e"
  unfolding same_document_def by metis

lemma refs_distinct_append:
  "refs_distinct es \<Longrightarrow> \<forall>f \<in> set es. \<not> same_document e f \<Longrightarrow> refs_distinct (es @ [e])"
  unfolding refs_distinct_def by (simp, blast intro: same_document_sym)

lemma refs_distinct_flip:
  assumes "\<And>e. entry_stamp (f e) = entry_stamp e"
  shows "refs_distinct (update_where guard f es) = refs_distinct es"
proof -
  have stamps: "refs_distinct es \<longleftrightarrow> (\<forall>x \<in> entry_stamp ` set es. \<forall>y \<in> entry_stamp ` set es.
      fst x = fst y \<and> snd (snd x) = snd (snd y) \<and> snd (snd (snd x)) \<noteq> None \<longrightarrow> fst (snd x) = fst (snd y))"
    for es
    by (auto simp: refs_distinct_def same_document_def entry_id_def entry_stamp_def)
  show ?thesis unfolding stamps by (simp only: image_update_where assms)
qed

definition books_wf :: "db \<Rightarrow> bool" where
  "books_wf d \<longleftrightarrow>
     distinct (map entry_id (entries d)) \<and> distinct (map account_id (accounts d)) \<and>
     (\<forall>l \<in> set (journal_lines d). one_sided l \<and> line_placed d l) \<and>
     (\<forall>e \<in> set (entries d). booked (je_status e) \<longrightarrow> balanced (entry_lines (je_tenant e) (je_id e) d)) \<and>
     refs_distinct (entries d)"

lemma books_wf_cong:
  "entries d = entries d' \<Longrightarrow> accounts d = accounts d' \<Longrightarrow> journal_lines d = journal_lines d' \<Longrightarrow>
     books_wf d = books_wf d'"
  by (simp add: books_wf_def line_placed_def entry_lines_def)

lemma books_unaffected:
  "books_wf (d\<lparr>products := x1\<rparr>) = books_wf d"
  "books_wf (d\<lparr>warehouses := x2\<rparr>) = books_wf d"
  "books_wf (d\<lparr>suppliers := x3\<rparr>) = books_wf d"
  "books_wf (d\<lparr>performances := x4\<rparr>) = books_wf d"
  "books_wf (d\<lparr>levels := x5\<rparr>) = books_wf d"
  "books_wf (d\<lparr>movements := x6\<rparr>) = books_wf d"
  "books_wf (d\<lparr>orders := x7\<rparr>) = books_wf d"
  "books_wf (d\<lparr>order_lines := x8\<rparr>) = books_wf d"
  "books_wf (d\<lparr>periods := x9\<rparr>) = books_wf d"
  "books_wf (d\<lparr>invoices := x10\<rparr>) = books_wf d"
  "books_wf (d\<lparr>invoice_lines := x11\<rparr>) = books_wf d"
  "books_wf (d\<lparr>payments := x12\<rparr>) = books_wf d"
  "books_wf (d\<lparr>intents := x13\<rparr>) = books_wf d"
  "books_wf (d\<lparr>rates := x14\<rparr>) = books_wf d"
  "books_wf (d\<lparr>sequences := x15\<rparr>) = books_wf d"
  "books_wf (d\<lparr>audit_logs := x16\<rparr>) = books_wf d"
  "books_wf (d\<lparr>timeline := x17\<rparr>) = books_wf d"
  "books_wf (d\<lparr>customers := x18\<rparr>) = books_wf d"
  by (rule books_wf_cong; simp)+

interpretation books: table_invariant books_wf
  by unfold_locales (simp_all add: books_unaffected)

lemma debit_total_Nil [simp]: "debit_total [] = 0"
  and credit_total_Nil [simp]: "credit_total [] = 0"
  by (simp_all add: debit_total_def credit_total_def)

lemma debit_total_Cons [simp]: "debit_total (l # ls) = debit_of l + debit_total ls"
  and credit_total_Cons [simp]: "credit_total (l # ls) = credit_of l + credit_total ls"
  by (auto simp: debit_total_def credit_total_def debit_of_def credit_of_def)

lemma debit_total_append: "debit_total (ls @ ks) = debit_total ls + debit_total ks"
  and credit_total_append: "credit_total (ls @ ks) = credit_total ls + credit_total ks"
  by (induction ls) simp_all

lemma totals_sum_list: "debit_total ls = sum_list (map debit_of ls)" "credit_total ls = sum_list (map credit_of ls)"
  by (induction ls) simp_all

section \<open>Creating an entry\<close>

definition stored_lines :: "nat \<Rightarrow> uuid \<Rightarrow> uuid \<Rightarrow> journal_line list \<Rightarrow> journal_line list" where
  "stored_lines k tenant i ls = map (\<lambda>(n, l). stored_line n tenant i l) (enumerate k ls)"

lemma stored_lines_simps [simp]:
  "stored_lines k tenant i [] = []"
  "stored_lines k tenant i (l # ls) = stored_line k tenant i l # stored_lines (Suc k) tenant i ls"
  by (simp_all add: stored_lines_def)

lemma stored_lines_fields:
  "l \<in> set (stored_lines k tenant i ls) \<Longrightarrow> jl_tenant l = tenant \<and> jl_entry l = i"
  by (induction ls arbitrary: k) (auto simp: stored_line_def)

lemma wp_number_lines [wp_simps]:
  "wp (mapM (\<lambda>l. bindM fresh_id (\<lambda>k. returnM (f k l))) ls) Q E s =
     Q (map (\<lambda>(n, l). f n l) (enumerate (next_id s) ls)) (s\<lparr>next_id := next_id s + length ls\<rparr>)"
  by (induction ls arbitrary: s Q) (simp_all add: wp_simps)

text \<open>What \<open>create_journal_entry\<close> does, as one equation.\<close>

definition entry_row :: "sess \<Rightarrow> journal_entry \<Rightarrow> journal_entry" where
  "entry_row s e = e\<lparr>je_id := next_id s\<rparr>"

definition line_rows :: "sess \<Rightarrow> journal_entry \<Rightarrow> journal_line list \<Rightarrow> journal_line list" where
  "line_rows s e ls = stored_lines (Suc (next_id s)) (je_tenant e) (next_id s) ls"

definition with_entry :: "journal_entry \<Rightarrow> journal_line list \<Rightarrow> db \<Rightarrow> db" where
  "with_entry e ls d = d\<lparr>entries := entries d @ [e], journal_lines := journal_lines d @ ls\<rparr>"

definition entry_refusal :: "sess \<Rightarrow> journal_entry \<Rightarrow> journal_line list \<Rightarrow> error option" where
  "entry_refusal s e ls =
     (case first_violation (entry_constraints (entry_row s e)) (work s) of
        Some c \<Rightarrow> Some (conflict_or_reraise (IntegrityError c))
      | None \<Rightarrow> map_option IntegrityError
          (first_violation (lines_constraints (line_rows s e ls)) ((work s)\<lparr>entries := entries (work s) @ [entry_row s e]\<rparr>)))"

definition same_outside_work :: "sess \<Rightarrow> sess \<Rightarrow> bool" where
  "same_outside_work s t \<longleftrightarrow> durable t = durable s \<and> ctx_buffer t = ctx_buffer s \<and>
     fin_pending t = fin_pending s \<and> published t = published s \<and> ctx_user t = ctx_user s \<and>
     clk t = clk s \<and> number_seq t = number_seq s"

lemma same_outside_work_refl [simp]: "same_outside_work s s"
  by (simp add: same_outside_work_def)

lemma wp_line_rows:
  "wp (mapM (\<lambda>l. bindM fresh_id (\<lambda>k. returnM (stored_line k tenant i l))) ls) Q E s =
     Q (stored_lines (next_id s) tenant i ls) (s\<lparr>next_id := next_id s + length ls\<rparr>)"
  unfolding stored_lines_def by (rule wp_number_lines)

lemma wp_create_journal_entry:
  assumes ok: "entry_refusal s e ls = None \<Longrightarrow>
      Q (entry_row s e, ls) (s\<lparr>work := with_entry (entry_row s e) (line_rows s e ls) (work s),
         next_id := Suc (next_id s) + length ls\<rparr>)"
    and err: "\<And>x t. entry_refusal s e ls = Some x \<Longrightarrow> same_outside_work s t \<Longrightarrow> E x t"
  shows "wp (create_journal_entry (e, ls)) Q E s"
  using assms
  by (simp add: create_journal_entry_def wp_bind wp_fresh wp_then wp_flush_unique wp_write wp_return
      wp_line_rows wp_check_all_violation Let_def entry_row_def [symmetric] line_rows_def [symmetric]
      entry_refusal_def same_outside_work_def with_entry_def split: option.split)

lemma entry_refusal_None:
  "entry_refusal s e ls = None \<longleftrightarrow>
     (\<forall>f \<in> set (entries (work s)). \<not> entry_key (je_tenant e) (next_id s) f) \<and>
     (\<forall>r. je_ref e = Some r \<longrightarrow> (\<forall>f \<in> set (entries (work s)). \<not> same_source (je_tenant e) (je_source e) r f)) \<and>
     (\<forall>l \<in> set (line_rows s e ls). one_sided l \<and>
        (\<exists>a \<in> set (accounts (work s)). account_key (jl_tenant l) (jl_account l) a))"
proof -
  have shape: "(\<forall>c \<in> set (line_checks l). snd c d) \<longleftrightarrow> one_sided l" for l d
    by (cases "jl_debit l"; cases "jl_credit l")
      (auto simp: line_checks_def one_sided_def opt_all_def)
  let ?d = "(work s)\<lparr>entries := entries (work s) @ [entry_row s e]\<rparr>"
  have "first_violation (lines_constraints (line_rows s e ls)) ?d = None \<longleftrightarrow>
      (\<forall>l \<in> set (line_rows s e ls). one_sided l \<and> (\<forall>c \<in> set (line_foreign_keys l). snd c ?d))"
    using shape [of _ ?d] by (auto simp: first_violation_None lines_constraints_def)
  also have "\<dots> \<longleftrightarrow> (\<forall>l \<in> set (line_rows s e ls). one_sided l \<and>
        (\<exists>a \<in> set (accounts (work s)). account_key (jl_tenant l) (jl_account l) a))"
  proof (rule ball_cong [OF refl])
    fix l
    assume "l \<in> set (line_rows s e ls)"
    then have "jl_tenant l = je_tenant e \<and> jl_entry l = next_id s"
      by (auto simp: line_rows_def dest: stored_lines_fields)
    then show "(one_sided l \<and> (\<forall>c \<in> set (line_foreign_keys l). snd c ?d)) \<longleftrightarrow>
      (one_sided l \<and> (\<exists>a \<in> set (accounts (work s)). account_key (jl_tenant l) (jl_account l) a))"
      by (simp add: line_foreign_keys_def entry_key_def entry_row_def)
  qed
  finally show ?thesis
    by (auto simp: entry_refusal_def entry_constraints_def entry_row_def split: option.split if_splits)
qed

lemma entry_lines_with_entry:
  assumes "books_wf d" "\<forall>f \<in> set (entries d). \<not> entry_key (je_tenant e) (je_id e) f"
    and rows: "\<forall>l \<in> set ls. jl_tenant l = je_tenant e \<and> jl_entry l = je_id e"
  shows "entry_lines t i (with_entry e ls d) = (if (t, i) = entry_id e then ls else entry_lines t i d)"
proof (cases "(t, i) = entry_id e")
  case True
  have "\<not> line_of t i l" if "l \<in> set (journal_lines d)" for l
    using assms(1,2) that True by (fastforce simp: books_wf_def line_placed_def line_of_def entry_id_def)
  with rows True show ?thesis
    by (simp add: entry_lines_def with_entry_def filter_empty_conv entry_id_def)
      (auto simp: line_of_def intro!: filter_True)
next
  case False
  with rows show ?thesis
    by (auto simp: entry_lines_def with_entry_def filter_empty_conv entry_id_def line_of_def)
qed

lemma books_with_entry:
  assumes wf: "books_wf d" and fresh: "\<forall>f \<in> set (entries d). \<not> entry_key (je_tenant e) (je_id e) f"
    and src: "\<forall>f \<in> set (entries d). \<not> same_document e f"
    and rows: "\<forall>l \<in> set ls. jl_tenant l = je_tenant e \<and> jl_entry l = je_id e"
    and ok: "\<forall>l \<in> set ls. one_sided l \<and> (\<exists>a \<in> set (accounts d). account_key (jl_tenant l) (jl_account l) a)"
    and bal: "booked (je_status e) \<Longrightarrow> balanced ls"
  shows "books_wf (with_entry e ls d)"
proof -
  have new: "entry_id f \<noteq> entry_id e" if "f \<in> set (entries d)" for f
    using fresh that by (auto simp: entry_id_def entry_key_def)
  have "distinct (map entry_id (entries (with_entry e ls d)))"
    using wf new by (force simp: with_entry_def books_wf_def)
  moreover have "one_sided l \<and> line_placed (with_entry e ls d) l"
    if "l \<in> set (journal_lines (with_entry e ls d))" for l
    using that wf ok rows
    by (auto simp: with_entry_def books_wf_def line_placed_def entry_key_def)
  moreover have "balanced (entry_lines (je_tenant f) (je_id f) (with_entry e ls d))"
    if "f \<in> set (entries (with_entry e ls d))" "booked (je_status f)" for f
    using that wf bal new [of f] unfolding entry_lines_with_entry [OF wf fresh rows]
    by (auto simp: with_entry_def books_wf_def entry_id_def)
  moreover have "refs_distinct (entries (with_entry e ls d))"
    using wf src by (simp add: with_entry_def books_wf_def refs_distinct_append)
  ultimately show ?thesis using wf by (simp add: books_wf_def with_entry_def)
qed

lemma line_rows_fields: "\<forall>l \<in> set (line_rows s e ls).
    jl_tenant l = je_tenant (entry_row s e) \<and> jl_entry l = je_id (entry_row s e)"
  by (auto simp: line_rows_def entry_row_def dest!: stored_lines_fields)

lemma entry_row_simps [simp]:
  "je_id (entry_row s e) = next_id s" "je_tenant (entry_row s e) = je_tenant e"
  "je_status (entry_row s e) = je_status e" "je_date (entry_row s e) = je_date e"
  "je_source (entry_row s e) = je_source e" "je_ref (entry_row s e) = je_ref e"
  by (simp_all add: entry_row_def)

lemma entry_created:
  assumes "entry_refusal s e ls = None"
  shows "\<forall>f \<in> set (entries (work s)). \<not> entry_key (je_tenant (entry_row s e)) (je_id (entry_row s e)) f"
    "\<forall>f \<in> set (entries (work s)). \<not> same_document (entry_row s e) f"
proof -
  note ok = assms [unfolded entry_refusal_None]
  then show "\<forall>f \<in> set (entries (work s)). \<not> entry_key (je_tenant (entry_row s e)) (je_id (entry_row s e)) f"
    by simp
  from ok show "\<forall>f \<in> set (entries (work s)). \<not> same_document (entry_row s e) f"
    by (cases "je_ref e") (auto simp: same_document_def same_source_def)
qed

lemma books_created:
  assumes "books_wf (work s)" "entry_refusal s e ls = None"
    and "booked (je_status e) \<Longrightarrow> balanced (line_rows s e ls)"
  shows "books_wf (with_entry (entry_row s e) (line_rows s e ls) (work s))"
  using assms(1,3) entry_created [OF assms(2)] assms(2)
  by (intro books_with_entry) (simp_all add: entry_refusal_None line_rows_fields)

text \<open>The totals of the stored lines: those of the amounts as the columns hold them.\<close>

definition as_stored :: "journal_line list \<Rightarrow> journal_line list" where
  "as_stored ls = map (stored_line 0 0 0) ls"

lemma as_stored_simps [simp]:
  "as_stored [] = []" "as_stored (l # ls) = stored_line 0 0 0 l # as_stored ls"
  by (simp_all add: as_stored_def)

lemma stored_line_sides [simp]:
  "debit_of (stored_line k t i l) = numeric 4 (debit_of l)"
  "credit_of (stored_line k t i l) = numeric 4 (credit_of l)"
  by (simp_all add: stored_line_def debit_of_def credit_of_def split: option.split)

lemma line_rows_totals:
  "debit_total (line_rows s e ls) = debit_total (as_stored ls)"
  "credit_total (line_rows s e ls) = credit_total (as_stored ls)"
proof -
  have "debit_total (stored_lines k t i ls) = debit_total (as_stored ls) \<and>
      credit_total (stored_lines k t i ls) = credit_total (as_stored ls)" for k t i
    by (induction ls arbitrary: k) simp_all
  then show "debit_total (line_rows s e ls) = debit_total (as_stored ls)"
    "credit_total (line_rows s e ls) = credit_total (as_stored ls)"
    by (simp_all add: line_rows_def)
qed

lemma balanced_rows [simp]: "balanced (line_rows s e ls) = balanced (as_stored ls)"
  by (simp add: balanced_def line_rows_totals)

lemma keeps_create_entry:
  assumes "booked (je_status e) \<Longrightarrow> balanced (as_stored ls)"
  shows "keeps books_wf (create_journal_entry (e, ls))"
  using assms
  by (intro keepsI wp_create_journal_entry) (auto simp: same_outside_work_def intro: books_created)

section \<open>The other writes\<close>

lemma new_line_sides [simp]:
  "debit_of (new_line a x y) = (case x of None \<Rightarrow> 0 | Some v \<Rightarrow> v)"
  "credit_of (new_line a x y) = (case y of None \<Rightarrow> 0 | Some v \<Rightarrow> v)"
  by (simp_all add: new_line_def debit_of_def credit_of_def)

lemma balanced_two [simp]:
  "balanced (as_stored [new_line a (Some x) None, new_line b None (Some x)])"
  by (simp add: balanced_def)

lemma books_flip:
  assumes wf: "books_wf d"
    and stamp: "\<And>e. entry_stamp (f e) = entry_stamp e"
    and bal: "\<And>e. e \<in> set (entries d) \<Longrightarrow> guard e \<Longrightarrow> booked (je_status (f e)) \<Longrightarrow>
      balanced (entry_lines (je_tenant e) (je_id e) d)"
  shows "books_wf (d\<lparr>entries := update_where guard f (entries d)\<rparr>)"
proof -
  note key = stamp [unfolded entry_stamp_eq]
  have ids: "map entry_id (update_where guard f (entries d)) = map entry_id (entries d)"
    by (rule map_update_where) (simp add: entry_id_def key)
  have refs: "refs_distinct (update_where guard f (entries d))"
    by (subst refs_distinct_flip [OF stamp]) (use wf in \<open>simp add: books_wf_def\<close>)
  have placed: "line_placed (d\<lparr>entries := update_where guard f (entries d)\<rparr>) l = line_placed d l" for l
    by (simp add: line_placed_def bex_update_where entry_key_def key)
  from wf bal ids refs show ?thesis
    by (simp add: books_wf_def placed entry_lines_def ball_update_where key)
qed

lemma keeps_flip:
  assumes stamp: "\<And>e. entry_stamp (f e) = entry_stamp e"
    and bal: "\<And>e. je_status e = expected \<Longrightarrow> booked (je_status (f e)) \<Longrightarrow> booked expected"
  shows "keeps books_wf (flip_entry expected f i tenant)"
  unfolding flip_entry_def Let_def get_journal_entry_row_def
  by (intro keeps_intros keeps_write books_flip) (use assms in \<open>auto simp: books_wf_def\<close>)

lemma books_account_insert:
  "books_wf d \<Longrightarrow> \<forall>b \<in> set (accounts d). \<not> account_key (a_tenant a) (a_id a) b \<Longrightarrow>
     books_wf (d\<lparr>accounts := accounts d @ [a]\<rparr>)"
  by (auto simp: books_wf_def line_placed_def entry_lines_def account_id_def account_key_def)

lemma keeps_create_account: "keeps books_wf (create_account_row a)"
proof (rule keepsI)
  fix s :: sess
  assume "books_wf (work s)" "books_wf (durable s)"
  then show "wp (create_account_row a) (\<lambda>_ t. books_wf (work t) \<and> books_wf (durable t))
      (\<lambda>_ t. books_wf (durable t)) s"
    by (auto simp: create_account_row_def wp_simps Let_def first_violation_None account_constraints_def
        split: option.split intro!: books_account_insert)
qed

lemma books_account_update:
  assumes "\<And>a. a_tenant (f a) = a_tenant a \<and> a_id (f a) = a_id a"
  shows "books_wf (d\<lparr>accounts := update_where guard f (accounts d)\<rparr>) = books_wf d"
proof -
  have "map account_id (update_where guard f (accounts d)) = map account_id (accounts d)"
    by (rule map_update_where) (simp add: account_id_def assms)
  moreover have "line_placed (d\<lparr>accounts := update_where guard f (accounts d)\<rparr>) l = line_placed d l" for l
    by (simp add: line_placed_def bex_update_where account_key_def assms)
  ultimately show ?thesis by (auto simp: books_wf_def entry_lines_def)
qed

lemma keeps_deactivate_account: "keeps books_wf (deactivate_account_row i tenant)"
  unfolding deactivate_account_row_def get_account_by_id_def
  by (intro keeps_intros keeps_write) (simp add: books_account_update)

lemma books_delete:
  assumes "books_wf d"
  shows "books_wf (d\<lparr>journal_lines := filter (\<lambda>l. \<not> line_of t i l) (journal_lines d),
      entries := filter (\<lambda>f. \<not> entry_key t i f) (entries d)\<rparr>)" (is "books_wf ?d")
proof -
  have lines: "entry_lines (je_tenant f) (je_id f) ?d = entry_lines (je_tenant f) (je_id f) d"
    if "\<not> entry_key t i f" for f
    using that by (auto simp: entry_lines_def line_of_def entry_key_def intro!: filter_cong)
  have "line_placed ?d l" if "line_placed d l" "\<not> line_of t i l" for l
    using that by (fastforce simp: line_placed_def line_of_def entry_key_def)
  with assms lines show ?thesis by (auto simp: books_wf_def distinct_map_filter refs_distinct_def)
qed

section \<open>The services\<close>

lemma wp_flip_entry:
  assumes key: "\<And>e. je_tenant (f e) = je_tenant e \<and> je_id (f e) = je_id e"
    and found: "select_one (entry_key t i) (entries (work s)) = Some e" "je_status e = expected"
    and ok: "Q (Some (f e, entry_lines t i (work s))) (s\<lparr>work := (work s)\<lparr>entries :=
        update_where (\<lambda>e. entry_key t i e \<and> je_status e = expected) f (entries (work s))\<rparr>\<rparr>)"
  shows "wp (flip_entry expected f i t) Q E s"
proof -
  let ?g = "\<lambda>e. entry_key t i e \<and> je_status e = expected"
  from found have e: "e \<in> set (entries (work s))" "entry_key t i e"
    by (auto dest: select_one_SomeD)
  with found(2) have "rows_matched ?g (entries (work s)) \<noteq> 0"
    by (auto simp: rows_matched_0 select_one_None)
  moreover have "select_one (entry_key t i) (update_where ?g f (entries (work s))) = Some (f e)"
    using found e by (subst select_one_update_where) (auto simp: entry_key_def key)
  ultimately show ?thesis using ok e key [of e]
    by (simp add: flip_entry_def Let_def wp_simps get_journal_entry_row_def load_entry_def
        entry_lines_def entry_key_def)
qed

definition posting_refusal :: "db \<Rightarrow> uuid \<Rightarrow> uuid \<Rightarrow> error option" where
  "posting_refusal d t i =
     (case select_one (entry_key t i) (entries d) of
        None \<Rightarrow> Some (NotFoundError ''Journal entry'')
      | Some e \<Rightarrow>
          if je_status e \<noteq> ENTRY_DRAFT then Some (ConflictError ''Only draft journal entries can be posted'')
          else if closed_on t (je_date e) d then Some (ConflictError ''Entry date falls in a closed fiscal period'')
          else if \<not> balanced (entry_lines t i d) then Some (ValidationError ''Journal entry is not balanced'')
          else None)"

definition draft_at :: "uuid \<Rightarrow> uuid \<Rightarrow> journal_entry \<Rightarrow> bool" where
  "draft_at t i e \<longleftrightarrow> entry_key t i e \<and> je_status e = ENTRY_DRAFT"

definition posted_by :: "uuid option \<Rightarrow> int \<Rightarrow> journal_entry \<Rightarrow> journal_entry" where
  "posted_by user at_time e =
     e\<lparr>je_status := ENTRY_POSTED, je_posted_at := Some at_time, je_posted_by := user\<rparr>"

lemma posted_by_simps [simp]:
  "je_id (posted_by u x e) = je_id e" "je_tenant (posted_by u x e) = je_tenant e"
  "je_date (posted_by u x e) = je_date e" "je_status (posted_by u x e) = ENTRY_POSTED"
  "je_source (posted_by u x e) = je_source e" "je_ref (posted_by u x e) = je_ref e"
  by (simp_all add: posted_by_def)

definition posted_db :: "uuid \<Rightarrow> uuid option \<Rightarrow> uuid \<Rightarrow> int \<Rightarrow> db \<Rightarrow> db" where
  "posted_db t user i at_time d =
     d\<lparr>entries := update_where (draft_at t i) (posted_by user at_time) (entries d)\<rparr>"

text \<open>The authoritative posting step, once the entry is a draft in an open period.\<close>

lemma wp_complete_posting:
  assumes "select_one (entry_key t i) (entries (work s)) = Some e"
    and "je_status e = ENTRY_DRAFT" "\<not> closed_on t (je_date e) (work s)"
    and ok: "\<And>a. au_action a = ''finance.journal_entry.posted'' \<Longrightarrow> au_tenant a = t \<Longrightarrow>
      au_target a = target ''journal_entry'' i \<Longrightarrow>
      Q (posted_by user at_time e, entry_lines t i (work s))
        (s\<lparr>work := (posted_db t user i at_time (work s))\<lparr>audit_logs := audit_logs (work s) @ [a]\<rparr>,
          fin_pending := fin_pending s @ [\<lparr>ev_topic = ''finance.journal_entry.posted'', ev_tenant = t,
            ev_payload = [(''entry_id'', PId i)]\<rparr>]\<rparr>)"
  shows "wp (complete_posting t user i at_time) Q E s"
  using assms
  by (simp add: complete_posting_def get_journal_entry_def get_journal_entry_row_def wp_simps
      load_entry_def is_period_closed_def post_journal_entry_row_def)
    (rule wp_flip_entry [where e = e], auto simp: wp_simps posted_db_def posted_by_def [abs_def] draft_at_def [abs_def])

lemma wp_post_journal_entry:
  assumes ok: "\<And>e a. posting_refusal (work s) t i = None \<Longrightarrow>
      select_one (entry_key t i) (entries (work s)) = Some e \<Longrightarrow>
      au_action a = ''finance.journal_entry.posted'' \<Longrightarrow> au_tenant a = t \<Longrightarrow>
      Q (posted_by (Some user) (instant (clk s)) e, entry_lines t i (work s))
        (s\<lparr>work := (posted_db t (Some user) i (instant (clk s)) (work s))\<lparr>audit_logs := audit_logs (work s) @ [a]\<rparr>,
          fin_pending := fin_pending s @ [\<lparr>ev_topic = ''finance.journal_entry.posted'', ev_tenant = t,
            ev_payload = [(''entry_id'', PId i)]\<rparr>]\<rparr>)"
    and err: "\<And>x. posting_refusal (work s) t i = Some x \<Longrightarrow> E x s"
  shows "wp (post_journal_entry None t user i) Q E s"
proof (cases "posting_refusal (work s) t i")
  case (Some x)
  from err [OF this] Some show ?thesis
    by (auto simp: post_journal_entry_def get_journal_entry_def get_journal_entry_row_def wp_simps
        load_entry_def is_period_closed_def posting_refusal_def balanced_def
        dest: select_one_SomeD split: option.splits if_splits)
      (auto simp: entry_key_def dest: select_one_SomeD)
next
  case None
  then obtain e where e: "select_one (entry_key t i) (entries (work s)) = Some e"
    and "je_status e = ENTRY_DRAFT" "\<not> closed_on t (je_date e) (work s)"
    and bal: "balanced (entry_lines t i (work s))"
    by (auto simp: posting_refusal_def split: option.splits if_splits)
  moreover from e have "je_id e = i" by (auto simp: entry_key_def dest: select_one_SomeD)
  ultimately show ?thesis using ok [OF None e]
    by (auto simp: post_journal_entry_def get_journal_entry_def get_journal_entry_row_def wp_simps
        load_entry_def is_period_closed_def balanced_def [symmetric] intro!: wp_complete_posting)
qed

lemma books_posted:
  "books_wf d \<Longrightarrow> balanced (entry_lines t i d) \<Longrightarrow> books_wf (posted_db t user i x d)"
  unfolding posted_db_def
  by (rule books_flip) (auto simp: entry_stamp_eq draft_at_def entry_key_def)

end
