(* ===== verification/Billing_Ledger.thy ===== *)
theory Billing_Ledger
  imports Finance_Ledger
begin

text \<open>
  The receivables invariant: an invoice's total is the sum of its lines, payments never exceed it
  and settle it exactly when it is paid, and the journal records every approved invoice and every
  payment once, with its amount, and no other. Together with the double-entry invariant this is
  \<open>finance_wf\<close>, which every operation of the finance feature keeps.
\<close>

section \<open>The invariant\<close>

definition invoice_id :: "invoice \<Rightarrow> uuid \<times> uuid" where
  "invoice_id v = (i_tenant v, i_id v)"

definition payment_id :: "payment \<Rightarrow> uuid \<times> uuid" where
  "payment_id p = (pay_tenant p, pay_id p)"

definition lines_in :: "db \<Rightarrow> invoice \<Rightarrow> invoice_line list" where
  "lines_in d v = filter (invoice_line_of (i_tenant v) (i_id v)) (invoice_lines d)"

definition invoices_wf :: "db \<Rightarrow> bool" where
  "invoices_wf d \<longleftrightarrow> distinct (map invoice_id (invoices d)) \<and>
     (\<forall>l \<in> set (invoice_lines d). at_scale 4 (il_amount l) \<and> 0 \<le> il_amount l \<and>
        (\<exists>v \<in> set (invoices d). invoice_key (il_tenant l) (il_invoice l) v) \<and>
        (\<exists>a \<in> set (accounts d). account_key (il_tenant l) (il_account l) a)) \<and>
     (\<forall>v \<in> set (invoices d). i_total v = invoice_total (lines_in d v))"

definition receivable :: "invoice_status \<Rightarrow> bool" where
  "receivable st \<longleftrightarrow> st = INVOICE_APPROVED \<or> st = INVOICE_PAID"

lemma receivable_simps [simp]:
  "receivable INVOICE_APPROVED" "receivable INVOICE_PAID" "\<not> receivable INVOICE_DRAFT"
  "\<not> receivable INVOICE_ISSUED" "\<not> receivable INVOICE_VOIDED"
  by (simp_all add: receivable_def)

definition within_total :: "db \<Rightarrow> invoice \<Rightarrow> bool" where
  "within_total d v \<longleftrightarrow> paid_sum (i_tenant v) (i_id v) d \<le> i_total v \<and>
     (i_status v = INVOICE_PAID \<longrightarrow> paid_sum (i_tenant v) (i_id v) d = i_total v)"

definition payments_wf :: "db \<Rightarrow> bool" where
  "payments_wf d \<longleftrightarrow> distinct (map payment_id (payments d)) \<and>
     (\<forall>p \<in> set (payments d). 0 < pay_amount p \<and> at_scale 4 (pay_amount p) \<and>
        (\<exists>v \<in> set (invoices d). invoice_key (pay_tenant p) (pay_invoice p) v \<and> receivable (i_status v))) \<and>
     (\<forall>v \<in> set (invoices d). within_total d v)"

text \<open>The journal has a booked entry for a source document, over the given amount.\<close>

definition recorded :: "db \<Rightarrow> uuid \<Rightarrow> string \<Rightarrow> uuid \<Rightarrow> decimal \<Rightarrow> bool" where
  "recorded d tenant source i x \<longleftrightarrow>
     (\<exists>e \<in> set (entries d). same_source tenant source (uuid_text i) e \<and> booked (je_status e) \<and>
        debit_total (entry_lines tenant (je_id e) d) = x)"

definition accruals_wf :: "db \<Rightarrow> bool" where
  "accruals_wf d \<longleftrightarrow>
     (\<forall>v \<in> set (invoices d). receivable (i_status v) \<longrightarrow> recorded d (i_tenant v) ''invoice'' (i_id v) (i_total v)) \<and>
     (\<forall>e \<in> set (entries d). je_source e = ''invoice'' \<longrightarrow>
        (\<exists>v \<in> set (invoices d). same_source (i_tenant v) ''invoice'' (uuid_text (i_id v)) e \<and> receivable (i_status v)))"

definition receipts_wf :: "db \<Rightarrow> bool" where
  "receipts_wf d \<longleftrightarrow>
     (\<forall>p \<in> set (payments d). recorded d (pay_tenant p) ''payment'' (pay_id p) (pay_amount p)) \<and>
     (\<forall>e \<in> set (entries d). je_source e = ''payment'' \<longrightarrow>
        (\<exists>p \<in> set (payments d). same_source (pay_tenant p) ''payment'' (uuid_text (pay_id p)) e))"

definition finance_wf :: "db \<Rightarrow> bool" where
  "finance_wf d \<longleftrightarrow> books_wf d \<and> invoices_wf d \<and> payments_wf d \<and> accruals_wf d \<and> receipts_wf d"

lemma finance_wf_cong:
  assumes "entries d = entries d'" "accounts d = accounts d'" "journal_lines d = journal_lines d'"
    "invoices d = invoices d'" "invoice_lines d = invoice_lines d'" "payments d = payments d'"
  shows "finance_wf d = finance_wf d'"
  using assms books_wf_cong [OF assms(1-3)]
  by (simp add: finance_wf_def invoices_wf_def payments_wf_def accruals_wf_def receipts_wf_def
      recorded_def lines_in_def within_total_def paid_sum_def entry_lines_def)

lemma finance_unaffected:
  "finance_wf (d\<lparr>products := x1\<rparr>) = finance_wf d"
  "finance_wf (d\<lparr>warehouses := x2\<rparr>) = finance_wf d"
  "finance_wf (d\<lparr>suppliers := x3\<rparr>) = finance_wf d"
  "finance_wf (d\<lparr>performances := x4\<rparr>) = finance_wf d"
  "finance_wf (d\<lparr>levels := x5\<rparr>) = finance_wf d"
  "finance_wf (d\<lparr>movements := x6\<rparr>) = finance_wf d"
  "finance_wf (d\<lparr>orders := x7\<rparr>) = finance_wf d"
  "finance_wf (d\<lparr>order_lines := x8\<rparr>) = finance_wf d"
  "finance_wf (d\<lparr>periods := x9\<rparr>) = finance_wf d"
  "finance_wf (d\<lparr>intents := x10\<rparr>) = finance_wf d"
  "finance_wf (d\<lparr>rates := x11\<rparr>) = finance_wf d"
  "finance_wf (d\<lparr>sequences := x12\<rparr>) = finance_wf d"
  "finance_wf (d\<lparr>audit_logs := x13\<rparr>) = finance_wf d"
  "finance_wf (d\<lparr>timeline := x14\<rparr>) = finance_wf d"
  "finance_wf (d\<lparr>customers := x15\<rparr>) = finance_wf d"
  by (rule finance_wf_cong; simp)+

interpretation finance: table_invariant finance_wf
  by unfold_locales (simp_all add: finance_unaffected)

lemma applied [simp]: "pay_status p = PAYMENT_APPLIED"
  by (cases "pay_status p")

lemma finance_wfD:
  assumes "finance_wf d"
  shows "books_wf d" "invoices_wf d" "payments_wf d" "accruals_wf d" "receipts_wf d"
  using assms by (simp_all add: finance_wf_def)

section \<open>Journal writes\<close>

lemma recorded_with_entry:
  assumes "books_wf d" "\<forall>f \<in> set (entries d). \<not> entry_key (je_tenant e) (je_id e) f"
    and "\<forall>l \<in> set ls. jl_tenant l = je_tenant e \<and> jl_entry l = je_id e"
    and "recorded d t src i x"
  shows "recorded (with_entry e ls d) t src i x"
proof -
  from assms(4) obtain f where f: "f \<in> set (entries d)" "same_source t src (uuid_text i) f"
    "booked (je_status f)" "debit_total (entry_lines t (je_id f) d) = x"
    by (auto simp: recorded_def)
  moreover have "(t, je_id f) \<noteq> entry_id e"
    using assms(2) f(1,2) by (auto simp: entry_id_def entry_key_def same_source_def)
  ultimately show ?thesis
    unfolding recorded_def entry_lines_with_entry [OF assms(1-3)] by (auto simp: with_entry_def)
qed

lemma recorded_new:
  assumes "books_wf d" "\<forall>f \<in> set (entries d). \<not> entry_key (je_tenant e) (je_id e) f"
    and "\<forall>l \<in> set ls. jl_tenant l = je_tenant e \<and> jl_entry l = je_id e"
    and "same_source t src (uuid_text i) e" "booked (je_status e)" "debit_total ls = x"
  shows "recorded (with_entry e ls d) t src i x"
  using assms(4-6)
  unfolding recorded_def entry_lines_with_entry [OF assms(1-3)]
  by (auto simp: with_entry_def entry_id_def same_source_def)

lemma with_entry_frame [simp]:
  "invoices (with_entry e ls d) = invoices d" "invoice_lines (with_entry e ls d) = invoice_lines d"
  "payments (with_entry e ls d) = payments d" "accounts (with_entry e ls d) = accounts d"
  "entries (with_entry e ls d) = entries d @ [e]"
  "paid_sum t i (with_entry e ls d) = paid_sum t i d" "lines_in (with_entry e ls d) v = lines_in d v"
  "within_total (with_entry e ls d) v = within_total d v"
  by (simp_all add: with_entry_def paid_sum_def lines_in_def within_total_def)

lemma invoices_payments_frame:
  "invoices d = invoices d' \<Longrightarrow> invoice_lines d = invoice_lines d' \<Longrightarrow> accounts d = accounts d' \<Longrightarrow>
     invoices_wf d = invoices_wf d'"
  "invoices d = invoices d' \<Longrightarrow> payments d = payments d' \<Longrightarrow> payments_wf d = payments_wf d'"
  by (simp_all add: invoices_wf_def payments_wf_def lines_in_def within_total_def paid_sum_def)

text \<open>An entry that is not of an invoice or a payment does not disturb the receivables.\<close>

lemma finance_with_entry:
  assumes wf: "finance_wf d"
    and fresh: "\<forall>f \<in> set (entries d). \<not> entry_key (je_tenant e) (je_id e) f"
    and rows: "\<forall>l \<in> set ls. jl_tenant l = je_tenant e \<and> jl_entry l = je_id e"
    and books: "books_wf (with_entry e ls d)"
    and src: "je_source e \<noteq> ''invoice''" "je_source e \<noteq> ''payment''"
  shows "finance_wf (with_entry e ls d)"
proof -
  note parts = finance_wfD [OF wf]
  note keep = recorded_with_entry [OF parts(1) fresh rows]
  have "invoices_wf (with_entry e ls d)" "payments_wf (with_entry e ls d)"
    using parts(2,3) by (simp_all add: invoices_wf_def payments_wf_def)
  moreover have "accruals_wf (with_entry e ls d)" "receipts_wf (with_entry e ls d)"
    using parts(4,5) keep src by (auto simp: accruals_wf_def receipts_wf_def)
  ultimately show ?thesis using books by (simp add: finance_wf_def)
qed

lemma finance_keeps_entry:
  assumes "booked (je_status e) \<Longrightarrow> balanced (as_stored ls)"
    and "je_source e \<noteq> ''invoice''" "je_source e \<noteq> ''payment''"
  shows "keeps finance_wf (create_journal_entry (e, ls))"
proof (rule keepsI, rule wp_create_journal_entry)
  fix s :: sess
  assume wf: "finance_wf (work s)" "finance_wf (durable s)"
  assume none: "entry_refusal s e ls = None"
  have "finance_wf (with_entry (entry_row s e) (line_rows s e ls) (work s))"
    using assms none entry_created [OF none] line_rows_fields [of s e ls] finance_wfD(1) [OF wf(1)]
    by (intro finance_with_entry wf(1) books_created) auto
  with wf(2) show "finance_wf (work (s\<lparr>work := with_entry (entry_row s e) (line_rows s e ls) (work s),
        next_id := Suc (next_id s) + length ls\<rparr>)) \<and>
      finance_wf (durable (s\<lparr>work := with_entry (entry_row s e) (line_rows s e ls) (work s),
        next_id := Suc (next_id s) + length ls\<rparr>))" by simp
qed (auto simp: same_outside_work_def)

lemma recorded_flip:
  assumes "\<And>e. entry_stamp (f e) = entry_stamp e"
    and "\<And>e. guard e \<Longrightarrow> booked (je_status e) \<Longrightarrow> booked (je_status (f e))"
    and "recorded d t src i x"
  shows "recorded (d\<lparr>entries := update_where guard f (entries d)\<rparr>) t src i x"
proof -
  note key = assms(1) [unfolded entry_stamp_eq]
  from assms(3) obtain e where e: "e \<in> set (entries d)" "same_source t src (uuid_text i) e"
    "booked (je_status e)" "debit_total (entry_lines t (je_id e) d) = x"
    by (auto simp: recorded_def)
  let ?e = "if guard e then f e else e"
  have "?e \<in> set (update_where guard f (entries d))" using e(1) by (auto simp: set_update_where)
  moreover have "same_source t src (uuid_text i) ?e" "booked (je_status ?e)" "je_id ?e = je_id e"
    using e assms(2) by (auto simp: same_source_def key)
  ultimately show ?thesis using e(4) unfolding recorded_def by (auto simp: entry_lines_def)
qed

lemma finance_flip:
  assumes wf: "finance_wf d" and stamp: "\<And>e. entry_stamp (f e) = entry_stamp e"
    and bal: "\<And>e. e \<in> set (entries d) \<Longrightarrow> guard e \<Longrightarrow> booked (je_status (f e)) \<Longrightarrow>
      balanced (entry_lines (je_tenant e) (je_id e) d)"
    and up: "\<And>e. guard e \<Longrightarrow> booked (je_status e) \<Longrightarrow> booked (je_status (f e))"
  shows "finance_wf (d\<lparr>entries := update_where guard f (entries d)\<rparr>)" (is "finance_wf ?d")
proof -
  note parts = finance_wfD [OF wf]
  note key = stamp [unfolded entry_stamp_eq]
  note keep = recorded_flip [where f = f and guard = guard, OF stamp up]
  have "books_wf ?d" using parts(1) stamp bal by (rule books_flip)
  moreover have "invoices_wf ?d" "payments_wf ?d"
    using parts(2,3) invoices_payments_frame [of ?d d] by simp_all
  moreover have "accruals_wf ?d" "receipts_wf ?d"
    using parts(4,5) keep by (simp_all add: accruals_wf_def receipts_wf_def ball_update_where same_source_def key)
  ultimately show ?thesis by (simp add: finance_wf_def)
qed

lemma finance_posted:
  "finance_wf d \<Longrightarrow> balanced (entry_lines t i d) \<Longrightarrow> finance_wf (posted_db t user i x d)"
  unfolding posted_db_def
  by (rule finance_flip) (auto simp: entry_stamp_eq draft_at_def entry_key_def)

lemma finance_keeps_flip:
  assumes stamp: "\<And>e. entry_stamp (f e) = entry_stamp e"
    and bal: "\<And>e. je_status e = expected \<Longrightarrow> booked (je_status (f e)) = booked expected"
  shows "keeps finance_wf (flip_entry expected f i tenant)"
  unfolding flip_entry_def Let_def get_journal_entry_row_def
  by (intro keeps_intros keeps_write finance_flip stamp)
    (use bal finance_wfD(1) in \<open>auto simp: books_wf_def\<close>)

section \<open>Creating an invoice\<close>

definition invoice_row :: "sess \<Rightarrow> invoice \<Rightarrow> invoice" where
  "invoice_row s v = stored_invoice (next_id s) v"

definition invoice_line_rows :: "sess \<Rightarrow> invoice \<Rightarrow> invoice_line list \<Rightarrow> invoice_line list" where
  "invoice_line_rows s v ls =
     map (\<lambda>(n, l). stored_invoice_line n (i_tenant v) (next_id s) l) (enumerate (Suc (next_id s)) ls)"

definition with_invoice :: "invoice \<Rightarrow> invoice_line list \<Rightarrow> db \<Rightarrow> db" where
  "with_invoice v ls d = d\<lparr>invoices := invoices d @ [v], invoice_lines := invoice_lines d @ ls\<rparr>"

definition invoice_refusal :: "sess \<Rightarrow> invoice \<Rightarrow> invoice_line list \<Rightarrow> error option" where
  "invoice_refusal s v ls =
     (case first_violation (invoice_constraints (invoice_row s v)) (work s) of
        Some c \<Rightarrow> Some (conflict_or_reraise (IntegrityError c))
      | None \<Rightarrow> map_option IntegrityError
          (first_violation (invoice_lines_constraints (invoice_line_rows s v ls))
             ((work s)\<lparr>invoices := invoices (work s) @ [invoice_row s v]\<rparr>)))"

lemma wp_create_invoice:
  assumes "invoice_refusal s v ls = None \<Longrightarrow>
      Q (invoice_row s v, invoice_line_rows s v ls)
        (s\<lparr>work := with_invoice (invoice_row s v) (invoice_line_rows s v ls) (work s),
           next_id := Suc (next_id s) + length ls\<rparr>)"
    and "\<And>x t. invoice_refusal s v ls = Some x \<Longrightarrow> same_outside_work s t \<Longrightarrow> E x t"
  shows "wp (create_invoice (v, ls)) Q E s"
  using assms
  by (simp add: create_invoice_def wp_bind wp_fresh wp_then wp_flush_unique wp_write wp_return
      wp_number_lines wp_check_all_violation Let_def invoice_row_def [symmetric]
      invoice_line_rows_def [symmetric] invoice_refusal_def same_outside_work_def with_invoice_def
      split: option.split)

lemma invoice_line_rows_fields:
  "l \<in> set (invoice_line_rows s v ls) \<Longrightarrow> il_tenant l = i_tenant v \<and> il_invoice l = next_id s \<and> at_scale 4 (il_amount l)"
  by (auto simp: invoice_line_rows_def stored_invoice_line_def)

lemma invoice_row_simps [simp]:
  "i_id (invoice_row s v) = next_id s" "i_tenant (invoice_row s v) = i_tenant v"
  "i_total (invoice_row s v) = numeric 4 (i_total v)" "i_status (invoice_row s v) = i_status v"
  "i_number (invoice_row s v) = i_number v" "i_source (invoice_row s v) = i_source v"
  "i_ref (invoice_row s v) = i_ref v" "i_date (invoice_row s v) = i_date v" "i_due (invoice_row s v) = i_due v"
  "i_currency (invoice_row s v) = i_currency v" "i_customer (invoice_row s v) = i_customer v"
  by (simp_all add: invoice_row_def stored_invoice_def)

lemma invoice_total_rows:
  "invoice_total (invoice_line_rows s v ls) = sum_list (map (\<lambda>l. numeric 4 (il_amount l)) ls)"
proof -
  have "sum_list (map il_amount (map (\<lambda>(n, l). stored_invoice_line n t i l) (enumerate k ls))) =
      sum_list (map (\<lambda>l. numeric 4 (il_amount l)) ls)" for k t i
    by (induction ls arbitrary: k) (simp_all add: stored_invoice_line_def)
  then show ?thesis by (simp add: invoice_total_def invoice_line_rows_def)
qed

lemma invoice_refusal_None:
  "invoice_refusal s v ls = None \<longleftrightarrow>
     i_date v \<le> i_due v \<and> 0 \<le> numeric 4 (i_total v) \<and>
     (\<forall>w \<in> set (invoices (work s)). \<not> invoice_key (i_tenant v) (next_id s) w \<and>
        \<not> (i_tenant w = i_tenant v \<and> i_number w = i_number v)) \<and>
     (\<forall>r. i_ref v = Some r \<longrightarrow> (\<forall>w \<in> set (invoices (work s)). \<not> invoice_source (i_tenant v) (i_source v) r w)) \<and>
     i_currency v \<in> set SUPPORTED_CURRENCIES \<and>
     (\<forall>l \<in> set (invoice_line_rows s v ls).
        il_amount l = il_quantity l * il_price l \<and> 0 \<le> il_amount l \<and> 0 < il_quantity l \<and> 0 \<le> il_price l \<and>
        (\<exists>a \<in> set (accounts (work s)). account_key (il_tenant l) (il_account l) a))"
proof -
  let ?d = "(work s)\<lparr>invoices := invoices (work s) @ [invoice_row s v]\<rparr>"
  have "first_violation (invoice_lines_constraints (invoice_line_rows s v ls)) ?d = None \<longleftrightarrow>
      (\<forall>l \<in> set (invoice_line_rows s v ls). (\<forall>c \<in> set (invoice_line_checks l). snd c ?d) \<and>
         (\<forall>c \<in> set (invoice_line_foreign_keys l). snd c ?d))"
    by (auto simp: first_violation_None invoice_lines_constraints_def)
  also have "\<dots> \<longleftrightarrow> (\<forall>l \<in> set (invoice_line_rows s v ls).
        il_amount l = il_quantity l * il_price l \<and> 0 \<le> il_amount l \<and> 0 < il_quantity l \<and> 0 \<le> il_price l \<and>
        (\<exists>a \<in> set (accounts (work s)). account_key (il_tenant l) (il_account l) a))"
  proof (rule ball_cong [OF refl])
    fix l
    assume "l \<in> set (invoice_line_rows s v ls)"
    then have "il_tenant l = i_tenant v \<and> il_invoice l = next_id s"
      by (auto dest: invoice_line_rows_fields)
    then show "((\<forall>c \<in> set (invoice_line_checks l). snd c ?d) \<and> (\<forall>c \<in> set (invoice_line_foreign_keys l). snd c ?d)) \<longleftrightarrow>
        (il_amount l = il_quantity l * il_price l \<and> 0 \<le> il_amount l \<and> 0 < il_quantity l \<and> 0 \<le> il_price l \<and>
        (\<exists>a \<in> set (accounts (work s)). account_key (il_tenant l) (il_account l) a))"
      by (simp add: invoice_line_checks_def invoice_line_foreign_keys_def invoice_key_def)
  qed
  finally show ?thesis
    by (cases "i_ref v") (auto simp: invoice_refusal_def invoice_constraints_def split: option.split if_splits)
qed

lemma finance_with_invoice:
  assumes wf: "finance_wf d"
    and fresh: "\<forall>w \<in> set (invoices d). \<not> invoice_key (i_tenant v) (i_id v) w"
    and rows: "\<forall>l \<in> set ls. il_tenant l = i_tenant v \<and> il_invoice l = i_id v \<and> at_scale 4 (il_amount l) \<and> 0 \<le> il_amount l \<and>
      (\<exists>a \<in> set (accounts d). account_key (il_tenant l) (il_account l) a)"
    and total: "i_total v = invoice_total ls" and st: "\<not> receivable (i_status v)"
  shows "finance_wf (with_invoice v ls d)" (is "finance_wf ?d")
proof -
  note parts = finance_wfD [OF wf]
  have new: "invoice_id w \<noteq> invoice_id v" if "w \<in> set (invoices d)" for w
    using fresh that by (auto simp: invoice_id_def invoice_key_def)
  have old_lines: "lines_in ?d w = lines_in d w" if "w \<in> set (invoices d)" for w
    using rows new [OF that]
    by (auto simp: lines_in_def with_invoice_def filter_empty_conv invoice_line_of_def invoice_id_def)
  have "\<not> invoice_line_of (i_tenant v) (i_id v) l" if "l \<in> set (invoice_lines d)" for l
    using parts(2) that fresh by (fastforce simp: invoices_wf_def invoice_line_of_def)
  then have new_lines: "lines_in ?d v = ls"
    using rows by (auto simp: lines_in_def with_invoice_def filter_empty_conv invoice_line_of_def intro!: filter_True)
  have "invoices_wf ?d"
    using parts(2) new rows total old_lines new_lines
    by (force simp: invoices_wf_def with_invoice_def invoice_key_def)
  moreover have "payments_wf ?d"
  proof -
    have "\<not> paid_on (i_tenant v) (i_id v) p" if "p \<in> set (payments d)" for p
      using parts(3) that fresh by (fastforce simp: payments_wf_def paid_on_def)
    then have none: "filter (paid_on (i_tenant v) (i_id v)) (payments d) = []"
      by (simp add: filter_empty_conv)
    have "0 \<le> i_total v"
      using rows total by (auto simp: invoice_total_def intro!: sum_list_nonneg)
    with none st have "within_total ?d v"
      by (auto simp: within_total_def paid_sum_def with_invoice_def)
    moreover have "within_total ?d w = within_total d w" for w
      by (simp add: within_total_def paid_sum_def with_invoice_def)
    ultimately show ?thesis using parts(3) by (auto simp: payments_wf_def with_invoice_def)
  qed
  moreover have "recorded ?d = recorded d"
    by (simp add: fun_eq_iff recorded_def with_invoice_def entry_lines_def)
  moreover have "books_wf ?d = books_wf d"
    by (rule books_wf_cong) (simp_all add: with_invoice_def)
  ultimately show ?thesis
    using parts st by (auto simp: finance_wf_def accruals_wf_def receipts_wf_def with_invoice_def)
qed

lemma finance_keeps_invoice:
  assumes "i_total v = invoice_total ls" "\<forall>l \<in> set ls. at_scale 4 (il_amount l)" "\<not> receivable (i_status v)"
  shows "keeps finance_wf (create_invoice (v, ls))"
proof (rule keepsI, rule wp_create_invoice)
  fix s :: sess
  assume wf: "finance_wf (work s)" "finance_wf (durable s)" and none: "invoice_refusal s v ls = None"
  have rows: "\<forall>l \<in> set (invoice_line_rows s v ls). il_tenant l = i_tenant v \<and> il_invoice l = next_id s \<and>
      at_scale 4 (il_amount l) \<and> 0 \<le> il_amount l \<and>
      (\<exists>a \<in> set (accounts (work s)). account_key (il_tenant l) (il_account l) a)"
    using none [unfolded invoice_refusal_None] invoice_line_rows_fields by blast
  have "at_scale 4 (i_total v)" "invoice_total (invoice_line_rows s v ls) = i_total v"
    using assms(1,2)
    by (auto simp: invoice_total_def invoice_total_rows [unfolded invoice_total_def]
        intro!: at_scale_sum_list arg_cong [where f = sum_list])
  then have "finance_wf (with_invoice (invoice_row s v) (invoice_line_rows s v ls) (work s))"
    using none [unfolded invoice_refusal_None] assms(3) rows
    by (intro finance_with_invoice wf(1)) simp_all
  with wf(2) show "finance_wf (work (s\<lparr>work := with_invoice (invoice_row s v) (invoice_line_rows s v ls) (work s),
        next_id := Suc (next_id s) + length ls\<rparr>)) \<and>
      finance_wf (durable (s\<lparr>work := with_invoice (invoice_row s v) (invoice_line_rows s v ls) (work s),
        next_id := Suc (next_id s) + length ls\<rparr>))" by simp
qed (auto simp: same_outside_work_def)

section \<open>Invoice transitions\<close>

definition invoice_stamp :: "invoice \<Rightarrow> uuid \<times> uuid \<times> decimal" where
  "invoice_stamp v = (i_tenant v, i_id v, i_total v)"

lemma invoice_stamp_eq:
  "invoice_stamp v = invoice_stamp w \<longleftrightarrow> i_tenant v = i_tenant w \<and> i_id v = i_id w \<and> i_total v = i_total w"
  by (simp add: invoice_stamp_def)

lemma invoices_wf_update:
  assumes "invoices_wf d" and stamp: "\<And>v. invoice_stamp (f v) = invoice_stamp v"
  shows "invoices_wf (d\<lparr>invoices := update_where g f (invoices d)\<rparr>)"
proof -
  note key = stamp [unfolded invoice_stamp_eq]
  have "map invoice_id (update_where g f (invoices d)) = map invoice_id (invoices d)"
    by (rule map_update_where) (simp add: invoice_id_def key)
  then show ?thesis
    using assms(1)
    by (simp add: invoices_wf_def lines_in_def ball_update_where bex_update_where invoice_key_def key)
qed

lemma payments_wf_update:
  assumes wf: "payments_wf d" and stamp: "\<And>v. invoice_stamp (f v) = invoice_stamp v"
    and up: "\<And>v. g v \<Longrightarrow> receivable (i_status v) \<Longrightarrow> receivable (i_status (f v))"
    and paid: "\<And>v. v \<in> set (invoices d) \<Longrightarrow> g v \<Longrightarrow> i_status (f v) = INVOICE_PAID \<Longrightarrow>
      paid_sum (i_tenant v) (i_id v) d = i_total v"
  shows "payments_wf (d\<lparr>invoices := update_where g f (invoices d)\<rparr>)" (is "payments_wf ?d")
proof -
  note key = stamp [unfolded invoice_stamp_eq]
  have "\<exists>v \<in> set (update_where g f (invoices d)). invoice_key t i v \<and> receivable (i_status v)"
    if "v \<in> set (invoices d)" "invoice_key t i v" "receivable (i_status v)" for v t i
    using that up [of v] key [of v]
    by (intro bexI [of _ "if g v then f v else v"]) (auto simp: set_update_where invoice_key_def)
  then have "\<forall>p \<in> set (payments d). 0 < pay_amount p \<and> at_scale 4 (pay_amount p) \<and>
      (\<exists>v \<in> set (update_where g f (invoices d)). invoice_key (pay_tenant p) (pay_invoice p) v \<and> receivable (i_status v))"
    using wf unfolding payments_wf_def by meson
  moreover have "if g v then within_total ?d (f v) else within_total ?d v" if "v \<in> set (invoices d)" for v
    using wf that paid [OF that] key [of v]
    by (simp add: payments_wf_def within_total_def paid_sum_def)
  ultimately show ?thesis using wf by (simp add: payments_wf_def ball_update_where)
qed

lemma finance_invoice_update:
  assumes wf: "finance_wf d" and stamp: "\<And>v. invoice_stamp (f v) = invoice_stamp v"
    and same: "\<And>v. g v \<Longrightarrow> receivable (i_status (f v)) = receivable (i_status v)"
    and paid: "\<And>v. v \<in> set (invoices d) \<Longrightarrow> g v \<Longrightarrow> i_status (f v) = INVOICE_PAID \<Longrightarrow>
      paid_sum (i_tenant v) (i_id v) d = i_total v"
  shows "finance_wf (d\<lparr>invoices := update_where g f (invoices d)\<rparr>)" (is "finance_wf ?d")
proof -
  note parts = finance_wfD [OF wf]
  note key = stamp [unfolded invoice_stamp_eq]
  have rec: "recorded ?d = recorded d" by (simp add: fun_eq_iff recorded_def entry_lines_def)
  have "accruals_wf ?d"
    using parts(4) same
    by (simp add: accruals_wf_def rec ball_update_where bex_update_where key)
  moreover have "receipts_wf ?d" using parts(5) by (simp add: receipts_wf_def rec)
  moreover have "books_wf ?d" using parts(1) by (simp add: books_unaffected)
  moreover have "payments_wf ?d" using parts(3) stamp by (rule payments_wf_update) (simp_all add: same paid)
  ultimately show ?thesis using invoices_wf_update [OF parts(2) stamp] by (simp add: finance_wf_def)
qed

lemma finance_keeps_invoice_flip:
  assumes "\<And>v. invoice_stamp (f v) = invoice_stamp v"
    and "\<And>v. i_status v \<in> set expected \<Longrightarrow> \<not> receivable (i_status v) \<and> \<not> receivable (i_status (f v))"
  shows "keeps finance_wf (flip_invoice expected f i tenant)"
  unfolding flip_invoice_def Let_def get_invoice_row_def
  by (intro keeps_intros keeps_write finance_invoice_update) (use assms in \<open>auto simp: receivable_def\<close>)

text \<open>Approval: the accrual is booked and the invoice becomes a receivable.\<close>

lemma finance_approved:
  assumes wf: "finance_wf d" and v: "v \<in> set (invoices d)"
    and fresh: "\<forall>f \<in> set (entries d). \<not> entry_key (je_tenant e) (je_id e) f"
    and rows: "\<forall>l \<in> set ls. jl_tenant l = je_tenant e \<and> jl_entry l = je_id e"
    and books: "books_wf (with_entry e ls d)"
    and src: "same_source (i_tenant v) ''invoice'' (uuid_text (i_id v)) e" "booked (je_status e)"
    and total: "debit_total ls = i_total v"
    and stamp: "\<And>w. invoice_stamp (f w) = invoice_stamp w"
    and g: "\<And>w. g w \<longleftrightarrow> invoice_id w = invoice_id v \<and> i_status w = INVOICE_ISSUED"
    and st: "i_status v = INVOICE_ISSUED" "\<And>w. i_status (f w) = INVOICE_APPROVED"
  shows "finance_wf ((with_entry e ls d)\<lparr>invoices := update_where g f (invoices d)\<rparr>)" (is "finance_wf ?d")
proof -
  note parts = finance_wfD [OF wf]
  note key = stamp [unfolded invoice_stamp_eq]
  have rec: "recorded ?d t sr i x = recorded (with_entry e ls d) t sr i x" for t sr i x
    by (simp add: recorded_def entry_lines_def)
  note keep = recorded_with_entry [OF parts(1) fresh rows]
  have new: "recorded (with_entry e ls d) (i_tenant v) ''invoice'' (i_id v) (i_total v)"
    by (rule recorded_new [OF parts(1) fresh rows src total])
  have only: "w = v" if "w \<in> set (invoices d)" "g w" for w
    using parts(2) that v g [of w] by (auto simp: invoices_wf_def distinct_map dest: inj_onD)
  have fwd: "receivable (i_status w) \<longrightarrow> recorded ?d (i_tenant w) ''invoice'' (i_id w) (i_total w)"
    if "w \<in> set (update_where g f (invoices d))" for w
    using that parts(4) keep new only unfolding rec
    by (auto simp: set_update_where accruals_wf_def key)
  have "f v \<in> set (update_where g f (invoices d))"
    using v g [of v] st(1) by (auto simp: set_update_where)
  then have bwd_new: "\<exists>w \<in> set (update_where g f (invoices d)).
      same_source (i_tenant w) ''invoice'' (uuid_text (i_id w)) e \<and> receivable (i_status w)"
    using src(1) st(2) key [of v] by (intro bexI [of _ "f v"]) simp_all
  have bwd_old: "\<exists>w \<in> set (update_where g f (invoices d)).
      same_source (i_tenant w) ''invoice'' (uuid_text (i_id w)) x \<and> receivable (i_status w)"
    if "x \<in> set (entries d)" "je_source x = ''invoice''" for x
  proof -
    from parts(4) that obtain w where "w \<in> set (invoices d)"
      "same_source (i_tenant w) ''invoice'' (uuid_text (i_id w)) x" "receivable (i_status w)"
      by (auto simp: accruals_wf_def)
    then show ?thesis
      using key [of w] st(2) by (intro bexI [of _ "if g w then f w else w"]) (auto simp: set_update_where)
  qed
  have "accruals_wf ?d" using fwd bwd_new bwd_old by (simp add: accruals_wf_def)
  moreover have "receipts_wf ?d"
    using parts(5) keep src(1) by (auto simp: receipts_wf_def rec same_source_def)
  moreover have "books_wf ?d" using books by (simp add: books_unaffected)
  moreover have "invoices_wf ?d"
    using invoices_wf_update [OF parts(2) stamp, of g] by (simp add: invoices_wf_def lines_in_def)
  moreover have "payments_wf ?d"
    using payments_wf_update [OF parts(3) stamp, of g] st(2)
    by (simp add: payments_wf_def within_total_def paid_sum_def)
  ultimately show ?thesis by (simp add: finance_wf_def)
qed

section \<open>Payments\<close>

lemma invoice_unique:
  "invoices_wf d \<Longrightarrow> v \<in> set (invoices d) \<Longrightarrow> w \<in> set (invoices d) \<Longrightarrow>
     invoice_key t i v \<Longrightarrow> invoice_key t i w \<Longrightarrow> w = v"
  using inj_onD [of invoice_id "set (invoices d)" w v]
  by (simp add: invoices_wf_def distinct_map invoice_key_def invoice_id_def)

lemma paid_sum_append:
  "paid_sum t i (d\<lparr>payments := payments d @ [p]\<rparr>) =
     paid_sum t i d + (if pay_tenant p = t \<and> pay_invoice p = i then pay_amount p else 0)"
  by (simp add: paid_sum_def paid_on_def)

lemma payments_wf_append:
  assumes wf: "payments_wf d" and inv: "invoices_wf d"
    and fresh: "\<forall>q \<in> set (payments d). \<not> payment_key (pay_tenant p) (pay_id p) q"
    and v: "v \<in> set (invoices d)" "invoice_key (pay_tenant p) (pay_invoice p) v" "i_status v = INVOICE_APPROVED"
    and ok: "0 < pay_amount p" "at_scale 4 (pay_amount p)"
      "paid_sum (pay_tenant p) (pay_invoice p) d + pay_amount p \<le> i_total v"
  shows "payments_wf (d\<lparr>payments := payments d @ [p]\<rparr>)" (is "payments_wf ?d")
proof -
  have "payment_id q \<noteq> payment_id p" if "q \<in> set (payments d)" for q
    using fresh that by (auto simp: payment_id_def payment_key_def)
  then have "distinct (map payment_id (payments ?d))"
    using wf by (force simp: payments_wf_def)
  moreover have "within_total ?d w" if w: "w \<in> set (invoices d)" for w
  proof (cases "invoice_key (pay_tenant p) (pay_invoice p) w")
    case True
    with inv w v have "w = v" by (blast intro: invoice_unique)
    then show ?thesis using v(2,3) ok(3) by (auto simp: within_total_def paid_sum_append invoice_key_def)
  next
    case False
    then show ?thesis
      using wf w by (auto simp: payments_wf_def within_total_def paid_sum_append invoice_key_def)
  qed
  moreover have "0 < pay_amount q \<and> at_scale 4 (pay_amount q) \<and>
      (\<exists>v \<in> set (invoices d). invoice_key (pay_tenant q) (pay_invoice q) v \<and> receivable (i_status v))"
    if "q \<in> set (payments ?d)" for q
    using that wf v ok by (auto simp: payments_wf_def)
  ultimately show ?thesis by (simp add: payments_wf_def)
qed

lemma finance_paid:
  assumes wf: "finance_wf d"
    and pay: "\<forall>q \<in> set (payments d). \<not> payment_key (pay_tenant p) (pay_id p) q"
    and v: "v \<in> set (invoices d)" "invoice_key (pay_tenant p) (pay_invoice p) v" "i_status v = INVOICE_APPROVED"
    and ok: "0 < pay_amount p" "at_scale 4 (pay_amount p)"
      "paid_sum (pay_tenant p) (pay_invoice p) d + pay_amount p \<le> i_total v"
    and stamp: "\<And>w. invoice_stamp (f w) = invoice_stamp w" "\<And>w. i_status (f w) = INVOICE_PAID"
    and g: "\<And>w. g w \<Longrightarrow> invoice_key (pay_tenant p) (pay_invoice p) w \<and> i_status w = INVOICE_APPROVED \<and>
      paid_sum (pay_tenant p) (pay_invoice p) d + pay_amount p = i_total v"
    and fresh: "\<forall>f \<in> set (entries d). \<not> entry_key (je_tenant e) (je_id e) f"
    and rows: "\<forall>l \<in> set ls. jl_tenant l = je_tenant e \<and> jl_entry l = je_id e"
    and books: "books_wf (with_entry e ls d)"
    and src: "same_source (pay_tenant p) ''payment'' (uuid_text (pay_id p)) e" "booked (je_status e)"
    and total: "debit_total ls = pay_amount p"
  shows "finance_wf (with_entry e ls (d\<lparr>payments := payments d @ [p], invoices := update_where g f (invoices d)\<rparr>))"
    (is "finance_wf ?d")
proof -
  note parts = finance_wfD [OF wf]
  note key = stamp(1) [unfolded invoice_stamp_eq]
  let ?p = "d\<lparr>payments := payments d @ [p]\<rparr>"
  have rec: "recorded ?d t sr i x = recorded (with_entry e ls d) t sr i x" for t sr i x
    by (simp add: recorded_def entry_lines_def with_entry_def)
  note keep = recorded_with_entry [OF parts(1) fresh rows]
  have "payments_wf ?p" using parts(3,2) pay v ok by (rule payments_wf_append)
  then have "payments_wf (?p\<lparr>invoices := update_where g f (invoices ?p)\<rparr>)"
  proof (rule payments_wf_update [OF _ stamp(1)])
    fix w
    assume "w \<in> set (invoices ?p)" "g w"
    then have w: "w \<in> set (invoices d)" "invoice_key (pay_tenant p) (pay_invoice p) w"
      and "paid_sum (pay_tenant p) (pay_invoice p) d + pay_amount p = i_total v"
      using g [of w] by simp_all
    moreover have "w = v" using parts(2) v(1) w(1) v(2) w(2) by (rule invoice_unique)
    ultimately show "paid_sum (i_tenant w) (i_id w) ?p = i_total w"
      using v(2) by (simp add: paid_sum_append invoice_key_def)
  qed (simp add: stamp(2))
  then have "payments_wf ?d" by (simp add: payments_wf_def within_total_def paid_sum_def)
  moreover have "invoices_wf ?d"
    using invoices_wf_update [OF parts(2) stamp(1), of g] by (simp add: invoices_wf_def lines_in_def)
  moreover have "books_wf ?d"
    using books books_wf_cong [of ?d "with_entry e ls d"] by (simp add: with_entry_def)
  moreover have "accruals_wf ?d"
  proof -
    have "receivable (i_status w)" if "g w" for w using g [OF that] by simp
    then show ?thesis
      using parts(4) keep src(1)
      by (auto simp: accruals_wf_def rec ball_update_where bex_update_where key stamp(2) same_source_def
          split: if_splits)
  qed
  moreover have "receipts_wf ?d"
    using parts(5) keep src recorded_new [OF parts(1) fresh rows src total]
    by (auto simp: receipts_wf_def rec)
  ultimately show ?thesis by (simp add: finance_wf_def)
qed

section \<open>Accounts\<close>

lemma finance_accounts:
  assumes "books_wf (d\<lparr>accounts := as\<rparr>)" "finance_wf d"
    and "\<And>t i. (\<exists>a \<in> set (accounts d). account_key t i a) \<Longrightarrow> (\<exists>a \<in> set as. account_key t i a)"
  shows "finance_wf (d\<lparr>accounts := as\<rparr>)"
proof -
  have "recorded (d\<lparr>accounts := as\<rparr>) = recorded d"
    by (simp add: fun_eq_iff recorded_def entry_lines_def)
  then have "accruals_wf (d\<lparr>accounts := as\<rparr>)" "receipts_wf (d\<lparr>accounts := as\<rparr>)"
    using finance_wfD(4,5) [OF assms(2)] by (simp_all add: accruals_wf_def receipts_wf_def)
  moreover have "payments_wf (d\<lparr>accounts := as\<rparr>)"
    using finance_wfD(3) [OF assms(2)] invoices_payments_frame(2) [of "d\<lparr>accounts := as\<rparr>" d] by simp
  moreover have "invoices_wf (d\<lparr>accounts := as\<rparr>)"
    using finance_wfD(2) [OF assms(2)] assms(3) by (auto simp: invoices_wf_def lines_in_def)
  ultimately show ?thesis using assms(1) by (simp add: finance_wf_def)
qed

lemma finance_keeps_create_account: "keeps finance_wf (create_account_row a)"
proof (rule keepsI)
  fix s :: sess
  assume "finance_wf (work s)" "finance_wf (durable s)"
  then show "wp (create_account_row a) (\<lambda>_ t. finance_wf (work t) \<and> finance_wf (durable t))
      (\<lambda>_ t. finance_wf (durable t)) s"
    by (auto simp: create_account_row_def wp_simps Let_def first_violation_None account_constraints_def
        split: option.split intro!: finance_accounts books_account_insert dest: finance_wfD(1))
qed

lemma finance_keeps_deactivate_account: "keeps finance_wf (deactivate_account_row i tenant)"
  unfolding deactivate_account_row_def get_account_by_id_def
  by (intro keeps_intros keeps_write finance_accounts)
    (simp_all add: books_account_update finance_wf_def bex_update_where account_key_def)

end
