(* ===== verification/Finance_Requests.thy ===== *)
theory Finance_Requests
  imports Billing_Ledger "HOL-Library.Multiset"
begin

text \<open>
  What the composite operations of the finance service do to the database (revenue recognition and
  payments), the operations as requests of one tenant, and that each of them keeps \<open>finance_wf\<close>.
\<close>

section \<open>Revenue legs\<close>

lemma add_leg_sum: "sum_list (map snd (add_leg acc x legs)) = sum_list (map snd legs) + x"
  by (induction acc x legs rule: add_leg.induct) simp_all

lemma legs_sum: "sum_list (map snd (fold (\<lambda>l. add_leg (il_account l) (il_amount l)) ls legs)) =
    sum_list (map snd legs) + invoice_total ls"
  by (induction ls arbitrary: legs) (simp_all add: add_leg_sum invoice_total_def)

lemma sum_list_mset:
  fixes f :: "'a \<Rightarrow> decimal"
  assumes "mset xs = mset ys"
  shows "sum_list (map f xs) = sum_list (map f ys)"
proof -
  have "sum_mset (mset (map f xs)) = sum_mset (mset (map f ys))" using assms by simp
  then show ?thesis by (simp only: sum_mset_sum_list)
qed

lemma revenue_legs_sum: "sum_list (map snd (revenue_legs ls)) = invoice_total ls"
proof -
  let ?legs = "fold (\<lambda>l. add_leg (il_account l) (il_amount l)) ls []"
  have "sum_list (map snd (revenue_legs ls)) = sum_list (map snd ?legs)"
    by (rule sum_list_mset) (simp add: revenue_legs_def)
  then show ?thesis by (simp add: legs_sum)
qed

text \<open>A property of amounts that addition keeps holds of every leg when it holds of every line.\<close>

lemma add_leg_all:
  assumes "\<And>x y. R x \<Longrightarrow> R y \<Longrightarrow> R (x + y)" "R x" "\<forall>p \<in> set legs. R (snd p)"
  shows "\<forall>p \<in> set (add_leg acc x legs). R (snd p)"
  using assms(2,3) by (induction acc x legs rule: add_leg.induct) (auto intro: assms(1))

lemma revenue_legs_all:
  assumes "\<And>x y. R x \<Longrightarrow> R y \<Longrightarrow> R (x + y)" "\<forall>l \<in> set ls. R (il_amount l)"
  shows "\<forall>p \<in> set (revenue_legs ls). R (snd p)"
proof -
  have "\<forall>p \<in> set (fold (\<lambda>l. add_leg (il_account l) (il_amount l)) ls legs). R (snd p)"
    if "\<forall>p \<in> set legs. R (snd p)" for legs
    using assms(2) that
  proof (induction ls arbitrary: legs)
    case (Cons l ls)
    then have "\<forall>p \<in> set (add_leg (il_account l) (il_amount l) legs). R (snd p)"
      by (intro add_leg_all assms(1)) auto
    with Cons show ?case by simp
  qed simp
  from this [of "[]"] show ?thesis by (simp add: revenue_legs_def)
qed

lemma add_leg_accounts: "fst ` set (add_leg acc x legs) = insert acc (fst ` set legs)"
  by (induction acc x legs rule: add_leg.induct) auto

lemma revenue_legs_accounts: "fst ` set (revenue_legs ls) = il_account ` set ls"
proof -
  have "fst ` set (fold (\<lambda>l. add_leg (il_account l) (il_amount l)) ls legs) = il_account ` set ls \<union> fst ` set legs"
    for legs
    by (induction ls arbitrary: legs) (auto simp: add_leg_accounts)
  from this [of "[]"] show ?thesis by (simp add: revenue_legs_def)
qed

lemma lines_of_invoice_set: "set (lines_of_invoice t i d) = set (filter (invoice_line_of t i) (invoice_lines d))"
  by (simp add: lines_of_invoice_def)

lemma lines_of_invoice_total:
  "invoice_total (lines_of_invoice t i d) = invoice_total (filter (invoice_line_of t i) (invoice_lines d))"
  unfolding invoice_total_def by (rule sum_list_mset) (simp add: lines_of_invoice_def)

text \<open>The accrual of a stored invoice balances, over the invoice's total.\<close>

lemma accrual_totals:
  assumes "invoices_wf d" "select_one (invoice_key t i) (invoices d) = Some v"
  shows "debit_total (as_stored (accrual_lines ar (v, lines_of_invoice t i d))) = i_total v"
    "credit_total (as_stored (accrual_lines ar (v, lines_of_invoice t i d))) = i_total v"
proof -
  let ?ls = "lines_of_invoice t i d"
  from select_one_SomeD [OF assms(2)] have v: "v \<in> set (invoices d)" "i_tenant v = t" "i_id v = i"
    by (simp_all add: invoice_key_def)
  with assms(1) have total: "i_total v = invoice_total ?ls"
    unfolding lines_of_invoice_total by (auto simp: invoices_wf_def lines_in_def)
  have scale: "\<forall>l \<in> set ?ls. at_scale 4 (il_amount l)"
    using assms(1) by (auto simp: lines_of_invoice_set invoices_wf_def)
  then have "at_scale 4 (invoice_total ?ls)" by (auto simp: invoice_total_def intro!: at_scale_sum_list)
  with total have num: "numeric 4 (i_total v) = i_total v" by simp
  have "\<forall>p \<in> set (revenue_legs ?ls). at_scale 4 (snd p)"
    by (rule revenue_legs_all) (use scale in \<open>auto intro: at_scale_add\<close>)
  then have "map (\<lambda>p. numeric 4 (snd p)) (revenue_legs ?ls) = map snd (revenue_legs ?ls)" by simp
  then have "sum_list (map (\<lambda>p. numeric 4 (snd p)) (revenue_legs ?ls)) = invoice_total ?ls"
    by (simp only: revenue_legs_sum)
  moreover have "debit_total (as_stored (map (\<lambda>(acc, x). new_line acc None (Some x)) legs)) = 0"
    "credit_total (as_stored (map (\<lambda>(acc, x). new_line acc None (Some x)) legs)) = sum_list (map (\<lambda>p. numeric 4 (snd p)) legs)"
    for legs
    by (induction legs) auto
  ultimately show "debit_total (as_stored (accrual_lines ar (v, ?ls))) = i_total v"
    "credit_total (as_stored (accrual_lines ar (v, ?ls))) = i_total v"
    using num total by (simp_all add: accrual_lines_def)
qed

section \<open>Approving an invoice\<close>

lemma wp_flip_invoice:
  assumes key: "\<And>v. invoice_stamp (f v) = invoice_stamp v"
    and found: "select_one (invoice_key t i) (invoices (work s)) = Some v" "i_status v \<in> set expected"
    and ok: "Q (Some (f v, lines_of_invoice t i (work s))) (s\<lparr>work := (work s)\<lparr>invoices :=
        update_where (\<lambda>v. invoice_key t i v \<and> i_status v \<in> set expected) f (invoices (work s))\<rparr>\<rparr>)"
  shows "wp (flip_invoice expected f i t) Q E s"
proof -
  let ?g = "\<lambda>v. invoice_key t i v \<and> i_status v \<in> set expected"
  note key = key [unfolded invoice_stamp_eq]
  from found have v: "v \<in> set (invoices (work s))" "invoice_key t i v"
    by (auto dest: select_one_SomeD)
  with found(2) have "rows_matched ?g (invoices (work s)) \<noteq> 0"
    by (auto simp: rows_matched_0 select_one_None)
  moreover have "select_one (invoice_key t i) (update_where ?g f (invoices (work s))) = Some (f v)"
    using found v by (subst select_one_update_where) (auto simp: invoice_key_def key)
  ultimately show ?thesis using ok v key [of v]
    by (simp add: flip_invoice_def Let_def wp_simps get_invoice_row_def invoice_in_def load_invoice_def
        lines_of_invoice_def invoice_key_def)
qed

definition approved_at :: "int \<Rightarrow> invoice \<Rightarrow> invoice" where
  "approved_at now v = v\<lparr>i_status := INVOICE_APPROVED, i_approved_at := Some now\<rparr>"

definition issued_at_key :: "uuid \<Rightarrow> uuid \<Rightarrow> invoice \<Rightarrow> bool" where
  "issued_at_key t i v \<longleftrightarrow> invoice_key t i v \<and> i_status v = INVOICE_ISSUED"

definition account_by_code :: "string \<Rightarrow> uuid \<Rightarrow> db \<Rightarrow> account option" where
  "account_by_code code t d = select_one (\<lambda>a. a_tenant a = t \<and> a_code a = code) (accounts d)"

definition approval_refusal :: "sess \<Rightarrow> uuid \<Rightarrow> uuid \<Rightarrow> uuid \<Rightarrow> error option" where
  "approval_refusal s t user i =
     (case invoice_in i t (work s) of
        None \<Rightarrow> Some (NotFoundError ''Invoice'')
      | Some (v, ls) \<Rightarrow>
          if i_status v \<noteq> INVOICE_ISSUED then Some (ConflictError ''Only issued invoices can be approved'')
          else if closed_on t (i_date v) (work s) then Some (ConflictError ''Invoice date falls in a closed fiscal period'')
          else case account_by_code ''1100'' t (work s) of
              None \<Rightarrow> Some (NotFoundError ''AR account'')
            | Some ar \<Rightarrow> entry_refusal s (accrual_entry t user (instant (clk s)) v) (accrual_lines (a_id ar) (v, ls)))"

definition approved_db :: "sess \<Rightarrow> uuid \<Rightarrow> uuid \<Rightarrow> uuid \<Rightarrow> invoice_doc \<Rightarrow> db" where
  "approved_db s t user ar doc =
     (let now = instant (clk s); e = accrual_entry t user now (fst doc) in
      (with_entry (entry_row s e) (line_rows s e (accrual_lines ar doc)) (work s))
        \<lparr>invoices := update_where (issued_at_key t (i_id (fst doc))) (approved_at now) (invoices (work s))\<rparr>)"

text \<open>What a request that announces its work leaves: \<open>d\<close>, an audit row, a timeline row and an event.\<close>

definition announced :: "db \<Rightarrow> sess \<Rightarrow> sess \<Rightarrow> bool" where
  "announced d s u \<longleftrightarrow> (\<exists>n a tl ev.
     u = s\<lparr>work := d\<lparr>audit_logs := audit_logs d @ [a], timeline := timeline d @ [tl]\<rparr>,
       next_id := n, fin_pending := fin_pending s @ [ev]\<rparr>)"

lemma wp_announce:
  assumes "\<And>u. announced (work s) s u \<Longrightarrow> K u"
  shows "wp (audit_by t user action subject details) (\<lambda>_. wp (finance_event ev)
    (\<lambda>_. wp (record_timeline_event t entity i event title actor facts) (\<lambda>_. K) E) E) E s"
  unfolding wp_audit_by wp_finance_event wp_record_timeline_event
  by (rule assms, cases s, simp add: announced_def) (intro exI, rule refl)

lemmas wp_flow = wp_bind wp_then wp_read wp_the_or_raise wp_require wp_gets wp_return wp_raise

lemma announced_over [simp]: "announced d (s\<lparr>work := w, next_id := n\<rparr>) u = announced d s u"
  by (simp add: announced_def)

lemma wp_approve_invoice:
  assumes ok: "\<And>v ls ar u. approval_refusal s t user i = None \<Longrightarrow>
      invoice_in i t (work s) = Some (v, ls) \<Longrightarrow> account_by_code ''1100'' t (work s) = Some ar \<Longrightarrow>
      announced (approved_db s t user (a_id ar) (v, ls)) s u \<Longrightarrow>
      Q (approved_at (instant (clk s)) v, ls) u"
    and err: "\<And>x u. approval_refusal s t user i = Some x \<Longrightarrow> same_outside_work s u \<Longrightarrow> E x u"
  shows "wp (approve_invoice t user i) Q E s"
proof (cases "\<exists>v ls ar. invoice_in i t (work s) = Some (v, ls) \<and> i_status v = INVOICE_ISSUED \<and>
    \<not> closed_on t (i_date v) (work s) \<and> account_by_code ''1100'' t (work s) = Some ar")
  case False
  then show ?thesis
    using err
    by (auto simp: approve_invoice_def get_invoice_def get_invoice_row_def is_period_closed_def
        get_account_by_code_def account_by_code_def [symmetric] wp_simps approval_refusal_def
        split: option.split)
next
  case True
  then obtain v ls ar where v: "invoice_in i t (work s) = Some (v, ls)" "i_status v = INVOICE_ISSUED"
    "\<not> closed_on t (i_date v) (work s)" and ar: "account_by_code ''1100'' t (work s) = Some ar"
    by blast
  from v(1) have sel: "select_one (invoice_key t i) (invoices (work s)) = Some v"
    and ls: "ls = lines_of_invoice t i (work s)" and key: "i_id v = i" "i_tenant v = t"
    by (auto simp: invoice_in_def load_invoice_def invoice_key_def dest: select_one_SomeD)
  let ?e = "accrual_entry t user (instant (clk s)) v"
  let ?ls = "accrual_lines (a_id ar) (v, ls)"
  have ref: "approval_refusal s t user i = entry_refusal s ?e ?ls"
    using v ar by (simp add: approval_refusal_def)
  show ?thesis
    using v(1,3) ar key
    apply (simp add: v(2) approve_invoice_def get_invoice_def get_invoice_row_def is_period_closed_def
        get_account_by_code_def account_by_code_def [symmetric] wp_flow)
    apply (rule wp_create_journal_entry)
    subgoal premises none
      unfolding approve_invoice_row_def
      apply (rule wp_flip_invoice [where v = v])
      subgoal by (simp add: invoice_stamp_eq)
      subgoal using sel by simp
      subgoal using v(2) by simp
      subgoal
        unfolding option.case
        apply (rule wp_announce)
        subgoal for u
          using ok [OF _ v(1) ar, of u] none ref key v(2)
          by (simp add: wp_return approved_db_def issued_at_key_def [abs_def] approved_at_def [abs_def] Let_def
              ls lines_of_invoice_def)
        done
      done
    subgoal for x u using err [of x u] ref by simp
    done
qed

section \<open>Applying a payment\<close>

definition payment_row :: "sess \<Rightarrow> payment \<Rightarrow> payment" where
  "payment_row s p = p\<lparr>pay_id := next_id s, pay_amount := numeric 4 (pay_amount p)\<rparr>"

lemma payment_row_simps [simp]:
  "pay_id (payment_row s p) = next_id s" "pay_tenant (payment_row s p) = pay_tenant p"
  "pay_amount (payment_row s p) = numeric 4 (pay_amount p)" "pay_invoice (payment_row s p) = pay_invoice p"
  "pay_source (payment_row s p) = pay_source p" "pay_ref (payment_row s p) = pay_ref p"
  "pay_number (payment_row s p) = pay_number p" "pay_paid_at (payment_row s p) = pay_paid_at p"
  by (simp_all add: payment_row_def)

lemma manual_payment_simps [simp]:
  "pay_tenant (manual_payment t i x m at_time r n) = t" "pay_invoice (manual_payment t i x m at_time r n) = i"
  "pay_amount (manual_payment t i x m at_time r n) = x" "pay_ref (manual_payment t i x m at_time r n) = Some r"
  "pay_source (manual_payment t i x m at_time r n) = ''manual''"
  "pay_number (manual_payment t i x m at_time r n) = n" "pay_paid_at (manual_payment t i x m at_time r n) = at_time"
  by (simp_all add: manual_payment_def)

lemma wp_create_payment:
  assumes "first_violation (payment_constraints (payment_row s p)) (work s) = None \<Longrightarrow>
      Q (payment_row s p) (s\<lparr>work := (work s)\<lparr>payments := payments (work s) @ [payment_row s p]\<rparr>,
        next_id := Suc (next_id s)\<rparr>)"
    and "\<And>c u. first_violation (payment_constraints (payment_row s p)) (work s) = Some c \<Longrightarrow>
      same_outside_work s u \<Longrightarrow> E (conflict_or_reraise (IntegrityError c)) u"
  shows "wp (create_payment p) Q E s"
  using assms
  by (simp add: create_payment_def wp_bind wp_fresh wp_then wp_flush_unique wp_write wp_return Let_def
      payment_row_def [symmetric] same_outside_work_def split: option.split)

definition booking_refusal :: "sess \<Rightarrow> uuid \<Rightarrow> invoice \<Rightarrow> payment \<Rightarrow> decimal \<Rightarrow> error option" where
  "booking_refusal s t v p received =
     (case usable_account t (work s) ''1200'' of
        None \<Rightarrow> Some (NotFoundError ''Cash account'')
      | Some cash \<Rightarrow> (case usable_account t (work s) ''1100'' of
          None \<Rightarrow> Some (NotFoundError ''AR account'')
        | Some ar \<Rightarrow> entry_refusal s (receipt_entry t (instant (clk s)) v p)
            (receipt_lines (a_id cash) (a_id ar) received)))"

definition booked_db :: "sess \<Rightarrow> uuid \<Rightarrow> invoice \<Rightarrow> payment \<Rightarrow> decimal \<Rightarrow> uuid \<Rightarrow> uuid \<Rightarrow> db" where
  "booked_db s t v p received cash ar =
     (let e = receipt_entry t (instant (clk s)) v p in
      with_entry (entry_row s e) (line_rows s e (receipt_lines cash ar received)) (work s))"

lemma wp_active_account:
  "wp (active_account code missing t) Q E s =
     (case usable_account t (work s) code of None \<Rightarrow> E (NotFoundError missing) s | Some a \<Rightarrow> Q a s)"
  by (simp add: active_account_def get_account_by_code_def usable_account_def wp_simps split: option.split)

lemma wp_book_payment:
  assumes ok: "\<And>cash ar u. booking_refusal s t v p received = None \<Longrightarrow>
      usable_account t (work s) ''1200'' = Some cash \<Longrightarrow> usable_account t (work s) ''1100'' = Some ar \<Longrightarrow>
      announced (booked_db s t v p received (a_id cash) (a_id ar)) s u \<Longrightarrow> Q p u"
    and err: "\<And>x u. booking_refusal s t v p received = Some x \<Longrightarrow> same_outside_work s u \<Longrightarrow> E x u"
  shows "wp (book_payment t user v p received) Q E s"
proof (cases "usable_account t (work s) ''1200'' = None \<or> usable_account t (work s) ''1100'' = None")
  case True
  then show ?thesis
    using err
    by (auto simp: book_payment_def wp_bind wp_active_account booking_refusal_def split: option.split)
next
  case False
  then obtain cash ar where acc: "usable_account t (work s) ''1200'' = Some cash"
    "usable_account t (work s) ''1100'' = Some ar" by auto
  let ?e = "receipt_entry t (instant (clk s)) v p"
  let ?ls = "receipt_lines (a_id cash) (a_id ar) received"
  have ref: "booking_refusal s t v p received = entry_refusal s ?e ?ls"
    using acc by (simp add: booking_refusal_def)
  show ?thesis
    unfolding book_payment_def wp_bind wp_then_fun wp_active_account wp_gets wp_return_fun acc option.case
    by (rule wp_create_journal_entry, rule wp_announce, rule ok [OF _ acc])
      (use err in \<open>simp_all add: ref booked_db_def Let_def\<close>)
qed

text \<open>The numbered payment, the payment with the settled invoice, and what refuses them.\<close>

definition numbered :: "string \<Rightarrow> sess \<Rightarrow> sess" where
  "numbered name s = s\<lparr>number_seq := (number_seq s)(name := number_seq s name + 1)\<rparr>"

lemma numbered_simps [simp]:
  "work (numbered n s) = work s" "durable (numbered n s) = durable s" "next_id (numbered n s) = next_id s"
  "clk (numbered n s) = clk s" "ctx_buffer (numbered n s) = ctx_buffer s"
  "fin_pending (numbered n s) = fin_pending s" "published (numbered n s) = published s"
  "ctx_user (numbered n s) = ctx_user s"
  by (simp_all add: numbered_def)

definition settles :: "uuid \<Rightarrow> uuid \<Rightarrow> bool \<Rightarrow> invoice \<Rightarrow> bool" where
  "settles t i full v \<longleftrightarrow> full \<and> invoice_key t i v \<and> i_status v = INVOICE_APPROVED"

definition paid_invoice :: "invoice \<Rightarrow> invoice" where
  "paid_invoice v = v\<lparr>i_status := INVOICE_PAID\<rparr>"

definition paid_db :: "payment \<Rightarrow> bool \<Rightarrow> db \<Rightarrow> db" where
  "paid_db p full d = d\<lparr>payments := payments d @ [p],
     invoices := update_where (settles (pay_tenant p) (pay_invoice p) full) paid_invoice (invoices d)\<rparr>"

definition payment_preflight :: "db \<Rightarrow> uuid \<Rightarrow> uuid \<Rightarrow> decimal \<Rightarrow> error option" where
  "payment_preflight d t i received =
     (case select_one (invoice_key t i) (invoices d) of
        None \<Rightarrow> Some (NotFoundError ''Invoice'')
      | Some v \<Rightarrow>
          if i_status v \<noteq> INVOICE_APPROVED then Some (ConflictError ''Only approved invoices can receive payments'')
          else if received \<le> 0 then Some (ValidationError ''Payment amount must be positive'')
          else if received > i_total v - paid_sum t i d then Some (ValidationError ''Payment exceeds the outstanding balance'')
          else None)"

definition paying :: "sess \<Rightarrow> payment \<Rightarrow> bool \<Rightarrow> sess" where
  "paying s p full = s\<lparr>work := paid_db (payment_row s p) full (work s), next_id := Suc (next_id s)\<rparr>"

definition rollback_pending :: "error \<Rightarrow> error" where
  "rollback_pending e = (case e of ConflictError _ \<Rightarrow> PendingRollbackError | _ \<Rightarrow> e)"

definition payment_refusal :: "sess \<Rightarrow> uuid \<Rightarrow> invoice \<Rightarrow> payment \<Rightarrow> bool \<Rightarrow> error option" where
  "payment_refusal s t v p full =
     (case first_violation (payment_constraints (payment_row s p)) (work s) of
        Some c \<Rightarrow> Some (rollback_pending (conflict_or_reraise (IntegrityError c)))
      | None \<Rightarrow> booking_refusal (paying s p full) t v (payment_row s p) (pay_amount p))"

lemma wp_settle:
  assumes sel: "select_one (invoice_key t i) (invoices (work s)) = Some v" "i_status v = INVOICE_APPROVED"
    and ok: "Q () (s\<lparr>work := (work s)\<lparr>invoices := update_where (settles t i b) paid_invoice (invoices (work s))\<rparr>\<rparr>)"
  shows "wp (if b then thenM (mark_invoice_paid i t) (returnM ()) else returnM ()) Q E s"
proof (cases b)
  case True
  have "wp (mark_invoice_paid i t) (\<lambda>_. Q ()) E s"
    unfolding mark_invoice_paid_def
    by (rule wp_flip_invoice [OF _ sel(1)])
      (use sel ok True in \<open>simp_all add: invoice_stamp_eq settles_def [abs_def] paid_invoice_def [abs_def]\<close>)
  with True show ?thesis by (simp add: wp_then_fun wp_return_fun wp_then wp_return)
next
  case False
  moreover from this have "update_where (settles t i b) paid_invoice rows = rows" for rows
    by (induction rows) (simp_all add: settles_def)
  ultimately show ?thesis using ok by (simp add: wp_return)
qed

definition payment_seq :: string where
  "payment_seq = ''seq_erp_payment_number''"

definition next_payment ::
  "payment_hash \<Rightarrow> sess \<Rightarrow> uuid \<Rightarrow> uuid \<Rightarrow> decimal \<Rightarrow> string \<Rightarrow> string \<Rightarrow> clock \<Rightarrow> payment" where
  "next_payment key s t i received amount_text method paid_at =
     manual_payment t i received method paid_at (payment_ref key i amount_text paid_at)
       (document_number ''PMT'' (year paid_at) (number_seq s payment_seq + 1))"

lemma next_payment_simps [simp]:
  "pay_tenant (next_payment key s t i x txt m at_time) = t"
  "pay_invoice (next_payment key s t i x txt m at_time) = i"
  "pay_amount (next_payment key s t i x txt m at_time) = x"
  "pay_source (next_payment key s t i x txt m at_time) = ''manual''"
  "pay_ref (next_payment key s t i x txt m at_time) = Some (payment_ref key i txt at_time)"
  by (simp_all add: next_payment_def)

lemma wp_next_payment_number:
  "wp (next_payment_number yr) Q E s =
     Q (document_number ''PMT'' yr (number_seq s payment_seq + 1)) (numbered payment_seq s)"
  by (simp add: next_payment_number_def wp_bind wp_nextval wp_return numbered_def payment_seq_def)

lemma wp_preflight:
  "wp (preflight_payment t i received) Q E s =
     (case payment_preflight (work s) t i received of
        Some x \<Rightarrow> E x s
      | None \<Rightarrow> (case invoice_in i t (work s) of None \<Rightarrow> False
          | Some (v, ls) \<Rightarrow> Q ((v, ls), i_total v - paid_sum t i (work s)) s))"
  by (cases "select_one (invoice_key t i) (invoices (work s))")
    (simp_all add: preflight_payment_def get_invoice_for_update_def sum_payments_for_invoice_def invoice_in_def
      load_invoice_def payment_preflight_def wp_flow Let_def)

text \<open>What a new payment does, once the invoice is found fit for it.\<close>

lemma wp_new_payment:
  fixes full :: bool
  assumes sel: "select_one (invoice_key t i) (invoices (work s)) = Some v" "i_status v = INVOICE_APPROVED"
    and p: "pay_tenant p = t" "pay_invoice p = i" "pay_amount p = received"
    and ok: "\<And>cash ar u. payment_refusal s t v p full = None \<Longrightarrow>
      usable_account t (work s) ''1200'' = Some cash \<Longrightarrow> usable_account t (work s) ''1100'' = Some ar \<Longrightarrow>
      announced (booked_db (paying s p full) t v (payment_row s p) received (a_id cash) (a_id ar)) s u \<Longrightarrow>
      Q (payment_row s p) u"
    and err: "\<And>x u. payment_refusal s t v p full = Some x \<Longrightarrow> same_outside_work s u \<Longrightarrow> E x u"
  shows "wp (bindM (catchM (create_payment p)
      (\<lambda>e. raiseM (case e of ConflictError _ \<Rightarrow> PendingRollbackError | _ \<Rightarrow> e))) (\<lambda>created.
      thenM (if full then thenM (mark_invoice_paid i t) (returnM ()) else returnM ())
        (book_payment t user v created received))) Q E s"
  unfolding rollback_pending_def [symmetric] wp_bind wp_catch wp_raise
proof (rule wp_create_payment)
  assume none: "first_violation (payment_constraints (payment_row s p)) (work s) = None"
  let ?s = "s\<lparr>work := (work s)\<lparr>payments := payments (work s) @ [payment_row s p]\<rparr>, next_id := Suc (next_id s)\<rparr>"
  have after: "?s\<lparr>work := (work ?s)\<lparr>invoices := update_where (settles t i full) paid_invoice (invoices (work ?s))\<rparr>\<rparr>
      = paying s p full"
    using p by (simp add: paying_def paid_db_def)
  have ref: "payment_refusal s t v p full = booking_refusal (paying s p full) t v (payment_row s p) received"
    using none p by (simp add: payment_refusal_def)
  have acc: "usable_account t (work (paying s p full)) code = usable_account t (work s) code" for code
    by (simp add: usable_account_def paying_def paid_db_def)
  have outside: "same_outside_work (paying s p full) u \<Longrightarrow> same_outside_work s u"
    and heard: "announced d (paying s p full) u = announced d s u" for d u
    by (simp_all add: same_outside_work_def announced_def paying_def)
  show "wp (thenM (if full then thenM (mark_invoice_paid i t) (returnM ()) else returnM ())
      (book_payment t user v (payment_row s p) received)) Q E ?s"
    unfolding wp_then
  proof (rule wp_settle [where v = v])
    show "wp (book_payment t user v (payment_row s p) received) Q E
        (?s\<lparr>work := (work ?s)\<lparr>invoices := update_where (settles t i full) paid_invoice (invoices (work ?s))\<rparr>\<rparr>)"
      unfolding after
      by (rule wp_book_payment) (use ok err outside in \<open>simp_all add: ref acc heard\<close>)
  qed (use sel in simp_all)
qed (use err in \<open>simp add: payment_refusal_def\<close>)

lemma apply_payment_flow:
  "wp (apply_payment key t user i received txt method paid_at) Q E s =
     (case select_one (payment_source t ''manual'' (payment_ref key i txt paid_at)) (payments (work s)) of
        Some p \<Rightarrow> Q p s
      | None \<Rightarrow> (case payment_preflight (work s) t i received of
          Some x \<Rightarrow> E x s
        | None \<Rightarrow> (case invoice_in i t (work s) of
            None \<Rightarrow> False
          | Some (v, ls) \<Rightarrow>
              wp (bindM (catchM (create_payment (next_payment key s t i received txt method paid_at))
                  (\<lambda>e. raiseM (case e of ConflictError _ \<Rightarrow> PendingRollbackError | _ \<Rightarrow> e))) (\<lambda>created.
                  thenM (if i_total v - paid_sum t i (work s) - received = 0
                         then thenM (mark_invoice_paid i t) (returnM ()) else returnM ())
                    (book_payment t user v created received))) Q E (numbered payment_seq s))))"
  unfolding apply_payment_def Let_def get_payment_by_source_ref_def next_payment_def
  by (simp add: wp_bind_fun wp_bind [of "readM _"] wp_bind [of "preflight_payment _ _ _"] wp_read wp_preflight
      wp_bind [of "next_payment_number _"] wp_next_payment_number wp_return split: option.split prod.split)

lemma wp_apply_payment:
  assumes replay: "\<And>p. select_one (payment_source t ''manual'' (payment_ref key i txt paid_at)) (payments (work s)) = Some p \<Longrightarrow>
      Q p s"
    and unfit: "\<And>x. select_one (payment_source t ''manual'' (payment_ref key i txt paid_at)) (payments (work s)) = None \<Longrightarrow>
      payment_preflight (work s) t i received = Some x \<Longrightarrow> E x s"
    and ok: "\<And>v full p cash ar u.
      select_one (payment_source t ''manual'' (payment_ref key i txt paid_at)) (payments (work s)) = None \<Longrightarrow>
      payment_preflight (work s) t i received = None \<Longrightarrow>
      select_one (invoice_key t i) (invoices (work s)) = Some v \<Longrightarrow>
      full = (i_total v - paid_sum t i (work s) - received = 0) \<Longrightarrow>
      p = next_payment key s t i received txt method paid_at \<Longrightarrow>
      payment_refusal (numbered payment_seq s) t v p full = None \<Longrightarrow>
      usable_account t (work s) ''1200'' = Some cash \<Longrightarrow> usable_account t (work s) ''1100'' = Some ar \<Longrightarrow>
      announced (booked_db (paying (numbered payment_seq s) p full) t v (payment_row s p) received (a_id cash) (a_id ar))
        (numbered payment_seq s) u \<Longrightarrow>
      Q (payment_row s p) u"
    and err: "\<And>v full p x u.
      select_one (payment_source t ''manual'' (payment_ref key i txt paid_at)) (payments (work s)) = None \<Longrightarrow>
      payment_preflight (work s) t i received = None \<Longrightarrow>
      select_one (invoice_key t i) (invoices (work s)) = Some v \<Longrightarrow>
      full = (i_total v - paid_sum t i (work s) - received = 0) \<Longrightarrow>
      p = next_payment key s t i received txt method paid_at \<Longrightarrow>
      payment_refusal (numbered payment_seq s) t v p full = Some x \<Longrightarrow>
      same_outside_work (numbered payment_seq s) u \<Longrightarrow> E x u"
  shows "wp (apply_payment key t user i received txt method paid_at) Q E s"
proof (cases "select_one (payment_source t ''manual'' (payment_ref key i txt paid_at)) (payments (work s))")
  case (Some p)
  then show ?thesis using replay [OF Some] by (simp add: apply_payment_flow)
next
  case new: None
  show ?thesis
  proof (cases "payment_preflight (work s) t i received")
    case (Some x)
    then show ?thesis using unfit [OF new Some] new by (simp add: apply_payment_flow)
  next
    case fit: None
    then obtain v where v: "select_one (invoice_key t i) (invoices (work s)) = Some v" "i_status v = INVOICE_APPROVED"
      by (auto simp: payment_preflight_def split: option.splits if_splits)
    then have inv: "invoice_in i t (work s) = Some (v, lines_of_invoice t (i_id v) (work s))"
      by (simp add: invoice_in_def load_invoice_def)
    show ?thesis
      unfolding apply_payment_flow new fit inv option.case prod.case
    proof (rule wp_new_payment, unfold numbered_simps)
      have row: "payment_row (numbered payment_seq s) p = payment_row s p" for p by (simp add: payment_row_def)
      fix cash ar u
      assume "payment_refusal (numbered payment_seq s) t v (next_payment key s t i received txt method paid_at)
          (i_total v - paid_sum t i (work s) - received = 0) = None"
        "usable_account t (work s) ''1200'' = Some cash" "usable_account t (work s) ''1100'' = Some ar"
        "announced (booked_db (paying (numbered payment_seq s) (next_payment key s t i received txt method paid_at)
            (i_total v - paid_sum t i (work s) - received = 0)) t v
          (payment_row (numbered payment_seq s) (next_payment key s t i received txt method paid_at)) received
          (a_id cash) (a_id ar)) (numbered payment_seq s) u"
      from ok [OF new fit v(1) refl refl this [unfolded row]]
      show "Q (payment_row (numbered payment_seq s) (next_payment key s t i received txt method paid_at)) u"
        by (simp only: row)
    next
      fix x u
      assume "payment_refusal (numbered payment_seq s) t v (next_payment key s t i received txt method paid_at)
          (i_total v - paid_sum t i (work s) - received = 0) = Some x"
        "same_outside_work (numbered payment_seq s) u"
      from err [OF new fit v(1) refl refl this] show "E x u" .
    qed (use v in simp_all)
  qed
qed

section \<open>The invariant\<close>

context table_invariant
begin

lemma announced_kept:
  assumes "announced d s u" "P d" "P (durable s)"
  shows "P (work u) \<and> P (durable u)"
  using assms by (auto simp: announced_def audit_free timeline_free)

end

lemma accrual_entry_simps [simp]:
  "je_tenant (accrual_entry t user now v) = t" "je_status (accrual_entry t user now v) = ENTRY_POSTED"
  "je_source (accrual_entry t user now v) = ''invoice''"
  "je_ref (accrual_entry t user now v) = Some (uuid_text (i_id v))"
  "je_date (accrual_entry t user now v) = i_date v"
  by (simp_all add: accrual_entry_def new_entry_def)

lemma receipt_entry_simps [simp]:
  "je_tenant (receipt_entry t now v p) = t" "je_status (receipt_entry t now v p) = ENTRY_POSTED"
  "je_source (receipt_entry t now v p) = ''payment''"
  "je_ref (receipt_entry t now v p) = Some (uuid_text (pay_id p))"
  "je_date (receipt_entry t now v p) = today (pay_paid_at p)"
  by (simp_all add: receipt_entry_def new_entry_def)

lemma finance_approved_db:
  assumes wf: "finance_wf (work s)" and none: "approval_refusal s t user i = None"
    and v: "invoice_in i t (work s) = Some (v, ls)" and ar: "account_by_code ''1100'' t (work s) = Some ar"
  shows "finance_wf (approved_db s t user (a_id ar) (v, ls))"
proof -
  let ?e = "accrual_entry t user (instant (clk s)) v"
  let ?ls = "accrual_lines (a_id ar) (v, ls)"
  from v have sel: "select_one (invoice_key t i) (invoices (work s)) = Some v"
    and ls: "ls = lines_of_invoice t i (work s)" and key: "i_tenant v = t" "i_id v = i"
    by (auto simp: invoice_in_def load_invoice_def invoice_key_def dest: select_one_SomeD)
  from none v ar have st: "i_status v = INVOICE_ISSUED" and ref: "entry_refusal s ?e ?ls = None"
    by (auto simp: approval_refusal_def split: if_splits)
  have bal: "balanced (as_stored ?ls)" and total: "debit_total (line_rows s ?e ?ls) = i_total v"
    using accrual_totals [OF finance_wfD(2) [OF wf] sel] by (simp_all add: balanced_def line_rows_totals ls)
  have books: "books_wf (with_entry (entry_row s ?e) (line_rows s ?e ?ls) (work s))"
    by (rule books_created [OF finance_wfD(1) [OF wf] ref])
      (use bal in \<open>simp add: balanced_def line_rows_totals\<close>)
  show ?thesis
    unfolding approved_db_def Let_def fst_conv
    by (rule finance_approved [OF wf _ entry_created(1) [OF ref] line_rows_fields books _ _ total])
      (use sel key st in \<open>auto simp: issued_at_key_def invoice_key_def invoice_id_def approved_at_def
        invoice_stamp_eq same_source_def dest: select_one_SomeD\<close>)
qed

lemma finance_approve_invoice: "keeps finance_wf (approve_invoice t user i)"
proof (rule keepsI, rule wp_approve_invoice)
  fix s u :: sess and v ls ar
  assume "finance_wf (work s)" "finance_wf (durable s)" "approval_refusal s t user i = None"
    "invoice_in i t (work s) = Some (v, ls)" "account_by_code ''1100'' t (work s) = Some ar"
    and u: "announced (approved_db s t user (a_id ar) (v, ls)) s u"
  then show "finance_wf (work u) \<and> finance_wf (durable u)"
    by (intro finance.announced_kept [OF u] finance_approved_db)
qed (simp add: same_outside_work_def)

lemma paid_sum_scale: "payments_wf d \<Longrightarrow> at_scale 4 (paid_sum t i d)"
  by (auto simp: paid_sum_def payments_wf_def intro!: at_scale_sum_list)

lemma invoice_total_scale: "invoices_wf d \<Longrightarrow> v \<in> set (invoices d) \<Longrightarrow> at_scale 4 (i_total v)"
  by (auto simp: invoices_wf_def invoice_total_def lines_in_def intro!: at_scale_sum_list)

lemma receipt_totals:
  "debit_total (as_stored (receipt_lines cash ar x)) = numeric 4 x"
  "credit_total (as_stored (receipt_lines cash ar x)) = numeric 4 x"
  by (simp_all add: receipt_lines_def)

lemma finance_booked:
  assumes wf: "finance_wf (work s)"
    and sel: "select_one (invoice_key t i) (invoices (work s)) = Some v" "i_status v = INVOICE_APPROVED"
    and p: "pay_tenant p = t" "pay_invoice p = i" "pay_amount p = received"
    and fit: "received \<le> i_total v - paid_sum t i (work s)"
    and full: "full = (i_total v - paid_sum t i (work s) - received = 0)"
    and none: "payment_refusal s t v p full = None"
    and acc: "usable_account t (work s) ''1200'' = Some cash" "usable_account t (work s) ''1100'' = Some ar"
  shows "finance_wf (booked_db (paying s p full) t v (payment_row s p) received (a_id cash) (a_id ar))"
proof -
  note parts = finance_wfD [OF wf]
  let ?row = "payment_row s p" and ?s = "paying s p full"
  let ?e = "receipt_entry t (instant (clk ?s)) v ?row" and ?ls = "receipt_lines (a_id cash) (a_id ar) received"
  have work: "work ?s = paid_db ?row full (work s)" by (simp add: paying_def)
  from none have ok: "first_violation (payment_constraints ?row) (work s) = None"
    and "booking_refusal ?s t v ?row received = None"
    using p by (simp_all add: payment_refusal_def split: option.splits)
  then have ref: "entry_refusal ?s ?e ?ls = None"
    using acc by (simp add: booking_refusal_def usable_account_def work paid_db_def)
  have v: "v \<in> set (invoices (work s))" "invoice_key t i v" using sel by (auto dest: select_one_SomeD)
  have "at_scale 4 (i_total v - paid_sum t i (work s))"
    using parts v by (intro at_scale_diff paid_sum_scale invoice_total_scale)
  then have outstanding: "numeric 4 (i_total v - paid_sum t i (work s)) = i_total v - paid_sum t i (work s)"
    by simp
  with fit have le: "numeric 4 received \<le> i_total v - paid_sum t i (work s)"
    by (metis numeric_mono)
  have "books_wf (work ?s)" using parts(1) books_wf_cong [of "work ?s" "work s"] by (simp add: work paid_db_def)
  from books_created [OF this ref]
  have books: "books_wf (with_entry (entry_row ?s ?e) (line_rows ?s ?e ?ls) (paid_db ?row full (work s)))"
    by (simp add: work balanced_def line_rows_totals receipt_totals)
  have exact: "paid_sum t i (work s) + numeric 4 received = i_total v" if full
    using that full outstanding by (simp add: algebra_simps)
  show ?thesis
    unfolding booked_db_def Let_def work paid_db_def
  proof (rule finance_paid [OF wf, where v = v])
    show "\<forall>f \<in> set (entries (work s)). \<not> entry_key (je_tenant (entry_row ?s ?e)) (je_id (entry_row ?s ?e)) f"
      using entry_created(1) [OF ref] by (simp add: work paid_db_def)
    show "books_wf (with_entry (entry_row ?s ?e) (line_rows ?s ?e ?ls) (work s))"
      using books books_wf_cong [of "with_entry (entry_row ?s ?e) (line_rows ?s ?e ?ls) (paid_db ?row full (work s))"
        "with_entry (entry_row ?s ?e) (line_rows ?s ?e ?ls) (work s)"]
      by (simp add: with_entry_def paid_db_def)
    show "\<forall>q \<in> set (payments (work s)). \<not> payment_key (pay_tenant ?row) (pay_id ?row) q" "0 < pay_amount ?row"
      using ok [unfolded first_violation_None payment_constraints_def] by simp_all
    show "\<forall>l \<in> set (line_rows ?s ?e ?ls). jl_tenant l = je_tenant (entry_row ?s ?e) \<and> jl_entry l = je_id (entry_row ?s ?e)"
      by (rule line_rows_fields)
    show "\<And>w. settles (pay_tenant ?row) (pay_invoice ?row) full w \<Longrightarrow>
        invoice_key (pay_tenant ?row) (pay_invoice ?row) w \<and> i_status w = INVOICE_APPROVED \<and>
        paid_sum (pay_tenant ?row) (pay_invoice ?row) (work s) + pay_amount ?row = i_total v"
      using exact p by (simp add: settles_def)
  qed (use v sel p le in \<open>simp_all add: paid_invoice_def invoice_stamp_eq same_source_def line_rows_totals receipt_totals\<close>)
qed

lemma finance_apply_payment: "keeps finance_wf (apply_payment key t user i received txt method paid_at)"
proof (rule keepsI, rule wp_apply_payment)
  fix s u :: sess and v full p cash ar
  assume wf: "finance_wf (work s)" "finance_wf (durable s)"
    and fit: "payment_preflight (work s) t i received = None"
    and v: "select_one (invoice_key t i) (invoices (work s)) = Some v"
    and full: "full = (i_total v - paid_sum t i (work s) - received = 0)"
    and p: "p = next_payment key s t i received txt method paid_at"
    and ok: "payment_refusal (numbered payment_seq s) t v p full = None"
      "usable_account t (work s) ''1200'' = Some cash" "usable_account t (work s) ''1100'' = Some ar"
    and u: "announced (booked_db (paying (numbered payment_seq s) p full) t v (payment_row s p) received
        (a_id cash) (a_id ar)) (numbered payment_seq s) u"
  from fit v have st: "i_status v = INVOICE_APPROVED" "received \<le> i_total v - paid_sum t i (work s)"
    by (auto simp: payment_preflight_def split: if_splits)
  have row: "payment_row (numbered payment_seq s) p = payment_row s p" by (simp add: payment_row_def)
  have "finance_wf (booked_db (paying (numbered payment_seq s) p full) t v
      (payment_row (numbered payment_seq s) p) received (a_id cash) (a_id ar))"
    by (rule finance_booked [where i = i]) (use wf v st p full ok in simp_all)
  then show "finance_wf (work u) \<and> finance_wf (durable u)"
    using wf(2) by (intro finance.announced_kept [OF u]) (simp_all add: row)
qed (simp_all add: same_outside_work_def)

section \<open>The other operations\<close>

lemmas finance_shared = finance.audit_by_keeps finance.timeline_keeps finance.next_value_keeps

lemmas finance_read_defs = get_account_by_code_def get_account_by_id_def get_journal_entry_def
  get_journal_entry_row_def get_journal_entry_by_source_ref_def is_period_closed_def get_invoice_def get_invoice_row_def
  get_invoice_by_source_ref_def list_fiscal_periods_def default_currency_def get_exchange_rate_row_def
  resolve_invoice_currency_def resolve_exchange_rate_def next_invoice_number_def

lemma finance_account_requests:
  "keeps finance_wf (create_account t code name ty)" "keeps finance_wf (deactivate_account t i)"
  unfolding create_account_def deactivate_account_def
  by (intro keeps_intros finance_shared finance_keeps_create_account finance_keeps_deactivate_account)+

lemma new_entry_simps [simp]:
  "je_status (new_entry t d memo st src ref x y) = st" "je_source (new_entry t d memo st src ref x y) = src"
  "je_tenant (new_entry t d memo st src ref x y) = t" "je_date (new_entry t d memo st src ref x y) = d"
  "je_ref (new_entry t d memo st src ref x y) = ref"
  by (simp_all add: new_entry_def)

lemma finance_journal_requests:
  "keeps finance_wf (create_manual_entry t entry_date memo ls)"
  "keeps finance_wf (void_journal_entry t user i)" "keeps finance_wf (reverse_journal_entry t user i)"
  unfolding create_manual_entry_def void_journal_entry_def reverse_journal_entry_def void_journal_entry_row_def
    reverse_journal_entry_row_def resolve_line_def finance_read_defs Let_def
  by (intro keeps_intros finance_shared finance_keeps_entry finance_keeps_flip;
      simp add: booked_def entry_stamp_eq)+

lemma finance_post_journal_entry: "keeps finance_wf (post_journal_entry None t user i)"
proof (rule keepsI, rule wp_post_journal_entry)
  fix s :: sess and e a
  assume wf: "finance_wf (work s)" "finance_wf (durable s)" and none: "posting_refusal (work s) t i = None"
  then have "balanced (entry_lines t i (work s))" by (auto simp: posting_refusal_def split: option.splits if_splits)
  with wf show "finance_wf (work (s\<lparr>work := (posted_db t (Some user) i (instant (clk s)) (work s))
        \<lparr>audit_logs := audit_logs (work s) @ [a]\<rparr>,
      fin_pending := fin_pending s @ [\<lparr>ev_topic = ''finance.journal_entry.posted'', ev_tenant = t,
        ev_payload = [(''entry_id'', PId i)]\<rparr>]\<rparr>)) \<and>
      finance_wf (durable (s\<lparr>work := (posted_db t (Some user) i (instant (clk s)) (work s))
        \<lparr>audit_logs := audit_logs (work s) @ [a]\<rparr>,
      fin_pending := fin_pending s @ [\<lparr>ev_topic = ''finance.journal_entry.posted'', ev_tenant = t,
        ev_payload = [(''entry_id'', PId i)]\<rparr>]\<rparr>))"
    by (simp add: finance_unaffected finance_posted)
qed

lemma finance_period_requests:
  "keeps finance_wf (create_fiscal_period t name start_date end_date)"
  "keeps finance_wf (close_fiscal_period t i)"
  unfolding create_fiscal_period_def close_fiscal_period_def create_fiscal_period_row_def
    close_fiscal_period_row_def finance_read_defs Let_def
  by (intro keeps_intros keeps_flush_unique keeps_write finance_shared; simp add: finance_unaffected)+

lemma finance_set_exchange_rate: "keeps finance_wf (set_exchange_rate t base quote effective rate)"
  unfolding set_exchange_rate_def upsert_exchange_rate_def Let_def
  by (intro keeps_intros keeps_write) (simp add: finance_unaffected)

lemma finance_invoice_flips:
  "keeps finance_wf (issue_invoice t user i)" "keeps finance_wf (void_invoice t user i)"
  unfolding issue_invoice_def void_invoice_def issue_invoice_row_def void_invoice_row_def finance_read_defs
  by (intro keeps_intros finance_shared finance_keeps_invoice_flip; auto simp: invoice_stamp_eq)+

lemma new_invoice_line_scale: "at_scale 4 (il_amount (new_invoice_line n ds acc q p))"
  by (simp add: new_invoice_line_def)

lemma resolved_lines:
  "yields (\<lambda>ls. \<forall>l \<in> set ls. at_scale 4 (il_amount l)) (mapM (resolve_invoice_line t) xs)"
  "yields (\<lambda>ls. \<forall>l \<in> set ls. at_scale 4 (il_amount l)) (mapM (resolve_billing_line t) ys)"
  unfolding resolve_invoice_line_def resolve_billing_line_def
  by (intro yields_mapM yields_intros new_invoice_line_scale)+

lemma finance_create_manual_invoice:
  "keeps finance_wf (create_manual_invoice dc t user customer invoice_date due_date ls requested)"
  unfolding create_manual_invoice_def announce_invoice_created_def finance_read_defs
  apply (intro keeps_then keeps_require)
  apply (rule keeps_bind_yields [OF _ resolved_lines(1)])
  apply (unfold resolve_invoice_line_def check_invoice_line_def finance_read_defs)
  by (intro keeps_intros finance_shared finance_keeps_invoice; simp)+

lemma finance_create_from_order: "keeps finance_wf (create_from_order dc order)"
  unfolding create_from_order_def announce_invoice_created_def finance_read_defs Let_def
  apply (intro keeps_bind [OF keeps_read] keeps_option keeps_return)
  apply (rule keeps_bind_yields [OF _ resolved_lines(2)])
  apply (unfold resolve_billing_line_def check_invoice_line_def billing_account_def finance_read_defs)
  by (intro keeps_intros finance_shared finance_keeps_invoice; simp)+

lemma finance_post_cogs: "keeps finance_wf (post_cogs_for_order t order_id entry_date ls)"
  unfolding post_cogs_for_order_def cogs_entry_def finance_read_defs Let_def
  by (intro keeps_intros finance_shared finance_keeps_entry; simp add: balanced_def)+

lemma finance_payroll_accrual: "keeps finance_wf (create_payroll_accrual_draft t run_id entry_date gross net)"
  unfolding create_payroll_accrual_draft_def
  by (intro keeps_intros finance_shared finance_keeps_entry; simp add: booked_def)+

end
