(* ===== verification/Payment_Matching.thy ===== *)
theory Payment_Matching
  imports Finance_Requests
begin

text \<open>
  The payment-matching inbox of \<open>core/features/finance/payment_match.py\<close>: the scorer that ranks
  approved invoices against a receipt, and the operations that register, accept, undo and dismiss
  a receipt. The quotients of the scorer are exact here; Python's 28 digits give the same four
  decimals for every pair of amounts the columns can hold.
\<close>

section \<open>Scoring\<close>

definition SCORE_CANDIDATE_BAR :: decimal where
  "SCORE_CANDIDATE_BAR = 7 / 10"

text \<open>15 minutes, in the microseconds of the clock.\<close>

definition UNDO_WINDOW :: int where
  "UNDO_WINDOW = 15 * 60 * 1000000"

definition amount_affinity :: "decimal \<Rightarrow> decimal \<Rightarrow> decimal" where
  "amount_affinity received outstanding =
     (if received \<le> 0 \<or> outstanding \<le> 0 then 0
      else min received outstanding / max received outstanding)"

text \<open>\<open>re.sub(r"[^a-z0-9-]", "", text.lower())\<close>\<close>

definition fold_char :: "char \<Rightarrow> bool" where
  "fold_char c = (let n = of_char c :: nat in 97 \<le> n \<and> n \<le> 122 \<or> 48 \<le> n \<and> n \<le> 57 \<or> n = 45)"

definition fold_text :: "string \<Rightarrow> string" where
  "fold_text s = filter fold_char (map lower_char s)"

text \<open>Python's \<open>in\<close> on strings.\<close>

fun contains_text :: "string \<Rightarrow> string \<Rightarrow> bool" where
  "contains_text needle [] \<longleftrightarrow> needle = []"
| "contains_text needle (c # cs) \<longleftrightarrow>
     take (length needle) (c # cs) = needle \<or> contains_text needle cs"

definition invoice_number_in_reference :: "string \<Rightarrow> string \<Rightarrow> bool" where
  "invoice_number_in_reference reference number \<longleftrightarrow>
     fold_text number \<noteq> [] \<and> contains_text (fold_text number) (fold_text reference)"

definition score_match ::
  "decimal \<Rightarrow> uuid option \<Rightarrow> string option \<Rightarrow> string \<Rightarrow> uuid \<Rightarrow> decimal \<Rightarrow> decimal" where
  "score_match received customer reference number invoice_customer outstanding =
     (let weighted = 5 / 10 * amount_affinity received outstanding;
          (weighted, weights) = (case customer of
             None \<Rightarrow> (weighted, 5 / 10)
           | Some c \<Rightarrow> (weighted + 3 / 10 * (if invoice_customer = c then 1 else 0), 5 / 10 + 3 / 10));
          (weighted, weights) = (case reference of
             None \<Rightarrow> (weighted, weights)
           | Some r \<Rightarrow> if r \<noteq> [] \<and> number \<noteq> []
               then (weighted + 2 / 10 * (if invoice_number_in_reference r number then 1 else 0), weights + 2 / 10)
               else (weighted, weights))
      in quantize 4 (weighted / weights))"

record candidate =
  k_invoice :: uuid
  k_number :: string
  k_customer :: uuid
  k_outstanding :: decimal
  k_score :: decimal

definition candidate_of ::
  "decimal \<Rightarrow> uuid option \<Rightarrow> string option \<Rightarrow> invoice_doc \<times> decimal \<Rightarrow> candidate" where
  "candidate_of received customer reference x = (case x of (doc, outstanding) \<Rightarrow>
     \<lparr>k_invoice = i_id (fst doc), k_number = i_number (fst doc), k_customer = i_customer (fst doc),
      k_outstanding = outstanding,
      k_score = score_match received customer reference (i_number (fst doc)) (i_customer (fst doc)) outstanding\<rparr>)"

text \<open>
  Highest score first and, among equal scores, smallest outstanding amount first; the sort is
  stable.
\<close>

definition compute_candidates ::
  "decimal \<Rightarrow> uuid option \<Rightarrow> string option \<Rightarrow> (invoice_doc \<times> decimal) list \<Rightarrow> candidate list" where
  "compute_candidates received customer reference pairs =
     sort_key (\<lambda>c. - k_score c) (sort_key k_outstanding
       (filter (\<lambda>c. SCORE_CANDIDATE_BAR \<le> k_score c)
         (map (candidate_of received customer reference) (filter (\<lambda>x. \<not> snd x \<le> 0) pairs))))"

section \<open>The service\<close>

record receipt_body =
  rb_amount :: decimal
  rb_paid_at :: clock
  rb_method :: string
  rb_reference :: "string option"
  rb_source :: string
  rb_ref :: "string option"
  rb_customer :: "uuid option"

definition score_for ::
  "uuid \<Rightarrow> decimal \<Rightarrow> uuid option \<Rightarrow> string option \<Rightarrow> candidate list service" where
  "score_for tenant received customer reference =
     bindM (outstanding_invoices tenant) (\<lambda>pairs. returnM (compute_candidates received customer reference pairs))"

definition new_intent :: "uuid \<Rightarrow> uuid \<Rightarrow> receipt_body \<Rightarrow> candidate list \<Rightarrow> payment_intent" where
  "new_intent tenant user body best =
     \<lparr>pi_id = 0, pi_tenant = tenant, pi_amount = rb_amount body, pi_paid_at = rb_paid_at body,
      pi_method = rb_method body, pi_source = rb_source body, pi_created_by = user,
      pi_status = (if best = [] then INTENT_OPEN else INTENT_CANDIDATE),
      pi_reference = rb_reference body, pi_ref = rb_ref body, pi_customer = rb_customer body,
      pi_score = (case best of [] \<Rightarrow> None | c # _ \<Rightarrow> Some (k_score c)),
      pi_suggested = (case best of [] \<Rightarrow> None | c # _ \<Rightarrow> Some (k_invoice c)),
      pi_applied_invoice = None, pi_applied_payment = None, pi_applied_at = None,
      pi_applied_by = None, pi_dismissed_at = None, pi_created = 0\<rparr>"

definition register :: "uuid \<Rightarrow> uuid \<Rightarrow> receipt_body \<Rightarrow> payment_intent service" where
  "register tenant user body =
     bindM (score_for tenant (rb_amount body) (rb_customer body) (rb_reference body)) (\<lambda>best.
     bindM (create_payment_intent (new_intent tenant user body best)) (\<lambda>created.
     thenM (audit_by tenant (Some user) ''finance.payment_intent.registered''
         (target ''payment_intent'' (pi_id created))
         (Some [(''amount'', PDec (pi_amount created)), (''method'', PStr (pi_method created)),
           (''reference'', opt_str (pi_reference created))]))
     (returnM created)))"

definition unresolved :: "payment_intent \<Rightarrow> bool" where
  "unresolved p \<longleftrightarrow> pi_status p = INTENT_OPEN \<or> pi_status p = INTENT_CANDIDATE"

definition customer_name :: "uuid \<Rightarrow> uuid option \<Rightarrow> db \<Rightarrow> string option" where
  "customer_name tenant customer d = (case customer of None \<Rightarrow> None
   | Some c \<Rightarrow> map_option c_name (select_one (\<lambda>r. c_tenant r = tenant \<and> c_id r = c) (customers d)))"

text \<open>The page of the inbox: a merge of the newest open and the newest candidate receipts.\<close>

definition inbox_page :: "uuid \<Rightarrow> intent_status option \<Rightarrow> nat \<Rightarrow> nat \<Rightarrow> payment_intent list service" where
  "inbox_page tenant status offset limit = (case status of
     Some st \<Rightarrow> list_payment_intents_rows tenant (Some st) offset limit
   | None \<Rightarrow>
       bindM (list_payment_intents_rows tenant (Some INTENT_OPEN) 0 limit) (\<lambda>opened.
       bindM (list_payment_intents_rows tenant (Some INTENT_CANDIDATE) 0 limit) (\<lambda>candidates.
       returnM (page offset limit (sort_key (\<lambda>p. - pi_created p) (opened @ candidates))))))"

definition list_inbox ::
  "uuid \<Rightarrow> intent_status option \<Rightarrow> nat \<Rightarrow> nat \<Rightarrow>
   (payment_intent \<times> candidate list \<times> string option) list service" where
  "list_inbox tenant status offset limit =
     bindM (inbox_page tenant status offset limit) (\<lambda>found.
     bindM (outstanding_invoices tenant) (\<lambda>pairs.
     readM (\<lambda>d. map (\<lambda>p. (p,
       if unresolved p then compute_candidates (pi_amount p) (pi_customer p) (pi_reference p) pairs else [],
       customer_name tenant (pi_customer p) d)) found)))"

definition get_intent :: "uuid \<Rightarrow> uuid \<Rightarrow> payment_intent service" where
  "get_intent tenant i = bindM (get_payment_intent i tenant) (the_or_raise (NotFoundError ''Payment intent''))"

text \<open>\<open>str\<close> of an amount read from a \<open>NUMERIC(20,2)\<close> column.\<close>

definition amount_text :: "decimal \<Rightarrow> string" where
  "amount_text x = (let n = nat \<lfloor>\<bar>x\<bar> * 100\<rfloor> in
     (if x < 0 then ''-'' else []) @ nat_text (n div 100) @ ''.'' @ nat_text (n div 10 mod 10) @ nat_text (n mod 10))"

definition applied_intent :: "uuid \<Rightarrow> uuid \<Rightarrow> int \<Rightarrow> uuid \<Rightarrow> payment_intent \<Rightarrow> payment_intent" where
  "applied_intent paid_inv pid now user p = p\<lparr>pi_status := INTENT_APPLIED,
     pi_applied_invoice := Some paid_inv, pi_applied_payment := Some pid,
     pi_applied_at := Some now, pi_applied_by := Some user, pi_dismissed_at := None\<rparr>"

definition accept ::
  "payment_hash \<Rightarrow> uuid \<Rightarrow> uuid \<Rightarrow> uuid \<Rightarrow> uuid \<Rightarrow> payment_intent service" where
  "accept key tenant user i paid_inv =
     bindM (get_intent tenant i) (\<lambda>p.
     thenM (requireM (pi_status p \<notin> {INTENT_APPLIED, INTENT_DISMISSED})
         (ConflictError ''Payment intent is already resolved''))
     (bindM (apply_payment key tenant user paid_inv (pi_amount p) (amount_text (pi_amount p))
         (pi_method p) (pi_paid_at p)) (\<lambda>paid.
     bindM (getsM clk) (\<lambda>c.
     bindM (update_payment_intent (applied_intent paid_inv (pay_id paid) (instant c) user p)) (\<lambda>found.
     bindM (the_or_raise AssertionError found) (\<lambda>updated.
     thenM (audit_by tenant (Some user) ''finance.payment_match.accepted'' (target ''payment_intent'' i)
         (Some [(''payment_id'', PId (pay_id paid)), (''payment_number'', PStr (pay_number paid)),
           (''invoice_id'', PId paid_inv), (''amount'', PDec (pay_amount paid))]))
     (returnM updated)))))))"

definition reopened_intent :: "payment_intent \<Rightarrow> payment_intent" where
  "reopened_intent p = p\<lparr>pi_status :=
       (if SCORE_CANDIDATE_BAR \<le> (case pi_score p of None \<Rightarrow> 0 | Some x \<Rightarrow> x) then INTENT_CANDIDATE else INTENT_OPEN),
     pi_applied_invoice := None, pi_applied_payment := None, pi_applied_at := None, pi_applied_by := None\<rparr>"

definition undo :: "uuid \<Rightarrow> uuid \<Rightarrow> uuid \<Rightarrow> payment_intent service" where
  "undo tenant user i =
     bindM (get_intent tenant i) (\<lambda>p.
     thenM (requireM (pi_status p = INTENT_APPLIED) (ConflictError ''Only an applied payment intent can be undone''))
     (bindM (the_or_raise (ConflictError ''Applied intent is missing its applied_at stamp'') (pi_applied_at p)) (\<lambda>at_time.
     bindM (getsM clk) (\<lambda>c.
     thenM (requireM (\<not> instant c > at_time + UNDO_WINDOW) (ConflictError ''The 15-minute undo window has expired''))
     (bindM (the_or_raise (ConflictError ''Applied intent is missing its payment/invoice stamp'') (pi_applied_payment p)) (\<lambda>pid.
     bindM (the_or_raise (ConflictError ''Applied intent is missing its payment/invoice stamp'') (pi_applied_invoice p)) (\<lambda>paid_inv.
     bindM (delete_payment pid tenant) (\<lambda>deleted.
     thenM (requireM deleted (ConflictError ''The accepted payment no longer exists - nothing to undo''))
     (thenM (settle_invoice_payment_status paid_inv tenant)
     (bindM (update_payment_intent (reopened_intent p)) (\<lambda>found.
     bindM (the_or_raise AssertionError found) (\<lambda>updated.
     thenM (audit_by tenant (Some user) ''finance.payment_match.undone'' (target ''payment_intent'' i)
         (Some [(''invoice_id'', PId paid_inv), (''payment_id'', PId pid), (''amount'', PDec (pi_amount p))]))
     (returnM updated)))))))))))))"

definition dismiss :: "uuid \<Rightarrow> uuid \<Rightarrow> uuid \<Rightarrow> payment_intent service" where
  "dismiss tenant user i =
     bindM (get_intent tenant i) (\<lambda>p.
     thenM (requireM (pi_status p \<notin> {INTENT_APPLIED, INTENT_DISMISSED})
         (ConflictError ''Payment intent is already resolved''))
     (bindM (getsM clk) (\<lambda>c.
     bindM (update_payment_intent (p\<lparr>pi_status := INTENT_DISMISSED, pi_dismissed_at := Some (instant c)\<rparr>)) (\<lambda>found.
     bindM (the_or_raise AssertionError found) (\<lambda>updated.
     thenM (audit_by tenant (Some user) ''finance.payment_match.dismissed'' (target ''payment_intent'' i)
         (Some [(''amount'', PDec (pi_amount p))]))
     (returnM updated))))))"

definition prevalidate_item :: "uuid \<Rightarrow> uuid \<times> uuid \<Rightarrow> unit service" where
  "prevalidate_item tenant x = (case x of (i, paid_inv) \<Rightarrow>
     bindM (get_intent tenant i) (\<lambda>p.
     thenM (requireM (pi_status p \<notin> {INTENT_APPLIED, INTENT_DISMISSED})
         (ConflictError ''Payment intent is already resolved''))
     (thenM (preflight_payment tenant paid_inv (pi_amount p)) (returnM ()))))"

definition bulk_accept ::
  "payment_hash \<Rightarrow> uuid \<Rightarrow> uuid \<Rightarrow> (uuid \<times> uuid) list \<Rightarrow> uuid list service" where
  "bulk_accept key tenant user items =
     thenM (forM (prevalidate_item tenant) items)
       (mapM (\<lambda>x. case x of (i, paid_inv) \<Rightarrow>
          thenM (accept key tenant user i paid_inv) (returnM i)) items)"

section \<open>The scorer\<close>

lemma contains_text_iff: "contains_text w t \<longleftrightarrow> (\<exists>a b. t = a @ w @ b)"
proof (induction t)
  case (Cons c cs)
  show ?case
  proof
    assume "contains_text w (c # cs)"
    then consider "take (length w) (c # cs) = w" | "contains_text w cs" by auto
    then show "\<exists>a b. c # cs = a @ w @ b"
    proof cases
      case 1
      then have "c # cs = [] @ w @ drop (length w) (c # cs)" by (metis append_Nil append_take_drop_id)
      then show ?thesis by blast
    next
      case 2
      with Cons.IH obtain a b where "cs = a @ w @ b" by blast
      then have "c # cs = (c # a) @ w @ b" by simp
      then show ?thesis by blast
    qed
  next
    assume "\<exists>a b. c # cs = a @ w @ b"
    then obtain a b where ab: "c # cs = a @ w @ b" by blast
    show "contains_text w (c # cs)"
    proof (cases a)
      case Nil
      with ab have "take (length w) (c # cs) = w" by simp
      then show ?thesis by simp
    next
      case (Cons x xs)
      with ab Cons.IH show ?thesis by auto
    qed
  qed
qed auto

lemma affinity_range: "0 \<le> amount_affinity x y" "amount_affinity x y \<le> 1"
  by (auto simp: amount_affinity_def divide_le_eq_1)

lemma affinity_exact: "0 < x \<Longrightarrow> amount_affinity x x = 1"
  by (simp add: amount_affinity_def)

lemma affinity_less: "x \<noteq> y \<Longrightarrow> amount_affinity x y < 1"
  by (auto simp: amount_affinity_def divide_less_eq_1 min_def max_def)

lemma quantize_1 [simp]: "quantize 4 1 = 1"
  using round_half_even_of_int [of 10000] by (simp add: quantize_def)

lemma quantize_le_1: "x \<le> 1 \<Longrightarrow> quantize 4 x \<le> 1"
  using quantize_mono [of x 1 4] by simp

text \<open>The score is the weighted mean of signals between 0 and 1.\<close>

lemma score_range: "0 \<le> score_match x cu r n ic y" "score_match x cu r n ic y \<le> 1"
proof -
  note a = affinity_range [of x y]
  show "0 \<le> score_match x cu r n ic y"
    by (cases cu; cases r) (use a in \<open>simp_all add: score_match_def Let_def quantize_nonneg split: if_split\<close>)
  show "score_match x cu r n ic y \<le> 1"
    by (cases cu; cases r) (use a in \<open>simp_all add: score_match_def Let_def quantize_le_1 divide_le_eq split: if_split\<close>)
qed

text \<open>A receipt for exactly what is outstanding, from the customer, with the invoice number in its text.\<close>

lemma score_exact:
  assumes "0 < x" "cu = None \<or> cu = Some ic" "\<forall>t. r = Some t \<longrightarrow> t = [] \<or> n = [] \<or> invoice_number_in_reference t n"
  shows "score_match x cu r n ic x = 1"
  using assms by (cases r) (auto simp: score_match_def Let_def affinity_exact)

lemma set_candidates:
  "set (compute_candidates x cu r pairs) =
     {c \<in> candidate_of x cu r ` set pairs. 0 < k_outstanding c \<and> SCORE_CANDIDATE_BAR \<le> k_score c}"
  by (auto simp: compute_candidates_def candidate_of_def split: prod.splits)

text \<open>Two stable sorts rank by the second key, then by the first.\<close>

lemma sort_key_stable: "filter (\<lambda>x. f x = k) (sort_key f xs) = filter (\<lambda>x. f x = k) xs"
  by (rule stable_sort_key_sort_key [unfolded stable_sort_key_def, rule_format])

lemma sorted_two_keys:
  fixes f :: "'a \<Rightarrow> 'b::linorder" and g :: "'a \<Rightarrow> 'c::linorder"
  shows "sorted_wrt (\<lambda>x y. f x < f y \<or> f x = f y \<and> g x \<le> g y) (sort_key f (sort_key g xs))"
proof -
  let ?ys = "sort_key f (sort_key g xs)"
  have "f (?ys ! i) < f (?ys ! j) \<or> f (?ys ! i) = f (?ys ! j) \<and> g (?ys ! i) \<le> g (?ys ! j)"
    if "i < j" "j < length ?ys" for i j
  proof (cases "f (?ys ! i) = f (?ys ! j)")
    case True
    have ij: "?ys = take j ?ys @ ?ys ! j # drop (Suc j) ?ys" "?ys ! i \<in> set (take j ?ys)"
      using that by (simp_all add: id_take_nth_drop [symmetric] in_set_conv_nth) (auto intro: exI [of _ i])
    let ?P = "\<lambda>x. f x = f (?ys ! j)"
    have "sorted (map g (filter ?P (sort_key g xs)))" by (rule sorted_filter) simp
    then have "sorted (map g (filter ?P ?ys))" by (simp only: sort_key_stable)
    then have "sorted (map g (filter ?P (take j ?ys @ ?ys ! j # drop (Suc j) ?ys)))"
      by (simp only: ij(1) [symmetric])
    with ij(2) True have "g (?ys ! i) \<le> g (?ys ! j)" by (auto simp: sorted_append)
    with True show ?thesis by simp
  next
    case False
    have "sorted (map f ?ys)" by simp
    with that have "f (?ys ! i) \<le> f (?ys ! j)" using sorted_nth_mono [of "map f ?ys" i j] by simp
    with False show ?thesis by simp
  qed
  then show ?thesis by (simp add: sorted_wrt_iff_nth_less)
qed

lemma sorted_candidates:
  "sorted_wrt (\<lambda>c c'. k_score c' < k_score c \<or> k_score c = k_score c' \<and> k_outstanding c \<le> k_outstanding c')
     (compute_candidates x cu r pairs)"
proof -
  have "sorted_wrt (\<lambda>c c'. - k_score c < - k_score c' \<or> - k_score c = - k_score c' \<and> k_outstanding c \<le> k_outstanding c')
     (compute_candidates x cu r pairs)"
    unfolding compute_candidates_def by (rule sorted_two_keys)
  then show ?thesis by simp
qed

end
