(* ===== verification/Matching_Ledger.thy ===== *)
theory Matching_Ledger
  imports Payment_Matching
begin

text \<open>
  Undoing an accepted receipt: what deleting a payment and settling its invoice do to the database,
  that both together keep \<open>finance_wf\<close>, and that they restore what accepting the receipt changed.
\<close>

section \<open>Deleting a payment\<close>

definition without_entry :: "uuid \<Rightarrow> uuid \<Rightarrow> db \<Rightarrow> db" where
  "without_entry t i d = d\<lparr>journal_lines := filter (\<lambda>l. \<not> line_of t i l) (journal_lines d),
     entries := filter (\<lambda>f. \<not> entry_key t i f) (entries d)\<rparr>"

definition without_source :: "uuid \<Rightarrow> string \<Rightarrow> string \<Rightarrow> db \<Rightarrow> db" where
  "without_source t source ref d = (case select_one (same_source t source ref) (entries d) of
     None \<Rightarrow> d | Some e \<Rightarrow> without_entry t (je_id e) d)"

definition without_payment :: "uuid \<Rightarrow> uuid \<Rightarrow> db \<Rightarrow> db" where
  "without_payment t i d = without_source t ''payment'' (uuid_text i)
     (d\<lparr>payments := filter (\<lambda>q. \<not> payment_key t i q) (payments d)\<rparr>)"

definition settled_invoice :: "decimal \<Rightarrow> decimal \<Rightarrow> invoice \<Rightarrow> invoice" where
  "settled_invoice applied owed v = v\<lparr>i_status := settled_status applied owed\<rparr>"

definition settled_db :: "uuid \<Rightarrow> uuid \<Rightarrow> db \<Rightarrow> db" where
  "settled_db t i d = (case select_one (invoice_key t i) (invoices d) of
     None \<Rightarrow> d
   | Some v \<Rightarrow> d\<lparr>invoices := update_where (invoice_key t i)
       (settled_invoice (paid_sum t i d) (i_total v)) (invoices d)\<rparr>)"

lemma wp_delete_source:
  "wp (delete_journal_entry_by_source_ref source ref t) Q E s =
     Q () (s\<lparr>work := without_source t source ref (work s)\<rparr>)"
  by (simp add: delete_journal_entry_by_source_ref_def without_source_def without_entry_def wp_simps
      split: option.split)

lemma wp_delete_payment:
  "wp (delete_payment i t) Q E s =
     (case select_one (payment_key t i) (payments (work s)) of
        None \<Rightarrow> Q False s
      | Some p \<Rightarrow> Q True (s\<lparr>work := without_payment t i (work s)\<rparr>))"
  by (simp add: delete_payment_def get_payment_row_def without_payment_def wp_delete_source wp_simps
      split: option.split)

lemma wp_settle_status:
  "wp (settle_invoice_payment_status i t) Q E s =
     (if select_one (invoice_key t i) (invoices (work s)) = None then Q None s
      else Q (invoice_in i t (settled_db t i (work s))) (s\<lparr>work := settled_db t i (work s)\<rparr>))"
  by (cases "select_one (invoice_key t i) (invoices (work s))")
    (simp_all add: settle_invoice_payment_status_def sum_payments_for_invoice_def get_invoice_row_def wp_flow wp_write
      settled_db_def settled_invoice_def [abs_def])

lemma without_entry_frame [simp]:
  "payments (without_entry t i d) = payments d" "invoices (without_entry t i d) = invoices d"
  "invoice_lines (without_entry t i d) = invoice_lines d" "accounts (without_entry t i d) = accounts d"
  "entries (without_entry t i d) = filter (\<lambda>f. \<not> entry_key t i f) (entries d)"
  "intents (without_entry t i d) = intents d"
  by (simp_all add: without_entry_def)

lemma entry_lines_without:
  "(t', k) \<noteq> (t, i) \<Longrightarrow> entry_lines t' k (without_entry t i d) = entry_lines t' k d"
  by (auto simp: without_entry_def entry_lines_def line_of_def intro!: filter_cong)

lemma entry_of_source:
  assumes "books_wf d" "e \<in> set (entries d)" "same_source t src ref e"
    and "f \<in> set (entries d)" "same_source t src ref f"
  shows "f = e"
proof -
  from assms have "same_document f e" by (auto simp: same_source_def same_document_def)
  with assms have "entry_id f = entry_id e" by (auto simp: books_wf_def refs_distinct_def)
  with assms show ?thesis by (auto simp: books_wf_def distinct_map dest: inj_onD)
qed

lemma entry_by_key:
  assumes "books_wf d" "e \<in> set (entries d)" "f \<in> set (entries d)" "entry_key (je_tenant e) (je_id e) f"
  shows "f = e"
  using assms inj_onD [of entry_id "set (entries d)" f e]
  by (simp add: books_wf_def distinct_map entry_key_def entry_id_def)

lemma recorded_without:
  assumes wf: "books_wf d" and e: "e \<in> set (entries d)" "same_source t src ref e"
    and other: "(t', src', uuid_text i) \<noteq> (t, src, ref)" and rec: "recorded d t' src' i x"
  shows "recorded (without_entry t (je_id e) d) t' src' i x"
proof -
  from rec obtain f where f: "f \<in> set (entries d)" "same_source t' src' (uuid_text i) f" "booked (je_status f)"
    "debit_total (entry_lines t' (je_id f) d) = x"
    by (auto simp: recorded_def)
  have "f \<noteq> e" using f(2) e(2) other by (auto simp: same_source_def)
  then have key: "\<not> entry_key t (je_id e) f"
    using entry_by_key [OF wf e(1) f(1)] e(2) by (auto simp: same_source_def)
  then have "entry_lines t' (je_id f) (without_entry t (je_id e) d) = entry_lines t' (je_id f) d"
    using f(2) by (intro entry_lines_without) (auto simp: entry_key_def same_source_def)
  with f key show ?thesis by (auto simp: recorded_def)
qed

lemma paid_sum_without:
  assumes "distinct (map payment_id (payments d))" "p \<in> set (payments d)" "payment_key t i p"
  shows "paid_sum t v d = sum_list (map pay_amount (filter (paid_on t v)
      (filter (\<lambda>q. \<not> payment_key t i q) (payments d)))) + (if pay_invoice p = v then pay_amount p else 0)"
  using assms unfolding paid_sum_def
proof (induction "payments d" arbitrary: d)
  case (Cons q ps)
  have step: "distinct (map payment_id ps)" "payments d = q # ps" using Cons.hyps(2) Cons.prems(1)
    by (simp_all add: Cons.hyps(2) [symmetric])
  show ?case
  proof (cases "p = q")
    case True
    have "\<not> payment_key t i r" if "r \<in> set ps" for r
      using that Cons.prems(1,3) True by (auto simp: step(2) payment_key_def payment_id_def image_iff)
    then have "filter (\<lambda>q. \<not> payment_key t i q) ps = ps" by simp
    with True Cons.prems(3) show ?thesis
      by (simp add: step(2) payment_key_def paid_on_def)
  next
    case False
    then have "p \<in> set ps" using Cons.prems(2) by (simp add: step(2))
    moreover from this have "\<not> payment_key t i q"
      using Cons.prems(1,3) by (auto simp: step(2) payment_key_def payment_id_def image_iff)
    ultimately show ?thesis
      using Cons.hyps(1) [of "d\<lparr>payments := ps\<rparr>"] step Cons.prems(3) by simp
  qed
qed simp

section \<open>Undoing keeps the books\<close>

text \<open>The state an undo leaves, for a payment \<open>p\<close> with its entry \<open>e\<close> and its invoice \<open>v\<close>.\<close>

definition undone_db :: "payment \<Rightarrow> db \<Rightarrow> db" where
  "undone_db p d = settled_db (pay_tenant p) (pay_invoice p) (without_payment (pay_tenant p) (pay_id p) d)"

lemma finance_undone:
  assumes wf: "finance_wf d" and p: "p \<in> set (payments d)"
  shows "finance_wf (undone_db p d)"
proof -
  note parts = finance_wfD [OF wf]
  let ?t = "pay_tenant p" and ?i = "pay_invoice p" and ?ref = "uuid_text (pay_id p)"
  let ?ps = "filter (\<lambda>q. \<not> payment_key ?t (pay_id p) q) (payments d)"
  from parts(5) p obtain e where e: "e \<in> set (entries d)" "same_source ?t ''payment'' ?ref e"
    by (force simp: receipts_wf_def recorded_def)
  have "select_one (same_source ?t ''payment'' ?ref) (entries d) = Some e"
    by (rule select_one_unique) (use e in \<open>simp_all add: entry_of_source [OF parts(1) e]\<close>)
  then have w: "without_payment ?t (pay_id p) d = without_entry ?t (je_id e) (d\<lparr>payments := ?ps\<rparr>)"
    by (simp add: without_payment_def without_source_def)
  from parts(3) p obtain v where v: "v \<in> set (invoices d)" "invoice_key ?t ?i v" "receivable (i_status v)"
    by (auto simp: payments_wf_def)
  have sel: "select_one (invoice_key ?t ?i) (invoices d) = Some v"
    by (rule select_one_unique) (use v in \<open>simp_all add: invoice_unique [OF parts(2) v(1) _ v(2)]\<close>)
  let ?w = "without_entry ?t (je_id e) (d\<lparr>payments := ?ps\<rparr>)"
  let ?f = "settled_invoice (paid_sum ?t ?i ?w) (i_total v)"
  let ?vs = "update_where (invoice_key ?t ?i) ?f (invoices d)"
  have db: "undone_db p d = ?w\<lparr>invoices := ?vs\<rparr>"
    by (simp add: undone_db_def w settled_db_def sel)
  have stamp: "invoice_stamp (?f u) = invoice_stamp u" for u by (simp add: invoice_stamp_eq settled_invoice_def)
  note key = stamp [unfolded invoice_stamp_eq]
  have st: "i_status (?f u) = settled_status (paid_sum ?t ?i ?w) (i_total v)" for u
    by (simp add: settled_invoice_def)
  have rec_st: "receivable (i_status (?f u))" for u
    by (simp only: st settled_status_def receivable_simps split: if_split) simp
  have books: "books_wf ?w"
    using books_delete [OF parts(1), of ?t "je_id e"] books_wf_cong [of ?w "without_entry ?t (je_id e) d"]
    by (simp add: without_entry_def)
  have only: "u = v" if "u \<in> set (invoices d)" "invoice_key ?t ?i u" for u
    using parts(2) v(1) that(1) v(2) that(2) by (rule invoice_unique)
  have dist: "distinct (map payment_id (payments d))" using parts(3) by (simp add: payments_wf_def)
  have sums: "paid_sum t' i' d = paid_sum t' i' ?w + (if t' = ?t \<and> i' = ?i then pay_amount p else 0)" for t' i'
  proof (cases "t' = ?t")
    case True
    then show ?thesis
      using paid_sum_without [OF dist p, of ?t "pay_id p" i'] by (simp add: payment_key_def paid_sum_def)
  next
    case False
    then have "filter (paid_on t' i') ?ps = filter (paid_on t' i') (payments d)"
      by (auto simp: filter_filter paid_on_def payment_key_def intro!: filter_cong)
    with False show ?thesis by (simp add: paid_sum_def)
  qed
  have pos: "0 < pay_amount p" using parts(3) p by (simp add: payments_wf_def)
  have payw: "payments_wf (?w\<lparr>invoices := ?vs\<rparr>)"
    unfolding payments_wf_def
  proof (intro conjI ballI)
    fix q
    assume "q \<in> set (payments (?w\<lparr>invoices := ?vs\<rparr>))"
    then have q: "q \<in> set (payments d)" by simp
    with parts(3) show "0 < pay_amount q" "at_scale 4 (pay_amount q)" by (simp_all add: payments_wf_def)
    from parts(3) q obtain u where u: "u \<in> set (invoices d)" "invoice_key (pay_tenant q) (pay_invoice q) u"
      "receivable (i_status u)" by (auto simp: payments_wf_def)
    let ?u = "if invoice_key ?t ?i u then ?f u else u"
    have "?u \<in> set ?vs" using u(1) by (auto simp: set_update_where)
    moreover have "invoice_key (pay_tenant q) (pay_invoice q) ?u \<and> receivable (i_status ?u)"
      using u(2,3) rec_st by (simp add: invoice_key_def key)
    ultimately show "\<exists>v \<in> set (invoices (?w\<lparr>invoices := ?vs\<rparr>)).
        invoice_key (pay_tenant q) (pay_invoice q) v \<and> receivable (i_status v)"
      by (intro bexI [of _ ?u]) simp_all
  next
    fix u'
    assume "u' \<in> set (invoices (?w\<lparr>invoices := ?vs\<rparr>))"
    then obtain u where u: "u \<in> set (invoices d)" "u' = (if invoice_key ?t ?i u then ?f u else u)"
      by (auto simp: set_update_where)
    have "paid_sum x y (?w\<lparr>invoices := ?vs\<rparr>) = paid_sum x y ?w" for x y by (simp add: paid_sum_def)
    moreover have "within_total d u" using parts(3) u(1) by (simp add: payments_wf_def)
    ultimately show "within_total (?w\<lparr>invoices := ?vs\<rparr>) u'"
      using sums [of "i_tenant u" "i_id u"] pos only [OF u(1)] v(2) u(2)
      by (cases "invoice_key ?t ?i u")
        (auto simp: within_total_def key st settled_status_def invoice_key_def split: if_splits)
  qed (use dist in \<open>simp add: distinct_map_filter\<close>)
  have rec: "recorded (?w\<lparr>invoices := ?vs\<rparr>) t' src' i x"
    if "recorded d t' src' i x" "(t', src', uuid_text i) \<noteq> (?t, ''payment'', ?ref)" for t' src' i x
  proof -
    have "recorded (without_entry ?t (je_id e) d) t' src' i x" by (rule recorded_without [OF parts(1) e that(2,1)])
    then show ?thesis by (simp add: recorded_def without_entry_def entry_lines_def)
  qed
  have "accruals_wf (?w\<lparr>invoices := ?vs\<rparr>)"
    unfolding accruals_wf_def
  proof (intro conjI ballI impI)
    fix u'
    assume "u' \<in> set (invoices (?w\<lparr>invoices := ?vs\<rparr>))" "receivable (i_status u')"
    then obtain u where u: "u \<in> set (invoices d)" "i_tenant u' = i_tenant u \<and> i_id u' = i_id u \<and> i_total u' = i_total u"
      "receivable (i_status u)"
      using only v(3) key by (auto simp: set_update_where split: if_splits)
    with parts(4) rec show "recorded (?w\<lparr>invoices := ?vs\<rparr>) (i_tenant u') ''invoice'' (i_id u') (i_total u')"
      by (simp add: accruals_wf_def)
  next
    fix f
    assume "f \<in> set (entries (?w\<lparr>invoices := ?vs\<rparr>))" "je_source f = ''invoice''"
    with parts(4) obtain u where u: "u \<in> set (invoices d)" "same_source (i_tenant u) ''invoice'' (uuid_text (i_id u)) f"
      "receivable (i_status u)" by (auto simp: accruals_wf_def)
    let ?u = "if invoice_key ?t ?i u then ?f u else u"
    have "?u \<in> set ?vs" using u(1) by (auto simp: set_update_where)
    moreover have "same_source (i_tenant ?u) ''invoice'' (uuid_text (i_id ?u)) f \<and> receivable (i_status ?u)"
      using u(2,3) rec_st by (simp add: key)
    ultimately show "\<exists>u \<in> set (invoices (?w\<lparr>invoices := ?vs\<rparr>)).
        same_source (i_tenant u) ''invoice'' (uuid_text (i_id u)) f \<and> receivable (i_status u)"
      by (intro bexI [of _ ?u]) simp_all
  qed
  moreover have "receipts_wf (?w\<lparr>invoices := ?vs\<rparr>)"
    unfolding receipts_wf_def
  proof (intro conjI ballI impI)
    fix q
    assume "q \<in> set (payments (?w\<lparr>invoices := ?vs\<rparr>))"
    then show "recorded (?w\<lparr>invoices := ?vs\<rparr>) (pay_tenant q) ''payment'' (pay_id q) (pay_amount q)"
      using parts(5) by (intro rec) (auto simp: receipts_wf_def payment_key_def)
  next
    fix f
    assume f: "f \<in> set (entries (?w\<lparr>invoices := ?vs\<rparr>))" "je_source f = ''payment''"
    with parts(5) obtain q where q: "q \<in> set (payments d)" "same_source (pay_tenant q) ''payment'' (uuid_text (pay_id q)) f"
      by (auto simp: receipts_wf_def)
    have "\<not> payment_key ?t (pay_id p) q"
    proof
      assume "payment_key ?t (pay_id p) q"
      then have "f = e" using q f(1) by (intro entry_of_source [OF parts(1) e]) (simp_all add: payment_key_def)
      with f(1) e(2) show False by (simp add: entry_key_def same_source_def)
    qed
    with q show "\<exists>q \<in> set (payments (?w\<lparr>invoices := ?vs\<rparr>)).
        same_source (pay_tenant q) ''payment'' (uuid_text (pay_id q)) f" by auto
  qed
  moreover have "books_wf (?w\<lparr>invoices := ?vs\<rparr>)" using books by (simp add: books_unaffected)
  moreover have "invoices_wf (?w\<lparr>invoices := ?vs\<rparr>)"
    using invoices_wf_update [OF parts(2) stamp, of "invoice_key ?t ?i"]
    by (simp add: invoices_wf_def lines_in_def)
  ultimately show ?thesis unfolding db finance_wf_def using payw by blast
qed

section \<open>The operations on receipts\<close>

definition restamp_intents :: "payment_intent \<Rightarrow> db \<Rightarrow> db" where
  "restamp_intents p d = d\<lparr>intents :=
     update_where (intent_key (pi_tenant p) (pi_id p)) (restamped p) (intents d)\<rparr>"

lemma wp_update_payment_intent:
  "wp (update_payment_intent p) Q E s =
     (case select_one (intent_key (pi_tenant p) (pi_id p)) (intents (work s)) of
        None \<Rightarrow> Q None s
      | Some row \<Rightarrow> Q (Some (restamped p row)) (s\<lparr>work := restamp_intents p (work s)\<rparr>))"
  by (simp add: update_payment_intent_def get_payment_intent_def restamp_intents_def wp_simps split: option.split)

lemma wp_get_intent:
  "wp (get_intent t i) Q E s =
     (case select_one (intent_key t i) (intents (work s)) of
        None \<Rightarrow> E (NotFoundError ''Payment intent'') s | Some p \<Rightarrow> Q p s)"
  by (simp add: get_intent_def get_payment_intent_def wp_simps split: option.split)

lemma intent_selected:
  assumes "select_one (intent_key t i) (intents d) = Some p"
  shows "pi_tenant p = t" "pi_id p = i" "p \<in> set (intents d)"
  using select_one_SomeD [OF assms] by (simp_all add: intent_key_def)

definition undo_refusal :: "sess \<Rightarrow> uuid \<Rightarrow> uuid \<Rightarrow> error option" where
  "undo_refusal s t i =
     (case select_one (intent_key t i) (intents (work s)) of
        None \<Rightarrow> Some (NotFoundError ''Payment intent'')
      | Some p \<Rightarrow>
          if pi_status p \<noteq> INTENT_APPLIED then Some (ConflictError ''Only an applied payment intent can be undone'')
          else (case pi_applied_at p of
              None \<Rightarrow> Some (ConflictError ''Applied intent is missing its applied_at stamp'')
            | Some a \<Rightarrow>
                if instant (clk s) > a + UNDO_WINDOW then Some (ConflictError ''The 15-minute undo window has expired'')
                else (case (pi_applied_payment p, pi_applied_invoice p) of
                    (Some pid, Some v) \<Rightarrow>
                      if select_one (payment_key t pid) (payments (work s)) = None
                      then Some (ConflictError ''The accepted payment no longer exists - nothing to undo'')
                      else None
                  | _ \<Rightarrow> Some (ConflictError ''Applied intent is missing its payment/invoice stamp''))))"

definition undo_db :: "uuid \<Rightarrow> payment_intent \<Rightarrow> uuid \<Rightarrow> uuid \<Rightarrow> db \<Rightarrow> db" where
  "undo_db t p pid v d = restamp_intents (reopened_intent p) (settled_db t v (without_payment t pid d))"

lemma undo_frame [simp]:
  "intents (settled_db t v d) = intents d" "intents (without_payment t pid d) = intents d"
  "audit_logs (restamp_intents q d) = audit_logs d" "audit_logs (settled_db t v d) = audit_logs d"
  "audit_logs (without_payment t pid d) = audit_logs d"
  by (simp_all add: settled_db_def without_payment_def without_source_def without_entry_def restamp_intents_def
      split: option.split)

lemma reopened_simps [simp]:
  "pi_id (reopened_intent p) = pi_id p" "pi_tenant (reopened_intent p) = pi_tenant p"
  by (simp_all add: reopened_intent_def)

lemma wp_undo:
  assumes ok: "\<And>p pid v a. undo_refusal s t i = None \<Longrightarrow>
      select_one (intent_key t i) (intents (work s)) = Some p \<Longrightarrow>
      pi_applied_payment p = Some pid \<Longrightarrow> pi_applied_invoice p = Some v \<Longrightarrow>
      Q (restamped (reopened_intent p) p)
        (s\<lparr>work := (undo_db t p pid v (work s))\<lparr>audit_logs := audit_logs (work s) @ [a]\<rparr>\<rparr>)"
    and err: "\<And>x. undo_refusal s t i = Some x \<Longrightarrow> E x s"
  shows "wp (undo t user i) Q E s"
proof (cases "undo_refusal s t i")
  case (Some x)
  from err [OF this] Some show ?thesis
    by (auto simp: undo_def wp_flow wp_get_intent undo_refusal_def wp_delete_payment Let_def
        split: option.splits if_splits)
next
  case None
  then obtain p pid v q where p: "select_one (intent_key t i) (intents (work s)) = Some p"
    "pi_applied_payment p = Some pid" "pi_applied_invoice p = Some v"
    and q: "select_one (payment_key t pid) (payments (work s)) = Some q"
    by (auto simp: undo_refusal_def split: option.splits if_splits)
  have settle: "wp (settle_invoice_payment_status v t) (\<lambda>_ u. K u) E u = K (u\<lparr>work := settled_db t v (work u)\<rparr>)" for K u
    by (simp add: wp_settle_status settled_db_def)
  show ?thesis
    using None p q intent_selected [OF p(1)] ok [OF None p]
    by (auto simp: undo_def wp_flow wp_get_intent undo_refusal_def wp_delete_payment settle wp_update_payment_intent
        wp_audit_by undo_db_def split: option.splits if_splits)
qed

lemma finance_restamp: "finance_wf (restamp_intents q d) = finance_wf d"
  by (simp add: restamp_intents_def finance_unaffected)

lemma finance_update_intent: "keeps finance_wf (update_payment_intent q)"
  unfolding update_payment_intent_def get_payment_intent_def
  by (intro keeps_intros keeps_write) (simp add: finance_unaffected)

lemma finance_register: "keeps finance_wf (register t user body)"
  unfolding register_def score_for_def outstanding_invoices_def create_payment_intent_def Let_def
  by (intro keeps_intros keeps_flush_unique keeps_write finance_shared) (simp add: finance_unaffected)

lemma finance_accept: "keeps finance_wf (accept key t user i v)"
  unfolding accept_def get_intent_def get_payment_intent_def
  by (intro keeps_intros finance_apply_payment finance_update_intent finance_shared)

lemma finance_dismiss: "keeps finance_wf (dismiss t user i)"
  unfolding dismiss_def get_intent_def get_payment_intent_def
  by (intro keeps_intros finance_update_intent finance_shared)

lemma finance_bulk_accept: "keeps finance_wf (bulk_accept key t user items)"
  unfolding bulk_accept_def prevalidate_item_def get_intent_def get_payment_intent_def preflight_payment_def
    get_invoice_for_update_def sum_payments_for_invoice_def Let_def
  by (intro keeps_intros finance_accept)

text \<open>An applied receipt whose payment still exists was applied to that payment's invoice.\<close>

definition receipt_sound :: "db \<Rightarrow> payment_intent \<Rightarrow> bool" where
  "receipt_sound d q \<longleftrightarrow> (\<forall>pid v. pi_applied_payment q = Some pid \<and> pi_applied_invoice q = Some v \<longrightarrow>
     (\<forall>p \<in> set (payments d). payment_key (pi_tenant q) pid p \<longrightarrow> pay_invoice p = v))"

definition receipts_sound :: "db \<Rightarrow> bool" where
  "receipts_sound d \<longleftrightarrow> (\<forall>q \<in> set (intents d). receipt_sound d q)"

lemma finance_undo:
  assumes wf: "finance_wf (work s)" and sound: "receipts_sound (work s)"
  shows "wp (undo t user i) (\<lambda>_ u. finance_wf (work u)) (\<lambda>_ u. u = s) s"
proof (rule wp_undo)
  fix p pid v a
  assume none: "undo_refusal s t i = None" and p: "select_one (intent_key t i) (intents (work s)) = Some p"
    and st: "pi_applied_payment p = Some pid" "pi_applied_invoice p = Some v"
  from none p st obtain q where q: "select_one (payment_key t pid) (payments (work s)) = Some q"
    by (auto simp: undo_refusal_def split: option.splits if_splits)
  then have key: "q \<in> set (payments (work s))" "pay_tenant q = t" "pay_id q = pid"
    by (auto simp: payment_key_def dest: select_one_SomeD)
  with sound intent_selected [OF p] st have "pay_invoice q = v"
    by (simp add: receipts_sound_def receipt_sound_def payment_key_def)
  with finance_undone [OF wf key(1)] key
  show "finance_wf (work (s\<lparr>work := (undo_db t p pid v (work s))\<lparr>audit_logs := audit_logs (work s) @ [a]\<rparr>\<rparr>))"
    by (simp add: undo_db_def undone_db_def finance_restamp finance_unaffected)
qed simp

section \<open>The life of a receipt\<close>

definition applied_fields :: "payment_intent \<Rightarrow> bool" where
  "applied_fields q \<longleftrightarrow> pi_applied_invoice q \<noteq> None \<and> pi_applied_payment q \<noteq> None \<and>
     pi_applied_at q \<noteq> None \<and> pi_applied_by q \<noteq> None"

definition no_applied_fields :: "payment_intent \<Rightarrow> bool" where
  "no_applied_fields q \<longleftrightarrow> pi_applied_invoice q = None \<and> pi_applied_payment q = None \<and>
     pi_applied_at q = None \<and> pi_applied_by q = None"

definition score_bar_met :: "payment_intent \<Rightarrow> bool" where
  "score_bar_met q \<longleftrightarrow> SCORE_CANDIDATE_BAR \<le> (case pi_score q of None \<Rightarrow> 0 | Some x \<Rightarrow> x)"

definition intent_wf :: "payment_intent \<Rightarrow> bool" where
  "intent_wf q \<longleftrightarrow> (case pi_status q of
     INTENT_OPEN \<Rightarrow> no_applied_fields q \<and> pi_dismissed_at q = None \<and> \<not> score_bar_met q
   | INTENT_CANDIDATE \<Rightarrow> no_applied_fields q \<and> pi_dismissed_at q = None \<and> score_bar_met q
   | INTENT_APPLIED \<Rightarrow> applied_fields q \<and> pi_dismissed_at q = None
   | INTENT_DISMISSED \<Rightarrow> no_applied_fields q \<and> pi_dismissed_at q \<noteq> None)"

definition intent_id :: "payment_intent \<Rightarrow> uuid \<times> uuid" where
  "intent_id q = (pi_tenant q, pi_id q)"

definition intents_wf :: "db \<Rightarrow> bool" where
  "intents_wf d \<longleftrightarrow> distinct (map intent_id (intents d)) \<and> (\<forall>q \<in> set (intents d). intent_wf q)"

lemma intents_wf_cong: "intents d = intents d' \<Longrightarrow> intents_wf d = intents_wf d'"
  by (simp add: intents_wf_def)

interpretation inbox: table_invariant intents_wf
  by unfold_locales (simp_all add: intents_wf_def)

lemma intents_wf_restamp:
  assumes "intents_wf d" "\<And>row. row \<in> set (intents d) \<Longrightarrow> intent_key (pi_tenant p) (pi_id p) row \<Longrightarrow> intent_wf (restamped p row)"
  shows "intents_wf (restamp_intents p d)"
proof -
  have "map intent_id (update_where g (restamped p) rows) = map intent_id rows" for g rows
    by (rule map_update_where) (simp add: intent_id_def restamped_def)
  with assms show ?thesis by (simp add: intents_wf_def restamp_intents_def ball_update_where)
qed

lemma intent_unique:
  assumes "intents_wf d" "select_one (intent_key t i) (intents d) = Some p" "q \<in> set (intents d)" "intent_key t i q"
  shows "q = p"
  using assms select_one_SomeD [OF assms(2)] inj_onD [of intent_id "set (intents d)" q p]
  by (simp add: intents_wf_def distinct_map intent_key_def intent_id_def)

lemma inbox_get_intent:
  assumes "\<And>p. intent_wf p \<Longrightarrow> keeps intents_wf (f p)"
  shows "keeps intents_wf (bindM (get_intent t i) f)"
proof (rule keepsI)
  fix s :: sess
  assume wf: "intents_wf (work s)" "intents_wf (durable s)"
  have "intent_wf p" if "select_one (intent_key t i) (intents (work s)) = Some p" for p
    using wf(1) intent_selected(3) [OF that] by (simp add: intents_wf_def)
  then show "wp (bindM (get_intent t i) f) (\<lambda>_ u. intents_wf (work u) \<and> intents_wf (durable u))
      (\<lambda>_ u. intents_wf (durable u)) s"
    using wf assms by (auto simp: wp_bind wp_get_intent keepsD split: option.split)
qed

lemma inbox_update_intent:
  assumes "\<And>row. intent_wf row \<Longrightarrow> intent_wf (restamped p row)"
  shows "keeps intents_wf (update_payment_intent p)"
  unfolding update_payment_intent_def get_payment_intent_def restamp_intents_def [symmetric]
  by (intro keeps_intros keeps_write intents_wf_restamp) (simp_all add: assms intents_wf_def)

lemmas inbox_shared = inbox.audit_by_keeps inbox.timeline_keeps inbox.next_value_keeps

lemma inbox_entry: "keeps intents_wf (create_journal_entry x)"
  unfolding create_journal_entry_def Let_def
  by (intro keeps_intros keeps_flush_unique keeps_write; simp add: intents_wf_def split: prod.split)+

lemma inbox_apply_payment: "keeps intents_wf (apply_payment key t user i received txt method paid_at)"
  unfolding apply_payment_def book_payment_def preflight_payment_def active_account_def create_payment_def
    get_payment_by_source_ref_def next_payment_number_def mark_invoice_paid_def flip_invoice_def
    get_invoice_for_update_def sum_payments_for_invoice_def finance_read_defs Let_def
  by (intro keeps_intros keeps_flush_unique keeps_write inbox_shared inbox_entry; simp add: intents_wf_def)+

lemma inbox_accept: "keeps intents_wf (accept key t user i v)"
  unfolding accept_def
  by (intro inbox_get_intent keeps_intros inbox_apply_payment inbox_update_intent inbox_shared)
    (simp add: intent_wf_def restamped_def applied_intent_def applied_fields_def)

lemma keeps_guard: "(b \<Longrightarrow> keeps P k) \<Longrightarrow> keeps P (thenM (requireM b e) k)"
  by (cases b) (simp_all add: keeps_def wp_then wp_require)

lemma inbox_dismiss: "keeps intents_wf (dismiss t user i)"
  unfolding dismiss_def
  by (intro inbox_get_intent keeps_guard keeps_intros inbox_update_intent inbox_shared)
    (auto simp: intent_wf_def restamped_def no_applied_fields_def split: intent_status.splits)

lemma inbox_bulk_accept: "keeps intents_wf (bulk_accept key t user items)"
  unfolding bulk_accept_def prevalidate_item_def get_intent_def get_payment_intent_def preflight_payment_def
    get_invoice_for_update_def sum_payments_for_invoice_def Let_def
  by (intro keeps_intros inbox_accept)

lemma best_candidates:
  assumes "compute_candidates x cu r pairs = c # cs"
  shows "SCORE_CANDIDATE_BAR \<le> k_score c" "numeric 4 (k_score c) = k_score c"
proof -
  have "c \<in> set (compute_candidates x cu r pairs)" using assms by simp
  then show "SCORE_CANDIDATE_BAR \<le> k_score c" "numeric 4 (k_score c) = k_score c"
    by (auto simp: set_candidates candidate_of_def score_match_def Let_def split: prod.splits option.splits if_splits)
qed

lemma inbox_undo: "keeps intents_wf (undo t user i)"
proof (rule keepsI, rule wp_undo)
  fix s :: sess and p pid v a
  assume wf: "intents_wf (work s)" "intents_wf (durable s)"
    and p: "select_one (intent_key t i) (intents (work s)) = Some p"
    and none: "undo_refusal s t i = None"
  let ?d = "settled_db t v (without_payment t pid (work s))"
  have "pi_status p = INTENT_APPLIED" using none p by (simp add: undo_refusal_def split: if_splits)
  then have "pi_dismissed_at p = None" using wf(1) intent_selected(3) [OF p] by (auto simp: intents_wf_def intent_wf_def)
  then have row: "intent_wf (restamped (reopened_intent p) p)"
    by (simp add: intent_wf_def restamped_def reopened_intent_def no_applied_fields_def score_bar_met_def)
  have "intents_wf (restamp_intents (reopened_intent p) ?d)"
  proof (rule intents_wf_restamp)
    show "intents_wf ?d" using wf(1) by (simp add: intents_wf_def)
  next
    fix q
    assume "q \<in> set (intents ?d)" "intent_key (pi_tenant (reopened_intent p)) (pi_id (reopened_intent p)) q"
    then have "q = p" using intent_selected [OF p] by (intro intent_unique [OF wf(1) p]) simp_all
    then show "intent_wf (restamped (reopened_intent p) q)" using row by simp
  qed
  with wf(2) show "intents_wf (work (s\<lparr>work := (undo_db t p pid v (work s))\<lparr>audit_logs := audit_logs (work s) @ [a]\<rparr>\<rparr>)) \<and>
      intents_wf (durable (s\<lparr>work := (undo_db t p pid v (work s))\<lparr>audit_logs := audit_logs (work s) @ [a]\<rparr>\<rparr>))"
    by (simp add: undo_db_def intents_wf_def)
qed

lemma new_intent_wf:
  assumes "best = compute_candidates x cu r pairs"
  shows "intent_wf (stored_intent i now (new_intent t user body best))"
proof (cases best)
  case Nil
  then show ?thesis
    by (simp add: intent_wf_def stored_intent_def new_intent_def no_applied_fields_def score_bar_met_def
        SCORE_CANDIDATE_BAR_def)
next
  case (Cons c cs)
  then show ?thesis
    using best_candidates [OF assms [symmetric, unfolded Cons]]
    by (simp add: intent_wf_def stored_intent_def new_intent_def no_applied_fields_def score_bar_met_def)
qed

lemma inbox_create_intent:
  assumes "\<And>i now. intent_wf (stored_intent i now p)"
  shows "keeps intents_wf (create_payment_intent p)"
proof (rule keepsI)
  fix s :: sess
  assume wf: "intents_wf (work s)" "intents_wf (durable s)"
  have "intents_wf ((work s)\<lparr>intents := intents (work s) @ [stored_intent i now p]\<rparr>)"
    if "\<forall>q \<in> set (intents (work s)). \<not> intent_key (pi_tenant p) i q" for i now
    using wf(1) assms that by (auto simp: intents_wf_def intent_id_def intent_key_def stored_intent_def)
  with wf show "wp (create_payment_intent p) (\<lambda>_ u. intents_wf (work u) \<and> intents_wf (durable u))
      (\<lambda>_ u. intents_wf (durable u)) s"
    by (auto simp: create_payment_intent_def wp_simps wp_flush_unique Let_def first_violation_None
        intent_constraints_def stored_intent_def split: option.split)
qed

lemma inbox_register: "keeps intents_wf (register t user body)"
proof -
  have "yields (\<lambda>best. \<exists>pairs. best = compute_candidates (rb_amount body) (rb_customer body) (rb_reference body) pairs)
      (score_for t (rb_amount body) (rb_customer body) (rb_reference body))"
    unfolding score_for_def by (intro yields_intros) blast
  then show ?thesis
    unfolding register_def
    by (rule keeps_bind_yields [rotated])
      (auto simp: score_for_def outstanding_invoices_def
        intro!: keeps_intros inbox_shared inbox_create_intent new_intent_wf)
qed

section \<open>Accepting and undoing\<close>

text \<open>The tables that money and receipts live in.\<close>

definition ledger_tables ::
  "db \<Rightarrow> payment list \<times> journal_entry list \<times> journal_line list \<times> invoice list \<times> invoice_line list \<times>
    payment_intent list \<times> account list" where
  "ledger_tables d = (payments d, entries d, journal_lines d, invoices d, invoice_lines d, intents d, accounts d)"

lemma update_where_same: "(\<And>r. r \<in> set rows \<Longrightarrow> g r \<Longrightarrow> f r = r) \<Longrightarrow> update_where g f rows = rows"
  by (induction rows) auto

lemma update_where_twice:
  "(\<And>r. r \<in> set rows \<Longrightarrow> (if g (if h r then k r else r) then f (if h r then k r else r) else (if h r then k r else r)) = r) \<Longrightarrow>
     update_where g f (update_where h k rows) = rows"
  by (induction rows) (simp_all add: Let_def)

text \<open>Removing the entry that was added last.\<close>

lemma without_new_entry:
  assumes wf: "books_wf d" and fresh: "\<forall>f \<in> set (entries d). \<not> entry_key (je_tenant e) (je_id e) f"
    and rows: "\<forall>l \<in> set ls. jl_tenant l = je_tenant e \<and> jl_entry l = je_id e"
  shows "without_entry (je_tenant e) (je_id e) (with_entry e ls d) = d"
proof -
  have "\<not> line_of (je_tenant e) (je_id e) l" if "l \<in> set (journal_lines d)" for l
    using wf that fresh by (fastforce simp: books_wf_def line_placed_def line_of_def)
  then have "filter (\<lambda>l. \<not> line_of (je_tenant e) (je_id e) l) (journal_lines d) = journal_lines d" by simp
  moreover have "filter (\<lambda>l. \<not> line_of (je_tenant e) (je_id e) l) ls = []"
    using rows by (simp add: filter_empty_conv line_of_def)
  moreover have "filter (\<lambda>f. \<not> entry_key (je_tenant e) (je_id e) f) (entries d) = entries d"
    using fresh by (simp add: filter_id_conv)
  ultimately show ?thesis by (simp add: without_entry_def with_entry_def entry_key_def)
qed

lemma without_new_payment:
  assumes books: "books_wf d"
    and fresh: "\<forall>f \<in> set (entries d). \<not> entry_key (je_tenant e) (je_id e) f"
      "\<forall>f \<in> set (entries d). \<not> same_source (pay_tenant p) ''payment'' (uuid_text (pay_id p)) f"
      "\<forall>q \<in> set (payments d). \<not> payment_key (pay_tenant p) (pay_id p) q"
    and rows: "\<forall>l \<in> set ls. jl_tenant l = je_tenant e \<and> jl_entry l = je_id e"
    and src: "same_source (pay_tenant p) ''payment'' (uuid_text (pay_id p)) e"
  shows "without_payment (pay_tenant p) (pay_id p) (with_entry e ls (d\<lparr>payments := payments d @ [p], invoices := vs\<rparr>)) =
    d\<lparr>invoices := vs\<rparr>"
proof -
  let ?d = "d\<lparr>invoices := vs\<rparr>"
  have books': "books_wf ?d" using books by (simp add: books_unaffected)
  have tenant: "pay_tenant p = je_tenant e" using src by (simp add: same_source_def)
  have "select_one (same_source (pay_tenant p) ''payment'' (uuid_text (pay_id p))) (entries d @ [e]) = Some e"
    using fresh(2) src by (simp add: table_simps select_one_None [symmetric])
  moreover have "filter (\<lambda>q. \<not> payment_key (pay_tenant p) (pay_id p) q) (payments d @ [p]) = payments d"
    using fresh(3) by (simp add: filter_id_conv payment_key_def)
  moreover have "(with_entry e ls (d\<lparr>payments := payments d @ [p], invoices := vs\<rparr>))\<lparr>payments := payments d\<rparr> = with_entry e ls ?d"
    by (simp add: with_entry_def)
  ultimately have "without_payment (pay_tenant p) (pay_id p) (with_entry e ls (d\<lparr>payments := payments d @ [p], invoices := vs\<rparr>)) =
      without_entry (je_tenant e) (je_id e) (with_entry e ls ?d)"
    by (simp add: without_payment_def without_source_def tenant)
  also have "\<dots> = ?d" by (rule without_new_entry [OF books' _ rows]) (use fresh(1) in simp)
  finally show ?thesis .
qed

text \<open>Settling an approved invoice that is not paid off undoes a settlement.\<close>

lemma settled_back:
  assumes inv: "invoices_wf d" and v: "select_one (invoice_key t i) (invoices d) = Some v" "i_status v = INVOICE_APPROVED"
    and open_balance: "paid_sum t i d < i_total v"
  shows "settled_db t i (d\<lparr>invoices := update_where (settles t i full) paid_invoice (invoices d)\<rparr>) = d"
proof -
  let ?d = "d\<lparr>invoices := update_where (settles t i full) paid_invoice (invoices d)\<rparr>"
  let ?v = "if settles t i full v then paid_invoice v else v"
  have sel: "select_one (invoice_key t i) (invoices ?d) = Some ?v"
    using select_one_update_where [of "settles t i full" "invoice_key t i" paid_invoice "invoices d"] v(1)
    by (simp add: settles_def paid_invoice_def invoice_key_def)
  have only: "r = v" if "r \<in> set (invoices d)" "invoice_key t i r" for r
    using select_one_SomeD [OF v(1)] that by (intro invoice_unique [OF inv]) auto
  have "update_where (invoice_key t i) (settled_invoice (paid_sum t i d) (i_total v))
      (update_where (settles t i full) paid_invoice (invoices d)) = invoices d"
  proof (rule update_where_twice)
    fix r
    assume r: "r \<in> set (invoices d)"
    show "(if invoice_key t i (if settles t i full r then paid_invoice r else r)
        then settled_invoice (paid_sum t i d) (i_total v) (if settles t i full r then paid_invoice r else r)
        else if settles t i full r then paid_invoice r else r) = r"
    proof (cases "invoice_key t i r")
      case True
      from only [OF r True] v(2) open_balance True show ?thesis
        by (simp add: settles_def paid_invoice_def settled_invoice_def settled_status_def invoice_key_def)
    next
      case False
      then show ?thesis by (simp add: settles_def)
    qed
  qed
  moreover have "paid_sum t i ?d = paid_sum t i d" "i_total ?v = i_total v"
    by (simp_all add: paid_sum_def paid_invoice_def)
  ultimately show ?thesis unfolding settled_db_def sel option.case by simp
qed

lemma restamped_key [simp]: "intent_key t i (restamped a r) = intent_key t i r"
  by (simp add: intent_key_def restamped_def)

lemma reopen_applied:
  assumes "intent_wf q" "unresolved q"
  shows "restamped (reopened_intent (restamped (applied_intent v pid now user q) q))
      (restamped (applied_intent v pid now user q) q) = q"
  using assms
  by (cases q) (auto simp: intent_wf_def unresolved_def restamped_def reopened_intent_def applied_intent_def
      no_applied_fields_def score_bar_met_def)

text \<open>A payment booked at \<open>s\<close> and then taken back.\<close>

lemma booked_back:
  assumes wf: "finance_wf (work s)"
    and sel: "select_one (invoice_key t i) (invoices (work s)) = Some v" "i_status v = INVOICE_APPROVED"
    and p: "pay_tenant p = t" "pay_invoice p = i" "pay_amount p = received"
    and fit: "0 < received" "received \<le> i_total v - paid_sum t i (work s)"
    and none: "payment_refusal s t v p full = None"
    and acc: "usable_account t (work s) ''1200'' = Some cash" "usable_account t (work s) ''1100'' = Some ar"
  shows "settled_db t i (without_payment t (next_id s)
      (booked_db (paying s p full) t v (payment_row s p) received (a_id cash) (a_id ar))) = work s"
proof -
  note parts = finance_wfD [OF wf]
  let ?row = "payment_row s p" and ?s = "paying s p full"
  let ?e = "receipt_entry t (instant (clk ?s)) v ?row" and ?ls = "receipt_lines (a_id cash) (a_id ar) received"
  have work: "work ?s = paid_db ?row full (work s)" by (simp add: paying_def)
  from none have ok: "first_violation (payment_constraints ?row) (work s) = None"
    and "booking_refusal ?s t v ?row received = None"
    using p by (simp_all add: payment_refusal_def split: option.splits)
  then have ref: "entry_refusal ?s ?e ?ls = None"
    using acc by (simp add: booking_refusal_def usable_account_def work paid_db_def)
  have "without_payment (pay_tenant ?row) (pay_id ?row)
      (booked_db ?s t v ?row received (a_id cash) (a_id ar)) =
      (work s)\<lparr>invoices := update_where (settles t i full) paid_invoice (invoices (work s))\<rparr>"
    unfolding booked_db_def Let_def work paid_db_def
  proof (subst without_new_payment [OF parts(1)])
    show "\<forall>f \<in> set (entries (work s)). \<not> entry_key (je_tenant (entry_row ?s ?e)) (je_id (entry_row ?s ?e)) f"
      using entry_created(1) [OF ref] by (simp add: work paid_db_def)
    show "\<forall>f \<in> set (entries (work s)). \<not> same_source (pay_tenant ?row) ''payment'' (uuid_text (pay_id ?row)) f"
      using ref p by (simp add: entry_refusal_None work paid_db_def)
    show "\<forall>q \<in> set (payments (work s)). \<not> payment_key (pay_tenant ?row) (pay_id ?row) q"
      using ok [unfolded first_violation_None payment_constraints_def] by simp
  qed (use p line_rows_fields [of ?s ?e ?ls] in \<open>simp_all add: same_source_def\<close>)
  moreover have "settled_db t i ((work s)\<lparr>invoices := update_where (settles t i full) paid_invoice (invoices (work s))\<rparr>) = work s"
    using fit by (intro settled_back [OF parts(2) sel]) simp
  ultimately show ?thesis using p by simp
qed

lemma settled_without_frame:
  assumes "ledger_tables d = ledger_tables (b\<lparr>intents := rows\<rparr>)"
  shows "ledger_tables (settled_db t i (without_payment t pid d)) =
    ledger_tables ((settled_db t i (without_payment t pid b))\<lparr>intents := rows\<rparr>)"
  using assms
  by (simp add: ledger_tables_def settled_db_def without_payment_def without_source_def without_entry_def paid_sum_def
      split: option.split)

lemma ledger_tables_restamp:
  "ledger_tables d = ledger_tables d' \<Longrightarrow> ledger_tables (restamp_intents q d) = ledger_tables (restamp_intents q d')"
  by (simp add: ledger_tables_def restamp_intents_def)

lemma restamp_back:
  fixes now :: int and v pid user :: uuid
  assumes wf: "intents_wf d" and p: "select_one (intent_key t i) (intents d) = Some p" "unresolved p"
  defines "a \<equiv> applied_intent v pid now user p"
  shows "intents (restamp_intents (reopened_intent (restamped a p)) (restamp_intents a d)) = intents d"
proof -
  have ids: "pi_tenant a = t" "pi_id a = i" "pi_tenant (restamped a p) = t" "pi_id (restamped a p) = i"
    using intent_selected [OF p(1)] by (simp_all add: a_def applied_intent_def restamped_def)
  have "intent_wf p" using wf intent_selected(3) [OF p(1)] by (simp add: intents_wf_def)
  then have restored: "restamped (reopened_intent (restamped a p)) (restamped a p) = p"
    unfolding a_def using p(2) by (rule reopen_applied)
  have "update_where (intent_key t i) (restamped (reopened_intent (restamped a p)))
      (update_where (intent_key t i) (restamped a) (intents d)) = intents d"
  proof (rule update_where_twice)
    fix r
    assume "r \<in> set (intents d)"
    then have "r = p" if "intent_key t i r" by (rule intent_unique [OF wf p(1) _ that])
    then show "(if intent_key t i (if intent_key t i r then restamped a r else r)
        then restamped (reopened_intent (restamped a p)) (if intent_key t i r then restamped a r else r)
        else if intent_key t i r then restamped a r else r) = r"
      using restored by (cases "intent_key t i r") simp_all
  qed
  then show ?thesis by (simp add: restamp_intents_def ids)
qed

lemma select_restamped:
  assumes "select_one (intent_key t i) (intents d) = Some p" "pi_tenant a = t" "pi_id a = i"
  shows "select_one (intent_key t i) (intents (restamp_intents a d)) = Some (restamped a p)"
proof -
  have "select_one (intent_key t i) (update_where (intent_key t i) (restamped a) (intents d)) =
      map_option (\<lambda>r. if intent_key t i r then restamped a r else r) (select_one (intent_key t i) (intents d))"
    by (rule select_one_update_where) simp
  then show ?thesis using assms select_one_SomeD [OF assms(1)] by (simp add: restamp_intents_def)
qed

text \<open>Undoing in a state whose tables are those an acceptance at \<open>s\<close> left.\<close>

lemma undo_after_booking:
  assumes wf: "finance_wf (work s)" "intents_wf (work s)"
    and p: "select_one (intent_key t i) (intents (work s)) = Some p" "unresolved p"
    and q: "q = restamped (applied_intent v pid (instant (clk s)) user p) p"
    and tables: "ledger_tables (work w) = ledger_tables (restamp_intents (applied_intent v pid (instant (clk s)) user p) b)"
    and booked_: "intents b = intents (work s)" "settled_db t v (without_payment t pid b) = work s"
      "select_one (payment_key t pid) (payments b) \<noteq> None"
    and time: "instant (clk w) \<le> instant (clk s) + UNDO_WINDOW"
  shows "wp (undo t user' i) (\<lambda>_ u. ledger_tables (work u) = ledger_tables (work s)) (\<lambda>_ _. False) w"
proof -
  let ?a = "applied_intent v pid (instant (clk s)) user p"
  have ids: "pi_tenant ?a = t" "pi_id ?a = i" using intent_selected [OF p(1)] by (simp_all add: applied_intent_def)
  have pays: "payments (work w) = payments b" and ints: "intents (work w) = intents (restamp_intents ?a b)"
    using tables by (simp_all add: ledger_tables_def restamp_intents_def)
  have sel: "select_one (intent_key t i) (intents (work w)) = Some q"
    unfolding ints q by (rule select_restamped) (simp_all add: booked_(1) p(1) ids)
  have fields: "pi_status q = INTENT_APPLIED" "pi_applied_at q = Some (instant (clk s))"
    "pi_applied_payment q = Some pid" "pi_applied_invoice q = Some v"
    by (simp_all add: q restamped_def applied_intent_def)
  have fine: "undo_refusal w t i = None"
    using sel fields time booked_(3) by (simp add: undo_refusal_def pays)
  have "ledger_tables (undo_db t q pid v (work w)) = ledger_tables (work s)"
  proof -
    have "ledger_tables (work w) = ledger_tables (b\<lparr>intents := intents (restamp_intents ?a b)\<rparr>)"
      using tables by (simp add: ledger_tables_def restamp_intents_def)
    from settled_without_frame [OF this, of t v pid]
    have "ledger_tables (settled_db t v (without_payment t pid (work w))) =
        ledger_tables ((work s)\<lparr>intents := intents (restamp_intents ?a (work s))\<rparr>)"
      unfolding booked_(2) by (simp add: restamp_intents_def booked_(1))
    from ledger_tables_restamp [OF this, of "reopened_intent q"]
    have "ledger_tables (undo_db t q pid v (work w)) =
        ledger_tables ((work s)\<lparr>intents := intents (restamp_intents (reopened_intent q) (restamp_intents ?a (work s)))\<rparr>)"
      by (simp add: undo_db_def ledger_tables_def restamp_intents_def)
    also have "intents (restamp_intents (reopened_intent q) (restamp_intents ?a (work s))) = intents (work s)"
      unfolding q by (rule restamp_back [OF wf(2) p])
    finally show ?thesis by simp
  qed
  then show ?thesis
    using sel fields
    by (intro wp_undo) (auto simp: fine ledger_tables_def)
qed

definition new_receipt :: "payment_hash \<Rightarrow> db \<Rightarrow> uuid \<Rightarrow> uuid \<Rightarrow> uuid \<Rightarrow> bool" where
  "new_receipt key d t i v \<longleftrightarrow> (case select_one (intent_key t i) (intents d) of
     None \<Rightarrow> True
   | Some p \<Rightarrow> select_one (payment_source t ''manual''
       (payment_ref key v (amount_text (pi_amount p)) (pi_paid_at p))) (payments d) = None)"

lemma unresolved_iff: "unresolved p \<longleftrightarrow> pi_status p \<notin> {INTENT_APPLIED, INTENT_DISMISSED}"
  by (cases "pi_status p") (simp_all add: unresolved_def)

lemma accept_then_undo:
  assumes wf: "finance_wf (work s)" "intents_wf (work s)" and new: "new_receipt key (work s) t i v"
  shows "wp (accept key t user i v) (\<lambda>_ u. \<forall>w. work w = work u \<and> instant (clk w) \<le> instant (clk s) + UNDO_WINDOW \<longrightarrow>
      wp (undo t user' i) (\<lambda>_ w'. ledger_tables (work w') = ledger_tables (work s)) (\<lambda>_ _. False) w) (\<lambda>_ _. True) s"
    (is "wp _ ?Q _ _")
proof (cases "select_one (intent_key t i) (intents (work s))")
  case None
  then show ?thesis by (simp add: accept_def wp_flow wp_get_intent)
next
  case (Some p)
  have E: "wp (accept key t user i v) ?Q (\<lambda>_ _. True) s" if "\<not> unresolved p"
    using that Some by (auto simp: accept_def wp_flow wp_get_intent unresolved_iff)
  note ids = intent_selected [OF Some]
  let ?a = "\<lambda>pid. applied_intent v pid (instant (clk s)) user p"
  have "wp (apply_payment key t user v (pi_amount p) (amount_text (pi_amount p)) (pi_method p) (pi_paid_at p))
      (\<lambda>paid u. clk u = clk s \<and> (\<exists>b. ledger_tables (work u) = ledger_tables b \<and> intents b = intents (work s) \<and>
        settled_db t v (without_payment t (pay_id paid) b) = work s \<and>
        select_one (payment_key t (pay_id paid)) (payments b) \<noteq> None)) (\<lambda>_ _. True) s"
  proof (rule wp_apply_payment)
    fix inv full pay cash ar u
    assume fit: "payment_preflight (work s) t v (pi_amount p) = None"
      and inv: "select_one (invoice_key t v) (invoices (work s)) = Some inv"
      and pay: "pay = next_payment key s t v (pi_amount p) (amount_text (pi_amount p)) (pi_method p) (pi_paid_at p)"
      and ok: "payment_refusal (numbered payment_seq s) t inv pay full = None"
        "usable_account t (work s) ''1200'' = Some cash" "usable_account t (work s) ''1100'' = Some ar"
      and u: "announced (booked_db (paying (numbered payment_seq s) pay full) t inv (payment_row s pay) (pi_amount p)
          (a_id cash) (a_id ar)) (numbered payment_seq s) u"
    let ?b = "booked_db (paying (numbered payment_seq s) pay full) t inv (payment_row s pay) (pi_amount p) (a_id cash) (a_id ar)"
    from fit inv have fits: "i_status inv = INVOICE_APPROVED" "0 < pi_amount p"
      "pi_amount p \<le> i_total inv - paid_sum t v (work s)"
      by (auto simp: payment_preflight_def split: if_splits)
    have row: "payment_row (numbered payment_seq s) x = payment_row s x" for x by (simp add: payment_row_def)
    have "settled_db t v (without_payment t (pay_id (payment_row s pay)) ?b) = work s"
      using booked_back [of "numbered payment_seq s" t v inv pay "pi_amount p" full cash ar] wf(1) inv fits pay ok
      by (simp add: row)
    moreover have "intents ?b = intents (work s)"
      "select_one (payment_key t (pay_id (payment_row s pay))) (payments ?b) \<noteq> None"
      using pay by (auto simp: booked_db_def paying_def paid_db_def with_entry_def Let_def row select_one_None payment_key_def)
    moreover have "ledger_tables (work u) = ledger_tables ?b" "clk u = clk s"
      using u by (auto simp: announced_def ledger_tables_def)
    ultimately show "clk u = clk s \<and> (\<exists>b. ledger_tables (work u) = ledger_tables b \<and> intents b = intents (work s) \<and>
        settled_db t v (without_payment t (pay_id (payment_row s pay)) b) = work s \<and>
        select_one (payment_key t (pay_id (payment_row s pay))) (payments b) \<noteq> None)" by blast
  next
    fix q
    assume "select_one (payment_source t ''manual'' (payment_ref key v (amount_text (pi_amount p)) (pi_paid_at p)))
        (payments (work s)) = Some q"
    with new Some show "clk s = clk s \<and> (\<exists>b. ledger_tables (work s) = ledger_tables b \<and> intents b = intents (work s) \<and>
        settled_db t v (without_payment t (pay_id q) b) = work s \<and>
        select_one (payment_key t (pay_id q)) (payments b) \<noteq> None)"
      by (simp add: new_receipt_def)
  qed simp_all
  then have ok: "wp (accept key t user i v) ?Q (\<lambda>_ _. True) s" if un: "unresolved p"
    unfolding accept_def wp_bind wp_get_intent Some option.case wp_then wp_require if_P [OF un [unfolded unresolved_iff]] wp_gets
    apply (rule wp_mono)
    subgoal premises prems for paid u
    proof -
      from prems obtain b where b: "clk u = clk s" "ledger_tables (work u) = ledger_tables b" "intents b = intents (work s)"
        "settled_db t v (without_payment t (pay_id paid) b) = work s"
        "select_one (payment_key t (pay_id paid)) (payments b) \<noteq> None" by blast
      then have "intents (work u) = intents (work s)" by (simp add: ledger_tables_def)
      then have sel: "select_one (intent_key (pi_tenant (?a (pay_id paid))) (pi_id (?a (pay_id paid)))) (intents (work u)) = Some p"
        using Some ids by (simp add: applied_intent_def)
      have "ledger_tables ((restamp_intents (?a (pay_id paid)) (work u))\<lparr>audit_logs := x\<rparr>) =
          ledger_tables (restamp_intents (?a (pay_id paid)) b)" for x
        using b(2) by (simp add: ledger_tables_def restamp_intents_def)
      then show ?thesis
        using undo_after_booking [OF wf Some un refl _ b(3-5)]
        by (simp add: wp_update_payment_intent sel wp_the_or_raise wp_audit_by wp_return b(1) del: undo_frame)
    qed
    by simp
  show ?thesis using E ok by blast
qed

end
