(* ===== verification/Receipt_Links.thy ===== *)
theory Receipt_Links
  imports Matching_Ledger
begin

text \<open>
  The link between a receipt and the payment it was applied to. An undo settles the invoice stamped
  on the receipt, not the invoice of the payment it deletes; the two agree because identifiers are
  not used twice and the payment hash separates invoices. An invariant that speaks of the
  identifiers still to come needs its own notion of a kept invariant.
\<close>

section \<open>Invariants that know the identifiers in use\<close>

definition keeps_up :: "(nat \<Rightarrow> db \<Rightarrow> bool) \<Rightarrow> 'a service \<Rightarrow> bool" where
  "keeps_up I m \<longleftrightarrow> (\<forall>s. I (next_id s) (work s) \<and> I (next_id s) (durable s) \<longrightarrow>
     wp m (\<lambda>_ u. I (next_id u) (work u) \<and> I (next_id u) (durable u)) (\<lambda>_ u. I (next_id u) (durable u)) s)"

named_theorems up_intros \<open>structural rules for invariants that know the identifiers in use\<close>

lemma keeps_upI:
  "(\<And>s. I (next_id s) (work s) \<Longrightarrow> I (next_id s) (durable s) \<Longrightarrow>
     wp m (\<lambda>_ u. I (next_id u) (work u) \<and> I (next_id u) (durable u)) (\<lambda>_ u. I (next_id u) (durable u)) s) \<Longrightarrow>
   keeps_up I m"
  by (simp add: keeps_up_def)

lemma keeps_upD:
  "keeps_up I m \<Longrightarrow> I (next_id s) (work s) \<Longrightarrow> I (next_id s) (durable s) \<Longrightarrow>
     wp m (\<lambda>_ u. I (next_id u) (work u) \<and> I (next_id u) (durable u)) (\<lambda>_ u. I (next_id u) (durable u)) s"
  by (simp add: keeps_up_def)

lemma up_return [up_intros]: "keeps_up I (returnM a)"
  and up_raise [up_intros]: "keeps_up I (raiseM e)"
  and up_require [up_intros]: "keeps_up I (requireM b e)"
  and up_gets [up_intros]: "keeps_up I (getsM f)"
  and up_read [up_intros]: "keeps_up I (readM g)"
  and up_the_or_raise [up_intros]: "keeps_up I (the_or_raise e x)"
  and up_finance_event [up_intros]: "keeps_up I (finance_event ev)"
  and up_nextval [up_intros]: "keeps_up I (nextval nm)"
  and up_flush_unique [up_intros]: "keeps_up I (flush_unique cs)"
  and up_check_all [up_intros]: "keeps_up I (check_all cs)"
  by (simp_all add: keeps_up_def wp_simps split: option.split)

lemma up_bind [up_intros]:
  assumes "keeps_up I m" "\<And>a. keeps_up I (f a)"
  shows "keeps_up I (bindM m f)"
proof (rule keeps_upI)
  fix s :: sess
  assume "I (next_id s) (work s)" "I (next_id s) (durable s)"
  from keeps_upD [OF assms(1) this]
  show "wp (bindM m f) (\<lambda>_ u. I (next_id u) (work u) \<and> I (next_id u) (durable u)) (\<lambda>_ u. I (next_id u) (durable u)) s"
    unfolding wp_bind by (rule wp_mono) (use assms(2) in \<open>auto intro: keeps_upD\<close>)
qed

lemma up_then [up_intros]: "keeps_up I m \<Longrightarrow> keeps_up I k \<Longrightarrow> keeps_up I (thenM m k)"
  by (simp add: thenM_def up_bind)

lemma up_if [up_intros]: "(b \<Longrightarrow> keeps_up I m) \<Longrightarrow> (\<not> b \<Longrightarrow> keeps_up I k) \<Longrightarrow> keeps_up I (if b then m else k)"
  by simp

lemma up_option [up_intros]:
  "(x = None \<Longrightarrow> keeps_up I m) \<Longrightarrow> (\<And>a. x = Some a \<Longrightarrow> keeps_up I (f a)) \<Longrightarrow>
     keeps_up I (case x of None \<Rightarrow> m | Some a \<Rightarrow> f a)"
  by (cases x) simp_all

lemma up_prod [up_intros]: "(\<And>a b. p = (a, b) \<Longrightarrow> keeps_up I (f a b)) \<Longrightarrow> keeps_up I (case p of (a, b) \<Rightarrow> f a b)"
  by (cases p) simp

lemma up_mapM [up_intros]: "(\<And>x. keeps_up I (f x)) \<Longrightarrow> keeps_up I (mapM f xs)"
  by (induction xs) (auto intro!: up_intros)

lemma up_forM [up_intros]: "(\<And>x. keeps_up I (f x)) \<Longrightarrow> keeps_up I (forM f xs)"
  by (induction xs) (auto intro!: up_intros)

lemma up_reraise [up_intros]: "keeps_up I m \<Longrightarrow> keeps_up I (catchM m (\<lambda>e. raiseM (g e)))"
  by (simp add: keeps_up_def wp_catch wp_raise)

lemma up_write: "(\<And>n d. I n d \<Longrightarrow> I n (f d)) \<Longrightarrow> keeps_up I (writeM f)"
  by (simp add: keeps_up_def wp_write)

text \<open>An invariant that a larger supply of identifiers does not break.\<close>

locale supply_invariant =
  fixes I :: "nat \<Rightarrow> db \<Rightarrow> bool"
  assumes rising: "I n d \<Longrightarrow> n \<le> k \<Longrightarrow> I k d"
    and elsewhere: "I n d \<Longrightarrow> payments d' = payments d \<Longrightarrow> intents d' = intents d \<Longrightarrow> I n d'"
begin

lemma up_fresh: "keeps_up I fresh_id"
  by (simp add: keeps_up_def wp_fresh) (auto intro: rising [of _ _ "Suc _"])

lemma up_elsewhere:
  "(\<And>d. payments (f d) = payments d) \<Longrightarrow> (\<And>d. intents (f d) = intents d) \<Longrightarrow> keeps_up I (writeM f)"
  by (rule up_write) (auto intro: elsewhere)

lemma up_audit: "keeps_up I (audit_by tenant user act tgt details)"
  and up_timeline: "keeps_up I (record_timeline_event tenant et ei ev title actor facts)"
  unfolding audit_by_def record_timeline_event_def by (intro up_elsewhere; simp)+

lemma up_next_value: "keeps_up I (next_value tenant entity)"
  unfolding next_value_def bump_sequence_def by (intro up_intros up_elsewhere; simp)+

lemma up_entry: "keeps_up I (create_journal_entry x)"
  unfolding create_journal_entry_def Let_def by (intro up_intros up_fresh up_elsewhere; simp split: prod.split)+

lemma up_invoice: "keeps_up I (create_invoice x)"
  unfolding create_invoice_def Let_def by (intro up_intros up_fresh up_elsewhere; simp split: prod.split)+

lemmas up_shared = up_audit up_timeline up_next_value up_entry up_invoice up_fresh up_elsewhere

end

text \<open>From kept steps to requests.\<close>

lemma run_request_up:
  assumes "keeps_up I m" "I (next_id s) (durable s)"
  shows "I (next_id (snd (run_request m s))) (durable (snd (run_request m s)))"
proof -
  have "case run_request m s of (r, u) \<Rightarrow> I (next_id u) (durable u)"
    by (rule run_request_wp, rule wp_mono [OF keeps_upD [OF assms(1)]]) (use assms(2) in auto)
  then show ?thesis by (simp add: case_prod_unfold)
qed

section \<open>Receipts and their payments\<close>

text \<open>
  What the code relies on \<open>uuid5\<close> for: that the source reference of a payment tells its invoice.
\<close>

definition separates_invoices :: "payment_hash \<Rightarrow> bool" where
  "separates_invoices key \<longleftrightarrow> (\<forall>i x c j y e. key i x c = key j y e \<longrightarrow> i = j)"

definition stamped_by :: "payment_hash \<Rightarrow> payment \<Rightarrow> bool" where
  "stamped_by key p \<longleftrightarrow> (\<exists>txt c. pay_ref p = Some (payment_ref key (pay_invoice p) txt c))"

definition links_sound :: "payment_hash \<Rightarrow> nat \<Rightarrow> db \<Rightarrow> bool" where
  "links_sound key n d \<longleftrightarrow> distinct (map payment_id (payments d)) \<and> receipts_sound d \<and>
     (\<forall>p \<in> set (payments d). pay_id p < n \<and> stamped_by key p) \<and>
     (\<forall>q \<in> set (intents d). \<forall>pid. pi_applied_payment q = Some pid \<longrightarrow> pid < n)"

lemma links_cong:
  "payments d' = payments d \<Longrightarrow> intents d' = intents d \<Longrightarrow> links_sound key n d' = links_sound key n d"
  by (simp add: links_sound_def receipts_sound_def receipt_sound_def)

interpretation links: supply_invariant "links_sound key" for key
proof unfold_locales
  fix n k :: nat and d d' :: db
  assume I: "links_sound key n d"
  then show "n \<le> k \<Longrightarrow> links_sound key k d" by (force simp: links_sound_def)
  show "payments d' = payments d \<Longrightarrow> intents d' = intents d \<Longrightarrow> links_sound key n d'"
    using I links_cong by blast
qed

lemma links_new_payment:
  assumes "links_sound key n d" "stamped_by key p" "pay_id p = n"
  shows "links_sound key (Suc n) (d\<lparr>payments := payments d @ [p]\<rparr>)"
proof -
  have "receipt_sound (d\<lparr>payments := payments d @ [p]\<rparr>) q" if "q \<in> set (intents d)" for q
    using assms that by (auto simp: links_sound_def receipts_sound_def receipt_sound_def payment_key_def)
  moreover have "payment_id p \<notin> payment_id ` set (payments d)"
    using assms by (auto simp: links_sound_def payment_id_def)
  ultimately show ?thesis using assms by (auto simp: links_sound_def receipts_sound_def less_Suc_eq)
qed

lemma up_create_payment:
  assumes "stamped_by key p"
  shows "keeps_up (links_sound key) (create_payment p)"
proof (rule keeps_upI)
  fix s :: sess
  assume "links_sound key (next_id s) (work s)" "links_sound key (next_id s) (durable s)"
  moreover have "stamped_by key (payment_row s p)" using assms by (simp add: stamped_by_def)
  ultimately show "wp (create_payment p) (\<lambda>_ u. links_sound key (next_id u) (work u) \<and> links_sound key (next_id u) (durable u))
      (\<lambda>_ u. links_sound key (next_id u) (durable u)) s"
    by (simp add: create_payment_def wp_bind wp_fresh wp_then wp_flush_unique wp_write wp_return Let_def
        payment_row_def [symmetric] links_new_payment links.rising [of _ "next_id s" _ "Suc (next_id s)"] split: option.split)
qed

lemma up_apply_payment: "keeps_up (links_sound key) (apply_payment key t user i received txt method paid_at)"
  unfolding apply_payment_def book_payment_def preflight_payment_def active_account_def
    get_payment_by_source_ref_def next_payment_number_def mark_invoice_paid_def flip_invoice_def
    get_invoice_for_update_def sum_payments_for_invoice_def finance_read_defs Let_def
  by (intro up_intros up_create_payment links.up_shared; simp add: stamped_by_def; blast)

lemma links_audit: "links_sound key n (d\<lparr>audit_logs := x\<rparr>) = links_sound key n d"
  by (rule links_cong) simp_all

text \<open>What \<open>apply_payment\<close> returns is the payment of its hash.\<close>

lemma apply_payment_known:
  "wp (apply_payment key t user i received txt method paid_at)
     (\<lambda>p u. p \<in> set (payments (work u)) \<and> pay_tenant p = t \<and> pay_ref p = Some (payment_ref key i txt paid_at))
     (\<lambda>_ _. True) s"
proof (rule wp_apply_payment)
  fix v full p cash ar u
  assume "p = next_payment key s t i received txt method paid_at"
    and "announced (booked_db (paying (numbered payment_seq s) p full) t v (payment_row s p) received (a_id cash) (a_id ar))
        (numbered payment_seq s) u"
  then show "payment_row s p \<in> set (payments (work u)) \<and> pay_tenant (payment_row s p) = t \<and>
      pay_ref (payment_row s p) = Some (payment_ref key i txt paid_at)"
    by (auto simp: announced_def booked_db_def paying_def paid_db_def with_entry_def Let_def payment_row_def)
qed (auto simp: payment_source_def dest: select_one_SomeD)

lemma links_restamp:
  assumes I: "links_sound key n d" and q: "receipt_sound d q" "\<forall>pid. pi_applied_payment q = Some pid \<longrightarrow> pid < n"
  shows "links_sound key n (restamp_intents q d)"
proof -
  have "receipt_sound (restamp_intents q d) (restamped q row)" if "intent_key (pi_tenant q) (pi_id q) row" for row
    using q that by (auto simp: receipt_sound_def restamp_intents_def restamped_def intent_key_def)
  moreover have "receipt_sound (restamp_intents q d) row = receipt_sound d row" for row
    by (simp add: receipt_sound_def restamp_intents_def)
  ultimately show ?thesis
    using I q by (auto simp: links_sound_def receipts_sound_def restamp_intents_def restamped_def ball_update_where)
qed

lemma links_accept: "separates_invoices key \<Longrightarrow> keeps_up (links_sound key) (accept key t user i v)"
proof (rule keeps_upI)
  fix s :: sess
  assume apart: "separates_invoices key"
    and I: "links_sound key (next_id s) (work s)" "links_sound key (next_id s) (durable s)"
  have applied: "receipt_sound (work u) (applied_intent v (pay_id paid) now user p) \<and>
      (\<forall>pid. pi_applied_payment (applied_intent v (pay_id paid) now user p) = Some pid \<longrightarrow> pid < next_id u)"
    if u: "links_sound key (next_id u) (work u)" "paid \<in> set (payments (work u))" "pay_tenant paid = t"
      "pay_ref paid = Some (payment_ref key v amt c)" and p: "pi_tenant p = t" for u paid now p amt c
  proof -
    from u have "pay_invoice paid = v" "pay_id paid < next_id u"
      using apart by (fastforce simp: links_sound_def stamped_by_def payment_ref_def separates_invoices_def)+
    moreover have "r = paid" if "r \<in> set (payments (work u))" "payment_key t (pay_id paid) r" for r
      using u that inj_onD [of payment_id "set (payments (work u))" r paid]
      by (simp add: links_sound_def distinct_map payment_key_def payment_id_def)
    ultimately show ?thesis using p by (auto simp: receipt_sound_def applied_intent_def)
  qed
  show "wp (accept key t user i v) (\<lambda>_ u. links_sound key (next_id u) (work u) \<and> links_sound key (next_id u) (durable u))
      (\<lambda>_ u. links_sound key (next_id u) (durable u)) s"
  proof (cases "select_one (intent_key t i) (intents (work s))")
    case None
    then show ?thesis using I by (simp add: accept_def wp_flow wp_get_intent)
  next
    case (Some p)
    note ids = intent_selected [OF Some]
    have ten: "pi_tenant (applied_intent v n m user p) = t" for n m using ids by (simp add: applied_intent_def)
    show ?thesis
      unfolding accept_def wp_bind wp_get_intent Some option.case wp_then wp_require wp_gets
      apply (split if_split, intro conjI impI)
      subgoal
        apply (rule wp_mono [OF wp_conj [OF keeps_upD [OF up_apply_payment I] apply_payment_known]])
        subgoal for paid u
          using applied [of u paid "amount_text (pi_amount p)" "pi_paid_at p" p] ids(1)
          by (auto simp: wp_update_payment_intent wp_the_or_raise wp_audit_by wp_return links_restamp links_audit
              split: option.split)
        by simp
      by (use I in simp)
  qed
qed

lemma links_without_payment: "links_sound key n d \<Longrightarrow> links_sound key n (settled_db t v (without_payment t' pid d))"
proof -
  assume I: "links_sound key n d"
  have pays: "payments (settled_db t v (without_payment t' pid d)) = filter (\<lambda>q. \<not> payment_key t' pid q) (payments d)"
    by (simp add: settled_db_def without_payment_def without_source_def split: option.split)
  show ?thesis
    using I by (auto simp: links_sound_def receipts_sound_def receipt_sound_def pays distinct_map_filter)
qed

lemma links_undo: "keeps_up (links_sound key) (undo t user i)"
proof (rule keeps_upI, rule wp_undo)
  fix s :: sess and p pid v a
  assume I: "links_sound key (next_id s) (work s)" "links_sound key (next_id s) (durable s)"
  have "receipt_sound d (reopened_intent p)" "pi_applied_payment (reopened_intent p) = None" for d
    by (simp_all add: receipt_sound_def reopened_intent_def)
  then have "links_sound key (next_id s) (undo_db t p pid v (work s))"
    unfolding undo_db_def by (intro links_restamp links_without_payment I) simp_all
  with I(2) show "links_sound key (next_id (s\<lparr>work := (undo_db t p pid v (work s))\<lparr>audit_logs := audit_logs (work s) @ [a]\<rparr>\<rparr>))
        (work (s\<lparr>work := (undo_db t p pid v (work s))\<lparr>audit_logs := audit_logs (work s) @ [a]\<rparr>\<rparr>)) \<and>
      links_sound key (next_id (s\<lparr>work := (undo_db t p pid v (work s))\<lparr>audit_logs := audit_logs (work s) @ [a]\<rparr>\<rparr>))
        (durable (s\<lparr>work := (undo_db t p pid v (work s))\<lparr>audit_logs := audit_logs (work s) @ [a]\<rparr>\<rparr>))"
    by (simp add: links_audit)
qed simp

lemma links_dismiss: "keeps_up (links_sound key) (dismiss t user i)"
proof (rule keeps_upI)
  fix s :: sess
  assume I: "links_sound key (next_id s) (work s)" "links_sound key (next_id s) (durable s)"
  have "receipt_sound (work s) (p\<lparr>pi_status := st, pi_dismissed_at := x\<rparr>) \<and>
      (\<forall>pid. pi_applied_payment (p\<lparr>pi_status := st, pi_dismissed_at := x\<rparr>) = Some pid \<longrightarrow> pid < next_id s)"
    if "select_one (intent_key t i) (intents (work s)) = Some p" for p st x
    using I(1) intent_selected(3) [OF that] by (simp add: links_sound_def receipts_sound_def receipt_sound_def)
  then show "wp (dismiss t user i) (\<lambda>_ u. links_sound key (next_id u) (work u) \<and> links_sound key (next_id u) (durable u))
      (\<lambda>_ u. links_sound key (next_id u) (durable u)) s"
    using I by (auto simp: dismiss_def wp_flow wp_get_intent wp_update_payment_intent wp_audit_by links_restamp links_audit
        split: option.split)
qed

lemma links_register: "keeps_up (links_sound key) (register t user body)"
proof -
  have "keeps_up (links_sound key) (create_payment_intent (new_intent t user body best))" for best
  proof (rule keeps_upI)
    fix s :: sess
    assume I: "links_sound key (next_id s) (work s)" "links_sound key (next_id s) (durable s)"
    have "links_sound key (Suc (next_id s)) ((work s)\<lparr>intents := intents (work s) @ [stored_intent i now (new_intent t user body best)]\<rparr>)"
      for i now
      using links.rising [OF I(1), of "Suc (next_id s)"]
      by (auto simp: links_sound_def receipts_sound_def receipt_sound_def stored_intent_def new_intent_def)
    with I show "wp (create_payment_intent (new_intent t user body best))
        (\<lambda>_ u. links_sound key (next_id u) (work u) \<and> links_sound key (next_id u) (durable u))
        (\<lambda>_ u. links_sound key (next_id u) (durable u)) s"
      by (simp add: create_payment_intent_def wp_simps wp_flush_unique Let_def
          links.rising [of _ "next_id s" _ "Suc (next_id s)"] split: option.split)
  qed
  then show ?thesis
    unfolding register_def score_for_def outstanding_invoices_def by (intro up_intros links.up_shared)
qed

lemma links_bulk_accept: "separates_invoices key \<Longrightarrow> keeps_up (links_sound key) (bulk_accept key t user items)"
  unfolding bulk_accept_def prevalidate_item_def get_intent_def get_payment_intent_def preflight_payment_def
    get_invoice_for_update_def sum_payments_for_invoice_def Let_def
  by (intro up_intros links_accept)

end
