(* ===== verification/Finance_Theorems.thy ===== *)
theory Finance_Theorems
  imports Matching_Ledger
begin

text \<open>
  What the requests of the finance service and of the payment inbox do end to end, as runs of the
  session dependency that compare the durable database before and after.
\<close>

section \<open>A small set of books for the witnesses\<close>

definition demo_account :: "uuid \<Rightarrow> string \<Rightarrow> account_type \<Rightarrow> account" where
  "demo_account i code ty = \<lparr>a_id = i, a_tenant = 7, a_code = code, a_name = code, a_type = ty, a_active = True\<rparr>"

definition demo_invoice :: "uuid \<Rightarrow> string \<Rightarrow> invoice_status \<Rightarrow> invoice" where
  "demo_invoice i number st = \<lparr>i_id = i, i_tenant = 7, i_number = number, i_customer = 90, i_date = 5, i_due = 35,
     i_status = st, i_total = 100, i_currency = ''USD'', i_rate = 1, i_source = ''manual'', i_ref = None,
     i_issued_at = Some 1, i_approved_at = None, i_voided_at = None\<rparr>"

definition demo_invoice_line :: "uuid \<Rightarrow> uuid \<Rightarrow> invoice_line" where
  "demo_invoice_line i v = \<lparr>il_id = i, il_tenant = 7, il_invoice = v, il_no = 1, il_description = ''Service'',
     il_account = 202, il_quantity = 1, il_price = 100, il_amount = 100\<rparr>"

definition demo_entry :: "uuid \<Rightarrow> entry_status \<Rightarrow> string \<Rightarrow> string option \<Rightarrow> journal_entry" where
  "demo_entry i st source ref = \<lparr>je_id = i, je_tenant = 7, je_date = 5, je_memo = None, je_status = st,
     je_source = source, je_ref = ref, je_posted_at = None, je_posted_by = None, je_voided_at = None\<rparr>"

definition demo_journal_line :: "uuid \<Rightarrow> uuid \<Rightarrow> uuid \<Rightarrow> decimal option \<Rightarrow> decimal option \<Rightarrow> journal_line" where
  "demo_journal_line i e a x y = \<lparr>jl_id = i, jl_tenant = 7, jl_entry = e, jl_account = a, jl_debit = x,
     jl_credit = y, jl_currency = ''USD''\<rparr>"

definition demo_intent :: payment_intent where
  "demo_intent = \<lparr>pi_id = 500, pi_tenant = 7, pi_amount = 100, pi_paid_at = \<lparr>instant = 3, today = 6, year = 2026\<rparr>,
     pi_method = ''bank_transfer'', pi_source = ''bank'', pi_created_by = 1, pi_status = INTENT_OPEN,
     pi_reference = None, pi_ref = None, pi_customer = None, pi_score = None, pi_suggested = None,
     pi_applied_invoice = None, pi_applied_payment = None, pi_applied_at = None, pi_applied_by = None,
     pi_dismissed_at = None, pi_created = 0\<rparr>"

text \<open>
  Invoice 300 is issued and 301 approved, with its accrual 400; 410 is a balanced draft and 411 an
  unbalanced one; 500 is a receipt nobody has looked at.
\<close>

definition books_db :: db where
  "books_db = empty_db
    \<lparr>accounts := [demo_account 200 ''1100'' ASSET, demo_account 201 ''1200'' ASSET, demo_account 202 ''4000'' REVENUE],
     invoices := [demo_invoice 300 ''INV-1'' INVOICE_ISSUED, demo_invoice 301 ''INV-2'' INVOICE_APPROVED],
     invoice_lines := [demo_invoice_line 310 300, demo_invoice_line 311 301],
     entries := [demo_entry 400 ENTRY_POSTED ''invoice'' (Some (uuid_text 301)), demo_entry 410 ENTRY_DRAFT ''manual'' None,
       demo_entry 411 ENTRY_DRAFT ''manual'' None],
     journal_lines := [demo_journal_line 420 400 200 (Some 100) None, demo_journal_line 421 400 202 None (Some 100),
       demo_journal_line 422 410 201 (Some 5) None, demo_journal_line 423 410 202 None (Some 5),
       demo_journal_line 424 411 201 (Some 5) None],
     intents := [demo_intent]\<rparr>"

definition books :: sess where
  "books = \<lparr>work = books_db, durable = books_db, ctx_buffer = None, fin_pending = [], published = [],
     next_id = 1000, number_seq = (\<lambda>_. 0), ctx_user = None, clk = \<lparr>instant = 8, today = 6, year = 2026\<rparr>\<rparr>"

lemmas demo_books_defs = books_db_def demo_account_def demo_invoice_def demo_invoice_line_def demo_entry_def
  demo_journal_line_def

lemma books_simps [simp]: "durable books = books_db" "work books = books_db" "next_id books = 1000"
  "clk books = \<lparr>instant = 8, today = 6, year = 2026\<rparr>"
  by (simp_all add: books_def)

lemma scale_100 [simp]: "at_scale 4 (100 :: decimal)"
  by (simp add: at_scale_def quantize_def round_half_even_of_int [of 1000000, simplified])

lemmas demo_wf_defs = books_wf_def invoices_wf_def payments_wf_def accruals_wf_def receipts_wf_def
  recorded_def entry_id_def account_id_def one_sided_def line_placed_def entry_key_def account_key_def entry_lines_def
  line_of_def balanced_def refs_distinct_def same_document_def same_source_def debit_of_def credit_of_def
  invoice_id_def invoice_key_def lines_in_def invoice_line_of_def invoice_total_def within_total_def paid_sum_def

lemma books_db_wf [simp]: "finance_wf books_db"
  unfolding finance_wf_def by (intro conjI; simp add: demo_wf_defs demo_books_defs empty_db_def)

lemma books_db_intents_wf [simp]: "intents_wf books_db"
  by (simp add: intents_wf_def books_db_def demo_intent_def intent_wf_def no_applied_fields_def score_bar_met_def
      SCORE_CANDIDATE_BAR_def)

section \<open>Posting\<close>



section \<open>Recognising revenue\<close>

text \<open>
  C10. Approving an invoice succeeds exactly when \<open>approval_refusal\<close> has no reason: the invoice is
  issued and in an open period, the receivables account exists and the accrual meets the
  journal's constraints. Then the invoice reads as approved, the journal holds a posted entry for
  it over exactly its total, and no payment or other invoice line changed; otherwise nothing did.
\<close>

theorem approve_invoice_outcome:
  assumes wf: "finance_wf (durable s)"
  shows "outcome (run_request (approve_invoice t user i) s)
    (\<lambda>doc u. approval_refusal (begin_state s) t user i = None \<and> finance_wf (durable u) \<and>
       invoice_in i t (durable u) = Some doc \<and> i_status (fst doc) = INVOICE_APPROVED \<and>
       recorded (durable u) t ''invoice'' i (i_total (fst doc)) \<and>
       (\<exists>v ls. invoice_in i t (durable s) = Some (v, ls) \<and> doc = (approved_at (instant (clk s)) v, ls)) \<and>
       payments (durable u) = payments (durable s) \<and> invoice_lines (durable u) = invoice_lines (durable s))
    (\<lambda>e u. approval_refusal (begin_state s) t user i = Some e \<and> durable u = durable s)"
proof (rule outcomeI, rule wp_approve_invoice)
  fix v ls and ar :: account and u
  let ?s = "begin_state s"
  let ?d = "approved_db ?s t user (a_id (ar :: account)) (v, ls)"
  assume none: "approval_refusal ?s t user i = None" and v: "invoice_in i t (work ?s) = Some (v, ls)"
    and ar: "account_by_code ''1100'' t (work ?s) = Some ar" and u: "announced ?d ?s u"
  have wf': "finance_wf ?d" by (rule finance_approved_db [OF _ none v ar]) (simp add: wf)
  then have wfu: "finance_wf (work u)" using u by (auto simp: announced_def finance_unaffected)
  from v have sel: "select_one (invoice_key t i) (invoices (durable s)) = Some v"
    and ls: "ls = lines_of_invoice t i (durable s)" and key: "i_tenant v = t" "i_id v = i"
    by (auto simp: invoice_in_def load_invoice_def invoice_key_def dest: select_one_SomeD)
  from none v have st: "i_status v = INVOICE_ISSUED" by (auto simp: approval_refusal_def split: if_splits)
  have "select_one (invoice_key t i) (invoices (work u)) = Some (approved_at (instant (clk s)) v)"
  proof -
    have "invoices (work u) = update_where (issued_at_key t i) (approved_at (instant (clk s))) (invoices (durable s))"
      using u key by (auto simp: announced_def approved_db_def Let_def)
    moreover have "select_one (invoice_key t i) (update_where (issued_at_key t i) (approved_at (instant (clk s))) (invoices (durable s))) =
        map_option (\<lambda>w. if issued_at_key t i w then approved_at (instant (clk s)) w else w)
          (select_one (invoice_key t i) (invoices (durable s)))"
      by (rule select_one_update_where) (simp add: issued_at_key_def invoice_key_def approved_at_def)
    ultimately show ?thesis using sel st key by (simp add: issued_at_key_def invoice_key_def)
  qed
  moreover have lines: "invoice_lines (work u) = invoice_lines (durable s)" and pays: "payments (work u) = payments (durable s)"
    using u by (auto simp: announced_def approved_db_def Let_def)
  ultimately have inv: "invoice_in i t (work u) = Some (approved_at (instant (clk s)) v, ls)"
    using key by (simp add: invoice_in_def load_invoice_def ls lines_of_invoice_def approved_at_def)
  have "approved_at (instant (clk s)) v \<in> set (invoices (work u))"
    using inv by (auto simp: invoice_in_def load_invoice_def dest: select_one_SomeD)
  with finance_wfD(4) [OF wfu] have "recorded (work u) t ''invoice'' i (i_total v)"
    using key by (force simp: accruals_wf_def approved_at_def)
  with none wfu inv v lines pays
  show "approval_refusal ?s t user i = None \<and> finance_wf (durable (commit_state u)) \<and>
       invoice_in i t (durable (commit_state u)) = Some (approved_at (instant (clk ?s)) v, ls) \<and>
       i_status (fst (approved_at (instant (clk ?s)) v, ls)) = INVOICE_APPROVED \<and>
       recorded (durable (commit_state u)) t ''invoice'' i (i_total (fst (approved_at (instant (clk ?s)) v, ls))) \<and>
       (\<exists>v' ls'. invoice_in i t (durable s) = Some (v', ls') \<and>
          (approved_at (instant (clk ?s)) v, ls) = (approved_at (instant (clk s)) v', ls')) \<and>
       payments (durable (commit_state u)) = payments (durable s) \<and>
       invoice_lines (durable (commit_state u)) = invoice_lines (durable s)"
    by (simp add: approved_at_def)
qed (simp add: same_outside_work_def)

text \<open>When every constraint but those of one name holds, that one is reported.\<close>

lemma first_violation_only:
  assumes "\<And>c. c \<in> set cs \<Longrightarrow> fst c \<noteq> name \<Longrightarrow> snd c d" "\<exists>c \<in> set cs. \<not> snd c d"
  shows "first_violation cs d = Some name"
  using assms by (induction cs) auto

definition zero_leg :: "invoice_doc \<Rightarrow> bool" where
  "zero_leg doc \<longleftrightarrow> i_total (fst doc) = 0 \<or> (\<exists>p \<in> set (revenue_legs (snd doc)). snd p = 0)"

lemma stored_lines_bex:
  "(\<And>n l. P (stored_line n t i l) = P' l) \<Longrightarrow> (\<exists>r \<in> set (stored_lines k t i ls). P r) \<longleftrightarrow> (\<exists>l \<in> set ls. P' l)"
  and stored_lines_ball:
  "(\<And>n l. P (stored_line n t i l) = P' l) \<Longrightarrow> (\<forall>r \<in> set (stored_lines k t i ls). P r) \<longleftrightarrow> (\<forall>l \<in> set ls. P' l)"
  by (induction ls arbitrary: k) simp_all

lemma accrual_lines_bex:
  "(\<exists>l \<in> set (accrual_lines ar doc). P l) \<longleftrightarrow> P (new_line ar (Some (i_total (fst doc))) None) \<or>
     (\<exists>p \<in> set (revenue_legs (snd doc)). P (new_line (fst p) None (Some (snd p))))"
  "(\<forall>l \<in> set (accrual_lines ar doc). P l) \<longleftrightarrow> P (new_line ar (Some (i_total (fst doc))) None) \<and>
     (\<forall>p \<in> set (revenue_legs (snd doc)). P (new_line (fst p) None (Some (snd p))))"
  by (auto simp: accrual_lines_def case_prod_unfold)

lemma invoice_amounts:
  assumes wf: "invoices_wf d" and v: "invoice_in i t d = Some (v, ls)"
  shows "0 \<le> i_total v" "at_scale 4 (i_total v)"
    "\<forall>p \<in> set (revenue_legs ls). 0 \<le> snd p \<and> at_scale 4 (snd p) \<and> (\<exists>a \<in> set (accounts d). account_key t (fst p) a)"
proof -
  from v have sel: "v \<in> set (invoices d)" "invoice_key t i v" and ls: "ls = lines_of_invoice t i d"
    by (auto simp: invoice_in_def load_invoice_def invoice_key_def dest: select_one_SomeD)
  have line: "0 \<le> il_amount l \<and> at_scale 4 (il_amount l)" "\<exists>a \<in> set (accounts d). account_key t (il_account l) a"
    if "l \<in> set ls" for l
    using wf that by (auto simp: ls lines_of_invoice_set invoices_wf_def invoice_line_of_def)
  have total: "i_total v = invoice_total ls"
    using wf sel unfolding ls lines_of_invoice_total by (auto simp: invoices_wf_def lines_in_def invoice_key_def)
  show "0 \<le> i_total v" "at_scale 4 (i_total v)"
    using line unfolding total invoice_total_def by (auto intro!: sum_list_nonneg at_scale_sum_list)
  have "\<forall>p \<in> set (revenue_legs ls). 0 \<le> snd p \<and> at_scale 4 (snd p)"
    by (rule revenue_legs_all) (use line in \<open>auto intro: at_scale_add\<close>)
  moreover have "\<exists>a \<in> set (accounts d). account_key t (fst p) a" if "p \<in> set (revenue_legs ls)" for p
  proof -
    have "fst p \<in> il_account ` set ls" using that revenue_legs_accounts [of ls] by force
    then show ?thesis using line(2) by auto
  qed
  ultimately show "\<forall>p \<in> set (revenue_legs ls). 0 \<le> snd p \<and> at_scale 4 (snd p) \<and> (\<exists>a \<in> set (accounts d). account_key t (fst p) a)"
    by blast
qed

lemma accrual_refusal:
  assumes wf: "finance_wf (work s)" and fresh: "\<forall>e \<in> set (entries (work s)). je_id e < next_id s"
    and v: "invoice_in i t (work s) = Some (v, ls)" "i_status v = INVOICE_ISSUED"
    and ar: "account_by_code ''1100'' t (work s) = Some ar"
  shows "entry_refusal s (accrual_entry t user now v) (accrual_lines (a_id ar) (v, ls)) =
    (if zero_leg (v, ls) then Some (IntegrityError ''ck_erp_journal_lines_amount_nonzero'') else None)"
proof -
  note amounts = invoice_amounts [OF finance_wfD(2) [OF wf] v(1)]
  let ?e = "accrual_entry t user now v" and ?ls = "accrual_lines (a_id ar) (v, ls)"
  let ?d = "(work s)\<lparr>entries := entries (work s) @ [entry_row s ?e]\<rparr>"
  from v(1) have key: "v \<in> set (invoices (work s))" "i_tenant v = t" "i_id v = i"
    by (auto simp: invoice_in_def load_invoice_def invoice_key_def dest: select_one_SomeD)
  have doc: "\<not> same_source t ''invoice'' (uuid_text (i_id v)) f" if f: "f \<in> set (entries (work s))" for f
  proof
    assume src: "same_source t ''invoice'' (uuid_text (i_id v)) f"
    then obtain w where w: "w \<in> set (invoices (work s))" "same_source (i_tenant w) ''invoice'' (uuid_text (i_id w)) f"
      "receivable (i_status w)"
      using finance_wfD(4) [OF wf] f by (auto simp: accruals_wf_def same_source_def)
    then have "invoice_key t i w" using src key by (auto simp: same_source_def invoice_key_def)
    then have "w = v" using invoice_unique [OF finance_wfD(2) [OF wf] key(1) w(1)] key by (simp add: invoice_key_def)
    with w(3) v(2) show False by simp
  qed
  have first: "first_violation (entry_constraints (entry_row s ?e)) (work s) = None"
    unfolding first_violation_None entry_constraints_def using fresh doc by (auto simp: entry_key_def)
  have acc: "\<exists>a \<in> set (accounts (work s)). account_key t (a_id ar) a"
    using ar by (auto simp: account_by_code_def account_key_def dest!: select_one_SomeD)
  let ?rows = "line_rows s ?e ?ls"
  have zero: "(\<exists>r \<in> set ?rows. jl_debit r = Some 0 \<or> jl_credit r = Some 0) \<longleftrightarrow> zero_leg (v, ls)"
    unfolding line_rows_def
    by (subst stored_lines_bex [where P' = "\<lambda>l. map_option (numeric 4) (jl_debit l) = Some 0 \<or>
          map_option (numeric 4) (jl_credit l) = Some 0"])
      (use amounts in \<open>auto simp: stored_line_def accrual_lines_bex new_line_def zero_leg_def\<close>)
  have rows: "\<forall>r \<in> set ?rows. jl_tenant r = t \<and> jl_entry r = next_id s \<and>
      (\<exists>a \<in> set (accounts (work s)). account_key t (jl_account r) a) \<and>
      (\<exists>x \<ge> 0. jl_debit r = Some x \<and> jl_credit r = None \<or> jl_debit r = None \<and> jl_credit r = Some x)"
    unfolding line_rows_def
    by (subst stored_lines_ball [where P' = "\<lambda>l. (\<exists>a \<in> set (accounts (work s)). account_key t (jl_account l) a) \<and>
          (\<exists>x \<ge> 0. map_option (numeric 4) (jl_debit l) = Some x \<and> jl_credit l = None \<or>
             jl_debit l = None \<and> map_option (numeric 4) (jl_credit l) = Some x)"])
      (use amounts acc in \<open>auto simp: stored_line_def accrual_lines_bex new_line_def\<close>)
  have others: "snd c ?d" if "c \<in> set (lines_constraints ?rows)" "fst c \<noteq> ''ck_erp_journal_lines_amount_nonzero''" for c
    using that rows
    by (fastforce simp: lines_constraints_def line_checks_def line_foreign_keys_def opt_all_def entry_key_def)
  have refusal: "entry_refusal s ?e ?ls = map_option IntegrityError (first_violation (lines_constraints ?rows) ?d)"
    by (simp add: entry_refusal_def first)
  show ?thesis
  proof (cases "zero_leg (v, ls)")
    case True
    with zero obtain r where r: "r \<in> set ?rows" "jl_debit r = Some 0 \<or> jl_credit r = Some 0" by blast
    then have "\<exists>c \<in> set (line_checks r). \<not> snd c ?d" by (auto simp: line_checks_def opt_all_def)
    with r(1) have "\<exists>c \<in> set (lines_constraints ?rows). \<not> snd c ?d" by (auto simp: lines_constraints_def)
    with True show ?thesis unfolding refusal by (simp add: first_violation_only [OF others])
  next
    case False
    with zero have none: "\<forall>r \<in> set ?rows. jl_debit r \<noteq> Some 0 \<and> jl_credit r \<noteq> Some 0" by blast
    have "snd c ?d" if "c \<in> set (lines_constraints ?rows)" for c
    proof (cases "fst c = ''ck_erp_journal_lines_amount_nonzero''")
      case True
      with that none show ?thesis
        by (auto simp: lines_constraints_def line_checks_def line_foreign_keys_def opt_all_def split: option.split)
    qed (use that others in blast)
    with False show ?thesis unfolding refusal by (simp add: first_violation_None)
  qed
qed

text \<open>
  What can stop the approval of a well-formed database's invoice: it does not exist, is not
  issued, lies in a closed period, or the tenant has no receivables account. After those checks the
  approval goes through, unless the total or one account's share of it is zero: the journal
  refuses zero lines, so such an invoice can never be approved and surfaces as an integrity error.
\<close>

lemma approval_refusal_cases:
  assumes wf: "finance_wf (work s)" and fresh: "\<forall>e \<in> set (entries (work s)). je_id e < next_id s"
  shows "approval_refusal s t user i =
     (case invoice_in i t (work s) of
        None \<Rightarrow> Some (NotFoundError ''Invoice'')
      | Some doc \<Rightarrow>
          if i_status (fst doc) \<noteq> INVOICE_ISSUED then Some (ConflictError ''Only issued invoices can be approved'')
          else if closed_on t (i_date (fst doc)) (work s) then Some (ConflictError ''Invoice date falls in a closed fiscal period'')
          else if account_by_code ''1100'' t (work s) = None then Some (NotFoundError ''AR account'')
          else if zero_leg doc then Some (IntegrityError ''ck_erp_journal_lines_amount_nonzero'')
          else None)"
  by (auto simp: approval_refusal_def accrual_refusal [OF wf fresh] split: option.split)

text \<open>The accrual of invoice 300 goes through; that of an invoice over nothing cannot.\<close>

definition nothing_db :: db where
  "nothing_db = books_db\<lparr>invoices := [(demo_invoice 300 ''INV-1'' INVOICE_ISSUED)\<lparr>i_total := 0\<rparr>, demo_invoice 301 ''INV-2'' INVOICE_APPROVED],
     invoice_lines := [demo_invoice_line 311 301]\<rparr>"

lemma nothing_db_wf: "finance_wf nothing_db"
  unfolding finance_wf_def by (intro conjI; simp add: demo_wf_defs nothing_db_def demo_books_defs empty_db_def)

lemmas demo_lookups = invoice_in_def load_invoice_def lines_of_invoice_def invoice_key_def invoice_line_of_def closed_on_def
  account_by_code_def zero_leg_def revenue_legs_def

lemma approval_refusal_cases_witness:
  "approval_refusal books 7 9 300 = None \<and>
   approval_refusal (books\<lparr>work := nothing_db\<rparr>) 7 9 300 = Some (IntegrityError ''ck_erp_journal_lines_amount_nonzero'')"
proof
  show "approval_refusal books 7 9 300 = None"
    by (subst approval_refusal_cases) (simp_all, simp_all add: demo_lookups demo_books_defs empty_db_def)
  show "approval_refusal (books\<lparr>work := nothing_db\<rparr>) 7 9 300 = Some (IntegrityError ''ck_erp_journal_lines_amount_nonzero'')"
    by (subst approval_refusal_cases) (simp_all add: nothing_db_wf, simp_all add: demo_lookups nothing_db_def demo_books_defs empty_db_def)
qed

lemma books_approval: "approval_refusal (begin_state books) 7 9 300 = None"
proof -
  have doc: "invoice_in 300 7 books_db = Some (demo_invoice 300 ''INV-1'' INVOICE_ISSUED, [demo_invoice_line 310 300])"
    "account_by_code ''1100'' 7 books_db = Some (demo_account 200 ''1100'' ASSET)"
    by (simp_all add: demo_lookups demo_books_defs)
  have "entry_refusal (begin_state books) (accrual_entry 7 9 8 (demo_invoice 300 ''INV-1'' INVOICE_ISSUED))
      (accrual_lines 200 (demo_invoice 300 ''INV-1'' INVOICE_ISSUED, [demo_invoice_line 310 300])) = None"
    using accrual_refusal [of "begin_state books" 300 7 _ _ "demo_account 200 ''1100'' ASSET" 9 8] doc
    by (simp add: zero_leg_def revenue_legs_def) (simp add: demo_books_defs)
  with doc show ?thesis
    by (simp add: approval_refusal_def) (simp add: demo_books_defs closed_on_def empty_db_def)
qed

lemma approve_invoice_outcome_witness:
  "outcome (run_request (approve_invoice 7 9 300) books)
     (\<lambda>doc u. i_status (fst doc) = INVOICE_APPROVED \<and> recorded (durable u) 7 ''invoice'' 300 100) (\<lambda>_ _. False)"
proof -
  have "invoice_in 300 7 books_db = Some (demo_invoice 300 ''INV-1'' INVOICE_ISSUED, [demo_invoice_line 310 300])"
    by (simp add: demo_lookups demo_books_defs)
  then show ?thesis
    by (intro outcome_mono [OF approve_invoice_outcome [of books 7 9 300]])
      (auto simp: books_approval approved_at_def demo_invoice_def)
qed

section \<open>Receiving money\<close>

definition known_payment :: "payment_hash \<Rightarrow> db \<Rightarrow> uuid \<Rightarrow> uuid \<Rightarrow> string \<Rightarrow> clock \<Rightarrow> payment option" where
  "known_payment key d t i txt paid_at =
     select_one (payment_source t ''manual'' (payment_ref key i txt paid_at)) (payments d)"

text \<open>What a payment that is booked does to the tables, for an invoice \<open>v\<close> of before.\<close>

definition payment_booked :: "db \<Rightarrow> db \<Rightarrow> uuid \<Rightarrow> uuid \<Rightarrow> decimal \<Rightarrow> payment \<Rightarrow> invoice \<Rightarrow> bool" where
  "payment_booked d d' t i received p v \<longleftrightarrow>
     payments d' = payments d @ [p] \<and> pay_tenant p = t \<and> pay_invoice p = i \<and> pay_amount p = numeric 4 received \<and>
     paid_sum t i d' = paid_sum t i d + numeric 4 received \<and> paid_sum t i d' \<le> i_total v \<and>
     recorded d' t ''payment'' (pay_id p) (numeric 4 received) \<and>
     select_one (invoice_key t i) (invoices d') =
       Some (if received = i_total v - paid_sum t i d then paid_invoice v else v) \<and>
     invoice_lines d' = invoice_lines d \<and> accounts d' = accounts d \<and> intents d' = intents d"

lemma apply_payment_effect:
  assumes wf: "finance_wf (work s)"
  shows "wp (apply_payment key t user i received txt method paid_at)
    (\<lambda>p u. finance_wf (work u) \<and> clk u = clk s \<and>
       (case known_payment key (work s) t i txt paid_at of
          Some q \<Rightarrow> p = q \<and> u = s
        | None \<Rightarrow> payment_preflight (work s) t i received = None \<and> known_payment key (work u) t i txt paid_at = Some p \<and>
            (\<exists>v. select_one (invoice_key t i) (invoices (work s)) = Some v \<and> i_status v = INVOICE_APPROVED \<and>
               payment_booked (work s) (work u) t i received p v)))
    (\<lambda>e u. known_payment key (work s) t i txt paid_at = None \<and>
       payment_preflight (work s) t i received \<in> {None, Some e} \<and> durable u = durable s) s"
proof (rule wp_apply_payment)
  fix v full p cash ar u
  assume new: "select_one (payment_source t ''manual'' (payment_ref key i txt paid_at)) (payments (work s)) = None"
    and fit: "payment_preflight (work s) t i received = None"
    and v: "select_one (invoice_key t i) (invoices (work s)) = Some v"
    and full: "full = (i_total v - paid_sum t i (work s) - received = 0)"
    and p: "p = next_payment key s t i received txt method paid_at"
    and ok: "payment_refusal (numbered payment_seq s) t v p full = None"
      "usable_account t (work s) ''1200'' = Some cash" "usable_account t (work s) ''1100'' = Some ar"
    and u: "announced (booked_db (paying (numbered payment_seq s) p full) t v (payment_row s p) received
        (a_id cash) (a_id ar)) (numbered payment_seq s) u"
  let ?b = "booked_db (paying (numbered payment_seq s) p full) t v (payment_row s p) received (a_id cash) (a_id ar)"
  from fit v have st: "i_status v = INVOICE_APPROVED" "received \<le> i_total v - paid_sum t i (work s)"
    by (auto simp: payment_preflight_def split: if_splits)
  have row: "payment_row (numbered payment_seq s) x = payment_row s x" for x by (simp add: payment_row_def)
  have "finance_wf ?b"
    using finance_booked [of "numbered payment_seq s" t i v p received full cash ar] wf v st p full ok
    by (simp add: row)
  moreover have tables: "payments (work u) = payments (work s) @ [payment_row s p]"
    "invoices (work u) = update_where (settles t i full) paid_invoice (invoices (work s))"
    "invoice_lines (work u) = invoice_lines (work s)" "accounts (work u) = accounts (work s)"
    "intents (work u) = intents (work s)" "clk u = clk s" "finance_wf (work u) = finance_wf ?b"
    using u p by (auto simp: announced_def booked_db_def paying_def paid_db_def with_entry_def Let_def row finance_unaffected)
  ultimately have wfu: "finance_wf (work u)" by simp
  have sums: "paid_sum t i (work u) = paid_sum t i (work s) + numeric 4 received"
    using p by (simp add: paid_sum_def tables paid_on_def)
  have sel: "select_one (invoice_key t i) (invoices (work u)) =
      Some (if received = i_total v - paid_sum t i (work s) then paid_invoice v else v)"
    using select_one_update_where [of "settles t i full" "invoice_key t i" paid_invoice "invoices (work s)"] v st full
      select_one_SomeD [OF v]
    by (auto simp: tables settles_def paid_invoice_def invoice_key_def)
  have "within_total (work u) (if received = i_total v - paid_sum t i (work s) then paid_invoice v else v)"
    using finance_wfD(3) [OF wfu] select_one_SomeD [OF sel] by (simp add: payments_wf_def)
  then have "paid_sum t i (work u) \<le> i_total v"
    using select_one_SomeD [OF v] by (auto simp: within_total_def paid_invoice_def invoice_key_def split: if_splits)
  moreover have "recorded (work u) t ''payment'' (pay_id (payment_row s p)) (numeric 4 received)"
    using finance_wfD(5) [OF wfu] p by (simp add: receipts_wf_def tables)
  moreover have "known_payment key (work u) t i txt paid_at = Some (payment_row s p)"
    using new p by (simp add: known_payment_def tables table_simps payment_source_def)
  ultimately show "finance_wf (work u) \<and> clk u = clk s \<and>
       (case known_payment key (work s) t i txt paid_at of
          Some q \<Rightarrow> payment_row s p = q \<and> u = s
        | None \<Rightarrow> payment_preflight (work s) t i received = None \<and>
            known_payment key (work u) t i txt paid_at = Some (payment_row s p) \<and>
            (\<exists>v. select_one (invoice_key t i) (invoices (work s)) = Some v \<and> i_status v = INVOICE_APPROVED \<and>
               payment_booked (work s) (work u) t i received (payment_row s p) v))"
    using wfu new fit v st sel sums p tables by (simp add: payment_booked_def known_payment_def)
qed (simp_all add: wf known_payment_def same_outside_work_def)


text \<open>
  C12. A payment whose amount is not a whole number of ten-thousandths is stored rounded, while
  the remaining balance is computed from the amount as given. When the rounded amount is all that is
  outstanding, the invoice stays approved with nothing left to pay, and no later payment can
  settle it: every amount is refused.
\<close>

theorem rounded_payment_sticks:
  assumes wf: "finance_wf (durable s)" and new: "known_payment key (durable s) t i txt paid_at = None"
    and v: "select_one (invoice_key t i) (invoices (durable s)) = Some v"
    and rounds: "numeric 4 received = i_total v - paid_sum t i (durable s)" "received \<noteq> i_total v - paid_sum t i (durable s)"
    and run: "run_request (apply_payment key t user i received txt method paid_at) s = (Inr p, u)"
  shows "select_one (invoice_key t i) (invoices (durable u)) = Some v \<and> i_status v = INVOICE_APPROVED \<and>
    paid_sum t i (durable u) = i_total v \<and> (\<forall>x. payment_preflight (durable u) t i x \<noteq> None)"
proof -
  have "outcome (run_request (apply_payment key t user i received txt method paid_at) s)
      (\<lambda>p u. \<exists>v. select_one (invoice_key t i) (invoices (durable s)) = Some v \<and> i_status v = INVOICE_APPROVED \<and>
         payment_booked (durable s) (durable u) t i received p v) (\<lambda>_ _. True)"
    by (rule outcomeI, rule wp_mono [OF apply_payment_effect]) (use new in \<open>auto simp: wf\<close>)
  then have "i_status v = INVOICE_APPROVED" "payment_booked (durable s) (durable u) t i received p v"
    using v by (simp_all add: run outcome_def)
  then show ?thesis using rounds by (simp add: payment_booked_def payment_preflight_def)
qed

text \<open>On the small books, whatever the inbox holds, any amount up to 100 can be received on invoice 301.\<close>

definition like_books :: "sess \<Rightarrow> bool" where
  "like_books s \<longleftrightarrow> (\<exists>x. work s = books_db\<lparr>intents := x\<rparr>) \<and> next_id s = 1000 \<and> instant (clk s) = 8"

lemma like_books_wf: "like_books s \<Longrightarrow> finance_wf (work s)"
  by (auto simp: like_books_def finance_unaffected)

lemma wp_books_payment:
  assumes s: "like_books s" and x: "0 < received" "0 < numeric 4 received" "received \<le> 100"
  shows "wp (apply_payment key 7 9 301 received txt m at_time) (\<lambda>_ _. True) (\<lambda>_ _. False) s"
proof -
  let ?s = "numbered payment_seq s" and ?v = "demo_invoice 301 ''INV-2'' INVOICE_APPROVED"
  from s obtain z where w: "work s = books_db\<lparr>intents := z\<rparr>" "next_id s = 1000" "instant (clk s) = 8"
    by (auto simp: like_books_def)
  have pays: "payments books_db = []" by (simp add: books_db_def empty_db_def)
  have v: "select_one (invoice_key 7 301) (invoices (work s)) = Some ?v"
    by (simp add: w demo_books_defs invoice_key_def)
  have acc: "usable_account 7 (work s) ''1200'' = Some (demo_account 201 ''1200'' ASSET)"
    "usable_account 7 (work s) ''1100'' = Some (demo_account 200 ''1100'' ASSET)"
    by (simp_all add: usable_account_def w demo_books_defs)
  have row: "payment_row ?s p = p\<lparr>pay_id := 1000, pay_amount := numeric 4 (pay_amount p)\<rparr>" for p
    by (simp add: payment_row_def w)
  have refusal: "payment_refusal ?s 7 ?v p full = None"
    if p: "pay_tenant p = 7" "pay_invoice p = 301" "pay_amount p = received" "pay_id p = 0" for p full
  proof -
    have "first_violation (payment_constraints (payment_row ?s p)) (work ?s) = None"
      unfolding first_violation_None payment_constraints_def
      using p x by (auto simp: w row invoice_key_def demo_books_defs empty_db_def split: option.split)
    moreover have "entry_refusal (paying ?s p full) (receipt_entry 7 8 ?v (payment_row ?s p)) (receipt_lines 201 200 received) = None"
      unfolding entry_refusal_None
      using x by (auto simp: w paying_def paid_db_def demo_books_defs entry_key_def same_source_def line_rows_def
        stored_line_def receipt_lines_def new_line_def one_sided_def account_key_def)
    ultimately show ?thesis
      using p acc w(3) by (simp add: payment_refusal_def booking_refusal_def usable_account_def paying_def paid_db_def demo_account_def)
  qed
  show ?thesis
    by (rule wp_apply_payment)
      (use v x refusal in \<open>auto simp: w pays payment_preflight_def paid_sum_def demo_invoice_def next_payment_def manual_payment_def\<close>)
qed

lemma wp_books_accept:
  assumes s: "like_books s" and p: "select_one (intent_key 7 i) (intents (work s)) = Some p" "unresolved p" "pi_amount p = 100"
  shows "wp (accept key 7 9 i 301) (\<lambda>_ _. True) (\<lambda>_ _. False) s"
  unfolding accept_def wp_bind wp_get_intent p(1) option.case wp_then wp_require if_P [OF p(2) [unfolded unresolved_iff]] wp_gets
  apply (rule wp_mono [OF wp_conj [OF wp_books_payment [OF s] apply_payment_effect [OF like_books_wf [OF s]]]])
  using p intent_selected [OF p(1)]
  by (auto simp: wp_update_payment_intent wp_the_or_raise wp_audit_by wp_return applied_intent_def payment_booked_def
      numeric_nonneg split: option.splits)

lemma run_returns:
  assumes "wp m (\<lambda>_ _. True) (\<lambda>_ _. False) (begin_state s)"
  shows "\<exists>a u. run_request m s = (Inr a, u)"
proof -
  have "outcome (run_request m s) (\<lambda>_ _. True) (\<lambda>_ _. False)" by (rule outcomeI) (use assms in simp)
  then show ?thesis by (auto simp: outcome_def split: prod.splits sum.splits)
qed

lemma books_payment:
  assumes "0 < received" "0 < numeric 4 received" "received \<le> 100"
  shows "\<exists>p u. run_request (apply_payment key 7 9 301 received txt m at_time) books = (Inr p, u)"
  by (rule run_returns, rule wp_books_payment) (use assms in \<open>auto simp: like_books_def intro: exI [of _ "intents books_db"]\<close>)

definition demo_time :: clock where
  "demo_time = \<lparr>instant = 3, today = 6, year = 2026\<rparr>"

lemma books_301: "select_one (invoice_key 7 301) (invoices books_db) = Some (demo_invoice 301 ''INV-2'' INVOICE_APPROVED)"
  "known_payment key books_db t i txt at_time = None" "paid_sum t i books_db = 0"
  by (simp_all add: demo_books_defs invoice_key_def known_payment_def empty_db_def paid_sum_def)


text \<open>99.99999 is stored as 100.\<close>

lemma numeric_99: "numeric 4 (9999999 / 100000) = 100"
proof -
  have "round_half_up (9999999 / 10) = 1000000" by (simp add: round_half_up_def floor_eq_iff)
  then show ?thesis by (simp add: numeric_def)
qed

lemma rounded_payment_sticks_witness:
  "\<exists>p u. run_request (apply_payment (\<lambda>_ _ _. 0) 7 9 301 (9999999 / 100000) ''99.99999'' ''cash'' demo_time) books = (Inr p, u) \<and>
     paid_sum 7 301 (durable u) = 100 \<and> (\<forall>x. payment_preflight (durable u) 7 301 x \<noteq> None)"
proof -
  obtain p u where run: "run_request (apply_payment (\<lambda>_ _ _. 0) 7 9 301 (9999999 / 100000) ''99.99999'' ''cash'' demo_time) books = (Inr p, u)"
    using books_payment [of "9999999 / 100000" "\<lambda>_ _ _. 0" "''99.99999''" "''cash''" demo_time] numeric_99 by auto
  have "i_total (demo_invoice 301 ''INV-2'' INVOICE_APPROVED) = 100" by (simp add: demo_invoice_def)
  with rounded_payment_sticks [OF _ _ _ _ _ run] run show ?thesis
    by (auto simp: books_301 numeric_99)
qed

lemma accept_effect:
  assumes wf: "finance_wf (work s)" and p: "select_one (intent_key t i) (intents (work s)) = Some p"
  shows "wp (accept key t user i v)
    (\<lambda>r u. unresolved p \<and> finance_wf (work u) \<and> clk u = clk s \<and> pi_status r = INTENT_APPLIED \<and>
       (\<forall>j. j \<noteq> i \<longrightarrow> select_one (intent_key t j) (intents (work u)) = select_one (intent_key t j) (intents (work s))) \<and>
       (\<exists>paid. pi_applied_payment r = Some (pay_id paid) \<and> pi_applied_invoice r = Some v \<and>
         known_payment key (work u) t v (amount_text (pi_amount p)) (pi_paid_at p) = Some paid) \<and>
       (known_payment key (work s) t v (amount_text (pi_amount p)) (pi_paid_at p) \<noteq> None \<longrightarrow>
         payments (work u) = payments (work s) \<and> entries (work u) = entries (work s) \<and>
         invoices (work u) = invoices (work s)))
    (\<lambda>e u. unresolved p \<longrightarrow> known_payment key (work s) t v (amount_text (pi_amount p)) (pi_paid_at p) = None) s"
proof (cases "unresolved p")
  case False
  then show ?thesis using p by (auto simp: accept_def wp_flow wp_get_intent unresolved_iff)
next
  case True
  let ?k = "\<lambda>d. known_payment key d t v (amount_text (pi_amount p)) (pi_paid_at p)"
  note ids = intent_selected [OF p]
  have keep: "?k (d\<lparr>audit_logs := x\<rparr>) = ?k d" "?k (restamp_intents q d) = ?k d" for d q x
    by (simp_all add: known_payment_def restamp_intents_def)
  show ?thesis
    unfolding accept_def wp_bind wp_get_intent p option.case wp_then wp_require if_P [OF True [unfolded unresolved_iff]] wp_gets
    apply (rule wp_mono [OF apply_payment_effect [OF wf]])
    subgoal premises prems for paid u
    proof -
      have paid: "?k (work u) = Some paid" and old: "?k (work s) \<noteq> None \<Longrightarrow> u = s" and wfu: "finance_wf (work u)" and
        clock: "clk u = clk s"
        using prems by (auto split: option.splits)
      have ints: "intents (work u) = intents (work s)" using prems by (auto simp: payment_booked_def split: option.splits)
      have other: "select_one (intent_key t j) (intents (restamp_intents (applied_intent v pid now user p) d)) =
          select_one (intent_key t j) (intents d)" if "j \<noteq> i" for j pid now d
        unfolding restamp_intents_def
        using that ids by (simp, intro select_one_update_other) (auto simp: applied_intent_def intent_key_def restamped_def)
      have sel: "select_one (intent_key (pi_tenant (applied_intent v n m user p)) (pi_id (applied_intent v n m user p)))
          (intents (work s)) = Some p" for n m
        using p ids by (simp add: applied_intent_def)
      show ?thesis
        using True paid old wfu other clock
        by (auto simp: wp_update_payment_intent ints sel wp_the_or_raise wp_audit_by wp_return keep finance_restamp finance_unaffected)
          (auto simp: restamped_def applied_intent_def restamp_intents_def)
    qed
    by auto
qed

text \<open>
  Two receipts of one amount and one time accepted on one invoice become one payment: the
  second acceptance succeeds, is marked applied to the payment of the first, and adds no payment
  and no journal entry, so its money is not in the books.
\<close>

lemma identical_receipts_collapse:
  assumes wf: "finance_wf (durable s)"
    and first: "run_request (accept key t user i v) s = (Inr r, u)"
    and p: "select_one (intent_key t i) (intents (durable s)) = Some p"
    and q: "select_one (intent_key t j) (intents (durable u)) = Some q" "unresolved q"
    and same: "pi_amount q = pi_amount p" "pi_paid_at q = pi_paid_at p"
  shows "outcome (run_request (accept key t user' j v) u)
    (\<lambda>r' w. pi_status r' = INTENT_APPLIED \<and> pi_applied_payment r' = pi_applied_payment r \<and>
       payments (durable w) = payments (durable u) \<and> entries (durable w) = entries (durable u) \<and>
       invoices (durable w) = invoices (durable u)) (\<lambda>_ _. False)"
proof -
  have "outcome (run_request (accept key t user i v) s)
      (\<lambda>r u. finance_wf (durable u) \<and> (\<exists>paid. pi_applied_payment r = Some (pay_id paid) \<and>
         known_payment key (durable u) t v (amount_text (pi_amount p)) (pi_paid_at p) = Some paid)) (\<lambda>_ _. True)"
    by (rule outcomeI, rule wp_mono [OF accept_effect]) (use p in \<open>auto simp: wf\<close>)
  then obtain paid where u: "finance_wf (durable u)" "pi_applied_payment r = Some (pay_id paid)"
    "known_payment key (durable u) t v (amount_text (pi_amount q)) (pi_paid_at q) = Some paid"
    by (auto simp: first outcome_def same)
  show ?thesis
    by (rule outcomeI, rule wp_mono [OF accept_effect [where p = q]]) (use q u in \<open>auto simp: known_payment_def\<close>)
qed

definition twins :: sess where
  "twins = books\<lparr>durable := books_db\<lparr>intents := [demo_intent, demo_intent\<lparr>pi_id := 501\<rparr>]\<rparr>\<rparr>"

lemma identical_receipts_collapse_witness:
  "\<exists>r u. run_request (accept (\<lambda>_ _ _. 0) 7 9 500 301) twins = (Inr r, u) \<and>
     outcome (run_request (accept (\<lambda>_ _ _. 0) 7 9 501 301) u)
       (\<lambda>r' w. pi_applied_payment r' = pi_applied_payment r \<and> payments (durable w) = payments (durable u)) (\<lambda>_ _. False)"
proof -
  have like: "like_books (begin_state twins)"
    by (auto simp: like_books_def twins_def books_def intro: exI [of _ "[demo_intent, demo_intent\<lparr>pi_id := 501\<rparr>]"])
  have p: "select_one (intent_key 7 500) (intents (durable twins)) = Some demo_intent"
    "select_one (intent_key 7 501) (intents (durable twins)) = Some (demo_intent\<lparr>pi_id := 501\<rparr>)"
    "unresolved demo_intent" "pi_amount demo_intent = 100"
    by (simp_all add: twins_def demo_intent_def intent_key_def unresolved_def)
  from run_returns [OF wp_books_accept [OF like, where i = 500 and p = demo_intent]] p
  obtain r u where run: "run_request (accept (\<lambda>_ _ _. 0) 7 9 500 301) twins = (Inr r, u)" by fastforce
  have wf: "finance_wf (durable twins)" using like_books_wf [OF like] by simp
  have "outcome (run_request (accept (\<lambda>_ _ _. 0) 7 9 500 301) twins)
      (\<lambda>r u. select_one (intent_key 7 501) (intents (durable u)) = select_one (intent_key 7 501) (intents (durable twins))) (\<lambda>_ _. True)"
    by (rule outcomeI, rule wp_mono [OF accept_effect]) (use p wf in auto)
  then have q: "select_one (intent_key 7 501) (intents (durable u)) = Some (demo_intent\<lparr>pi_id := 501\<rparr>)"
    by (simp add: run outcome_def p)
  have "unresolved (demo_intent\<lparr>pi_id := 501\<rparr>)" by (simp add: unresolved_def demo_intent_def)
  from identical_receipts_collapse [OF wf run p(1) q this, where user' = 9]
  show ?thesis using run by (auto elim: outcome_mono)
qed



end
