(* ===== verification/Finance_Invariants.thy ===== *)
theory Finance_Invariants
  imports Receipt_Links Finance_Theorems
begin

text \<open>
  The finance service and the payment inbox as one state machine: the requests of their routers
  and the calls other services make of them, in any order, for any tenant and arguments, each at its
  own reading of the clock. What every reachable state satisfies.
\<close>

section \<open>Requests and runs\<close>

inductive finance_request :: "payment_hash \<Rightarrow> string \<Rightarrow> unit service \<Rightarrow> bool" for key dc where
  new_account: "finance_request key dc (request (create_account t code name ty))"
| closed_account: "finance_request key dc (request (deactivate_account t i))"
| manual_entry: "finance_request key dc (request (create_manual_entry t day memo ls))"
| entry_posted: "finance_request key dc (request (post_journal_entry None t user i))"
| entry_voided: "finance_request key dc (request (void_journal_entry t user i))"
| entry_reversed: "finance_request key dc (request (reverse_journal_entry t user i))"
| new_period: "finance_request key dc (request (create_fiscal_period t name first_day last_day))"
| closed_period: "finance_request key dc (request (close_fiscal_period t i))"
| new_rate: "finance_request key dc (request (set_exchange_rate t base quote day rate))"
| manual_invoice: "finance_request key dc (request (create_manual_invoice dc t user customer at_time due ils cur))"
| order_invoice: "finance_request key dc (request (create_from_order dc order))"
| invoice_issued: "finance_request key dc (request (issue_invoice t user i))"
| invoice_approved: "finance_request key dc (request (approve_invoice t user i))"
| invoice_voided: "finance_request key dc (request (void_invoice t user i))"
| payment_applied: "finance_request key dc (request (apply_payment key t user i received txt meth at_time))"
| cogs_posted: "finance_request key dc (request (post_cogs_for_order t order_ref day costs))"
| payroll_accrued: "finance_request key dc (request (create_payroll_accrual_draft t run day gross net))"
| receipt_registered: "finance_request key dc (request (register t user body))"
| receipt_accepted: "finance_request key dc (request (accept key t user i v))"
| receipts_accepted: "finance_request key dc (request (bulk_accept key t user items))"
| receipt_undone: "finance_request key dc (request (undo t user i))"
| receipt_dismissed: "finance_request key dc (request (dismiss t user i))"

text \<open>One request, by whoever is signed in, at whatever time.\<close>

inductive finance_step :: "payment_hash \<Rightarrow> string \<Rightarrow> sess \<Rightarrow> sess \<Rightarrow> bool" for key dc where
  step: "finance_request key dc m \<Longrightarrow>
    finance_step key dc s (snd (run_request m (s\<lparr>clk := now, ctx_user := who\<rparr>)))"

inductive_cases finance_stepE: "finance_step key dc s s'"

definition finance_run :: "payment_hash \<Rightarrow> string \<Rightarrow> sess \<Rightarrow> sess \<Rightarrow> bool" where
  "finance_run key dc = (finance_step key dc)\<^sup>*\<^sup>*"

text \<open>What every state of the machine satisfies.\<close>

definition books_sound :: "payment_hash \<Rightarrow> nat \<Rightarrow> db \<Rightarrow> bool" where
  "books_sound key n d \<longleftrightarrow> finance_wf d \<and> intents_wf d \<and> links_sound key n d"

section \<open>Every request keeps the invariant\<close>

lemmas finance_other_requests = finance_account_requests finance_journal_requests finance_post_journal_entry
  finance_period_requests finance_set_exchange_rate finance_invoice_flips finance_approve_invoice
  finance_create_manual_invoice finance_create_from_order finance_apply_payment finance_post_cogs
  finance_payroll_accrual finance_register finance_accept finance_dismiss finance_bulk_accept

lemma finance_request_keeps:
  "finance_request key dc m \<Longrightarrow> (\<exists>t user i. m = request (undo t user i)) \<or> keeps finance_wf m"
  by (induction rule: finance_request.induct)
    ((rule disjI2, rule keeps_request, rule finance_other_requests) | (rule disjI1, intro exI, rule refl))+

lemma finance_undo_request:
  assumes "links_sound key (next_id s) (durable s)" "finance_wf (durable s)"
  shows "finance_wf (durable (snd (run_request (request (undo t user i)) s)))"
proof -
  have "case run_request (request (undo t user i)) s of (r, u) \<Rightarrow> finance_wf (durable u)"
  proof (rule run_request_wp)
    have "wp (undo t user i) (\<lambda>_ u. finance_wf (work u)) (\<lambda>_ u. u = begin_state s) (begin_state s)"
      by (rule finance_undo) (use assms in \<open>simp_all add: links_sound_def\<close>)
    then show "wp (request (undo t user i)) (\<lambda>a u. finance_wf (durable (commit_state u)))
        (\<lambda>e u. finance_wf (durable (rollback_state u))) (begin_state s)"
      unfolding request_def wp_then wp_return by (rule wp_mono) (simp_all add: assms(2))
  qed
  then show ?thesis by (simp add: case_prod_unfold)
qed

lemma finance_request_finance:
  assumes "finance_request key dc m" "links_sound key (next_id s) (durable s)" "finance_wf (durable s)"
  shows "finance_wf (durable (snd (run_request m s)))"
  using finance_request_keeps [OF assms(1)] finance_undo_request [OF assms(2,3)] run_request_keeps assms(3) by blast

text \<open>The requests that touch neither a payment nor a receipt.\<close>

lemmas service_reads = finance_read_defs resolve_line_def resolve_invoice_line_def resolve_billing_line_def
  billing_account_def check_invoice_line_def announce_invoice_created_def sum_payments_for_invoice_def

lemmas service_writes = create_account_row_def deactivate_account_row_def post_journal_entry_row_def
  void_journal_entry_row_def reverse_journal_entry_row_def flip_entry_def create_fiscal_period_row_def
  close_fiscal_period_row_def upsert_exchange_rate_def issue_invoice_row_def approve_invoice_row_def
  void_invoice_row_def flip_invoice_def complete_posting_def

context supply_invariant begin

lemmas up_steps = up_intros up_shared

lemma up_journal_requests:
  "keeps_up I (create_account t code name ty)" "keeps_up I (deactivate_account t i)"
  "keeps_up I (create_manual_entry t day memo ls)" "keeps_up I (post_journal_entry None t user i)"
  "keeps_up I (void_journal_entry t user i)" "keeps_up I (reverse_journal_entry t user i)"
  "keeps_up I (create_fiscal_period t name first_day last_day)" "keeps_up I (close_fiscal_period t i)"
  "keeps_up I (set_exchange_rate t base quote day rate)"
  unfolding create_account_def deactivate_account_def create_manual_entry_def post_journal_entry_def
    void_journal_entry_def reverse_journal_entry_def create_fiscal_period_def close_fiscal_period_def
    set_exchange_rate_def service_writes service_reads Let_def option.case
  by (intro up_steps; simp)+

lemma up_billing_requests:
  "keeps_up I (create_manual_invoice dc t user customer at_time due ils cur)" "keeps_up I (create_from_order dc order)"
  "keeps_up I (issue_invoice t user i)" "keeps_up I (approve_invoice t user i)" "keeps_up I (void_invoice t user i)"
  "keeps_up I (post_cogs_for_order t order_ref day costs)" "keeps_up I (create_payroll_accrual_draft t run day gross net)"
  unfolding create_manual_invoice_def create_from_order_def issue_invoice_def approve_invoice_def void_invoice_def
    post_cogs_for_order_def create_payroll_accrual_draft_def service_writes service_reads Let_def
  by (intro up_steps; simp)+

end

lemma up_request: "keeps_up I m \<Longrightarrow> keeps_up I (request m)"
  unfolding request_def by (intro up_intros)

lemma up_of_keeps: "keeps P m \<Longrightarrow> keeps_up (\<lambda>_. P) m"
  by (simp add: keeps_def keeps_up_def)

text \<open>Receipts do not move without the inbox, whatever the identifiers in use.\<close>

interpretation receipts: supply_invariant "\<lambda>_. intents_wf"
  by unfold_locales (simp_all add: intents_wf_def)

lemma links_request:
  "separates_invoices key \<Longrightarrow> finance_request key dc m \<Longrightarrow> keeps_up (links_sound key) m"
  by (erule finance_request.induct;
      intro up_request links.up_journal_requests links.up_billing_requests up_apply_payment links_register
        links_accept links_bulk_accept links_undo links_dismiss)

lemma inbox_request: "finance_request key dc m \<Longrightarrow> keeps_up (\<lambda>_. intents_wf) m"
  by (erule finance_request.induct;
      intro up_request receipts.up_journal_requests receipts.up_billing_requests up_of_keeps
        inbox_apply_payment inbox_register inbox_accept inbox_bulk_accept inbox_undo inbox_dismiss)

lemma books_sound_request:
  assumes "separates_invoices key" "finance_request key dc m" "books_sound key (next_id s) (durable s)"
  shows "books_sound key (next_id (snd (run_request m s))) (durable (snd (run_request m s)))"
  using assms run_request_up [OF links_request [OF assms(1,2)], of s] run_request_up [OF inbox_request [OF assms(2)], of s]
    finance_request_finance [OF assms(2), of s]
  by (simp add: books_sound_def)

lemma books_sound_step:
  assumes "separates_invoices key" "finance_step key dc s s'" "books_sound key (next_id s) (durable s)"
  shows "books_sound key (next_id s') (durable s')"
  using assms(2)
proof (rule finance_stepE)
  fix m now who
  assume "s' = snd (run_request m (s\<lparr>clk := now, ctx_user := who\<rparr>))" "finance_request key dc m"
  then show ?thesis using books_sound_request [OF assms(1), of dc m "s\<lparr>clk := now, ctx_user := who\<rparr>"] assms(3) by simp
qed

lemma books_sound_run:
  assumes "separates_invoices key" "finance_run key dc s s'" "books_sound key (next_id s) (durable s)"
  shows "books_sound key (next_id s') (durable s')"
  using assms(2,3) unfolding finance_run_def
  by (induction rule: rtranclp_induct) (auto intro: books_sound_step [OF assms(1)])

end
