(* ===== verification/Trade_Invariants.thy ===== *)
theory Trade_Invariants
  imports Finance_Invariants Inventory_Orders
begin

text \<open>
  Invariants of the tables that trade moves (catalog, warehouses, stock, customers, orders) and of the
  approval tables, which no finance request writes: whatever depends on them alone is kept by every
  request of the finance service and of the payment inbox.
\<close>

definition same_trade :: "db \<Rightarrow> db \<Rightarrow> bool" where
  "same_trade d d' \<longleftrightarrow> products d' = products d \<and> warehouses d' = warehouses d \<and> levels d' = levels d \<and>
     movements d' = movements d \<and> customers d' = customers d \<and> orders d' = orders d \<and> order_lines d' = order_lines d \<and>
     approvals d' = approvals d"

locale trade_invariant =
  fixes P :: "db \<Rightarrow> bool"
  assumes elsewhere: "P d \<Longrightarrow> same_trade d d' \<Longrightarrow> P d'"
begin

lemma trade_write: "(\<And>d. same_trade d (f d)) \<Longrightarrow> keeps P (writeM f)"
  by (rule keeps_write) (rule elsewhere)

lemma trade_shared:
  "keeps P (audit_by tenant who act tgt details)" "keeps P (record_timeline_event tenant et ei ev title actor facts)"
  "keeps P (next_value tenant entity)"
  unfolding audit_by_def record_timeline_event_def next_value_def bump_sequence_def
  by (intro keeps_intros trade_write; simp add: same_trade_def)+

lemma trade_entry: "keeps P (create_journal_entry x)"
  and trade_invoice: "keeps P (create_invoice y)"
  and trade_payment: "keeps P (create_payment z)"
  and trade_new_intent: "keeps P (create_payment_intent q)"
  and trade_intent: "keeps P (update_payment_intent q)"
  unfolding create_journal_entry_def create_invoice_def create_payment_def create_payment_intent_def
    update_payment_intent_def get_payment_intent_def Let_def
  by (intro keeps_intros trade_write; simp add: same_trade_def split: prod.split)+

lemma trade_delete: "keeps P (delete_payment i t)"
  unfolding delete_payment_def delete_journal_entry_by_source_ref_def get_payment_row_def
  by (intro keeps_intros trade_write; simp add: same_trade_def)+

lemma trade_settle: "keeps P (settle_invoice_payment_status i t)"
  unfolding settle_invoice_payment_status_def sum_payments_for_invoice_def get_invoice_row_def
  by (intro keeps_intros trade_write; simp add: same_trade_def)+

lemmas trade_steps = keeps_intros trade_shared trade_entry trade_invoice trade_payment trade_new_intent
  trade_intent trade_delete trade_settle trade_write

lemma trade_journal_requests:
  "keeps P (create_account t code name ty)" "keeps P (deactivate_account t i)"
  "keeps P (create_manual_entry t day memo ls)" "keeps P (post_journal_entry None t user i)"
  "keeps P (void_journal_entry t user i)" "keeps P (reverse_journal_entry t user i)"
  "keeps P (create_fiscal_period t name first_day last_day)" "keeps P (close_fiscal_period t i)"
  "keeps P (set_exchange_rate t base quote day rate)"
  unfolding create_account_def deactivate_account_def create_manual_entry_def post_journal_entry_def
    void_journal_entry_def reverse_journal_entry_def create_fiscal_period_def close_fiscal_period_def
    set_exchange_rate_def service_writes service_reads Let_def option.case
  by (intro trade_steps; simp add: same_trade_def)+

lemma trade_billing_requests:
  "keeps P (create_manual_invoice dc t user customer at_time due ils cur)" "keeps P (create_from_order dc order)"
  "keeps P (issue_invoice t user i)" "keeps P (approve_invoice t user i)" "keeps P (void_invoice t user i)"
  "keeps P (post_cogs_for_order t order_ref day costs)" "keeps P (create_payroll_accrual_draft t run day gross net)"
  unfolding create_manual_invoice_def create_from_order_def issue_invoice_def approve_invoice_def void_invoice_def
    post_cogs_for_order_def create_payroll_accrual_draft_def service_writes service_reads Let_def
  by (intro trade_steps; simp add: same_trade_def)+

lemma trade_apply_payment: "keeps P (apply_payment key t user i received txt meth at_time)"
  unfolding apply_payment_def book_payment_def preflight_payment_def active_account_def
    get_payment_by_source_ref_def next_payment_number_def mark_invoice_paid_def
    get_invoice_for_update_def service_writes service_reads Let_def
  by (intro trade_steps; simp add: same_trade_def)+

lemma trade_inbox_requests:
  "keeps P (register t user body)" "keeps P (accept key t user i v)" "keeps P (bulk_accept key t user items)"
  "keeps P (undo t user i)" "keeps P (dismiss t user i)"
  unfolding register_def score_for_def outstanding_invoices_def accept_def bulk_accept_def prevalidate_item_def
    undo_def dismiss_def get_intent_def get_payment_intent_def preflight_payment_def get_invoice_for_update_def
    sum_payments_for_invoice_def Let_def
  by (intro trade_steps trade_apply_payment)+

lemma trade_finance_request: "finance_request key dc m \<Longrightarrow> keeps P m"
  by (erule finance_request.induct;
      intro keeps_request trade_journal_requests trade_billing_requests trade_apply_payment trade_inbox_requests)

end

sublocale trade_invariant \<subseteq> table_invariant
  by unfold_locales (auto intro: elsewhere simp: same_trade_def)

section \<open>The stock\<close>

lemma stock_wf_trade: "stock_wf d \<Longrightarrow> same_trade d d' \<Longrightarrow> stock_wf d'"
  using stock_wf_cong [of d d'] by (simp add: same_trade_def)

interpretation stock_trade: trade_invariant stock_wf
  by unfold_locales (rule stock_wf_trade)

end
