(* ===== verification/Sales_Ledger.thy ===== *)
theory Sales_Ledger
  imports Sales_Service Inventory_Orders Trade_Invariants
begin

text \<open>
  What every sales request keeps. The contract between an invariant and the sales service, the
  invariant of the order tables, and the abstract life of an order that the requests refine.
\<close>

section \<open>Writing orders and lines\<close>

definition order_line_rows :: "nat \<Rightarrow> uuid \<Rightarrow> order_line list \<Rightarrow> order_line list" where
  "order_line_rows n i ls = map (\<lambda>(k, l). stored_order_line k i l) (enumerate n ls)"

lemma order_line_rows_Nil [simp]: "order_line_rows n i [] = []"
  by (simp add: order_line_rows_def)

lemma order_line_rows_Cons [simp]:
  "order_line_rows n i (l # ls) = stored_order_line n i l # order_line_rows (Suc n) i ls"
  by (simp add: order_line_rows_def)

lemma order_line_rows_eq_Nil [simp]: "order_line_rows n i ls = [] \<longleftrightarrow> ls = []"
  by (simp add: order_line_rows_def flip: length_0_conv)

lemma wp_insert_order_lines:
  "wp (insert_order_lines i ls) Q E s =
     (let rows = order_line_rows (next_id s) i ls in
      case first_violation (concat (map order_line_constraints rows)) (work s) of
        None \<Rightarrow> Q () (s\<lparr>work := (work s)\<lparr>order_lines := order_lines (work s) @ rows\<rparr>,
          next_id := next_id s + length ls\<rparr>)
      | Some c \<Rightarrow> E (IntegrityError c) (s\<lparr>next_id := next_id s + length ls\<rparr>))"
  unfolding insert_order_lines_def wp_bind wp_number_lines order_line_rows_def [symmetric]
  by (simp add: wp_then wp_check_all_violation wp_write Let_def split: option.split)

text \<open>What the lines of an order add up to, and what \<open>_build_lines\<close> and \<open>_totals\<close> hand to the repository.\<close>

definition line_fits :: "uuid \<Rightarrow> order_line \<Rightarrow> bool" where
  "line_fits t l \<longleftrightarrow> ol_tenant l = t \<and> at_scale 2 (ol_discount l) \<and> at_scale 2 (ol_tax l) \<and> at_scale 2 (ol_total l)"

definition adds_up :: "order_line list \<Rightarrow> decimal \<Rightarrow> decimal \<Rightarrow> decimal \<Rightarrow> decimal \<Rightarrow> bool" where
  "adds_up ls subtotal discount tax due \<longleftrightarrow>
     subtotal = sum_list (map ol_total ls) \<and> discount = sum_list (map ol_discount ls) \<and>
     tax = sum_list (map ol_tax ls) \<and> due = subtotal - discount + tax"

definition priced :: "uuid \<Rightarrow> order_line list \<times> order_totals \<times> string \<Rightarrow> bool" where
  "priced t x \<longleftrightarrow> (case x of (ls, tot, _) \<Rightarrow> ls \<noteq> [] \<and> (\<forall>l \<in> set ls. line_fits t l) \<and>
     adds_up ls (tot_subtotal tot) (tot_discount tot) (tot_tax tot) (tot_total tot))"

lemma at_scale_2_4: "at_scale 2 x \<Longrightarrow> at_scale 4 x"
proof -
  assume "at_scale 2 x"
  then obtain n where "x = of_int n / 10 ^ 2" by (auto simp: at_scale_iff)
  then have "x = of_int (n * 100) / 10 ^ 4" by simp
  then show ?thesis unfolding at_scale_iff by blast
qed

lemma stored_line_totals:
  assumes "\<forall>l \<in> set ls. line_fits t l"
  shows "map ol_total (order_line_rows n i ls) = map ol_total ls"
    "map ol_discount (order_line_rows n i ls) = map ol_discount ls"
    "map ol_tax (order_line_rows n i ls) = map ol_tax ls"
  using assms by (induction ls arbitrary: n) (simp_all add: stored_order_line_def line_fits_def at_scale_2_4)

lemma stored_line_keys:
  "\<forall>l \<in> set ls. line_fits t l \<Longrightarrow> l \<in> set (order_line_rows n i ls) \<Longrightarrow> ol_tenant l = t \<and> ol_order l = i"
  by (induction ls arbitrary: n) (auto simp: stored_order_line_def line_fits_def)

lemma priced_scale:
  assumes "\<forall>l \<in> set ls. line_fits t l" "adds_up ls a b c e"
  shows "at_scale 4 a" "at_scale 4 b" "at_scale 4 c" "at_scale 4 e"
proof -
  from assms(1) have "at_scale 4 (sum_list (map f ls))" if "f \<in> {ol_total, ol_discount, ol_tax}" for f
    by (rule_tac at_scale_sum_list) (use that in \<open>auto simp: line_fits_def at_scale_2_4\<close>)
  with assms(2) show "at_scale 4 a" "at_scale 4 b" "at_scale 4 c" "at_scale 4 e"
    by (simp_all add: adds_up_def at_scale_add at_scale_diff)
qed

lemma quantize_money_value: "quantize_money x = Inr y \<Longrightarrow> y = quantize 2 x"
  by (simp add: quantize_money_def quantize_ctx_def Let_def split: if_splits)

lemma lines_fit:
  "yields (\<lambda>x. (\<forall>l \<in> set (fst x). line_fits t l) \<and> (xs \<noteq> [] \<longrightarrow> fst x \<noteq> [])) (build_lines_from t cur xs)"
proof (induction xs arbitrary: cur)
  case (Cons x xs)
  show ?case
    unfolding build_lines_from.simps
    apply (rule yields_then, rule yields_bind, rule yields_then, rule yields_then)
    apply (rule yields_bind_yields [where R = "at_scale 2"])
     apply (rule yields_result, drule quantize_money_value, simp)
    apply (rule yields_bind_yields [OF Cons.IH])
    apply (auto intro!: yields_return simp: line_fits_def snapshot_line_def split: prod.split)
    done
qed (simp add: yields_intros)

lemma built_lines_fit: "yields (\<lambda>x. fst x \<noteq> [] \<and> (\<forall>l \<in> set (fst x). line_fits t l)) (build_lines xs t)"
proof (cases "xs = []")
  case False
  then show ?thesis
    unfolding build_lines_def
    apply (intro yields_then)
    apply (rule yields_bind_yields [OF lines_fit [where t = t]])
    apply (auto intro!: yields_bind yields_return split: prod.split)
    done
qed (simp add: build_lines_def yields_def wp_simps)

lemma totals_add_up:
  assumes "ls \<noteq> []" "\<forall>l \<in> set ls. line_fits t l"
  shows "yields (\<lambda>tot. priced t (ls, tot, cur)) (order_totals_of ls)"
proof -
  have "at_scale 2 (sum_list (map f ls))" if "f \<in> {ol_total, ol_discount, ol_tax}" for f
    using assms(2) that by (intro at_scale_sum_list) (auto simp: line_fits_def)
  from this [of ol_total] this [of ol_discount] this [of ol_tax]
  have sc: "at_scale 2 (sum_list (map ol_total ls))" "at_scale 2 (sum_list (map ol_discount ls))"
    "at_scale 2 (sum_list (map ol_tax ls))" by simp_all
  then have "at_scale 2 (sum_list (map ol_total ls) - sum_list (map ol_discount ls) + sum_list (map ol_tax ls))"
    by (intro at_scale_add at_scale_diff)
  note exact = sc [unfolded at_scale_def] this [unfolded at_scale_def]
  show ?thesis
    unfolding order_totals_of_def Let_def
    by (rule yields_bind_yields, rule yields_result, drule quantize_money_value, assumption)+
      (rule yields_return, simp add: priced_def adds_up_def assms exact)
qed

lemma keeps_list [keeps_intros]:
  "(xs = [] \<Longrightarrow> keeps P m) \<Longrightarrow> (\<And>y ys. xs = y # ys \<Longrightarrow> keeps P (f y ys)) \<Longrightarrow>
     keeps P (case xs of [] \<Rightarrow> m | y # ys \<Rightarrow> f y ys)"
  by (cases xs) simp_all

section \<open>The contract between an invariant and the sales service\<close>

inductive sales_request :: "string \<Rightarrow> uuid \<Rightarrow> unit service \<Rightarrow> bool" for dc t where
  order_created: "sales_request dc t (request (create_order t customer xs))"
| draft_updated: "sales_request dc t (request (update_draft_order i t who new))"
| order_confirmed: "sales_request dc t (request (confirm_order i t))"
| order_fulfilled: "sales_request dc t (request (fulfil_order dc i t))"
| order_cancelled: "sales_request dc t (request (cancel_order i t))"

locale sales_kept = table_invariant +
  fixes dc :: string and t :: uuid
  assumes kept_bulk: "keeps P (reserve_order rt t w i ls)" "keeps P (release_order rt t w i ls)"
      "keeps P (fulfil_order_lines rt t w i ls)"
    and kept_invoice: "keeps P (create_from_order dc b)"
    and kept_cogs: "keeps P (post_cogs_for_order t r day costs)"
    and kept_draft: "priced t (ls, tot, cur) \<Longrightarrow> keeps P (create_order_row (new_order t number customer tot cur) ls)"
    and kept_redraft: "(\<And>x. built = Some x \<Longrightarrow> priced t x) \<Longrightarrow>
      keeps P (update_draft_row i t who (map_option fst built) (map_option snd built))"
    and kept_moves: "keeps P (confirm_order_row i t at_time credit)" "keeps P (fulfil_order_row i t)"
      "keeps P (cancel_order_row i t)" "keeps P (mark_credit_check_failed i t)"
begin

lemmas kept_sales = audit_keeps timeline_keeps next_value_keeps kept_bulk kept_invoice kept_cogs kept_moves

lemmas sales_reads = get_order_def get_order_row_def require_customer_def list_order_lines_rows_def
  resolve_warehouse_def list_warehouses_def reprobe_def emit_order_created_def emit_order_confirmed_def
  emit_order_fulfilled_def emit_order_cancelled_def sales_event_def next_order_number_def

lemma keeps_lines: "keeps P (build_lines_from t' cur xs)"
  by (induction xs arbitrary: cur)
    (auto intro!: keeps_intros simp: require_sold_product_def get_product_def)

lemma keeps_build: "keeps P (build_lines xs t')"
  unfolding build_lines_def by (intro keeps_intros keeps_lines)

lemma keeps_totals: "keeps P (order_totals_of ls)"
  unfolding order_totals_of_def Let_def by (intro keeps_intros)

lemma create_kept: "keeps P (create_order t customer xs)"
  unfolding create_order_def
  apply (rule keeps_bind, simp add: sales_reads, intro keeps_intros)
  apply (rule keeps_then, rule keeps_require)
  apply (rule keeps_bind_yields [OF keeps_build built_lines_fit])
  apply (rule keeps_prod)
  apply (rule keeps_bind, simp add: sales_reads, intro keeps_intros next_value_keeps)
  apply (rule keeps_bind_yields [OF keeps_totals totals_add_up [where t = t]], simp, simp)
  apply (rule keeps_bind, rule kept_draft, assumption)
  apply (unfold sales_reads, intro keeps_intros kept_sales)
  done

lemma update_kept: "keeps P (update_draft_order i t who new)"
proof -
  have built: "yields (\<lambda>built. \<forall>x. built = Some x \<longrightarrow> priced t x) (case new of None \<Rightarrow> returnM None
       | Some xs \<Rightarrow> bindM (build_lines xs t) (\<lambda>(ls, cur).
           bindM (order_totals_of ls) (\<lambda>tot. returnM (Some (ls, tot, cur)))))"
  proof (cases new)
    case (Some xs)
    show ?thesis
      unfolding Some option.case
      by (rule yields_bind_yields [OF built_lines_fit], rule yields_prod,
          rule yields_bind_yields, rule totals_add_up) (auto intro!: yields_return)
  qed (simp add: yields_return)
  show ?thesis
    unfolding update_draft_order_def
    apply (rule keeps_then, unfold sales_reads, intro keeps_intros)
    apply (rule keeps_bind_yields [OF _ built])
     apply (intro keeps_intros keeps_build keeps_totals)
    apply (rule keeps_bind, rule kept_redraft, simp)
    apply (intro keeps_intros kept_sales)
    done
qed

lemma transitions_kept: "keeps P (confirm_order i t)" "keeps P (fulfil_order dc i t)" "keeps P (cancel_order i t)"
  unfolding confirm_order_def fulfil_order_def cancel_order_def Let_def sales_reads
  by (intro keeps_intros kept_sales)+

lemma sales_kept_request: "sales_request dc t m \<Longrightarrow> keeps P m"
  by (induction rule: sales_request.induct) (intro keeps_request create_kept update_kept transitions_kept)+

end

section \<open>Stock and books\<close>

lemma order_moves_keep:
  assumes "\<And>d x. P d \<Longrightarrow> P (d\<lparr>orders := x\<rparr>)"
  shows "keeps P (confirm_order_row i t at_time credit)" "keeps P (fulfil_order_row i t)"
    "keeps P (cancel_order_row i t)" "keeps P (mark_credit_check_failed i t)"
  unfolding confirm_order_row_def fulfil_order_row_def cancel_order_row_def mark_credit_check_failed_def
    order_transition_def guarded_order_update_def get_order_row_def Let_def
  by (intro keeps_intros keeps_write; simp add: assms)+

lemma order_drafts_keep:
  assumes "\<And>d x. P d \<Longrightarrow> P (d\<lparr>orders := x\<rparr>)" "\<And>d x. P d \<Longrightarrow> P (d\<lparr>order_lines := x\<rparr>)"
  shows "keeps P (create_order_row r ls)" "keeps P (update_draft_row i t who new totals)"
  unfolding create_order_row_def update_draft_row_def insert_order_lines_def guarded_order_update_def
    get_order_row_def Let_def
  by (intro keeps_intros keeps_write; simp add: assms)+

interpretation finance_inventory: inventory_free finance_wf
  by unfold_locales (simp_all add: finance_unaffected)

interpretation sales_stock: sales_kept stock_wf dc t for dc t
  by unfold_locales
    (intro stock_kept.bulk_keeps stock_trade.trade_billing_requests order_drafts_keep order_moves_keep;
      simp add: stock_wf_unaffected)+

interpretation sales_finance: sales_kept finance_wf dc t for dc t
  by unfold_locales
    (intro finance_inventory.bulk_keeps finance_create_from_order finance_post_cogs order_drafts_keep order_moves_keep;
      simp add: finance_unaffected)+

section \<open>The life of an order\<close>

text \<open>
  The abstract machine: an order is a status and its facts (number, customer, money, currency, lines).
  The facts can change while the order is a draft, the status only along \<open>can_become\<close>.
\<close>

type_synonym order_facts =
  "string \<times> uuid \<times> (decimal \<times> decimal \<times> decimal \<times> decimal) \<times> string \<times> order_line list"

definition order_facts :: "db \<Rightarrow> sales_order \<Rightarrow> order_facts" where
  "order_facts d r = (o_number r, o_customer r, (o_subtotal r, o_discount r, o_tax r, o_total r), o_currency r,
     lines_of_order (o_tenant r) (o_id r) d)"

definition order_view :: "db \<Rightarrow> uuid \<times> uuid \<rightharpoonup> order_status \<times> order_facts" where
  "order_view d = (\<lambda>(t, i). map_option (\<lambda>r. (o_status r, order_facts d r)) (select_one (order_key t i) (orders d)))"

fun can_become :: "order_status \<Rightarrow> order_status \<Rightarrow> bool" where
  "can_become ORDER_DRAFT st = (st = ORDER_CONFIRMED \<or> st = ORDER_CANCELLED)"
| "can_become ORDER_CONFIRMED st = (st = ORDER_FULFILLED \<or> st = ORDER_CANCELLED)"
| "can_become ORDER_FULFILLED st = False"
| "can_become ORDER_CANCELLED st = False"

inductive lifecycle :: "(uuid \<times> uuid \<rightharpoonup> order_status \<times> order_facts) \<Rightarrow>
    (uuid \<times> uuid \<rightharpoonup> order_status \<times> order_facts) \<Rightarrow> bool" where
  drafted: "v k = None \<Longrightarrow> lifecycle v (v(k \<mapsto> (ORDER_DRAFT, x)))"
| redrafted: "v k = Some (ORDER_DRAFT, x) \<Longrightarrow> lifecycle v (v(k \<mapsto> (ORDER_DRAFT, y)))"
| moved: "v k = Some (st, x) \<Longrightarrow> can_become st st' \<Longrightarrow> lifecycle v (v(k \<mapsto> (st', x)))"

abbreviation lifecycles where "lifecycles \<equiv> lifecycle\<^sup>*\<^sup>*"

definition evolves :: "db \<Rightarrow> db \<Rightarrow> bool" where
  "evolves d d' \<longleftrightarrow> lifecycles (order_view d) (order_view d')"

lemma evolves_refl [simp]: "evolves d d"
  by (simp add: evolves_def)

lemma evolves_step: "evolves d e \<Longrightarrow> lifecycle (order_view e) (order_view f) \<Longrightarrow> evolves d f"
  by (simp add: evolves_def)

lemma order_view_cong: "orders d = orders d' \<Longrightarrow> order_lines d = order_lines d' \<Longrightarrow> order_view d = order_view d'"
  by (simp add: order_view_def order_facts_def [abs_def] lines_of_order_def)

lemma evolves_elsewhere: "evolves d e \<Longrightarrow> orders f = orders e \<Longrightarrow> order_lines f = order_lines e \<Longrightarrow> evolves d f"
  using order_view_cong [of f e] by (simp add: evolves_def)

lemma order_key_iff: "order_key t i r \<longleftrightarrow> o_tenant r = t \<and> o_id r = i"
  by (simp add: order_key_def)

definition order_id :: "sales_order \<Rightarrow> uuid \<times> uuid" where
  "order_id r = (o_tenant r, o_id r)"

lemma order_id_key: "order_id r = (t, i) \<longleftrightarrow> order_key t i r"
  by (simp add: order_id_def order_key_def)

text \<open>The invariant of the order tables.\<close>

definition order_checked :: "sales_order \<Rightarrow> bool" where
  "order_checked r \<longleftrightarrow> 0 \<le> o_subtotal r \<and> 0 \<le> o_discount r \<and> 0 \<le> o_tax r \<and> 0 \<le> o_total r \<and>
     (o_status r \<in> {ORDER_CONFIRMED, ORDER_FULFILLED}) = (o_confirmed_at r \<noteq> None) \<and>
     o_currency r \<in> set SUPPORTED_CURRENCIES"

definition order_sound :: "db \<Rightarrow> sales_order \<Rightarrow> bool" where
  "order_sound d r \<longleftrightarrow> order_checked r \<and>
     (let ls = lines_of_order (o_tenant r) (o_id r) d in
      ls \<noteq> [] \<and> (\<forall>l \<in> set ls. 0 < ol_quantity l) \<and> adds_up ls (o_subtotal r) (o_discount r) (o_tax r) (o_total r))"

definition orders_wf :: "db \<Rightarrow> bool" where
  "orders_wf d \<longleftrightarrow> distinct (map order_id (orders d)) \<and> (\<forall>r \<in> set (orders d). order_sound d r) \<and>
     (\<forall>l \<in> set (order_lines d). \<exists>r \<in> set (orders d). order_key (ol_tenant l) (ol_order l) r)"

lemma order_sound_cong: "order_lines d = order_lines d' \<Longrightarrow> order_sound d r = order_sound d' r"
  by (simp add: order_sound_def lines_of_order_def)

lemma orders_wf_cong: "orders d = orders d' \<Longrightarrow> order_lines d = order_lines d' \<Longrightarrow> orders_wf d = orders_wf d'"
  using order_sound_cong [of d d'] by (simp add: orders_wf_def)

lemma order_checked_iff:
  "first_violation (order_checks r @ order_references r) d = None \<longleftrightarrow>
     order_checked r \<and> (\<exists>c \<in> set (customers d). c_tenant c = o_tenant r \<and> c_id c = o_customer r)"
  by (auto simp: first_violation_None order_checks_def order_references_def order_checked_def)

lemma order_constraints_iff:
  "first_violation (order_constraints r) d = None \<longleftrightarrow>
     first_violation (order_checks r @ order_references r) d = None \<and>
     select_one (order_key (o_tenant r) (o_id r)) (orders d) = None \<and>
     (\<forall>q \<in> set (orders d). \<not> (o_tenant q = o_tenant r \<and> o_number q = o_number r))"
  unfolding first_violation_None by (auto simp: order_constraints_def select_one_None)

lemma order_of_key:
  assumes "orders_wf d" "select_one (order_key t i) (orders d) = Some r" "q \<in> set (orders d)" "order_key t i q"
  shows "q = r"
proof -
  have "order_id q = order_id r" "r \<in> set (orders d)"
    using assms(4) select_one_SomeD [OF assms(2)] by (auto simp: order_id_key [symmetric])
  then show ?thesis using assms(1,3) by (auto simp: orders_wf_def distinct_map dest: inj_onD)
qed

text \<open>One order's row and lines change.\<close>

lemma lines_elsewhere:
  assumes "filter (\<lambda>l. \<not> order_line_of t i l) ls' = filter (\<lambda>l. \<not> order_line_of t i l) ls" "(t', i') \<noteq> (t, i)"
  shows "filter (order_line_of t' i') ls' = filter (order_line_of t' i') ls"
proof -
  have "filter (order_line_of t' i') xs = filter (order_line_of t' i') (filter (\<lambda>l. \<not> order_line_of t i l) xs)" for xs
    using assms(2) by (auto simp: order_line_of_def intro: filter_cong)
  then show ?thesis using assms(1) by metis
qed

definition order_change :: "uuid \<Rightarrow> uuid \<Rightarrow> sales_order \<Rightarrow> sales_order \<Rightarrow> db \<Rightarrow> db \<Rightarrow> bool" where
  "order_change t i r q d d' \<longleftrightarrow> select_one (order_key t i) (orders d) = Some r \<and> order_key t i q \<and>
     orders d' = update_where (order_key t i) (\<lambda>_. q) (orders d) \<and>
     filter (\<lambda>l. \<not> order_line_of t i l) (order_lines d') = filter (\<lambda>l. \<not> order_line_of t i l) (order_lines d)"

lemma order_changeD:
  assumes "order_change t i r q d d'"
  shows "select_one (order_key t i) (orders d) = Some r" "r \<in> set (orders d)" "order_key t i r" "order_key t i q"
    "orders d' = update_where (order_key t i) (\<lambda>_. q) (orders d)"
    "(t', i') \<noteq> (t, i) \<Longrightarrow> lines_of_order t' i' d' = lines_of_order t' i' d"
    "\<not> order_line_of t i l \<Longrightarrow> l \<in> set (order_lines d') \<longleftrightarrow> l \<in> set (order_lines d)"
proof -
  have lines: "filter (\<lambda>l. \<not> order_line_of t i l) (order_lines d') = filter (\<lambda>l. \<not> order_line_of t i l) (order_lines d)"
    using assms by (simp add: order_change_def)
  show "(t', i') \<noteq> (t, i) \<Longrightarrow> lines_of_order t' i' d' = lines_of_order t' i' d"
    unfolding lines_of_order_def by (rule lines_elsewhere [OF lines])
  show "\<not> order_line_of t i l \<Longrightarrow> l \<in> set (order_lines d') \<longleftrightarrow> l \<in> set (order_lines d)"
    using arg_cong [OF lines, of set] by auto
qed (use assms in \<open>auto simp: order_change_def dest: select_one_SomeD\<close>)

lemma order_change_view:
  assumes "order_change t i r q d d'"
  shows "order_view d' = (order_view d)((t, i) \<mapsto> (o_status q, order_facts d' q))"
proof (rule ext, clarify)
  fix t' i'
  note D = order_changeD [OF assms]
  have sel: "select_one (order_key t' i') (orders d') =
      map_option (\<lambda>r. if order_key t i r then q else r) (select_one (order_key t' i') (orders d))"
    unfolding D(5) by (rule select_one_update_where) (use D(4) in \<open>auto simp: order_key_def\<close>)
  show "order_view d' (t', i') = ((order_view d)((t, i) \<mapsto> (o_status q, order_facts d' q))) (t', i')"
  proof (cases "(t', i') = (t, i)")
    case True
    then show ?thesis using sel D(1,3) by (simp add: order_view_def)
  next
    case False
    have "\<not> order_key t i p \<and> order_facts d' p = order_facts d p" if "select_one (order_key t' i') (orders d) = Some p" for p
      using select_one_SomeD [OF that] False D(6) [OF False] by (auto simp: order_facts_def order_key_def)
    then show ?thesis using sel False by (cases "select_one (order_key t' i') (orders d)") (auto simp: order_view_def)
  qed
qed

lemma order_change_was: "order_change t i r q d d' \<Longrightarrow> order_view d (t, i) = Some (o_status r, order_facts d r)"
  by (simp add: order_view_def order_change_def)

lemma order_change_rows:
  assumes "order_change t i r q d d'"
  shows "q \<in> set (orders d')" "p \<in> set (orders d') \<Longrightarrow> p = q \<or> p \<in> set (orders d) \<and> \<not> order_key t i p"
    "p \<in> set (orders d) \<Longrightarrow> \<not> order_key t i p \<Longrightarrow> p \<in> set (orders d')"
  using order_changeD(2-5) [OF assms] by (auto simp: set_update_where image_iff split: if_splits)

lemma orders_wf_change:
  assumes change: "order_change t i r q d d'" and wf: "orders_wf d" and q: "order_sound d' q"
  shows "orders_wf d'"
proof -
  note D = order_changeD [OF change] and R = order_change_rows [OF change]
  have "map order_id (orders d') = map order_id (orders d)"
    unfolding D(5) by (rule map_update_where) (use D(4) in \<open>simp add: order_id_key [symmetric]\<close>)
  moreover have "order_sound d' p" if "p \<in> set (orders d')" for p
  proof (cases "p = q")
    case False
    with R(2) [OF that] have "p \<in> set (orders d)" and other: "(o_tenant p, o_id p) \<noteq> (t, i)" by (auto simp: order_key_def)
    with wf have "order_sound d p" by (simp add: orders_wf_def)
    then show ?thesis using D(6) [OF other] by (simp add: order_sound_def)
  qed (simp add: q)
  moreover have "\<exists>p \<in> set (orders d'). order_key (ol_tenant l) (ol_order l) p" if l: "l \<in> set (order_lines d')" for l
  proof (cases "order_line_of t i l")
    case True
    then show ?thesis using R(1) D(4) by (auto simp: order_line_of_def)
  next
    case False
    then obtain p where p: "p \<in> set (orders d)" "order_key (ol_tenant l) (ol_order l) p"
      using D(7) l wf by (auto simp: orders_wf_def)
    with False have "\<not> order_key t i p" by (auto simp: order_key_def order_line_of_def)
    then show ?thesis using p R(3) by blast
  qed
  ultimately show ?thesis using wf by (simp add: orders_wf_def)
qed

section \<open>The repository's steps\<close>

text \<open>The guarded update: at most the one row of the key, and only when its status is expected.\<close>

definition put_order :: "uuid \<Rightarrow> uuid \<Rightarrow> sales_order \<Rightarrow> db \<Rightarrow> db" where
  "put_order t i q d = d\<lparr>orders := update_where (order_key t i) (\<lambda>_. q) (orders d)\<rparr>"

lemma filter_only: "distinct xs \<Longrightarrow> x \<in> set xs \<Longrightarrow> filter (\<lambda>y. y = x) xs = [x]"
  by (induction xs) (auto simp: filter_empty_conv)

lemma wp_guarded_order_update:
  assumes wf: "orders_wf (work s)"
    and lost: "(\<And>r. select_one (order_key t i) (orders (work s)) = Some r \<Longrightarrow> o_status r \<notin> set ex) \<Longrightarrow> Q False s"
    and won: "\<And>r. select_one (order_key t i) (orders (work s)) = Some r \<Longrightarrow> o_status r \<in> set ex \<Longrightarrow>
      first_violation (order_checks (f r) @ order_references (f r)) (work s) = None \<Longrightarrow>
      Q True (s\<lparr>work := put_order t i (f r) (work s)\<rparr>)"
    and broken: "\<And>r c. select_one (order_key t i) (orders (work s)) = Some r \<Longrightarrow> o_status r \<in> set ex \<Longrightarrow>
      first_violation (order_checks (f r) @ order_references (f r)) (work s) = Some c \<Longrightarrow> E (IntegrityError c) s"
  shows "wp (guarded_order_update ex f i t) Q E s"
proof (cases "\<exists>r. select_one (order_key t i) (orders (work s)) = Some r \<and> o_status r \<in> set ex")
  case True
  then obtain r where sel: "select_one (order_key t i) (orders (work s)) = Some r" and ex: "o_status r \<in> set ex" by blast
  have r: "r \<in> set (orders (work s))" "order_key t i r" using select_one_SomeD [OF sel] by simp_all
  have only: "q = r" if "q \<in> set (orders (work s))" "order_key t i q" for q
    using order_of_key [OF wf sel that] .
  have dist: "distinct (orders (work s))" using wf by (simp add: orders_wf_def distinct_map)
  have "filter (\<lambda>q. order_key t i q \<and> o_status q \<in> set ex) (orders (work s)) = filter (\<lambda>q. q = r) (orders (work s))"
    by (rule filter_cong [OF refl]) (use only r ex in blast)
  also have "\<dots> = [r]" by (rule filter_only [OF dist r(1)])
  finally have rows: "filter (\<lambda>q. order_key t i q \<and> o_status q \<in> set ex) (orders (work s)) = [r]" .
  have upd: "update_where (\<lambda>q. order_key t i q \<and> o_status q \<in> set ex) f (orders (work s)) =
      update_where (order_key t i) (\<lambda>_. f r) (orders (work s))"
    unfolding update_where_def by (rule map_cong [OF refl]) (use only ex in metis)
  show ?thesis
    unfolding guarded_order_update_def Let_def
    using won [OF sel ex] broken [OF sel ex]
    by (simp add: wp_bind wp_read wp_then wp_check_all_violation wp_write wp_return rows upd put_order_def
        split: option.split)
next
  case False
  then have rows: "\<not> (order_key t i q \<and> o_status q \<in> set ex)" if "q \<in> set (orders (work s))" for q
    using that order_of_key [OF wf] by (cases "select_one (order_key t i) (orders (work s))") (auto simp: select_one_None)
  then have "filter (\<lambda>q. order_key t i q \<and> o_status q \<in> set ex) (orders (work s)) = []"
    "update_where (\<lambda>q. order_key t i q \<and> o_status q \<in> set ex) f (orders (work s)) = orders (work s)"
    by (auto simp: filter_empty_conv update_where_def intro!: map_idI)
  then show ?thesis
    unfolding guarded_order_update_def Let_def
    using lost False
    by (simp add: wp_bind wp_read wp_then wp_check_all_violation wp_write wp_return)
qed

lemma put_order_simps [simp]:
  "orders (put_order t i q d) = update_where (order_key t i) (\<lambda>_. q) (orders d)"
  "order_lines (put_order t i q d) = order_lines d" "customers (put_order t i q d) = customers d"
  "lines_of_order t' i' (put_order t i q d) = lines_of_order t' i' d"
  by (simp_all add: put_order_def lines_of_order_def)

lemma order_sound_put [simp]: "order_sound (put_order t i q d) r = order_sound d r"
  by (simp add: order_sound_def)

lemma order_facts_put [simp]: "order_facts (put_order t i q d) r = order_facts d r"
  by (simp add: order_facts_def)

lemma put_order_change:
  "select_one (order_key t i) (orders d) = Some r \<Longrightarrow> order_key t i q \<Longrightarrow> order_change t i r q d (put_order t i q d)"
  by (simp add: order_change_def)

lemma select_put_order:
  "select_one (order_key t i) (orders d) = Some r \<Longrightarrow> order_key t i q \<Longrightarrow>
     select_one (order_key t i) (orders (put_order t i q d)) = Some q"
  by (subst put_order_simps, subst select_one_update_where) (auto dest: select_one_SomeD)

text \<open>A transition keeps everything but the status and its stamps.\<close>

definition same_money :: "sales_order \<Rightarrow> sales_order \<Rightarrow> bool" where
  "same_money q r \<longleftrightarrow> o_id q = o_id r \<and> o_tenant q = o_tenant r \<and> o_number q = o_number r \<and>
     o_customer q = o_customer r \<and> o_subtotal q = o_subtotal r \<and> o_discount q = o_discount r \<and>
     o_tax q = o_tax r \<and> o_total q = o_total r \<and> o_currency q = o_currency r"

lemma same_money_facts: "same_money q r \<Longrightarrow> order_facts d q = order_facts d r"
  and same_money_key: "same_money q r \<Longrightarrow> order_key t i q = order_key t i r"
  by (simp_all add: same_money_def order_facts_def order_key_def)

lemma same_money_sound:
  assumes "same_money q r" "order_sound d r"
    "(o_status q \<in> {ORDER_CONFIRMED, ORDER_FULFILLED}) = (o_confirmed_at q \<noteq> None)"
  shows "order_sound d q" "order_checked q"
  using assms by (simp_all add: same_money_def order_sound_def order_checked_def)

lemma wp_order_transition:
  assumes wf: "orders_wf (work s)" and same: "\<And>r. same_money (f r) r"
    and lost: "(\<And>r. select_one (order_key t i) (orders (work s)) = Some r \<Longrightarrow> o_status r \<notin> set ex) \<Longrightarrow> Q None s"
    and won: "\<And>r. select_one (order_key t i) (orders (work s)) = Some r \<Longrightarrow> o_status r \<in> set ex \<Longrightarrow>
      order_checked (f r) \<Longrightarrow> Q (Some (f r)) (s\<lparr>work := put_order t i (f r) (work s)\<rparr>)"
    and broken: "\<And>r c. select_one (order_key t i) (orders (work s)) = Some r \<Longrightarrow> o_status r \<in> set ex \<Longrightarrow>
      first_violation (order_checks (f r) @ order_references (f r)) (work s) = Some c \<Longrightarrow> E (IntegrityError c) s"
  shows "wp (order_transition ex f i t) Q E s"
  unfolding order_transition_def wp_bind
proof (rule wp_guarded_order_update [OF wf])
  fix r
  assume sel: "select_one (order_key t i) (orders (work s)) = Some r" and ex: "o_status r \<in> set ex"
    and ok: "first_violation (order_checks (f r) @ order_references (f r)) (work s) = None"
  have "order_key t i (f r)" using select_one_SomeD [OF sel] same_money_key [OF same] by simp
  then have "select_one (order_key t i) (orders (put_order t i (f r) (work s))) = Some (f r)"
    by (rule select_put_order [OF sel])
  then show "wp (if True then get_order_row i t else returnM None) Q E (s\<lparr>work := put_order t i (f r) (work s)\<rparr>)"
    using won [OF sel ex] ok [unfolded order_checked_iff] by (simp add: get_order_row_def wp_read del: put_order_simps)
qed (use lost broken in \<open>simp_all add: wp_return\<close>)

text \<open>An order moved or redrafted: one step of its life.\<close>

definition order_history :: "db \<Rightarrow> db \<Rightarrow> bool" where
  "order_history d0 d \<longleftrightarrow> orders_wf d \<and> evolves d0 d"

lemma history_change:
  assumes "order_history d0 d" "order_change t i r q d d'" "order_sound d' q"
    and "o_status r = ORDER_DRAFT \<and> o_status q = ORDER_DRAFT \<or>
      can_become (o_status r) (o_status q) \<and> order_facts d' q = order_facts d r"
  shows "order_history d0 d'"
proof -
  have "lifecycle (order_view d) (order_view d')"
    unfolding order_change_view [OF assms(2)] using assms(4) order_change_was [OF assms(2)]
    by (auto intro: lifecycle.intros)
  then show ?thesis
    using assms(1) orders_wf_change [OF assms(2) _ assms(3)] by (auto simp: order_history_def intro: evolves_step)
qed

lemma history_moves:
  assumes "\<And>r. same_money (f r) r"
    and "\<And>r. o_status r \<in> set ex \<Longrightarrow> o_status r = ORDER_DRAFT \<and> o_status (f r) = ORDER_DRAFT \<or>
      can_become (o_status r) (o_status (f r))"
  shows "keeps (order_history d0) (order_transition ex f i t)"
proof (rule keepsI)
  fix s :: sess
  assume H: "order_history d0 (work s)" "order_history d0 (durable s)"
  show "wp (order_transition ex f i t) (\<lambda>_ u. order_history d0 (work u) \<and> order_history d0 (durable u))
      (\<lambda>_ u. order_history d0 (durable u)) s"
  proof (rule wp_order_transition)
    show wf: "orders_wf (work s)" using H(1) by (simp add: order_history_def)
    fix r
    assume sel: "select_one (order_key t i) (orders (work s)) = Some r" and ex: "o_status r \<in> set ex"
      and ok: "order_checked (f r)"
    have key: "order_key t i (f r)" using select_one_SomeD [OF sel] same_money_key [OF assms(1)] by simp
    have "order_sound (work s) r" using select_one_SomeD [OF sel] wf by (simp add: orders_wf_def)
    then have "order_sound (put_order t i (f r) (work s)) (f r)"
      unfolding order_sound_put by (rule same_money_sound(1) [OF assms(1)]) (use ok in \<open>simp add: order_checked_def\<close>)
    from history_change [OF H(1) put_order_change [OF sel key] this] assms(2) [OF ex] same_money_facts [OF assms(1)] H(2)
    show "order_history d0 (work (s\<lparr>work := put_order t i (f r) (work s)\<rparr>)) \<and>
        order_history d0 (durable (s\<lparr>work := put_order t i (f r) (work s)\<rparr>))" by simp
  qed (use assms(1) H in simp_all)
qed

lemma history_order_moves:
  "keeps (order_history d0) (confirm_order_row i t at_time credit)" "keeps (order_history d0) (fulfil_order_row i t)"
  "keeps (order_history d0) (cancel_order_row i t)" "keeps (order_history d0) (mark_credit_check_failed i t)"
  unfolding confirm_order_row_def fulfil_order_row_def cancel_order_row_def mark_credit_check_failed_def
  by (rule history_moves; auto simp: same_money_def)+

text \<open>A new order, with its lines.\<close>

definition placed :: "sales_order \<Rightarrow> order_line list \<Rightarrow> db \<Rightarrow> db" where
  "placed row rows d = d\<lparr>orders := orders d @ [row], order_lines := order_lines d @ rows\<rparr>"

lemma wp_create_order_row:
  assumes ok: "\<And>u. first_violation (order_constraints (stored_order (next_id s) r)) (work s) = None \<Longrightarrow>
      (\<forall>l \<in> set (order_line_rows (Suc (next_id s)) (next_id s) ls). 0 < ol_quantity l) \<Longrightarrow>
      work u = placed (stored_order (next_id s) r) (order_line_rows (Suc (next_id s)) (next_id s) ls) (work s) \<Longrightarrow>
      durable u = durable s \<Longrightarrow> Q (stored_order (next_id s) r) u"
    and err: "\<And>e u. durable u = durable s \<Longrightarrow> E e u"
  shows "wp (create_order_row r ls) Q E s"
proof -
  have pos: "\<forall>l \<in> set rows. 0 < ol_quantity l"
    if "first_violation (concat (map order_line_constraints rows)) d = None" for rows d
    using that by (force simp: first_violation_None order_line_constraints_def)
  show ?thesis
    unfolding create_order_row_def Let_def wp_bind wp_then wp_catch wp_fresh wp_check_all_violation wp_raise
      wp_write wp_insert_order_lines wp_return
    by (auto split: option.split intro!: ok err dest!: pos simp: placed_def)
qed

lemma lines_placed:
  assumes "\<forall>l \<in> set rows. ol_tenant l = t \<and> ol_order l = i"
  shows "lines_of_order t' i' (placed row rows d) = lines_of_order t' i' d @ (if (t', i') = (t, i) then rows else [])"
  using assms by (auto simp: lines_of_order_def placed_def order_line_of_def filter_empty_conv)

lemma no_order_no_lines:
  "orders_wf d \<Longrightarrow> select_one (order_key t i) (orders d) = None \<Longrightarrow> lines_of_order t i d = []"
  by (fastforce simp: orders_wf_def lines_of_order_def filter_empty_conv order_line_of_def order_key_def select_one_None)

lemma history_placed:
  assumes H: "order_history d0 d" and new: "select_one (order_key t i) (orders d) = None" and key: "order_key t i row"
    and draft: "o_status row = ORDER_DRAFT" "order_checked row"
    and rows: "\<forall>l \<in> set rows. ol_tenant l = t \<and> ol_order l = i \<and> 0 < ol_quantity l" "rows \<noteq> []"
    and sums: "adds_up rows (o_subtotal row) (o_discount row) (o_tax row) (o_total row)"
  shows "order_history d0 (placed row rows d)"
proof -
  let ?d = "placed row rows d"
  have wf: "orders_wf d" using H by (simp add: order_history_def)
  note lines = lines_placed [where rows = rows and t = t and i = i]
  have others: "(o_tenant p, o_id p) \<noteq> (t, i)" if "p \<in> set (orders d)" for p
    using new that by (auto simp: select_one_None order_key_def)
  have own: "lines_of_order t i ?d = rows" using lines [of t i] rows(1) no_order_no_lines [OF wf new] by simp
  have rest: "lines_of_order (o_tenant p) (o_id p) ?d = lines_of_order (o_tenant p) (o_id p) d" if "p \<in> set (orders d)" for p
    using lines [of "o_tenant p" "o_id p"] rows(1) others [OF that] by auto
  have row: "o_tenant row = t" "o_id row = i" using key by (simp_all add: order_key_def)
  have "order_view ?d = (order_view d)((t, i) \<mapsto> (ORDER_DRAFT, order_facts ?d row))"
  proof (rule ext, clarify)
    fix t' i'
    have sel: "select_one (order_key t' i') (orders ?d) = (case select_one (order_key t' i') (orders d) of
        None \<Rightarrow> if (t', i') = (t, i) then Some row else None | Some p \<Rightarrow> Some p)"
      using row by (auto simp: placed_def select_one_append order_key_def split: option.split)
    have "order_facts ?d p = order_facts d p" if "select_one (order_key t' i') (orders d) = Some p" for p
      using select_one_SomeD [OF that] rest by (simp add: order_facts_def)
    with sel new show "order_view ?d (t', i') = ((order_view d)((t, i) \<mapsto> (ORDER_DRAFT, order_facts ?d row))) (t', i')"
      using draft(1) by (auto simp: order_view_def split: option.split)
  qed
  moreover have "order_view d (t, i) = None" using new by (simp add: order_view_def)
  ultimately have "lifecycle (order_view d) (order_view ?d)" by (simp add: lifecycle.drafted)
  moreover have "orders_wf ?d"
    unfolding orders_wf_def
  proof (intro conjI ballI)
    show "distinct (map order_id (orders ?d))"
      using wf others [unfolded order_id_def [symmetric]] row
      by (auto simp: orders_wf_def placed_def) (metis order_id_def others)
    show "order_sound ?d p" if "p \<in> set (orders ?d)" for p
    proof (cases "p = row")
      case True
      then show ?thesis using own row draft rows sums by (simp add: order_sound_def Let_def)
    next
      case False
      with that have "p \<in> set (orders d)" by (simp add: placed_def)
      with wf rest show ?thesis by (simp add: orders_wf_def order_sound_def)
    qed
    show "\<exists>p \<in> set (orders ?d). order_key (ol_tenant l) (ol_order l) p" if "l \<in> set (order_lines ?d)" for l
      using that wf rows(1) key by (auto simp: orders_wf_def placed_def)
  qed
  ultimately show ?thesis using H by (auto simp: order_history_def intro: evolves_step)
qed

lemma new_order_simps [simp]:
  "o_tenant (new_order t n c tot cur) = t" "o_status (new_order t n c tot cur) = ORDER_DRAFT"
  "o_confirmed_at (new_order t n c tot cur) = None" "o_currency (new_order t n c tot cur) = cur"
  by (simp_all add: new_order_def)

lemma history_draft:
  assumes "priced t (ls, tot, cur)"
  shows "keeps (order_history d0) (create_order_row (new_order t number customer tot cur) ls)"
proof (rule keepsI)
  fix s :: sess
  assume H: "order_history d0 (work s)" "order_history d0 (durable s)"
  let ?i = "next_id s" and ?r = "new_order t number customer tot cur"
  let ?row = "stored_order ?i ?r" and ?rows = "order_line_rows (Suc ?i) ?i ls"
  have fits: "\<forall>l \<in> set ls. line_fits t l" and ls: "ls \<noteq> []"
    and sums: "adds_up ls (tot_subtotal tot) (tot_discount tot) (tot_tax tot) (tot_total tot)"
    using assms by (simp_all add: priced_def)
  show "wp (create_order_row ?r ls) (\<lambda>_ u. order_history d0 (work u) \<and> order_history d0 (durable u))
      (\<lambda>_ u. order_history d0 (durable u)) s"
  proof (rule wp_create_order_row)
    fix u
    assume ok: "first_violation (order_constraints ?row) (work s) = None" and pos: "\<forall>l \<in> set ?rows. 0 < ol_quantity l"
      and u: "work u = placed ?row ?rows (work s)" "durable u = durable s"
    have key: "o_tenant ?row = t" "o_id ?row = ?i" by (simp_all add: stored_order_def)
    have "order_history d0 (placed ?row ?rows (work s))"
    proof (rule history_placed [OF H(1)])
      show "select_one (order_key t ?i) (orders (work s)) = None"
        using ok key unfolding order_constraints_iff by simp
      show "order_checked ?row"
        using ok unfolding order_constraints_iff order_checked_iff by simp
      show "adds_up ?rows (o_subtotal ?row) (o_discount ?row) (o_tax ?row) (o_total ?row)"
        using sums priced_scale [OF fits sums] stored_line_totals [OF fits, of "Suc ?i" ?i]
        by (simp add: adds_up_def stored_order_def new_order_def)
      show "\<forall>l \<in> set ?rows. ol_tenant l = t \<and> ol_order l = ?i \<and> 0 < ol_quantity l"
        using pos stored_line_keys [OF fits] by blast
    qed (simp_all add: order_key_def key ls, simp add: stored_order_def)
    then show "order_history d0 (work u) \<and> order_history d0 (durable u)" using u H(2) by simp
  qed (simp add: H(2))
qed

text \<open>A draft changed, with new lines or its old ones.\<close>

definition relined :: "uuid \<Rightarrow> uuid \<Rightarrow> order_line list \<Rightarrow> db \<Rightarrow> db" where
  "relined t i rows d = d\<lparr>order_lines := filter (\<lambda>l. \<not> order_line_of t i l) (order_lines d) @ rows\<rparr>"

lemma history_redrafted:
  assumes H: "order_history d0 d" and sel: "select_one (order_key t i) (orders d) = Some r"
    and draft: "o_status r = ORDER_DRAFT" "o_status q = ORDER_DRAFT" and q: "order_key t i q" "order_checked q"
    and rows: "\<forall>l \<in> set rows. ol_tenant l = t \<and> ol_order l = i \<and> 0 < ol_quantity l" "rows \<noteq> []"
    and sums: "adds_up rows (o_subtotal q) (o_discount q) (o_tax q) (o_total q)"
  shows "order_history d0 (relined t i rows (put_order t i q d))"
proof (rule history_change [OF H])
  have "filter (\<lambda>l. \<not> order_line_of t i l) rows = []" using rows(1) by (simp add: order_line_of_def filter_empty_conv)
  then show "order_change t i r q d (relined t i rows (put_order t i q d))"
    using sel q by (simp add: order_change_def relined_def)
  have "lines_of_order (o_tenant q) (o_id q) (relined t i rows (put_order t i q d)) = rows"
    using rows(1) q(1) by (auto simp: lines_of_order_def relined_def order_key_def order_line_of_def filter_empty_conv)
  then show "order_sound (relined t i rows (put_order t i q d)) q"
    using q(2) rows sums by (simp add: order_sound_def)
qed (use draft in simp)

lemma history_redraft:
  assumes built: "\<And>x. built = Some x \<Longrightarrow> priced t x"
  shows "keeps (order_history d0) (update_draft_row i t who (map_option fst built) (map_option snd built))"
proof (rule keepsI)
  fix s :: sess
  assume H: "order_history d0 (work s)" "order_history d0 (durable s)"
  let ?f = "\<lambda>r. with_totals (map_option snd built) (r\<lparr>o_customer := (case who of None \<Rightarrow> o_customer r | Some c \<Rightarrow> c)\<rparr>)"
  have wf: "orders_wf (work s)" using H(1) by (simp add: order_history_def)
  show "wp (update_draft_row i t who (map_option fst built) (map_option snd built))
      (\<lambda>_ u. order_history d0 (work u) \<and> order_history d0 (durable u)) (\<lambda>_ u. order_history d0 (durable u)) s"
    unfolding update_draft_row_def wp_bind
  proof (rule wp_guarded_order_update [OF wf])
    fix r
    obtain q where q_def: "q = ?f r" by simp
    let ?d = "put_order t i q (work s)"
    assume sel: "select_one (order_key t i) (orders (work s)) = Some r" and ex: "o_status r \<in> set [ORDER_DRAFT]"
      and ok: "first_violation (order_checks (?f r) @ order_references (?f r)) (work s) = None"
    have r: "order_key t i r" "order_sound (work s) r"
      using select_one_SomeD [OF sel] wf by (simp_all add: orders_wf_def)
    have q: "order_key t i (?f r)" "o_status (?f r) = ORDER_DRAFT" "order_checked (?f r)"
      using r ex ok unfolding order_checked_iff
      by (simp_all add: with_totals_def order_key_def split: option.split prod.split)
    note q = q [folded q_def]
    have "wp (if \<not> True then returnM None else thenM (case map_option fst built of None \<Rightarrow> returnM ()
        | Some new \<Rightarrow> thenM (writeM (\<lambda>d. d\<lparr>order_lines := filter (\<lambda>l. \<not> order_line_of t i l) (order_lines d)\<rparr>))
            (insert_order_lines i new)) (get_order_row i t))
        (\<lambda>_ u. order_history d0 (work u) \<and> order_history d0 (durable u)) (\<lambda>_ u. order_history d0 (durable u))
        (s\<lparr>work := ?d\<rparr>)"
    proof (cases built)
      case None
      have "order_history d0 ?d"
        using history_change [OF H(1) put_order_change [OF sel q(1)]] q r ex None
        by (simp add: order_sound_def with_totals_def order_key_def q_def)
      then show ?thesis using None H(2) by (simp add: wp_then wp_return get_order_row_def wp_read)
    next
      case (Some x)
      obtain ls tot cur where x: "x = (ls, tot, cur)" by (cases x)
      have fits: "\<forall>l \<in> set ls. line_fits t l" and ls: "ls \<noteq> []"
        and sums: "adds_up ls (tot_subtotal tot) (tot_discount tot) (tot_tax tot) (tot_total tot)"
        using built [OF Some] by (simp_all add: priced_def x)
      let ?rows = "order_line_rows (next_id s) i ls"
      have "order_history d0 (relined t i ?rows ?d)"
        if "first_violation (concat (map order_line_constraints ?rows)) d' = None" for d'
      proof (rule history_redrafted [OF H(1) sel _ q(2,1,3)])
        show "adds_up ?rows (o_subtotal q) (o_discount q) (o_tax q) (o_total q)"
          using sums priced_scale [OF fits sums] stored_line_totals [OF fits, of "next_id s" i]
          by (simp add: adds_up_def with_totals_def Some x q_def)
        show "\<forall>l \<in> set ?rows. ol_tenant l = t \<and> ol_order l = i \<and> 0 < ol_quantity l"
          using that stored_line_keys [OF fits] by (force simp: first_violation_None order_line_constraints_def)
      qed (use ex ls in simp_all)
      then show ?thesis
        unfolding Some x option.map fst_conv option.case
        by (simp add: wp_then wp_write wp_insert_order_lines get_order_row_def wp_read H(2) Let_def relined_def
            split: option.split)
    qed
    then show "wp (if \<not> True then returnM None else thenM (case map_option fst built of None \<Rightarrow> returnM ()
        | Some new \<Rightarrow> thenM (writeM (\<lambda>d. d\<lparr>order_lines := filter (\<lambda>l. \<not> order_line_of t i l) (order_lines d)\<rparr>))
            (insert_order_lines i new)) (get_order_row i t))
        (\<lambda>_ u. order_history d0 (work u) \<and> order_history d0 (durable u)) (\<lambda>_ u. order_history d0 (durable u))
        (s\<lparr>work := put_order t i (?f r) (work s)\<rparr>)"
      by (simp only: q_def)
  qed (simp_all add: wp_return H)
qed

section \<open>Every sales request refines the life of an order\<close>

lemma history_elsewhere:
  "order_history d0 d \<Longrightarrow> orders d' = orders d \<Longrightarrow> order_lines d' = order_lines d \<Longrightarrow> order_history d0 d'"
  using orders_wf_cong [of d d'] evolves_elsewhere [of d0 d d'] by (simp add: order_history_def)

interpretation history_inventory: inventory_free "order_history d0" for d0
  by unfold_locales (erule history_elsewhere; simp)+

interpretation history_finance: trade_invariant "order_history d0" for d0
  by unfold_locales (erule history_elsewhere; simp add: same_trade_def)

interpretation sales_history: sales_kept "order_history d0" dc t for d0 dc t
  by unfold_locales (intro history_inventory.bulk_keeps history_finance.trade_billing_requests
      history_draft history_redraft history_order_moves; assumption)+

end
