(* ===== verification/Inventory_Theorems.thy ===== *)
theory Inventory_Theorems
  imports Inventory_Orders
begin

text \<open>
  What the requests of the inventory service do end to end: every theorem runs the request the
  way the session dependency does, and compares the durable database before and after.
\<close>

section \<open>A small database for the witnesses\<close>

definition demo_product :: product where
  "demo_product = \<lparr>p_id = 10, p_tenant = 7, p_sku = ''A-1'', p_name = ''Bolt'', p_category = None,
     p_unit = None, p_cost = \<lparr>amount = 2, currency = ''USD''\<rparr>,
     p_sell = \<lparr>amount = 3, currency = ''USD''\<rparr>, p_reorder = 4, p_active = True, p_supplier = None\<rparr>"

definition demo_receipt :: stock_movement where
  "demo_receipt = \<lparr>m_id = 30, m_tenant = 7, m_product = 10, m_warehouse = 20,
     m_type = ADJUSTMENT, m_qty = 10, m_ref_type = ''adjustment'', m_ref_id = ''open'', m_created = 0\<rparr>"

text \<open>Ten bolts in warehouse 20, six of them reserved by the reservation \<open>r0\<close>.\<close>

definition demo_reservation :: stock_movement where
  "demo_reservation = \<lparr>m_id = 31, m_tenant = 7, m_product = 10, m_warehouse = 20,
     m_type = RESERVATION, m_qty = 6, m_ref_type = ''sale_order'', m_ref_id = ''r0:reserve'', m_created = 0\<rparr>"

definition demo_db :: db where
  "demo_db = empty_db\<lparr>products := [demo_product],
     warehouses := [\<lparr>w_id = 20, w_tenant = 7, w_name = ''Main'', w_location = None, w_active = True\<rparr>,
                    \<lparr>w_id = 21, w_tenant = 7, w_name = ''Spare'', w_location = None, w_active = True\<rparr>],
     levels := [\<lparr>l_id = 40, l_tenant = 7, l_product = 10, l_warehouse = 20,
                 l_on_hand = 10, l_reserved = 6\<rparr>],
     movements := [demo_receipt, demo_reservation]\<rparr>"

definition demo_clock :: clock where
  "demo_clock = \<lparr>instant = 0, today = 0, year = 2026\<rparr>"

definition demo :: sess where
  "demo = \<lparr>work = demo_db, durable = demo_db, ctx_buffer = None, fin_pending = [], published = [],
     next_id = 100, number_seq = (\<lambda>_. 0), ctx_user = None, clk = demo_clock\<rparr>"

lemma demo_sums [simp]:
  "on_hand_in demo_db (t, p, w) = (if (t, p, w) = (7, 10, 20) then 10 else 0)"
  "reserved_in demo_db (t, p, w) = (if (t, p, w) = (7, 10, 20) then 6 else 0)"
  by (auto simp: on_hand_in_def reserved_in_def ledger_on_hand_def ledger_reserved_def demo_db_def
      demo_receipt_def demo_reservation_def movement_at_def)

lemma demo_wf [simp]: "stock_wf demo_db"
  by (simp add: stock_wf_def stock_wf_off_def level_cell_def movement_cell_def movement_key_def,
      simp add: demo_db_def demo_receipt_def demo_reservation_def movement_key_def)

lemma demo_durable [simp]: "durable demo = demo_db"
  by (simp add: demo_def)

lemma demo_parents [simp]:
  "product_in demo_db 10 7 = Some demo_product"
  "warehouse_in demo_db 20 7 \<noteq> None" "warehouse_in demo_db 21 7 \<noteq> None"
  "parents_refusal demo_db 10 20 7 = None" "parents_refusal demo_db 10 21 7 = None"
  by (simp_all add: parents_refusal_def product_in_def warehouse_in_def demo_db_def
      demo_product_def product_key_def warehouse_key_def)

lemma demo_refs [simp]:
  "ref_posted demo_db rt r (t, p, w) \<longleftrightarrow> (t, p, w) = (7, 10, 20) \<and>
     ((rt, r) = (''adjustment'', ''open'') \<or> (rt, r) = (''sale_order'', ''r0:reserve''))"
  by (auto simp: ref_posted_def movement_key_def demo_db_def demo_receipt_def demo_reservation_def)

section \<open>Reservations\<close>

lemma wp_reread_level:
  assumes "stock_wf (work s)" "(t, p, w) \<in> movement_cell ` set (movements (work s))"
    and "\<And>l. level_cell l = (t, p, w) \<Longrightarrow> l_on_hand l = on_hand_in (work s) (t, p, w) \<Longrightarrow>
      l_reserved l = reserved_in (work s) (t, p, w) \<Longrightarrow> Q l s"
  shows "wp (reread_level p w t) Q E s"
proof (cases "select_one (level_at t p w) (levels (work s))")
  case None
  with assms(1,2) show ?thesis
    by (force simp: stock_wf_def stock_wf_off_def select_one_None level_at_cell)
next
  case (Some l)
  then have "level_cell l = (t, p, w)" using select_one_SomeD [OF Some] by (simp add: level_at_cell)
  with assms(3) level_sums [OF assms(1) Some] Some show ?thesis
    by (simp add: reread_level_def get_stock_level_def wp_simps)
qed



text \<open>
  Releasing is the mirror image: it succeeds exactly when there is no reason to refuse, and
  then takes the quantity off the reserved sum of its cell and nothing else.
\<close>

lemma release_reservation_outcome:
  assumes "stock_wf (durable s)"
  shows "outcome (run_request (release_reservation rt p w qty t r) s)
    (\<lambda>level u. release_refusal (durable s) rt p w qty t r = None \<and> stock_wf (durable u) \<and>
       (\<forall>c. on_hand_in (durable u) c = on_hand_in (durable s) c) \<and>
       (\<forall>c. reserved_in (durable u) c = reserved_in (durable s) c - (if c = (t, p, w) then qty else 0)) \<and>
       level_cell level = (t, p, w) \<and> l_reserved level = reserved_in (durable u) (t, p, w))
    (\<lambda>e u. release_refusal (durable s) rt p w qty t r = Some e \<and> durable u = durable s)"
  unfolding release_reservation_def
  by (rule outcomeI, simp only: wp_then, rule wp_release_step)
    (auto simp: assms wp_simps on_hand_append reserved_append stock_frame_eqs
      intro!: wp_reread_level)

lemma release_reservation_outcome_witness:
  "outcome (run_request (release_reservation ''sale_order'' 10 20 6 7 ''r0'') demo)
     (\<lambda>level u. l_reserved level = 0) (\<lambda>_ _. False)"
  by (rule outcome_mono [OF release_reservation_outcome [of demo "''sale_order''" 10 20 6 7 "''r0''"]])
    (simp_all add: release_refusal_def step_ref_def)

text \<open>The end of \<open>_emit_level_changed\<close>: one event, and an audit row when the level crossed.\<close>

definition alert_rows :: "uuid option \<Rightarrow> uuid \<Rightarrow> product \<Rightarrow> uuid \<Rightarrow> decimal \<Rightarrow> decimal \<Rightarrow> audit_row list" where
  "alert_rows actor t product w before after =
     (if breach_crossed (p_reorder product) before after
      then [\<lparr>au_tenant = t, au_actor = actor, au_action = ''inventory.stock.reorder_alerted'',
         au_target = target ''product'' (p_id product),
         au_details = Some [(''product_id'', PId (p_id product)), (''warehouse_id'', PId w),
           (''qty_on_hand'', PDec after), (''reorder_point'', PDec (p_reorder product))]\<rparr>]
      else [])"

lemma wp_emit_level_changed:
  "wp (emit_level_changed t product w before after) Q E s =
     Q () (s\<lparr>work := (work s)\<lparr>audit_logs := audit_logs (work s) @ alert_rows (ctx_user s) t product w before after\<rparr>,
       published := published s @ [\<lparr>ev_topic = ''inventory.stock.level_changed'', ev_tenant = t,
         ev_payload = [(''product_id'', PId (p_id product)), (''warehouse_id'', PId w),
           (''qty_on_hand'', PDec after), (''reorder_point'', PDec (p_reorder product)),
           (''breach_crossed'', PBool (breach_crossed (p_reorder product) before after))]\<rparr>]\<rparr>)"
  by (simp add: emit_level_changed_def emit_stock_level_changed_def wp_simps alert_rows_def Let_def)



text \<open>A successful reservation's durable state, in full.\<close>

lemma reserve_stock_run:
  assumes "stock_wf (durable s)"
  shows "outcome (run_request (reserve_stock rt p w qty t r) s)
    (\<lambda>_ u. reserve_refusal (durable s) rt p w qty t r = None \<and> stock_wf (durable u) \<and>
       (\<exists>v x. stock_frame (begin_state s) v \<and> durable u = work v \<and>
         movements (work v) = movements (durable s) @
           [stamped x (movement t p w RESERVATION qty rt (step_ref r ''reserve''))]))
    (\<lambda>e _. reserve_refusal (durable s) rt p w qty t r = Some e)"
  unfolding reserve_stock_def
  by (rule outcomeI, simp only: wp_then, rule wp_reserve_step)
    (auto simp: assms wp_simps intro!: wp_reread_level)

text \<open>
  Reserving and then releasing under the same reference restores the stock: a reservation
  that was accepted can be released, unless that reference was released before, and then every
  sum of the ledger is back where it was.
\<close>

lemma reserve_release_roundtrip:
  assumes "stock_wf (durable s)" "reserve_refusal (durable s) rt p w qty t r = None"
    "\<not> ref_posted (durable s) rt (step_ref r ''release'') (t, p, w)"
  shows "outcome (run_request (reserve_stock rt p w qty t r) s)
    (\<lambda>_ u. outcome (run_request (release_reservation rt p w qty t r) u)
       (\<lambda>_ v. \<forall>c. on_hand_in (durable v) c = on_hand_in (durable s) c \<and>
          reserved_in (durable v) c = reserved_in (durable s) c)
       (\<lambda>_ _. False))
    (\<lambda>_ _. False)"
proof (rule outcome_mono [OF reserve_stock_run [OF assms(1)]])
  fix a :: stock_level and u :: sess
  assume "reserve_refusal (durable s) rt p w qty t r = None \<and> stock_wf (durable u) \<and>
       (\<exists>v x. stock_frame (begin_state s) v \<and> durable u = work v \<and>
         movements (work v) = movements (durable s) @
           [stamped x (movement t p w RESERVATION qty rt (step_ref r ''reserve''))])"
  then obtain v x where wf: "stock_wf (durable u)" and fr: "stock_frame (begin_state s) v"
    and dv: "durable u = work v"
    and mv: "movements (work v) = movements (durable s) @
      [stamped x (movement t p w RESERVATION qty rt (step_ref r ''reserve''))]" by blast
  have sums: "on_hand_in (durable u) c = on_hand_in (durable s) c"
    "reserved_in (durable u) c = reserved_in (durable s) c + (if c = (t, p, w) then qty else 0)" for c
    by (auto simp: dv on_hand_append [OF mv] reserved_append [OF mv])
  have "0 \<le> reserved_in (durable s) (t, p, w)" using assms(1) by (rule stock_bounds)
  with assms(2,3) have none: "release_refusal (durable u) rt p w qty t r = None"
    using parents_refusal_frame [OF fr]
    by (auto simp: release_refusal_def reserve_refusal_def sums dv ref_posted_append [OF mv]
        reserved_append [OF mv] split: if_splits option.splits)
  show "outcome (run_request (release_reservation rt p w qty t r) u)
       (\<lambda>_ v. \<forall>c. on_hand_in (durable v) c = on_hand_in (durable s) c \<and>
          reserved_in (durable v) c = reserved_in (durable s) c) (\<lambda>_ _. False)"
    unfolding release_reservation_def
    by (rule outcomeI, simp only: wp_then, rule wp_release_step)
      (auto simp: wf none sums wp_simps on_hand_append reserved_append intro!: wp_reread_level)
qed (simp add: assms(2))

lemma reserve_release_roundtrip_witness:
  "outcome (run_request (reserve_stock ''sale_order'' 10 20 4 7 ''r1'') demo)
    (\<lambda>_ u. outcome (run_request (release_reservation ''sale_order'' 10 20 4 7 ''r1'') u)
       (\<lambda>_ v. \<forall>c. on_hand_in (durable v) c = on_hand_in (durable demo) c \<and>
          reserved_in (durable v) c = reserved_in (durable demo) c) (\<lambda>_ _. False)) (\<lambda>_ _. False)"
  by (rule reserve_release_roundtrip) (simp_all add: reserve_refusal_def step_ref_def)

section \<open>Adjustments\<close>



lemma blank_simps [simp]: "blank []" "\<not> py_space c \<Longrightarrow> \<not> blank (c # cs)"
proof -
  show "blank []" by (simp add: blank_def strip_def)
  assume "\<not> py_space c"
  then have "c \<in> set (dropWhile py_space (rev (c # cs)))"
    by (induction "rev (c # cs)" arbitrary: cs) (auto simp: dropWhile_append dropWhile_eq_Nil_conv)
  then show "\<not> blank (c # cs)" using \<open>\<not> py_space c\<close>
    by (auto simp: blank_def strip_def)
qed




section \<open>Transfers\<close>




section \<open>Whole orders\<close>

text \<open>When an order's lines can all be reserved: by its products and each line's own reason.\<close>

definition order_reservable :: "db \<Rightarrow> string \<Rightarrow> uuid \<Rightarrow> uuid \<Rightarrow> uuid \<Rightarrow> order_line list \<Rightarrow> bool" where
  "order_reservable d rt t w oid =
     all_accepted (\<lambda>d p q. reserve_refusal d rt p w q t (uuid_text oid)) d"

text \<open>
  C5. Reserving a whole order is all or nothing: it succeeds exactly when the lines are of
  pairwise distinct products and each of them could be reserved alone, and then every line's
  quantity is added to the reserved sum of its cell; otherwise nothing durable changes.
\<close>

theorem reserve_order_all_or_nothing:
  assumes "stock_wf (durable s)"
  shows "outcome (run_request (reserve_order rt t w oid ls) s)
    (\<lambda>_ u. order_reservable (durable s) rt t w oid ls \<and> stock_wf (durable u) \<and>
       (\<forall>c. on_hand_in (durable u) c = on_hand_in (durable s) c) \<and>
       (\<forall>c. reserved_in (durable u) c = reserved_in (durable s) c + line_sum t w ls c))
    (\<lambda>e u. \<not> order_reservable (durable s) rt t w oid ls \<and> durable u = durable s)"
  unfolding reserve_order_def
  by (rule outcomeI, unfold wp_then wp_forM_mapM, rule reserve_lines.wp_lines)
    (auto simp: assms wp_simps order_reservable_def stock_frame_eqs)

definition demo_line :: "decimal \<Rightarrow> order_line" where
  "demo_line q = \<lparr>ol_id = 60, ol_tenant = 7, ol_order = 50, ol_product = 10, ol_product_name = ''Bolt'',
     ol_sku = ''A-1'', ol_quantity = q, ol_unit_price = 3, ol_discount = 0, ol_tax = 0, ol_total = 3 * q\<rparr>"

lemma demo_line_simps [simp]:
  "ol_product (demo_line q) = 10" "ol_quantity (demo_line q) = q"
  by (simp_all add: demo_line_def)

lemma uuid_text_50: "uuid_text 50 = ''00000000-0000-0000-0000-000000000032''"
  by (subst uuid_text_canonical, simp) code_simp

lemma reserve_order_all_or_nothing_witness:
  "outcome (run_request (reserve_order ''sale_order'' 7 20 50 [demo_line 4]) demo)
     (\<lambda>_ u. reserved_in (durable u) (7, 10, 20) = 10) (\<lambda>_ _. False)"
  by (rule outcome_mono [OF reserve_order_all_or_nothing [of demo "''sale_order''" 7 20 50 "[demo_line 4]"]])
    (auto simp: order_reservable_def all_accepted_def reserve_refusal_def step_ref_def uuid_text_50)

text \<open>
  An order with two lines of the same product can never be reserved, however much stock
  there is: the second line's ledger reference is the one the first line has just used.
\<close>

lemma repeated_product_never_reserved:
  assumes "stock_wf (durable s)" "\<not> distinct (map ol_product ls)"
  shows "outcome (run_request (reserve_order rt t w oid ls) s) (\<lambda>_ _. False) (\<lambda>_ u. durable u = durable s)"
  unfolding reserve_order_def
  by (rule outcomeI, unfold wp_then wp_forM_mapM, rule reserve_lines.wp_lines)
    (auto simp: assms all_accepted_def stock_frame_eqs)

lemma repeated_product_never_reserved_witness:
  "outcome (run_request (reserve_order ''sale_order'' 7 20 50 [demo_line 1, demo_line 1]) demo)
     (\<lambda>_ _. False) (\<lambda>_ u. durable u = durable demo)"
  by (rule repeated_product_never_reserved) simp_all

text \<open>
  C6. Fulfilling a whole order is all or nothing in the same way: it succeeds exactly when the
  products are pairwise distinct and each line could be fulfilled alone, and then both sums of
  every line's cell fall by its quantity.
\<close>

theorem fulfil_order_all_or_nothing:
  assumes "stock_wf (durable s)"
  shows "outcome (run_request (fulfil_order_lines rt t w oid ls) s)
    (\<lambda>_ u. all_accepted (\<lambda>d p q. fulfil_refusal d rt p w q t (uuid_text oid)) (durable s) ls \<and>
       stock_wf (durable u) \<and>
       (\<forall>c. on_hand_in (durable u) c = on_hand_in (durable s) c - line_sum t w ls c) \<and>
       (\<forall>c. reserved_in (durable u) c = reserved_in (durable s) c - line_sum t w ls c))
    (\<lambda>e u. \<not> all_accepted (\<lambda>d p q. fulfil_refusal d rt p w q t (uuid_text oid)) (durable s) ls \<and>
       durable u = durable s)"
  (is "outcome _ ?Q ?E")
proof -
  let ?emit = "\<lambda>x. case x of (product, before, qty) \<Rightarrow> emit_level_changed t product w before (before - qty)"
  have emits: "wp (forM ?emit xs) (\<lambda>_ u. stock_wf (work u) \<and> movements (work u) = M) (\<lambda>_ _. False) v"
    if "stock_wf (work v) \<and> movements (work v) = M" for xs v M
    by (rule wp_forM_inv [where I = "\<lambda>v. stock_wf (work v) \<and> movements (work v) = M"])
      (use that in \<open>auto simp: wp_emit_level_changed stock_wf_unaffected\<close>)
  show ?thesis
    unfolding fulfil_order_lines_def
  proof (rule outcomeI, unfold wp_bind, rule fulfil_lines.wp_lines)
    fix u as
    assume acc: "all_accepted (\<lambda>d p q. fulfil_refusal d rt p w q t (uuid_text oid)) (work (begin_state s)) ls"
      and fr: "stock_frame (begin_state s) u" and wf: "stock_wf (work u)"
      and oh: "\<And>c. on_hand_in (work u) c = on_hand_in (work (begin_state s)) c + - 1 * line_sum t w ls c"
      and rs: "\<And>c. reserved_in (work u) c = reserved_in (work (begin_state s)) c + - 1 * line_sum t w ls c"
    have "wp (forM ?emit as) (\<lambda>_ v. stock_wf (work v) \<and> movements (work v) = movements (work u)) (\<lambda>_ _. False) (commit_state u)"
      by (rule emits) (simp add: wf)
    then have "wp (forM ?emit as) (\<lambda>_ v. ?Q a (commit_state v)) (\<lambda>e v. ?E e (rollback_state v)) (commit_state u)"
      for a :: "(uuid \<times> decimal \<times> decimal) list"
    proof (rule wp_mono)
      fix b :: unit and v :: sess
      assume "stock_wf (work v) \<and> movements (work v) = movements (work u)"
      with acc oh rs show "?Q a (commit_state v)"
        by (simp add: sums_cong [of "work v" "work u"])
    qed simp
    then show "wp (thenM commit (thenM (forM ?emit as)
          (returnM (map (\<lambda>(product, before, qty). (p_id product, qty, amount (p_cost product))) as))))
        (\<lambda>a v. ?Q a (commit_state v)) (\<lambda>e v. ?E e (rollback_state v)) u"
      by (simp add: wp_then wp_commit wp_return_fun)
  qed (auto simp: assms stock_frame_eqs)
qed

lemma fulfil_order_all_or_nothing_witness:
  "outcome (run_request (fulfil_order_lines ''sale_order'' 7 20 50 [demo_line 6]) demo)
     (\<lambda>_ u. on_hand_in (durable u) (7, 10, 20) = 4 \<and> reserved_in (durable u) (7, 10, 20) = 0) (\<lambda>_ _. False)"
  by (rule outcome_mono [OF fulfil_order_all_or_nothing [of demo "''sale_order''" 7 20 50 "[demo_line 6]"]])
    (auto simp: all_accepted_def fulfil_refusal_def step_ref_def uuid_text_50)

section \<open>Archiving\<close>

lemma reserved_total:
  assumes wf: "stock_wf d"
  shows "0 < sum_list (map l_reserved (filter (\<lambda>l. l_tenant l = t \<and> l_product l = p) (levels d))) \<longleftrightarrow>
     (\<exists>w. 0 < reserved_in d (t, p, w))" (is "0 < ?sum \<longleftrightarrow> _")
proof -
  let ?ls = "filter (\<lambda>l. l_tenant l = t \<and> l_product l = p) (levels d)"
  have off: "stock_wf_off {} d" using wf by (simp add: stock_wf_def)
  have nonneg: "0 \<le> x" if "x \<in> set (map l_reserved ?ls)" for x
    using that stock_wf_off_level [OF off] by auto
  have "?sum = 0 \<longleftrightarrow> (\<forall>x \<in> set (map l_reserved ?ls). x = 0)"
    using nonneg by (rule sum_list_nonneg_eq_0_iff)
  moreover have "0 \<le> ?sum" using nonneg by (rule sum_list_nonneg)
  moreover have "(\<forall>x \<in> set (map l_reserved ?ls). x = 0) \<longleftrightarrow> (\<forall>w. \<not> 0 < reserved_in d (t, p, w))"
  proof
    assume zero: "\<forall>x \<in> set (map l_reserved ?ls). x = 0"
    show "\<forall>w. \<not> 0 < reserved_in d (t, p, w)"
    proof
      fix w
      show "\<not> 0 < reserved_in d (t, p, w)"
      proof (cases "select_one (level_at t p w) (levels d)")
        case None
        with no_level_sums [OF wf None] show ?thesis by simp
      next
        case (Some l)
        from select_one_SomeD [OF Some] zero have "l_reserved l = 0" by (auto simp: level_at_def)
        with level_sums [OF wf Some] show ?thesis by simp
      qed
    qed
  next
    assume none: "\<forall>w. \<not> 0 < reserved_in d (t, p, w)"
    show "\<forall>x \<in> set (map l_reserved ?ls). x = 0"
    proof
      fix x assume "x \<in> set (map l_reserved ?ls)"
      then obtain l where l: "l \<in> set (levels d)" "l_tenant l = t" "l_product l = p" "x = l_reserved l" by auto
      then have "x = reserved_in d (t, p, l_warehouse l)"
        using stock_wf_off_sums [OF off l(1)] by (simp add: level_cell_def)
      with none nonneg [of x] \<open>x \<in> set (map l_reserved ?ls)\<close> show "x = 0" by (metis antisym_conv2)
    qed
  qed
  ultimately show ?thesis by auto
qed

text \<open>
  Archiving a product is refused exactly when it is unknown or some warehouse has a reserved
  quantity of it; stock on hand does not block it. When it succeeds the product is inactive and
  neither levels nor ledger changed.
\<close>

lemma deactivate_product_outcome:
  assumes "stock_wf (durable s)"
  shows "outcome (run_request (deactivate_product t p) s)
    (\<lambda>x u. (\<exists>y. product_in (durable s) p t = Some y \<and> x = y\<lparr>p_active := False\<rparr>) \<and>
       (\<forall>w. reserved_in (durable s) (t, p, w) = 0) \<and>
       product_in (durable u) p t = Some x \<and>
       levels (durable u) = levels (durable s) \<and> movements (durable u) = movements (durable s))
    (\<lambda>e u. durable u = durable s \<and>
       (product_in (durable s) p t = None \<and> e = NotFoundError ''Product'' \<or>
        (\<exists>w. 0 < reserved_in (durable s) (t, p, w)) \<and> e = StockReservedError ''Cannot deactivate product'' \<or>
        (\<forall>w. reserved_in (durable s) (t, p, w) = 0) \<and> (\<exists>c. e = IntegrityError c)))"
proof (rule outcomeI)
  let ?d = "durable s"
  note total = reserved_total [OF assms, of t p]
  have zero: "(\<forall>w. reserved_in ?d (t, p, w) = 0) \<longleftrightarrow> \<not> (\<exists>w. 0 < reserved_in ?d (t, p, w))"
    using stock_bounds(1) [OF assms] by (metis less_le)
  have found: "select_one (product_key t p) (update_where (product_key t p) (\<lambda>_. y\<lparr>p_active := False\<rparr>) (products ?d))
      = Some (y\<lparr>p_active := False\<rparr>)" if "product_in ?d p t = Some y" for y
    using that select_one_SomeD [of "product_key t p" "products ?d" y]
    by (subst select_one_update_where) (auto simp: product_in_def product_key_def)
  show "wp (deactivate_product t p)
    (\<lambda>x u. (\<exists>y. product_in ?d p t = Some y \<and> x = y\<lparr>p_active := False\<rparr>) \<and>
       (\<forall>w. reserved_in ?d (t, p, w) = 0) \<and> product_in (durable (commit_state u)) p t = Some x \<and>
       levels (durable (commit_state u)) = levels ?d \<and> movements (durable (commit_state u)) = movements ?d)
    (\<lambda>e u. durable (rollback_state u) = ?d \<and>
       (product_in ?d p t = None \<and> e = NotFoundError ''Product'' \<or>
        (\<exists>w. 0 < reserved_in ?d (t, p, w)) \<and> e = StockReservedError ''Cannot deactivate product'' \<or>
        (\<forall>w. reserved_in ?d (t, p, w) = 0) \<and> (\<exists>c. e = IntegrityError c))) (begin_state s)"
    using total zero found
    by (auto simp: deactivate_product_def wp_simps wp_require_product sum_stock_by_product_def
        sum_levels_def Let_def deactivate_product_row_def change_product_def get_product_def
        emit_inventory_product_removed_def product_in_def split: option.split)
qed

lemma deactivate_product_outcome_witness:
  "outcome (run_request (deactivate_product 7 10) demo) (\<lambda>_ _. False)
     (\<lambda>e _. e = StockReservedError ''Cannot deactivate product'')"
proof (rule outcome_mono [OF deactivate_product_outcome [of demo 7 10]])
  show "stock_wf (durable demo)" by simp
  have "reserved_in (durable demo) (7, 10, 20) \<noteq> 0" by simp
  then show False if "(\<exists>y. product_in (durable demo) 10 7 = Some y \<and> x = y\<lparr>p_active := False\<rparr>) \<and>
       (\<forall>w. reserved_in (durable demo) (7, 10, w) = 0) \<and> Z" for x Z using that by blast
  then show "e = StockReservedError ''Cannot deactivate product''"
    if "durable u = durable demo \<and>
       (product_in (durable demo) 10 7 = None \<and> e = NotFoundError ''Product'' \<or>
        (\<exists>w. 0 < reserved_in (durable demo) (7, 10, w)) \<and> e = StockReservedError ''Cannot deactivate product'' \<or>
        (\<forall>w. reserved_in (durable demo) (7, 10, w) = 0) \<and> (\<exists>c. e = IntegrityError c))" for e u
    using that \<open>reserved_in (durable demo) (7, 10, 20) \<noteq> 0\<close> by auto
qed

section \<open>Tenants and history\<close>



text \<open>
  C8. The ledger is immutable: whatever inventory request is made, and however it ends, the
  durable ledger before is a prefix of the durable ledger after.
\<close>

theorem ledger_is_append_only:
  assumes "inventory_request t m"
  shows "ledger_extends (durable s) (durable (snd (run_request m s)))"
  by (rule run_request_keeps [OF extends.request_kept [OF assms]]) simp

lemma ledger_is_append_only_witness:
  "ledger_extends (durable demo) (durable (snd (run_request (request (transfer_stock 7 10 20 21 3 ''t1'')) demo)))"
  by (rule ledger_is_append_only) (rule inventory_request.intros)

end
