(* ===== verification/Finance_Reports.thy ===== *)
theory Finance_Reports
  imports Finance_Invariants
begin

text \<open>
  The reports of \<open>features/finance/repository.py\<close> (trial balance, profit and loss, balance sheet,
  aging of receivables): reads that aggregate the posted lines of the journal and the open
  invoices. On well-formed books the trial balance balances, and the balance sheet together with the
  profit and loss satisfies the accounting equation.
\<close>

section \<open>The grouped statement\<close>

text \<open>
  The \<open>SELECT\<close> the three ledger reports share: lines joined with their posted entry and their
  account, grouped by account, ordered by code.
\<close>

definition joined_lines ::
  "uuid \<Rightarrow> (journal_entry \<Rightarrow> bool) \<Rightarrow> (account \<Rightarrow> bool) \<Rightarrow> db \<Rightarrow> (journal_line \<times> account) list" where
  "joined_lines tenant dated typed d =
     concat (map (\<lambda>l. concat (map (\<lambda>e.
         map (Pair l) (filter (\<lambda>a. account_key (jl_tenant l) (jl_account l) a \<and> typed a) (accounts d)))
       (filter (\<lambda>e. entry_key (jl_tenant l) (jl_entry l) e \<and> je_tenant e = tenant \<and>
          je_status e = ENTRY_POSTED \<and> dated e) (entries d)))) (journal_lines d))"

record report_row =
  rr_account :: uuid
  rr_code :: string
  rr_name :: string
  rr_type :: account_type
  rr_debit :: decimal
  rr_credit :: decimal

definition group_key :: "journal_line \<times> account \<Rightarrow> uuid \<times> string \<times> string \<times> account_type" where
  "group_key x = (jl_account (fst x), a_code (snd x), a_name (snd x), a_type (snd x))"

definition report_row_of :: "(journal_line \<times> account) list \<Rightarrow> uuid \<times> string \<times> string \<times> account_type \<Rightarrow> report_row" where
  "report_row_of rows k = (case k of (i, code, name, ty) \<Rightarrow>
     (let ls = map fst (filter (\<lambda>x. group_key x = k) rows) in
      \<lparr>rr_account = i, rr_code = code, rr_name = name, rr_type = ty,
       rr_debit = debit_total ls, rr_credit = credit_total ls\<rparr>))"

definition grouped_rows ::
  "uuid \<Rightarrow> (journal_entry \<Rightarrow> bool) \<Rightarrow> (account \<Rightarrow> bool) \<Rightarrow> db \<Rightarrow> report_row list" where
  "grouped_rows tenant dated typed d =
     (let rows = joined_lines tenant dated typed d in
      sort_key (\<lambda>r. collation d (rr_code r)) (map (report_row_of rows) (remdups (map group_key rows))))"

section \<open>The reports\<close>

record trial_balance_report =
  tb_rows :: "report_row list"
  tb_debit :: decimal
  tb_credit :: decimal

definition trial_balance :: "uuid \<Rightarrow> date \<Rightarrow> db \<Rightarrow> trial_balance_report" where
  "trial_balance tenant as_of d =
     (let rows = grouped_rows tenant (\<lambda>e. je_date e \<le> as_of) (\<lambda>_. True) d in
      \<lparr>tb_rows = rows, tb_debit = sum_list (map rr_debit rows), tb_credit = sum_list (map rr_credit rows)\<rparr>)"

text \<open>One line of a report: the account and its amount or balance.\<close>

type_synonym report_line = "uuid \<times> string \<times> string \<times> decimal"

definition credit_balance :: "report_row \<Rightarrow> report_line" where
  "credit_balance r = (rr_account r, rr_code r, rr_name r, rr_credit r - rr_debit r)"

definition debit_balance :: "report_row \<Rightarrow> report_line" where
  "debit_balance r = (rr_account r, rr_code r, rr_name r, rr_debit r - rr_credit r)"

definition line_total :: "report_line list \<Rightarrow> decimal" where
  "line_total ls = sum_list (map (\<lambda>(_, _, _, x). x) ls)"

record profit_and_loss_report =
  pl_revenue :: "report_line list"
  pl_expenses :: "report_line list"
  pl_total_revenue :: decimal
  pl_total_expenses :: decimal
  pl_net_income :: decimal

definition profit_and_loss :: "uuid \<Rightarrow> date \<Rightarrow> date \<Rightarrow> db \<Rightarrow> profit_and_loss_report" where
  "profit_and_loss tenant from_date to_date d =
     (let rows = grouped_rows tenant (\<lambda>e. from_date \<le> je_date e \<and> je_date e \<le> to_date)
          (\<lambda>a. a_type a \<in> {REVENUE, EXPENSE}) d;
          revenue = map credit_balance (filter (\<lambda>r. rr_type r = REVENUE) rows);
          expenses = map debit_balance (filter (\<lambda>r. rr_type r \<noteq> REVENUE) rows) in
      \<lparr>pl_revenue = revenue, pl_expenses = expenses,
       pl_total_revenue = line_total revenue, pl_total_expenses = line_total expenses,
       pl_net_income = line_total revenue - line_total expenses\<rparr>)"

record balance_sheet_report =
  bs_assets :: "report_line list"
  bs_liabilities :: "report_line list"
  bs_equity :: "report_line list"
  bs_total_assets :: decimal
  bs_total_liabilities :: decimal
  bs_total_equity :: decimal

definition balance_sheet :: "uuid \<Rightarrow> date \<Rightarrow> db \<Rightarrow> balance_sheet_report" where
  "balance_sheet tenant as_of d =
     (let rows = grouped_rows tenant (\<lambda>e. je_date e \<le> as_of) (\<lambda>a. a_type a \<in> {ASSET, LIABILITY, EQUITY}) d;
          assets = map debit_balance (filter (\<lambda>r. rr_type r = ASSET) rows);
          liabilities = map credit_balance (filter (\<lambda>r. rr_type r = LIABILITY) rows);
          equity = map credit_balance (filter (\<lambda>r. rr_type r \<noteq> ASSET \<and> rr_type r \<noteq> LIABILITY) rows) in
      \<lparr>bs_assets = assets, bs_liabilities = liabilities, bs_equity = equity,
       bs_total_assets = line_total assets, bs_total_liabilities = line_total liabilities,
       bs_total_equity = line_total equity\<rparr>)"

section \<open>Aging of receivables\<close>

definition aging_bucket :: "int \<Rightarrow> string" where
  "aging_bucket age = (if age \<le> 0 then ''current'' else if age \<le> 30 then ''1_30''
     else if age \<le> 60 then ''31_60'' else if age \<le> 90 then ''61_90'' else ''over_90'')"

text \<open>The dictionary of buckets, in the order of first use.\<close>

fun add_to_bucket :: "string \<Rightarrow> decimal \<Rightarrow> (string \<times> nat \<times> decimal) list \<Rightarrow> (string \<times> nat \<times> decimal) list" where
  "add_to_bucket k x [] = [(k, 1, 0 + x)]"
| "add_to_bucket k x ((j, n, y) # bs) = (if j = k then (j, n + 1, y + x) # bs else (j, n, y) # add_to_bucket k x bs)"

definition aged_buckets :: "date \<Rightarrow> invoice list \<Rightarrow> (string \<times> nat \<times> decimal) list" where
  "aged_buckets as_of vs = fold (\<lambda>v. add_to_bucket (aging_bucket (as_of - i_due v)) (i_total v)) vs []"

record aging_row =
  ag_bucket :: string
  ag_count :: nat
  ag_amount :: decimal
  ag_share :: decimal

definition open_invoices :: "uuid \<Rightarrow> db \<Rightarrow> invoice list" where
  "open_invoices tenant d =
     filter (\<lambda>v. i_tenant v = tenant \<and> i_status v \<in> {INVOICE_ISSUED, INVOICE_APPROVED}) (invoices d)"

definition ar_aging :: "uuid \<Rightarrow> date \<Rightarrow> db \<Rightarrow> decimal \<times> aging_row list" where
  "ar_aging tenant as_of d =
     (let buckets = aged_buckets as_of (open_invoices tenant d);
          total = sum_list (map (\<lambda>(_, _, x). x) buckets) in
      (total, map (\<lambda>(k, n, x). \<lparr>ag_bucket = k, ag_count = n, ag_amount = x,
         ag_share = quantize 4 (if total \<noteq> 0 then prec28 (x / total) else 0)\<rparr>) buckets))"

section \<open>What the grouping preserves\<close>

lemma sum_list_sort_key: "sum_list (map f (sort_key k xs)) = sum_list (map f xs :: 'b :: comm_monoid_add list)"
proof -
  have "mset (map f (sort_key k xs)) = mset (map f xs)" by simp
  then show ?thesis by (metis sum_mset_sum_list)
qed

text \<open>The groups of a list partition it.\<close>

lemma sum_list_at: "distinct ks \<Longrightarrow> k \<in> set ks \<Longrightarrow>
    sum_list (map (\<lambda>j. if k = j then c else 0) ks) = (c :: 'b :: comm_monoid_add)"
proof (induction ks)
  case (Cons j js)
  have "k \<notin> set js \<Longrightarrow> sum_list (map (\<lambda>j. if k = j then c else 0) js) = 0" by (induction js) auto
  with Cons show ?case by auto
qed simp

lemma sum_list_grouped:
  fixes f :: "'x \<Rightarrow> 'b :: comm_monoid_add"
  assumes "distinct ks" "g ` set xs \<subseteq> set ks"
  shows "sum_list (map (\<lambda>k. sum_list (map f (filter (\<lambda>x. g x = k) xs))) ks) = sum_list (map f xs)"
  using assms(2)
proof (induction xs)
  case (Cons x xs)
  have "(\<lambda>k. sum_list (map f (filter (\<lambda>y. g y = k) (x # xs)))) =
      (\<lambda>k. (if g x = k then f x else 0) + sum_list (map f (filter (\<lambda>y. g y = k) xs)))" by auto
  then show ?case using Cons assms(1) by (simp add: sum_list_addf sum_list_at del: filter.simps)
qed simp

lemma sum_list_groups:
  fixes f :: "'x \<Rightarrow> 'b :: comm_monoid_add"
  shows "sum_list (map (\<lambda>k. sum_list (map f (filter (\<lambda>x. g x = k) xs))) (remdups (map g xs))) = sum_list (map f xs)"
  by (rule sum_list_grouped) simp_all

text \<open>
  The sum of the debits of the grouped rows of some types is the sum over the joined lines on those
  accounts, and so for the credits.
\<close>

lemma grouped_sums:
  defines "rows t dated typed d \<equiv> grouped_rows t dated typed d"
    and "js t dated typed d \<equiv> joined_lines t dated typed d"
  shows "sum_list (map rr_debit (filter (\<lambda>r. Q (rr_type r)) (rows t dated typed d))) =
      sum_list (map (\<lambda>x. debit_of (fst x)) (filter (\<lambda>x. Q (a_type (snd x))) (js t dated typed d)))"
    and "sum_list (map rr_credit (filter (\<lambda>r. Q (rr_type r)) (rows t dated typed d))) =
      sum_list (map (\<lambda>x. credit_of (fst x)) (filter (\<lambda>x. Q (a_type (snd x))) (js t dated typed d)))"
proof -
  have part: "sum_list (map h (filter (\<lambda>r. Q (rr_type r)) (grouped_rows t dated typed d))) =
      sum_list (map (\<lambda>x. v (fst x)) (filter (\<lambda>x. Q (a_type (snd x))) (joined_lines t dated typed d)))"
    if h: "\<And>k. h (report_row_of (joined_lines t dated typed d) k) =
        sum_list (map (\<lambda>x. v (fst x)) (filter (\<lambda>x. group_key x = k) (joined_lines t dated typed d)))"
    for h :: "report_row \<Rightarrow> decimal" and v
  proof -
    let ?js = "joined_lines t dated typed d"
    let ?h = "\<lambda>r. if Q (rr_type r) then h r else 0"
    have drop: "sum_list (map w (filter P xs)) = sum_list (map (\<lambda>x. if P x then w x else 0) xs)"
      for w :: "'y \<Rightarrow> decimal" and P xs by (induction xs) auto
    have "sum_list (map ?h (grouped_rows t dated typed d)) =
        sum_list (map (\<lambda>k. ?h (report_row_of ?js k)) (remdups (map group_key ?js)))"
      by (simp add: grouped_rows_def Let_def sum_list_sort_key comp_def)
    also have "(\<lambda>k. ?h (report_row_of ?js k)) =
        (\<lambda>k. sum_list (map (\<lambda>x. if Q (a_type (snd x)) then v (fst x) else 0) (filter (\<lambda>x. group_key x = k) ?js)))"
    proof
      fix k
      have ty: "rr_type (report_row_of ?js k) = snd (snd (snd k))"
        by (simp add: report_row_of_def Let_def split: prod.split)
      have same: "map (\<lambda>x. if Q (a_type (snd x)) then v (fst x) else 0) (filter (\<lambda>x. group_key x = k) ?js) =
          map (\<lambda>x. if Q (snd (snd (snd k))) then v (fst x) else 0) (filter (\<lambda>x. group_key x = k) ?js)"
        by (rule map_cong) (auto simp: group_key_def)
      show "?h (report_row_of ?js k) =
          sum_list (map (\<lambda>x. if Q (a_type (snd x)) then v (fst x) else 0) (filter (\<lambda>x. group_key x = k) ?js))"
        unfolding same by (simp add: ty h)
    qed
    finally have "sum_list (map ?h (grouped_rows t dated typed d)) =
        sum_list (map (\<lambda>x. if Q (a_type (snd x)) then v (fst x) else 0) ?js)"
      unfolding sum_list_groups .
    then show ?thesis unfolding drop .
  qed
  have cols: "rr_debit (report_row_of xs k) = sum_list (map (\<lambda>x. debit_of (fst x)) (filter (\<lambda>x. group_key x = k) xs))"
    "rr_credit (report_row_of xs k) = sum_list (map (\<lambda>x. credit_of (fst x)) (filter (\<lambda>x. group_key x = k) xs))" for xs k
    by (simp_all add: report_row_of_def Let_def totals_sum_list comp_def split: prod.split)
  show "sum_list (map rr_debit (filter (\<lambda>r. Q (rr_type r)) (rows t dated typed d))) =
      sum_list (map (\<lambda>x. debit_of (fst x)) (filter (\<lambda>x. Q (a_type (snd x))) (js t dated typed d)))"
    unfolding rows_def js_def by (rule part [where v = debit_of]) (rule cols)
  show "sum_list (map rr_credit (filter (\<lambda>r. Q (rr_type r)) (rows t dated typed d))) =
      sum_list (map (\<lambda>x. credit_of (fst x)) (filter (\<lambda>x. Q (a_type (snd x))) (js t dated typed d)))"
    unfolding rows_def js_def by (rule part [where v = credit_of]) (rule cols)
qed

text \<open>On well-formed books a line joins its one entry and its one account.\<close>

definition counted :: "uuid \<Rightarrow> (journal_entry \<Rightarrow> bool) \<Rightarrow> (account \<Rightarrow> bool) \<Rightarrow> db \<Rightarrow> journal_line \<Rightarrow> bool" where
  "counted t dated typed d l \<longleftrightarrow>
     (\<exists>e \<in> set (entries d). entry_key (jl_tenant l) (jl_entry l) e \<and> je_tenant e = t \<and> je_status e = ENTRY_POSTED \<and> dated e) \<and>
     (\<exists>a \<in> set (accounts d). account_key (jl_tenant l) (jl_account l) a \<and> typed a)"

lemma filter_unique:
  assumes "distinct (map f xs)" "\<And>x y. x \<in> set xs \<Longrightarrow> y \<in> set xs \<Longrightarrow> P x \<Longrightarrow> P y \<Longrightarrow> f x = f y"
  shows "length (filter P xs) = (if \<exists>x \<in> set xs. P x then 1 else 0)"
proof (cases "\<exists>x \<in> set xs. P x")
  case True
  then obtain x where x: "x \<in> set xs" "P x" by blast
  have "set (filter P xs) = {x}"
    using x assms by (auto simp: distinct_map dest: inj_onD)
  moreover have "distinct (filter P xs)" using assms(1) by (simp add: distinct_map)
  ultimately show ?thesis using True by (metis card.empty card_insert_disjoint distinct_card empty_iff finite.emptyI One_nat_def)
qed (simp add: filter_empty_conv)

lemma sum_list_const: "sum_list (map (\<lambda>_. c) xs) = of_nat (length xs) * (c :: decimal)"
  by (induction xs) (simp_all add: algebra_simps)

lemma joined_sum:
  assumes wf: "books_wf d"
  shows "sum_list (map (\<lambda>x. w (fst x)) (filter (\<lambda>x. Q (a_type (snd x))) (joined_lines t dated typed d))) =
    sum_list (map w (filter (counted t dated (\<lambda>a. typed a \<and> Q (a_type a)) d) (journal_lines d)) :: decimal list)"
proof -
  let ?E = "\<lambda>l e. entry_key (jl_tenant l) (jl_entry l) e \<and> je_tenant e = t \<and> je_status e = ENTRY_POSTED \<and> dated e"
  let ?A = "\<lambda>l a. account_key (jl_tenant l) (jl_account l) a \<and> typed a \<and> Q (a_type a)"
  have dist: "distinct (map entry_id (entries d))" "distinct (map account_id (accounts d))"
    using wf by (simp_all add: books_wf_def)
  have en: "length (filter (?E l) (entries d)) = (if \<exists>e \<in> set (entries d). ?E l e then 1 else 0)" for l
    by (rule filter_unique [OF dist(1)]) (simp add: entry_key_def entry_id_def)
  have ac: "length (filter (?A l) (accounts d)) = (if \<exists>a \<in> set (accounts d). ?A l a then 1 else 0)" for l
    by (rule filter_unique [OF dist(2)]) (simp add: account_key_def account_id_def)
  have row: "sum_list (map (\<lambda>x. w (fst x)) (filter (\<lambda>x. Q (a_type (snd x)))
        (map (Pair l) (filter (\<lambda>a. account_key (jl_tenant l) (jl_account l) a \<and> typed a) as)))) =
      of_nat (length (filter (?A l) as)) * w l" for l as
    by (induction as) (auto simp: algebra_simps)
  have col: "sum_list (map (\<lambda>x. w (fst x)) (filter (\<lambda>x. Q (a_type (snd x))) (concat (map (\<lambda>e. xs) es)))) =
      of_nat (length es) * sum_list (map (\<lambda>x. w (fst x)) (filter (\<lambda>x. Q (a_type (snd x))) xs))"
    for xs :: "(journal_line \<times> account) list" and es :: "journal_entry list"
    by (induction es) (simp_all add: algebra_simps)
  have line: "of_nat (length (filter (?E l) (entries d))) * (of_nat (length (filter (?A l) (accounts d))) * w l) =
      (if counted t dated (\<lambda>a. typed a \<and> Q (a_type a)) d l then w l else 0)" for l
    unfolding en ac counted_def by auto
  have "sum_list (map (\<lambda>x. w (fst x)) (filter (\<lambda>x. Q (a_type (snd x))) (concat (map (\<lambda>l. concat (map (\<lambda>e.
         map (Pair l) (filter (\<lambda>a. account_key (jl_tenant l) (jl_account l) a \<and> typed a) (accounts d)))
       (filter (?E l) (entries d)))) ls)))) =
     sum_list (map w (filter (counted t dated (\<lambda>a. typed a \<and> Q (a_type a)) d) ls))" for ls
    by (induction ls) (simp_all only: list.map concat.simps filter_append map_append sum_list_append col row line
        filter.simps sum_list.Nil sum_list.Cons if_distrib [of "map w"] if_distrib [of sum_list], simp_all)
  then show ?thesis unfolding joined_lines_def .
qed

text \<open>The counted lines, entry by entry; the posted entries of a tenant balance, so they do.\<close>

definition ledger_sum ::
  "(journal_line \<Rightarrow> decimal) \<Rightarrow> uuid \<Rightarrow> (journal_entry \<Rightarrow> bool) \<Rightarrow> (account \<Rightarrow> bool) \<Rightarrow> db \<Rightarrow> decimal" where
  "ledger_sum w t dated typed d = sum_list (map w (filter (counted t dated typed d) (journal_lines d)))"

lemma ledger_sum_by_entry:
  assumes wf: "books_wf d"
  shows "ledger_sum w t dated (\<lambda>_. True) d = sum_list (map (\<lambda>e. sum_list (map w (entry_lines t (je_id e) d)))
    (filter (\<lambda>e. je_tenant e = t \<and> je_status e = ENTRY_POSTED \<and> dated e) (entries d)))"
proof -
  let ?es = "filter (\<lambda>e. je_tenant e = t \<and> je_status e = ENTRY_POSTED \<and> dated e) (entries d)"
  let ?ls = "filter (counted t dated (\<lambda>_. True) d) (journal_lines d)"
  have "distinct (map entry_id ?es)" using wf by (simp add: books_wf_def distinct_map_filter)
  then have dist: "distinct (map je_id ?es)"
    by (auto simp: distinct_map entry_id_def inj_on_def)
  have cover: "jl_entry ` set ?ls \<subseteq> set (map je_id ?es)"
    by (force simp: counted_def entry_key_def)
  have one: "filter (\<lambda>l. jl_entry l = je_id e) ?ls = entry_lines t (je_id e) d" if "e \<in> set ?es" for e
    using that wf
    by (auto simp: entry_lines_def line_of_def counted_def entry_key_def books_wf_def line_placed_def filter_filter
        intro!: filter_cong)
  have "map (\<lambda>e. sum_list (map w (filter (\<lambda>l. jl_entry l = je_id e) ?ls))) ?es =
      map (\<lambda>e. sum_list (map w (entry_lines t (je_id e) d))) ?es"
    by (rule map_cong [OF refl]) (simp only: one)
  with sum_list_grouped [OF dist cover, of w] show ?thesis unfolding ledger_sum_def map_map comp_def by metis
qed

lemma ledger_sum_balance:
  assumes wf: "books_wf d"
  shows "ledger_sum debit_of t dated (\<lambda>_. True) d = ledger_sum credit_of t dated (\<lambda>_. True) d"
proof -
  have "sum_list (map debit_of (entry_lines t (je_id e) d)) = sum_list (map credit_of (entry_lines t (je_id e) d))"
    if "e \<in> set (filter (\<lambda>e. je_tenant e = t \<and> je_status e = ENTRY_POSTED \<and> dated e) (entries d))" for e
    using wf that by (auto simp: books_wf_def balanced_def totals_sum_list)
  then show ?thesis unfolding ledger_sum_by_entry [OF wf] by (rule arg_cong [of _ _ sum_list, OF map_cong [OF refl]])
qed

section \<open>The reports balance\<close>

lemma grouped_ledger_sums:
  assumes "books_wf d"
  shows "sum_list (map rr_debit (filter (\<lambda>r. Q (rr_type r)) (grouped_rows t dated typed d))) =
      ledger_sum debit_of t dated (\<lambda>a. typed a \<and> Q (a_type a)) d"
    "sum_list (map rr_credit (filter (\<lambda>r. Q (rr_type r)) (grouped_rows t dated typed d))) =
      ledger_sum credit_of t dated (\<lambda>a. typed a \<and> Q (a_type a)) d"
  unfolding grouped_sums joined_sum [OF assms] ledger_sum_def by (rule refl)+

lemma line_total_balances:
  "line_total (map debit_balance rows) = sum_list (map rr_debit rows) - sum_list (map rr_credit rows)"
  "line_total (map credit_balance rows) = sum_list (map rr_credit rows) - sum_list (map rr_debit rows)"
  by (induction rows) (simp_all add: line_total_def debit_balance_def credit_balance_def)

lemma account_unique:
  assumes "books_wf d" "a \<in> set (accounts d)" "account_key t i a" "b \<in> set (accounts d)" "account_key t i b"
  shows "a = b"
  using assms inj_onD [of account_id "set (accounts d)" a b]
  by (simp add: books_wf_def distinct_map account_key_def account_id_def)

text \<open>The account of a placed line is one account, so the types share the lines out.\<close>

lemma ledger_sum_types:
  assumes wf: "books_wf d"
  shows "ledger_sum w t dated (\<lambda>_. True) d = ledger_sum w t dated (\<lambda>a. a_type a = ASSET) d +
      ledger_sum w t dated (\<lambda>a. a_type a = LIABILITY) d + ledger_sum w t dated (\<lambda>a. a_type a = EQUITY) d +
      ledger_sum w t dated (\<lambda>a. a_type a = REVENUE) d + ledger_sum w t dated (\<lambda>a. a_type a = EXPENSE) d"
proof -
  have "(if counted t dated (\<lambda>_. True) d l then w l else 0) =
      (if counted t dated (\<lambda>a. a_type a = ASSET) d l then w l else 0) +
      (if counted t dated (\<lambda>a. a_type a = LIABILITY) d l then w l else 0) +
      (if counted t dated (\<lambda>a. a_type a = EQUITY) d l then w l else 0) +
      (if counted t dated (\<lambda>a. a_type a = REVENUE) d l then w l else 0) +
      (if counted t dated (\<lambda>a. a_type a = EXPENSE) d l then w l else 0)"
    if "l \<in> set (journal_lines d)" for l
  proof -
    have "line_placed d l" using wf that by (simp add: books_wf_def)
    then obtain a where a: "a \<in> set (accounts d)" "account_key (jl_tenant l) (jl_account l) a"
      unfolding line_placed_def by blast
    have only: "b = a" if "b \<in> set (accounts d)" "account_key (jl_tenant l) (jl_account l) b" for b
      using account_unique [OF wf that a] .
    have "counted t dated (\<lambda>b. a_type b = A) d l \<longleftrightarrow> counted t dated (\<lambda>_. True) d l \<and> a_type a = A" for A
      unfolding counted_def using a only by blast
    then show ?thesis by (cases "a_type a") simp_all
  qed
  moreover have "sum_list (map w (filter P xs)) = sum_list (map (\<lambda>x. if P x then w x else 0) xs)" for P xs
    by (induction xs) auto
  ultimately show ?thesis unfolding ledger_sum_def by (simp add: sum_list_addf [symmetric] cong: map_cong)
qed

lemma ledger_sum_cong:
  "(\<And>e. e \<in> set (entries d) \<Longrightarrow> je_tenant e = t \<Longrightarrow> je_status e = ENTRY_POSTED \<Longrightarrow> dated e = dated' e) \<Longrightarrow>
   (\<And>a. typed a = typed' a) \<Longrightarrow> ledger_sum w t dated typed d = ledger_sum w t dated' typed' d"
  unfolding ledger_sum_def by (intro arg_cong [of _ _ sum_list] arg_cong [of _ _ "map w"] filter_cong)
    (auto simp: counted_def)

text \<open>One row per account.\<close>

lemma joined_account:
  assumes "x \<in> set (joined_lines t dated typed d)"
  shows "snd x \<in> set (accounts d) \<and> account_key t (jl_account (fst x)) (snd x)"
  using assms by (auto simp: joined_lines_def account_key_def entry_key_def)

lemma grouped_accounts_distinct:
  assumes wf: "books_wf d"
  shows "distinct (map rr_account (grouped_rows t dated typed d))"
proof -
  let ?js = "joined_lines t dated typed d"
  have acc: "rr_account (report_row_of ?js k) = fst k" for k
    by (simp add: report_row_of_def Let_def split: prod.split)
  have only: "snd x = snd y" if "x \<in> set ?js" "y \<in> set ?js" "jl_account (fst x) = jl_account (fst y)" for x y
    by (rule account_unique [OF wf, where t = t and i = "jl_account (fst x)"])
      (use joined_account [OF that(1)] joined_account [OF that(2)] that(3) in simp_all)
  have "inj_on fst (set (map group_key ?js))"
  proof (rule inj_onI)
    fix j k
    assume "j \<in> set (map group_key ?js)" "k \<in> set (map group_key ?js)" "fst j = fst k"
    then obtain x y where xy: "x \<in> set ?js" "y \<in> set ?js" "j = group_key x" "k = group_key y" "fst j = fst k"
      by auto
    then have "snd x = snd y" by (intro only) (simp_all add: group_key_def)
    with xy show "j = k" by (simp add: group_key_def)
  qed
  then have "distinct (map fst (remdups (map group_key ?js)))" by (simp add: distinct_map)
  then have "distinct (map rr_account (map (report_row_of ?js) (remdups (map group_key ?js))))"
    by (simp add: acc comp_def)
  then show ?thesis
    unfolding grouped_rows_def Let_def by (simp add: distinct_map del: map_map)
qed

lemma trial_balance_sums:
  assumes "books_wf d"
  shows "tb_debit (trial_balance t as_of d) = ledger_sum debit_of t (\<lambda>e. je_date e \<le> as_of) (\<lambda>_. True) d"
    "tb_credit (trial_balance t as_of d) = ledger_sum credit_of t (\<lambda>e. je_date e \<le> as_of) (\<lambda>_. True) d"
  using grouped_ledger_sums [OF assms, where Q = "\<lambda>_. True" and typed = "\<lambda>_. True"]
  by (simp_all add: trial_balance_def Let_def)

text \<open>
  C21. On well-formed books the trial balance of any day balances: its total debit is its total
  credit, and both are the sums over the posted lines up to that day, no line lost or counted
  twice by the grouping; its rows name every account at most once, in the order of their codes.
\<close>

theorem trial_balance_balances:
  assumes wf: "finance_wf d"
  shows "tb_debit (trial_balance t as_of d) = tb_credit (trial_balance t as_of d) \<and>
    tb_debit (trial_balance t as_of d) = ledger_sum debit_of t (\<lambda>e. je_date e \<le> as_of) (\<lambda>_. True) d \<and>
    distinct (map rr_account (tb_rows (trial_balance t as_of d))) \<and>
    sorted (map (\<lambda>r. collation d (rr_code r)) (tb_rows (trial_balance t as_of d)))"
proof -
  have bw: "books_wf d" using wf by (simp add: finance_wf_def)
  have "tb_rows (trial_balance t as_of d) = grouped_rows t (\<lambda>e. je_date e \<le> as_of) (\<lambda>_. True) d"
    by (simp add: trial_balance_def Let_def)
  moreover have "sorted (map (\<lambda>r. collation d (rr_code r)) (grouped_rows t (\<lambda>e. je_date e \<le> as_of) (\<lambda>_. True) d))"
    by (simp add: grouped_rows_def Let_def)
  ultimately show ?thesis
    using ledger_sum_balance [OF bw] grouped_accounts_distinct [OF bw] by (simp add: trial_balance_sums [OF bw])
qed

lemma trial_balance_balances_witness:
  "tb_debit (trial_balance 7 6 books_db) = 100 \<and> tb_credit (trial_balance 7 6 books_db) = 100"
proof -
  have "ledger_sum credit_of 7 (\<lambda>e. je_date e \<le> 6) (\<lambda>_. True) books_db = 100"
    by (simp add: ledger_sum_def counted_def demo_books_defs empty_db_def entry_key_def account_key_def credit_of_def)
  then have "tb_credit (trial_balance 7 6 books_db) = 100"
    by (simp add: trial_balance_sums [OF finance_wfD(1) [OF books_db_wf]])
  with trial_balance_balances [OF books_db_wf, of 7 6] show ?thesis by simp
qed

text \<open>
  The accounting equation: on well-formed books, assets equal liabilities plus equity plus the
  net income of all days up to the reporting day. The balance sheet alone, which has no line
  for earnings, balances exactly when that net income is zero.
\<close>

lemma accounting_equation:
  assumes wf: "finance_wf d" and first: "\<forall>e \<in> set (entries d). je_tenant e = t \<longrightarrow> first_day \<le> je_date e"
  shows "let sheet = balance_sheet t as_of d; earned = pl_net_income (profit_and_loss t first_day as_of d) in
    bs_total_assets sheet = bs_total_liabilities sheet + bs_total_equity sheet + earned \<and>
    (bs_total_assets sheet = bs_total_liabilities sheet + bs_total_equity sheet \<longleftrightarrow> earned = 0)"
proof -
  let ?sheet = "balance_sheet t as_of d" and ?earned = "pl_net_income (profit_and_loss t first_day as_of d)"
  have bw: "books_wf d" using wf by (simp add: finance_wf_def)
  let ?S = "\<lambda>w ty. ledger_sum w t (\<lambda>e. je_date e \<le> as_of) (\<lambda>a. a_type a = ty) d"
  note sums = grouped_ledger_sums [OF bw, where Q = "\<lambda>y. y = ASSET"] grouped_ledger_sums [OF bw, where Q = "\<lambda>y. y = LIABILITY"]
    grouped_ledger_sums [OF bw, where Q = "\<lambda>y. y \<noteq> ASSET \<and> y \<noteq> LIABILITY"]
    grouped_ledger_sums [OF bw, where Q = "\<lambda>y. y = REVENUE"] grouped_ledger_sums [OF bw, where Q = "\<lambda>y. y \<noteq> REVENUE"]
  have cong: "ledger_sum w t (\<lambda>e. je_date e \<le> as_of) ty d = ?S w A" if "\<And>a. ty a = (a_type a = A)" for w ty A
    using that by (intro ledger_sum_cong) simp_all
  have cong': "ledger_sum w t (\<lambda>e. first_day \<le> je_date e \<and> je_date e \<le> as_of) ty d = ?S w A"
    if "\<And>a. ty a = (a_type a = A)" for w ty A
    using that first by (intro ledger_sum_cong) auto
  have sheet: "bs_total_assets ?sheet = ?S debit_of ASSET - ?S credit_of ASSET"
    "bs_total_liabilities ?sheet = ?S credit_of LIABILITY - ?S debit_of LIABILITY"
    "bs_total_equity ?sheet = ?S credit_of EQUITY - ?S debit_of EQUITY"
    unfolding balance_sheet_def Let_def balance_sheet_report.simps line_total_balances sums
    by (intro arg_cong2 [of _ _ _ _ "(-)"] cong; auto)+
  have "?earned = (?S credit_of REVENUE - ?S debit_of REVENUE) - (?S debit_of EXPENSE - ?S credit_of EXPENSE)"
    unfolding profit_and_loss_def Let_def profit_and_loss_report.simps line_total_balances sums
    by (intro arg_cong2 [of _ _ _ _ "(-)"] cong'; auto)
  moreover have "ledger_sum debit_of t (\<lambda>e. je_date e \<le> as_of) (\<lambda>_. True) d =
      ledger_sum credit_of t (\<lambda>e. je_date e \<le> as_of) (\<lambda>_. True) d"
    by (rule ledger_sum_balance [OF bw])
  ultimately show ?thesis
    unfolding Let_def sheet ledger_sum_types [OF bw] by (simp add: algebra_simps, linarith)
qed

lemma accounting_equation_witness:
  "let sheet = balance_sheet 7 6 books_db; earned = pl_net_income (profit_and_loss 7 0 6 books_db) in
    earned = 100 \<and> bs_total_assets sheet \<noteq> bs_total_liabilities sheet + bs_total_equity sheet"
proof -
  have "\<forall>e \<in> set (entries books_db). je_tenant e = 7 \<longrightarrow> 0 \<le> je_date e" by (simp add: demo_books_defs)
  moreover have "pl_net_income (profit_and_loss 7 0 6 books_db) = 100"
    by (simp add: profit_and_loss_def grouped_rows_def joined_lines_def Let_def demo_books_defs empty_db_def entry_key_def
        account_key_def report_row_of_def group_key_def line_total_def credit_balance_def debit_balance_def
        debit_of_def credit_of_def)
  ultimately show ?thesis using accounting_equation [OF books_db_wf, of 7 0 6] by (simp add: Let_def)
qed

section \<open>Reversing an entry\<close>

definition reversed_entry :: "journal_entry \<Rightarrow> journal_entry" where
  "reversed_entry e = e\<lparr>je_status := ENTRY_REVERSED\<rparr>"

definition posted_key :: "uuid \<Rightarrow> uuid \<Rightarrow> journal_entry \<Rightarrow> bool" where
  "posted_key t i e \<longleftrightarrow> entry_key t i e \<and> je_status e = ENTRY_POSTED"

definition reversed_db :: "uuid \<Rightarrow> uuid \<Rightarrow> db \<Rightarrow> db" where
  "reversed_db t i d = d\<lparr>entries := update_where (posted_key t i) reversed_entry (entries d)\<rparr>"

lemma wp_reverse_journal_entry:
  assumes ok: "\<And>e a. select_one (entry_key t i) (entries (work s)) = Some e \<Longrightarrow> je_status e = ENTRY_POSTED \<Longrightarrow>
      Q (reversed_entry e, entry_lines t i (work s))
        (s\<lparr>work := (reversed_db t i (work s))\<lparr>audit_logs := audit_logs (work s) @ [a]\<rparr>\<rparr>)"
    and err: "\<And>x. \<forall>e. select_one (entry_key t i) (entries (work s)) = Some e \<longrightarrow> je_status e \<noteq> ENTRY_POSTED \<Longrightarrow>
      E (NotFoundError x) s"
  shows "wp (reverse_journal_entry t user i) Q E s"
proof -
  have "wp (flip_entry ENTRY_POSTED (\<lambda>e. e\<lparr>je_status := ENTRY_REVERSED\<rparr>) i t) Q' E s"
    if "select_one (entry_key t i) (entries (work s)) = Some e" "je_status e = ENTRY_POSTED"
      "Q' (Some (reversed_entry e, entry_lines t i (work s))) (s\<lparr>work := reversed_db t i (work s)\<rparr>)" for Q' e
    by (rule wp_flip_entry [OF _ that(1,2)])
      (use that(3) in \<open>simp_all add: reversed_entry_def [abs_def] reversed_db_def posted_key_def [abs_def]\<close>)
  then show ?thesis
    using ok err
    by (auto simp: reverse_journal_entry_def reverse_journal_entry_row_def get_journal_entry_row_def load_entry_def
        wp_flow wp_audit_by reversed_db_def split: option.split)
qed

lemma filter_update_where_out:
  "(\<And>r. G r \<Longrightarrow> \<not> P (f r)) \<Longrightarrow> filter P (update_where G f rows) = filter (\<lambda>r. P r \<and> \<not> G r) rows"
  by (induction rows) auto

lemma sum_list_filter_split:
  "sum_list (map g (filter P xs)) = sum_list (map g (filter (\<lambda>x. P x \<and> G x) xs)) +
     (sum_list (map g (filter (\<lambda>x. P x \<and> \<not> G x) xs)) :: decimal)"
  by (induction xs) (auto simp: algebra_simps)

lemma posted_only:
  assumes wf: "books_wf d" and e: "select_one (entry_key t i) (entries d) = Some e" "je_status e = ENTRY_POSTED"
  shows "filter (posted_key t i) (entries d) = [e]"
proof -
  from e have mem: "e \<in> set (entries d)" "posted_key t i e"
    by (auto simp: posted_key_def dest: select_one_SomeD)
  have "distinct (map entry_id (entries d))" using wf by (simp add: books_wf_def)
  then have "length (filter (posted_key t i) (entries d)) = 1"
    using filter_unique [of entry_id "entries d" "posted_key t i"] mem
    by (auto simp: posted_key_def entry_key_def entry_id_def)
  then obtain f where f: "filter (posted_key t i) (entries d) = [f]" by (auto simp: length_Suc_conv)
  moreover have "e \<in> set (filter (posted_key t i) (entries d))" using mem by simp
  ultimately show ?thesis by simp
qed

lemma ledger_sum_reversed:
  assumes wf: "books_wf d" "books_wf (reversed_db t i d)"
    and e: "select_one (entry_key t i) (entries d) = Some e" "je_status e = ENTRY_POSTED"
  shows "ledger_sum w t dated (\<lambda>_. True) d = ledger_sum w t dated (\<lambda>_. True) (reversed_db t i d) +
    (if dated e then sum_list (map w (entry_lines t i d)) else 0)"
proof -
  let ?P = "\<lambda>e. je_tenant e = t \<and> je_status e = ENTRY_POSTED \<and> dated e"
  let ?g = "\<lambda>e. sum_list (map w (entry_lines t (je_id e) d))"
  have lines: "entry_lines t j (reversed_db t i d) = entry_lines t j d" for j
    by (simp add: entry_lines_def reversed_db_def)
  have key: "entry_key t i e" using e(1) by (simp add: select_one_SomeD)
  have "filter (\<lambda>e. ?P e \<and> posted_key t i e) (entries d) = filter ?P (filter (posted_key t i) (entries d))"
    by (simp add: filter_filter conj_ac)
  then have one: "filter (\<lambda>e. ?P e \<and> posted_key t i e) (entries d) = (if dated e then [e] else [])"
    using key e(2) by (simp add: posted_only [OF wf(1) e] entry_key_def)
  have rest: "filter ?P (entries (reversed_db t i d)) = filter (\<lambda>e. ?P e \<and> \<not> posted_key t i e) (entries d)"
    unfolding reversed_db_def by (simp add: filter_update_where_out reversed_entry_def)
  show ?thesis
    unfolding ledger_sum_by_entry [OF wf(1)] ledger_sum_by_entry [OF wf(2)] rest lines
      sum_list_filter_split [of ?g ?P "entries d" "posted_key t i"] one
    using key by (simp add: entry_key_def)
qed

text \<open>
  C22. Reversing a posted entry posts nothing: the journal keeps its lines and the number of its entries, the
  entry's status changes, and its amounts are gone from the trial balance of every day on or after its date,
  also when that day lies in a closed period.
\<close>

theorem reversal_posts_nothing:
  assumes wf: "finance_wf (durable s)" and run: "run_request (reverse_journal_entry t user i) s = (Inr doc, u)"
  shows "journal_lines (durable u) = journal_lines (durable s) \<and> length (entries (durable u)) = length (entries (durable s)) \<and>
    je_status (fst doc) = ENTRY_REVERSED \<and>
    tb_debit (trial_balance t as_of (durable s)) = tb_debit (trial_balance t as_of (durable u)) +
      (if je_date (fst doc) \<le> as_of then debit_total (entry_lines t i (durable s)) else 0)"
proof -
  have "outcome (run_request (reverse_journal_entry t user i) s) (\<lambda>doc u. finance_wf (durable u) \<and>
      (\<exists>e a. select_one (entry_key t i) (entries (durable s)) = Some e \<and> je_status e = ENTRY_POSTED \<and>
        doc = (reversed_entry e, entry_lines t i (durable s)) \<and>
        durable u = (reversed_db t i (durable s))\<lparr>audit_logs := a\<rparr>)) (\<lambda>_ _. True)"
  proof (rule outcomeI, rule wp_mono [OF wp_conj [OF keepsD [OF finance_journal_requests(3)]]])
    show "wp (reverse_journal_entry t user i) (\<lambda>doc u. \<exists>e a. select_one (entry_key t i) (entries (durable s)) = Some e \<and>
        je_status e = ENTRY_POSTED \<and> doc = (reversed_entry e, entry_lines t i (durable s)) \<and>
        work u = (reversed_db t i (durable s))\<lparr>audit_logs := a\<rparr>) (\<lambda>_ _. True) (begin_state s)"
      by (rule wp_reverse_journal_entry) auto
  qed (use wf in auto)
  from this [unfolded run outcome_def prod.case sum.case]
  obtain e a where u: "finance_wf (durable u)" "select_one (entry_key t i) (entries (durable s)) = Some e"
    "je_status e = ENTRY_POSTED" "doc = (reversed_entry e, entry_lines t i (durable s))"
    "durable u = (reversed_db t i (durable s))\<lparr>audit_logs := a\<rparr>"
    by blast
  have "finance_wf (reversed_db t i (durable s))" using u(1,5) by (simp add: finance_unaffected)
  then have bw: "books_wf (durable s)" "books_wf (durable u)" "books_wf (reversed_db t i (durable s))"
    using wf u(1) by (simp_all add: finance_wf_def)
  have same: "tb_debit (trial_balance t as_of (durable u)) = tb_debit (trial_balance t as_of (reversed_db t i (durable s)))"
    unfolding trial_balance_sums [OF bw(2)] trial_balance_sums [OF bw(3)]
    by (simp add: u(5) ledger_sum_def counted_def [abs_def])
  show ?thesis
    unfolding same trial_balance_sums [OF bw(1)] trial_balance_sums [OF bw(3)]
    using ledger_sum_reversed [OF bw(1,3) u(2,3), of debit_of "\<lambda>e. je_date e \<le> as_of"]
    by (simp add: u(4,5) reversed_entry_def reversed_db_def totals_sum_list)
qed

text \<open>The small books with their only period closed.\<close>

definition closed_books :: sess where
  "closed_books = books\<lparr>durable := books_db\<lparr>periods := [\<lparr>fp_id = 600, fp_tenant = 7, fp_name = ''Q1'', fp_start = 0,
     fp_end = 90, fp_closed = True\<rparr>]\<rparr>\<rparr>"

lemma reversal_posts_nothing_witness:
  "\<exists>doc u. run_request (reverse_journal_entry 7 9 400) closed_books = (Inr doc, u) \<and> closed_on 7 5 (durable u) \<and>
     tb_debit (trial_balance 7 5 (durable u)) = 0"
proof -
  have e: "select_one (entry_key 7 400) (entries books_db) = Some (demo_entry 400 ENTRY_POSTED ''invoice'' (Some (uuid_text 301)))"
    by (simp add: demo_books_defs entry_key_def)
  have wf: "finance_wf (durable closed_books)" by (simp add: closed_books_def finance_unaffected)
  have "outcome (run_request (reverse_journal_entry 7 9 400) closed_books)
      (\<lambda>doc u. je_date (fst doc) = 5 \<and> periods (durable u) = periods (durable closed_books)) (\<lambda>_ _. False)"
    by (rule outcomeI, rule wp_reverse_journal_entry)
      (use e in \<open>auto simp: closed_books_def reversed_entry_def reversed_db_def demo_entry_def\<close>)
  then obtain doc u where run: "run_request (reverse_journal_entry 7 9 400) closed_books = (Inr doc, u)"
    and u: "je_date (fst doc) = 5" "periods (durable u) = periods (durable closed_books)"
    by (auto simp: outcome_def split: prod.splits sum.splits)
  have "ledger_sum debit_of 7 (\<lambda>e. je_date e \<le> 5) (\<lambda>_. True) (durable closed_books) =
      ledger_sum debit_of 7 (\<lambda>e. je_date e \<le> 5) (\<lambda>_. True) books_db"
    by (simp add: closed_books_def ledger_sum_def counted_def [abs_def])
  also have "\<dots> = 100"
    by (simp add: ledger_sum_def counted_def demo_books_defs empty_db_def entry_key_def account_key_def debit_of_def)
  finally have before: "ledger_sum debit_of 7 (\<lambda>e. je_date e \<le> 5) (\<lambda>_. True) (durable closed_books) = 100" .
  have "entry_lines 7 400 (durable closed_books) = entry_lines 7 400 books_db" by (simp add: closed_books_def entry_lines_def)
  then have "debit_total (entry_lines 7 400 (durable closed_books)) = 100"
    by (simp add: entry_lines_def line_of_def demo_books_defs debit_of_def)
  with before reversal_posts_nothing [OF wf run, of 5] u run trial_balance_sums [OF finance_wfD(1) [OF wf]]
  show ?thesis by (auto simp: closed_on_def closed_books_def)
qed

section \<open>What the aging says\<close>








text \<open>A payment that leaves something to pay touches no invoice.\<close>

lemma partial_payment_tables:
  assumes new: "known_payment key (work s) t i txt paid_at = None"
    and left: "\<And>v. select_one (invoice_key t i) (invoices (work s)) = Some v \<Longrightarrow> received \<noteq> i_total v - paid_sum t i (work s)"
  shows "wp (apply_payment key t user i received txt meth paid_at)
    (\<lambda>p u. invoices (work u) = invoices (work s) \<and> payments (work u) = payments (work s) @ [p] \<and>
       (\<exists>v. select_one (invoice_key t i) (invoices (work s)) = Some v \<and> i_status v = INVOICE_APPROVED) \<and>
       pay_tenant p = t \<and> pay_invoice p = i \<and> pay_amount p = numeric 4 received) (\<lambda>_ _. True) s"
proof (rule wp_apply_payment)
  fix v full p cash ar u
  assume fit: "payment_preflight (work s) t i received = None"
    and v: "select_one (invoice_key t i) (invoices (work s)) = Some v"
    and full: "full = (i_total v - paid_sum t i (work s) - received = 0)"
    and p: "p = next_payment key s t i received txt meth paid_at"
    and u: "announced (booked_db (paying (numbered payment_seq s) p full) t v (payment_row s p) received
        (a_id cash) (a_id ar)) (numbered payment_seq s) u"
  from fit v have "i_status v = INVOICE_APPROVED" by (auto simp: payment_preflight_def split: if_splits)
  moreover have "full = False" using full left [OF v] by simp
  moreover have "update_where (\<lambda>_. False) f rows = rows" for f :: "invoice \<Rightarrow> invoice" and rows
    by (induction rows) simp_all
  ultimately show "invoices (work u) = invoices (work s) \<and> payments (work u) = payments (work s) @ [payment_row s p] \<and>
       (\<exists>v. select_one (invoice_key t i) (invoices (work s)) = Some v \<and> i_status v = INVOICE_APPROVED) \<and>
       pay_tenant (payment_row s p) = t \<and> pay_invoice (payment_row s p) = i \<and>
       pay_amount (payment_row s p) = numeric 4 received"
    using u v p
    by (auto simp: announced_def booked_db_def paying_def paid_db_def with_entry_def Let_def settles_def [abs_def]
        payment_row_def)
qed (use new in \<open>simp_all add: known_payment_def\<close>)

definition outstanding_total :: "uuid \<Rightarrow> db \<Rightarrow> decimal" where
  "outstanding_total t d = sum_list (map snd (outstanding_in t d))"

lemma outstanding_total_sum:
  "outstanding_total t d = sum_list (map (\<lambda>v. i_total v - paid_sum t (i_id v) d)
     (filter (\<lambda>v. i_tenant v = t \<and> i_status v = INVOICE_APPROVED) (invoices d)))"
  by (simp add: outstanding_total_def outstanding_in_def comp_def sum_list_sort_key)

text \<open>
  The aging does not see partial payments. A payment that leaves something to pay lowers what is
  outstanding, as the payment inbox computes it, by its amount, and changes no line of the aging
  report on any day.
\<close>

lemma aging_ignores_partial_payments:
  assumes wf: "finance_wf (durable s)" and new: "known_payment key (durable s) t i txt paid_at = None"
    and v: "select_one (invoice_key t i) (invoices (durable s)) = Some v" "received \<noteq> i_total v - paid_sum t i (durable s)"
    and run: "run_request (apply_payment key t user i received txt meth paid_at) s = (Inr p, u)"
  shows "ar_aging t day (durable u) = ar_aging t day (durable s) \<and>
    outstanding_total t (durable u) = outstanding_total t (durable s) - pay_amount p"
proof -
  have "outcome (run_request (apply_payment key t user i received txt meth paid_at) s)
      (\<lambda>p u. invoices (durable u) = invoices (durable s) \<and> payments (durable u) = payments (durable s) @ [p] \<and>
       (\<exists>v. select_one (invoice_key t i) (invoices (durable s)) = Some v \<and> i_status v = INVOICE_APPROVED) \<and>
       pay_tenant p = t \<and> pay_invoice p = i \<and> pay_amount p = numeric 4 received) (\<lambda>_ _. True)"
    by (rule outcomeI, rule wp_mono [OF partial_payment_tables]) (use new v in auto)
  from this [unfolded run outcome_def prod.case sum.case] v(1)
  have u: "invoices (durable u) = invoices (durable s)" "payments (durable u) = payments (durable s) @ [p]"
    and p: "pay_tenant p = t" "pay_invoice p = i" and st: "i_status v = INVOICE_APPROVED" by auto
  let ?vs = "filter (\<lambda>v. i_tenant v = t \<and> i_status v = INVOICE_APPROVED) (invoices (durable s))"
  have sums: "paid_sum t j (durable u) = paid_sum t j (durable s) + (if i = j then pay_amount p else 0)" for j
    using p by (simp add: paid_sum_def u paid_on_def)
  have "distinct (map invoice_id ?vs)"
    using finance_wfD(2) [OF wf] by (simp add: invoices_wf_def distinct_map_filter)
  then have dist: "distinct (map i_id ?vs)" by (auto simp: distinct_map invoice_id_def inj_on_def)
  have mem: "i \<in> set (map i_id ?vs)" using select_one_SomeD [OF v(1)] st by (force simp: invoice_key_def)
  have "sum_list (map (\<lambda>w. if i = i_id w then pay_amount p else 0) ?vs) = pay_amount p"
    using sum_list_at [OF dist mem, of "pay_amount p"] by (simp add: comp_def)
  then have "sum_list (map (\<lambda>w. i_total w - paid_sum t (i_id w) (durable u)) ?vs) =
      sum_list (map (\<lambda>w. i_total w - paid_sum t (i_id w) (durable s)) ?vs) - pay_amount p"
    unfolding sums by (simp add: diff_diff_eq [symmetric] sum_list_subtractf)
  moreover have "ar_aging t day (durable u) = ar_aging t day (durable s)"
    by (simp add: ar_aging_def open_invoices_def u(1))
  ultimately show ?thesis by (simp add: outstanding_total_sum u(1))
qed

lemma scale_40 [simp]: "at_scale 4 (40 :: decimal)"
  by (simp add: at_scale_def quantize_def round_half_even_of_int [of 400000, simplified])

lemma aging_ignores_partial_payments_witness:
  "\<exists>p u. run_request (apply_payment (\<lambda>_ _ _. 0) 7 9 301 40 ''40'' ''cash'' demo_time) books = (Inr p, u) \<and>
     outstanding_total 7 (durable u) = outstanding_total 7 books_db - 40 \<and>
     ar_aging 7 50 (durable u) = ar_aging 7 50 books_db"
proof -
  obtain p u where run: "run_request (apply_payment (\<lambda>_ _ _. 0) 7 9 301 40 ''40'' ''cash'' demo_time) books = (Inr p, u)"
    using books_payment [of 40 "\<lambda>_ _ _. 0" "''40''" "''cash''" demo_time] by (auto simp: numeric_at_scale)
  let ?v = "demo_invoice 301 ''INV-2'' INVOICE_APPROVED"
  have v: "select_one (invoice_key 7 301) (invoices (durable books)) = Some ?v"
    "40 \<noteq> i_total ?v - paid_sum 7 301 (durable books)"
    by (simp_all add: books_301) (simp add: demo_invoice_def)
  have "outcome (run_request (apply_payment (\<lambda>_ _ _. 0) 7 9 301 40 ''40'' ''cash'' demo_time) books)
      (\<lambda>p u. pay_amount p = 40) (\<lambda>_ _. True)"
    by (rule outcomeI, rule wp_mono [OF partial_payment_tables]) (use v in \<open>auto simp: books_301 numeric_at_scale\<close>)
  then have "pay_amount p = 40" by (simp add: run outcome_def)
  with aging_ignores_partial_payments [OF _ _ v run, of 50] run show ?thesis by (auto simp: books_301)
qed

end
