(* ===== verification/Books_Theorems.thy ===== *)
theory Books_Theorems
  imports Finance_Reports
begin

text \<open>
  Properties of the finance state machine as a whole, and of the payment inbox: what every
  reachable state satisfies, how receipts are ranked and paged, and where the inbox falls short.
\<close>

section \<open>Undoing one of two collapsed receipts\<close>

text \<open>
  When two receipts were applied to one payment, undoing the first leaves the second stuck: it
  still reads as applied, its payment is gone from the books, and no one can undo it any more.
\<close>

lemma undone_twin_strands:
  assumes p: "select_one (intent_key t i) (intents (durable s)) = Some p" "pi_applied_payment p = Some pid"
    and q: "select_one (intent_key t j) (intents (durable s)) = Some q" "pi_status q = INTENT_APPLIED"
      "pi_applied_payment q = Some pid" "j \<noteq> i"
    and run: "run_request (undo t user i) s = (Inr r, u)" and later: "durable w = durable u"
  shows "select_one (intent_key t j) (intents (durable u)) = Some q \<and>
    select_one (payment_key t pid) (payments (durable u)) = None \<and>
    outcome (run_request (undo t user' j) w) (\<lambda>_ _. False) (\<lambda>_ w'. durable w' = durable w)"
proof -
  have "outcome (run_request (undo t user i) s) (\<lambda>_ u. select_one (intent_key t j) (intents (durable u)) = Some q \<and>
      select_one (payment_key t pid) (payments (durable u)) = None) (\<lambda>_ _. True)"
  proof (rule outcomeI, rule wp_undo)
    fix p' pid' v a
    assume "select_one (intent_key t i) (intents (work (begin_state s))) = Some p'" "pi_applied_payment p' = Some pid'"
    then have same: "p' = p" "pid' = pid" using p by simp_all
    have "select_one (intent_key t j) (update_where (intent_key t i) (restamped x) (intents (durable s))) = Some q" for x
      using q(1,4) by (subst select_one_update_other) (auto simp: intent_key_def restamped_def)
    moreover have "payments (undo_db t p pid v (durable s)) = filter (\<lambda>q. \<not> payment_key t pid q) (payments (durable s))"
      by (simp add: undo_db_def restamp_intents_def settled_db_def without_payment_def without_source_def split: option.split)
    ultimately show "select_one (intent_key t j) (intents (durable (commit_state ((begin_state s)\<lparr>work :=
          (undo_db t p' pid' v (work (begin_state s)))\<lparr>audit_logs := audit_logs (work (begin_state s)) @ [a]\<rparr>\<rparr>)))) = Some q \<and>
        select_one (payment_key t pid) (payments (durable (commit_state ((begin_state s)\<lparr>work :=
          (undo_db t p' pid' v (work (begin_state s)))\<lparr>audit_logs := audit_logs (work (begin_state s)) @ [a]\<rparr>\<rparr>)))) = None"
      using intent_selected [OF p(1)]
      by (simp add: same undo_db_def restamp_intents_def) (simp add: select_one_None)
  qed simp
  then have u: "select_one (intent_key t j) (intents (durable u)) = Some q"
    "select_one (payment_key t pid) (payments (durable u)) = None" by (simp_all add: run outcome_def)
  have "outcome (run_request (undo t user' j) w) (\<lambda>_ _. False) (\<lambda>_ w'. durable w' = durable w)"
    by (rule outcomeI, rule wp_undo) (use u q later in \<open>simp_all add: undo_refusal_def split: option.splits if_splits\<close>)
  with u show ?thesis by simp
qed

text \<open>Receipts 500 and 501 were both applied to payment 900.\<close>

definition collapsed :: sess where
  "collapsed = books\<lparr>durable := books_db
     \<lparr>payments := [(manual_payment 7 301 100 ''cash'' demo_time ''ref'' ''PMT-1'')\<lparr>pay_id := 900\<rparr>],
      intents := [applied_intent 301 900 5 9 demo_intent, (applied_intent 301 900 6 9 demo_intent)\<lparr>pi_id := 501\<rparr>]\<rparr>\<rparr>"

lemma undone_twin_strands_witness:
  "\<exists>r u. run_request (undo 7 9 500) collapsed = (Inr r, u) \<and>
     outcome (run_request (undo 7 9 501) u) (\<lambda>_ _. False) (\<lambda>_ w. durable w = durable u)"
proof -
  let ?p = "applied_intent 301 900 5 9 demo_intent" and ?q = "(applied_intent 301 900 6 9 demo_intent)\<lparr>pi_id := 501\<rparr>"
  have p: "select_one (intent_key 7 500) (intents (durable collapsed)) = Some ?p"
    "select_one (intent_key 7 501) (intents (durable collapsed)) = Some ?q"
    by (simp_all add: collapsed_def intent_key_def applied_intent_def demo_intent_def)
  have fields: "pi_applied_payment ?p = Some 900" "pi_applied_payment ?q = Some 900" "pi_status ?q = INTENT_APPLIED"
    by (simp_all add: applied_intent_def)
  have "undo_refusal (begin_state collapsed) 7 500 = None"
    using p(1) by (simp add: undo_refusal_def) (simp add: collapsed_def applied_intent_def books_def UNDO_WINDOW_def payment_key_def)
  then have "wp (undo 7 9 500) (\<lambda>_ _. True) (\<lambda>_ _. False) (begin_state collapsed)"
    by (intro wp_undo) simp_all
  from run_returns [OF this] obtain r u where run: "run_request (undo 7 9 500) collapsed = (Inr r, u)" by blast
  from undone_twin_strands [OF p(1) fields(1) p(2) fields(3,2) _ run refl, of 9] run show ?thesis by auto
qed

section \<open>Ranking\<close>



text \<open>
  The rounding of the score lets an invoice the receipt does not cover exactly stand before the one it covers
  exactly.
\<close>

lemma exact_match_behind_partial:
  "map k_invoice (compute_candidates 100 None None
     [((demo_invoice 301 ''INV-2'' INVOICE_APPROVED, []), 100), ((demo_invoice 302 ''INV-3'' INVOICE_APPROVED, []), 999999 / 10000)]) =
   [302, 301]"
proof -
  have "\<lfloor>999999 / 100 :: decimal\<rfloor> = 9999" by (simp add: floor_eq_iff)
  then have "round_half_even (999999 / 100) = 10000" by (simp add: round_half_even_def)
  then have "quantize 4 (999999 / 1000000) = 1" by (simp add: quantize_def)
  then have "score_match 100 None None n c (999999 / 10000) = 1" "score_match 100 None None n c 100 = 1" for n c
    by (simp_all add: score_match_def amount_affinity_def)
  then show ?thesis
    by (simp add: compute_candidates_def candidate_of_def demo_invoice_def SCORE_CANDIDATE_BAR_def)
qed

section \<open>Paging\<close>

lemma sort_key_least: "\<forall>z \<in> set zs. f x \<le> f z \<Longrightarrow> sort_key f (x # zs) = x # sort_key f zs"
  by (simp add: insort_is_Cons)

lemma sort_key_least_right:
  "\<forall>a \<in> set as. f y < f a \<Longrightarrow> \<forall>b \<in> set bs. f y \<le> f b \<Longrightarrow> sort_key f (as @ y # bs) = y # sort_key f (as @ bs)"
  by (induction as) (auto simp: insort_is_Cons)

text \<open>The first \<open>n\<close> rows of two sorted lists together need no more than the first \<open>n\<close> of each.\<close>

lemma take_sorted_union:
  fixes f :: "'a \<Rightarrow> 'b :: linorder"
  assumes "sorted (map f xs)" "sorted (map f ys)" "n \<le> m1" "n \<le> m2"
  shows "take n (sort_key f (take m1 xs @ take m2 ys)) = take n (sort_key f (xs @ ys))"
  using assms
proof (induction n arbitrary: xs ys m1 m2)
  case (Suc n)
  obtain k1 k2 where m: "m1 = Suc k1" "m2 = Suc k2" using Suc.prems(3,4) by (cases m1; cases m2) auto
  have sub: "z \<in> set xs" if "z \<in> set (take k xs)" for z :: 'a and k xs using that by (rule in_set_takeD)
  show ?case
  proof (cases xs)
    case Nil
    have "sort_key f (take m2 ys) = take m2 ys" "sort_key f ys = ys"
      using Suc.prems(2) by (simp_all add: sorted_sort_id sort_key_id_if_sorted take_map [symmetric] sorted_wrt_take)
    then show ?thesis using Suc.prems(4) by (simp add: Nil min_def)
  next
    case X: (Cons x xs')
    show ?thesis
    proof (cases ys)
      case Nil
      have "sort_key f (take m1 xs) = take m1 xs" "sort_key f xs = xs"
        using Suc.prems(1) by (simp_all add: sort_key_id_if_sorted take_map [symmetric] sorted_wrt_take)
      then show ?thesis using Suc.prems(3) by (simp add: Nil min_def)
    next
      case Y: (Cons y ys')
      show ?thesis
      proof (cases "f x \<le> f y")
        case True
        have lo: "\<forall>z \<in> set (xs' @ ys). f x \<le> f z"
          using Suc.prems(1,2) True by (auto simp: X Y)
        have "sort_key f (take m1 xs @ take m2 ys) = x # sort_key f (take k1 xs' @ take m2 ys)"
          using sort_key_least [of "take k1 xs' @ take m2 ys" f x] lo by (auto simp: X m dest: sub)
        moreover have "sort_key f (xs @ ys) = x # sort_key f (xs' @ ys)"
          using sort_key_least [of "xs' @ ys" f x] lo by (simp add: X)
        ultimately show ?thesis
          using Suc.IH [of xs' ys k1 m2] Suc.prems by (simp add: X m)
      next
        case False
        have lo: "\<forall>z \<in> set xs. f y < f z" "\<forall>z \<in> set ys'. f y \<le> f z"
          using Suc.prems(1,2) False by (auto simp: X Y)
        have "sort_key f (take m1 xs @ take m2 ys) = y # sort_key f (take m1 xs @ take k2 ys')"
          using sort_key_least_right [of "take m1 xs" f y "take k2 ys'"] lo by (auto simp: Y m dest: sub)
        moreover have "sort_key f (xs @ ys) = y # sort_key f (xs @ ys')"
          using sort_key_least_right [of xs f y ys'] lo by (simp add: Y)
        ultimately show ?thesis
          using Suc.IH [of xs ys' m1 k2] Suc.prems by (simp add: Y m)
      qed
    qed
  qed
qed simp

text \<open>All unresolved receipts of a tenant, the newest first.\<close>

definition receipts_in :: "uuid \<Rightarrow> intent_status \<Rightarrow> db \<Rightarrow> payment_intent list" where
  "receipts_in t st d = sort_key (\<lambda>p. - pi_created p) (filter (\<lambda>p. pi_tenant p = t \<and> pi_status p = st) (intents d))"

definition unresolved_queue :: "uuid \<Rightarrow> db \<Rightarrow> payment_intent list" where
  "unresolved_queue t d =
     sort_key (\<lambda>p. - pi_created p) (receipts_in t INTENT_OPEN d @ receipts_in t INTENT_CANDIDATE d)"

definition page_row :: "uuid \<Rightarrow> db \<Rightarrow> payment_intent \<Rightarrow> payment_intent \<times> candidate list \<times> string option" where
  "page_row t d p = (p, if unresolved p then compute_candidates (pi_amount p) (pi_customer p) (pi_reference p)
     (outstanding_in t d) else [], customer_name t (pi_customer p) d)"

lemma wp_list_inbox:
  "wp (list_inbox t None offset limit) Q E s =
     Q (map (page_row t (work s)) (page offset limit (sort_key (\<lambda>p. - pi_created p)
       (take limit (receipts_in t INTENT_OPEN (work s)) @ take limit (receipts_in t INTENT_CANDIDATE (work s)))))) s"
  by (simp add: list_inbox_def inbox_page_def list_payment_intents_rows_def outstanding_invoices_def wp_flow
      receipts_in_def page_def page_row_def [abs_def] opt_all_def)

text \<open>
  The first page of the inbox is right: merging the newest open and the newest candidate
  receipts, each cut at the page's length, gives the same page as cutting the whole unresolved queue.
\<close>

lemma first_inbox_page:
  "outcome (run_request (list_inbox t None 0 limit) s)
     (\<lambda>rows u. rows = map (page_row t (durable s)) (take limit (unresolved_queue t (durable s))) \<and> durable u = durable s)
     (\<lambda>_ _. False)"
proof (rule outcomeI, unfold wp_list_inbox)
  have sorted: "sorted (map (\<lambda>p. - pi_created p) (receipts_in t st (durable s)))" for st
    by (simp add: receipts_in_def)
  show "map (page_row t (work (begin_state s))) (page 0 limit (sort_key (\<lambda>p. - pi_created p)
        (take limit (receipts_in t INTENT_OPEN (work (begin_state s))) @
         take limit (receipts_in t INTENT_CANDIDATE (work (begin_state s)))))) =
      map (page_row t (durable s)) (take limit (unresolved_queue t (durable s))) \<and>
      durable (commit_state (begin_state s)) = durable s"
    using take_sorted_union [OF sorted sorted order_refl order_refl, of limit INTENT_OPEN INTENT_CANDIDATE]
    by (simp add: page_def unresolved_queue_def)
qed

text \<open>
  The later pages are not: no page that starts at twice its length or later shows anything, however
  many receipts are unresolved, and when none of them is a candidate already the second page is empty.
\<close>

lemma later_inbox_pages_empty:
  assumes "2 * limit \<le> offset \<or> limit \<le> offset \<and> receipts_in t INTENT_CANDIDATE (durable s) = []"
  shows "outcome (run_request (list_inbox t None offset limit) s) (\<lambda>rows _. rows = []) (\<lambda>_ _. False)"
proof (rule outcomeI, unfold wp_list_inbox)
  show "map (page_row t (work (begin_state s))) (page offset limit (sort_key (\<lambda>p. - pi_created p)
      (take limit (receipts_in t INTENT_OPEN (work (begin_state s))) @
       take limit (receipts_in t INTENT_CANDIDATE (work (begin_state s)))))) = []"
    using assms by (auto simp: page_def)
qed

lemma later_inbox_pages_empty_witness:
  "length (unresolved_queue 7 (durable twins)) = 2 \<and>
   outcome (run_request (list_inbox 7 None 1 1) twins) (\<lambda>rows _. rows = []) (\<lambda>_ _. False)"
proof -
  have "receipts_in 7 INTENT_CANDIDATE (durable twins) = []" "length (receipts_in 7 INTENT_OPEN (durable twins)) = 2"
    by (simp_all add: receipts_in_def twins_def demo_intent_def)
  then show ?thesis by (intro conjI later_inbox_pages_empty) (simp_all add: unresolved_queue_def)
qed

end
