(* ===== verification/Erp_Machine.thy ===== *)
theory Erp_Machine
  imports Sales_Ledger Inventory_Theorems Books_Theorems
begin

text \<open>
  The services together: inventory, sales, finance and the payment inbox over one database, their
  requests in any order, for any tenant. What every reachable state satisfies, and how the orders of
  a reachable state come from those before.
\<close>

section \<open>Requests and runs\<close>

inductive erp_request :: "payment_hash \<Rightarrow> string \<Rightarrow> unit service \<Rightarrow> bool" for key dc where
  finance: "finance_request key dc m \<Longrightarrow> erp_request key dc m"
| inventory: "inventory_request t m \<Longrightarrow> erp_request key dc m"
| sales: "sales_request dc t m \<Longrightarrow> erp_request key dc m"

inductive erp_step :: "payment_hash \<Rightarrow> string \<Rightarrow> sess \<Rightarrow> sess \<Rightarrow> bool" for key dc where
  step: "erp_request key dc m \<Longrightarrow>
    erp_step key dc s (snd (run_request m (s\<lparr>clk := now, ctx_user := who\<rparr>)))"

inductive_cases erp_stepE: "erp_step key dc s s'"

definition erp_run :: "payment_hash \<Rightarrow> string \<Rightarrow> sess \<Rightarrow> sess \<Rightarrow> bool" where
  "erp_run key dc = (erp_step key dc)\<^sup>*\<^sup>*"

definition erp_sound :: "payment_hash \<Rightarrow> nat \<Rightarrow> db \<Rightarrow> bool" where
  "erp_sound key n d \<longleftrightarrow> stock_wf d \<and> orders_wf d \<and> books_sound key n d"

text \<open>An invariant every request keeps, kept by a run.\<close>

lemma erp_run_keeps:
  assumes "\<And>m. erp_request key dc m \<Longrightarrow> keeps P m" "erp_run key dc s s'" "P (durable s)"
  shows "P (durable s')"
  using assms(2,3) unfolding erp_run_def
proof (induction rule: rtranclp_induct)
  case (step u v)
  from step.hyps(2) show ?case
  proof (rule erp_stepE)
    fix m now who
    assume "v = snd (run_request m (u\<lparr>clk := now, ctx_user := who\<rparr>))" "erp_request key dc m"
    then show ?thesis using run_request_keeps [OF assms(1), of m "u\<lparr>clk := now, ctx_user := who\<rparr>"] step.IH assms(3) by simp
  qed
qed

section \<open>Orders and stock\<close>

lemma history_request: "erp_request key dc m \<Longrightarrow> keeps (order_history d0) m"
  by (erule erp_request.cases)
    (auto intro: history_finance.trade_finance_request history_inventory.request_kept sales_history.sales_kept_request)

lemma stock_request: "erp_request key dc m \<Longrightarrow> keeps stock_wf m"
  by (erule erp_request.cases)
    (auto intro: stock_trade.trade_finance_request stock_kept.request_kept sales_stock.sales_kept_request)

section \<open>The books beside the other services\<close>

text \<open>The structural rules the other services need beyond those of the finance service.\<close>

lemma up_commit [up_intros]: "keeps_up I commit"
  and up_publish [up_intros]: "keeps_up I (publish ev)"
  and up_apublish [up_intros]: "keeps_up I (apublish ev)"
  and up_result [up_intros]: "keeps_up I (resultM r)"
  and up_check [up_intros]: "keeps_up I (check_constraint c C)"
  by (simp_all add: keeps_up_def wp_simps split: option.split sum.split)

lemma up_patch [up_intros]:
  "(x = Unset \<Longrightarrow> keeps_up I m) \<Longrightarrow> (\<And>a. x = Set a \<Longrightarrow> keeps_up I (f a)) \<Longrightarrow>
     keeps_up I (case x of Unset \<Rightarrow> m | Set a \<Rightarrow> f a)"
  by (cases x) simp_all

lemma up_list [up_intros]:
  "(xs = [] \<Longrightarrow> keeps_up I m) \<Longrightarrow> (\<And>y ys. xs = y # ys \<Longrightarrow> keeps_up I (f y ys)) \<Longrightarrow>
     keeps_up I (case xs of [] \<Rightarrow> m | y # ys \<Rightarrow> f y ys)"
  by (cases xs) simp_all

context supply_invariant begin

lemma up_audit_context: "keeps_up I (audit t act tgt details)"
  unfolding audit_def by (intro up_intros up_audit)

lemma up_movement: "keeps_up I (add_movement m)"
  and up_guarded: "keeps_up I (guarded_update g f)"
  unfolding add_movement_def recompute_stock_level_def get_stock_level_def guarded_update_def Let_def
  by (intro up_intros up_fresh up_elsewhere; simp)+

lemma up_level_changed: "keeps_up I (emit_level_changed t p w a b)"
  unfolding emit_level_changed_def emit_stock_level_changed_def Let_def by (intro up_intros up_audit_context)

lemma up_catalog:
  "keeps_up I (create_product_row a)" "keeps_up I (create_supplier_row b)" "keeps_up I (create_warehouse_row c)"
  "keeps_up I (add_supplier_performance_row e)" "keeps_up I (change_product f pid t)"
  "keeps_up I (change_warehouse g wid t)" "keeps_up I (update_supplier_row sid t sc)"
  unfolding create_product_row_def create_supplier_row_def create_warehouse_row_def add_supplier_performance_row_def
    change_product_def change_warehouse_def update_supplier_row_def inventory_read_defs Let_def
  by (intro up_intros up_fresh up_elsewhere; simp)+

lemma up_stock_steps:
  "keeps_up I (reserve_step rt pid wid q t r)" "keeps_up I (release_step rt pid wid q t r)"
  "keeps_up I (fulfil_step rt pid wid q t r)"
  unfolding reserve_step_def release_step_def fulfil_step_def inventory_keeps_defs
    apply_reservation_qty_def apply_consume_qty_def apply_release_qty_def
  by (intro up_intros up_movement up_guarded)+

lemmas up_inventory_steps = up_intros up_audit_context up_movement up_level_changed up_catalog up_stock_steps up_next_value

lemma up_inventory_request: "inventory_request t m \<Longrightarrow> keeps_up I m"
proof (induction rule: inventory_request.induct)
qed (intro up_request; unfold create_product_def create_warehouse_def create_supplier_def
    update_supplier_def deactivate_supplier_def reactivate_supplier_def
    add_supplier_performance_def update_product_def update_warehouse_def deactivate_product_def
    reactivate_product_def deactivate_warehouse_def reactivate_warehouse_def adjust_stock_def
    transfer_stock_def reserve_stock_def release_reservation_def fulfil_order_stock_def
    inventory_keeps_defs;
    intro up_inventory_steps)+

lemma up_bulk:
  "keeps_up I (reserve_order rt t wid oid ls)" "keeps_up I (release_order rt t wid oid ls)"
  "keeps_up I (fulfil_order_lines rt t wid oid ls)"
  unfolding reserve_order_def release_order_def fulfil_order_lines_def by (intro up_inventory_steps)+

lemma up_lines: "keeps_up I (build_lines_from t cur xs)"
  by (induction xs arbitrary: cur) (auto intro!: up_intros simp: require_sold_product_def get_product_def)

lemma up_built: "keeps_up I (build_lines xs t)" "keeps_up I (order_totals_of ls)"
  unfolding build_lines_def order_totals_of_def Let_def by (intro up_intros up_lines)+

lemma up_order_lines: "keeps_up I (insert_order_lines i ls)"
  unfolding insert_order_lines_def by (intro up_intros up_fresh up_elsewhere; simp)

lemma up_order_rows:
  "keeps_up I (create_order_row r ls)" "keeps_up I (update_draft_row i t who new totals)"
  "keeps_up I (order_transition ex f i t)"
  unfolding create_order_row_def update_draft_row_def order_transition_def guarded_order_update_def get_order_row_def Let_def
  by (intro up_intros up_fresh up_elsewhere up_order_lines; simp)+

lemmas up_sales_steps = up_intros up_audit_context up_timeline up_next_value up_built up_order_rows up_bulk up_billing_requests

lemma up_sales_request: "sales_request dc t m \<Longrightarrow> keeps_up I m"
proof (induction rule: sales_request.induct)
qed (intro up_request; unfold create_order_def update_draft_order_def confirm_order_def fulfil_order_def cancel_order_def
    confirm_order_row_def fulfil_order_row_def cancel_order_row_def mark_credit_check_failed_def
    get_order_def get_order_row_def require_customer_def list_order_lines_rows_def resolve_warehouse_def
    list_warehouses_def reprobe_def emit_order_created_def emit_order_confirmed_def emit_order_fulfilled_def
    emit_order_cancelled_def sales_event_def next_order_number_def Let_def;
    intro up_sales_steps)+

end

lemma links_erp_request: "separates_invoices key \<Longrightarrow> erp_request key dc m \<Longrightarrow> keeps_up (links_sound key) m"
  by (erule erp_request.cases) (auto intro: links_request links.up_inventory_request links.up_sales_request)

lemma inbox_erp_request: "erp_request key dc m \<Longrightarrow> keeps_up (\<lambda>_. intents_wf) m"
  by (erule erp_request.cases) (auto intro: inbox_request receipts.up_inventory_request receipts.up_sales_request)

lemma finance_erp_request:
  assumes "erp_request key dc m" "links_sound key (next_id s) (durable s)" "finance_wf (durable s)"
  shows "finance_wf (durable (snd (run_request m s)))"
  using assms(1)
proof cases
  case finance
  then show ?thesis by (rule finance_request_finance [OF _ assms(2,3)])
next
  case (inventory t)
  then show ?thesis using run_request_keeps [OF finance_inventory.request_kept assms(3)] by blast
next
  case (sales t)
  then show ?thesis using run_request_keeps [OF sales_finance.sales_kept_request assms(3)] by blast
qed

lemma erp_sound_step:
  assumes "separates_invoices key" "erp_step key dc s s'" "erp_sound key (next_id s) (durable s)"
  shows "erp_sound key (next_id s') (durable s')"
  using assms(2)
proof (rule erp_stepE)
  fix m now who
  let ?s = "s\<lparr>clk := now, ctx_user := who\<rparr>"
  assume s': "s' = snd (run_request m ?s)" and m: "erp_request key dc m"
  have S: "stock_wf (durable ?s)" "order_history (durable s) (durable ?s)" "finance_wf (durable ?s)"
      "intents_wf (durable ?s)" "links_sound key (next_id ?s) (durable ?s)"
    using assms(3) by (simp_all add: erp_sound_def books_sound_def order_history_def)
  show ?thesis
    using run_request_keeps [OF stock_request [OF m] S(1)] run_request_keeps [OF history_request [OF m] S(2)]
      run_request_up [OF links_erp_request [OF assms(1) m] S(5)] run_request_up [OF inbox_erp_request [OF m], of ?s] S(4)
      finance_erp_request [OF m S(5,3)]
    by (simp add: erp_sound_def books_sound_def order_history_def s')
qed

lemma erp_sound_run:
  assumes "separates_invoices key" "erp_run key dc s s'" "erp_sound key (next_id s) (durable s)"
  shows "erp_sound key (next_id s') (durable s')"
  using assms(2,3) unfolding erp_run_def
  by (induction rule: rtranclp_induct) (auto intro: erp_sound_step [OF assms(1)])

end
