(* ===== verification/Sales_Theorems.thy ===== *)
theory Sales_Theorems
  imports Erp_Machine
begin

text \<open>
  What the requests of the sales service do end to end, alone and among the requests of the other
  services.
\<close>

section \<open>What a step reads\<close>

definition customer_in :: "db \<Rightarrow> uuid \<Rightarrow> uuid \<Rightarrow> customer option" where
  "customer_in d c t = select_one (\<lambda>r. c_tenant r = t \<and> c_id r = c) (customers d)"

definition first_warehouse :: "db \<Rightarrow> uuid \<Rightarrow> uuid option" where
  "first_warehouse d t =
     (case page 0 20 (sort_key (\<lambda>w. collation d (w_name w)) (filter (\<lambda>w. w_tenant w = t \<and> w_active w) (warehouses d))) of
        [] \<Rightarrow> None | w # _ \<Rightarrow> Some (w_id w))"

lemma wp_get_order:
  "wp (get_order i t) Q E s = (case select_one (order_key t i) (orders (work s)) of
     None \<Rightarrow> E (NotFoundError ''Sales order'') s | Some r \<Rightarrow> Q r s)"
  by (simp add: get_order_def get_order_row_def wp_simps)

lemma wp_require_customer:
  "wp (require_customer c t) Q E s = (case customer_in (work s) c t of
     None \<Rightarrow> E (NotFoundError ''Customer'') s | Some r \<Rightarrow> Q r s)"
  by (simp add: require_customer_def customer_in_def wp_simps)

lemma wp_order_lines: "wp (list_order_lines_rows i t) Q E s = Q (lines_of_order t i (work s)) s"
  by (simp add: list_order_lines_rows_def wp_read)

lemma wp_resolve_warehouse:
  "wp (resolve_warehouse t) Q E s = (case first_warehouse (work s) t of
     None \<Rightarrow> E (ValidationError ''No active warehouse available to process the order'') s | Some w \<Rightarrow> Q w s)"
  by (simp add: resolve_warehouse_def list_warehouses_def first_warehouse_def wp_simps split: list.split)

lemmas wp_sales = wp_bind wp_then wp_gets wp_require wp_return wp_raise wp_get_order wp_require_customer
  wp_order_lines wp_resolve_warehouse wp_audit wp_apublish wp_commit

text \<open>The refusals of the stock see the catalog, the warehouses and the ledger, nothing else.\<close>

definition same_stock :: "db \<Rightarrow> db \<Rightarrow> bool" where
  "same_stock d d' \<longleftrightarrow> products d' = products d \<and> warehouses d' = warehouses d \<and> levels d' = levels d \<and> movements d' = movements d"

lemma same_stock_sums:
  assumes "same_stock d d'"
  shows "on_hand_in d' = on_hand_in d" "reserved_in d' = reserved_in d" "ref_posted d' = ref_posted d"
    "parents_refusal d' = parents_refusal d" "stock_wf d' = stock_wf d"
proof -
  have m: "movements d' = movements d" and p: "products d' = products d" and w: "warehouses d' = warehouses d"
    and l: "levels d' = levels d"
    using assms by (simp_all add: same_stock_def)
  show "on_hand_in d' = on_hand_in d" "reserved_in d' = reserved_in d" "ref_posted d' = ref_posted d"
    by (simp_all add: on_hand_in_def [abs_def] reserved_in_def [abs_def] ref_posted_def [abs_def] m)
  show "parents_refusal d' = parents_refusal d"
    by (intro ext) (simp add: parents_refusal_def product_in_def warehouse_in_def p w split: option.split)
  show "stock_wf d' = stock_wf d" by (rule stock_wf_cong) (simp_all add: l m)
qed

lemma same_stock_refusals:
  assumes "same_stock d d'"
  shows "reserve_refusal d' = reserve_refusal d" "release_refusal d' = release_refusal d" "fulfil_refusal d' = fulfil_refusal d"
  by (intro ext, simp add: reserve_refusal_def release_refusal_def fulfil_refusal_def same_stock_sums [OF assms])+

lemma order_reservable_stock: "same_stock d d' \<Longrightarrow> order_reservable d' = order_reservable d"
  by (intro ext) (simp add: order_reservable_def all_accepted_def same_stock_refusals)

text \<open>The whole-order operations as steps of another service.\<close>

definition other_refs_kept :: "string \<Rightarrow> db \<Rightarrow> db \<Rightarrow> bool" where
  "other_refs_kept ref d d' \<longleftrightarrow> (\<forall>rt r c. r \<noteq> ref \<longrightarrow> ref_posted d' rt r c = ref_posted d rt r c)"

lemma reserve_order_refs:
  assumes "stock_wf (work s)"
  shows "wp (mapM (\<lambda>l. reserve_step rt (ol_product l) w (ol_quantity l) t r) ls)
    (\<lambda>_ u. stock_wf (work u) \<and> other_refs_kept (step_ref r ''reserve'') (work s) (work u)) (\<lambda>_ _. True) s"
proof (rule wp_mapM_inv [where I = "\<lambda>u. stock_wf (work u) \<and> other_refs_kept (step_ref r ''reserve'') (work s) (work u)"])
  fix l and u :: sess
  assume u: "stock_wf (work u) \<and> other_refs_kept (step_ref r ''reserve'') (work s) (work u)"
  show "wp (reserve_step rt (ol_product l) w (ol_quantity l) t r)
      (\<lambda>_ u. stock_wf (work u) \<and> other_refs_kept (step_ref r ''reserve'') (work s) (work u)) (\<lambda>_ _. True) u"
    by (rule wp_reserve_step) (use u in \<open>auto simp: other_refs_kept_def ref_posted_append\<close>)
qed (simp add: assms other_refs_kept_def)

lemma wp_reserve_order:
  assumes "stock_wf (work s)"
    and "\<And>v. order_reservable (work s) rt t w i ls \<Longrightarrow> stock_frame s v \<Longrightarrow> stock_wf (work v) \<Longrightarrow>
      (\<And>c. on_hand_in (work v) c = on_hand_in (work s) c) \<Longrightarrow>
      (\<And>c. reserved_in (work v) c = reserved_in (work s) c + line_sum t w ls c) \<Longrightarrow>
      other_refs_kept (step_ref (uuid_text i) ''reserve'') (work s) (work v) \<Longrightarrow> Q () (commit_state v)"
    and "\<And>e v. \<not> order_reservable (work s) rt t w i ls \<Longrightarrow> stock_frame s v \<Longrightarrow> E e v"
  shows "wp (reserve_order rt t w i ls) Q E s"
proof -
  let ?m = "mapM (\<lambda>l. reserve_step rt (ol_product l) w (ol_quantity l) t (uuid_text i)) ls"
  have "wp ?m (\<lambda>_ v. order_reservable (work s) rt t w i ls \<and> stock_frame s v \<and> stock_wf (work v) \<and>
      (\<forall>c. on_hand_in (work v) c = on_hand_in (work s) c) \<and>
      (\<forall>c. reserved_in (work v) c = reserved_in (work s) c + line_sum t w ls c))
    (\<lambda>_ v. \<not> order_reservable (work s) rt t w i ls \<and> stock_frame s v) s"
    by (rule reserve_lines.wp_lines [OF assms(1)]) (simp_all add: order_reservable_def)
  from wp_conj [OF this reserve_order_refs [OF assms(1)]] show ?thesis
    unfolding reserve_order_def wp_then wp_forM_mapM
    by (rule wp_mono) (use assms(2,3) in \<open>auto simp: wp_commit\<close>)
qed



text \<open>What a request does besides, to the stock and to the audit log.\<close>

definition beside :: "db \<Rightarrow> db \<Rightarrow> bool" where
  "beside d d' \<longleftrightarrow> (\<exists>a L M. d' = d\<lparr>audit_logs := a, levels := L, movements := M\<rparr>)"

lemma beside_frame: "stock_frame u v \<Longrightarrow> work u = d\<lparr>audit_logs := a\<rparr> \<Longrightarrow> beside d (work v)"
  by (cases d) (auto simp: stock_frame_def beside_def intro!: exI [of _ a])


lemma besideD:
  assumes "beside d d'"
  shows "orders d' = orders d" "order_lines d' = order_lines d" "first_warehouse d' = first_warehouse d"
    "customer_in d' = customer_in d" "customers d' = customers d" "lines_of_order t i d' = lines_of_order t i d"
    "orders_wf d' = orders_wf d" "order_view d' = order_view d" "parents_refusal d' = parents_refusal d"
    "entries d' = entries d" "invoices d' = invoices d" "invoice_lines d' = invoice_lines d" "accounts d' = accounts d"
    "product_in d' = product_in d"
proof -
  show "orders d' = orders d" "order_lines d' = order_lines d" using assms by (auto simp: beside_def)
  then show "orders_wf d' = orders_wf d" "order_view d' = order_view d"
    by (rule orders_wf_cong, rule order_view_cong)
  show "first_warehouse d' = first_warehouse d" "customer_in d' = customer_in d" "product_in d' = product_in d"
    using assms by (auto simp: beside_def first_warehouse_def [abs_def] customer_in_def [abs_def] product_in_def [abs_def])
  have "product_in d' = product_in d" "warehouse_in d' = warehouse_in d"
    using assms by (auto simp: beside_def product_in_def [abs_def] warehouse_in_def [abs_def])
  then show "parents_refusal d' = parents_refusal d" by (intro ext) (simp only: parents_refusal_def)
qed (use assms in \<open>auto simp: beside_def lines_of_order_def\<close>)

section \<open>Confirming\<close>

definition confirmable :: "db \<Rightarrow> uuid \<Rightarrow> sales_order \<Rightarrow> bool" where
  "confirmable d t r \<longleftrightarrow> o_status r = ORDER_DRAFT \<and>
     (case (customer_in d (o_customer r) t, first_warehouse d t) of
        (Some c, Some w) \<Rightarrow> credit_check_passed c (o_total r) \<and>
          order_reservable d ''sale_order'' t w (o_id r) (lines_of_order t (o_id r) d)
      | _ \<Rightarrow> False)"

definition confirmed_at :: "int \<Rightarrow> sales_order \<Rightarrow> sales_order" where
  "confirmed_at now r = r\<lparr>o_status := ORDER_CONFIRMED, o_confirmed_at := Some now, o_credit := CREDIT_PASSED\<rparr>"

definition credit_failed :: "sales_order \<Rightarrow> sales_order" where
  "credit_failed r = r\<lparr>o_credit := CREDIT_FAILED\<rparr>"

lemma order_moves [simp]:
  "o_status (confirmed_at now r) = ORDER_CONFIRMED" "o_status (credit_failed r) = o_status r"
  "same_money (confirmed_at now r) r" "same_money (credit_failed r) r"
  by (simp_all add: confirmed_at_def credit_failed_def same_money_def)

lemma order_rows_as_moves:
  "confirm_order_row i t now CREDIT_PASSED = order_transition [ORDER_DRAFT] (confirmed_at now) i t"
  "mark_credit_check_failed i t = order_transition [ORDER_DRAFT] credit_failed i t"
  by (simp_all add: confirm_order_row_def mark_credit_check_failed_def confirmed_at_def [abs_def] credit_failed_def [abs_def])

text \<open>A transition whose new row satisfies the constraints, of an order whose customer is there.\<close>

lemma wp_sound_transition:
  assumes wf: "orders_wf (work s)" and sel: "select_one (order_key t i) (orders (work s)) = Some r"
    and ex: "o_status r \<in> set ex" and same: "\<And>r. same_money (f r) r"
    and stamps: "(o_status (f r) \<in> {ORDER_CONFIRMED, ORDER_FULFILLED}) = (o_confirmed_at (f r) \<noteq> None)"
    and customer: "\<exists>c \<in> set (customers (work s)). c_tenant c = t \<and> c_id c = o_customer r"
    and ok: "Q (Some (f r)) (s\<lparr>work := put_order t i (f r) (work s)\<rparr>)"
  shows "wp (order_transition ex f i t) Q E s"
proof (rule wp_order_transition [OF wf same])
  fix q
  assume q: "select_one (order_key t i) (orders (work s)) = Some q"
  then have "q = r" using sel by simp
  then show "Q (Some (f q)) (s\<lparr>work := put_order t i (f q) (work s)\<rparr>)" using ok by simp
  fix c
  have "order_sound (work s) r" "o_tenant r = t"
    using wf select_one_SomeD [OF sel] by (simp_all add: orders_wf_def order_key_def)
  then have "order_checked (f r)" "o_tenant (f r) = t" "o_customer (f r) = o_customer r"
    using same_money_sound(2) [OF same _ stamps] same [of r] by (auto simp: same_money_def)
  then have "first_violation (order_checks (f r) @ order_references (f r)) (work s) = None"
    using customer unfolding order_checked_iff by simp
  moreover assume "first_violation (order_checks (f q) @ order_references (f q)) (work s) = Some c"
  ultimately show "E (IntegrityError c) s" using \<open>q = r\<close> by simp
qed (use sel ex in simp)

lemma customer_exists: "customer_in d c t = Some x \<Longrightarrow> \<exists>c' \<in> set (customers d). c_tenant c' = t \<and> c_id c' = c"
  by (auto simp: customer_in_def dest: select_one_SomeD)

definition order_confirmed :: "int \<Rightarrow> uuid \<Rightarrow> sales_order \<Rightarrow> uuid \<Rightarrow> db \<Rightarrow> db \<Rightarrow> bool" where
  "order_confirmed now t r w d d' \<longleftrightarrow> beside (put_order t (o_id r) (confirmed_at now r) d) d' \<and> stock_wf d' \<and>
     on_hand_in d' = on_hand_in d \<and>
     (\<forall>c. reserved_in d' c = reserved_in d c + line_sum t w (lines_of_order t (o_id r) d) c) \<and>
     other_refs_kept (step_ref (uuid_text (o_id r)) ''reserve'') d d'"

lemma wp_confirm_order:
  assumes stock: "stock_wf (work s)" and wf: "orders_wf (work s)"
    and sel: "select_one (order_key t i) (orders (work s)) = Some r"
    and replay: "o_status r = ORDER_CONFIRMED \<Longrightarrow> Q r s"
    and ok: "\<And>w v. confirmable (work s) t r \<Longrightarrow> first_warehouse (work s) t = Some w \<Longrightarrow>
      order_confirmed (instant (clk s)) t r w (work s) (work v) \<Longrightarrow>
      Q (confirmed_at (instant (clk s)) r) (commit_state v)"
    and broke: "\<And>u a. o_status r = ORDER_DRAFT \<Longrightarrow> \<not> confirmable (work s) t r \<Longrightarrow>
      work u = (put_order t i (credit_failed r) (work s))\<lparr>audit_logs := audit_logs (work s) @ [a]\<rparr> \<Longrightarrow>
      E CreditLimitExceededError (commit_state u)"
    and refused: "\<And>e u. o_status r \<noteq> ORDER_CONFIRMED \<Longrightarrow> \<not> confirmable (work s) t r \<Longrightarrow> durable u = durable s \<Longrightarrow> E e u"
  shows "wp (confirm_order i t) Q E s"
proof -
  have r: "o_tenant r = t" "o_id r = i" "order_sound (work s) r"
    using select_one_SomeD [OF sel] wf by (simp_all add: order_key_def orders_wf_def)
  have draft_stamp: "o_status r = ORDER_DRAFT \<Longrightarrow> o_confirmed_at r = None"
    using r(3) by (auto simp: order_sound_def order_checked_def)
  consider "o_status r = ORDER_CONFIRMED" | "o_status r \<noteq> ORDER_CONFIRMED" "o_status r \<noteq> ORDER_DRAFT"
    | "o_status r = ORDER_DRAFT" by blast
  then show ?thesis
  proof cases
    case 3
    show ?thesis
    proof (cases "customer_in (work s) (o_customer r) t")
      case None
      then show ?thesis
        unfolding confirm_order_def using 3 sel refused [of s "NotFoundError ''Customer''"]
        by (simp add: wp_sales confirmable_def)
    next
      case (Some c)
      note cust = this
      show ?thesis
      proof (cases "first_warehouse (work s) t")
        case None
        then show ?thesis
          unfolding confirm_order_def using 3 sel cust refused
          by (simp add: wp_sales confirmable_def)
      next
        case (Some w)
        note ware = this
        show ?thesis
        proof (cases "credit_check_passed c (o_total r)")
          case False
          then have no: "\<not> confirmable (work s) t r" using cust ware by (simp add: confirmable_def)
          have "wp (mark_credit_check_failed i t) (\<lambda>_ u. wp (thenM (audit t act tgt det) (thenM commit (raiseM CreditLimitExceededError))) Q E u) E s" for act tgt det
            unfolding order_rows_as_moves
            by (rule wp_sound_transition [OF wf sel _ order_moves(4)])
              (use 3 draft_stamp customer_exists [OF cust] broke [OF _ no] in \<open>simp_all add: wp_sales credit_failed_def put_order_def\<close>)
          then show ?thesis
            unfolding confirm_order_def using 3 sel cust ware False by (simp add: wp_sales)
        next
          case True
          let ?q = "confirmed_at (instant (clk s)) r"
          let ?d = "put_order t i ?q (work s)"
          have moved: "wp (confirm_order_row i t (instant (clk s)) CREDIT_PASSED) Q' E s"
            if "Q' (Some ?q) (s\<lparr>work := ?d\<rparr>)" for Q'
            unfolding order_rows_as_moves
            by (rule wp_sound_transition [OF wf sel _ order_moves(3)])
              (use 3 customer_exists [OF cust] that in \<open>simp_all add: confirmed_at_def\<close>)
          have reserve: "wp (reserve_order ''sale_order'' t w i (lines_of_order t i (work s))) (\<lambda>_. Q ?q) E u"
            if u: "work u = ?d\<lparr>audit_logs := a\<rparr>" "durable u = durable s" for u a
          proof (rule wp_reserve_order)
            have same: "same_stock (work s) (work u)" by (simp add: u same_stock_def put_order_def)
            show "stock_wf (work u)" using stock same_stock_sums(5) [OF same] by simp
            have conf: "order_reservable (work u) ''sale_order'' t w i (lines_of_order t i (work s)) \<longleftrightarrow> confirmable (work s) t r"
              using 3 cust ware True r order_reservable_stock [OF same] by (simp add: confirmable_def)
            show "Q ?q (commit_state v)"
              if "order_reservable (work u) ''sale_order'' t w i (lines_of_order t i (work s))" "stock_frame u v" "stock_wf (work v)"
                "\<And>c. on_hand_in (work v) c = on_hand_in (work u) c"
                "\<And>c. reserved_in (work v) c = reserved_in (work u) c + line_sum t w (lines_of_order t i (work s)) c"
                "other_refs_kept (step_ref (uuid_text i) ''reserve'') (work u) (work v)" for v
              by (rule ok) (use that conf ware same_stock_sums [OF same] beside_frame [OF that(2) u(1)] r in
                  \<open>auto simp: order_confirmed_def other_refs_kept_def\<close>)
            show "E e v" if "\<not> order_reservable (work u) ''sale_order'' t w i (lines_of_order t i (work s))" "stock_frame u v" for e v
              by (rule refused) (use that conf 3 stock_frame_eqs [OF that(2)] u in simp_all)
          qed
          show ?thesis
            unfolding confirm_order_def using 3 sel cust ware True
            by (simp add: wp_sales emit_order_confirmed_def sales_event_def moved reserve split: option.split)
        qed
      qed
    qed
  qed (use sel replay refused in \<open>simp_all add: confirm_order_def wp_sales confirmable_def\<close>)
qed

lemma order_confirmed_facts:
  assumes wf: "orders_wf d" and sel: "select_one (order_key t i) (orders d) = Some r" and oc: "order_confirmed now t r w d d'"
  shows "orders_wf d'" "order_view d' = (order_view d)((t, i) \<mapsto> (ORDER_CONFIRMED, order_facts d r))"
    "select_one (order_key t i) (orders d') = Some (confirmed_at now r)" "lines_of_order t i d' = lines_of_order t i d"
    "first_warehouse d' = first_warehouse d" "customers d' = customers d" "parents_refusal d' = parents_refusal d"
    "order_facts d' (confirmed_at now r) = order_facts d r"
proof -
  let ?q = "confirmed_at now r"
  have key: "order_key t i r" and sound: "order_sound d r"
    using select_one_SomeD [OF sel] wf by (simp_all add: orders_wf_def)
  have id: "o_id r = i" "o_tenant r = t" using key by (simp_all add: order_key_def)
  have b: "beside (put_order t i ?q d) d'" using oc id by (simp add: order_confirmed_def)
  have q: "order_key t i ?q" using key same_money_key [OF order_moves(3)] by simp
  have change: "order_change t i r ?q d (put_order t i ?q d)" by (rule put_order_change [OF sel q])
  have facts: "order_facts d ?q = order_facts d r" by (rule same_money_facts) simp
  have "order_sound d ?q" by (rule same_money_sound(1) [OF order_moves(3) sound]) (simp add: confirmed_at_def)
  then show "orders_wf d'" using orders_wf_change [OF change wf] besideD(7) [OF b] by simp
  show "order_view d' = (order_view d)((t, i) \<mapsto> (ORDER_CONFIRMED, order_facts d r))"
    using besideD(8) [OF b] order_change_view [OF change] facts by simp
  show "select_one (order_key t i) (orders d') = Some ?q" using select_put_order [OF sel q] besideD(1) [OF b] by simp
  show lines: "lines_of_order t i d' = lines_of_order t i d" using besideD(6) [OF b] by simp
  show "first_warehouse d' = first_warehouse d" using besideD(3) [OF b] by (simp add: first_warehouse_def [abs_def] put_order_def)
  show "customers d' = customers d" using besideD(5) [OF b] by simp
  show "parents_refusal d' = parents_refusal d"
    using besideD(9) [OF b] same_stock_sums(4) [of d "put_order t i ?q d"] by (simp add: same_stock_def put_order_def)
  show "order_facts d' ?q = order_facts d r" using facts lines id by (simp add: order_facts_def confirmed_at_def)
qed

lemma outcome_returns: "outcome x Q (\<lambda>_ _. False) \<Longrightarrow> \<exists>a u. x = (Inr a, u) \<and> Q a u"
  by (auto simp: outcome_def split: prod.splits sum.splits)

text \<open>A shop for the witnesses: the stock of \<open>demo\<close> and one draft order of four bolts.\<close>

definition shop_order :: sales_order where
  "shop_order = \<lparr>o_id = 50, o_tenant = 7, o_number = ''SO-2026-00001'', o_customer = 70, o_status = ORDER_DRAFT,
     o_credit = CREDIT_PENDING, o_subtotal = 12, o_discount = 0, o_tax = 0, o_total = 12, o_currency = ''USD'',
     o_confirmed_at = None\<rparr>"

definition shop_db :: db where
  "shop_db = demo_db\<lparr>customers := [\<lparr>c_id = 70, c_tenant = 7, c_name = ''Acme'', c_limit = None, c_active = True\<rparr>],
     orders := [shop_order], order_lines := [demo_line 4]\<rparr>"

definition shop :: sess where
  "shop = demo\<lparr>work := shop_db, durable := shop_db\<rparr>"

lemma shop_simps [simp]:
  "durable shop = shop_db" "clk shop = demo_clock" "next_id shop = 100" "orders shop_db = [shop_order]"
  "order_lines shop_db = [demo_line 4]" "lines_of_order 7 50 shop_db = [demo_line 4]"
  "o_id shop_order = 50" "o_tenant shop_order = 7" "o_status shop_order = ORDER_DRAFT" "o_customer shop_order = 70"
  "order_key 7 50 shop_order"
  by (simp_all add: shop_def demo_def shop_db_def shop_order_def lines_of_order_def order_line_of_def demo_line_def order_key_def)

lemma shop_stock: "same_stock demo_db shop_db"
  by (simp add: shop_db_def same_stock_def)

lemmas shop_sums = same_stock_sums [OF shop_stock] same_stock_refusals [OF shop_stock] order_reservable_stock [OF shop_stock]

lemma shop_wf [simp]: "stock_wf shop_db" "orders_wf shop_db"
  by (simp add: shop_sums,
      simp add: orders_wf_def order_sound_def, simp add: shop_order_def order_checked_def adds_up_def order_key_def order_id_def
        demo_line_def SUPPORTED_CURRENCIES_def)

lemma shop_reads [simp]:
  "customer_in shop_db 70 7 = Some \<lparr>c_id = 70, c_tenant = 7, c_name = ''Acme'', c_limit = None, c_active = True\<rparr>"
  "first_warehouse shop_db 7 = Some 20"
  by (simp_all add: customer_in_def shop_db_def first_warehouse_def demo_db_def empty_db_def page_def)

lemma shop_confirmable: "confirmable shop_db 7 shop_order"
  by (simp add: confirmable_def credit_check_passed_def shop_sums order_reservable_def all_accepted_def
      reserve_refusal_def step_ref_def uuid_text_50)



section \<open>Cancelling\<close>













section \<open>Orders among all requests\<close>


lemma lifecycles_settled:
  assumes "lifecycles v v'" "v k = Some (st, x)" "st \<noteq> ORDER_DRAFT"
  shows "\<exists>st'. v' k = Some (st', x) \<and> (st' = st \<or> can_become st st')"
  using assms(1)
proof (induction rule: rtranclp_induct)
  case base
  then show ?case using assms(2) by simp
next
  case (step u w)
  then obtain st' where at_k: "u k = Some (st', x)" "st' = st \<or> can_become st st'" by blast
  then have "st' \<noteq> ORDER_DRAFT" using assms(3) by (cases st) auto
  from step.hyps(2) show ?case
  proof cases
    case (moved k' st1 y st2)
    show ?thesis
    proof (cases "k' = k")
      case True
      with moved at_k have "st1 = st'" "can_become st' st2" "y = x" by auto
      with moved(1) True at_k(2) assms(3) show ?thesis by (cases st; cases st') auto
    qed (use moved(1) at_k in auto)
  qed (use at_k \<open>st' \<noteq> ORDER_DRAFT\<close> in auto)
qed

text \<open>
  C20. An order that left the draft never changes its customer, amounts, currency or lines again, whatever
  requests are served; its status can still move from confirmed to fulfilled or to
  cancelled, once, and a fulfilled or cancelled order is final.
\<close>

theorem settled_orders_frozen:
  assumes "orders_wf (durable s)" "erp_run key dc s s'" "order_view (durable s) (t, i) = Some (st, x)" "st \<noteq> ORDER_DRAFT"
  shows "\<exists>st'. order_view (durable s') (t, i) = Some (st', x) \<and>
    (st' = st \<or> st = ORDER_CONFIRMED \<and> st' \<in> {ORDER_FULFILLED, ORDER_CANCELLED})"
proof -
  have "order_history (durable s) (durable s')"
    by (rule erp_run_keeps [OF history_request assms(2)]) (use assms(1) in \<open>simp_all add: order_history_def\<close>)
  then have "lifecycles (order_view (durable s)) (order_view (durable s'))" by (simp add: order_history_def evolves_def)
  from lifecycles_settled [OF this assms(3,4)] assms(4) show ?thesis by (cases st) auto
qed

text \<open>A run of the shop: the order is confirmed.\<close>

definition confirmed_shop :: sess where
  "confirmed_shop = snd (run_request (request (confirm_order 50 7)) (shop\<lparr>clk := demo_clock, ctx_user := None\<rparr>))"


lemma confirmed_shop_view:
  "order_view (durable confirmed_shop) = (order_view shop_db)((7, 50) \<mapsto> (ORDER_CONFIRMED, order_facts shop_db shop_order))"
  "orders_wf (durable confirmed_shop)"
proof -
  let ?s = "shop\<lparr>clk := demo_clock, ctx_user := None\<rparr>"
  have sel: "select_one (order_key 7 50) (orders (durable ?s)) = Some shop_order" by simp
  have "outcome (run_request (request (confirm_order 50 7)) ?s)
      (\<lambda>_ u. \<exists>now w. order_confirmed now 7 shop_order w shop_db (durable u)) (\<lambda>_ _. False)"
    unfolding request_def
    by (rule outcomeI, unfold wp_then wp_return, rule wp_confirm_order [where r = shop_order])
      (auto simp: shop_confirmable)
  from outcome_returns [OF this] obtain now w where "order_confirmed now 7 shop_order w (durable ?s) (durable confirmed_shop)"
    by (auto simp: confirmed_shop_def)
  from order_confirmed_facts(1,2) [OF _ sel this]
  show "order_view (durable confirmed_shop) = (order_view shop_db)((7, 50) \<mapsto> (ORDER_CONFIRMED, order_facts shop_db shop_order))"
    "orders_wf (durable confirmed_shop)" by simp_all
qed


lemma settled_orders_frozen_witness:
  "let s' = snd (run_request (request (cancel_order 50 7)) (confirmed_shop\<lparr>clk := demo_clock, ctx_user := None\<rparr>)) in
     \<exists>st'. order_view (durable s') (7, 50) = Some (st', order_facts shop_db shop_order) \<and> st' \<noteq> ORDER_DRAFT"
proof -
  let ?s' = "snd (run_request (request (cancel_order 50 7)) (confirmed_shop\<lparr>clk := demo_clock, ctx_user := None\<rparr>))"
  have run: "erp_run (\<lambda>i _ _. i) ''USD'' confirmed_shop ?s'"
    unfolding erp_run_def
    by (rule r_into_rtranclp, rule erp_step.step, rule erp_request.sales, rule sales_request.order_cancelled)
  have "order_view (durable confirmed_shop) (7, 50) = Some (ORDER_CONFIRMED, order_facts shop_db shop_order)"
    using confirmed_shop_view by simp
  from settled_orders_frozen [OF confirmed_shop_view(2) run this] show ?thesis by (auto simp: Let_def)
qed




end
