(* ===== verification/Fulfilment_Theorems.thy ===== *)
theory Fulfilment_Theorems
  imports Sales_Theorems
begin

text \<open>
  Fulfilling an order runs through all the services: finance invoices it, sales moves its status, the
  inventory consumes the stock and commits, and finance books the cost of goods sold after that commit.
\<close>

section \<open>The finance side of an order\<close>

text \<open>What survives of the rest of the session while finance works.\<close>

definition same_session :: "sess \<Rightarrow> sess \<Rightarrow> bool" where
  "same_session s u \<longleftrightarrow> durable u = durable s \<and> clk u = clk s"

lemma wp_billing_lines:
  assumes "\<And>xs. Q xs s" "\<And>e. E e s"
  shows "wp (mapM (resolve_billing_line t) ls) Q E s"
  using assms
proof (induction ls arbitrary: Q)
  case (Cons x ls)
  then show ?case
    by (auto simp: resolve_billing_line_def billing_account_def check_invoice_line_def get_account_by_code_def
        get_account_by_id_def wp_simps split: prod.split option.split)
qed (simp add: wp_return)

lemma wp_resolve_exchange_rate:
  assumes "\<And>x. Q x s" "\<And>e. E e s"
  shows "wp (resolve_exchange_rate dc t code day) Q E s"
  using assms by (auto simp: resolve_exchange_rate_def default_currency_def get_exchange_rate_row_def wp_simps split: option.split)

text \<open>An invoice for the order is there afterwards; only the invoices and the audit log changed.\<close>

definition billed :: "billing_order \<Rightarrow> db \<Rightarrow> db \<Rightarrow> bool" where
  "billed b d d' \<longleftrightarrow> (\<exists>I L a. d' = d\<lparr>invoices := I, invoice_lines := L, audit_logs := a\<rparr>) \<and>
     invoice_by_source ''sales_order'' (b_order b) (b_tenant b) d' \<noteq> None"

lemma billed_before:
  assumes "invoice_by_source ''sales_order'' (b_order b) (b_tenant b) d = Some v"
  shows "billed b d d"
  unfolding billed_def
  by (intro conjI exI [of _ "invoices d"] exI [of _ "invoice_lines d"] exI [of _ "audit_logs d"]) (simp_all add: assms)

lemma billed_now:
  assumes "invoice_source (b_tenant b) ''sales_order'' (b_order b) v"
    and "invoice_by_source ''sales_order'' (b_order b) (b_tenant b) d = None"
  shows "billed b d ((with_invoice v ls d)\<lparr>audit_logs := a\<rparr>)"
  unfolding billed_def
  by (intro conjI exI [of _ "invoices d @ [v]"] exI [of _ "invoice_lines d @ ls"] exI [of _ a])
    (use assms in \<open>simp_all add: with_invoice_def invoice_by_source_def select_one_append split: option.split\<close>)

lemma wp_create_from_order:
  assumes ok: "\<And>v u. same_session s u \<Longrightarrow> billed b (work s) (work u) \<Longrightarrow> Q v u"
    and err: "\<And>e u. same_session s u \<Longrightarrow> E e u"
  shows "wp (create_from_order dc b) Q E s"
proof (cases "invoice_by_source ''sales_order'' (b_order b) (b_tenant b) (work s)")
  case (Some v)
  then show ?thesis
    using ok [OF _ billed_before] by (simp add: create_from_order_def get_invoice_by_source_ref_def wp_simps same_session_def)
next
  case None
  have create: "wp (create_invoice (v, ls))
      (\<lambda>created. wp (thenM (announce_invoice_created (b_tenant b) (fst created) None) (returnM created)) Q E)
      (\<lambda>e. wp (raiseM (g e)) Q' E) u"
    if "work u = work s" "same_session s u" "invoice_source (b_tenant b) ''sales_order'' (b_order b) v" for v ls u g and Q' :: "invoice_doc \<Rightarrow> sess \<Rightarrow> bool"
  proof (rule wp_create_invoice)
    have src: "invoice_source (b_tenant b) ''sales_order'' (b_order b) (invoice_row u v)"
      using that(3) by (simp add: invoice_source_def)
    show "wp (thenM (announce_invoice_created (b_tenant b) (fst (invoice_row u v, invoice_line_rows u v ls)) None)
          (returnM (invoice_row u v, invoice_line_rows u v ls))) Q E
        (u\<lparr>work := with_invoice (invoice_row u v) (invoice_line_rows u v ls) (work u), next_id := Suc (next_id u) + length ls\<rparr>)"
      by (simp add: announce_invoice_created_def wp_then wp_audit_by wp_finance_event wp_return)
        (rule ok, use that(1,2) billed_now [OF src None] in \<open>simp_all add: same_session_def\<close>)
    show "wp (raiseM (g x)) Q' E v'" if "same_outside_work u v'" for x v'
      using that \<open>same_session s u\<close> by (simp add: wp_raise) (rule err, simp add: same_outside_work_def same_session_def)
  qed
  show ?thesis
    unfolding create_from_order_def get_invoice_by_source_ref_def wp_bind wp_read None option.case Let_def
    by (rule wp_billing_lines, rule wp_resolve_exchange_rate,
        simp only: next_invoice_number_def wp_bind wp_nextval wp_return wp_gets wp_catch,
        rule create)
      (simp_all add: same_session_def invoice_source_def err)
qed

text \<open>The entry of the cost of goods sold. A missing account is an error once there is a cost.\<close>

definition cogs_recorded :: "uuid \<Rightarrow> string \<Rightarrow> db \<Rightarrow> bool" where
  "cogs_recorded t ref d \<longleftrightarrow> (\<exists>e \<in> set (entries d). same_source t ''cogs'' ref e)"

definition cogs_accounts :: "uuid \<Rightarrow> db \<Rightarrow> bool" where
  "cogs_accounts t d \<longleftrightarrow> account_by_code ''5000'' t d \<noteq> None \<and> account_by_code ''1300'' t d \<noteq> None"

definition costed :: "db \<Rightarrow> db \<Rightarrow> bool" where
  "costed d d' \<longleftrightarrow> (\<exists>E J a. d' = d\<lparr>entries := E, journal_lines := J, audit_logs := a\<rparr>)"

lemma costed_refl [simp]: "costed d d"
  unfolding costed_def by (rule exI [of _ "entries d"], rule exI [of _ "journal_lines d"], rule exI [of _ "audit_logs d"]) simp

lemma costed_entry: "costed d ((with_entry e ls d)\<lparr>audit_logs := a\<rparr>)"
  unfolding costed_def
  by (rule exI [of _ "entries d @ [e]"], rule exI [of _ "journal_lines d @ ls"], rule exI [of _ a]) (simp add: with_entry_def)

lemma wp_post_cogs:
  assumes free: "ls = [] \<or> cogs_total ls \<le> 0 \<Longrightarrow> Q () s"
    and ok: "\<And>u. cogs_accounts t (work s) \<Longrightarrow> durable u = durable s \<Longrightarrow> costed (work s) (work u) \<Longrightarrow>
      cogs_recorded t ref (work u) \<Longrightarrow> Q () u"
    and err: "\<And>e u. 0 < cogs_total ls \<Longrightarrow> durable u = durable s \<Longrightarrow> E e u"
  shows "wp (post_cogs_for_order t ref day ls) Q E s"
proof (cases "ls = [] \<or> cogs_total ls \<le> 0")
  case True
  then show ?thesis using free by (auto simp: post_cogs_for_order_def Let_def wp_return)
next
  case False
  show ?thesis
  proof (cases "\<exists>a b. account_by_code ''5000'' t (work s) = Some a \<and> account_by_code ''1300'' t (work s) = Some b")
    case no: False
    then show ?thesis
      using False err [OF _ refl]
      by (auto simp: post_cogs_for_order_def Let_def wp_simps get_account_by_code_def account_by_code_def split: option.split)
  next
    case True
    then obtain a b where acc: "account_by_code ''5000'' t (work s) = Some a" "account_by_code ''1300'' t (work s) = Some b" by blast
    then have accs: "cogs_accounts t (work s)" by (simp add: cogs_accounts_def)
    note start = acc [unfolded account_by_code_def] False
    show ?thesis
    proof (cases "select_one (same_source t ''cogs'' ref) (entries (work s))")
      case (Some e)
      then have "cogs_recorded t ref (work s)" by (auto simp: cogs_recorded_def dest: select_one_SomeD)
      then show ?thesis
        using start Some ok [OF accs refl costed_refl]
        by (simp add: post_cogs_for_order_def Let_def wp_simps get_account_by_code_def get_journal_entry_by_source_ref_def load_entry_def)
    next
      case None
      let ?e = "cogs_entry t ref day (instant (clk s))"
      have "same_source t ''cogs'' ref (entry_row s ?e)"
        by (simp add: same_source_def entry_row_def cogs_entry_def new_entry_def)
      then have new: "cogs_recorded t ref ((with_entry (entry_row s ?e) rows d)\<lparr>audit_logs := a\<rparr>)" for rows d a
        by (simp add: cogs_recorded_def with_entry_def)
      have "wp (create_journal_entry (?e, ls')) (\<lambda>created. wp (audit_by t None act (tgt created) (det created)) Q E)
          (\<lambda>e. wp (raiseM (g e)) Q' E) s" for ls' act tgt det g and Q' :: "entry_doc \<Rightarrow> sess \<Rightarrow> bool"
      proof (rule wp_create_journal_entry)
        show "wp (audit_by t None act (tgt (entry_row s ?e, ls')) (det (entry_row s ?e, ls'))) Q E
            (s\<lparr>work := with_entry (entry_row s ?e) (line_rows s ?e ls') (work s), next_id := Suc (next_id s) + length ls'\<rparr>)"
          unfolding wp_audit_by by (rule ok [OF accs]) (simp_all add: costed_entry new)
        show "wp (raiseM (g x)) Q' E u" if "same_outside_work s u" for x u
          unfolding wp_raise by (rule err) (use that False in \<open>auto simp: same_outside_work_def\<close>)
      qed
      then show ?thesis
        using start None
        by (simp add: post_cogs_for_order_def Let_def wp_bind wp_gets wp_the_or_raise wp_read wp_catch get_account_by_code_def
            get_journal_entry_by_source_ref_def)
    qed
  qed
qed

section \<open>The stock side of an order\<close>

definition order_costs :: "db \<Rightarrow> uuid \<Rightarrow> order_line list \<Rightarrow> (uuid \<times> decimal \<times> decimal) list" where
  "order_costs d t ls = map (\<lambda>l. (ol_product l, ol_quantity l,
     case product_in d (ol_product l) t of None \<Rightarrow> 0 | Some p \<Rightarrow> amount (p_cost p))) ls"

abbreviation cost_report :: "product \<times> decimal \<times> decimal \<Rightarrow> uuid \<times> decimal \<times> decimal" where
  "cost_report \<equiv> \<lambda>(product, before, qty). (p_id product, qty, amount (p_cost product))"

lemma wp_fulfil_costs:
  assumes "stock_wf (work s)" "product_in (work s) = product_in d"
  shows "wp (mapM (\<lambda>l. fulfil_step rt (ol_product l) w (ol_quantity l) t r) ls)
    (\<lambda>ys _. map cost_report ys = order_costs d t ls) (\<lambda>_ _. True) s"
  using assms
proof (induction ls arbitrary: s)
  case (Cons l ls)
  show ?case
    unfolding mapM.simps wp_bind
  proof (rule wp_fulfil_step [OF Cons.prems(1)])
    fix u :: sess and product
    assume p: "product_in (work s) (ol_product l) t = Some product" and u: "stock_frame s u" "stock_wf (work u)"
    have "p_id product = ol_product l" using p by (auto simp: product_in_def product_key_def dest: select_one_SomeD)
    moreover have "product_in (work u) = product_in d" using parents_frame(1) [OF u(1)] Cons.prems(2) by simp
    ultimately show "wp (mapM (\<lambda>l. fulfil_step rt (ol_product l) w (ol_quantity l) t r) ls)
        (\<lambda>ys. wp (returnM ((product, on_hand_in (work s) (t, ol_product l, w), ol_quantity l) # ys))
          (\<lambda>ys _. map cost_report ys = order_costs d t (l # ls)) (\<lambda>_ _. True)) (\<lambda>_ _. True) u"
      using wp_mono [OF Cons.IH [OF u(2)]] p Cons.prems(2) by (simp add: wp_return_fun order_costs_def)
  qed simp
qed (simp add: wp_return order_costs_def)

definition order_shippable :: "db \<Rightarrow> string \<Rightarrow> uuid \<Rightarrow> uuid \<Rightarrow> uuid \<Rightarrow> order_line list \<Rightarrow> bool" where
  "order_shippable d rt t w oid = all_accepted (\<lambda>d p q. fulfil_refusal d rt p w q t (uuid_text oid)) d"

lemma order_shippable_stock: "same_stock d d' \<Longrightarrow> order_shippable d' = order_shippable d"
  by (intro ext) (simp add: order_shippable_def all_accepted_def same_stock_refusals)

lemma wp_fulfil_order_lines:
  assumes wf: "stock_wf (work s)"
    and ok: "\<And>u v a. order_shippable (work s) rt t w i ls \<Longrightarrow> stock_frame s u \<Longrightarrow> stock_wf (work u) \<Longrightarrow>
      (\<And>c. on_hand_in (work u) c = on_hand_in (work s) c - line_sum t w ls c) \<Longrightarrow>
      (\<And>c. reserved_in (work u) c = reserved_in (work s) c - line_sum t w ls c) \<Longrightarrow>
      durable v = work u \<Longrightarrow> work v = (work u)\<lparr>audit_logs := a\<rparr> \<Longrightarrow> Q (order_costs (work s) t ls) v"
    and err: "\<And>e v. \<not> order_shippable (work s) rt t w i ls \<Longrightarrow> stock_frame s v \<Longrightarrow> E e v"
  shows "wp (fulfil_order_lines rt t w i ls) Q E s"
proof -
  let ?m = "mapM (\<lambda>l. fulfil_step rt (ol_product l) w (ol_quantity l) t (uuid_text i)) ls"
  let ?emit = "\<lambda>x. case x of (product, before, qty) \<Rightarrow> emit_level_changed t product w before (before - qty)"
  have emits: "wp (forM ?emit xs) (\<lambda>_ v. durable v = D \<and> (\<exists>a. work v = D\<lparr>audit_logs := a\<rparr>)) (\<lambda>_ _. False) v"
    if "durable v = D" "work v = D" for xs v D
    by (rule wp_forM_inv [where I = "\<lambda>v. durable v = D \<and> (\<exists>a. work v = D\<lparr>audit_logs := a\<rparr>)"])
      (use that in \<open>auto simp: wp_emit_level_changed intro: exI [of _ "audit_logs D"]\<close>)
  have "wp ?m (\<lambda>_ v. order_shippable (work s) rt t w i ls \<and> stock_frame s v \<and> stock_wf (work v) \<and>
      (\<forall>c. on_hand_in (work v) c = on_hand_in (work s) c - line_sum t w ls c) \<and>
      (\<forall>c. reserved_in (work v) c = reserved_in (work s) c - line_sum t w ls c))
    (\<lambda>_ v. \<not> order_shippable (work s) rt t w i ls \<and> stock_frame s v) s"
    by (rule fulfil_lines.wp_lines [OF wf]) (simp_all add: order_shippable_def)
  from wp_conj [OF this wp_fulfil_costs [OF wf refl]] show ?thesis
    unfolding fulfil_order_lines_def wp_bind
  proof (rule wp_mono)
    fix ys and v :: sess
    assume v: "(order_shippable (work s) rt t w i ls \<and> stock_frame s v \<and> stock_wf (work v) \<and>
      (\<forall>c. on_hand_in (work v) c = on_hand_in (work s) c - line_sum t w ls c) \<and>
      (\<forall>c. reserved_in (work v) c = reserved_in (work s) c - line_sum t w ls c)) \<and> map cost_report ys = order_costs (work s) t ls"
    have "wp (forM ?emit ys) (\<lambda>_. Q (order_costs (work s) t ls)) E (commit_state v)"
      by (rule wp_mono [OF emits [where D = "work v"]]) (use v in \<open>auto intro: ok\<close>)
    then show "wp (thenM commit (thenM (forM ?emit ys) (returnM (map cost_report ys)))) Q E v"
      using v by (simp add: wp_then wp_commit wp_return_fun)
  qed (use err in simp)
qed

section \<open>The whole request\<close>

definition fulfilled_order :: "sales_order \<Rightarrow> sales_order" where
  "fulfilled_order r = r\<lparr>o_status := ORDER_FULFILLED\<rparr>"

lemma fulfilled_order_simps [simp]:
  "o_status (fulfilled_order r) = ORDER_FULFILLED" "same_money (fulfilled_order r) r"
  by (simp_all add: fulfilled_order_def same_money_def)

lemma fulfil_row_as_move: "fulfil_order_row i t = order_transition [ORDER_CONFIRMED] fulfilled_order i t"
  by (simp add: fulfil_order_row_def fulfilled_order_def [abs_def])

text \<open>The tables a fulfilment may touch besides the order's own row.\<close>

definition around :: "db \<Rightarrow> db \<Rightarrow> bool" where
  "around d d' \<longleftrightarrow> collation d' = collation d \<and> products d' = products d \<and> warehouses d' = warehouses d \<and>
     suppliers d' = suppliers d \<and> performances d' = performances d \<and> customers d' = customers d \<and>
     orders d' = orders d \<and> order_lines d' = order_lines d \<and> accounts d' = accounts d \<and> periods d' = periods d \<and>
     payments d' = payments d \<and> intents d' = intents d \<and> rates d' = rates d \<and>
     payroll_settings d' = payroll_settings d \<and> sequences d' = sequences d \<and> timeline d' = timeline d \<and>
     approvals d' = approvals d"

lemma around_trans: "around d e \<Longrightarrow> around e f \<Longrightarrow> around d f"
  by (simp add: around_def)

lemma around_intros:
  "around d (d\<lparr>audit_logs := a\<rparr>)" "stock_frame s u \<Longrightarrow> around (work s) (work u)"
  "billed b d d' \<Longrightarrow> around d d'" "costed d d' \<Longrightarrow> around d d'"
  "around d d' \<Longrightarrow> around (put_order t i q d) (put_order t i q d')"
  by (auto simp: around_def stock_frame_def billed_def costed_def put_order_def)

lemma aroundD:
  assumes "around d d'"
  shows "orders d' = orders d" "order_lines d' = order_lines d" "customers d' = customers d" "products d' = products d"
    "warehouses d' = warehouses d" "accounts d' = accounts d" "first_warehouse d' = first_warehouse d"
    "product_in d' = product_in d" "lines_of_order t i d' = lines_of_order t i d" "orders_wf d' = orders_wf d"
    "order_view d' = order_view d"
proof -
  show rows: "orders d' = orders d" "order_lines d' = order_lines d" "customers d' = customers d" "products d' = products d"
    and ware: "warehouses d' = warehouses d" and "accounts d' = accounts d"
    using assms by (simp_all add: around_def)
  from assms have "collation d' = collation d" by (simp add: around_def)
  with rows ware show "first_warehouse d' = first_warehouse d" "product_in d' = product_in d"
    "lines_of_order t i d' = lines_of_order t i d"
    by (simp_all add: first_warehouse_def [abs_def] product_in_def [abs_def] lines_of_order_def)
  show "orders_wf d' = orders_wf d" by (rule orders_wf_cong) (rule rows)+
  show "order_view d' = order_view d" by (rule order_view_cong) (rule rows)+
qed

definition fulfillable :: "db \<Rightarrow> uuid \<Rightarrow> sales_order \<Rightarrow> bool" where
  "fulfillable d t r \<longleftrightarrow> o_status r = ORDER_CONFIRMED \<and>
     (case first_warehouse d t of None \<Rightarrow> False
      | Some w \<Rightarrow> order_shippable d ''sale_order'' t w (o_id r) (lines_of_order t (o_id r) d))"

text \<open>Whether finance takes the order: it has an invoice already, or one can be raised for it.\<close>

definition invoice_accepted :: "string \<Rightarrow> sales_order \<Rightarrow> sess \<Rightarrow> bool" where
  "invoice_accepted dc r s \<longleftrightarrow>
     (case fst (create_from_order dc (order_for_invoicing (clk s) r (lines_of_order (o_tenant r) (o_id r) (work s))) s) of
        Inl _ \<Rightarrow> False | Inr _ \<Rightarrow> True)"

definition order_cost :: "db \<Rightarrow> uuid \<Rightarrow> sales_order \<Rightarrow> decimal" where
  "order_cost d t r = cogs_total (order_costs d t (lines_of_order t (o_id r) d))"

definition order_invoiced :: "uuid \<Rightarrow> uuid \<Rightarrow> db \<Rightarrow> bool" where
  "order_invoiced t i d \<longleftrightarrow> invoice_by_source ''sales_order'' (uuid_text i) t d \<noteq> None"

definition shipped :: "uuid \<Rightarrow> sales_order \<Rightarrow> uuid \<Rightarrow> db \<Rightarrow> db \<Rightarrow> bool" where
  "shipped t r w d d' \<longleftrightarrow> around (put_order t (o_id r) (fulfilled_order r) d) d' \<and> stock_wf d' \<and> order_invoiced t (o_id r) d' \<and>
     (\<forall>c. on_hand_in d' c = on_hand_in d c - line_sum t w (lines_of_order t (o_id r) d) c) \<and>
     (\<forall>c. reserved_in d' c = reserved_in d c - line_sum t w (lines_of_order t (o_id r) d) c)"

lemma order_invoiced_cong: "invoices d' = invoices d \<Longrightarrow> invoice_lines d' = invoice_lines d \<Longrightarrow> order_invoiced t i d' = order_invoiced t i d"
  by (simp add: order_invoiced_def invoice_by_source_def)

lemma shipped_more:
  assumes "shipped t r w d e" "around e f" "levels f = levels e" "movements f = movements e"
    "invoices f = invoices e" "invoice_lines f = invoice_lines e"
  shows "shipped t r w d f"
proof -
  have "same_stock e f" using aroundD(4,5) [OF assms(2)] assms(3,4) by (simp add: same_stock_def)
  from same_stock_sums [OF this] order_invoiced_cong [OF assms(5,6)] around_trans [OF _ assms(2)] assms(1) show ?thesis
    by (auto simp: shipped_def)
qed

lemma wp_settled: "wp m (\<lambda>_ _. (case fst (m s) of Inl _ \<Rightarrow> False | Inr _ \<Rightarrow> True)) (\<lambda>_ _. \<not> (case fst (m s) of Inl _ \<Rightarrow> False | Inr _ \<Rightarrow> True)) s"
  by (auto simp: wp_def split: prod.splits sum.splits)

text \<open>The end of the request, after finance has the invoice: the stock, then the cost.\<close>

lemma wp_ship:
  assumes d: "stock_wf d" and u: "around (put_order t i (fulfilled_order r) d) (work u)" "same_stock d (work u)"
      "order_invoiced t i (work u)" and r: "o_id r = i"
    and ok: "\<And>v. order_shippable d ''sale_order'' t w i ls \<Longrightarrow> shipped t r w d (work v) \<Longrightarrow>
      order_cost d t r \<le> 0 \<or> cogs_accounts t d \<and> cogs_recorded t (uuid_text i) (work v) \<Longrightarrow> Q q v"
    and late: "\<And>e v. order_shippable d ''sale_order'' t w i ls \<Longrightarrow> shipped t r w d (durable v) \<Longrightarrow>
      entries (durable v) = entries (work u) \<Longrightarrow> 0 < order_cost d t r \<Longrightarrow> E e v"
    and refused: "\<And>e v. \<not> order_shippable d ''sale_order'' t w i ls \<Longrightarrow> durable v = durable u \<Longrightarrow> E e v"
    and ls: "ls = lines_of_order t i d"
  shows "wp (bindM (fulfil_order_lines ''sale_order'' t w i ls) (\<lambda>costs.
      thenM (if costs = [] then returnM () else thenM (post_cogs_for_order t (uuid_text i) day costs) (returnM ())) (returnM q))) Q E u"
  unfolding wp_bind
proof (rule wp_fulfil_order_lines)
  note sums = same_stock_sums [OF u(2)]
  show "stock_wf (work u)" using d sums(5) by simp
  have can: "order_shippable (work u) = order_shippable d" by (rule order_shippable_stock [OF u(2)])
  show "E e v" if "\<not> order_shippable (work u) ''sale_order'' t w i ls" "stock_frame u v" for e v
    by (rule refused) (use that can stock_frame_eqs [OF that(2)] in simp_all)
  fix v x :: sess and a
  assume acc: "order_shippable (work u) ''sale_order'' t w i ls" and fr: "stock_frame u v" and wf: "stock_wf (work v)"
    and oh: "\<And>c. on_hand_in (work v) c = on_hand_in (work u) c - line_sum t w ls c"
    and rs: "\<And>c. reserved_in (work v) c = reserved_in (work u) c - line_sum t w ls c"
    and x: "durable x = work v" "work x = (work v)\<lparr>audit_logs := a\<rparr>"
  have inv: "order_invoiced t i (work v)"
    using u(3) order_invoiced_cong [of "work v" "work u"] fr by (auto simp: stock_frame_def)
  have ship: "shipped t r w d (work v)"
    unfolding shipped_def r
    using around_trans [OF u(1) around_intros(2) [OF fr]] wf oh rs inv sums(1,2) ls by simp
  have ship': "shipped t r w d f" if "costed (work x) f" for f
    by (rule shipped_more [OF ship])
      (use that x(2) around_trans [OF around_intros(1) around_intros(4)] in \<open>auto simp: costed_def\<close>)
  have ents: "entries (work v) = entries (work u)" using fr by (auto simp: stock_frame_def)
  have accounts: "cogs_accounts t (work x) \<longleftrightarrow> cogs_accounts t d"
    using aroundD(6) [OF u(1)] aroundD(6) [OF around_intros(2) [OF fr]] x(2)
    by (simp add: cogs_accounts_def account_by_code_def put_order_def)
  let ?costs = "order_costs (work u) t ls"
  have costs: "cogs_total ?costs = order_cost d t r" "?costs = [] \<Longrightarrow> order_cost d t r \<le> 0"
    using aroundD(8) [OF u(1)] r ls by (auto simp: order_cost_def order_costs_def product_in_def put_order_def cogs_total_def)
  show "wp (thenM (if ?costs = [] then returnM () else thenM (post_cogs_for_order t (uuid_text i) day ?costs) (returnM ())) (returnM q)) Q E x"
  proof (cases "?costs = []")
    case True
    then show ?thesis using ok [OF acc [unfolded can] ship'] costs(2) by (simp add: wp_then wp_return)
  next
    case False
    have "wp (post_cogs_for_order t (uuid_text i) day ?costs) (\<lambda>_. Q q) E x"
    proof (rule wp_post_cogs)
      show "Q q x" if "?costs = [] \<or> cogs_total ?costs \<le> 0"
        by (rule ok [OF acc [unfolded can] ship']) (use that False costs in auto)
      show "Q q y" if "cogs_accounts t (work x)" "costed (work x) (work y)" "cogs_recorded t (uuid_text i) (work y)" for y
        by (rule ok [OF acc [unfolded can] ship']) (use that accounts in auto)
      show "E e y" if "0 < cogs_total ?costs" "durable y = durable x" for e y
        by (rule late [OF acc [unfolded can]]) (use that ship x(1) ents costs in auto)
    qed
    with False show ?thesis by (simp add: wp_then wp_return_fun)
  qed
qed

lemma wp_fulfil_order:
  assumes stock: "stock_wf (work s)" and wf: "orders_wf (work s)"
    and sel: "select_one (order_key t i) (orders (work s)) = Some r"
    and customer: "\<exists>c \<in> set (customers (work s)). c_tenant c = t \<and> c_id c = o_customer r"
    and replay: "o_status r = ORDER_FULFILLED \<Longrightarrow> Q r s"
    and ok: "\<And>w v. fulfillable (work s) t r \<Longrightarrow> invoice_accepted dc r s \<Longrightarrow> first_warehouse (work s) t = Some w \<Longrightarrow>
      shipped t r w (work s) (work v) \<Longrightarrow>
      order_cost (work s) t r \<le> 0 \<or> cogs_accounts t (work s) \<and> cogs_recorded t (uuid_text i) (work v) \<Longrightarrow>
      Q (fulfilled_order r) v"
    and late: "\<And>w e v. fulfillable (work s) t r \<Longrightarrow> invoice_accepted dc r s \<Longrightarrow> first_warehouse (work s) t = Some w \<Longrightarrow>
      shipped t r w (work s) (durable v) \<Longrightarrow> entries (durable v) = entries (work s) \<Longrightarrow> 0 < order_cost (work s) t r \<Longrightarrow> E e v"
    and refused: "\<And>e u. o_status r \<noteq> ORDER_FULFILLED \<Longrightarrow> \<not> (fulfillable (work s) t r \<and> invoice_accepted dc r s) \<Longrightarrow>
      durable u = durable s \<Longrightarrow> E e u"
  shows "wp (fulfil_order dc i t) Q E s"
proof -
  have r: "o_tenant r = t" "o_id r = i" using select_one_SomeD [OF sel] by (simp_all add: order_key_def)
  consider "o_status r = ORDER_FULFILLED" | "o_status r \<noteq> ORDER_FULFILLED" "o_status r \<noteq> ORDER_CONFIRMED"
    | "o_status r = ORDER_CONFIRMED" by blast
  then show ?thesis
  proof cases
    case 3
    let ?ls = "lines_of_order t i (work s)" and ?q = "fulfilled_order r"
    let ?b = "order_for_invoicing (clk s) r ?ls"
    have b: "b_order ?b = uuid_text i" "b_tenant ?b = t" using r by (simp_all add: order_for_invoicing_def)
    have stamp: "o_confirmed_at r \<noteq> None" using select_one_SomeD [OF sel] wf 3
      by (auto simp: orders_wf_def order_sound_def order_checked_def)
    show ?thesis
    proof (cases "first_warehouse (work s) t")
      case None
      then show ?thesis
        unfolding fulfil_order_def using 3 sel refused [of s] by (simp add: wp_sales fulfillable_def)
    next
      case (Some w)
      note ware = this
      have ready: "fulfillable (work s) t r \<longleftrightarrow> order_shippable (work s) ''sale_order'' t w i ?ls"
        using 3 ware r by (simp add: fulfillable_def)
      have moved: "wp (fulfil_order_row i t) Q' E u"
        if "around (work s) (work u)" "Q' (Some ?q) (u\<lparr>work := put_order t i ?q (work u)\<rparr>)" for Q' u
        unfolding fulfil_row_as_move
        by (rule wp_sound_transition [OF _ _ _ fulfilled_order_simps(2)])
          (use that wf sel 3 customer stamp aroundD [OF that(1)] in \<open>simp_all add: fulfilled_order_def\<close>)
      have ship: "wp (bindM (fulfil_order_lines ''sale_order'' t w i ?ls) (\<lambda>costs.
          thenM (if costs = [] then returnM () else thenM (post_cogs_for_order t (uuid_text i) day costs) (returnM ())) (returnM ?q))) Q E u"
        if acc: "invoice_accepted dc r s" and u: "durable u = durable s" "work u = (put_order t i ?q e)\<lparr>audit_logs := a\<rparr>"
          and e: "billed ?b (work s) e" for u e a day
      proof (rule wp_ship [OF stock])
        show "around (put_order t i ?q (work s)) (work u)"
          using around_trans [OF around_intros(5) [OF around_intros(3) [OF e]] around_intros(1)] u(2) by simp
        show "same_stock (work s) (work u)" using e u(2) by (auto simp: billed_def same_stock_def put_order_def)
        show "order_invoiced t i (work u)"
          using e b u(2) order_invoiced_cong [of "work u" e] by (auto simp: billed_def order_invoiced_def put_order_def)
        have "entries (work u) = entries (work s)" using e u(2) by (auto simp: billed_def put_order_def)
        then show "E x v" if "order_shippable (work s) ''sale_order'' t w i ?ls" "shipped t r w (work s) (durable v)"
          "entries (durable v) = entries (work u)" "0 < order_cost (work s) t r" for x v
          using late [OF _ acc ware] that ready by simp
      qed (use ok [OF _ acc ware] refused ready acc r u(1) 3 in auto)
      have bill: "wp (create_from_order dc ?b) (\<lambda>v u. (same_session s u \<and> billed ?b (work s) (work u)) \<and> invoice_accepted dc r s)
          (\<lambda>_ u. same_session s u \<and> \<not> invoice_accepted dc r s) s"
        unfolding invoice_accepted_def r
        by (rule wp_conj [OF wp_create_from_order wp_settled]) simp_all
      let ?tail = "\<lambda>costs. thenM (if costs = [] then returnM ()
          else thenM (post_cogs_for_order t (uuid_text i) (today (clk s)) costs) (returnM ()))"
      let ?rest = "\<lambda>doc moved. case moved of None \<Rightarrow> reprobe ORDER_FULFILLED i t
         | Some r \<Rightarrow> thenM (audit t ''sales.order.fulfilled'' (order_target i)
               (Some [(''order_number'', PStr (o_number r)), (''invoice_id'', PId (i_id (fst doc)))]))
             (thenM (emit_order_fulfilled r (i_id (fst doc)))
             (bindM (fulfil_order_lines ''sale_order'' t w i ?ls) (\<lambda>costs. ?tail costs (returnM r))))"
      have "wp (create_from_order dc ?b) (\<lambda>doc. wp (fulfil_order_row i t) (\<lambda>moved. wp (?rest doc moved) Q E) E) E s"
      proof (rule wp_mono [OF bill], rule moved)
        fix doc and u :: sess
        assume u: "(same_session s u \<and> billed ?b (work s) (work u)) \<and> invoice_accepted dc r s"
        then show "around (work s) (work u)" by (auto intro: around_intros)
        have go: "wp (bindM (fulfil_order_lines ''sale_order'' t w i ?ls) (\<lambda>costs. ?tail costs (returnM ?q))) Q E x"
          if "durable x = durable u" "work x = (put_order t i ?q (work u))\<lparr>audit_logs := a\<rparr>" for x a
          by (rule ship [where e = "work u" and a = a]) (use u that in \<open>auto simp: same_session_def\<close>)
        show "wp (?rest doc (Some ?q)) Q E (u\<lparr>work := put_order t i ?q (work u)\<rparr>)"
          by (simp only: option.case wp_then wp_audit emit_order_fulfilled_def sales_event_def wp_apublish split: option.split)
            (intro conjI allI impI; rule go; simp)
      qed (use refused 3 in \<open>auto simp: same_session_def\<close>)
      then show ?thesis
        unfolding fulfil_order_def using 3 sel ware by (simp add: wp_sales)
    qed
  qed (use sel replay refused in \<open>simp_all add: fulfil_order_def wp_sales fulfillable_def\<close>)
qed

lemma shipped_orders:
  assumes wf: "orders_wf d" and sel: "select_one (order_key t i) (orders d) = Some r" and conf: "o_status r = ORDER_CONFIRMED"
    and ship: "shipped t r w d d'"
  shows "orders_wf d'" "order_view d' = (order_view d)((t, i) \<mapsto> (ORDER_FULFILLED, order_facts d r))"
    "select_one (order_key t i) (orders d') = Some (fulfilled_order r)"
proof -
  let ?q = "fulfilled_order r"
  have key: "order_key t i r" and sound: "order_sound d r"
    using select_one_SomeD [OF sel] wf by (simp_all add: orders_wf_def)
  have a: "around (put_order t i ?q d) d'" using ship key by (simp add: shipped_def order_key_def)
  have q: "order_key t i ?q" using key same_money_key [OF fulfilled_order_simps(2)] by simp
  have change: "order_change t i r ?q d (put_order t i ?q d)" by (rule put_order_change [OF sel q])
  have "o_confirmed_at r \<noteq> None" using sound conf by (auto simp: order_sound_def order_checked_def)
  then have "order_sound d ?q"
    by (intro same_money_sound(1) [OF fulfilled_order_simps(2) sound]) (simp add: fulfilled_order_def)
  then show "orders_wf d'" using orders_wf_change [OF change wf] aroundD(10) [OF a] by simp
  show "order_view d' = (order_view d)((t, i) \<mapsto> (ORDER_FULFILLED, order_facts d r))"
    using aroundD(11) [OF a] order_change_view [OF change] same_money_facts [OF fulfilled_order_simps(2)] by simp
  show "select_one (order_key t i) (orders d') = Some ?q" using select_put_order [OF sel q] aroundD(1) [OF a] by simp
qed

text \<open>
  C17. Fulfilling an order. A fulfilled order is answered as it is. A confirmed order is fulfilled exactly
  when finance has or can raise its invoice and every line's quantity is still reserved in the tenant's
  first warehouse; then it has its invoice, both sums of every line's cell fell by the quantity, and the
  order's facts are as before. When its goods cost something the accounts \<open>5000\<close> and \<open>1300\<close> exist
  and the journal has the cost entry. Otherwise the request raises: before the stock moved, and then
  nothing changed, or in the booking of a positive cost, and then the order stays fulfilled.
\<close>

theorem fulfil_order_outcome:
  assumes "stock_wf (durable s)" "orders_wf (durable s)" "select_one (order_key t i) (orders (durable s)) = Some r"
    and "\<exists>c \<in> set (customers (durable s)). c_tenant c = t \<and> c_id c = o_customer r"
  shows "let d = durable s; ready = fulfillable d t r \<and> invoice_accepted dc r (begin_state s);
      done = (\<lambda>u. orders_wf (durable u) \<and> order_view (durable u) = (order_view d)((t, i) \<mapsto> (ORDER_FULFILLED, order_facts d r)) \<and>
        (\<exists>w. first_warehouse d t = Some w \<and> shipped t r w d (durable u))) in
    outcome (run_request (fulfil_order dc i t) s)
    (\<lambda>q u. o_status r = ORDER_FULFILLED \<and> q = r \<and> durable u = d \<or>
       ready \<and> q = fulfilled_order r \<and> done u \<and>
       (order_cost d t r \<le> 0 \<or> cogs_accounts t d \<and> cogs_recorded t (uuid_text i) (durable u)))
    (\<lambda>e u. o_status r \<noteq> ORDER_FULFILLED \<and>
       (\<not> ready \<and> durable u = d \<or> ready \<and> 0 < order_cost d t r \<and> done u \<and> entries (durable u) = entries d))"
  unfolding Let_def
proof (rule outcomeI, rule wp_fulfil_order [where dc = dc])
  note facts = shipped_orders [OF assms(2,3)]
  let ?d = "durable s" and ?s = "begin_state s"
  show "o_status r = ORDER_FULFILLED \<and> fulfilled_order r = r \<and> durable (commit_state v) = ?d \<or>
       (fulfillable ?d t r \<and> invoice_accepted dc r ?s) \<and> fulfilled_order r = fulfilled_order r \<and>
       (orders_wf (durable (commit_state v)) \<and>
        order_view (durable (commit_state v)) = (order_view ?d)((t, i) \<mapsto> (ORDER_FULFILLED, order_facts ?d r)) \<and>
        (\<exists>w. first_warehouse ?d t = Some w \<and> shipped t r w ?d (durable (commit_state v)))) \<and>
       (order_cost ?d t r \<le> 0 \<or> cogs_accounts t ?d \<and> cogs_recorded t (uuid_text i) (durable (commit_state v)))"
    if "fulfillable (work ?s) t r" "invoice_accepted dc r ?s" "first_warehouse (work ?s) t = Some w"
      "shipped t r w (work ?s) (work v)"
      "order_cost (work ?s) t r \<le> 0 \<or> cogs_accounts t (work ?s) \<and> cogs_recorded t (uuid_text i) (work v)" for w and v :: sess
    using that facts [of w "work v"] by (auto simp: fulfillable_def)
  show "o_status r \<noteq> ORDER_FULFILLED \<and>
       (\<not> (fulfillable ?d t r \<and> invoice_accepted dc r ?s) \<and> durable (rollback_state v) = ?d \<or>
        (fulfillable ?d t r \<and> invoice_accepted dc r ?s) \<and> 0 < order_cost ?d t r \<and>
        (orders_wf (durable (rollback_state v)) \<and>
         order_view (durable (rollback_state v)) = (order_view ?d)((t, i) \<mapsto> (ORDER_FULFILLED, order_facts ?d r)) \<and>
         (\<exists>w. first_warehouse ?d t = Some w \<and> shipped t r w ?d (durable (rollback_state v)))) \<and>
        entries (durable (rollback_state v)) = entries ?d)"
    if "fulfillable (work ?s) t r" "invoice_accepted dc r ?s" "first_warehouse (work ?s) t = Some w"
      "shipped t r w (work ?s) (durable v)" "entries (durable v) = entries (work ?s)" "0 < order_cost (work ?s) t r" for w and v :: sess
    using that facts [of w "durable v"] by (auto simp: fulfillable_def)
qed (use assms in auto)

text \<open>A depot for the witnesses: the shop's order confirmed and invoiced, in a tenant without accounts.\<close>

definition depot_db :: db where
  "depot_db = shop_db\<lparr>orders := [confirmed_at 0 shop_order], invoices := [\<lparr>i_id = 90, i_tenant = 7, i_number = ''INV-1'',
     i_customer = 70, i_date = 0, i_due = 30, i_status = INVOICE_ISSUED, i_total = 12, i_currency = ''USD'', i_rate = 1,
     i_source = ''sales_order'', i_ref = Some (uuid_text 50), i_issued_at = Some 0, i_approved_at = None, i_voided_at = None\<rparr>]\<rparr>"

definition depot :: sess where
  "depot = demo\<lparr>work := depot_db, durable := depot_db\<rparr>"

lemma depot_stock: "same_stock demo_db depot_db"
  by (simp add: same_stock_def depot_db_def shop_db_def)

lemmas depot_sums = same_stock_sums [OF depot_stock] same_stock_refusals [OF depot_stock] order_shippable_stock [OF depot_stock]

lemma depot_simps [simp]:
  "durable depot = depot_db" "select_one (order_key 7 50) (orders depot_db) = Some (confirmed_at 0 shop_order)"
  "o_id (confirmed_at 0 shop_order) = 50" "o_customer (confirmed_at 0 shop_order) = 70" "lines_of_order 7 50 depot_db = [demo_line 4]"
  "first_warehouse depot_db 7 = Some 20" "\<exists>c \<in> set (customers depot_db). c_tenant c = 7 \<and> c_id c = 70"
  "entries depot_db = []"
  by (simp_all add: depot_def depot_db_def confirmed_at_def shop_order_def order_key_def shop_db_def lines_of_order_def
      order_line_of_def demo_line_def first_warehouse_def demo_db_def empty_db_def page_def)

lemma depot_wf [simp]: "stock_wf depot_db" "orders_wf depot_db"
proof -
  show "stock_wf depot_db" by (simp add: depot_sums)
  show "orders_wf depot_db"
    by (simp add: orders_wf_def order_sound_def, simp add: depot_db_def confirmed_at_def shop_order_def shop_db_def order_checked_def
        adds_up_def order_key_def order_id_def demo_line_def SUPPORTED_CURRENCIES_def Let_def lines_of_order_def order_line_of_def)
qed

lemma depot_ready [simp]:
  "fulfillable depot_db 7 (confirmed_at 0 shop_order)" "invoice_accepted dc (confirmed_at 0 shop_order) (begin_state depot)"
  "order_cost depot_db 7 (confirmed_at 0 shop_order) = 8" "\<not> cogs_accounts 7 depot_db"
proof -
  show "fulfillable depot_db 7 (confirmed_at 0 shop_order)"
    by (simp add: fulfillable_def depot_sums order_shippable_def all_accepted_def fulfil_refusal_def step_ref_def uuid_text_50)
  have "wp (create_from_order dc (order_for_invoicing (clk (begin_state depot)) (confirmed_at 0 shop_order) ls)) (\<lambda>_ _. True) (\<lambda>_ _. False) (begin_state depot)" for ls
    by (simp add: create_from_order_def get_invoice_by_source_ref_def wp_simps order_for_invoicing_def confirmed_at_def shop_order_def,
        simp add: depot_def depot_db_def invoice_by_source_def invoice_source_def wp_return)
  from wp_returns [OF this] show "invoice_accepted dc (confirmed_at 0 shop_order) (begin_state depot)"
    unfolding invoice_accepted_def by (metis fst_conv sum.case(2))
  show "\<not> cogs_accounts 7 depot_db"
    by (simp add: cogs_accounts_def account_by_code_def depot_db_def shop_db_def demo_db_def empty_db_def)
  have "product_in depot_db 10 7 = Some demo_product"
    using demo_parents(1) depot_stock by (simp add: product_in_def same_stock_def)
  moreover have "quantize 4 8 = 8" using at_scale_iff [of 4 8] by (auto simp: at_scale_def intro: exI [of _ 80000])
  ultimately show "order_cost depot_db 7 (confirmed_at 0 shop_order) = 8"
    by (simp add: order_cost_def order_costs_def demo_product_def cogs_total_def)
qed

lemma fulfil_order_outcome_witness:
  "outcome (run_request (fulfil_order ''USD'' 50 7) depot)
     (\<lambda>_ _. False) (\<lambda>_ u. reserved_in (durable u) (7, 10, 20) = 2 \<and> order_invoiced 7 50 (durable u))"
  by (rule outcome_mono [OF fulfil_order_outcome [of depot 7 50 "confirmed_at 0 shop_order" "''USD''", unfolded Let_def]])
    (auto simp: shipped_def depot_sums)

text \<open>
  C18. The cost of goods sold is booked after the stock is committed. In a tenant without the accounts
  \<open>5000\<close> and \<open>1300\<close>, fulfilling an order whose goods cost something raises, but the order is fulfilled
  and its stock gone for good, without a cost entry; and a retry answers with success and books
  nothing either.
\<close>

theorem fulfilled_without_cogs:
  assumes "stock_wf (durable s)" "orders_wf (durable s)" "select_one (order_key t i) (orders (durable s)) = Some r"
    and "\<exists>c \<in> set (customers (durable s)). c_tenant c = t \<and> c_id c = o_customer r"
    and "fulfillable (durable s) t r" "invoice_accepted dc r (begin_state s)"
    and "0 < order_cost (durable s) t r" "\<not> cogs_accounts t (durable s)"
  shows "\<exists>e u. run_request (fulfil_order dc i t) s = (Inl e, u) \<and>
    order_view (durable u) = (order_view (durable s))((t, i) \<mapsto> (ORDER_FULFILLED, order_facts (durable s) r)) \<and>
    (\<exists>w. first_warehouse (durable s) t = Some w \<and> shipped t r w (durable s) (durable u)) \<and>
    entries (durable u) = entries (durable s) \<and>
    (\<forall>now who. outcome (run_request (fulfil_order dc i t) (u\<lparr>clk := now, ctx_user := who\<rparr>))
      (\<lambda>q v. q = fulfilled_order r \<and> durable v = durable u) (\<lambda>_ _. False))"
proof -
  have "outcome (run_request (fulfil_order dc i t) s) (\<lambda>_ _. False)
    (\<lambda>_ u. (\<exists>w. first_warehouse (durable s) t = Some w \<and> shipped t r w (durable s) (durable u)) \<and>
      entries (durable u) = entries (durable s))"
    by (rule outcomeI, rule wp_fulfil_order [where dc = dc]) (use assms in \<open>auto simp: fulfillable_def\<close>)
  then obtain e u w where u: "run_request (fulfil_order dc i t) s = (Inl e, u)"
      "first_warehouse (durable s) t = Some w" "shipped t r w (durable s) (durable u)" "entries (durable u) = entries (durable s)"
    by (auto simp: outcome_def split: prod.splits sum.splits)
  have conf: "o_status r = ORDER_CONFIRMED" using assms(5) by (simp add: fulfillable_def)
  note after = shipped_orders [OF assms(2,3) conf u(3)]
  have "outcome (run_request (fulfil_order dc i t) (u\<lparr>clk := now, ctx_user := who\<rparr>))
      (\<lambda>q v. q = fulfilled_order r \<and> durable v = durable u) (\<lambda>_ _. False)" for now who
    by (rule outcomeI) (simp add: fulfil_order_def wp_sales after(3))
  with u after(2) show ?thesis by blast
qed

lemma fulfilled_without_cogs_witness:
  "\<exists>e u. run_request (fulfil_order ''USD'' 50 7) depot = (Inl e, u) \<and> entries (durable u) = [] \<and>
     reserved_in (durable u) (7, 10, 20) = 2"
  using fulfilled_without_cogs [of depot 7 50 "confirmed_at 0 shop_order" "''USD''"]
  by (auto simp: shipped_def depot_sums)

end
