(* ===== verification/Approval_Repository.thy ===== *)
theory Approval_Repository
  imports Db_Session
begin

text \<open>
  The data access of the approval engine, \<open>features/approval_workflow/definition_repository.py\<close>,
  \<open>instance_repository.py\<close>, \<open>delegation_repository.py\<close>, \<open>inbox_repository.py\<close> and
  \<open>tenant_flags.py\<close>: versioned workflow definitions, the instances with their steps and audit
  transitions, delegations, and the users behind a step's assignee. Rows of one order key come in
  insertion order.
\<close>

section \<open>Text\<close>

text \<open>\<open>str.split\<close> on one character, \<open>str.join\<close>, \<open>str.replace\<close> by nothing.\<close>

fun split_on :: "char \<Rightarrow> string \<Rightarrow> string list" where
  "split_on c [] = [[]]"
| "split_on c (x # xs) = (if x = c then [] # split_on c xs
     else case split_on c xs of [] \<Rightarrow> [[x]] | y # ys \<Rightarrow> (x # y) # ys)"

fun join_with :: "string \<Rightarrow> string list \<Rightarrow> string" where
  "join_with sep [] = []"
| "join_with sep [x] = x"
| "join_with sep (x # y # xs) = x @ sep @ join_with sep (y # xs)"

fun remove_all :: "string \<Rightarrow> string \<Rightarrow> string" where
  "remove_all pat [] = []"
| "remove_all pat (c # cs) =
     (if take (length pat) (c # cs) = pat \<and> pat \<noteq> [] then remove_all pat (drop (length pat - 1) cs)
      else c # remove_all pat cs)"

text \<open>
  \<open>uuid.UUID(text)\<close>: the prefixes, braces and dashes are dropped and 32 hexadecimal digits must be
  left. (The spaces, signs and underscores \<open>int\<close> also reads are not digits here.)
\<close>

definition hex_value :: "char \<Rightarrow> nat option" where
  "hex_value c = (let n = of_char (lower_char c) :: nat in
     if 48 \<le> n \<and> n \<le> 57 then Some (n - 48) else if 97 \<le> n \<and> n \<le> 102 then Some (n - 87) else None)"

definition read_hex :: "string \<Rightarrow> nat option" where
  "read_hex h = fold (\<lambda>c acc. case (acc, hex_value c) of (Some n, Some d) \<Rightarrow> Some (n * 16 + d) | _ \<Rightarrow> None) h (Some 0)"

definition brace :: "char \<Rightarrow> bool" where
  "brace c \<longleftrightarrow> c = CHR ''{'' \<or> c = CHR ''}''"

definition read_uuid :: "string \<Rightarrow> error + uuid" where
  "read_uuid txt =
     (let bare = remove_all ''uuid:'' (remove_all ''urn:'' txt);
          inner = rev (dropWhile brace (rev (dropWhile brace bare)));
          h = remove_all ''-'' inner in
      if length h \<noteq> 32 then Inl ValueError
      else case read_hex h of None \<Rightarrow> Inl ValueError | Some n \<Rightarrow> Inr n)"

fun map_result :: "('a \<Rightarrow> error + 'b) \<Rightarrow> 'a list \<Rightarrow> error + 'b list" where
  "map_result f [] = Inr []"
| "map_result f (x # xs) = (case f x of Inl e \<Rightarrow> Inl e | Inr y \<Rightarrow>
     (case map_result f xs of Inl e \<Rightarrow> Inl e | Inr ys \<Rightarrow> Inr (y # ys)))"

section \<open>Access to the approval tables\<close>

definition read_approvals :: "(approval_tables \<Rightarrow> 'a) \<Rightarrow> 'a service" where
  "read_approvals f = readM (\<lambda>d. f (approvals d))"

definition write_approvals :: "(approval_tables \<Rightarrow> approval_tables) \<Rightarrow> unit service" where
  "write_approvals f = writeM (\<lambda>d. d\<lparr>approvals := f (approvals d)\<rparr>)"

text \<open>A \<open>String(n)\<close> column.\<close>

definition fits_column :: "nat \<Rightarrow> string \<Rightarrow> unit service" where
  "fits_column n s = requireM (length s \<le> n) DataError"

definition check_approvals :: "string \<Rightarrow> (approval_tables \<Rightarrow> bool) \<Rightarrow> unit service" where
  "check_approvals name ok = check_constraint name (\<lambda>d. ok (approvals d))"

lemma wp_read_approvals [wp_simps]: "wp (read_approvals f) Q E s = Q (f (approvals (work s))) s"
  by (simp add: read_approvals_def wp_simps)

lemma wp_write_approvals [wp_simps]:
  "wp (write_approvals f) Q E s = Q () (s\<lparr>work := (work s)\<lparr>approvals := f (approvals (work s))\<rparr>\<rparr>)"
  by (simp add: write_approvals_def wp_simps)

lemma wp_fits_column [wp_simps]: "wp (fits_column n x) Q E s = (if length x \<le> n then Q () s else E DataError s)"
  by (simp add: fits_column_def wp_simps)

lemma wp_check_approvals [wp_simps]:
  "wp (check_approvals c ok) Q E s = (if ok (approvals (work s)) then Q () s else E (IntegrityError c) s)"
  by (simp add: check_approvals_def wp_simps)

section \<open>Flags\<close>

definition setting_of :: "uuid \<Rightarrow> string \<Rightarrow> tenant_setting \<Rightarrow> bool" where
  "setting_of t k x \<longleftrightarrow> ts_tenant x = t \<and> ts_key x = k"

definition get_tenant_flag :: "uuid \<Rightarrow> string \<Rightarrow> bool service" where
  "get_tenant_flag t k = read_approvals (\<lambda>a. case select_one (setting_of t k) (tenant_settings a) of
     None \<Rightarrow> False | Some x \<Rightarrow> lower (strip (ts_value x)) \<in> set [''true'', ''1'', ''yes'', ''on''])"

definition approval_engine_enabled :: "uuid \<Rightarrow> bool service" where
  "approval_engine_enabled t = get_tenant_flag t ''approval_engine_enabled''"

definition je_approval_engine_enabled :: "uuid \<Rightarrow> bool service" where
  "je_approval_engine_enabled t = bindM (approval_engine_enabled t) (\<lambda>on.
     if \<not> on then returnM False else get_tenant_flag t ''je_approval_engine'')"

definition payroll_approval_engine_enabled :: "uuid \<Rightarrow> bool service" where
  "payroll_approval_engine_enabled t = bindM (approval_engine_enabled t) (\<lambda>on.
     if \<not> on then returnM False else get_tenant_flag t ''payroll_approval_engine'')"

section \<open>Definitions\<close>

definition definition_key :: "uuid \<Rightarrow> uuid \<Rightarrow> definition_row \<Rightarrow> bool" where
  "definition_key t i r \<longleftrightarrow> df_tenant r = t \<and> df_id r = i"

definition definition_family :: "uuid \<Rightarrow> string \<Rightarrow> definition_row \<Rightarrow> bool" where
  "definition_family t rt r \<longleftrightarrow> df_tenant r = t \<and> df_resource_type r = rt"

definition next_version :: "uuid \<Rightarrow> string \<Rightarrow> nat service" where
  "next_version t rt = read_approvals (\<lambda>a.
     fold max (map df_version (filter (definition_family t rt) (wf_definitions a))) 0 + 1)"

definition create_draft :: "uuid \<Rightarrow> string \<Rightarrow> string \<Rightarrow> workflow_definition \<Rightarrow> definition_row service" where
  "create_draft t name rt body =
     bindM (next_version t rt) (\<lambda>v.
     bindM fresh_id (\<lambda>i.
     let row = \<lparr>df_id = i, df_tenant = t, df_name = name, df_resource_type = rt, df_version = v, df_body = body,
       df_status = DEF_DRAFT\<rparr> in
     thenM (fits_column 255 name)
     (thenM (fits_column 64 rt)
     (thenM (check_approvals ''erp_approval_workflow_definitions_pkey''
         (\<lambda>a. \<forall>r \<in> set (wf_definitions a). \<not> definition_key t i r))
     (thenM (check_approvals ''uq_erp_approval_workflow_definitions_tenant_resource_version''
         (\<lambda>a. \<forall>r \<in> set (wf_definitions a). \<not> (definition_family t rt r \<and> df_version r = v)))
     (thenM (write_approvals (\<lambda>a. a\<lparr>wf_definitions := wf_definitions a @ [row]\<rparr>))
     (returnM row)))))))"

definition get_definition :: "uuid \<Rightarrow> uuid \<Rightarrow> definition_row option service" where
  "get_definition t i = read_approvals (\<lambda>a. select_one (definition_key t i) (wf_definitions a))"

definition get_version :: "uuid \<Rightarrow> string \<Rightarrow> nat \<Rightarrow> definition_row option service" where
  "get_version t rt v = read_approvals (\<lambda>a.
     select_one (\<lambda>r. definition_family t rt r \<and> df_version r = v) (wf_definitions a))"

definition get_latest :: "uuid \<Rightarrow> string \<Rightarrow> definition_row option service" where
  "get_latest t rt = read_approvals (\<lambda>a.
     case sort_key (\<lambda>r. - int (df_version r)) (filter (definition_family t rt) (wf_definitions a)) of
       [] \<Rightarrow> None | r # _ \<Rightarrow> Some r)"

definition active_definition :: "uuid \<Rightarrow> string \<Rightarrow> definition_row \<Rightarrow> bool" where
  "active_definition t rt r \<longleftrightarrow> definition_family t rt r \<and> df_status r = DEF_ACTIVE"

definition get_active :: "uuid \<Rightarrow> string \<Rightarrow> definition_row option service" where
  "get_active t rt = read_approvals (\<lambda>a. select_one (active_definition t rt) (wf_definitions a))"

definition list_definitions :: "uuid \<Rightarrow> string option \<Rightarrow> nat \<Rightarrow> nat \<Rightarrow> definition_row list service" where
  "list_definitions t rt limit offset = readM (\<lambda>d. page offset limit
     (sort_key (\<lambda>r. collation d (df_resource_type r)) (sort_key (\<lambda>r. - int (df_version r))
       (filter (\<lambda>r. df_tenant r = t \<and> (case rt of None \<Rightarrow> True | Some x \<Rightarrow> x = [] \<or> df_resource_type r = x))
         (wf_definitions (approvals d))))))"

definition with_status :: "definition_status \<Rightarrow> definition_row \<Rightarrow> definition_row" where
  "with_status st r = r\<lparr>df_status := st\<rparr>"

definition activate :: "uuid \<Rightarrow> uuid \<Rightarrow> definition_row option service" where
  "activate t i = bindM (get_definition t i) (\<lambda>found. case found of
     None \<Rightarrow> returnM None
   | Some r \<Rightarrow> if df_status r \<noteq> DEF_DRAFT then returnM None else
       thenM (write_approvals (\<lambda>a. a\<lparr>wf_definitions := update_where (definition_key t i) (with_status DEF_ACTIVE)
         (update_where (active_definition t (df_resource_type r)) (with_status DEF_RETIRED) (wf_definitions a))\<rparr>))
       (returnM (Some (with_status DEF_ACTIVE r))))"

definition retire :: "uuid \<Rightarrow> uuid \<Rightarrow> definition_row option service" where
  "retire t i = bindM (get_definition t i) (\<lambda>found. case found of
     None \<Rightarrow> returnM None
   | Some r \<Rightarrow> if df_status r \<noteq> DEF_ACTIVE then returnM None else
       thenM (write_approvals (\<lambda>a. a\<lparr>wf_definitions := update_where (definition_key t i) (with_status DEF_RETIRED)
         (wf_definitions a)\<rparr>))
       (returnM (Some (with_status DEF_RETIRED r))))"

section \<open>Instances and steps\<close>

definition instance_key :: "uuid \<Rightarrow> uuid \<Rightarrow> instance_row \<Rightarrow> bool" where
  "instance_key t i r \<longleftrightarrow> wi_tenant r = t \<and> wi_id r = i"

definition step_key :: "uuid \<Rightarrow> uuid \<Rightarrow> step_row \<Rightarrow> bool" where
  "step_key t i r \<longleftrightarrow> st_tenant r = t \<and> st_id r = i"

definition step_of :: "uuid \<Rightarrow> uuid \<Rightarrow> step_row \<Rightarrow> bool" where
  "step_of t i r \<longleftrightarrow> st_tenant r = t \<and> st_instance r = i"

definition undecided :: "step_row \<Rightarrow> bool" where
  "undecided r \<longleftrightarrow> st_status r \<in> {STEP_PENDING, STEP_ESCALATED}"

text \<open>The specification of a step as \<open>submit\<close> hands it over: key, assignee kind and value, due time.\<close>

type_synonym step_spec = "string \<times> assignee_kind \<times> string \<times> int option"

definition new_step :: "uuid \<Rightarrow> uuid \<Rightarrow> nat \<Rightarrow> uuid \<Rightarrow> step_spec \<Rightarrow> step_row" where
  "new_step t i n k x = (case x of (key, kind, val, due) \<Rightarrow>
     \<lparr>st_id = k, st_tenant = t, st_instance = i, st_index = n, st_key = key, st_kind = kind, st_value = val,
      st_status = STEP_PENDING, st_assigned_to = None, st_delegated_from = None, st_sla_due = due,
      st_decided_at = None, st_decided_by = None\<rparr>)"

definition step_checks :: "step_row \<Rightarrow> unit service" where
  "step_checks r =
     thenM (fits_column 100 (st_key r))
     (thenM (fits_column 255 (st_value r))
     (thenM (check_approvals ''erp_approval_workflow_steps_pkey''
         (\<lambda>a. \<forall>q \<in> set (wf_steps a). \<not> step_key (st_tenant r) (st_id r) q))
       (check_approvals ''uq_erp_approval_workflow_steps_instance_index''
         (\<lambda>a. \<forall>q \<in> set (wf_steps a). \<not> (st_instance q = st_instance r \<and> st_index q = st_index r)))))"

definition insert_steps :: "uuid \<Rightarrow> uuid \<Rightarrow> step_spec list \<Rightarrow> unit service" where
  "insert_steps t i specs =
     bindM (mapM (\<lambda>(n, x). bindM fresh_id (\<lambda>k. returnM (new_step t i n k x))) (enumerate 0 specs)) (\<lambda>rows.
     thenM (forM step_checks rows)
       (write_approvals (\<lambda>a. a\<lparr>wf_steps := wf_steps a @ rows\<rparr>)))"

definition new_instance :: "uuid \<Rightarrow> uuid \<Rightarrow> uuid \<Rightarrow> int \<Rightarrow> string \<Rightarrow> uuid \<Rightarrow> uuid \<Rightarrow> int \<Rightarrow> instance_row" where
  "new_instance t i def ver rt res who now =
     \<lparr>wi_id = i, wi_tenant = t, wi_definition = def, wi_version = ver, wi_resource_type = rt, wi_resource = res,
      wi_status = INSTANCE_PENDING, wi_current = 0, wi_submitted_by = who, wi_submitted_at = now, wi_sla_due = None,
      wi_completed_at = None, wi_updated_by = who\<rparr>"

definition create_instance ::
  "uuid \<Rightarrow> uuid \<Rightarrow> int \<Rightarrow> string \<Rightarrow> uuid \<Rightarrow> uuid \<Rightarrow> int \<Rightarrow> step_spec list \<Rightarrow> instance_row service" where
  "create_instance t def ver rt res who now specs =
     bindM fresh_id (\<lambda>i.
     let row = new_instance t i def ver rt res who now in
     thenM (fits_column 64 rt)
     (thenM (check_approvals ''erp_approval_workflow_instances_pkey''
         (\<lambda>a. \<forall>r \<in> set (wf_instances a). \<not> instance_key t i r))
     (thenM (write_approvals (\<lambda>a. a\<lparr>wf_instances := wf_instances a @ [row]\<rparr>))
     (thenM (insert_steps t i specs)
     (returnM row)))))"

definition get_instance :: "uuid \<Rightarrow> uuid \<Rightarrow> instance_row option service" where
  "get_instance t i = read_approvals (\<lambda>a. select_one (instance_key t i) (wf_instances a))"

definition steps_in :: "uuid \<Rightarrow> uuid \<Rightarrow> approval_tables \<Rightarrow> step_row list" where
  "steps_in t i a = sort_key st_index (filter (step_of t i) (wf_steps a))"

definition list_steps :: "uuid \<Rightarrow> uuid \<Rightarrow> step_row list service" where
  "list_steps t i = read_approvals (steps_in t i)"

text \<open>The overdue current steps, through the join with their instances.\<close>

definition overdue :: "uuid \<Rightarrow> int \<Rightarrow> step_row \<Rightarrow> instance_row \<Rightarrow> bool" where
  "overdue t now r w \<longleftrightarrow> wi_tenant w = st_tenant r \<and> wi_id w = st_instance r \<and> st_tenant r = t \<and>
     wi_status w = INSTANCE_PENDING \<and> st_status r = STEP_PENDING \<and> st_index r = wi_current w \<and>
     (case st_sla_due r of None \<Rightarrow> False | Some due \<Rightarrow> due \<le> now)"

definition list_overdue_steps :: "uuid \<Rightarrow> int \<Rightarrow> nat \<Rightarrow> step_row list service" where
  "list_overdue_steps t now limit = read_approvals (\<lambda>a. take limit
     (sort_key (\<lambda>r. case st_sla_due r of None \<Rightarrow> 0 | Some due \<Rightarrow> due)
       (concat (map (\<lambda>r. map (\<lambda>_. r) (filter (overdue t now r) (wf_instances a))) (wf_steps a)))))"

text \<open>The two guarded updates of a step; the loser of a race gets nothing.\<close>

definition guarded_step_update ::
  "(step_row \<Rightarrow> bool) \<Rightarrow> (step_row \<Rightarrow> step_row) \<Rightarrow> step_row option service" where
  "guarded_step_update guard f =
     bindM (read_approvals (\<lambda>a. select_one guard (wf_steps a))) (\<lambda>found.
     thenM (write_approvals (\<lambda>a. a\<lparr>wf_steps := update_where guard f (wf_steps a)\<rparr>))
     (returnM (map_option f found)))"

definition mark_step_escalated :: "uuid \<Rightarrow> uuid \<Rightarrow> step_row option service" where
  "mark_step_escalated t i = guarded_step_update (\<lambda>r. step_key t i r \<and> st_status r = STEP_PENDING)
     (\<lambda>r. r\<lparr>st_status := STEP_ESCALATED\<rparr>)"

definition decided_step :: "step_status \<Rightarrow> uuid option \<Rightarrow> int \<Rightarrow> uuid option \<Rightarrow> step_row \<Rightarrow> step_row" where
  "decided_step st who at_time deleg r =
     (let q = r\<lparr>st_status := st, st_decided_by := who, st_decided_at := Some at_time\<rparr> in
      if deleg = None then q else q\<lparr>st_assigned_to := who, st_delegated_from := deleg\<rparr>)"

definition update_step_decision ::
  "uuid \<Rightarrow> uuid \<Rightarrow> step_status \<Rightarrow> uuid option \<Rightarrow> int \<Rightarrow> uuid option \<Rightarrow> step_row option service" where
  "update_step_decision t i st who at_time deleg =
     guarded_step_update (\<lambda>r. step_key t i r \<and> undecided r) (decided_step st who at_time deleg)"

definition list_pending_tenant_ids :: "uuid list service" where
  "list_pending_tenant_ids = read_approvals (\<lambda>a.
     remdups (map wi_tenant (filter (\<lambda>w. wi_status w = INSTANCE_PENDING) (wf_instances a))))"

definition moved_instance :: "instance_status \<Rightarrow> nat \<Rightarrow> uuid \<Rightarrow> int \<Rightarrow> instance_row \<Rightarrow> instance_row" where
  "moved_instance st n who now r =
     (let q = r\<lparr>wi_status := st, wi_current := n, wi_updated_by := who\<rparr> in
      if st = INSTANCE_PENDING then q else q\<lparr>wi_completed_at := Some now\<rparr>)"

definition update_instance_status ::
  "uuid \<Rightarrow> uuid \<Rightarrow> instance_status \<Rightarrow> nat \<Rightarrow> uuid \<Rightarrow> int \<Rightarrow> instance_row option service" where
  "update_instance_status t i st n who now =
     bindM (get_instance t i) (\<lambda>found. case found of
       None \<Rightarrow> returnM None
     | Some r \<Rightarrow>
         thenM (write_approvals (\<lambda>a. a\<lparr>wf_instances := update_where (instance_key t i) (moved_instance st n who now) (wf_instances a)\<rparr>))
         (returnM (Some (moved_instance st n who now r))))"

section \<open>Transitions\<close>

definition record_transition :: "transition_row \<Rightarrow> transition_row service" where
  "record_transition x = bindM fresh_id (\<lambda>i.
     let row = x\<lparr>tr_id := i\<rparr> in
     thenM (fits_column 500 (case tr_reason x of None \<Rightarrow> [] | Some r \<Rightarrow> r))
     (thenM (check_approvals ''erp_approval_transitions_pkey''
         (\<lambda>a. \<forall>r \<in> set (wf_transitions a). \<not> (tr_tenant r = tr_tenant x \<and> tr_id r = i)))
     (thenM (write_approvals (\<lambda>a. a\<lparr>wf_transitions := wf_transitions a @ [row]\<rparr>))
     (returnM row))))"

definition transitions_in :: "uuid \<Rightarrow> uuid \<Rightarrow> approval_tables \<Rightarrow> transition_row list" where
  "transitions_in t i a = sort_key tr_at (filter (\<lambda>r. tr_tenant r = t \<and> tr_instance r = i) (wf_transitions a))"

definition list_transitions :: "uuid \<Rightarrow> uuid \<Rightarrow> transition_row list service" where
  "list_transitions t i = read_approvals (transitions_in t i)"

section \<open>Roles and permissions\<close>

definition WILDCARD :: string where
  "WILDCARD = ''*''"

definition grants_permission :: "string list \<Rightarrow> string \<Rightarrow> bool" where
  "grants_permission granted required \<longleftrightarrow> WILDCARD \<in> set granted \<or> required \<in> set granted"

text \<open>The join of the grants with the roles of the tenant.\<close>

definition granted_roles :: "uuid \<Rightarrow> approval_tables \<Rightarrow> (user_role_row \<times> role_row) list" where
  "granted_roles t a = concat (map (\<lambda>u. map (Pair u) (filter (\<lambda>r. cr_tenant r = ur_tenant u \<and> cr_id r = ur_role u) (core_roles a)))
     (filter (\<lambda>u. ur_tenant u = t) (core_user_roles a)))"

definition role_members :: "uuid \<Rightarrow> string \<Rightarrow> approval_tables \<Rightarrow> uuid list" where
  "role_members t name a = remdups (map (\<lambda>(u, r). ur_user u) (filter (\<lambda>(u, r). cr_name r = name) (granted_roles t a)))"

definition permission_members :: "uuid \<Rightarrow> string \<Rightarrow> approval_tables \<Rightarrow> uuid list" where
  "permission_members t perm a = remdups (map (\<lambda>(u, r). ur_user u)
     (filter (\<lambda>(u, r). perm \<in> set (cr_permissions r) \<or> WILDCARD \<in> set (cr_permissions r)) (granted_roles t a)))"

definition resolve_role_members :: "uuid \<Rightarrow> string \<Rightarrow> uuid list service" where
  "resolve_role_members t name = read_approvals (role_members t name)"

definition resolve_permission_members :: "uuid \<Rightarrow> string \<Rightarrow> uuid list service" where
  "resolve_permission_members t perm = read_approvals (permission_members t perm)"

definition user_roles :: "uuid \<Rightarrow> uuid \<Rightarrow> approval_tables \<Rightarrow> string list" where
  "user_roles t who a = map (\<lambda>(u, r). cr_name r) (filter (\<lambda>(u, r). ur_user u = who) (granted_roles t a))"

definition user_permissions :: "uuid \<Rightarrow> uuid \<Rightarrow> approval_tables \<Rightarrow> string list" where
  "user_permissions t who a = concat (map (\<lambda>(u, r). cr_permissions r) (filter (\<lambda>(u, r). ur_user u = who) (granted_roles t a)))"

section \<open>Delegations\<close>

definition create_delegation ::
  "uuid \<Rightarrow> uuid \<Rightarrow> uuid \<Rightarrow> uuid \<Rightarrow> int \<Rightarrow> string option \<Rightarrow> string option \<Rightarrow> int option \<Rightarrow> int option \<Rightarrow> delegation_row service" where
  "create_delegation t delegator delegate who now perm rt from_time to_time = bindM fresh_id (\<lambda>i.
     let row = \<lparr>dg_id = i, dg_tenant = t, dg_delegator = delegator, dg_delegate = delegate, dg_permission = perm,
       dg_resource_type = rt, dg_from = (case from_time of None \<Rightarrow> now | Some x \<Rightarrow> x), dg_to = to_time, dg_revoked = None,
       dg_created_by = who\<rparr> in
     thenM (fits_column 100 (case perm of None \<Rightarrow> [] | Some x \<Rightarrow> x))
     (thenM (fits_column 64 (case rt of None \<Rightarrow> [] | Some x \<Rightarrow> x))
     (thenM (check_approvals ''erp_approval_delegations_pkey''
         (\<lambda>a. \<forall>r \<in> set (wf_delegations a). \<not> (dg_tenant r = t \<and> dg_id r = i)))
     (thenM (write_approvals (\<lambda>a. a\<lparr>wf_delegations := wf_delegations a @ [row]\<rparr>))
     (returnM row)))))"

definition revoke_delegation :: "uuid \<Rightarrow> uuid \<Rightarrow> int \<Rightarrow> delegation_row option service" where
  "revoke_delegation t i at_time =
     (let open_grant = (\<lambda>r. dg_tenant r = t \<and> dg_id r = i \<and> dg_revoked r = None) in
      bindM (read_approvals (\<lambda>a. select_one open_grant (wf_delegations a))) (\<lambda>found. case found of
        None \<Rightarrow> returnM None
      | Some r \<Rightarrow>
          thenM (write_approvals (\<lambda>a. a\<lparr>wf_delegations := update_where open_grant (\<lambda>r. r\<lparr>dg_revoked := Some at_time\<rparr>) (wf_delegations a)\<rparr>))
          (returnM (Some (r\<lparr>dg_revoked := Some at_time\<rparr>)))))"

definition grant_active :: "uuid \<Rightarrow> int \<Rightarrow> delegation_row \<Rightarrow> bool" where
  "grant_active t now r \<longleftrightarrow> dg_tenant r = t \<and> dg_revoked r = None \<and> dg_from r \<le> now \<and>
     (case dg_to r of None \<Rightarrow> True | Some x \<Rightarrow> now \<le> x)"

definition list_active_for_delegate :: "uuid \<Rightarrow> uuid \<Rightarrow> int \<Rightarrow> delegation_row list service" where
  "list_active_for_delegate t who now = read_approvals (\<lambda>a.
     filter (\<lambda>r. grant_active t now r \<and> dg_delegate r = who) (wf_delegations a))"

definition resolve_active_delegators :: "uuid \<Rightarrow> uuid \<Rightarrow> int \<Rightarrow> uuid list service" where
  "resolve_active_delegators t who now =
     bindM (list_active_for_delegate t who now) (\<lambda>grants. returnM (remdups (map dg_delegator grants)))"

definition list_grants_from_delegators :: "uuid \<Rightarrow> uuid list \<Rightarrow> int \<Rightarrow> delegation_row list service" where
  "list_grants_from_delegators t delegators now =
     (if delegators = [] then returnM []
      else read_approvals (\<lambda>a. filter (\<lambda>r. grant_active t now r \<and> dg_delegator r \<in> set delegators) (wf_delegations a)))"

section \<open>The inbox\<close>

definition users_of_value :: "string \<Rightarrow> error + uuid list" where
  "users_of_value v = map_result read_uuid (filter (\<lambda>p. p \<noteq> []) (split_on (CHR '','') v))"

datatype eligibility = AS_ASSIGNEE | AS_DELEGATE

record inbox_item =
  ib_instance :: instance_row
  ib_step :: step_row
  ib_eligible :: eligibility
  ib_delegated_from :: "uuid option"

definition is_direct_assignee :: "uuid \<Rightarrow> uuid \<Rightarrow> approval_tables \<Rightarrow> step_row \<Rightarrow> error + bool" where
  "is_direct_assignee t who a r = (case st_kind r of
     KIND_USERS \<Rightarrow> (case users_of_value (st_value r) of Inl e \<Rightarrow> Inl e | Inr us \<Rightarrow> Inr (who \<in> set us))
   | KIND_ROLE \<Rightarrow> Inr (st_value r \<in> set (user_roles t who a))
   | KIND_PERMISSION \<Rightarrow> Inr (grants_permission (user_permissions t who a) (st_value r)))"

definition grant_in_scope :: "delegation_row \<Rightarrow> instance_row \<Rightarrow> step_row \<Rightarrow> bool" where
  "grant_in_scope g w r \<longleftrightarrow>
     (case dg_resource_type g of None \<Rightarrow> True | Some rt \<Rightarrow> rt = wi_resource_type w) \<and>
     (case dg_permission g of None \<Rightarrow> True
      | Some p \<Rightarrow> st_kind r = KIND_PERMISSION \<and> grants_permission [p] (st_value r))"

fun match_delegation ::
  "delegation_row list \<Rightarrow> uuid \<Rightarrow> approval_tables \<Rightarrow> instance_row \<Rightarrow> step_row \<Rightarrow> error + uuid option" where
  "match_delegation [] t a w r = Inr None"
| "match_delegation (g # gs) t a w r =
     (if \<not> grant_in_scope g w r then match_delegation gs t a w r
      else case is_direct_assignee t (dg_delegator g) a r of
        Inl e \<Rightarrow> Inl e
      | Inr ok \<Rightarrow> if ok then Inr (Some (dg_delegator g)) else match_delegation gs t a w r)"

definition inbox_entry ::
  "uuid \<Rightarrow> uuid \<Rightarrow> approval_tables \<Rightarrow> delegation_row list \<Rightarrow> instance_row list \<Rightarrow> step_row \<Rightarrow> error + inbox_item list" where
  "inbox_entry t who a grants ws r = (case select_one (\<lambda>w. wi_id w = st_instance r) ws of
     None \<Rightarrow> Inr []
   | Some w \<Rightarrow> (case is_direct_assignee t who a r of
       Inl e \<Rightarrow> Inl e
     | Inr ok \<Rightarrow> if ok then Inr [\<lparr>ib_instance = w, ib_step = r, ib_eligible = AS_ASSIGNEE, ib_delegated_from = None\<rparr>]
         else (case match_delegation grants t a w r of
             Inl e \<Rightarrow> Inl e
           | Inr None \<Rightarrow> Inr []
           | Inr (Some u) \<Rightarrow> Inr [\<lparr>ib_instance = w, ib_step = r, ib_eligible = AS_DELEGATE, ib_delegated_from = Some u\<rparr>])))"

text \<open>Instances that are due first, those without a due time last.\<close>

definition pending_instances :: "uuid \<Rightarrow> nat \<Rightarrow> approval_tables \<Rightarrow> instance_row list" where
  "pending_instances t limit a = take limit
     (sort_key (\<lambda>w. if wi_sla_due w = None then 1 else 0 :: nat) (sort_key (\<lambda>w. case wi_sla_due w of None \<Rightarrow> 0 | Some x \<Rightarrow> x)
       (filter (\<lambda>w. wi_tenant w = t \<and> wi_status w = INSTANCE_PENDING) (wf_instances a))))"

definition pending_steps :: "uuid \<Rightarrow> uuid list \<Rightarrow> approval_tables \<Rightarrow> step_row list" where
  "pending_steps t is a = sort_key st_index
     (filter (\<lambda>r. st_tenant r = t \<and> st_instance r \<in> set is \<and> st_status r = STEP_PENDING) (wf_steps a))"

definition list_pending_for_user :: "uuid \<Rightarrow> uuid \<Rightarrow> int \<Rightarrow> nat \<Rightarrow> inbox_item list service" where
  "list_pending_for_user t who now limit =
     bindM (read_approvals (pending_instances t limit)) (\<lambda>ws.
     bindM (read_approvals (pending_steps t (map wi_id ws))) (\<lambda>rows.
     bindM (list_active_for_delegate t who now) (\<lambda>grants.
     bindM (read_approvals (\<lambda>a. map_result (inbox_entry t who a grants ws) rows)) (\<lambda>r.
     bindM (resultM r) (\<lambda>items. returnM (concat items))))))"

end
