(* ===== verification/Approval_Engine.thy ===== *)
theory Approval_Engine
  imports Approval_Repository Finance_Service
begin

text \<open>
  The approval engine (\<open>features/approval_workflow/engine.py\<close>): a resource is submitted to the
  steps of a workflow definition, the steps are decided one after the other, and the owning module is
  told the outcome through a resource port. With the escalation of overdue steps
  (\<open>escalation.py\<close>, \<open>escalation_worker.py\<close>), the advisory AI routing (\<open>ai_routing.py\<close>), the read
  model (\<open>query.py\<close>) and the journal-entry coordinator (\<open>features/finance/approval.py\<close>).
\<close>

section \<open>Definitions as documents\<close>

text \<open>The validation of the definition language; \<open>pydantic\<close>'s error is a \<open>ValueError\<close>.\<close>

definition sized :: "nat \<Rightarrow> string \<Rightarrow> bool" where
  "sized n s \<longleftrightarrow> s \<noteq> [] \<and> length s \<le> n"

definition valid_assignee :: "assignee_spec \<Rightarrow> bool" where
  "valid_assignee x = (case x of RoleAssignee r \<Rightarrow> sized 100 r | PermissionAssignee p \<Rightarrow> sized 100 p | UserListAssignee us \<Rightarrow> us \<noteq> [])"

definition valid_condition :: "routing_condition \<Rightarrow> bool" where
  "valid_condition c = (case c of AmountBelow x \<Rightarrow> 0 < x \<and> at_scale 4 x | AmountAtLeast x \<Rightarrow> 0 < x \<and> at_scale 4 x)"

definition valid_sla :: "sla_policy \<Rightarrow> bool" where
  "valid_sla p \<longleftrightarrow> 0 < sla_hours p \<and> 0 < sla_reminder p \<and> sla_reminder p < sla_hours p \<and>
     (case sla_escalation p of None \<Rightarrow> True | Some x \<Rightarrow> valid_assignee x)"

definition valid_step :: "workflow_step \<Rightarrow> bool" where
  "valid_step x \<longleftrightarrow> sized 100 (ws_key x) \<and> valid_assignee (ws_assignee x) \<and>
     (case ws_auto_approval x of None \<Rightarrow> True | Some c \<Rightarrow> valid_condition c) \<and>
     (case ws_sla x of None \<Rightarrow> True | Some p \<Rightarrow> valid_sla p)"

definition valid_definition :: "workflow_definition \<Rightarrow> bool" where
  "valid_definition d \<longleftrightarrow> sized 255 (wd_name d) \<and> sized 64 (wd_resource_type d) \<and> 1 \<le> wd_version d \<and>
     wd_steps d \<noteq> [] \<and> list_all valid_step (wd_steps d) \<and> distinct (map ws_key (wd_steps d))"

section \<open>Steps and conditions\<close>

definition assignee_value :: "workflow_step \<Rightarrow> assignee_kind \<times> string" where
  "assignee_value x = (case ws_assignee x of
     RoleAssignee r \<Rightarrow> (KIND_ROLE, r)
   | PermissionAssignee p \<Rightarrow> (KIND_PERMISSION, p)
   | UserListAssignee us \<Rightarrow> (KIND_USERS, join_with '','' (map uuid_text us)))"

definition condition_matches :: "routing_condition \<Rightarrow> decimal option \<Rightarrow> bool" where
  "condition_matches c amt = (case amt of None \<Rightarrow> False
   | Some x \<Rightarrow> (case c of AmountBelow m \<Rightarrow> x < m | AmountAtLeast m \<Rightarrow> m \<le> x))"

text \<open>An hour, in the microseconds of the clock.\<close>

definition HOUR :: int where
  "HOUR = 60 * 60 * 1000000"

definition step_spec_of :: "int \<Rightarrow> workflow_step \<Rightarrow> step_spec" where
  "step_spec_of now x = (ws_key x, fst (assignee_value x), snd (assignee_value x),
     map_option (\<lambda>p. now + sla_hours p * HOUR) (ws_sla x))"

definition condition_kind :: "routing_condition \<Rightarrow> string" where
  "condition_kind c = (case c of AmountBelow _ \<Rightarrow> ''amount_below'' | AmountAtLeast _ \<Rightarrow> ''amount_at_least'')"

definition transition :: "uuid \<Rightarrow> uuid \<Rightarrow> uuid option \<Rightarrow> string option \<Rightarrow> string \<Rightarrow> uuid option \<Rightarrow> actor_type \<Rightarrow> int \<Rightarrow> transition_row" where
  "transition t i step before after who ty now =
     \<lparr>tr_id = 0, tr_tenant = t, tr_instance = i, tr_step = step, tr_previous = before, tr_new = after, tr_actor = who,
      tr_actor_type = ty, tr_reason = None, tr_original = None, tr_delegate = None, tr_context = None, tr_at = now\<rparr>"

section \<open>The resource port\<close>

text \<open>
  \<open>ApprovalResourcePort\<close>: what the owning module does with the outcome. A module that keeps what its
  transition returned (\<open>last_posting\<close> of the finance adapter) has it as the result of \<open>on_approved\<close>.
\<close>

record 'r resource_port =
  on_approved :: "uuid \<Rightarrow> string \<Rightarrow> uuid \<Rightarrow> actor_type \<Rightarrow> string option \<Rightarrow> uuid option \<Rightarrow> 'r service"
  on_rejected :: "uuid \<Rightarrow> string \<Rightarrow> uuid \<Rightarrow> string option \<Rightarrow> unit service"
  on_request_changes :: "uuid \<Rightarrow> string \<Rightarrow> uuid \<Rightarrow> string option \<Rightarrow> unit service"

section \<open>Submission\<close>

record 'r submit_result =
  sr_instance :: instance_row
  sr_steps :: "step_row list"
  sr_auto_approved :: bool
  sr_outcome :: "'r option"

text \<open>The auto-approval loop over the zipped definition and stored steps; the first step left waiting.\<close>

fun auto_route :: "uuid \<Rightarrow> uuid \<Rightarrow> decimal option \<Rightarrow> int \<Rightarrow> workflow_step list \<Rightarrow> step_row list \<Rightarrow> step_row option service" where
  "auto_route t i amt now [] [] = returnM None"
| "auto_route t i amt now (x # xs) (r # rs) = (case ws_auto_approval x of
     None \<Rightarrow> returnM (Some r)
   | Some c \<Rightarrow> if \<not> condition_matches c amt then returnM (Some r) else
       bindM (update_step_decision t (st_id r) STEP_APPROVED None now None) (\<lambda>found.
       bindM (the_or_raise (ConflictError ''Step is no longer pending'') found) (\<lambda>q.
       thenM (record_transition ((transition t i (Some (st_id q)) (Some ''pending'') ''auto_approved'' None ACTOR_SYSTEM now)
           \<lparr>tr_context := Some [(''condition'', PStr (condition_kind c))]\<rparr>))
       (auto_route t i amt now xs rs))))"
| "auto_route t i amt now [] (r # rs) = raiseM ValueError"
| "auto_route t i amt now (x # xs) [] = raiseM ValueError"

text \<open>The end of a submission: the instance is approved at once, or waits at its first human step.\<close>

definition finish_submission ::
  "'r resource_port option \<Rightarrow> uuid \<Rightarrow> uuid \<Rightarrow> string \<Rightarrow> uuid \<Rightarrow> uuid \<Rightarrow> int \<Rightarrow> step_row list \<Rightarrow> step_row option \<Rightarrow>
   'r submit_result service" where
  "finish_submission port t i rt res who now rows waiting = (case waiting of
     None \<Rightarrow>
       thenM (requireM (rows \<noteq> []) (IntegrityError ''ck_erp_approval_workflow_instances_current_step_index''))
       (thenM (update_instance_status t i INSTANCE_AUTO_APPROVED (length rows - 1) who now)
       (bindM (case port of None \<Rightarrow> returnM None
           | Some p \<Rightarrow> bindM (on_approved p t rt res ACTOR_SYSTEM None None) (\<lambda>r. returnM (Some r))) (\<lambda>told.
       bindM (get_instance t i) (\<lambda>found.
       bindM (the_or_raise (NotFoundError ''Approval instance'') found) (\<lambda>updated.
       bindM (list_steps t i) (\<lambda>after.
       returnM \<lparr>sr_instance = updated, sr_steps = after, sr_auto_approved = True, sr_outcome = told\<rparr>))))))
   | Some r \<Rightarrow>
       thenM (update_instance_status t i INSTANCE_PENDING (st_index r) who now)
       (bindM (get_instance t i) (\<lambda>found.
       bindM (the_or_raise (NotFoundError ''Approval instance'') found) (\<lambda>updated.
       bindM (list_steps t i) (\<lambda>after.
       returnM \<lparr>sr_instance = updated, sr_steps = after, sr_auto_approved = False, sr_outcome = None\<rparr>)))))"

definition submit ::
  "'r resource_port option \<Rightarrow> uuid \<Rightarrow> workflow_definition \<Rightarrow> uuid \<Rightarrow> string \<Rightarrow> uuid \<Rightarrow> decimal option \<Rightarrow> uuid \<Rightarrow>
   'r submit_result service" where
  "submit port t d def rt res amt who =
     bindM (getsM clk) (\<lambda>c. let now = instant c in
     bindM (create_instance t def (wd_version d) rt res who now (map (step_spec_of now) (wd_steps d))) (\<lambda>w.
     thenM (record_transition ((transition t (wi_id w) None None ''submitted'' None ACTOR_SYSTEM now)
         \<lparr>tr_context := Some [(''amount'', case amt of None \<Rightarrow> PNull | Some x \<Rightarrow> PDec x)]\<rparr>))
     (bindM (list_steps t (wi_id w)) (\<lambda>rows.
     bindM (auto_route t (wi_id w) amt now (wd_steps d) rows) (\<lambda>waiting.
     finish_submission port t (wi_id w) rt res who now rows waiting)))))"

section \<open>Decisions\<close>

definition step_assignee_ids :: "uuid \<Rightarrow> step_row \<Rightarrow> uuid list service" where
  "step_assignee_ids t r = (case st_kind r of
     KIND_ROLE \<Rightarrow> resolve_role_members t (st_value r)
   | KIND_PERMISSION \<Rightarrow> resolve_permission_members t (st_value r)
   | KIND_USERS \<Rightarrow> resultM (users_of_value (st_value r)))"

text \<open>The delegator whose active grant lets the actor decide, when the actor is no assignee.\<close>

definition delegator_for :: "bool \<Rightarrow> uuid \<Rightarrow> instance_row \<Rightarrow> step_row \<Rightarrow> uuid list \<Rightarrow> uuid \<Rightarrow> int \<Rightarrow> uuid option service" where
  "delegator_for delegations t w r assignees actor now =
     (if actor \<in> set assignees \<or> \<not> delegations then returnM None
      else bindM (list_grants_from_delegators t assignees now) (\<lambda>grants.
        returnM (map_option dg_delegator (List.find (\<lambda>g. grant_in_scope g w r \<and> dg_delegate g = actor) grants))))"

definition step_status_text :: "step_status \<Rightarrow> string" where
  "step_status_text st = (case st of STEP_PENDING \<Rightarrow> ''pending'' | STEP_APPROVED \<Rightarrow> ''approved''
   | STEP_REJECTED \<Rightarrow> ''rejected'' | STEP_SKIPPED \<Rightarrow> ''skipped'' | STEP_ESCALATED \<Rightarrow> ''escalated'')"

definition normal_decision :: "string \<Rightarrow> string" where
  "normal_decision x = (if x = ''approve'' then ''approved'' else if x = ''reject'' then ''rejected'' else x)"

definition final_status :: "string \<Rightarrow> instance_status" where
  "final_status x = (if x = ''approved'' then INSTANCE_APPROVED else if x = ''rejected'' then INSTANCE_REJECTED
   else INSTANCE_REQUEST_CHANGES)"

record 'r decision_result =
  dr_instance :: instance_row
  dr_step :: step_row
  dr_completed :: bool
  dr_outcome :: "'r option"

definition tell_outcome ::
  "'r resource_port \<Rightarrow> string \<Rightarrow> uuid \<Rightarrow> instance_row \<Rightarrow> actor_type \<Rightarrow> string option \<Rightarrow> uuid \<Rightarrow> 'r option service" where
  "tell_outcome p decision t w ty reason actor =
     (if decision = ''approved'' then
        bindM (on_approved p t (wi_resource_type w) (wi_resource w) ty reason (Some actor)) (\<lambda>r. returnM (Some r))
      else if decision = ''rejected'' then
        thenM (on_rejected p t (wi_resource_type w) (wi_resource w) reason) (returnM None)
      else thenM (on_request_changes p t (wi_resource_type w) (wi_resource w) reason) (returnM None))"

text \<open>What follows a decided step: the next pending step, or the end of the instance.\<close>

definition advance ::
  "'r resource_port option \<Rightarrow> string \<Rightarrow> uuid \<Rightarrow> uuid \<Rightarrow> step_row list \<Rightarrow> step_row \<Rightarrow> step_row \<Rightarrow> actor_type \<Rightarrow> string option \<Rightarrow>
   uuid \<Rightarrow> int \<Rightarrow> 'r decision_result service" where
  "advance port decision t i rows cur step ty reason actor now =
     (case List.find (\<lambda>r. st_status r = STEP_PENDING \<and> st_index cur < st_index r) rows of
        Some r \<Rightarrow>
          thenM (update_instance_status t i INSTANCE_PENDING (st_index r) actor now)
          (bindM (get_instance t i) (\<lambda>found.
          bindM (the_or_raise (NotFoundError ''Approval instance'') found) (\<lambda>updated.
          returnM \<lparr>dr_instance = updated, dr_step = step, dr_completed = False, dr_outcome = None\<rparr>)))
      | None \<Rightarrow>
          thenM (update_instance_status t i (final_status decision) (st_index cur) actor now)
          (bindM (get_instance t i) (\<lambda>found.
          bindM (the_or_raise (NotFoundError ''Approval instance'') found) (\<lambda>updated.
          bindM (case port of None \<Rightarrow> returnM None | Some p \<Rightarrow> tell_outcome p decision t updated ty reason actor) (\<lambda>told.
          returnM \<lparr>dr_instance = updated, dr_step = step, dr_completed = True, dr_outcome = told\<rparr>)))))"

definition decide ::
  "'r resource_port option \<Rightarrow> bool \<Rightarrow> uuid \<Rightarrow> uuid \<Rightarrow> uuid \<Rightarrow> string \<Rightarrow> string option \<Rightarrow> nat option \<Rightarrow> 'r decision_result service" where
  "decide port delegations t i actor verb reason index =
     bindM (getsM clk) (\<lambda>c. let now = instant c; decision = normal_decision verb in
     bindM (get_instance t i) (\<lambda>found.
     bindM (the_or_raise (NotFoundError ''Approval instance'') found) (\<lambda>w.
     thenM (requireM (wi_status w = INSTANCE_PENDING) (ConflictError ''Approval instance is not pending''))
     (bindM (list_steps t i) (\<lambda>rows.
     let n = (case index of None \<Rightarrow> wi_current w | Some k \<Rightarrow> k) in
     bindM (the_or_raise (NotFoundError ''Step index'') (List.find (\<lambda>r. st_index r = n) rows)) (\<lambda>cur.
     thenM (requireM (undecided cur) (ConflictError ''Step is not pending or escalated''))
     (bindM (step_assignee_ids t cur) (\<lambda>assignees.
     bindM (delegator_for delegations t w cur assignees actor now) (\<lambda>delegator.
     thenM (requireM (actor \<in> set assignees \<or> delegator \<noteq> None) (PermissionDeniedError ''User is not an assignee of the step''))
     (thenM (requireM (decision \<in> set [''approved'', ''rejected'', ''request_changes'']) (ConflictError ''Unsupported decision''))
     (let ty = (if delegator = None then ACTOR_HUMAN else ACTOR_DELEGATED);
          st = (if decision = ''approved'' then STEP_APPROVED else STEP_REJECTED) in
     bindM (update_step_decision t (st_id cur) st (Some actor) now delegator) (\<lambda>decided.
     bindM (the_or_raise (ConflictError ''Step is already decided'') decided) (\<lambda>step.
     thenM (record_transition ((transition t i (Some (st_id step)) (Some (step_status_text (st_status cur))) decision (Some actor) ty now)
         \<lparr>tr_reason := reason, tr_original := Some (case delegator of None \<Rightarrow> actor | Some u \<Rightarrow> u), tr_delegate := delegator\<rparr>))
     (advance port decision t i rows cur step ty reason actor now))))))))))))))"

section \<open>Escalation\<close>

definition escalate_step :: "uuid \<Rightarrow> int \<Rightarrow> step_row \<Rightarrow> nat service" where
  "escalate_step t now r = bindM (mark_step_escalated t (st_id r)) (\<lambda>found. case found of
     None \<Rightarrow> returnM 0
   | Some _ \<Rightarrow> thenM (record_transition ((transition t (st_instance r) (Some (st_id r)) (Some ''pending'') ''escalated'' None ACTOR_ESCALATION now)
         \<lparr>tr_context := Some [(''sla_due_at'', case st_sla_due r of None \<Rightarrow> PNull | Some x \<Rightarrow> PInt x)]\<rparr>))
       (returnM 1))"

definition escalate_overdue :: "uuid \<Rightarrow> nat \<Rightarrow> nat service" where
  "escalate_overdue t limit =
     bindM (getsM clk) (\<lambda>c.
     bindM (list_overdue_steps t (instant c) limit) (\<lambda>rows.
     bindM (mapM (escalate_step t (instant c)) rows) (\<lambda>ns. returnM (sum_list ns))))"

text \<open>One pass of the worker: every tenant with a pending instance, each committed on its own.\<close>

definition process_all :: "nat \<Rightarrow> nat service" where
  "process_all limit =
     bindM list_pending_tenant_ids (\<lambda>ts.
     bindM (mapM (\<lambda>t. bindM (escalate_overdue t limit) (\<lambda>n. thenM commit (returnM n))) ts) (\<lambda>ns.
     returnM (sum_list ns)))"

section \<open>Advisory routing\<close>

text \<open>
  The answer of the AI service, which is not part of the repository's core: no answer, or a body with the
  text of its fields. \<open>ai_routing\<close> asks it about a resource.
\<close>

record ai_body =
  ab_recommendation :: string
  ab_confidence :: "decimal option"
  ab_reasoning :: string
  ab_model_used :: string
  ab_suggested :: "string option"

type_synonym ai_routing = "string \<Rightarrow> uuid \<Rightarrow> decimal option \<Rightarrow> string \<Rightarrow> ai_body option"

record suggestion =
  sg_recommendation :: "string option"
  sg_confidence :: "decimal option"
  sg_reasoning :: string
  sg_model_used :: string
  sg_approver :: "uuid option"

definition routing_suggestion :: "ai_body \<Rightarrow> suggestion option" where
  "routing_suggestion b =
     (let raw = lower (strip (ab_recommendation b));
          recommendation = (if raw \<in> set [''approve'', ''reject'', ''request_changes''] then Some raw else None);
          confidence = (case ab_confidence b of None \<Rightarrow> None
            | Some x \<Rightarrow> if recommendation \<noteq> None \<and> 0 \<le> x \<and> x \<le> 1 then Some x else None);
          approver = (case ab_suggested b of None \<Rightarrow> None
            | Some txt \<Rightarrow> if strip txt = [] then None else (case read_uuid (strip txt) of Inl _ \<Rightarrow> None | Inr u \<Rightarrow> Some u)) in
      if recommendation = None \<and> strip (ab_reasoning b) = [] \<and> strip (ab_model_used b) = [] then None
      else Some \<lparr>sg_recommendation = recommendation, sg_confidence = confidence, sg_reasoning = strip (ab_reasoning b),
        sg_model_used = strip (ab_model_used b), sg_approver = approver\<rparr>)"

definition suggestion_context :: "suggestion \<Rightarrow> payload" where
  "suggestion_context g =
     [(''recommendation'', opt_str (sg_recommendation g)),
      (''confidence'', case sg_confidence g of None \<Rightarrow> PNull | Some x \<Rightarrow> PDec x),
      (''reasoning'', PStr (sg_reasoning g)), (''model_used'', PStr (sg_model_used g)),
      (''suggested_approver_id'', opt_str (map_option uuid_text (sg_approver g)))]"

text \<open>An approver outside the allowed set is dropped; with no allowed set nothing is.\<close>

definition authorized_suggestion :: "uuid list option \<Rightarrow> suggestion \<Rightarrow> suggestion" where
  "authorized_suggestion allowed g = (case (sg_approver g, allowed) of
     (Some u, Some us) \<Rightarrow> if u \<notin> set us then g\<lparr>sg_approver := None\<rparr> else g
   | _ \<Rightarrow> g)"

definition suggest_and_record ::
  "ai_routing option \<Rightarrow> uuid \<Rightarrow> instance_row \<Rightarrow> step_row \<Rightarrow> decimal option \<Rightarrow> string \<Rightarrow> uuid list option \<Rightarrow> suggestion option service" where
  "suggest_and_record ai t w r amt description allowed = (case ai of
     None \<Rightarrow> returnM None
   | Some ask \<Rightarrow> (case Option.bind (ask (wi_resource_type w) (wi_resource w) amt description) routing_suggestion of
       None \<Rightarrow> returnM None
     | Some g \<Rightarrow> let g = authorized_suggestion allowed g in
         bindM (getsM clk) (\<lambda>c.
         thenM (record_transition ((transition t (wi_id w) (Some (st_id r)) (Some (step_status_text (st_status r))) ''suggestion'' None
             ACTOR_AI_SUGGESTION (instant c))\<lparr>tr_context := Some (suggestion_context g)\<rparr>))
         (returnM (Some g)))))"

section \<open>The read model\<close>

definition text_at :: "string \<Rightarrow> payload \<Rightarrow> pval option" where
  "text_at k p = map_of p k"

record suggestion_view =
  sv_recommendation :: "pval option"
  sv_confidence :: "pval option"
  sv_reasoning :: "pval option"
  sv_model_used :: "pval option"
  sv_approver :: "uuid option"

definition latest_suggestion :: "transition_row list \<Rightarrow> suggestion_view option" where
  "latest_suggestion xs = (case List.find (\<lambda>x. tr_actor_type x = ACTOR_AI_SUGGESTION) (rev xs) of
     None \<Rightarrow> None
   | Some x \<Rightarrow> let p = (case tr_context x of None \<Rightarrow> [] | Some p \<Rightarrow> p) in
       Some \<lparr>sv_recommendation = text_at ''recommendation'' p, sv_confidence = text_at ''confidence'' p,
         sv_reasoning = text_at ''reasoning'' p, sv_model_used = text_at ''model_used'' p,
         sv_approver = (case text_at ''suggested_approver_id'' p of
             Some (PStr txt) \<Rightarrow> (if txt = [] then None else case read_uuid txt of Inl _ \<Rightarrow> None | Inr u \<Rightarrow> Some u)
           | _ \<Rightarrow> None)\<rparr>)"

definition inbox_of :: "uuid \<Rightarrow> uuid \<Rightarrow> int \<Rightarrow> nat \<Rightarrow> (inbox_item \<times> suggestion_view option) list service" where
  "inbox_of t who now limit =
     bindM (list_pending_for_user t who now limit) (\<lambda>items.
     mapM (\<lambda>x. bindM (list_transitions t (wi_id (ib_instance x))) (\<lambda>xs. returnM (x, latest_suggestion xs))) items)"

record transition_view =
  tv_new :: string
  tv_previous :: "string option"
  tv_actor_type :: actor_type
  tv_actor :: "uuid option"
  tv_reason :: "string option"
  tv_step_key :: "string option"
  tv_at :: int

definition transition_view_of :: "step_row list \<Rightarrow> transition_row \<Rightarrow> transition_view" where
  "transition_view_of rows x = \<lparr>tv_new = tr_new x, tv_previous = tr_previous x, tv_actor_type = tr_actor_type x,
     tv_actor = tr_actor x, tv_reason = tr_reason x,
     tv_step_key = Option.bind (tr_step x) (\<lambda>i. map_option st_key (List.find (\<lambda>r. st_id r = i) rows)), tv_at = tr_at x\<rparr>"

record instance_view =
  iv_instance :: instance_row
  iv_steps :: "step_row list"
  iv_transitions :: "transition_view list"
  iv_suggestion :: "suggestion_view option"

definition instance_detail :: "uuid \<Rightarrow> uuid \<Rightarrow> instance_view option service" where
  "instance_detail t i = bindM (get_instance t i) (\<lambda>found. case found of
     None \<Rightarrow> returnM None
   | Some w \<Rightarrow>
       bindM (list_steps t i) (\<lambda>rows.
       bindM (list_transitions t i) (\<lambda>xs.
       returnM (Some \<lparr>iv_instance = w, iv_steps = rows, iv_transitions = map (transition_view_of rows) xs,
         iv_suggestion = latest_suggestion xs\<rparr>))))"

section \<open>Journal entries\<close>

text \<open>The finance adapter of the port: an approval posts the entry, every other outcome leaves it a draft.\<close>

definition finance_port :: "entry_doc resource_port" where
  "finance_port = \<lparr>on_approved = (\<lambda>t rt res ty reason who. bindM (getsM clk) (\<lambda>c. complete_posting t who res (instant c))),
     on_rejected = (\<lambda>t rt res reason. returnM ()), on_request_changes = (\<lambda>t rt res reason. returnM ())\<rparr>"

text \<open>The port of the decision endpoint; the payroll run's own transition is \<open>payroll\<close>.\<close>

definition dispatch_port :: "(uuid \<Rightarrow> uuid \<Rightarrow> uuid option \<Rightarrow> int \<Rightarrow> unit service) \<Rightarrow> unit resource_port" where
  "dispatch_port payroll = \<lparr>on_approved = (\<lambda>t rt res ty reason who. bindM (getsM clk) (\<lambda>c.
       if rt = ''journal_entry'' then request (complete_posting t who res (instant c))
       else if rt = ''payroll_run'' then payroll t res who (instant c)
       else raiseM (ConflictError ''Unsupported approval resource type''))),
     on_rejected = (\<lambda>t rt res reason. returnM ()), on_request_changes = (\<lambda>t rt res reason. returnM ())\<rparr>"

definition nth_or_raise :: "'a list \<Rightarrow> nat \<Rightarrow> 'a service" where
  "nth_or_raise xs n = (if n < length xs then returnM (xs ! n) else raiseM IndexError)"

definition entry_description :: "journal_entry \<Rightarrow> string" where
  "entry_description e = (case je_memo e of None \<Rightarrow> ''journal entry''
   | Some m \<Rightarrow> if m = [] then ''journal entry'' else ''journal entry '' @ m)"

definition submit_for_posting :: "ai_routing option \<Rightarrow> approval_port" where
  "submit_for_posting ai t user doc debits = (case doc of (e, ls) \<Rightarrow>
     bindM (je_approval_engine_enabled t) (\<lambda>on.
     bindM (getsM clk) (\<lambda>c.
     if \<not> on then complete_posting t (Some user) (je_id e) (instant c)
     else
     bindM (get_active t ''journal_entry'') (\<lambda>found.
     bindM (the_or_raise ApprovalDefinitionMissingError found) (\<lambda>active.
     let d = df_body active in
     thenM (requireM (valid_definition d) ValueError)
     (bindM (submit (Some finance_port) t d (df_id active) ''journal_entry'' (je_id e) (Some debits) user) (\<lambda>r.
     if sr_auto_approved r then the_or_raise AssertionError (sr_outcome r)
     else
     bindM (nth_or_raise (sr_steps r) (wi_current (sr_instance r))) (\<lambda>waiting.
     bindM (nth_or_raise (wd_steps d) (wi_current (sr_instance r))) (\<lambda>x.
     thenM (if ws_routing x = AI_ASSISTED then
         bindM (step_assignee_ids t waiting) (\<lambda>eligible.
         thenM (suggest_and_record ai t (sr_instance r) waiting (Some debits) (entry_description e)
           (if eligible = [] then None else Some eligible)) (returnM ()))
       else returnM ())
     (returnM (e, ls)))))))))))"

section \<open>The endpoint\<close>

text \<open>\<open>POST /approval/inbox/{id}/decide\<close>: always the instance's current step.\<close>

definition decide_route ::
  "(uuid \<Rightarrow> uuid \<Rightarrow> uuid option \<Rightarrow> int \<Rightarrow> unit service) \<Rightarrow> uuid \<Rightarrow> uuid \<Rightarrow> uuid \<Rightarrow> string \<Rightarrow> string option \<Rightarrow>
   unit decision_result service" where
  "decide_route payroll t i actor verb reason =
     decide (Some (dispatch_port payroll)) True t i actor verb reason None"

end
