(* ===== verification/Approval_Ledger.thy ===== *)
theory Approval_Ledger
  imports Approval_Engine
begin

text \<open>
  What the approval tables satisfy between requests, and the effect of a decision on them. Every
  instance is \<open>staged\<close>: its steps are numbered from 0, those before the current one are decided, the
  current one waits and those behind it are pending; a closed instance has no undecided step.
\<close>

lemma approval_updates_ordered [simp]:
  fixes a :: approval_tables
  shows "wf_instances_update f (wf_steps_update g a) = wf_steps_update g (wf_instances_update f a)"
    "wf_instances_update f (wf_transitions_update h a) = wf_transitions_update h (wf_instances_update f a)"
    "wf_steps_update g (wf_transitions_update h a) = wf_transitions_update h (wf_steps_update g a)"
  by simp_all

lemma transition_simps [simp]:
  "tr_id (transition t i step before after who ty now) = 0" "tr_reason (transition t i step before after who ty now) = None"
  "tr_tenant (transition t i step before after who ty now) = t" "tr_instance (transition t i step before after who ty now) = i"
  "tr_step (transition t i step before after who ty now) = step" "tr_new (transition t i step before after who ty now) = after"
  "tr_actor (transition t i step before after who ty now) = who" "tr_actor_type (transition t i step before after who ty now) = ty"
  "tr_at (transition t i step before after who ty now) = now"
  by (simp_all add: transition_def)

section \<open>Ordered rows\<close>

lemma insort_key_map:
  "(\<And>y. y \<in> set (x # ys) \<Longrightarrow> k (g y) = k y) \<Longrightarrow> insort_key k (g x) (map g ys) = map g (insort_key k x ys)"
  by (induction ys) auto

lemma sort_key_map:
  "(\<And>x. x \<in> set xs \<Longrightarrow> k (g x) = k x) \<Longrightarrow> sort_key k (map g xs) = map g (sort_key k xs)"
  by (induction xs) (auto intro!: insort_key_map)

lemma filter_update_where:
  "(\<And>r. r \<in> set rows \<Longrightarrow> P r \<Longrightarrow> S (f r) = S r) \<Longrightarrow> filter S (update_where P f rows) = update_where P f (filter S rows)"
  by (induction rows) auto

lemma sort_update_where:
  "(\<And>r. r \<in> set rows \<Longrightarrow> P r \<Longrightarrow> k (f r) = k r) \<Longrightarrow> sort_key k (update_where P f rows) = update_where P f (sort_key k rows)"
  unfolding update_where_def by (rule sort_key_map) auto

lemma update_where_at:
  assumes "n < length rs" "\<And>j. j < length rs \<Longrightarrow> P (rs ! j) \<longleftrightarrow> j = n"
  shows "update_where P f rs = rs[n := f (rs ! n)]"
  using assms by (intro nth_equalityI) (auto simp: update_where_def nth_list_update)

lemma update_where_id: "(\<And>r. r \<in> set rs \<Longrightarrow> \<not> P r) \<Longrightarrow> update_where P f rs = rs"
  by (induction rs) auto

lemma sort_key_enumerated: "map k rs = [0..<length rs] \<Longrightarrow> sort_key k rs = rs"
  by (rule sort_key_id_if_sorted) simp

lemma find_at:
  assumes "map k rs = [0..<length rs]" "n < length rs"
  shows "List.find (\<lambda>r. k r = n) rs = Some (rs ! n)"
proof -
  have k: "k (rs ! j) = j" if "j < length rs" for j using assms(1) that by (metis add_0 length_map nth_map nth_upt)
  show ?thesis unfolding find_Some_iff
    by (rule exI [of _ n]) (use assms(2) k in \<open>simp add: less_trans [OF _ assms(2)]\<close>)
qed

section \<open>Staged instances\<close>

definition settled :: "instance_status \<Rightarrow> step_status" where
  "settled st = (if st = INSTANCE_APPROVED \<or> st = INSTANCE_AUTO_APPROVED then STEP_APPROVED else STEP_REJECTED)"

definition staged :: "instance_row \<Rightarrow> step_row list \<Rightarrow> bool" where
  "staged w rs \<longleftrightarrow> wi_current w < length rs \<and>
     (\<forall>r \<in> set rs. (st_decided_at r = None) = undecided r) \<and>
     (wi_completed_at w = None) = (wi_status w = INSTANCE_PENDING) \<and>
     (if wi_status w = INSTANCE_PENDING then
        (\<forall>k < wi_current w. \<not> undecided (rs ! k)) \<and> undecided (rs ! wi_current w) \<and>
        (\<forall>k < length rs. wi_current w < k \<longrightarrow> st_status (rs ! k) = STEP_PENDING)
      else (\<forall>r \<in> set rs. \<not> undecided r) \<and> Suc (wi_current w) = length rs \<and>
        st_status (rs ! wi_current w) = settled (wi_status w))"

definition instance_id :: "instance_row \<Rightarrow> uuid \<times> uuid" where
  "instance_id w = (wi_tenant w, wi_id w)"

definition step_id :: "step_row \<Rightarrow> uuid \<times> uuid" where
  "step_id r = (st_tenant r, st_id r)"

definition steps_at :: "instance_row \<Rightarrow> approval_tables \<Rightarrow> step_row list" where
  "steps_at w = steps_in (wi_tenant w) (wi_id w)"

definition rows_wf :: "approval_tables \<Rightarrow> bool" where
  "rows_wf a \<longleftrightarrow> distinct (map instance_id (wf_instances a)) \<and> distinct (map step_id (wf_steps a)) \<and>
     (\<forall>r \<in> set (wf_steps a). \<exists>w \<in> set (wf_instances a). instance_key (st_tenant r) (st_instance r) w) \<and>
     (\<forall>w \<in> set (wf_instances a). map st_index (steps_at w a) = [0..<length (steps_at w a)])"

definition approvals_wf :: "approval_tables \<Rightarrow> bool" where
  "approvals_wf a \<longleftrightarrow> rows_wf a \<and> (\<forall>w \<in> set (wf_instances a). staged w (steps_at w a))"

lemma approvals_rows [simp]: "approvals_wf a \<Longrightarrow> rows_wf a"
  by (simp add: approvals_wf_def)

lemma instance_key_iff: "instance_key t i w \<longleftrightarrow> instance_id w = (t, i)"
  by (auto simp: instance_key_def instance_id_def)

lemma step_key_iff: "step_key t i r \<longleftrightarrow> step_id r = (t, i)"
  by (auto simp: step_key_def step_id_def)

lemma set_steps_in: "set (steps_in t i a) = {r \<in> set (wf_steps a). step_of t i r}"
  by (auto simp: steps_in_def)

lemma steps_in_update:
  assumes "\<And>r. P r \<Longrightarrow> st_index (f r) = st_index r \<and> step_of t i (f r) = step_of t i r"
  shows "steps_in t i (a\<lparr>wf_steps := update_where P f (wf_steps a)\<rparr>) = update_where P f (steps_in t i a)"
  unfolding steps_in_def using assms by (simp add: filter_update_where sort_update_where)

lemma steps_in_cong [simp]:
  "steps_in t i (a\<lparr>wf_instances := x\<rparr>) = steps_in t i a"
  "steps_in t i (a\<lparr>wf_transitions := y\<rparr>) = steps_in t i a"
  "steps_in t i (a\<lparr>wf_definitions := z\<rparr>) = steps_in t i a"
  "steps_in t i (a\<lparr>wf_delegations := u\<rparr>) = steps_in t i a"
  by (simp_all add: steps_in_def)

lemma numbered: "rows_wf a \<Longrightarrow> w \<in> set (wf_instances a) \<Longrightarrow> map st_index (steps_at w a) = [0..<length (steps_at w a)]"
  by (simp add: rows_wf_def)

lemma numbered_at:
  "rows_wf a \<Longrightarrow> w \<in> set (wf_instances a) \<Longrightarrow> k < length (steps_at w a) \<Longrightarrow> st_index (steps_at w a ! k) = k"
  using numbered [of a w] by (metis add_0 length_map nth_map nth_upt)

lemma staged_at: "approvals_wf a \<Longrightarrow> w \<in> set (wf_instances a) \<Longrightarrow> staged w (steps_at w a)"
  by (simp add: approvals_wf_def)

lemma select_instance:
  assumes "rows_wf a"
  shows "select_one (instance_key t i) (wf_instances a) = Some w \<longleftrightarrow> w \<in> set (wf_instances a) \<and> instance_key t i w"
proof
  assume "w \<in> set (wf_instances a) \<and> instance_key t i w"
  then show "select_one (instance_key t i) (wf_instances a) = Some w"
    using assms distinct_map_select_one [of instance_id "wf_instances a" w]
    by (simp add: rows_wf_def instance_key_iff cong: if_cong) (simp add: instance_key_iff [abs_def])
qed (auto dest: select_one_SomeD)

text \<open>A step is found by its key.\<close>

lemma step_by_key:
  assumes "rows_wf a" "r \<in> set (wf_steps a)" "q \<in> set (wf_steps a)" "step_key (st_tenant r) (st_id r) q"
  shows "q = r"
  using assms by (auto simp: rows_wf_def step_key_iff step_id_def distinct_map inj_on_def)

text \<open>A condition that only one step meets.\<close>

definition hits :: "(step_row \<Rightarrow> bool) \<Rightarrow> step_row \<Rightarrow> bool" where
  "hits P cur \<longleftrightarrow> P cur \<and> (\<forall>r. P r \<longrightarrow> step_key (st_tenant cur) (st_id cur) r)"

text \<open>Updating one step of an instance: the steps of that instance, and of every other.\<close>

lemma update_step_here:
  assumes wf: "rows_wf a" and w: "w \<in> set (wf_instances a)" and n: "n < length (steps_at w a)"
    and cur: "cur = steps_at w a ! n" and P: "hits P cur"
  shows "update_where P f (steps_at w a) = (steps_at w a)[n := f cur]"
proof -
  let ?rs = "steps_at w a"
  have sub: "set ?rs \<subseteq> set (wf_steps a)" by (auto simp: steps_at_def set_steps_in)
  have "P (?rs ! j) \<longleftrightarrow> j = n" if j: "j < length ?rs" for j
  proof
    assume "P (?rs ! j)"
    with P have "?rs ! j = cur" unfolding hits_def using step_by_key [OF wf, of cur "?rs ! j"] sub nth_mem [OF j] nth_mem [OF n] cur by auto
    then have "st_index (?rs ! j) = st_index (?rs ! n)" by (simp add: cur)
    then show "j = n" using numbered_at [OF wf w] j n by simp
  qed (use P cur in \<open>simp add: hits_def\<close>)
  then show ?thesis using update_where_at [OF n, of P f] cur by simp
qed

lemma update_step_elsewhere:
  assumes wf: "rows_wf a" and cur: "cur \<in> set (wf_steps a)" and P: "hits P cur"
    and other: "\<not> step_of t i cur"
  shows "update_where P f (steps_in t i a) = steps_in t i a"
proof (rule update_where_id)
  fix r
  assume r: "r \<in> set (steps_in t i a)"
  show "\<not> P r"
  proof
    assume "P r"
    with P have "r = cur" unfolding hits_def using step_by_key [OF wf cur, of r] r by (auto simp: set_steps_in)
    with r other show False by (simp add: set_steps_in)
  qed
qed


section \<open>The tables after a decision\<close>

text \<open>A decided step with its transitions, and an instance that moved on.\<close>

definition step_tables ::
  "uuid \<Rightarrow> step_row \<Rightarrow> step_status \<Rightarrow> uuid option \<Rightarrow> int \<Rightarrow> uuid option \<Rightarrow> transition_row list \<Rightarrow> approval_tables \<Rightarrow> approval_tables" where
  "step_tables t cur st who now deleg xs a = a
     \<lparr>wf_steps := update_where (\<lambda>r. step_key t (st_id cur) r \<and> undecided r) (decided_step st who now deleg) (wf_steps a),
      wf_transitions := wf_transitions a @ xs\<rparr>"

definition moved_tables :: "uuid \<Rightarrow> uuid \<Rightarrow> instance_status \<Rightarrow> nat \<Rightarrow> uuid \<Rightarrow> int \<Rightarrow> approval_tables \<Rightarrow> approval_tables" where
  "moved_tables t i ist n actor now a = a
     \<lparr>wf_instances := update_where (instance_key t i) (moved_instance ist n actor now) (wf_instances a)\<rparr>"

lemma moved_instance_simps [simp]:
  "wi_id (moved_instance st n who now w) = wi_id w" "wi_tenant (moved_instance st n who now w) = wi_tenant w"
  "wi_status (moved_instance st n who now w) = st" "wi_current (moved_instance st n who now w) = n"
  "wi_resource (moved_instance st n who now w) = wi_resource w"
  "wi_resource_type (moved_instance st n who now w) = wi_resource_type w"
  "wi_completed_at (moved_instance st n who now w) = (if st = INSTANCE_PENDING then wi_completed_at w else Some now)"
  "instance_id (moved_instance st n who now w) = instance_id w"
  by (simp_all add: moved_instance_def Let_def instance_id_def)

lemma decided_step_simps [simp]:
  "st_id (decided_step st who now deleg r) = st_id r" "st_tenant (decided_step st who now deleg r) = st_tenant r"
  "st_instance (decided_step st who now deleg r) = st_instance r" "st_index (decided_step st who now deleg r) = st_index r"
  "st_status (decided_step st who now deleg r) = st" "st_decided_at (decided_step st who now deleg r) = Some now"
  "step_of t i (decided_step st who now deleg r) = step_of t i r" "step_id (decided_step st who now deleg r) = step_id r"
  by (simp_all add: decided_step_def Let_def step_of_def step_id_def)

lemma staged_decided:
  assumes st: "staged w rs" "wi_status w = INSTANCE_PENDING" and v: "st = STEP_APPROVED \<or> st = STEP_REJECTED"
    and more: "Suc (wi_current w) < length rs \<Longrightarrow> ist = INSTANCE_PENDING \<and> n = Suc (wi_current w)"
    and final: "Suc (wi_current w) = length rs \<Longrightarrow> ist \<noteq> INSTANCE_PENDING \<and> n = wi_current w \<and> settled ist = st"
  shows "staged (moved_instance ist n actor now w) (rs[wi_current w := decided_step st who now deleg (rs ! wi_current w)])"
proof -
  let ?c = "wi_current w" and ?d = "decided_step st who now deleg (rs ! wi_current w)"
  have c: "?c < length rs" and dec: "\<forall>k < ?c. \<not> undecided (rs ! k)" and at: "\<forall>r \<in> set rs. (st_decided_at r = None) = undecided r"
    and pend: "\<forall>k < length rs. ?c < k \<longrightarrow> st_status (rs ! k) = STEP_PENDING" and comp: "wi_completed_at w = None"
    using st by (simp_all add: staged_def)
  have d: "\<not> undecided ?d" using v by (auto simp: undecided_def)
  have at': "\<forall>r \<in> set (rs[?c := ?d]). (st_decided_at r = None) = undecided r"
    using at d set_update_subset_insert [of rs ?c ?d] by fastforce
  show ?thesis
  proof (cases "Suc ?c < length rs")
    case True
    with more have m: "ist = INSTANCE_PENDING" "n = Suc ?c" by auto
    have "undecided (rs ! Suc ?c)" using pend True by (simp add: undecided_def)
    then show ?thesis using True m dec pend at' comp d by (auto simp: staged_def nth_list_update less_Suc_eq)
  next
    case False
    with c have l: "Suc ?c = length rs" by simp
    with final have m: "ist \<noteq> INSTANCE_PENDING" "n = ?c" "settled ist = st" by auto
    have "\<not> undecided r" if "r \<in> set (rs[?c := ?d])" for r
    proof -
      from that obtain k where k: "k < length rs" "r = rs[?c := ?d] ! k" by (auto simp: set_conv_nth)
      show ?thesis using k d dec l by (cases "k = ?c") (auto simp: less_Suc_eq)
    qed
    then show ?thesis using l m at' c by (simp add: staged_def)
  qed
qed


lemma steps_at_moved [simp]: "steps_at v (moved_tables t i ist n actor now a) = steps_at v a"
  by (simp add: steps_at_def moved_tables_def)

lemma steps_at_moved_instance [simp]: "steps_at (moved_instance ist n actor now w) = steps_at w"
  by (simp add: steps_at_def [abs_def])

text \<open>Any update of one step that keeps its place.\<close>

definition in_place :: "(step_row \<Rightarrow> step_row) \<Rightarrow> bool" where
  "in_place f \<longleftrightarrow> (\<forall>r. st_id (f r) = st_id r \<and> st_tenant (f r) = st_tenant r \<and> st_instance (f r) = st_instance r \<and> st_index (f r) = st_index r)"

lemma in_place_decided [simp]: "in_place (decided_step st who now deleg)"
  by (simp add: in_place_def)

lemma steps_at_updated:
  assumes wf: "rows_wf a" and w: "w \<in> set (wf_instances a)" and n: "n < length (steps_at w a)"
    and cur: "cur = steps_at w a ! n" and v: "v \<in> set (wf_instances a)"
    and P: "hits P cur" and f: "in_place f"
  shows "steps_at v (a\<lparr>wf_steps := update_where P f (wf_steps a), wf_transitions := xs\<rparr>) =
    (if v = w then (steps_at w a)[n := f cur] else steps_at v a)"
proof -
  have c: "cur \<in> set (wf_steps a)" "step_of (wi_tenant w) (wi_id w) cur"
    using nth_mem [OF n] cur(1) by (auto simp: steps_at_def set_steps_in)
  have upd: "steps_at v (a\<lparr>wf_steps := update_where P f (wf_steps a), wf_transitions := xs\<rparr>) = update_where P f (steps_at v a)"
    using f by (simp add: steps_at_def steps_in_def filter_update_where sort_update_where in_place_def step_of_def)
  show ?thesis
  proof (cases "v = w")
    case True
    then show ?thesis using upd update_step_here [OF wf w n cur P] by simp
  next
    case False
    have "\<not> step_of (wi_tenant v) (wi_id v) cur"
      using False wf v w c(2) by (auto simp: rows_wf_def step_of_def distinct_map inj_on_def instance_id_def)
    then show ?thesis using upd False update_step_elsewhere [OF wf c(1) P, of "wi_tenant v" "wi_id v"]
      by (simp add: steps_at_def)
  qed
qed

lemma rows_updated:
  assumes wf: "rows_wf a" and w: "w \<in> set (wf_instances a)" and n: "n < length (steps_at w a)"
    and cur: "cur = steps_at w a ! n"
    and P: "hits P cur" and f: "in_place f"
  shows "rows_wf (a\<lparr>wf_steps := update_where P f (wf_steps a), wf_transitions := xs\<rparr>)"
proof -
  let ?a = "a\<lparr>wf_steps := update_where P f (wf_steps a), wf_transitions := xs\<rparr>"
  have "map step_id (wf_steps ?a) = map step_id (wf_steps a)"
    using f by (simp add: map_update_where in_place_def step_id_def)
  moreover have "\<exists>w \<in> set (wf_instances a). instance_key (st_tenant r) (st_instance r) w" if "r \<in> set (wf_steps ?a)" for r
    using that wf f by (auto simp: set_update_where rows_wf_def in_place_def)
  moreover have "map st_index (steps_at v ?a) = [0..<length (steps_at v ?a)]" if v: "v \<in> set (wf_instances a)" for v
  proof -
    have "st_index (f cur) = st_index cur" using f by (simp add: in_place_def)
    then have "map st_index ((steps_at w a)[n := f cur]) = map st_index (steps_at w a)"
      using cur by (simp add: map_update) (metis list_update_id map_update)
    then show ?thesis using v numbered [OF wf] w steps_at_updated [OF wf w n cur v P f, of xs] by auto
  qed
  ultimately show ?thesis using wf by (simp add: rows_wf_def)
qed

lemma hits_key:
  assumes "n < length (steps_at w a)" "cur = steps_at w a ! n" "t = wi_tenant w" "Q cur"
  shows "hits (\<lambda>r. step_key t (st_id cur) r \<and> Q r) cur"
  using nth_mem [OF assms(1)] assms(2-4) by (auto simp: hits_def steps_at_def set_steps_in step_of_def step_key_def)

lemma steps_at_step_tables:
  assumes wf: "rows_wf a" and w: "w \<in> set (wf_instances a)" and n: "n < length (steps_at w a)"
    and cur: "cur = steps_at w a ! n" "undecided cur" and v: "v \<in> set (wf_instances a)" and t: "t = wi_tenant w"
  shows "steps_at v (step_tables t cur st who now deleg xs a) =
    (if v = w then (steps_at w a)[n := decided_step st who now deleg cur] else steps_at v a)"
  unfolding step_tables_def
  by (rule steps_at_updated [OF wf w n cur(1) v]) (use hits_key [OF n cur(1) t, where Q = undecided] cur(2) in auto)

lemma rows_step_tables:
  assumes wf: "rows_wf a" and w: "w \<in> set (wf_instances a)" and n: "n < length (steps_at w a)"
    and cur: "cur = steps_at w a ! n" "undecided cur" and t: "t = wi_tenant w"
  shows "rows_wf (step_tables t cur st who now deleg xs a)"
  unfolding step_tables_def
  by (rule rows_updated [OF wf w n cur(1)]) (use hits_key [OF n cur(1) t, where Q = undecided] cur(2) in auto)

lemma rows_moved:
  assumes wf: "rows_wf a"
  shows "rows_wf (moved_tables t i ist n actor now a)"
proof -
  let ?a = "moved_tables t i ist n actor now a"
  have "map instance_id (wf_instances ?a) = map instance_id (wf_instances a)" "wf_steps ?a = wf_steps a"
    by (simp_all add: moved_tables_def map_update_where)
  moreover have "(\<exists>w \<in> set (wf_instances ?a). instance_key x y w) = (\<exists>w \<in> set (wf_instances a). instance_key x y w)" for x y
    unfolding moved_tables_def by (simp add: bex_update_where instance_key_def)
  moreover have "map st_index (steps_at v ?a) = [0..<length (steps_at v ?a)]" if v: "v \<in> set (wf_instances ?a)" for v
  proof -
    from v obtain u where "u \<in> set (wf_instances a)" "steps_at v a = steps_at u a"
      by (auto simp: moved_tables_def set_update_where steps_at_def)
    then show ?thesis using numbered [OF wf] by simp
  qed
  ultimately show ?thesis using wf by (simp add: rows_wf_def)
qed

text \<open>Moving the one instance that is not staged where it belongs.\<close>

lemma approvals_moved:
  assumes wf: "rows_wf a" and w: "w \<in> set (wf_instances a)" "instance_key t i w"
    and others: "\<And>v. v \<in> set (wf_instances a) \<Longrightarrow> v \<noteq> w \<Longrightarrow> staged v (steps_at v a)"
    and here: "staged (moved_instance ist n actor now w) (steps_at w a)"
  shows "approvals_wf (moved_tables t i ist n actor now a)"
proof -
  let ?a = "moved_tables t i ist n actor now a"
  have "staged v (steps_at v ?a)" if v': "v \<in> set (wf_instances ?a)" for v
  proof -
    from v' obtain u where u: "u \<in> set (wf_instances a)"
        "v = (if instance_key t i u then moved_instance ist n actor now u else u)"
      by (auto simp: moved_tables_def set_update_where)
    show ?thesis
    proof (cases "instance_key t i u")
      case True
      then have "u = w" using wf w u(1) by (auto simp: rows_wf_def instance_key_iff distinct_map inj_on_def)
      with True u(2) show ?thesis using here by simp
    next
      case False
      then have "u \<noteq> w" using w(2) by auto
      with False u show ?thesis using others [OF u(1)] by simp
    qed
  qed
  then show ?thesis using rows_moved [OF wf] by (simp add: approvals_wf_def)
qed

lemma approvals_decided:
  assumes wf: "approvals_wf a" and w: "w \<in> set (wf_instances a)" "instance_key t i w" "wi_status w = INSTANCE_PENDING"
    and cur: "cur = steps_at w a ! wi_current w" and v: "st = STEP_APPROVED \<or> st = STEP_REJECTED"
    and more: "Suc (wi_current w) < length (steps_at w a) \<Longrightarrow> ist = INSTANCE_PENDING \<and> n = Suc (wi_current w)"
    and final: "Suc (wi_current w) = length (steps_at w a) \<Longrightarrow> ist \<noteq> INSTANCE_PENDING \<and> n = wi_current w \<and> settled ist = st"
  shows "approvals_wf (moved_tables t i ist n actor now (step_tables t cur st who now deleg xs a))"
proof -
  note rows = approvals_rows [OF wf]
  have c: "wi_current w < length (steps_at w a)" "undecided cur"
    using staged_at [OF wf w(1)] w(3) cur by (auto simp: staged_def)
  have t: "t = wi_tenant w" using w(2) by (simp add: instance_key_def)
  have same: "wf_instances (step_tables t cur st who now deleg xs a) = wf_instances a" by (simp add: step_tables_def)
  show ?thesis
  proof (rule approvals_moved [where w = w])
    show "staged u (steps_at u (step_tables t cur st who now deleg xs a))"
      if "u \<in> set (wf_instances (step_tables t cur st who now deleg xs a))" "u \<noteq> w" for u
      using that steps_at_step_tables [OF rows w(1) c(1) cur c(2) _ t, of u] staged_at [OF wf, of u] same by simp
    show "staged (moved_instance ist n actor now w) (steps_at w (step_tables t cur st who now deleg xs a))"
      using staged_decided [OF staged_at [OF wf w(1)] w(3) v more final, of actor now who deleg] cur
        steps_at_step_tables [OF rows w(1) c(1) cur c(2) w(1) t] by simp
  qed (use rows_step_tables [OF rows w(1) c(1) cur c(2) t] w same in simp_all)
qed

section \<open>Who may decide\<close>

definition assignees_of :: "uuid \<Rightarrow> step_row \<Rightarrow> approval_tables \<Rightarrow> error + uuid list" where
  "assignees_of t r a = (case st_kind r of
     KIND_ROLE \<Rightarrow> Inr (role_members t (st_value r) a)
   | KIND_PERMISSION \<Rightarrow> Inr (permission_members t (st_value r) a)
   | KIND_USERS \<Rightarrow> users_of_value (st_value r))"

lemma wp_step_assignee_ids:
  "wp (step_assignee_ids t r) Q E s = (case assignees_of t r (approvals (work s)) of Inl e \<Rightarrow> E e s | Inr us \<Rightarrow> Q us s)"
  by (simp add: step_assignee_ids_def assignees_of_def resolve_role_members_def resolve_permission_members_def wp_simps
      split: assignee_kind.split)

definition delegator_in :: "bool \<Rightarrow> uuid \<Rightarrow> instance_row \<Rightarrow> step_row \<Rightarrow> uuid list \<Rightarrow> uuid \<Rightarrow> int \<Rightarrow> approval_tables \<Rightarrow> uuid option" where
  "delegator_in delegations t w r assignees actor now a =
     (if actor \<in> set assignees \<or> \<not> delegations then None
      else map_option dg_delegator (List.find (\<lambda>g. grant_active t now g \<and> dg_delegator g \<in> set assignees \<and>
        grant_in_scope g w r \<and> dg_delegate g = actor) (wf_delegations a)))"

lemma find_filter: "List.find P (filter S xs) = List.find (\<lambda>x. S x \<and> P x) xs"
  by (induction xs) auto

lemma find_False [simp]: "List.find (\<lambda>_. False) xs = None"
  by (simp add: find_None_iff)

lemma wp_delegator_for:
  "wp (delegator_for delegations t w r assignees actor now) Q E s = Q (delegator_in delegations t w r assignees actor now (approvals (work s))) s"
  by (simp add: delegator_for_def delegator_in_def list_grants_from_delegators_def wp_simps find_filter conj_assoc)

definition decisions :: "string list" where
  "decisions = [''approved'', ''rejected'', ''request_changes'']"

definition decision_refusal :: "bool \<Rightarrow> approval_tables \<Rightarrow> uuid \<Rightarrow> uuid \<Rightarrow> uuid \<Rightarrow> string \<Rightarrow> string option \<Rightarrow> int \<Rightarrow> error option" where
  "decision_refusal delegations a t i actor verb reason now =
     (case select_one (instance_key t i) (wf_instances a) of
        None \<Rightarrow> Some (NotFoundError ''Approval instance'')
      | Some w \<Rightarrow>
          if wi_status w \<noteq> INSTANCE_PENDING then Some (ConflictError ''Approval instance is not pending'')
          else (case assignees_of t (steps_at w a ! wi_current w) a of
              Inl e \<Rightarrow> Some e
            | Inr us \<Rightarrow>
                if actor \<notin> set us \<and> delegator_in delegations t w (steps_at w a ! wi_current w) us actor now a = None
                then Some (PermissionDeniedError ''User is not an assignee of the step'')
                else if normal_decision verb \<notin> set decisions then Some (ConflictError ''Unsupported decision'')
                else if 500 < length (case reason of None \<Rightarrow> [] | Some x \<Rightarrow> x) then Some DataError
                else None))"

section \<open>Deciding the current step\<close>

lemma find_waiting:
  assumes "staged w rs" "wi_status w = INSTANCE_PENDING" "\<And>k. k < length rs \<Longrightarrow> st_index (rs ! k) = k"
  shows "List.find (\<lambda>r. st_status r = STEP_PENDING \<and> wi_current w < st_index r) rs =
    (if Suc (wi_current w) < length rs then Some (rs ! Suc (wi_current w)) else None)"
proof (cases "Suc (wi_current w) < length rs")
  case True
  have "List.find (\<lambda>r. st_status r = STEP_PENDING \<and> wi_current w < st_index r) rs = Some (rs ! Suc (wi_current w))"
    unfolding find_Some_iff
  proof (intro exI conjI allI impI)
    show "st_status (rs ! Suc (wi_current w)) = STEP_PENDING" "wi_current w < st_index (rs ! Suc (wi_current w))"
      using assms True by (auto simp: staged_def)
    fix j
    assume "j < Suc (wi_current w)"
    then show "\<not> (st_status (rs ! j) = STEP_PENDING \<and> wi_current w < st_index (rs ! j))"
      using assms(3) [of j] True by simp
  qed (use True in simp_all)
  with True show ?thesis by simp
next
  case False
  have "\<not> wi_current w < st_index r" if "r \<in> set rs" for r
  proof -
    from that obtain k where "k < length rs" "r = rs ! k" by (auto simp: set_conv_nth)
    then show ?thesis using assms(3) [of k] False by simp
  qed
  then show ?thesis using False by (auto simp: find_None_iff)
qed

lemma select_undecided:
  assumes "rows_wf a" "cur \<in> set (wf_steps a)" "undecided cur" "t = st_tenant cur"
  shows "select_one (\<lambda>r. step_key t (st_id cur) r \<and> undecided r) (wf_steps a) = Some cur"
  by (rule select_one_unique) (use assms step_by_key [OF assms(1,2)] in \<open>auto simp: step_key_def\<close>)

definition decision_row :: "uuid \<Rightarrow> uuid \<Rightarrow> uuid \<Rightarrow> step_row \<Rightarrow> string \<Rightarrow> string option \<Rightarrow> uuid option \<Rightarrow> int \<Rightarrow> nat \<Rightarrow> transition_row" where
  "decision_row t i actor cur decision reason deleg now n =
     (transition t i (Some (st_id cur)) (Some (step_status_text (st_status cur))) decision (Some actor)
        (if deleg = None then ACTOR_HUMAN else ACTOR_DELEGATED) now)
     \<lparr>tr_reason := reason, tr_original := Some (case deleg of None \<Rightarrow> actor | Some u \<Rightarrow> u), tr_delegate := deleg, tr_id := n\<rparr>"

definition verdict :: "string \<Rightarrow> step_status" where
  "verdict decision = (if decision = ''approved'' then STEP_APPROVED else STEP_REJECTED)"

text \<open>The tables once the current step of \<open>w\<close> is decided.\<close>

definition after_decision ::
  "uuid \<Rightarrow> uuid \<Rightarrow> instance_row \<Rightarrow> uuid \<Rightarrow> string \<Rightarrow> string option \<Rightarrow> uuid option \<Rightarrow> int \<Rightarrow> nat \<Rightarrow> approval_tables \<Rightarrow> approval_tables" where
  "after_decision t i w actor decision reason deleg now k a =
     (let cur = steps_at w a ! wi_current w; more = Suc (wi_current w) < length (steps_at w a) in
      moved_tables t i (if more then INSTANCE_PENDING else final_status decision)
        (if more then Suc (wi_current w) else wi_current w) actor now
        (step_tables t cur (verdict decision) (Some actor) now deleg [decision_row t i actor cur decision reason deleg now k] a))"


lemma wp_update_step_decision:
  assumes "rows_wf (approvals (work s))" "cur \<in> set (wf_steps (approvals (work s)))" "undecided cur" "t = st_tenant cur"
  shows "wp (update_step_decision t (st_id cur) st who now deleg) Q E s =
    Q (Some (decided_step st who now deleg cur)) (s\<lparr>work := (work s)\<lparr>approvals := (approvals (work s))
      \<lparr>wf_steps := update_where (\<lambda>r. step_key t (st_id cur) r \<and> undecided r) (decided_step st who now deleg)
        (wf_steps (approvals (work s)))\<rparr>\<rparr>\<rparr>)"
  by (simp add: update_step_decision_def guarded_step_update_def wp_simps select_undecided [OF assms])

lemma wp_record_transition:
  assumes "\<forall>x \<in> set (wf_transitions (approvals (work s))). tr_id x < next_id s"
  shows "wp (record_transition x) Q E s =
    (if length (case tr_reason x of None \<Rightarrow> [] | Some r \<Rightarrow> r) \<le> 500
     then Q (x\<lparr>tr_id := next_id s\<rparr>) (s\<lparr>work := (work s)\<lparr>approvals := (approvals (work s))
       \<lparr>wf_transitions := wf_transitions (approvals (work s)) @ [x\<lparr>tr_id := next_id s\<rparr>]\<rparr>\<rparr>, next_id := Suc (next_id s)\<rparr>)
     else E DataError (s\<lparr>next_id := Suc (next_id s)\<rparr>))"
  using assms by (auto simp: record_transition_def Let_def wp_simps)

lemma wp_update_instance_status:
  assumes "select_one (instance_key t i) (wf_instances (approvals (work s))) = Some w"
  shows "wp (update_instance_status t i st n who now) Q E s =
    Q (Some (moved_instance st n who now w)) (s\<lparr>work := (work s)\<lparr>approvals := (approvals (work s))
      \<lparr>wf_instances := update_where (instance_key t i) (moved_instance st n who now) (wf_instances (approvals (work s)))\<rparr>\<rparr>\<rparr>)"
  by (simp add: update_instance_status_def get_instance_def wp_simps assms)

lemma select_moved:
  "select_one (instance_key t i) (update_where (instance_key t i) (moved_instance st n who now) ws) =
     map_option (moved_instance st n who now) (select_one (instance_key t i) ws)"
  by (subst select_one_update_where) (auto simp: instance_key_def dest!: select_one_SomeD intro!: option.map_cong split: option.split)

lemma wp_get_instance: "wp (get_instance t i) Q E s = Q (select_one (instance_key t i) (wf_instances (approvals (work s)))) s"
  and wp_list_steps: "wp (list_steps t i) R E s = R (steps_in t i (approvals (work s))) s"
  by (simp_all add: get_instance_def list_steps_def wp_simps)

definition decided_result :: "approval_tables \<Rightarrow> instance_row \<Rightarrow> uuid \<Rightarrow> string \<Rightarrow> uuid option \<Rightarrow> int \<Rightarrow> 'r option \<Rightarrow> 'r decision_result" where
  "decided_result a w actor decision deleg now told =
     (let cur = steps_at w a ! wi_current w; more = Suc (wi_current w) < length (steps_at w a) in
      \<lparr>dr_instance = moved_instance (if more then INSTANCE_PENDING else final_status decision)
         (if more then Suc (wi_current w) else wi_current w) actor now w,
       dr_step = decided_step (verdict decision) (Some actor) now deleg cur, dr_completed = \<not> more, dr_outcome = told\<rparr>)"

lemma wp_advance:
  fixes s :: sess and w :: instance_row
  assumes w: "select_one (instance_key t i) (wf_instances (approvals (work s))) = Some w"
    and st: "staged w rs" "wi_status w = INSTANCE_PENDING" "\<And>k. k < length rs \<Longrightarrow> st_index (rs ! k) = k"
    and more: "Suc (wi_current w) < length rs \<Longrightarrow>
      Q \<lparr>dr_instance = moved_instance INSTANCE_PENDING (Suc (wi_current w)) actor now w, dr_step = step, dr_completed = False, dr_outcome = None\<rparr>
        (s\<lparr>work := (work s)\<lparr>approvals := (approvals (work s))\<lparr>wf_instances := update_where (instance_key t i)
          (moved_instance INSTANCE_PENDING (Suc (wi_current w)) actor now) (wf_instances (approvals (work s)))\<rparr>\<rparr>\<rparr>)"
    and last: "\<not> Suc (wi_current w) < length rs \<Longrightarrow>
      wp (tell_outcome p decision t (moved_instance (final_status decision) (wi_current w) actor now w) ty reason actor)
        (\<lambda>told. Q \<lparr>dr_instance = moved_instance (final_status decision) (wi_current w) actor now w, dr_step = step,
          dr_completed = True, dr_outcome = told\<rparr>) E
        (s\<lparr>work := (work s)\<lparr>approvals := (approvals (work s))\<lparr>wf_instances := update_where (instance_key t i)
          (moved_instance (final_status decision) (wi_current w) actor now) (wf_instances (approvals (work s)))\<rparr>\<rparr>\<rparr>)"
  shows "wp (advance (Some p) decision t i rs (rs ! wi_current w) step ty reason actor now) Q E s"
proof -
  have c: "st_index (rs ! wi_current w) = wi_current w" using st by (auto simp: staged_def)
  note find = find_waiting [OF st]
  show ?thesis
  proof (cases "Suc (wi_current w) < length rs")
    case True
    then show ?thesis
      using more [OF True] st(3) [OF True]
      by (simp add: advance_def c find wp_bind wp_then wp_update_instance_status [OF w] wp_get_instance select_moved w wp_the_or_raise wp_return)
  next
    case False
    then show ?thesis
      using last [OF False]
      by (simp add: advance_def c find wp_bind wp_then wp_update_instance_status [OF w] wp_get_instance select_moved w wp_the_or_raise wp_return)
  qed
qed


text \<open>
  The whole decision of an instance's current step, as the endpoint makes it: refused for the first
  reason that applies, otherwise recorded; the module hears of the outcome of the last step.
\<close>

definition entitling :: "bool \<Rightarrow> uuid \<Rightarrow> instance_row \<Rightarrow> uuid \<Rightarrow> int \<Rightarrow> approval_tables \<Rightarrow> uuid option" where
  "entitling delegations t w actor now a = (case assignees_of t (steps_at w a ! wi_current w) a of
     Inl e \<Rightarrow> None
   | Inr us \<Rightarrow> delegator_in delegations t w (steps_at w a ! wi_current w) us actor now a)"

lemma wp_decide:
  fixes s :: sess
  assumes defs: "a = approvals (work s)" "now = instant (clk s)" "decision = normal_decision verb"
    and wf: "approvals_wf a" and ids: "\<forall>x \<in> set (wf_transitions a). tr_id x < next_id s"
    and err: "\<And>e u. decision_refusal delegations a t i actor verb reason now = Some e \<Longrightarrow> durable u = durable s \<Longrightarrow>
      next_id s \<le> next_id u \<Longrightarrow> E e u"
    and ok: "\<And>w deleg s'. decision_refusal delegations a t i actor verb reason now = None \<Longrightarrow>
      select_one (instance_key t i) (wf_instances a) = Some w \<Longrightarrow> wi_status w = INSTANCE_PENDING \<Longrightarrow>
      deleg = entitling delegations t w actor now a \<Longrightarrow>
      s' = s\<lparr>work := (work s)\<lparr>approvals := after_decision t i w actor decision reason deleg now (next_id s) a\<rparr>, next_id := Suc (next_id s)\<rparr> \<Longrightarrow>
      (if Suc (wi_current w) < length (steps_at w a) then Q (decided_result a w actor decision deleg now None) s'
       else wp (tell_outcome p decision t (moved_instance (final_status decision) (wi_current w) actor now w)
           (if deleg = None then ACTOR_HUMAN else ACTOR_DELEGATED) reason actor)
         (\<lambda>told. Q (decided_result a w actor decision deleg now told)) E s')"
  shows "wp (decide (Some p) delegations t i actor verb reason None) Q E s"
proof (cases "select_one (instance_key t i) (wf_instances a)")
  case None
  then show ?thesis using err [of _ s]
    by (simp add: decide_def wp_simps wp_get_instance decision_refusal_def defs Let_def)
next
  case (Some w)
  note rows = approvals_rows [OF wf]
  from Some rows have w: "w \<in> set (wf_instances a)" "wi_tenant w = t" "wi_id w = i"
    by (auto simp: select_instance instance_key_def)
  have at: "steps_in t i a = steps_at w a" by (simp add: steps_at_def w)
  show ?thesis
  proof (cases "wi_status w = INSTANCE_PENDING")
    case False
    then show ?thesis using err [of _ s] Some
      by (simp add: decide_def wp_simps wp_get_instance decision_refusal_def defs Let_def)
  next
    case pending: True
    let ?rs = "steps_at w a" and ?c = "wi_current w"
    let ?cur = "?rs ! ?c"
    note st = staged_at [OF wf w(1)]
    have c: "?c < length ?rs" and und: "undecided ?cur" using st pending by (auto simp: staged_def)
    have cur: "?cur \<in> set (wf_steps a)" "st_tenant ?cur = t"
      using nth_mem [OF c] w by (auto simp: steps_at_def set_steps_in step_of_def)
    have find: "List.find (\<lambda>r. st_index r = ?c) ?rs = Some ?cur" by (rule find_at [OF numbered [OF rows w(1)] c])
    note start = decide_def wp_bind wp_then wp_gets wp_the_or_raise wp_require wp_get_instance wp_list_steps Let_def
      wp_step_assignee_ids decision_refusal_def defs [symmetric] Some pending at find und
    show ?thesis
    proof (cases "assignees_of t ?cur a")
      case (Inl e)
      then show ?thesis using err [of e s] by (simp add: start)
    next
      case (Inr us)
      define deleg where "deleg = delegator_in delegations t w ?cur us actor now a"
      have ent: "deleg = entitling delegations t w actor now a" using Inr by (simp add: entitling_def deleg_def)
      let ?step = "decided_step (verdict decision) (Some actor) now deleg ?cur"
      let ?x = "decision_row t i actor ?cur decision reason deleg now (next_id s)"
      let ?s = "s\<lparr>work := (work s)\<lparr>approvals := a\<lparr>wf_steps := update_where (\<lambda>r. step_key t (st_id ?cur) r \<and> undecided r)
        (decided_step (verdict decision) (Some actor) now deleg) (wf_steps a), wf_transitions := wf_transitions a @ [?x]\<rparr>\<rparr>, next_id := Suc (next_id s)\<rparr>"
      let ?ty = "if deleg = None then ACTOR_HUMAN else ACTOR_DELEGATED"
      have fin: "wp (advance (Some p) decision t i ?rs ?cur ?step ?ty reason actor now) Q E ?s"
        if none: "decision_refusal delegations a t i actor verb reason now = None"
      proof (rule wp_advance [where w = w])
        note ok = ok [OF none Some pending ent refl]
        show "select_one (instance_key t i) (wf_instances (approvals (work ?s))) = Some w" using Some by simp
        show "st_index (?rs ! k) = k" if "k < length ?rs" for k by (rule numbered_at [OF rows w(1) that])
        show "Q \<lparr>dr_instance = moved_instance INSTANCE_PENDING (Suc ?c) actor now w, dr_step = ?step, dr_completed = False, dr_outcome = None\<rparr>
            (?s\<lparr>work := (work ?s)\<lparr>approvals := (approvals (work ?s))\<lparr>wf_instances := update_where (instance_key t i)
              (moved_instance INSTANCE_PENDING (Suc ?c) actor now) (wf_instances (approvals (work ?s)))\<rparr>\<rparr>\<rparr>)"
          if "Suc ?c < length ?rs"
          using ok that by (simp add: decided_result_def after_decision_def moved_tables_def step_tables_def Let_def)
        show "wp (tell_outcome p decision t (moved_instance (final_status decision) ?c actor now w) ?ty reason actor)
            (\<lambda>told. Q \<lparr>dr_instance = moved_instance (final_status decision) ?c actor now w, dr_step = ?step,
              dr_completed = True, dr_outcome = told\<rparr>) E
            (?s\<lparr>work := (work ?s)\<lparr>approvals := (approvals (work ?s))\<lparr>wf_instances := update_where (instance_key t i)
              (moved_instance (final_status decision) ?c actor now) (wf_instances (approvals (work ?s)))\<rparr>\<rparr>\<rparr>)"
          if "\<not> Suc ?c < length ?rs"
          using ok that by (simp add: decided_result_def after_decision_def moved_tables_def step_tables_def Let_def)
      qed (use st pending in simp_all)
      note start = start Inr deleg_def [symmetric] wp_delegator_for decisions_def
      show ?thesis
      proof (cases "(actor \<notin> set us \<and> deleg = None) \<or> decision \<notin> set decisions")
        case True
        then show ?thesis using err [of _ s] by (auto simp: start)
      next
        case False
        then have auth: "actor \<in> set us \<or> deleg \<noteq> None" "decision \<in> set decisions" by auto
        note upd = wp_update_step_decision [where s = s and cur = ?cur and t = t, folded defs(1), OF rows cur(1) und cur(2) [symmetric]]
        have v: "verdict decision = (if decision = ''approved'' then STEP_APPROVED else STEP_REJECTED)" by (simp add: verdict_def)
        show ?thesis
        proof (cases "length (case reason of None \<Rightarrow> [] | Some x \<Rightarrow> x) \<le> 500")
          case True
          then have none: "decision_refusal delegations a t i actor verb reason now = None"
            using auth by (auto simp: start)
          show ?thesis using fin [OF none] auth True upd
            by (cases deleg) (simp_all add: start v [symmetric] wp_record_transition ids transition_def decision_row_def)
        next
          case False
          then have "decision_refusal delegations a t i actor verb reason now = Some DataError"
            using auth by (auto simp: start)
          then show ?thesis using auth False upd err [of DataError] v
            by (cases deleg) (simp_all add: start v [symmetric] wp_record_transition ids transition_def)
        qed
      qed
    qed
  qed
qed

end
