(* ===== verification/Approval_Invariants.thy ===== *)
theory Approval_Invariants
  imports Approval_Ledger
begin

text \<open>
  Every operation of the approval engine keeps its tables in order: decisions, submissions with their
  automatic approvals, and escalations. What the engine relies on of the module that owns a resource
  is the locale \<open>resource_module\<close>.
\<close>

section \<open>Modules the engine calls\<close>

text \<open>An operation that leaves the approval tables and the durable state alone.\<close>

definition apart :: "'a service \<Rightarrow> bool" where
  "apart m \<longleftrightarrow> (\<forall>s. wp m
     (\<lambda>_ u. approvals (work u) = approvals (work s) \<and> durable u = durable s \<and> next_id s \<le> next_id u \<and> clk u = clk s)
     (\<lambda>_ u. durable u = durable s \<and> next_id s \<le> next_id u) s)"

named_theorems apart_intros \<open>structural rules for operations apart from the approval tables\<close>

lemma apartD:
  "apart m \<Longrightarrow> wp m
     (\<lambda>_ u. approvals (work u) = approvals (work s) \<and> durable u = durable s \<and> next_id s \<le> next_id u \<and> clk u = clk s)
     (\<lambda>_ u. durable u = durable s \<and> next_id s \<le> next_id u) s"
  by (simp add: apart_def)

lemma apart_return [apart_intros]: "apart (returnM a)"
  and apart_raise [apart_intros]: "apart (raiseM e)"
  and apart_require [apart_intros]: "apart (requireM b e)"
  and apart_gets [apart_intros]: "apart (getsM f)"
  and apart_read [apart_intros]: "apart (readM g)"
  and apart_the_or_raise [apart_intros]: "apart (the_or_raise e x)"
  and apart_finance_event [apart_intros]: "apart (finance_event ev)"
  and apart_check_all [apart_intros]: "apart (check_all cs)"
  and apart_fresh [apart_intros]: "apart fresh_id"
  by (simp_all add: apart_def wp_simps split: option.split)

lemma apart_write: "(\<And>d. approvals (f d) = approvals d) \<Longrightarrow> apart (writeM f)"
  by (simp add: apart_def wp_simps)

lemma apart_bind [apart_intros]:
  assumes "apart m" "\<And>a. apart (f a)"
  shows "apart (bindM m f)"
  unfolding apart_def wp_bind
proof
  fix s :: sess
  show "wp m (\<lambda>a u. wp (f a)
      (\<lambda>_ u. approvals (work u) = approvals (work s) \<and> durable u = durable s \<and> next_id s \<le> next_id u \<and> clk u = clk s)
      (\<lambda>_ u. durable u = durable s \<and> next_id s \<le> next_id u) u) (\<lambda>_ u. durable u = durable s \<and> next_id s \<le> next_id u) s"
    by (rule wp_mono [OF apartD [OF assms(1)]]) (auto intro: wp_mono [OF apartD [OF assms(2)]])
qed

lemma apart_then [apart_intros]: "apart m \<Longrightarrow> apart k \<Longrightarrow> apart (thenM m k)"
  by (simp add: thenM_def apart_bind)

lemma apart_if [apart_intros]: "(b \<Longrightarrow> apart m) \<Longrightarrow> (\<not> b \<Longrightarrow> apart k) \<Longrightarrow> apart (if b then m else k)"
  by simp

lemma apart_option [apart_intros]:
  "(x = None \<Longrightarrow> apart m) \<Longrightarrow> (\<And>a. x = Some a \<Longrightarrow> apart (f a)) \<Longrightarrow> apart (case x of None \<Rightarrow> m | Some a \<Rightarrow> f a)"
  by (cases x) simp_all

lemma apart_prod [apart_intros]: "(\<And>a b. p = (a, b) \<Longrightarrow> apart (f a b)) \<Longrightarrow> apart (case p of (a, b) \<Rightarrow> f a b)"
  by (cases p) simp

lemma apart_posting [apart_intros]: "apart (complete_posting t user i x)"
  unfolding complete_posting_def get_journal_entry_def get_journal_entry_row_def is_period_closed_def
    post_journal_entry_row_def flip_entry_def audit_by_def Let_def
  by (intro apart_intros apart_write; simp)

lemma apart_request [apart_intros]: "apart m \<Longrightarrow> apart (request m)"
  unfolding request_def by (intro apart_intros)

locale resource_module =
  fixes port :: "'r resource_port"
  assumes approved_apart: "apart (on_approved port t rt res ty reason who)"
    and rejected_apart: "apart (on_rejected port t rt res reason)"
    and changes_apart: "apart (on_request_changes port t rt res reason)"

interpretation finance_module: resource_module finance_port
  by unfold_locales (simp_all add: finance_port_def apart_intros)

section \<open>Sound tables\<close>

text \<open>The tables in order, and transition identifiers that were handed out before.\<close>

definition approvals_sound :: "nat \<Rightarrow> approval_tables \<Rightarrow> bool" where
  "approvals_sound n a \<longleftrightarrow> approvals_wf a \<and> (\<forall>x \<in> set (wf_transitions a). tr_id x < n)"

lemma sound_rising: "approvals_sound n a \<Longrightarrow> n \<le> k \<Longrightarrow> approvals_sound k a"
  by (auto simp: approvals_sound_def)

text \<open>Operations without a commit of their own.\<close>

definition orderly :: "'a service \<Rightarrow> bool" where
  "orderly m \<longleftrightarrow> (\<forall>s. approvals_sound (next_id s) (approvals (work s)) \<longrightarrow> wp m
     (\<lambda>_ u. approvals_sound (next_id u) (approvals (work u)) \<and> durable u = durable s \<and> next_id s \<le> next_id u)
     (\<lambda>_ u. durable u = durable s \<and> next_id s \<le> next_id u) s)"

lemma orderlyI:
  "(\<And>s. approvals_sound (next_id s) (approvals (work s)) \<Longrightarrow> wp m
     (\<lambda>_ u. approvals_sound (next_id u) (approvals (work u)) \<and> durable u = durable s \<and> next_id s \<le> next_id u)
     (\<lambda>_ u. durable u = durable s \<and> next_id s \<le> next_id u) s) \<Longrightarrow> orderly m"
  by (simp add: orderly_def)

lemma orderlyD:
  "orderly m \<Longrightarrow> approvals_sound (next_id s) (approvals (work s)) \<Longrightarrow> wp m
     (\<lambda>_ u. approvals_sound (next_id u) (approvals (work u)) \<and> durable u = durable s \<and> next_id s \<le> next_id u)
     (\<lambda>_ u. durable u = durable s \<and> next_id s \<le> next_id u) s"
  by (simp add: orderly_def)

lemma orderly_apart: "apart m \<Longrightarrow> orderly m"
  by (rule orderlyI, rule wp_mono [OF apartD]) (auto intro: sound_rising)

lemma orderly_bind:
  assumes "orderly m" "\<And>a. orderly (f a)"
  shows "orderly (bindM m f)"
proof (rule orderlyI)
  fix s :: sess
  assume "approvals_sound (next_id s) (approvals (work s))"
  from orderlyD [OF assms(1) this]
  show "wp (bindM m f) (\<lambda>_ u. approvals_sound (next_id u) (approvals (work u)) \<and> durable u = durable s \<and> next_id s \<le> next_id u)
      (\<lambda>_ u. durable u = durable s \<and> next_id s \<le> next_id u) s"
    unfolding wp_bind by (rule wp_mono) (auto intro!: wp_mono [OF orderlyD [OF assms(2)]])
qed

text \<open>A decision keeps the tables in order, whatever the module does with the outcome.\<close>

lemma settled_final: "decision \<in> set decisions \<Longrightarrow> settled (final_status decision) = verdict decision"
  by (auto simp: decisions_def settled_def final_status_def verdict_def)

lemma final_not_pending [simp]: "final_status decision \<noteq> INSTANCE_PENDING"
  by (simp add: final_status_def)

lemma legal_decision:
  "decision_refusal delegations a t i actor verb reason now = None \<Longrightarrow> normal_decision verb \<in> set decisions"
  by (auto simp: decision_refusal_def Let_def split: option.splits if_splits sum.splits)

lemma sound_after_decision:
  assumes "approvals_sound n a" and none: "decision_refusal delegations a t i actor verb reason now = None"
    and w: "select_one (instance_key t i) (wf_instances a) = Some w" "wi_status w = INSTANCE_PENDING"
  shows "approvals_sound (Suc n) (after_decision t i w actor (normal_decision verb) reason deleg now n a)"
proof -
  from assms have wf: "approvals_wf a" and ids: "\<forall>x \<in> set (wf_transitions a). tr_id x < n" by (simp_all add: approvals_sound_def)
  have mem: "w \<in> set (wf_instances a)" "instance_key t i w" using w wf by (auto simp: select_instance)
  let ?d = "normal_decision verb" and ?more = "Suc (wi_current w) < length (steps_at w a)"
  have "approvals_wf (after_decision t i w actor ?d reason deleg now n a)"
    unfolding after_decision_def Let_def
    by (rule approvals_decided [OF wf mem w(2) refl])
      (use settled_final [OF legal_decision [OF none]] in \<open>auto simp: verdict_def\<close>)
  then show ?thesis using ids
    by (auto simp: approvals_sound_def after_decision_def Let_def moved_tables_def step_tables_def decision_row_def transition_def)
qed

context resource_module begin

lemma outcome_apart: "apart (tell_outcome port decision t w ty reason actor)"
  unfolding tell_outcome_def by (intro apart_intros approved_apart rejected_apart changes_apart)

lemma orderly_decide: "orderly (decide (Some port) delegations t i actor verb reason None)"
proof (rule orderlyI)
  fix s :: sess
  assume sound: "approvals_sound (next_id s) (approvals (work s))"
  let ?Q = "\<lambda>_ u. approvals_sound (next_id u) (approvals (work u)) \<and> durable u = durable s \<and> next_id s \<le> next_id u"
  let ?E = "\<lambda>_ u. durable u = durable s \<and> next_id s \<le> next_id u"
  show "wp (decide (Some port) delegations t i actor verb reason None) ?Q ?E s"
  proof (rule wp_decide [OF refl refl refl], goal_cases)
    case (4 w deleg s')
    have s': "approvals_sound (next_id s') (approvals (work s'))" "durable s' = durable s" "next_id s \<le> next_id s'"
      using sound_after_decision [OF sound 4(1-3)] 4(5) by simp_all
    have "wp (tell_outcome port (normal_decision verb) t x ty reason actor) (\<lambda>_. ?Q ()) ?E s'" for x ty
      using s' by (auto intro!: wp_mono [OF apartD [OF outcome_apart]] intro: sound_rising)
    with s' show ?case by simp
  qed (use sound in \<open>simp_all add: approvals_sound_def\<close>)
qed

end


section \<open>A new instance\<close>

primrec fresh_rows :: "uuid \<Rightarrow> uuid \<Rightarrow> nat \<Rightarrow> uuid \<Rightarrow> step_spec list \<Rightarrow> step_row list" where
  "fresh_rows t i n k [] = []"
| "fresh_rows t i n k (x # xs) = new_step t i n k x # fresh_rows t i (Suc n) (Suc k) xs"

lemma new_step_simps [simp]:
  "st_id (new_step t i n k x) = k" "st_tenant (new_step t i n k x) = t" "st_instance (new_step t i n k x) = i"
  "st_index (new_step t i n k x) = n" "st_status (new_step t i n k x) = STEP_PENDING" "st_decided_at (new_step t i n k x) = None"
  by (simp_all add: new_step_def split: prod.split)

lemma length_fresh_rows [simp]: "length (fresh_rows t i n k xs) = length xs"
  by (induction xs arbitrary: n k) simp_all

lemma fresh_rows_index: "map st_index (fresh_rows t i n k xs) = [n..<n + length xs]"
  by (induction xs arbitrary: n k) (simp_all del: upt_Suc add: upt_conv_Cons)

lemma fresh_rows_ids: "map st_id (fresh_rows t i n k xs) = [k..<k + length xs]"
  by (induction xs arbitrary: n k) (simp_all del: upt_Suc add: upt_conv_Cons)

lemma fresh_row:
  "r \<in> set (fresh_rows t i n k xs) \<Longrightarrow> st_tenant r = t \<and> st_instance r = i \<and> st_status r = STEP_PENDING \<and> st_decided_at r = None"
  by (induction xs arbitrary: n k) auto

lemma wp_new_rows:
  "wp (mapM (\<lambda>(n, x). bindM fresh_id (\<lambda>k. returnM (new_step t i n k x))) (enumerate n xs)) Q E s =
     Q (fresh_rows t i n (next_id s) xs) (s\<lparr>next_id := next_id s + length xs\<rparr>)"
  by (induction xs arbitrary: n s Q) (simp_all add: wp_simps)

lemma wp_step_checks:
  assumes "\<And>e. E e s" "(\<forall>r \<in> set rows. \<forall>q \<in> set (wf_steps (approvals (work s))). step_id q \<noteq> step_id r) \<Longrightarrow> Q () s"
  shows "wp (forM step_checks rows) Q E s"
  using assms by (induction rows) (auto simp: wp_simps step_checks_def step_key_iff step_id_def)

lemma wp_create_instance:
  fixes s :: sess
  assumes defs: "a = approvals (work s)" "w = new_instance t (next_id s) def ver rt res who now"
      "rs = fresh_rows t (next_id s) 0 (Suc (next_id s)) specs"
      "a' = a\<lparr>wf_instances := wf_instances a @ [w], wf_steps := wf_steps a @ rs\<rparr>"
    and wf: "rows_wf a"
    and err: "\<And>e u. durable u = durable s \<Longrightarrow> next_id s \<le> next_id u \<Longrightarrow> E e u"
    and ok: "rows_wf a' \<Longrightarrow> (\<And>v. v \<in> set (wf_instances a) \<Longrightarrow> steps_at v a' = steps_at v a) \<Longrightarrow> steps_at w a' = rs \<Longrightarrow>
      w \<notin> set (wf_instances a) \<Longrightarrow>
      Q w (s\<lparr>work := (work s)\<lparr>approvals := a'\<rparr>, next_id := Suc (next_id s + length specs)\<rparr>)"
  shows "wp (create_instance t def ver rt res who now specs) Q E s"
proof -
  let ?i = "next_id s"
  have rs: "st_tenant r = t \<and> st_instance r = ?i" if "r \<in> set rs" for r using fresh_row that defs by blast
  have w: "wi_tenant w = t" "wi_id w = ?i" by (simp_all add: defs new_instance_def)
  have fin: "Q w (s\<lparr>work := (work s)\<lparr>approvals := a'\<rparr>, next_id := Suc (next_id s + length specs)\<rparr>)"
    if free: "\<forall>v \<in> set (wf_instances a). \<not> instance_key t ?i v" and ids: "\<forall>r \<in> set rs. \<forall>q \<in> set (wf_steps a). step_id q \<noteq> step_id r"
  proof (rule ok)
    have none: "filter (step_of t ?i) (wf_steps a) = []"
      using wf free by (auto simp: filter_empty_conv rows_wf_def step_of_def instance_key_def)
    show old: "steps_at v a' = steps_at v a" if "v \<in> set (wf_instances a)" for v
    proof -
      have "filter (step_of (wi_tenant v) (wi_id v)) rs = []"
        using that free rs by (auto simp: filter_empty_conv step_of_def instance_key_def)
      then show ?thesis by (simp add: steps_at_def steps_in_def defs(4))
    qed
    have "filter (step_of t ?i) rs = rs" using rs by (simp add: filter_id_conv step_of_def)
    then show new: "steps_at w a' = rs"
      using none fresh_rows_index [of t ?i 0 "Suc ?i" specs]
      by (simp add: steps_at_def steps_in_def w defs(3,4) sort_key_enumerated)
    show "w \<notin> set (wf_instances a)" using free w by (auto simp: instance_key_def)
    have "distinct (map step_id rs)"
    proof -
      have "map snd (map step_id rs) = map st_id rs" by (simp add: step_id_def)
      then have "distinct (map snd (map step_id rs))" by (simp add: defs(3) fresh_rows_ids)
      then show ?thesis by (simp only: distinct_map)
    qed
    with wf ids have "distinct (map step_id (wf_steps a'))" by (fastforce simp: defs(4) rows_wf_def)
    moreover have "distinct (map instance_id (wf_instances a'))"
      using wf free w by (auto simp: defs(4) rows_wf_def instance_key_iff instance_id_def)
    moreover have "\<exists>v \<in> set (wf_instances a'). instance_key (st_tenant r) (st_instance r) v" if "r \<in> set (wf_steps a')" for r
      using that wf rs w by (auto simp: defs(4) rows_wf_def instance_key_def) 
    ultimately show "rows_wf a'"
      using wf old new fresh_rows_index [of t ?i 0 "Suc ?i" specs] by (auto simp: rows_wf_def defs(3,4))
  qed
  show ?thesis
    unfolding create_instance_def insert_steps_def Let_def
    by (auto simp: wp_simps wp_new_rows defs(1) [symmetric] defs(2) [symmetric] intro!: err wp_step_checks fin [unfolded defs(3,4)])
qed


section \<open>Automatic approvals\<close>

text \<open>The first \<open>k\<close> of the new rows are approved, the others as they were inserted; every other instance is staged.\<close>

definition routed :: "nat \<Rightarrow> step_row list \<Rightarrow> instance_row \<Rightarrow> approval_tables \<Rightarrow> bool" where
  "routed k rows w a \<longleftrightarrow> rows_wf a \<and> w \<in> set (wf_instances a) \<and> k \<le> length rows \<and>
     (\<exists>front. length front = k \<and> steps_at w a = front @ drop k rows \<and>
       (\<forall>r \<in> set front. st_status r = STEP_APPROVED \<and> st_decided_at r \<noteq> None)) \<and>
     (\<forall>v \<in> set (wf_instances a). v \<noteq> w \<longrightarrow> staged v (steps_at v a))"

definition waiting_row :: "step_row \<Rightarrow> bool" where
  "waiting_row r \<longleftrightarrow> st_status r = STEP_PENDING \<and> st_decided_at r = None"

lemma routed_cong: "rows_wf a' = rows_wf a \<Longrightarrow> wf_instances a' = wf_instances a \<Longrightarrow> (\<And>v. steps_at v a' = steps_at v a) \<Longrightarrow>
    routed k rows w a' = routed k rows w a"
  by (simp add: routed_def)

lemma rows_wf_transitions [simp]: "rows_wf (a\<lparr>wf_transitions := x\<rparr>) = rows_wf a"
  and steps_at_transitions [simp]: "steps_at v (a\<lparr>wf_transitions := x\<rparr>) = steps_at v a"
  by (simp_all add: rows_wf_def steps_at_def)

lemma routed_transitions [simp]: "routed k rows w (a\<lparr>wf_transitions := x\<rparr>) = routed k rows w a"
  by (rule routed_cong) simp_all

lemma routed_next:
  assumes r: "routed k rows w a" and k: "k < length rows" and wait: "waiting_row (rows ! k)" and t: "t = wi_tenant w"
  shows "routed (Suc k) rows w (step_tables t (rows ! k) STEP_APPROVED who now deleg xs a)"
proof -
  let ?a = "step_tables t (rows ! k) STEP_APPROVED who now deleg xs a"
  from r obtain front where f: "length front = k" "steps_at w a = front @ drop k rows"
      "\<forall>r \<in> set front. st_status r = STEP_APPROVED \<and> st_decided_at r \<noteq> None"
    and wf: "rows_wf a" and w: "w \<in> set (wf_instances a)"
    and others: "\<forall>v \<in> set (wf_instances a). v \<noteq> w \<longrightarrow> staged v (steps_at v a)"
    by (auto simp: routed_def)
  have cur: "rows ! k = steps_at w a ! k" "undecided (rows ! k)" and n: "k < length (steps_at w a)"
    using f k wait by (auto simp: nth_append waiting_row_def undecided_def)
  let ?d = "decided_step STEP_APPROVED who now deleg (rows ! k)"
  have "steps_at w ?a = (front @ [?d]) @ drop (Suc k) rows"
    using steps_at_step_tables [OF wf w n cur w t, of STEP_APPROVED who now deleg xs] f k
    by (simp add: Cons_nth_drop_Suc [symmetric] list_update_append)
  moreover have "wf_instances ?a = wf_instances a" by (simp add: step_tables_def)
  moreover have "staged v (steps_at v ?a)" if "v \<in> set (wf_instances a)" "v \<noteq> w" for v
    using that others steps_at_step_tables [OF wf w n cur that(1) t] by simp
  ultimately show ?thesis using f k w rows_step_tables [OF wf w n cur t]
    unfolding routed_def by (auto intro!: exI [of _ "front @ [?d]"])
qed

definition quiet :: "sess \<Rightarrow> sess \<Rightarrow> bool" where
  "quiet s u \<longleftrightarrow> durable u = durable s \<and> next_id s \<le> next_id u"

lemma quiet_refl [simp]: "quiet s s"
  and quiet_trans: "quiet s u \<Longrightarrow> quiet u v \<Longrightarrow> quiet s v"
  by (auto simp: quiet_def)

lemma wp_auto_route:
  assumes "rs = drop k rows" "k \<le> length rows" "routed k rows w (approvals (work s))" "\<forall>r \<in> set rows. waiting_row r" "t = wi_tenant w"
    and "\<forall>x \<in> set (wf_transitions (approvals (work s))). tr_id x < next_id s"
  shows "wp (auto_route t i amt now xs rs)
    (\<lambda>waiting u. quiet s u \<and> (\<forall>x \<in> set (wf_transitions (approvals (work u))). tr_id x < next_id u) \<and>
       (\<exists>m. routed m rows w (approvals (work u)) \<and>
         (case waiting of None \<Rightarrow> m = length rows | Some r \<Rightarrow> m < length rows \<and> r = rows ! m)))
    (\<lambda>_ u. quiet s u) s"
  using assms
proof (induction t i amt now xs rs arbitrary: k s rule: auto_route.induct)
  case (1 t i amt now)
  then show ?case by (auto simp: wp_simps intro!: exI [of _ k])
next
  case (2 t i amt now x xs r rs)
  from "2.prems"(1,2) have k: "k < length rows" "r = rows ! k" "rs = drop (Suc k) rows"
    by (cases "k < length rows"; simp add: Cons_nth_drop_Suc [symmetric])+
  have wait: "waiting_row (rows ! k)" using "2.prems"(4) k by simp
  have stop: "quiet s s \<and> (\<forall>x \<in> set (wf_transitions (approvals (work s))). tr_id x < next_id s) \<and>
      (\<exists>m. routed m rows w (approvals (work s)) \<and> m < length rows \<and> r = rows ! m)"
    using "2.prems"(3,6) k(1,2) by auto
  show ?case
  proof (cases "ws_auto_approval x")
    case None
    with stop show ?thesis by (simp add: wp_simps)
  next
    case (Some c)
    show ?thesis
    proof (cases "condition_matches c amt")
      case False
      with Some stop show ?thesis by (simp add: wp_simps)
    next
      case True
      from "2.prems"(3) obtain front where f: "length front = k" "steps_at w (approvals (work s)) = front @ drop k rows"
        and wf: "rows_wf (approvals (work s))" by (auto simp: routed_def)
      have "r \<in> set (steps_at w (approvals (work s)))" using f k by (metis Cons_nth_drop_Suc in_set_conv_decomp)
      then have mem: "r \<in> set (wf_steps (approvals (work s)))" "t = st_tenant r" "undecided r"
        using "2.prems"(5) wait k(2) by (auto simp: steps_at_def set_steps_in step_of_def waiting_row_def undecided_def)
      let ?x = "(transition t i (Some (st_id r)) (Some ''pending'') ''auto_approved'' None ACTOR_SYSTEM now)
        \<lparr>tr_context := Some [(''condition'', PStr (condition_kind c))], tr_id := next_id s\<rparr>"
      let ?s = "s\<lparr>work := (work s)\<lparr>approvals := step_tables t r STEP_APPROVED None now None [?x] (approvals (work s))\<rparr>,
        next_id := Suc (next_id s)\<rparr>"
      have ids: "\<forall>x \<in> set (wf_transitions (approvals (work ?s))). tr_id x < next_id ?s"
        using "2.prems"(6) by (auto simp: step_tables_def less_Suc_eq)
      have step: "wp (auto_route t i amt now (x # xs) (r # rs)) Q E s = wp (auto_route t i amt now xs rs) Q E ?s" for Q E
        using Some True wp_update_step_decision [OF wf mem(1,3,2)] "2.prems"(6)
        by (simp add: wp_bind wp_then wp_the_or_raise wp_record_transition transition_def step_tables_def)
      have "routed (Suc k) rows w (approvals (work ?s))"
        using routed_next [OF "2.prems"(3) k(1) wait "2.prems"(5)] k(2) by simp
      then have "wp (auto_route t i amt now xs rs)
          (\<lambda>waiting u. quiet ?s u \<and> (\<forall>x \<in> set (wf_transitions (approvals (work u))). tr_id x < next_id u) \<and>
             (\<exists>m. routed m rows w (approvals (work u)) \<and>
               (case waiting of None \<Rightarrow> m = length rows | Some r \<Rightarrow> m < length rows \<and> r = rows ! m)))
          (\<lambda>_ u. quiet ?s u) ?s"
        using ids k "2.prems"(4,5) by (intro "2.IH" [OF Some, of "Suc k"]) (simp_all add: True)
      then show ?thesis unfolding step by (rule wp_mono) (auto simp: quiet_def)
    qed
  qed
next
  case (3 t i amt now r rs)
  show ?case by (simp add: wp_simps)
next
  case (4 t i amt now x xs)
  show ?case by (simp add: wp_simps)
qed


lemma routed_moved:
  assumes r: "routed m rows w a" and rows: "\<forall>r \<in> set rows. waiting_row r"
    and w: "instance_key t i w" "wi_completed_at w = None"
    and at: "(ist = INSTANCE_PENDING \<and> n = m \<and> m < length rows) \<or> (ist = INSTANCE_AUTO_APPROVED \<and> m = length rows \<and> Suc n = m)"
  shows "approvals_wf (moved_tables t i ist n actor now a)"
proof -
  from r obtain front where f: "length front = m" "steps_at w a = front @ drop m rows"
      "\<forall>r \<in> set front. st_status r = STEP_APPROVED \<and> st_decided_at r \<noteq> None"
    and wf: "rows_wf a" "w \<in> set (wf_instances a)" "\<forall>v \<in> set (wf_instances a). v \<noteq> w \<longrightarrow> staged v (steps_at v a)"
    and m: "m \<le> length rows" by (auto simp: routed_def)
  have front: "\<not> undecided r" "st_decided_at r \<noteq> None" "st_status r = STEP_APPROVED" if "r \<in> set front" for r
    using f(3) that by (auto simp: undecided_def)
  have rear: "undecided r" "st_decided_at r = None" "st_status r = STEP_PENDING" if "r \<in> set (drop m rows)" for r
    using rows in_set_dropD [OF that] by (auto simp: waiting_row_def undecided_def)
  have dec: "\<forall>r \<in> set (front @ drop m rows). (st_decided_at r = None) = undecided r"
    using f(3) rows by (auto simp: waiting_row_def undecided_def dest!: bspec in_set_dropD)
  have before: "\<not> undecided ((front @ drop m rows) ! k)" if "k < m" for k
    using front(1) that f(1) by (simp add: nth_append)
  have behind: "st_status ((front @ drop m rows) ! k) = STEP_PENDING" if "m \<le> k" "k < length rows" for k
    using rows that f(1) m by (simp add: nth_append waiting_row_def)
  have "staged (moved_instance ist n actor now w) (front @ drop m rows)"
    using at
  proof
    assume a: "ist = INSTANCE_PENDING \<and> n = m \<and> m < length rows"
    then have "undecided ((front @ drop m rows) ! m)" using behind [of m] by (simp add: undecided_def)
    then show ?thesis using a f(1) dec before behind w(2) by (simp add: staged_def)
  next
    assume a: "ist = INSTANCE_AUTO_APPROVED \<and> m = length rows \<and> Suc n = m"
    then have "n < length front" using f(1) by simp
    with a show ?thesis using f(1) front dec by (auto simp: staged_def nth_append settled_def)
  qed
  then show ?thesis using approvals_moved [OF wf(1,2) w(1)] wf(3) f(2) by simp
qed

context resource_module begin

lemma wp_finish:
  assumes r: "routed m rows w (approvals (work u))" and rows: "\<forall>r \<in> set rows. waiting_row r" "map st_index rows = [0..<length rows]"
    and w: "instance_key t i w" "wi_completed_at w = None"
    and ids: "\<forall>x \<in> set (wf_transitions (approvals (work u))). tr_id x < next_id u"
    and at: "case waiting of None \<Rightarrow> m = length rows | Some r \<Rightarrow> m < length rows \<and> r = rows ! m"
  shows "wp (finish_submission (Some port) t i rt res who now rows waiting)
    (\<lambda>_ v. approvals_sound (next_id v) (approvals (work v)) \<and> quiet u v) (\<lambda>_ v. quiet u v) u"
proof -
  from r have wf: "rows_wf (approvals (work u))" "w \<in> set (wf_instances (approvals (work u)))" by (simp_all add: routed_def)
  have found: "select_one (instance_key t i) (wf_instances (approvals (work u))) = Some w"
    using wf w by (simp add: select_instance)
  let ?s = "\<lambda>ist n. u\<lparr>work := (work u)\<lparr>approvals := moved_tables t i ist n who now (approvals (work u))\<rparr>\<rparr>"
  have moved: "approvals_sound (next_id u) (approvals (work (?s ist n)))"
    if "(ist = INSTANCE_PENDING \<and> n = m \<and> m < length rows) \<or> (ist = INSTANCE_AUTO_APPROVED \<and> m = length rows \<and> Suc n = m)" for ist n
    using routed_moved [OF r rows(1) w that] ids by (simp add: approvals_sound_def moved_tables_def)
  show ?thesis
  proof (cases waiting)
    case None
    with at have m: "m = length rows" by simp
    have told: "wp (on_approved port t rt res ACTOR_SYSTEM None None) (\<lambda>_ v. wp (get_instance t i)
          (\<lambda>found v. wp (the_or_raise (NotFoundError ''Approval instance'') found) (\<lambda>_ v. wp (list_steps t i)
            (\<lambda>_ v. approvals_sound (next_id v) (approvals (work v)) \<and> quiet u v) (\<lambda>_ v. quiet u v) v) (\<lambda>_ v. quiet u v) v)
          (\<lambda>_ v. quiet u v) v) (\<lambda>_ v. quiet u v) (?s INSTANCE_AUTO_APPROVED (length rows - 1))" if "rows \<noteq> []"
      by (rule wp_mono [OF apartD [OF approved_apart]])
        (use moved [of INSTANCE_AUTO_APPROVED "length rows - 1"] that m in
          \<open>auto simp: wp_get_instance wp_list_steps wp_the_or_raise quiet_def intro: sound_rising split: option.split\<close>)
    show ?thesis using told
      by (simp add: None finish_submission_def wp_then wp_bind wp_require wp_return wp_update_instance_status [OF found] moved_tables_def)
  next
    case (Some r)
    with at have m: "m < length rows" "r = rows ! m" by simp_all
    then have "st_index r = map st_index rows ! m" by simp
    with rows(2) m have idx: "st_index r = m" by simp
    show ?thesis using moved [of INSTANCE_PENDING m] m(1)
      by (simp add: Some idx finish_submission_def wp_then wp_bind wp_return wp_update_instance_status [OF found] wp_get_instance
          wp_list_steps wp_the_or_raise moved_tables_def select_moved found quiet_def)
  qed
qed

lemma orderly_submit: "orderly (submit (Some port) t d def rt res amt who)"
proof (rule orderlyI)
  fix s :: sess
  let ?a = "approvals (work s)" and ?i = "next_id s"
  assume sound: "approvals_sound (next_id s) ?a"
  then have wf: "approvals_wf ?a" and ids: "\<forall>x \<in> set (wf_transitions ?a). tr_id x < next_id s"
    by (simp_all add: approvals_sound_def)
  show "wp (submit (Some port) t d def rt res amt who)
     (\<lambda>_ u. approvals_sound (next_id u) (approvals (work u)) \<and> durable u = durable s \<and> next_id s \<le> next_id u)
     (\<lambda>_ u. durable u = durable s \<and> next_id s \<le> next_id u) s"
    unfolding submit_def wp_bind wp_gets Let_def
  proof (rule wp_create_instance [OF refl refl refl refl approvals_rows [OF wf]], goal_cases)
    case 2
    let ?specs = "map (step_spec_of (instant (clk s))) (wd_steps d)"
    let ?w = "new_instance t ?i def (wd_version d) rt res who (instant (clk s))"
    let ?rows = "fresh_rows t ?i 0 (Suc ?i) ?specs"
    let ?a' = "?a\<lparr>wf_instances := wf_instances ?a @ [?w], wf_steps := wf_steps ?a @ ?rows\<rparr>"
    have w: "wi_tenant ?w = t" "wi_id ?w = ?i" "wi_completed_at ?w = None" "instance_key t ?i ?w"
      by (simp_all add: new_instance_def instance_key_def)
    have rows: "\<forall>r \<in> set ?rows. waiting_row r" using fresh_row by (auto simp: waiting_row_def)
    have routed: "routed 0 ?rows ?w ?a'"
      using 2 staged_at [OF wf] by (auto simp: routed_def)
    let ?x = "(transition t ?i None None ''submitted'' None ACTOR_SYSTEM (instant (clk s)))
      \<lparr>tr_context := Some [(''amount'', case amt of None \<Rightarrow> PNull | Some x \<Rightarrow> PDec x)], tr_id := Suc (?i + length (wd_steps d))\<rparr>"
    let ?s = "s\<lparr>work := (work s)\<lparr>approvals := ?a'\<lparr>wf_transitions := wf_transitions ?a @ [?x]\<rparr>\<rparr>,
      next_id := Suc (Suc (?i + length (wd_steps d)))\<rparr>"
    have ids': "\<forall>x \<in> set (wf_transitions (approvals (work ?s))). tr_id x < next_id ?s" using ids by auto
    have at: "steps_in t ?i (approvals (work ?s)) = ?rows" using 2(3) w by (simp add: steps_at_def)
    have route: "wp (auto_route t ?i amt (instant (clk s)) (wd_steps d) ?rows)
      (\<lambda>waiting u. quiet ?s u \<and> (\<forall>x \<in> set (wf_transitions (approvals (work u))). tr_id x < next_id u) \<and>
         (\<exists>m. routed m ?rows ?w (approvals (work u)) \<and>
           (case waiting of None \<Rightarrow> m = length ?rows | Some r \<Rightarrow> m < length ?rows \<and> r = ?rows ! m)))
      (\<lambda>_ u. quiet ?s u) ?s"
      by (rule wp_auto_route [of _ 0]) (use routed rows w ids' in simp_all)
    have ids2: "\<forall>x \<in> set (wf_transitions ?a). tr_id x < Suc (?i + length (wd_steps d))" using ids by auto
    have "wp (auto_route t ?i amt (instant (clk s)) (wd_steps d) ?rows)
      (\<lambda>waiting. wp (finish_submission (Some port) t ?i rt res who (instant (clk s)) ?rows waiting)
         (\<lambda>_ v. approvals_sound (next_id v) (approvals (work v)) \<and> quiet s v) (\<lambda>_ v. quiet s v)) (\<lambda>_ v. quiet s v) ?s"
    proof (rule wp_mono [OF route])
      fix waiting u
      assume u: "quiet ?s u \<and> (\<forall>x \<in> set (wf_transitions (approvals (work u))). tr_id x < next_id u) \<and>
         (\<exists>m. routed m ?rows ?w (approvals (work u)) \<and>
           (case waiting of None \<Rightarrow> m = length ?rows | Some r \<Rightarrow> m < length ?rows \<and> r = ?rows ! m))"
      then obtain m where m: "routed m ?rows ?w (approvals (work u))"
          "case waiting of None \<Rightarrow> m = length ?rows | Some r \<Rightarrow> m < length ?rows \<and> r = ?rows ! m" by blast
      show "wp (finish_submission (Some port) t ?i rt res who (instant (clk s)) ?rows waiting)
         (\<lambda>_ v. approvals_sound (next_id v) (approvals (work v)) \<and> quiet s v) (\<lambda>_ v. quiet s v) u"
        by (rule wp_mono [OF wp_finish [OF m(1) rows _ w(4,3) _ m(2)]])
          (use u fresh_rows_index in \<open>auto simp: quiet_def\<close>)
    qed (simp add: quiet_def)
    then show ?case using ids2
      by (simp add: wp_then wp_bind wp_record_transition w(2) wp_list_steps at [simplified] quiet_def)
  qed simp
qed

end


section \<open>Escalation\<close>

definition escalated :: "step_row \<Rightarrow> step_row" where
  "escalated r = r\<lparr>st_status := STEP_ESCALATED\<rparr>"

lemma escalated_simps [simp]:
  "st_id (escalated r) = st_id r" "st_tenant (escalated r) = st_tenant r" "st_instance (escalated r) = st_instance r"
  "st_index (escalated r) = st_index r" "st_status (escalated r) = STEP_ESCALATED" "st_decided_at (escalated r) = st_decided_at r"
  "in_place escalated" "undecided (escalated r)" "step_of t i (escalated r) = step_of t i r"
  by (simp_all add: escalated_def in_place_def undecided_def step_of_def)

text \<open>The steps an escalation may touch: pending only as the current step of a pending instance.\<close>

definition nudgeable :: "approval_tables \<Rightarrow> uuid \<Rightarrow> uuid \<Rightarrow> bool" where
  "nudgeable a t i \<longleftrightarrow> (\<forall>q \<in> set (wf_steps a). step_key t i q \<and> st_status q = STEP_PENDING \<longrightarrow>
     (\<exists>w \<in> set (wf_instances a). wi_status w = INSTANCE_PENDING \<and> step_of (wi_tenant w) (wi_id w) q \<and> st_index q = wi_current w))"

lemma staged_escalated:
  assumes "staged w rs" "wi_status w = INSTANCE_PENDING"
  shows "staged w (rs[wi_current w := escalated (rs ! wi_current w)])"
proof -
  have c: "wi_current w < length rs" "undecided (rs ! wi_current w)" "st_decided_at (rs ! wi_current w) = None"
    using assms by (auto simp: staged_def)
  have "\<forall>r \<in> set (rs[wi_current w := escalated (rs ! wi_current w)]). (st_decided_at r = None) = undecided r"
    using assms(1) c by (auto simp: staged_def all_set_conv_all_nth nth_list_update)
  then show ?thesis using assms c(1) by (simp add: staged_def)
qed

lemma approvals_escalated:
  assumes wf: "approvals_wf a" and q: "q \<in> set (wf_steps a)" "step_key t i q" "st_status q = STEP_PENDING" and n: "nudgeable a t i"
  defines "P \<equiv> \<lambda>r. step_key t i r \<and> st_status r = STEP_PENDING"
  shows "approvals_wf (a\<lparr>wf_steps := update_where P escalated (wf_steps a), wf_transitions := xs\<rparr>)" (is "approvals_wf ?a")
proof -
  note rows = approvals_rows [OF wf]
  from n q obtain w where w: "w \<in> set (wf_instances a)" "wi_status w = INSTANCE_PENDING" "step_of (wi_tenant w) (wi_id w) q"
      "st_index q = wi_current w" by (auto simp: nudgeable_def)
  then have "q \<in> set (steps_at w a)" using q by (simp add: steps_at_def set_steps_in)
  then obtain k where k: "k < length (steps_at w a)" "q = steps_at w a ! k" by (auto simp: set_conv_nth)
  with numbered_at [OF rows w(1) k(1)] w(4) have cur: "wi_current w < length (steps_at w a)" "q = steps_at w a ! wi_current w" by simp_all
  have P: "hits P q" using q by (auto simp: hits_def P_def step_key_def)
  have "staged v (steps_at v ?a)" if "v \<in> set (wf_instances a)" for v
    using steps_at_updated [OF rows w(1) cur that P escalated_simps(7), of xs] staged_at [OF wf that]
      staged_escalated [OF staged_at [OF wf w(1)] w(2)] cur(2) by simp
  then show ?thesis using rows_updated [OF rows w(1) cur P escalated_simps(7), of xs] by (simp add: approvals_wf_def)
qed

lemma nudgeable_escalated:
  "nudgeable a t j \<Longrightarrow> nudgeable (a\<lparr>wf_steps := update_where P escalated (wf_steps a), wf_transitions := xs\<rparr>) t j"
  by (auto simp: nudgeable_def set_update_where step_key_def)

lemma wp_escalate_step:
  assumes sound: "approvals_sound (next_id s) (approvals (work s))" and n: "\<forall>x \<in> set rs. nudgeable (approvals (work s)) t (st_id x)" "r \<in> set rs"
  shows "wp (escalate_step t now r)
    (\<lambda>_ u. approvals_sound (next_id u) (approvals (work u)) \<and> quiet s u \<and> (\<forall>x \<in> set rs. nudgeable (approvals (work u)) t (st_id x)))
    (\<lambda>_ u. quiet s u) s"
proof -
  let ?P = "\<lambda>q. step_key t (st_id r) q \<and> st_status q = STEP_PENDING"
  have esc: "(\<lambda>r. r\<lparr>st_status := STEP_ESCALATED\<rparr>) = escalated" by (simp add: escalated_def [abs_def])
  show ?thesis
  proof (cases "select_one ?P (wf_steps (approvals (work s)))")
    case None
    then have "update_where ?P escalated (wf_steps (approvals (work s))) = wf_steps (approvals (work s))"
      by (intro update_where_id) (auto simp: select_one_None)
    then show ?thesis using None sound n
      by (simp add: escalate_step_def mark_step_escalated_def guarded_step_update_def wp_simps esc)
  next
    case (Some q)
    then have q: "q \<in> set (wf_steps (approvals (work s)))" "step_key t (st_id r) q" "st_status q = STEP_PENDING"
      by (auto dest: select_one_SomeD)
    show ?thesis using Some sound n approvals_escalated [OF _ q] nudgeable_escalated [of "approvals (work s)" t]
      by (simp add: escalate_step_def mark_step_escalated_def guarded_step_update_def wp_simps esc wp_record_transition
          approvals_sound_def quiet_def less_Suc_eq)
  qed
qed


lemma overdue_nudgeable:
  assumes wf: "approvals_wf a" and r: "r \<in> set (wf_steps a)" and w: "w \<in> set (wf_instances a)" "overdue t now r w"
  shows "nudgeable a t (st_id r)"
  unfolding nudgeable_def
proof (intro ballI impI)
  fix q
  assume q: "q \<in> set (wf_steps a)" "step_key t (st_id r) q \<and> st_status q = STEP_PENDING"
  with w(2) have "q = r" using step_by_key [OF approvals_rows [OF wf] r q(1)] by (auto simp: overdue_def)
  then show "\<exists>w \<in> set (wf_instances a). wi_status w = INSTANCE_PENDING \<and> step_of (wi_tenant w) (wi_id w) q \<and> st_index q = wi_current w"
    using w by (auto simp: overdue_def step_of_def)
qed

lemma orderly_escalate: "orderly (escalate_overdue t limit)"
proof (rule orderlyI)
  fix s :: sess
  let ?a = "approvals (work s)" and ?now = "instant (clk s)"
  assume sound: "approvals_sound (next_id s) ?a"
  define rows where "rows = take limit (sort_key (\<lambda>r. case st_sla_due r of None \<Rightarrow> 0 | Some due \<Rightarrow> due)
    (concat (map (\<lambda>r. map (\<lambda>_. r) (filter (overdue t ?now r) (wf_instances ?a))) (wf_steps ?a))))"
  have "nudgeable ?a t (st_id r)" if "r \<in> set rows" for r
    using that overdue_nudgeable [of ?a r _ t ?now] sound unfolding rows_def by (auto simp: approvals_sound_def dest!: in_set_takeD)
  then have "wp (mapM (escalate_step t ?now) rows)
      (\<lambda>_ u. approvals_sound (next_id u) (approvals (work u)) \<and> quiet s u \<and> (\<forall>x \<in> set rows. nudgeable (approvals (work u)) t (st_id x)))
      (\<lambda>_ u. quiet s u) s"
    using sound
    by (intro wp_mapM_inv) (auto intro!: wp_mono [OF wp_escalate_step [where rs = rows]] intro: quiet_trans)
  then show "wp (escalate_overdue t limit) (\<lambda>_ u. approvals_sound (next_id u) (approvals (work u)) \<and> durable u = durable s \<and> next_id s \<le> next_id u)
     (\<lambda>_ u. durable u = durable s \<and> next_id s \<le> next_id u) s"
    by (auto simp: escalate_overdue_def list_overdue_steps_def wp_simps rows_def quiet_def elim!: wp_mono)
qed

section \<open>The other operations\<close>

named_theorems orderly_intros \<open>structural rules for operations that keep the approval tables in order\<close>

lemmas [orderly_intros] = orderly_bind orderly_escalate finance_module.orderly_submit finance_module.orderly_decide

lemma orderly_basic [orderly_intros]:
  "orderly (returnM a)" "orderly (raiseM e)" "orderly (requireM b e)" "orderly (getsM f)" "orderly (readM g)"
  "orderly (the_or_raise e x)" "orderly fresh_id" "orderly (complete_posting t user i y)"
  by (intro orderly_apart apart_intros)+

lemma orderly_checks [orderly_intros]:
  "orderly (read_approvals h)" "orderly (fits_column n txt)" "orderly (check_approvals c ok)"
  by (simp_all add: orderly_def wp_simps)

lemma orderly_result [orderly_intros]: "orderly (resultM r)"
  by (simp add: orderly_def wp_simps split: sum.split)

lemma orderly_then [orderly_intros]: "orderly m \<Longrightarrow> orderly k \<Longrightarrow> orderly (thenM m k)"
  by (simp add: thenM_def orderly_bind)

lemma orderly_if [orderly_intros]: "(b \<Longrightarrow> orderly m) \<Longrightarrow> (\<not> b \<Longrightarrow> orderly k) \<Longrightarrow> orderly (if b then m else k)"
  by simp

lemma orderly_option [orderly_intros]:
  "(x = None \<Longrightarrow> orderly m) \<Longrightarrow> (\<And>a. x = Some a \<Longrightarrow> orderly (f a)) \<Longrightarrow> orderly (case x of None \<Rightarrow> m | Some a \<Rightarrow> f a)"
  by (cases x) simp_all

lemma orderly_prod [orderly_intros]: "(\<And>a b. p = (a, b) \<Longrightarrow> orderly (f a b)) \<Longrightarrow> orderly (case p of (a, b) \<Rightarrow> f a b)"
  by (cases p) simp

lemma orderly_transition [orderly_intros]: "orderly (record_transition x)"
proof (rule orderlyI)
  fix s :: sess
  assume sound: "approvals_sound (next_id s) (approvals (work s))"
  then have "\<forall>x \<in> set (wf_transitions (approvals (work s))). tr_id x < next_id s" by (simp add: approvals_sound_def)
  with sound show "wp (record_transition x) (\<lambda>_ u. approvals_sound (next_id u) (approvals (work u)) \<and> durable u = durable s \<and> next_id s \<le> next_id u)
     (\<lambda>_ u. durable u = durable s \<and> next_id s \<le> next_id u) s"
    by (auto simp: wp_record_transition approvals_sound_def approvals_wf_def less_Suc_eq)
qed

text \<open>Definitions and delegations are not part of the order.\<close>

lemma orderly_beside:
  "(\<And>a. wf_instances (f a) = wf_instances a \<and> wf_steps (f a) = wf_steps a \<and> wf_transitions (f a) = wf_transitions a) \<Longrightarrow>
     orderly (write_approvals f)"
  by (simp add: orderly_def wp_simps approvals_sound_def approvals_wf_def rows_wf_def steps_at_def steps_in_def)

lemma orderly_definitions [orderly_intros]:
  "orderly (create_draft t name rt body)" "orderly (activate t i)" "orderly (retire t i)" "orderly (get_active t rt)"
  unfolding create_draft_def next_version_def activate_def retire_def get_definition_def get_active_def Let_def
  by (intro orderly_intros orderly_beside; simp)+

lemma orderly_delegations [orderly_intros]:
  "orderly (create_delegation t delegator delegate who now perm rt from_time to_time)" "orderly (revoke_delegation t i now)"
  unfolding create_delegation_def revoke_delegation_def Let_def by (intro orderly_intros orderly_beside; simp)+

lemma orderly_flags [orderly_intros]:
  "orderly (get_tenant_flag t k)" "orderly (approval_engine_enabled t)" "orderly (je_approval_engine_enabled t)"
  "orderly (payroll_approval_engine_enabled t)"
  unfolding je_approval_engine_enabled_def payroll_approval_engine_enabled_def approval_engine_enabled_def get_tenant_flag_def
  by (intro orderly_intros)+

lemma orderly_assignees [orderly_intros]: "orderly (step_assignee_ids t r)"
  unfolding step_assignee_ids_def resolve_role_members_def resolve_permission_members_def
  by (cases "st_kind r"; simp; intro orderly_intros)

lemma orderly_suggestion [orderly_intros]: "orderly (suggest_and_record ai t w r amt description allowed)"
  unfolding suggest_and_record_def Let_def by (intro orderly_intros)

lemma orderly_submit_for_posting [orderly_intros]: "orderly (submit_for_posting ai t user doc debits)"
  unfolding submit_for_posting_def nth_or_raise_def Let_def by (intro orderly_intros)

lemma orderly_post_journal_entry [orderly_intros]:
  "orderly (post_journal_entry (Some (submit_for_posting ai)) t user i)"
  unfolding post_journal_entry_def get_journal_entry_def get_journal_entry_row_def is_period_closed_def option.case
  by (intro orderly_intros)

end
