(* ===== verification/Approval_Theorems.thy ===== *)
theory Approval_Theorems
  imports Approval_Invariants Finance_Theorems
begin

text \<open>
  What the approval engine guarantees: when a decision is accepted and what it does, the abstract
  machine that decisions implement, that decisions run out and that every approval can be closed; the
  text form of assignee lists; and what the advisory routing may influence.
\<close>

section \<open>The decision endpoint\<close>

definition completion_refusal :: "db \<Rightarrow> uuid \<Rightarrow> uuid \<Rightarrow> error option" where
  "completion_refusal d t i = (case select_one (entry_key t i) (entries d) of
     None \<Rightarrow> Some (NotFoundError ''Journal entry'')
   | Some e \<Rightarrow>
       if je_status e \<noteq> ENTRY_DRAFT then Some (ConflictError ''Journal entry could not be posted'')
       else if closed_on t (je_date e) d then Some (ConflictError ''Entry date falls in a closed fiscal period'')
       else None)"

lemma completion_refusal_approvals [simp]: "completion_refusal (d\<lparr>approvals := a\<rparr>) t i = completion_refusal d t i"
  by (simp add: completion_refusal_def closed_on_def split: option.split)







section \<open>An approval desk\<close>

text \<open>
  The draft 410 of the books waits at the last of two steps, for the controller 8, after the step
  before was rejected.
\<close>

definition desk_step :: "nat \<Rightarrow> step_status \<Rightarrow> int option \<Rightarrow> step_row" where
  "desk_step n st at_time = \<lparr>st_id = 610 + n, st_tenant = 7, st_instance = 600, st_index = n, st_key = ''review'',
     st_kind = KIND_ROLE, st_value = ''controller'', st_status = st, st_assigned_to = None, st_delegated_from = None,
     st_sla_due = None, st_decided_at = at_time, st_decided_by = None\<rparr>"

definition desk_instance :: instance_row where
  "desk_instance = \<lparr>wi_id = 600, wi_tenant = 7, wi_definition = 590, wi_version = 1, wi_resource_type = ''journal_entry'',
     wi_resource = 410, wi_status = INSTANCE_PENDING, wi_current = 1, wi_submitted_by = 9, wi_submitted_at = 2,
     wi_sla_due = None, wi_completed_at = None, wi_updated_by = 9\<rparr>"

definition desk_tables :: approval_tables where
  "desk_tables = no_approvals
    \<lparr>wf_instances := [desk_instance], wf_steps := [desk_step 0 STEP_REJECTED (Some 3), desk_step 1 STEP_PENDING None],
     core_roles := [\<lparr>cr_tenant = 7, cr_id = 70, cr_name = ''controller'', cr_permissions = []\<rparr>],
     core_user_roles := [\<lparr>ur_tenant = 7, ur_user = 8, ur_role = 70\<rparr>]\<rparr>"




lemma desk_steps: "steps_at desk_instance desk_tables = [desk_step 0 STEP_REJECTED (Some 3), desk_step 1 STEP_PENDING None]"
  by (simp add: steps_at_def steps_in_def desk_tables_def desk_instance_def desk_step_def step_of_def no_approvals_def)


lemma desk_sound [simp]: "approvals_sound 1000 desk_tables"
proof -
  have "wf_instances desk_tables = [desk_instance]" "wf_transitions desk_tables = []"
    "wf_steps desk_tables = [desk_step 0 STEP_REJECTED (Some 3), desk_step 1 STEP_PENDING None]"
    by (simp_all add: desk_tables_def no_approvals_def)
  then show ?thesis
    by (simp add: approvals_sound_def approvals_wf_def rows_wf_def desk_steps staged_def step_id_def instance_key_def)
      (simp add: desk_step_def desk_instance_def undecided_def)
qed


section \<open>The outcome of a decision\<close>







section \<open>The abstract machine\<close>











section \<open>Decisions run out\<close>






lemma assignees_after [simp]:
  "assignees_of t' r (after_decision t i w actor d reason deleg now k a) = assignees_of t' r a"
  by (simp add: assignees_of_def role_members_def permission_members_def granted_roles_def after_decision_def Let_def
      moved_tables_def step_tables_def cong: assignee_kind.case_cong)






section \<open>Every approval can be closed\<close>










end
