(* ===== verification/Approval_Text.thy ===== *)
theory Approval_Text
  imports Approval_Theorems
begin

text \<open>
  The text form of assignee lists: \<open>assignee_value\<close> writes the users of a step into one column, and
  \<open>users_of_value\<close> reads them back. The column holds six of them.
\<close>

section \<open>Reading identifiers\<close>

definition hex_digits :: "char set" where
  "hex_digits = hex_char ` {..<16}"

lemma hex_digits_code: "hex_digits = set ''0123456789abcdef''"
  by (auto simp: hex_digits_def lessThan_nat_numeral lessThan_Suc hex_char_def char_of_def bit_0)

lemma set_hex_text: "set (hex_text k n) \<subseteq> hex_digits"
  by (induction k arbitrary: n) (auto simp: hex_digits_def)

lemma hex_value_char: "d < 16 \<Longrightarrow> hex_value (hex_char d) = Some d"
  by (simp add: hex_value_def lower_char_def hex_char_def Let_def)

lemma read_hex_append: "read_hex (xs @ [c]) =
    (case (read_hex xs, hex_value c) of (Some n, Some d) \<Rightarrow> Some (n * 16 + d) | _ \<Rightarrow> None)"
  by (simp add: read_hex_def)

lemma read_hex_text: "n < 16 ^ k \<Longrightarrow> read_hex (hex_text k n) = Some n"
proof (induction k arbitrary: n)
  case (Suc k)
  then have "n div 16 < 16 ^ k" by (simp add: less_mult_imp_div_less mult.commute)
  with Suc.IH show ?case by (simp add: read_hex_append hex_value_char)
qed (simp add: read_hex_def)

lemma set_canonical: "set (canonical_text u) \<subseteq> insert (CHR ''-'') hex_digits"
  using set_hex_text [of 32 u] by (auto simp: canonical_text_def Let_def dest!: in_set_takeD in_set_dropD)

lemma remove_absent: "hd pat \<notin> set xs \<Longrightarrow> pat \<noteq> [] \<Longrightarrow> remove_all pat xs = xs"
proof (induction pat xs rule: remove_all.induct)
  case (2 pat c cs)
  from 2(3,4) have "take (length pat) (c # cs) \<noteq> pat" by (cases pat) auto
  with 2 show ?case by auto
qed simp

lemma remove_dash: "remove_all ''-'' (xs @ ys) = remove_all ''-'' xs @ remove_all ''-'' ys"
  by (induction "''-''" xs rule: remove_all.induct) auto

lemma remove_dash_hex: "set xs \<subseteq> hex_digits \<Longrightarrow> remove_all ''-'' xs = xs"
  by (rule remove_absent) (auto simp: hex_digits_code)

lemma canonical_digits: "remove_all ''-'' (canonical_text u) = hex_text 32 u"
proof -
  let ?h = "hex_text 32 u"
  have sub: "remove_all ''-'' x = x" if "set x \<subseteq> set ?h" for x
    using that set_hex_text [of 32 u] by (intro remove_dash_hex) blast
  have parts: "take 8 ?h @ take 4 (drop 8 ?h) @ take 4 (drop 12 ?h) @ take 4 (drop 16 ?h) @ drop 20 ?h = ?h"
    using append_take_drop_id [of 8 ?h] append_take_drop_id [of 4 "drop 8 ?h"] append_take_drop_id [of 4 "drop 12 ?h"]
      append_take_drop_id [of 4 "drop 16 ?h"] by simp
  have subs: "set (take 8 ?h) \<subseteq> set ?h" "set (take 4 (drop 8 ?h)) \<subseteq> set ?h" "set (take 4 (drop 12 ?h)) \<subseteq> set ?h"
    "set (take 4 (drop 16 ?h)) \<subseteq> set ?h" "set (drop 20 ?h) \<subseteq> set ?h"
    by (auto dest: in_set_takeD in_set_dropD)
  show ?thesis unfolding canonical_text_def Let_def
    by (simp only: remove_dash sub [OF subs(1)] sub [OF subs(2)] sub [OF subs(3)] sub [OF subs(4)] sub [OF subs(5)])
      (simp add: parts)
qed

lemma read_uuid_text:
  assumes "u < 2 ^ 128"
  shows "read_uuid (uuid_text u) = Inr u"
proof -
  have chars: "set (canonical_text u) \<subseteq> insert (CHR ''-'') (set ''0123456789abcdef'')"
    using set_canonical unfolding hex_digits_code .
  then have no_u: "CHR ''u'' \<notin> set (canonical_text u)" by auto
  have no_brace: "\<not> brace c" if "c \<in> set (canonical_text u)" for c using chars that by (auto simp: brace_def)
  have keep: "remove_all ''uuid:'' (remove_all ''urn:'' (canonical_text u)) = canonical_text u"
    using no_u by (simp add: remove_absent)
  have "dropWhile brace xs = xs" if "set xs \<subseteq> set (canonical_text u)" for xs
    using that no_brace by (cases xs) auto
  then have inner: "rev (dropWhile brace (rev (dropWhile brace (canonical_text u)))) = canonical_text u" by simp
  show ?thesis using assms
    by (simp add: read_uuid_def uuid_text_def keep inner canonical_digits read_hex_text Let_def)
qed


section \<open>Lists of users\<close>

lemma split_on_word: "c \<notin> set x \<Longrightarrow> split_on c x = [x]"
  by (induction x) auto

lemma split_on_append: "c \<notin> set x \<Longrightarrow> split_on c (x @ c # y) = x # split_on c y"
  by (induction x) auto

lemma split_join:
  assumes "\<And>x. x \<in> set xs \<Longrightarrow> c \<notin> set x" "xs \<noteq> []"
  shows "split_on c (join_with [c] xs) = xs"
  using assms by (induction "[c]" xs rule: join_with.induct) (simp_all add: split_on_word split_on_append)

lemma length_join:
  "(\<And>x. x \<in> set xs \<Longrightarrow> length x = n) \<Longrightarrow> length (join_with [c] xs) = Suc n * length xs - 1"
proof (induction "[c]" xs rule: join_with.induct)
  case (3 x y xs)
  then have "length (join_with [c] (y # xs)) = Suc n * length (y # xs) - 1" "length x = n" by simp_all
  then show ?case by (simp add: algebra_simps)
qed simp_all

lemma map_result_map: "(\<And>x. x \<in> set xs \<Longrightarrow> f (g x) = Inr x) \<Longrightarrow> map_result f (map g xs) = Inr xs"
  by (induction xs) simp_all

lemma length_uuid_text: "u < 2 ^ 128 \<Longrightarrow> length (uuid_text u) = 36"
  by (simp add: uuid_text_canonical canonical_text_def Let_def)

lemma no_comma: "u < 2 ^ 128 \<Longrightarrow> CHR '','' \<notin> set (uuid_text u)"
  using set_canonical [of u] by (auto simp: uuid_text_canonical hex_digits_code)

lemma read_users:
  assumes "\<forall>u \<in> set us. u < 2 ^ 128"
  shows "users_of_value (join_with '','' (map uuid_text us)) = Inr us"
proof (cases "us = []")
  case True
  then show ?thesis by (simp add: users_of_value_def)
next
  case False
  with assms have "split_on (CHR '','') (join_with '','' (map uuid_text us)) = map uuid_text us"
    by (intro split_join) (auto simp: no_comma)
  moreover have "filter (\<lambda>p. p \<noteq> []) (map uuid_text us) = map uuid_text us"
    using assms length_uuid_text by (fastforce simp: filter_id_conv)
  ultimately show ?thesis using assms by (simp add: users_of_value_def map_result_map read_uuid_text)
qed

text \<open>
  C29. The users of a step survive the column they are stored in: the text \<open>assignee_value\<close> writes for
  them is read back as the same users in the same order, by the engine and by the inbox.
\<close>

theorem assignee_list_roundtrip:
  assumes "ws_assignee x = UserListAssignee us" "\<forall>u \<in> set us. u < 2 ^ 128"
  shows "assignees_of t (new_step t i n k (step_spec_of now x)) a = Inr us \<and>
    is_direct_assignee t who a (new_step t i n k (step_spec_of now x)) = Inr (who \<in> set us)"
  using read_users [OF assms(2)] assms(1)
  by (simp add: assignees_of_def is_direct_assignee_def new_step_def step_spec_of_def assignee_value_def)

definition two_users :: workflow_step where
  "two_users = \<lparr>ws_key = ''review'', ws_assignee = UserListAssignee [8, 9], ws_routing = DETERMINISTIC, ws_auto_approval = None,
     ws_sla = None, ws_delegation_allowed = True\<rparr>"

lemma assignee_list_roundtrip_witness:
  "assignees_of 7 (new_step 7 600 0 610 (step_spec_of 0 two_users)) no_approvals = Inr [8, 9]"
  using assignee_list_roundtrip [of two_users "[8, 9]" 7 600 0 610 0 no_approvals 8] by (simp add: two_users_def)

section \<open>The width of the column\<close>

lemma user_list_length:
  assumes "ws_assignee x = UserListAssignee us" "us \<noteq> []" "\<forall>u \<in> set us. u < 2 ^ 128"
  shows "length (snd (assignee_value x)) = 37 * length us - 1"
proof -
  have "length (join_with '','' (map uuid_text us)) = Suc 36 * length (map uuid_text us) - 1"
    by (rule length_join) (use assms(3) length_uuid_text in auto)
  then show ?thesis using assms(1) by (simp add: assignee_value_def)
qed

lemma wp_checks_long:
  assumes "\<exists>r \<in> set rows. 255 < length (st_value r)" "\<And>e. E e s"
  shows "wp (forM step_checks rows) Q E s"
  using assms by (induction rows) (auto simp: wp_simps step_checks_def)

lemma fresh_rows_values: "map st_value (fresh_rows t i n k xs) = map (\<lambda>x. fst (snd (snd x))) xs"
  by (induction xs arbitrary: n k) (auto simp: new_step_def split: prod.split)

lemma wp_submit_long:
  assumes "x \<in> set (wd_steps d)" "255 < length (snd (assignee_value x))" "\<And>e u. durable u = durable s \<Longrightarrow> E e u"
  shows "wp (submit port t d def rt res amt who) Q E s"
proof -
  let ?rows = "fresh_rows t (next_id s) 0 (Suc (next_id s)) (map (step_spec_of (instant (clk s))) (wd_steps d))"
  have "length (snd (assignee_value x)) \<in> set (map length (map st_value ?rows))"
    unfolding fresh_rows_values using assms(1) by (auto simp: step_spec_of_def)
  then have "\<exists>r \<in> set ?rows. 255 < length (st_value r)" using assms(2) by auto
  then show ?thesis unfolding submit_def create_instance_def insert_steps_def Let_def
    by (auto simp: wp_bind wp_then wp_gets wp_fresh wp_fits_column wp_check_approvals wp_write_approvals wp_new_rows
        intro!: wp_checks_long assms(3))
qed


text \<open>A tenant that routes its journal entries through the engine, and the definition it uses.\<close>

definition flag_on :: "uuid \<Rightarrow> string \<Rightarrow> approval_tables \<Rightarrow> bool" where
  "flag_on t k a \<longleftrightarrow> (case select_one (setting_of t k) (tenant_settings a) of
     None \<Rightarrow> False | Some x \<Rightarrow> lower (strip (ts_value x)) \<in> set [''true'', ''1'', ''yes'', ''on''])"

definition engine_routes :: "uuid \<Rightarrow> approval_tables \<Rightarrow> bool" where
  "engine_routes t a \<longleftrightarrow> flag_on t ''approval_engine_enabled'' a \<and> flag_on t ''je_approval_engine'' a"

lemma wp_engine_enabled: "wp (je_approval_engine_enabled t) Q E s = Q (engine_routes t (approvals (work s))) s"
  by (simp add: je_approval_engine_enabled_def approval_engine_enabled_def get_tenant_flag_def wp_simps engine_routes_def
      flag_on_def)

text \<open>
  C30. The column for a step's assignees holds six users: with a longer list on any step of the active
  definition, no journal entry of the tenant can be posted any more, each attempt is an error
  without effect.
\<close>

theorem long_user_lists_block_posting:
  assumes "engine_routes t (approvals (durable s))"
    and "select_one (active_definition t ''journal_entry'') (wf_definitions (approvals (durable s))) = Some r"
    and "x \<in> set (wd_steps (df_body r))" "ws_assignee x = UserListAssignee us" "\<forall>u \<in> set us. u < 2 ^ 128" "6 < length us"
  shows "outcome (run_request (post_journal_entry (Some (submit_for_posting ai)) t user i) s)
    (\<lambda>_ _. False) (\<lambda>_ u. durable u = durable s)"
proof (rule outcomeI)
  from assms(4-6) have long: "255 < length (snd (assignee_value x))" by (subst user_list_length) auto
  note submit = wp_submit_long [OF assms(3) long]
  show "wp (post_journal_entry (Some (submit_for_posting ai)) t user i) (\<lambda>a u. False)
      (\<lambda>e u. durable (rollback_state u) = durable s) (begin_state s)"
    using assms(1,2)
    by (auto simp: post_journal_entry_def get_journal_entry_def get_journal_entry_row_def is_period_closed_def submit_for_posting_def
        wp_simps wp_engine_enabled get_active_def Let_def split: option.split prod.split intro!: submit)
qed


text \<open>A definition with seven users, for the books.\<close>

definition seven_users :: workflow_step where
  "seven_users = two_users\<lparr>ws_assignee := UserListAssignee [8, 9, 10, 11, 12, 13, 14]\<rparr>"

definition crowded_tables :: approval_tables where
  "crowded_tables = no_approvals
    \<lparr>wf_definitions := [\<lparr>df_id = 590, df_tenant = 7, df_name = ''all'', df_resource_type = ''journal_entry'', df_version = 1,
       df_body = \<lparr>wd_name = ''all'', wd_resource_type = ''journal_entry'', wd_version = 1, wd_steps = [seven_users]\<rparr>,
       df_status = DEF_ACTIVE\<rparr>],
     tenant_settings := [\<lparr>ts_tenant = 7, ts_key = ''approval_engine_enabled'', ts_value = ''true''\<rparr>,
       \<lparr>ts_tenant = 7, ts_key = ''je_approval_engine'', ts_value = '' On ''\<rparr>]\<rparr>"

definition crowded :: sess where
  "crowded = books\<lparr>work := books_db\<lparr>approvals := crowded_tables\<rparr>, durable := books_db\<lparr>approvals := crowded_tables\<rparr>\<rparr>"

lemma crowded_routes: "engine_routes 7 crowded_tables"
  by code_simp

lemma long_user_lists_block_posting_witness:
  "\<exists>e u. run_request (post_journal_entry (Some (submit_for_posting None)) 7 8 410) crowded = (Inl e, u) \<and> durable u = durable crowded"
proof -
  have "select_one (active_definition 7 ''journal_entry'') (wf_definitions crowded_tables) = Some (hd (wf_definitions crowded_tables))"
    "seven_users \<in> set (wd_steps (df_body (hd (wf_definitions crowded_tables))))"
    by (simp_all add: crowded_tables_def active_definition_def definition_family_def)
  then show ?thesis
    using long_user_lists_block_posting [of 7 crowded "hd (wf_definitions crowded_tables)" seven_users "[8, 9, 10, 11, 12, 13, 14]" None 8 410]
      crowded_routes
    by (cases "run_request (post_journal_entry (Some (submit_for_posting None)) 7 8 410) crowded")
      (auto simp: crowded_def outcome_def seven_users_def split: sum.splits)
qed

end
