(* ===== verification/Approval_Advice.thy ===== *)
theory Approval_Advice
  imports Approval_Text
begin

text \<open>
  What the AI service may influence, and what the inbox shows: the answer of the service ends up in one
  audit transition and nowhere else; the inbox lists steps by their own state, not by whose turn it is.
\<close>

section \<open>Advice\<close>

definition advice :: "transition_row list \<Rightarrow> bool" where
  "advice xs \<longleftrightarrow> (\<forall>x \<in> set xs. tr_actor_type x = ACTOR_AI_SUGGESTION)"

definition with_transitions :: "transition_row list \<Rightarrow> db \<Rightarrow> db" where
  "with_transitions xs d = d\<lparr>approvals := (approvals d)\<lparr>wf_transitions := wf_transitions (approvals d) @ xs\<rparr>\<rparr>"

text \<open>Two runs of one operation, with and without advice.\<close>

definition advised :: "'a service \<Rightarrow> 'a service \<Rightarrow> bool" where
  "advised m m0 \<longleftrightarrow> (\<forall>s. approvals_sound (next_id s) (approvals (work s)) \<longrightarrow>
     (case m0 s of
        (Inl e, u0) \<Rightarrow> m s = (Inl e, u0)
      | (Inr a, u0) \<Rightarrow> \<exists>xs n. advice xs \<and> m s = (Inr a, u0\<lparr>work := with_transitions xs (work u0), next_id := n\<rparr>)))"

lemma advisedD:
  "advised m m0 \<Longrightarrow> approvals_sound (next_id s) (approvals (work s)) \<Longrightarrow>
     (case m0 s of
        (Inl e, u0) \<Rightarrow> m s = (Inl e, u0)
      | (Inr a, u0) \<Rightarrow> \<exists>xs n. advice xs \<and> m s = (Inr a, u0\<lparr>work := with_transitions xs (work u0), next_id := n\<rparr>))"
  by (simp add: advised_def)

named_theorems advised_intros \<open>structural rules for operations that only differ in their advice\<close>

lemma no_advice: "u\<lparr>work := with_transitions [] (work u), next_id := next_id u\<rparr> = u"
  by (cases u) (simp add: with_transitions_def)

lemma advised_refl [advised_intros]: "advised m m"
  unfolding advised_def
proof (intro allI impI)
  fix s :: sess
  obtain r u where "m s = (r, u)" by (cases "m s")
  moreover have "\<exists>xs n. advice xs \<and> (Inr a, u) = (Inr a, u\<lparr>work := with_transitions xs (work u), next_id := n\<rparr>)" for a
    by (rule exI [of _ "[]"], rule exI [of _ "next_id u"]) (simp add: no_advice advice_def)
  ultimately show "case m s of (Inl e, u0) \<Rightarrow> m s = (Inl e, u0)
      | (Inr a, u0) \<Rightarrow> \<exists>xs n. advice xs \<and> m s = (Inr a, u0\<lparr>work := with_transitions xs (work u0), next_id := n\<rparr>)"
    by (cases r) simp_all
qed

lemma advised_bind [advised_intros]:
  assumes "orderly m" "\<And>a. advised (f a) (f0 a)"
  shows "advised (bindM m f) (bindM m f0)"
  unfolding advised_def
proof (intro allI impI)
  fix s :: sess
  assume sound: "approvals_sound (next_id s) (approvals (work s))"
  obtain r u where run: "m s = (r, u)" by (cases "m s")
  show "case bindM m f0 s of (Inl e, u0) \<Rightarrow> bindM m f s = (Inl e, u0)
      | (Inr a, u0) \<Rightarrow> \<exists>xs n. advice xs \<and> bindM m f s = (Inr a, u0\<lparr>work := with_transitions xs (work u0), next_id := n\<rparr>)"
  proof (cases r)
    case (Inl e)
    with run show ?thesis by (simp add: bindM_def)
  next
    case (Inr a)
    with run have "m s = (Inr a, u)" by simp
    from wpD [OF orderlyD [OF assms(1) sound] this] have "approvals_sound (next_id u) (approvals (work u))" by simp
    with assms(2) [of a] have "case f0 a u of (Inl e, u0) \<Rightarrow> f a u = (Inl e, u0)
        | (Inr b, u0) \<Rightarrow> \<exists>xs n. advice xs \<and> f a u = (Inr b, u0\<lparr>work := with_transitions xs (work u0), next_id := n\<rparr>)"
      by (rule advisedD)
    moreover from run Inr have "bindM m f s = f a u" "bindM m f0 s = f0 a u" by (simp_all add: bindM_def)
    ultimately show ?thesis by (simp only:)
  qed
qed

lemma advised_if [advised_intros]:
  "(b \<Longrightarrow> advised m m0) \<Longrightarrow> (\<not> b \<Longrightarrow> advised k k0) \<Longrightarrow> advised (if b then m else k) (if b then m0 else k0)"
  by simp

lemma advised_prod [advised_intros]:
  "(\<And>a b. p = (a, b) \<Longrightarrow> advised (f a b) (f0 a b)) \<Longrightarrow> advised (case p of (a, b) \<Rightarrow> f a b) (case p of (a, b) \<Rightarrow> f0 a b)"
  by (cases p) simp

lemma advised_then [advised_intros]: "orderly m \<Longrightarrow> advised k k0 \<Longrightarrow> advised (thenM m k) (thenM m k0)"
  by (simp add: thenM_def advised_bind)

text \<open>The answer of an operation dropped, another returned.\<close>

lemma advised_dropped [advised_intros]:
  assumes "advised m m0"
  shows "advised (thenM m (returnM c)) (thenM m0 (returnM c))"
  unfolding advised_def
proof (intro allI impI)
  fix s :: sess
  assume sound: "approvals_sound (next_id s) (approvals (work s))"
  from advisedD [OF assms sound]
  show "case thenM m0 (returnM c) s of (Inl e, u0) \<Rightarrow> thenM m (returnM c) s = (Inl e, u0)
      | (Inr a, u0) \<Rightarrow> \<exists>xs n. advice xs \<and> thenM m (returnM c) s = (Inr a, u0\<lparr>work := with_transitions xs (work u0), next_id := n\<rparr>)"
    by (fastforce simp: thenM_def bindM_def returnM_def split: prod.splits sum.splits)
qed

lemma advised_suggestion [advised_intros]:
  "advised (thenM (suggest_and_record ai t w r amt description allowed) (returnM ()))
     (thenM (suggest_and_record None t w r amt description allowed) (returnM ()))"
  unfolding advised_def
proof (intro allI impI)
  fix s :: sess
  assume sound: "approvals_sound (next_id s) (approvals (work s))"
  then have ids: "\<forall>x \<in> set (wf_transitions (approvals (work s))). tr_id x < next_id s" by (simp add: approvals_sound_def)
  have none: "thenM (suggest_and_record None t w r amt description allowed) (returnM ()) s = (Inr (), s)"
    by (simp add: suggest_and_record_def thenM_def bindM_def returnM_def)
  have silent: "\<exists>xs n. advice xs \<and> s = s\<lparr>work := with_transitions xs (work s), next_id := n\<rparr>"
    by (rule exI [of _ "[]"], rule exI [of _ "next_id s"]) (simp add: no_advice advice_def)
  have spoken: "\<exists>xs n. advice xs \<and> s\<lparr>work := (work s)\<lparr>approvals := (approvals (work s))
      \<lparr>wf_transitions := wf_transitions (approvals (work s)) @ [x]\<rparr>\<rparr>, next_id := k\<rparr> =
      s\<lparr>work := with_transitions xs (work s), next_id := n\<rparr>" if "tr_actor_type x = ACTOR_AI_SUGGESTION" for x k
    by (rule exI [of _ "[x]"], rule exI [of _ k]) (simp add: advice_def with_transitions_def that)
  have "wp (thenM (suggest_and_record ai t w r amt description allowed) (returnM ()))
      (\<lambda>a u. \<exists>xs n. advice xs \<and> u = s\<lparr>work := with_transitions xs (work s), next_id := n\<rparr>) (\<lambda>_ _. False) s"
  proof (cases ai)
    case None
    with silent show ?thesis by (simp add: suggest_and_record_def wp_simps)
  next
    case (Some ask)
    note asked = this
    show ?thesis
    proof (cases "Option.bind (ask (wi_resource_type w) (wi_resource w) amt description) routing_suggestion")
      case None
      with silent asked show ?thesis by (simp add: suggest_and_record_def wp_simps)
    next
      case (Some g)
      with asked spoken show ?thesis
        by (simp add: suggest_and_record_def wp_simps Let_def wp_record_transition [OF ids] transition_def)
    qed
  qed
  from wp_returns [OF this] obtain a u where
    "thenM (suggest_and_record ai t w r amt description allowed) (returnM ()) s = (Inr a, u)"
    "\<exists>xs n. advice xs \<and> u = s\<lparr>work := with_transitions xs (work s), next_id := n\<rparr>" by blast
  then show "case thenM (suggest_and_record None t w r amt description allowed) (returnM ()) s of
      (Inl e, u0) \<Rightarrow> thenM (suggest_and_record ai t w r amt description allowed) (returnM ()) s = (Inl e, u0)
    | (Inr a, u0) \<Rightarrow> \<exists>xs n. advice xs \<and> thenM (suggest_and_record ai t w r amt description allowed) (returnM ()) s =
        (Inr a, u0\<lparr>work := with_transitions xs (work u0), next_id := n\<rparr>)"
    unfolding none by auto
qed

lemma advised_submit_for_posting [advised_intros]:
  "advised (submit_for_posting ai t user doc debits) (submit_for_posting None t user doc debits)"
  unfolding submit_for_posting_def nth_or_raise_def Let_def
  by (intro advised_intros orderly_intros)

lemma advised_post_journal_entry:
  "advised (post_journal_entry (Some (submit_for_posting ai)) t user i) (post_journal_entry (Some (submit_for_posting None)) t user i)"
  unfolding post_journal_entry_def get_journal_entry_def get_journal_entry_row_def is_period_closed_def option.case
  by (intro advised_intros orderly_intros)

lemma advised_request:
  assumes "advised m m0" "approvals_sound (next_id s) (approvals (durable s))"
  shows "\<exists>xs. advice xs \<and> fst (run_request m s) = fst (run_request m0 s) \<and>
    durable (snd (run_request m s)) = with_transitions xs (durable (snd (run_request m0 s)))"
proof -
  have run: "run_request k s = (case k (begin_state s) of (Inr a, t) \<Rightarrow> (Inr a, commit_state t) | (Inl e, t) \<Rightarrow> (Inl e, rollback_state t))"
    for k :: "'a service" by (simp add: run_request_def begin_state_def)
  obtain r u where run0: "m0 (begin_state s) = (r, u)" by (cases "m0 (begin_state s)")
  have "approvals_sound (next_id (begin_state s)) (approvals (work (begin_state s)))" using assms(2) by simp
  note both = advisedD [OF assms(1) this]
  show ?thesis
  proof (cases r)
    case (Inl e)
    with both run0 have "m (begin_state s) = (Inl e, u)" by simp
    moreover have "advice [] \<and> d = with_transitions [] d" for d by (simp add: advice_def with_transitions_def)
    ultimately show ?thesis using run0 Inl by (auto simp: run)
  next
    case (Inr a)
    with both run0 obtain xs n where "advice xs" "m (begin_state s) = (Inr a, u\<lparr>work := with_transitions xs (work u), next_id := n\<rparr>)"
      by auto
    with run0 Inr show ?thesis by (auto simp: run)
  qed
qed

text \<open>
  C31. Whatever the AI service answers to a submission for posting, a timeout included, the request
  has the same answer and leaves the same database as without the service, but for transitions of
  the suggestion actor appended to the audit trail: no assignee, status, entry or balance can depend
  on the suggestion.
\<close>

theorem advice_only_appends_to_the_trail:
  assumes "approvals_sound (next_id s) (approvals (durable s))"
  shows "\<exists>xs. (\<forall>x \<in> set xs. tr_actor_type x = ACTOR_AI_SUGGESTION) \<and>
    fst (run_request (post_journal_entry (Some (submit_for_posting ai)) t user i) s) =
      fst (run_request (post_journal_entry (Some (submit_for_posting None)) t user i) s) \<and>
    durable (snd (run_request (post_journal_entry (Some (submit_for_posting ai)) t user i) s)) =
      with_transitions xs (durable (snd (run_request (post_journal_entry (Some (submit_for_posting None)) t user i) s)))"
  using advised_request [OF advised_post_journal_entry assms] by (simp add: advice_def)

definition advised_tables :: approval_tables where
  "advised_tables = crowded_tables\<lparr>wf_definitions := [\<lparr>df_id = 590, df_tenant = 7, df_name = ''pair'',
     df_resource_type = ''journal_entry'', df_version = 1,
     df_body = \<lparr>wd_name = ''pair'', wd_resource_type = ''journal_entry'', wd_version = 1,
       wd_steps = [two_users\<lparr>ws_routing := AI_ASSISTED\<rparr>]\<rparr>, df_status = DEF_ACTIVE\<rparr>]\<rparr>"

definition advised_books :: sess where
  "advised_books = books\<lparr>work := books_db\<lparr>approvals := advised_tables\<rparr>, durable := books_db\<lparr>approvals := advised_tables\<rparr>\<rparr>"

definition usual_amount :: ai_routing where
  "usual_amount rt i amt description = Some \<lparr>ab_recommendation = ''Approve'', ab_confidence = Some (9 / 10), ab_reasoning = ''usual amount'',
     ab_model_used = ''m'', ab_suggested = None\<rparr>"

lemma advice_only_appends_to_the_trail_witness:
  "\<exists>xs. (\<forall>x \<in> set xs. tr_actor_type x = ACTOR_AI_SUGGESTION) \<and>
    durable (snd (run_request (post_journal_entry (Some (submit_for_posting (Some usual_amount))) 7 8 410) advised_books)) =
      with_transitions xs (durable (snd (run_request (post_journal_entry (Some (submit_for_posting None)) 7 8 410) advised_books)))"
proof -
  have "approvals_sound (next_id advised_books) (approvals (durable advised_books))"
    by (simp add: advised_books_def advised_tables_def crowded_tables_def no_approvals_def approvals_sound_def approvals_wf_def rows_wf_def)
  from advice_only_appends_to_the_trail [OF this, of "Some usual_amount" 7 8 410] show ?thesis by blast
qed

end
