(* ===== verification/Calendar.thy ===== *)
theory Calendar
  imports Skyrict_Prelude
begin

text \<open>
  Dates of Python's \<open>datetime\<close>: a date is its proleptic Gregorian ordinal (\<open>date.toordinal()\<close>), so the
  difference of two dates is a difference of numbers. The year, the day of the year
  (\<open>timetuple().tm_yday\<close>) and the first of a month are computed the way the library computes them.
\<close>

definition days_before_year :: "int \<Rightarrow> int" where
  "days_before_year y = (let x = y - 1 in x * 365 + x div 4 - x div 100 + x div 400)"

definition leap_year :: "int \<Rightarrow> bool" where
  "leap_year y \<longleftrightarrow> y mod 4 = 0 \<and> (y mod 100 \<noteq> 0 \<or> y mod 400 = 0)"

text \<open>\<open>_ord2ymd\<close>, up to the year: cycles of 400, 100, 4 and 1 years.\<close>

definition year_of :: "date \<Rightarrow> int" where
  "year_of d =
     (let n = d - 1; n400 = n div 146097; n = n mod 146097;
          n100 = n div 36524; n = n mod 36524;
          n4 = n div 1461; n = n mod 1461;
          n1 = n div 365;
          y = n400 * 400 + n100 * 100 + n4 * 4 + n1 + 1 in
      if n1 = 4 \<or> n100 = 4 then y - 1 else y)"

definition day_of_year :: "date \<Rightarrow> int" where
  "day_of_year d = d - days_before_year (year_of d)"

text \<open>The split of a day number into its cycles.\<close>

lemma year_cycles:
  fixes a b c e :: int
  assumes "0 \<le> b" "b \<le> 3" "0 \<le> c" "c \<le> 24" "0 \<le> e" "e \<le> 3"
  shows "days_before_year (a * 400 + b * 100 + c * 4 + e + 1) = a * 146097 + b * 36524 + c * 1461 + e * 365"
proof -
  have "(a * 400 + b * 100 + c * 4 + e) div 4 = a * 100 + b * 25 + c"
    by (rule int_div_pos_eq [where r = e]) (use assms in simp_all)
  moreover have "(a * 400 + b * 100 + c * 4 + e) div 100 = a * 4 + b"
    by (rule int_div_pos_eq [where r = "c * 4 + e"]) (use assms in simp_all)
  moreover have "(a * 400 + b * 100 + c * 4 + e) div 400 = a"
    by (rule int_div_pos_eq [where r = "b * 100 + c * 4 + e"]) (use assms in simp_all)
  ultimately show ?thesis by (simp add: days_before_year_def)
qed

text \<open>One year more is 365 days, or 366.\<close>

lemma div_pred:
  fixes y n :: int
  assumes "0 < n"
  shows "y div n = (y - 1) div n + (if n dvd y then 1 else 0)"
proof (cases "n dvd y")
  case True
  then obtain k where "y = n * k" by (rule dvdE)
  moreover have "(n * k - 1) div n = k - 1"
    by (rule int_div_pos_eq [where r = "n - 1"]) (use assms in \<open>simp_all add: algebra_simps\<close>)
  ultimately show ?thesis using assms True by simp
next
  case False
  then have "y mod n \<noteq> 0" by (simp add: dvd_eq_mod_eq_0)
  then have "1 \<le> y mod n" using assms pos_mod_sign [of n y] by linarith
  moreover have "y - 1 = n * (y div n) + (y mod n - 1)" by simp
  moreover have "y mod n < n" using assms by simp
  ultimately have "(y - 1) div n = y div n" by (intro int_div_pos_eq [where r = "y mod n - 1"]) simp_all
  with False show ?thesis by simp
qed

lemma days_before_year_step: "days_before_year (y + 1) = days_before_year y + (if leap_year y then 366 else 365)"
proof -
  have "4 dvd y" if "100 dvd y" using that by (rule dvd_trans [rotated]) simp
  moreover have "100 dvd y" if "400 dvd y" using that by (rule dvd_trans [rotated]) simp
  moreover have "leap_year y \<longleftrightarrow> 4 dvd y \<and> (\<not> 100 dvd y \<or> 400 dvd y)"
    by (simp add: leap_year_def mod_eq_0_iff_dvd)
  moreover have "days_before_year (y + 1) - days_before_year y =
      365 + (if 4 dvd y then 1 else 0) - (if 100 dvd y then 1 else 0) + (if 400 dvd y then 1 else 0)"
    using div_pred [of 4 y] div_pred [of 100 y] div_pred [of 400 y] unfolding days_before_year_def Let_def by simp
  ultimately show ?thesis by (cases "4 dvd y"; cases "100 dvd y"; cases "400 dvd y") simp_all
qed

lemma days_before_year_mono: "x \<le> y \<Longrightarrow> days_before_year x \<le> days_before_year y"
proof (induction y rule: int_ge_induct)
  case (step y)
  then show ?case using days_before_year_step [of y] by (simp split: if_splits)
qed simp

lemma year_of_bounds: "days_before_year (year_of d) < d \<and> d \<le> days_before_year (year_of d + 1)"
proof -
  define a n where "a = (d - 1) div 146097" and "n = (d - 1) mod 146097"
  define b m where "b = n div 36524" and "m = n mod 36524"
  define c k where "c = m div 1461" and "k = m mod 1461"
  define e r where "e = k div 365" and "r = k mod 365"
  have d: "d = a * 146097 + n + 1" unfolding a_def n_def by (simp add: mult.commute)
  have n: "n = b * 36524 + m" "0 \<le> n" "n < 146097" unfolding b_def m_def n_def by simp_all
  have m: "m = c * 1461 + k" "0 \<le> m" "m < 36524" unfolding c_def k_def m_def by simp_all
  have k: "k = e * 365 + r" "0 \<le> k" "k < 1461" "0 \<le> r" "r < 365" unfolding e_def r_def k_def by simp_all
  have b: "0 \<le> b" "b \<le> 4" using n m by linarith+
  have c: "0 \<le> c" "c \<le> 24" using m k by linarith+
  have e: "0 \<le> e" "e \<le> 4" using k by linarith+
  have y: "year_of d = (if e = 4 \<or> b = 4 then a * 400 + b * 100 + c * 4 + e else a * 400 + b * 100 + c * 4 + e + 1)"
    by (simp add: year_of_def Let_def a_def n_def b_def m_def c_def k_def e_def)
  consider "b = 4" | "b \<noteq> 4" "e = 4" | "b \<noteq> 4" "e \<noteq> 4" by blast
  then show ?thesis
  proof cases
    case 1
    with n m have m0: "m = 0" by linarith
    with m k c have "c = 0" "k = 0" by linarith+
    with k e have "e = 0" "r = 0" by linarith+
    with 1 \<open>c = 0\<close> have "year_of d = a * 400 + 3 * 100 + 24 * 4 + 3 + 1" using y by simp
    moreover have "days_before_year (a * 400 + 3 * 100 + 24 * 4 + 3 + 1) = a * 146097 + 3 * 36524 + 24 * 1461 + 3 * 365"
      by (rule year_cycles) simp_all
    moreover have "days_before_year ((a + 1) * 400 + 0 * 100 + 0 * 4 + 0 + 1) = (a + 1) * 146097 + 0 * 36524 + 0 * 1461 + 0 * 365"
      by (rule year_cycles) simp_all
    ultimately show ?thesis using d n(1) 1 m0 by (simp add: algebra_simps)
  next
    case 2
    then have r0: "r = 0" using k by linarith
    have y': "year_of d = a * 400 + b * 100 + c * 4 + 3 + 1" using y 2 by simp
    have here: "days_before_year (a * 400 + b * 100 + c * 4 + 3 + 1) = a * 146097 + b * 36524 + c * 1461 + 3 * 365"
      using 2 b c by (intro year_cycles) simp_all
    have "c \<noteq> 24" using 2 m k by linarith
    then have "days_before_year (a * 400 + b * 100 + (c + 1) * 4 + 0 + 1) = a * 146097 + b * 36524 + (c + 1) * 1461 + 0 * 365"
      using 2 b c by (intro year_cycles) simp_all
    moreover have "year_of d + 1 = a * 400 + b * 100 + (c + 1) * 4 + 0 + 1" using y' by simp
    ultimately show ?thesis using d n(1) m(1) k(1) r0 2 unfolding y' here by simp
  next
    case 3
    then have y': "year_of d = a * 400 + b * 100 + c * 4 + e + 1" using y by simp
    have here: "days_before_year (a * 400 + b * 100 + c * 4 + e + 1) = a * 146097 + b * 36524 + c * 1461 + e * 365"
      using 3 b c e by (intro year_cycles) simp_all
    show ?thesis using here days_before_year_step [of "year_of d"] y' d n(1) m(1) k by (simp split: if_splits)
  qed
qed

lemma day_of_year_bounds: "1 \<le> day_of_year d" "day_of_year d \<le> 366"
  using year_of_bounds [of d] days_before_year_step [of "year_of d"] by (auto simp: day_of_year_def split: if_splits)

text \<open>The year of a date is the only one whose days enclose it.\<close>

lemma year_of_unique: "days_before_year y < d \<Longrightarrow> d \<le> days_before_year (y + 1) \<Longrightarrow> year_of d = y"
  using year_of_bounds [of d] days_before_year_mono [of "year_of d + 1" y] days_before_year_mono [of "y + 1" "year_of d"]
  by linarith

lemma year_of_mono: "c \<le> d \<Longrightarrow> year_of c \<le> year_of d"
  using year_of_bounds [of c] year_of_bounds [of d] days_before_year_mono [of "year_of d + 1" "year_of c"] by linarith

text \<open>Months: \<open>_DAYS_BEFORE_MONTH\<close>, and the first day of the month of a date.\<close>

definition month_starts :: "int \<Rightarrow> int list" where
  "month_starts y = (let x = (if leap_year y then 1 else 0) in
     [0, 31, 59 + x, 90 + x, 120 + x, 151 + x, 181 + x, 212 + x, 243 + x, 273 + x, 304 + x, 334 + x])"

definition month_of :: "date \<Rightarrow> int" where
  "month_of d = int (length (filter (\<lambda>m. m < day_of_year d) (month_starts (year_of d))))"

definition first_of_month :: "int \<Rightarrow> int \<Rightarrow> date" where
  "first_of_month y m = days_before_year y + month_starts y ! nat (m - 1) + 1"

end
