(* ===== verification/Hr_Repository.thy ===== *)
theory Hr_Repository
  imports Approval_Repository Calendar
begin

text \<open>
  \<open>features/hr/repository.py\<close>: departments, employees, the leave catalogue and policy, the leave ledger
  with its materialized balances, leave requests, compensation and attendance. A foreign key, a
  unique key, a check and the width of a column are checked where the statement is flushed, in the
  order the server checks them for one row: width, checks, unique keys, foreign keys.
\<close>

section \<open>Access to the tables of people\<close>

definition read_people :: "(people_tables \<Rightarrow> 'a) \<Rightarrow> 'a service" where
  "read_people f = readM (\<lambda>d. f (people d))"

definition write_people :: "(people_tables \<Rightarrow> people_tables) \<Rightarrow> unit service" where
  "write_people f = writeM (\<lambda>d. d\<lparr>people := f (people d)\<rparr>)"

definition check_people :: "string \<Rightarrow> (people_tables \<Rightarrow> bool) \<Rightarrow> unit service" where
  "check_people name ok = check_constraint name (\<lambda>d. ok (people d))"

text \<open>A 32-bit \<open>Integer\<close> column, and an optional text column.\<close>

definition fits_integer :: "int \<Rightarrow> unit service" where
  "fits_integer n = requireM (- (2 ^ 31) \<le> n \<and> n < 2 ^ 31) DataError"

definition fits_optional :: "nat \<Rightarrow> string option \<Rightarrow> unit service" where
  "fits_optional n x = (case x of None \<Rightarrow> returnM () | Some s \<Rightarrow> fits_column n s)"

lemma wp_read_people [wp_simps]: "wp (read_people f) Q E s = Q (f (people (work s))) s"
  by (simp add: read_people_def wp_simps)

lemma wp_write_people [wp_simps]:
  "wp (write_people f) Q E s = Q () (s\<lparr>work := (work s)\<lparr>people := f (people (work s))\<rparr>\<rparr>)"
  by (simp add: write_people_def wp_simps)

lemma wp_check_people [wp_simps]:
  "wp (check_people c ok) Q E s = (if ok (people (work s)) then Q () s else E (IntegrityError c) s)"
  by (simp add: check_people_def wp_simps)

lemma wp_fits_integer [wp_simps]:
  "wp (fits_integer n) Q E s = (if - (2 ^ 31) \<le> n \<and> n < 2 ^ 31 then Q () s else E DataError s)"
  by (simp add: fits_integer_def wp_simps)

lemma wp_fits_optional [wp_simps]:
  "wp (fits_optional n x) Q E s = (case x of None \<Rightarrow> Q () s | Some y \<Rightarrow> if length y \<le> n then Q () s else E DataError s)"
  by (simp add: fits_optional_def wp_simps split: option.split)

section \<open>Departments\<close>

definition department_key :: "uuid \<Rightarrow> uuid \<Rightarrow> department \<Rightarrow> bool" where
  "department_key t i r \<longleftrightarrow> dp_tenant r = t \<and> dp_id r = i"

definition employee_key :: "uuid \<Rightarrow> uuid \<Rightarrow> employee \<Rightarrow> bool" where
  "employee_key t i r \<longleftrightarrow> em_tenant r = t \<and> em_id r = i"

definition manager_known :: "department \<Rightarrow> people_tables \<Rightarrow> bool" where
  "manager_known r p \<longleftrightarrow> (case dp_manager r of None \<Rightarrow> True
     | Some i \<Rightarrow> \<exists>e \<in> set (employees p). employee_key (dp_tenant r) i e)"

definition create_department :: "department \<Rightarrow> department service" where
  "create_department r =
     thenM (fits_column 100 (dp_name r))
     (thenM (check_people ''erp_departments_pkey''
         (\<lambda>p. \<forall>q \<in> set (departments p). \<not> department_key (dp_tenant r) (dp_id r) q))
     (thenM (check_people ''uq_erp_departments_tenant_name''
         (\<lambda>p. \<forall>q \<in> set (departments p). \<not> (dp_tenant q = dp_tenant r \<and> dp_name q = dp_name r)))
     (thenM (check_people ''fk_erp_departments_manager_employee'' (manager_known r))
     (thenM (write_people (\<lambda>p. p\<lparr>departments := departments p @ [r]\<rparr>))
     (returnM r)))))"

definition get_department :: "uuid \<Rightarrow> uuid \<Rightarrow> department option service" where
  "get_department t i = read_people (\<lambda>p. select_one (department_key t i) (departments p))"

definition update_department :: "department \<Rightarrow> department service" where
  "update_department r =
     bindM (get_department (dp_tenant r) (dp_id r)) (\<lambda>found.
     bindM (the_or_raise ValueError found) (\<lambda>old.
     thenM (fits_column 100 (dp_name r))
     (thenM (check_people ''uq_erp_departments_tenant_name''
         (\<lambda>p. \<forall>q \<in> set (departments p). \<not> (dp_tenant q = dp_tenant r \<and> dp_name q = dp_name r \<and> dp_id q \<noteq> dp_id r)))
     (thenM (check_people ''fk_erp_departments_manager_employee'' (manager_known r))
     (thenM (write_people (\<lambda>p. p\<lparr>departments := update_where (department_key (dp_tenant r) (dp_id r)) (\<lambda>_. r) (departments p)\<rparr>))
     (returnM r))))))"

definition list_departments :: "uuid \<Rightarrow> bool \<Rightarrow> department list service" where
  "list_departments t include_inactive = readM (\<lambda>d. sort_key (\<lambda>r. collation d (dp_name r))
     (filter (\<lambda>r. dp_tenant r = t \<and> (include_inactive \<or> dp_active r)) (departments (people d))))"

section \<open>Employees\<close>

text \<open>The entity the repository builds from a row carries no bank details.\<close>

definition hr_view :: "employee \<Rightarrow> employee" where
  "hr_view r = r\<lparr>em_bank_account := None, em_bank_name := None\<rparr>"

definition employee_widths :: "employee \<Rightarrow> unit service" where
  "employee_widths r =
     thenM (fits_column 20 (em_number r))
     (thenM (fits_column 100 (em_first r))
     (thenM (fits_column 100 (em_last r))
     (thenM (fits_optional 254 (em_email r))
     (thenM (fits_optional 32 (em_phone r))
     (fits_column 100 (em_title r))))))"

definition termination_dated :: "employee \<Rightarrow> bool" where
  "termination_dated r \<longleftrightarrow> em_status r \<noteq> EMPLOYEE_TERMINATED \<or> em_terminated r \<noteq> None"

definition department_known :: "employee \<Rightarrow> people_tables \<Rightarrow> bool" where
  "department_known r p \<longleftrightarrow> (case em_department r of None \<Rightarrow> True
     | Some i \<Rightarrow> \<exists>q \<in> set (departments p). department_key (em_tenant r) i q)"

definition create_employee :: "employee \<Rightarrow> employee service" where
  "create_employee e = (let r = hr_view e in
     thenM (employee_widths r)
     (thenM (check_people ''ck_erp_employees_termination_required'' (\<lambda>_. termination_dated r))
     (thenM (check_people ''erp_employees_pkey''
         (\<lambda>p. \<forall>q \<in> set (employees p). \<not> employee_key (em_tenant r) (em_id r) q))
     (thenM (check_people ''uq_erp_employees_tenant_number''
         (\<lambda>p. \<forall>q \<in> set (employees p). \<not> (em_tenant q = em_tenant r \<and> em_number q = em_number r)))
     (thenM (check_people ''fk_erp_employees_department'' (department_known r))
     (thenM (write_people (\<lambda>p. p\<lparr>employees := employees p @ [r]\<rparr>))
     (returnM r)))))))"

definition get_employee :: "uuid \<Rightarrow> uuid \<Rightarrow> employee option service" where
  "get_employee t i = read_people (\<lambda>p. map_option hr_view (select_one (employee_key t i) (employees p)))"

text \<open>The update sets every column but the bank details.\<close>

definition update_employee :: "employee \<Rightarrow> employee service" where
  "update_employee r =
     bindM (get_employee (em_tenant r) (em_id r)) (\<lambda>found.
     bindM (the_or_raise ValueError found) (\<lambda>old.
     thenM (employee_widths r)
     (thenM (check_people ''ck_erp_employees_termination_required'' (\<lambda>_. termination_dated r))
     (thenM (check_people ''uq_erp_employees_tenant_number''
         (\<lambda>p. \<forall>q \<in> set (employees p). \<not> (em_tenant q = em_tenant r \<and> em_number q = em_number r \<and> em_id q \<noteq> em_id r)))
     (thenM (check_people ''fk_erp_employees_department'' (department_known r))
     (thenM (write_people (\<lambda>p. p\<lparr>employees := update_where (employee_key (em_tenant r) (em_id r))
         (\<lambda>q. r\<lparr>em_bank_account := em_bank_account q, em_bank_name := em_bank_name q\<rparr>) (employees p)\<rparr>))
     (returnM (hr_view r))))))))"

text \<open>\<open>ILIKE '%q%'\<close> for a pattern without wildcards: containment, ignoring case.\<close>

fun contains :: "string \<Rightarrow> string \<Rightarrow> bool" where
  "contains pat [] = (pat = [])"
| "contains pat (c # cs) = (take (length pat) (c # cs) = pat \<or> contains pat cs)"

definition matches_text :: "string \<Rightarrow> employee \<Rightarrow> bool" where
  "matches_text q r \<longleftrightarrow> (\<exists>x \<in> set [em_first r, em_last r, em_number r]. contains (lower q) (lower x))"

definition descending :: "('r \<Rightarrow> 'k::linorder) \<Rightarrow> 'r list \<Rightarrow> 'r list" where
  "descending f rows = rev (sort_key f (rev rows))"

definition list_employees ::
  "uuid \<Rightarrow> employment_status list option \<Rightarrow> uuid option \<Rightarrow> string option \<Rightarrow> nat \<Rightarrow> nat \<Rightarrow> employee list service" where
  "list_employees t statuses dept q limit offset = readM (\<lambda>d.
     let rows = filter (\<lambda>r. em_tenant r = t \<and>
           (case statuses of None \<Rightarrow> True | Some xs \<Rightarrow> xs = [] \<or> em_status r \<in> set xs) \<and>
           (case dept of None \<Rightarrow> True | Some i \<Rightarrow> em_department r = Some i) \<and>
           (case q of None \<Rightarrow> True | Some x \<Rightarrow> x = [] \<or> matches_text x r)) (employees (people d));
         numbered = descending (\<lambda>r. collation d (em_number r)) rows;
         dated = (if statuses = Some [EMPLOYEE_TERMINATED]
           then descending (\<lambda>r. case em_terminated r of None \<Rightarrow> 0 | Some x \<Rightarrow> x) numbered
           else descending em_hired numbered) in
     map hr_view (page offset limit dated))"

section \<open>Leave types and policy\<close>

definition leave_type_key :: "uuid \<Rightarrow> string \<Rightarrow> leave_type \<Rightarrow> bool" where
  "leave_type_key t c r \<longleftrightarrow> lt_tenant r = t \<and> lt_code r = c"

definition get_leave_type :: "uuid \<Rightarrow> string \<Rightarrow> leave_type option service" where
  "get_leave_type t c = read_people (\<lambda>p. select_one (leave_type_key t c) (leave_types p))"

definition list_leave_types :: "uuid \<Rightarrow> leave_type list service" where
  "list_leave_types t = readM (\<lambda>d. sort_key (\<lambda>r. collation d (lt_code r))
     (filter (\<lambda>r. lt_tenant r = t) (leave_types (people d))))"

definition accrual_codes :: "uuid \<Rightarrow> db \<Rightarrow> string list" where
  "accrual_codes t d = sort_key (collation d)
     (map lt_code (filter (\<lambda>r. lt_tenant r = t \<and> lt_accrual r) (leave_types (people d))))"

definition list_accrual_leave_types :: "uuid \<Rightarrow> string list service" where
  "list_accrual_leave_types t = readM (accrual_codes t)"

definition get_leave_policy :: "uuid \<Rightarrow> leave_policy option service" where
  "get_leave_policy t = read_people (\<lambda>p. select_one (\<lambda>r. lp_tenant r = t) (leave_policies p))"

definition upsert_leave_policy :: "leave_policy \<Rightarrow> leave_policy service" where
  "upsert_leave_policy r =
     thenM (fits_integer (lp_casual r))
     (thenM (fits_integer (lp_sick r))
     (bindM (get_leave_policy (lp_tenant r)) (\<lambda>found. case found of
        None \<Rightarrow> thenM (write_people (\<lambda>p. p\<lparr>leave_policies := leave_policies p @ [r]\<rparr>)) (returnM r)
      | Some old \<Rightarrow>
          let new = old\<lparr>lp_casual := lp_casual r, lp_sick := lp_sick r, lp_from := lp_from r\<rparr> in
          thenM (write_people (\<lambda>p. p\<lparr>leave_policies := update_where (\<lambda>q. lp_tenant q = lp_tenant r) (\<lambda>_. new) (leave_policies p)\<rparr>))
          (returnM new))))"

section \<open>The leave ledger\<close>

definition bucket_of :: "uuid \<Rightarrow> uuid \<Rightarrow> string \<Rightarrow> leave_movement \<Rightarrow> bool" where
  "bucket_of t e c m \<longleftrightarrow> lm_tenant m = t \<and> lm_employee m = e \<and> lm_type m = c"

definition balance_key :: "uuid \<Rightarrow> uuid \<Rightarrow> string \<Rightarrow> leave_balance \<Rightarrow> bool" where
  "balance_key t e c b \<longleftrightarrow> lb_tenant b = t \<and> lb_employee b = e \<and> lb_type b = c"

definition leave_sum :: "uuid \<Rightarrow> uuid \<Rightarrow> string \<Rightarrow> people_tables \<Rightarrow> int" where
  "leave_sum t e c p = sum_list (map lm_qty (filter (bucket_of t e c) (leave_movements p)))"

definition employee_known :: "uuid \<Rightarrow> uuid \<Rightarrow> people_tables \<Rightarrow> bool" where
  "employee_known t i p \<longleftrightarrow> (\<exists>e \<in> set (employees p). employee_key t i e)"

definition leave_type_known :: "uuid \<Rightarrow> string \<Rightarrow> people_tables \<Rightarrow> bool" where
  "leave_type_known t c p \<longleftrightarrow> (\<exists>r \<in> set (leave_types p). leave_type_key t c r)"

definition add_leave_movement :: "leave_movement \<Rightarrow> leave_movement service" where
  "add_leave_movement m =
     thenM (fits_integer (lm_qty m))
     (thenM (fits_optional 255 (lm_reason m))
     (thenM (check_people ''erp_leave_movements_pkey''
         (\<lambda>p. \<forall>q \<in> set (leave_movements p). \<not> (lm_tenant q = lm_tenant m \<and> lm_id q = lm_id m)))
     (thenM (check_people ''fk_erp_leave_movements_employee'' (employee_known (lm_tenant m) (lm_employee m)))
     (thenM (check_people ''fk_erp_leave_movements_leave_type'' (leave_type_known (lm_tenant m) (lm_type m)))
     (thenM (write_people (\<lambda>p. p\<lparr>leave_movements := leave_movements p @ [m]\<rparr>))
     (returnM m))))))"

definition list_leave_movements :: "uuid \<Rightarrow> uuid \<Rightarrow> string option \<Rightarrow> leave_movement list service" where
  "list_leave_movements t e c = read_people (\<lambda>p. sort_key lm_at (filter (\<lambda>m. lm_tenant m = t \<and> lm_employee m = e \<and>
     (case c of None \<Rightarrow> True | Some x \<Rightarrow> lm_type m = x)) (leave_movements p)))"

definition recompute_balance :: "uuid \<Rightarrow> uuid \<Rightarrow> string \<Rightarrow> int service" where
  "recompute_balance t e c = read_people (leave_sum t e c)"

definition balance_references :: "uuid \<Rightarrow> uuid \<Rightarrow> string \<Rightarrow> unit service" where
  "balance_references t e c =
     thenM (check_people ''fk_erp_leave_balances_employee'' (employee_known t e))
       (check_people ''fk_erp_leave_balances_leave_type'' (leave_type_known t c))"

text \<open>
  The row lock: the bucket's balance row is seeded with zero where it is missing. (The lock itself
  orders concurrent requests, which run one after the other here.)
\<close>

definition lock_leave_balance :: "uuid \<Rightarrow> uuid \<Rightarrow> string \<Rightarrow> unit service" where
  "lock_leave_balance t e c =
     bindM fresh_id (\<lambda>i.
     bindM (read_people (\<lambda>p. select_one (balance_key t e c) (leave_balances p))) (\<lambda>found. case found of
        Some _ \<Rightarrow> returnM ()
      | None \<Rightarrow>
          thenM (balance_references t e c)
          (write_people (\<lambda>p. p\<lparr>leave_balances := leave_balances p @
            [\<lparr>lb_id = i, lb_tenant = t, lb_employee = e, lb_type = c, lb_balance = 0\<rparr>]\<rparr>))))"

definition upsert_balance :: "leave_balance \<Rightarrow> leave_balance service" where
  "upsert_balance b = (let t = lb_tenant b; e = lb_employee b; c = lb_type b in
     thenM (fits_integer (lb_balance b))
     (thenM (check_people ''ck_erp_leave_balances_non_negative'' (\<lambda>_. 0 \<le> lb_balance b))
     (bindM (read_people (\<lambda>p. select_one (balance_key t e c) (leave_balances p))) (\<lambda>found. case found of
        Some old \<Rightarrow>
          thenM (write_people (\<lambda>p. p\<lparr>leave_balances := update_where (balance_key t e c)
            (\<lambda>q. q\<lparr>lb_balance := lb_balance b\<rparr>) (leave_balances p)\<rparr>))
          (returnM (old\<lparr>lb_balance := lb_balance b\<rparr>))
      | None \<Rightarrow>
          thenM (balance_references t e c)
          (thenM (write_people (\<lambda>p. p\<lparr>leave_balances := leave_balances p @ [b]\<rparr>))
          (returnM b))))))"

definition list_balances :: "uuid \<Rightarrow> uuid \<Rightarrow> leave_balance list service" where
  "list_balances t e = readM (\<lambda>d. sort_key (\<lambda>b. collation d (lb_type b))
     (filter (\<lambda>b. lb_tenant b = t \<and> lb_employee b = e) (leave_balances (people d))))"

text \<open>
  The accrual of one year is granted once; the probe is repeated under the lock. (The probe's
  \<open>scalar_one_or_none\<close> sees at most one row: only this operation writes rows of type \<open>accrual\<close>.)
\<close>

definition granted :: "leave_movement \<Rightarrow> people_tables \<Rightarrow> bool" where
  "granted m p \<longleftrightarrow> (\<exists>q \<in> set (leave_movements p). bucket_of (lm_tenant m) (lm_employee m) (lm_type m) q \<and>
     lm_ref_type q = ''accrual'' \<and> lm_ref_id q = lm_ref_id m)"

definition accrue_leave_movement :: "leave_movement \<Rightarrow> leave_movement option service" where
  "accrue_leave_movement m = (let t = lm_tenant m; e = lm_employee m; c = lm_type m in
     bindM (read_people (granted m)) (\<lambda>before. if before then returnM None else
     thenM (lock_leave_balance t e c)
     (bindM (read_people (granted m)) (\<lambda>again. if again then returnM None else
     thenM (add_leave_movement m)
     (bindM (recompute_balance t e c) (\<lambda>new.
     bindM fresh_id (\<lambda>i.
     thenM (upsert_balance \<lparr>lb_id = i, lb_tenant = t, lb_employee = e, lb_type = c, lb_balance = new\<rparr>)
     (returnM (Some m)))))))))"

section \<open>Leave requests\<close>

definition leave_request_key :: "uuid \<Rightarrow> uuid \<Rightarrow> leave_request \<Rightarrow> bool" where
  "leave_request_key t i r \<longleftrightarrow> lr_tenant r = t \<and> lr_id r = i"

definition create_leave_request :: "leave_request \<Rightarrow> leave_request service" where
  "create_leave_request r =
     thenM (fits_integer (lr_days r))
     (thenM (fits_optional 500 (lr_reason r))
     (thenM (check_people ''erp_leave_requests_pkey''
         (\<lambda>p. \<forall>q \<in> set (leave_requests p). \<not> leave_request_key (lr_tenant r) (lr_id r) q))
     (thenM (check_people ''fk_erp_leave_requests_employee'' (employee_known (lr_tenant r) (lr_employee r)))
     (thenM (check_people ''fk_erp_leave_requests_leave_type'' (leave_type_known (lr_tenant r) (lr_type r)))
     (thenM (write_people (\<lambda>p. p\<lparr>leave_requests := leave_requests p @ [r]\<rparr>))
     (returnM r))))))"

definition get_leave_request :: "uuid \<Rightarrow> uuid \<Rightarrow> leave_request option service" where
  "get_leave_request t i = read_people (\<lambda>p. select_one (leave_request_key t i) (leave_requests p))"

definition moved_request :: "leave_status \<Rightarrow> uuid option \<Rightarrow> int option \<Rightarrow> leave_request \<Rightarrow> leave_request" where
  "moved_request st who at_time r = r\<lparr>lr_status := st,
     lr_approved_by := (if who = None then lr_approved_by r else who),
     lr_approved_at := (if at_time = None then lr_approved_at r else at_time)\<rparr>"

definition transition_leave_status ::
  "uuid \<Rightarrow> uuid \<Rightarrow> leave_status \<Rightarrow> leave_status \<Rightarrow> uuid option \<Rightarrow> int option \<Rightarrow> leave_request option service" where
  "transition_leave_status t i from_st to_st who at_time =
     (let guard = (\<lambda>r. leave_request_key t i r \<and> lr_status r = from_st) in
     bindM (read_people (\<lambda>p. select_one guard (leave_requests p))) (\<lambda>found.
     thenM (write_people (\<lambda>p. p\<lparr>leave_requests := update_where guard (moved_request to_st who at_time) (leave_requests p)\<rparr>))
     (returnM (map_option (moved_request to_st who at_time) found))))"

definition list_leave_requests ::
  "uuid \<Rightarrow> leave_status option \<Rightarrow> uuid option \<Rightarrow> date option \<Rightarrow> date option \<Rightarrow> nat \<Rightarrow> nat \<Rightarrow> leave_request list service" where
  "list_leave_requests t st e from_d to_d limit offset = read_people (\<lambda>p. page offset limit (descending lr_created
     (filter (\<lambda>r. lr_tenant r = t \<and> (case st of None \<Rightarrow> True | Some x \<Rightarrow> lr_status r = x) \<and>
       (case e of None \<Rightarrow> True | Some x \<Rightarrow> lr_employee r = x) \<and>
       (case from_d of None \<Rightarrow> True | Some x \<Rightarrow> x \<le> lr_start r) \<and>
       (case to_d of None \<Rightarrow> True | Some x \<Rightarrow> lr_end r \<le> x)) (leave_requests p))))"

text \<open>\<open>approved_unpaid_days\<close>: the read payroll is granted.\<close>

definition approved_unpaid :: "uuid \<Rightarrow> uuid \<Rightarrow> date \<Rightarrow> date \<Rightarrow> leave_request \<Rightarrow> bool" where
  "approved_unpaid t e a b r \<longleftrightarrow> lr_tenant r = t \<and> lr_employee r = e \<and> lr_type r = ''unpaid'' \<and>
     lr_status r = LEAVE_APPROVED \<and> lr_start r \<le> b \<and> a \<le> lr_end r"

definition unpaid_days :: "uuid \<Rightarrow> uuid \<Rightarrow> date \<Rightarrow> date \<Rightarrow> people_tables \<Rightarrow> int" where
  "unpaid_days t e a b p = sum_list (map (\<lambda>r. max (min (lr_end r) b - max (lr_start r) a + 1) 0)
     (filter (approved_unpaid t e a b) (leave_requests p)))"

definition approved_unpaid_days :: "uuid \<Rightarrow> uuid \<Rightarrow> date \<Rightarrow> date \<Rightarrow> int service" where
  "approved_unpaid_days t e a b = read_people (unpaid_days t e a b)"

section \<open>Compensation\<close>

definition compensation_slot :: "compensation \<Rightarrow> compensation \<Rightarrow> bool" where
  "compensation_slot r q \<longleftrightarrow> co_tenant q = co_tenant r \<and> co_employee q = co_employee r \<and> co_from q = co_from r"

definition create_compensation :: "compensation \<Rightarrow> compensation service" where
  "create_compensation c = (let r = c\<lparr>co_salary := numeric 4 (co_salary c)\<rparr> in
     thenM (check_people ''erp_compensation_pkey''
         (\<lambda>p. \<forall>q \<in> set (compensations p). \<not> (co_tenant q = co_tenant r \<and> co_id q = co_id r)))
     (thenM (check_people ''uq_erp_compensation_employee_effective''
         (\<lambda>p. \<forall>q \<in> set (compensations p). \<not> compensation_slot r q))
     (thenM (check_people ''fk_erp_compensation_employee'' (employee_known (co_tenant r) (co_employee r)))
     (thenM (write_people (\<lambda>p. p\<lparr>compensations := compensations p @ [r]\<rparr>))
     (returnM r)))))"

text \<open>\<open>ORDER BY effective_from DESC LIMIT 1\<close> among the active rows effective by the day.\<close>

definition effective_compensation :: "uuid \<Rightarrow> uuid \<Rightarrow> date \<Rightarrow> people_tables \<Rightarrow> compensation option" where
  "effective_compensation t e day p =
     (case descending co_from (filter (\<lambda>r. co_tenant r = t \<and> co_employee r = e \<and> co_active r \<and> co_from r \<le> day)
         (compensations p)) of [] \<Rightarrow> None | r # _ \<Rightarrow> Some r)"

definition get_compensation :: "uuid \<Rightarrow> uuid \<Rightarrow> date \<Rightarrow> compensation option service" where
  "get_compensation t e day = read_people (effective_compensation t e day)"

section \<open>Attendance\<close>

definition attendance_key :: "uuid \<Rightarrow> uuid \<Rightarrow> date \<Rightarrow> attendance_record \<Rightarrow> bool" where
  "attendance_key t e day r \<longleftrightarrow> at_tenant r = t \<and> at_employee r = e \<and> at_date r = day"

definition upsert_attendance_record :: "attendance_record \<Rightarrow> attendance_record service" where
  "upsert_attendance_record r = (let key = attendance_key (at_tenant r) (at_employee r) (at_date r) in
     thenM (fits_optional 500 (at_note r))
     (bindM (read_people (\<lambda>p. select_one key (attendance p))) (\<lambda>found. case found of
        Some old \<Rightarrow>
          let new = old\<lparr>at_status := at_status r, at_impact := at_impact r, at_note := at_note r\<rparr> in
          thenM (write_people (\<lambda>p. p\<lparr>attendance := update_where key (\<lambda>_. new) (attendance p)\<rparr>)) (returnM new)
      | None \<Rightarrow>
          thenM (check_people ''fk_erp_attendance_records_employee'' (employee_known (at_tenant r) (at_employee r)))
          (thenM (write_people (\<lambda>p. p\<lparr>attendance := attendance p @ [r]\<rparr>)) (returnM r)))))"

definition get_attendance_record :: "uuid \<Rightarrow> uuid \<Rightarrow> date \<Rightarrow> attendance_record option service" where
  "get_attendance_record t e day = read_people (\<lambda>p. select_one (attendance_key t e day) (attendance p))"

definition list_attendance_with_employee ::
  "uuid \<Rightarrow> uuid option \<Rightarrow> attendance_status option \<Rightarrow> date option \<Rightarrow> date option \<Rightarrow> nat \<Rightarrow> nat \<Rightarrow>
   (attendance_record \<times> string \<times> string \<times> string) list service" where
  "list_attendance_with_employee t e st from_d to_d limit offset = read_people (\<lambda>p. page offset limit
     (descending (\<lambda>x. at_date (fst x)) (descending (\<lambda>x. at_created (fst x))
       (concat (map (\<lambda>r. map (\<lambda>q. (r, em_first q, em_last q, em_number q))
           (filter (\<lambda>q. em_tenant q = at_tenant r \<and> em_id q = at_employee r) (employees p)))
         (filter (\<lambda>r. at_tenant r = t \<and> (case e of None \<Rightarrow> True | Some x \<Rightarrow> at_employee r = x) \<and>
           (case st of None \<Rightarrow> True | Some x \<Rightarrow> at_status r = x) \<and>
           (case from_d of None \<Rightarrow> True | Some x \<Rightarrow> x \<le> at_date r) \<and>
           (case to_d of None \<Rightarrow> True | Some x \<Rightarrow> at_date r \<le> x)) (attendance p)))))))"

end
