(* ===== verification/Payroll_Compute.thy ===== *)
theory Payroll_Compute
  imports Hr_Repository
begin

text \<open>
  The pure part of payroll: \<open>PayrollCompute\<close> of \<open>features/payroll/service.py\<close> (paid days, one entry's
  amounts, a run's totals), the taxonomies of \<open>skip_reasons.py\<close> and \<open>void_reasons.py\<close>, and what they
  guarantee.
\<close>

section \<open>Paid days\<close>

definition overlap_days :: "date \<Rightarrow> date \<Rightarrow> date \<Rightarrow> date \<Rightarrow> int" where
  "overlap_days start_a end_a start_b end_b = max (min end_a end_b - max start_a start_b + 1) 0"

definition pay_days :: "date \<Rightarrow> date \<Rightarrow> date option \<Rightarrow> date option \<Rightarrow> int \<Rightarrow> int" where
  "pay_days start end hired terminated unpaid =
     (let days_in_period = end - start + 1;
          early = (case hired of None \<Rightarrow> 0
            | Some h \<Rightarrow> if start < h then overlap_days start end start (h - 1) else 0);
          late = (case terminated of None \<Rightarrow> 0
            | Some x \<Rightarrow> if x < end then overlap_days start end (x + 1) end else 0) in
      max (days_in_period - (early + late + max unpaid 0)) 0)"

text \<open>What the days stand for: the days of the period on which the employee is employed.\<close>

definition employed_on :: "date option \<Rightarrow> date option \<Rightarrow> date \<Rightarrow> bool" where
  "employed_on hired terminated d \<longleftrightarrow> (case hired of None \<Rightarrow> True | Some h \<Rightarrow> h \<le> d) \<and>
     (case terminated of None \<Rightarrow> True | Some x \<Rightarrow> d \<le> x)"

section \<open>Rounding\<close>

text \<open>\<open>_round_mode\<close>: the settings' rounding as the integer rounding of \<open>Decimal.quantize\<close>.\<close>

definition round_mode :: "payroll_rounding \<Rightarrow> decimal \<Rightarrow> int" where
  "round_mode mode = (case mode of ROUND_NEAREST \<Rightarrow> round_half_up | ROUND_UP \<Rightarrow> ceiling | ROUND_DOWN \<Rightarrow> floor)"

definition quantize_mode :: "payroll_rounding \<Rightarrow> nat \<Rightarrow> decimal \<Rightarrow> error + decimal" where
  "quantize_mode mode digits x =
     (let r = of_int (round_mode mode (x * 10 ^ digits)) / 10 ^ digits in
      if \<bar>r\<bar> * 10 ^ digits < 10 ^ 28 then Inr r else Inl InvalidOperation)"

text \<open>\<open>Money.rounded\<close> with the payroll's mode.\<close>

definition payroll_round :: "payroll_rounding \<Rightarrow> money \<Rightarrow> error + money" where
  "payroll_round mode m = (case quantize_mode mode 2 (amount m) of Inl e \<Rightarrow> Inl e | Inr a \<Rightarrow> Money a (currency m))"

section \<open>Adjustments\<close>

text \<open>
  \<open>Decimal(str(x))\<close> of an adjustment's amount. The numerals are the ones of Python's decimal module
  over ASCII digits: blanks around and underscores are dropped, then a sign, digits with an optional
  point, and an optional exponent; the names of the non-finite values are the other texts it takes.
\<close>

datatype parsed = Number decimal | NonFinite | Malformed

definition is_digit :: "char \<Rightarrow> bool" where
  "is_digit c \<longleftrightarrow> 48 \<le> (of_char c :: nat) \<and> (of_char c :: nat) \<le> 57"

definition split_sign :: "string \<Rightarrow> int \<times> string" where
  "split_sign s = (case s of [] \<Rightarrow> (1, [])
     | c # cs \<Rightarrow> if c = CHR ''-'' then (-1, cs) else if c = CHR ''+'' then (1, cs) else (1, s))"

definition exponent_of :: "string \<Rightarrow> int option" where
  "exponent_of s = (case s of [] \<Rightarrow> Some 0
     | e # r \<Rightarrow> if lower_char e \<noteq> CHR ''e'' then None else
         (case split_sign r of (sg, ds) \<Rightarrow>
            if ds \<noteq> [] \<and> list_all is_digit ds then Some (sg * int (read_digits 0 ds)) else None))"

definition fraction_of :: "string \<Rightarrow> string \<times> string" where
  "fraction_of s = (case s of [] \<Rightarrow> ([], [])
     | c # cs \<Rightarrow> if c = CHR ''.'' then (takeWhile is_digit cs, dropWhile is_digit cs) else ([], s))"

definition non_finite :: "string \<Rightarrow> bool" where
  "non_finite s \<longleftrightarrow> lower s \<in> {''inf'', ''infinity''} \<or>
     (let r = (if take 1 (lower s) = ''s'' then drop 1 s else s) in lower (take 3 r) = ''nan'' \<and> list_all is_digit (drop 3 r))"

definition decimal_of_text :: "string \<Rightarrow> parsed" where
  "decimal_of_text txt = (case split_sign (filter (\<lambda>c. c \<noteq> CHR ''_'') (strip txt)) of (sg, body) \<Rightarrow>
     let whole = takeWhile is_digit body in
     (case fraction_of (dropWhile is_digit body) of (decs, rest) \<Rightarrow>
        if whole = [] \<and> decs = [] then (if non_finite body then NonFinite else Malformed)
        else (case exponent_of rest of None \<Rightarrow> Malformed
          | Some k \<Rightarrow> Number (of_int (sg * int (read_digits 0 (whole @ decs))) * pow10 (k - int (length decs))))))"

definition decimal_of_value :: "pval \<Rightarrow> parsed" where
  "decimal_of_value v = (case v of PStr s \<Rightarrow> decimal_of_text s | PDec x \<Rightarrow> Number x | PInt n \<Rightarrow> Number (of_int n)
   | _ \<Rightarrow> Malformed)"

text \<open>The flat amount of an entry's adjustments, as money of the salary's currency.\<close>

definition adjustment_amount :: "payload option \<Rightarrow> string \<Rightarrow> error + money" where
  "adjustment_amount adjustments cur =
     (let v = (case map_of (case adjustments of None \<Rightarrow> [] | Some xs \<Rightarrow> xs) ''amount'' of None \<Rightarrow> PInt 0 | Some x \<Rightarrow> x) in
      case decimal_of_value v of
        Malformed \<Rightarrow> Inl InvalidOperation
      | NonFinite \<Rightarrow> Inl (ValidationError ''Money amount must be a finite decimal'')
      | Number x \<Rightarrow> (case Money x cur of Inl e \<Rightarrow> Inl e | Inr m \<Rightarrow> money_rounded m 2))"

text \<open>\<open>{**old, **new}\<close>: the keys of the old dict first, with the new values.\<close>

definition merge_payload :: "payload \<Rightarrow> payload \<Rightarrow> payload" where
  "merge_payload old new =
     map (\<lambda>(k, v). (k, case map_of new k of None \<Rightarrow> v | Some w \<Rightarrow> w)) old @
     filter (\<lambda>(k, v). k \<notin> fst ` set old) new"

section \<open>One entry\<close>

definition and_then :: "error + 'a \<Rightarrow> ('a \<Rightarrow> error + 'b) \<Rightarrow> error + 'b" where
  "and_then r f = (case r of Inl e \<Rightarrow> Inl e | Inr a \<Rightarrow> f a)"

definition compute_entry ::
  "money \<Rightarrow> int \<Rightarrow> int \<Rightarrow> decimal \<Rightarrow> decimal \<Rightarrow> payroll_rounding \<Rightarrow> payload option \<Rightarrow> error + (money \<times> money \<times> money)" where
  "compute_entry base days days_in_period pf_rate tax_rate mode adjustments =
     (if days_in_period \<le> 0 then Inl ValueError else if days < 0 then Inl ValueError else
     and_then (quantize_mode mode 2 (prec28 (prec28 (amount base * of_int days) / of_int days_in_period))) (\<lambda>a.
     and_then (Money a (currency base)) (\<lambda>gross.
     and_then (and_then (money_mul gross pf_rate) (payroll_round mode)) (\<lambda>pf.
     and_then (and_then (money_mul gross tax_rate) (payroll_round mode)) (\<lambda>tax.
     and_then (adjustment_amount adjustments (currency base)) (\<lambda>adj.
     and_then (and_then (money_sub gross pf) (\<lambda>x. and_then (money_sub x tax) (\<lambda>y. money_sub y adj))) (\<lambda>raw.
     and_then (payroll_round mode raw) (\<lambda>net.
     and_then (and_then (money_add pf tax) (\<lambda>x. money_add x adj)) (\<lambda>deductions.
     Inr (gross, deductions, net))))))))))"

section \<open>Totals\<close>

text \<open>An entry as the service holds it: the row and the currency of its three amounts.\<close>

type_synonym computed_entry = "payroll_entry \<times> string"

definition entry_gross :: "computed_entry \<Rightarrow> money" where
  "entry_gross e = \<lparr>amount = pe_gross (fst e), currency = snd e\<rparr>"

definition entry_net :: "computed_entry \<Rightarrow> money" where
  "entry_net e = \<lparr>amount = pe_net (fst e), currency = snd e\<rparr>"

definition sum_money :: "money list \<Rightarrow> string \<Rightarrow> error + money" where
  "sum_money ms cur = fold (\<lambda>m acc. and_then acc (\<lambda>a. money_add a m)) ms (Money 0 cur)"

definition compute_totals :: "computed_entry list \<Rightarrow> error + (money \<times> money)" where
  "compute_totals es = (case es of [] \<Rightarrow> Inl ValueError
     | e # _ \<Rightarrow> and_then (sum_money (map entry_gross es) (snd e)) (\<lambda>g.
         and_then (sum_money (map entry_net es) (snd e)) (\<lambda>n. Inr (g, n))))"

section \<open>Why an employee was skipped\<close>

definition category_of_skip :: "skip_code \<Rightarrow> skip_category" where
  "category_of_skip c = (if c = MISSING_BANK_DETAILS then RISK else SKIP)"

definition classify_skip_reason :: "string \<Rightarrow> skip_code" where
  "classify_skip_reason reason = (let t = lower reason in
     if contains ''compensation'' t then NO_COMPENSATION
     else if contains ''unpaid'' t \<or> contains ''leave'' t then UNPAID_LEAVE
     else if contains ''terminated'' t then TERMINATED_MID_PERIOD
     else if contains ''roster'' t then NOT_ON_ROSTER
     else if contains ''payable days'' t \<or> contains ''days'' t then NO_PAYABLE_DAYS
     else if contains ''bank'' t then MISSING_BANK_DETAILS
     else UNCLASSIFIED)"

definition skip_from_text :: "uuid \<Rightarrow> string \<Rightarrow> skip_code option \<Rightarrow> skip_record" where
  "skip_from_text e reason code =
     (let c = (case code of None \<Rightarrow> classify_skip_reason reason | Some x \<Rightarrow> x) in
      \<lparr>sk_employee = e, sk_code = c, sk_reason = reason, sk_category = category_of_skip c\<rparr>)"

section \<open>Why a run was voided\<close>

datatype void_category = VOID_DUPLICATE | VOID_WRONG_PERIOD | VOID_CORRECTION_NEEDED | VOID_UNCLASSIFIED

definition void_signals :: "(void_category \<times> string list) list" where
  "void_signals =
     [(VOID_DUPLICATE, [''duplicate'', ''created twice'', ''twice'', ''double'', ''accidental'', ''by mistake'', ''mistake'',
         ''erroneous'', ''already exists'']),
      (VOID_WRONG_PERIOD, [''wrong period'', ''incorrect period'', ''wrong pay period'', ''wrong month'', ''wrong date'',
         ''should be another'']),
      (VOID_CORRECTION_NEEDED, [''correction'', ''correct'', ''adjust'', ''recompute'', ''recalculate'', ''update'', ''revise'',
         ''reclass''])]"

definition confidence_floor :: decimal where
  "confidence_floor = 75 / 100"

definition classify_void_reason :: "string \<Rightarrow> void_category \<times> decimal" where
  "classify_void_reason txt =
     (let t = lower txt;
          matched = map (\<lambda>(c, phrases). (c, length (filter (\<lambda>p. contains p t) phrases))) void_signals;
          top = fold max (map snd matched) 0;
          winners = map fst (filter (\<lambda>(c, n). n = top \<and> 0 < top) matched) in
      if top = 0 \<or> length winners \<noteq> 1 then (VOID_UNCLASSIFIED, 0)
      else let confidence = (if 2 \<le> top then 9 / 10 else 6 / 10) in
        if confidence < confidence_floor then (VOID_UNCLASSIFIED, confidence) else (hd winners, confidence))"

end
