(* ===== verification/Hr_Service.thy ===== *)
theory Hr_Service
  imports Hr_Repository
begin

text \<open>
  \<open>features/hr/service.py\<close> with the events of \<open>events/producers/hr_events.py\<close>: departments, the
  lifecycle of an employee, the leave rules (request, approve, reject, cancel, adjust, accrue, the
  policy) and attendance.
\<close>

section \<open>State machines\<close>

text \<open>\<open>core/core/state_machine.py\<close>: a table of the targets of each state.\<close>

definition can_transition :: "('s \<Rightarrow> 's list) \<Rightarrow> 's \<Rightarrow> 's \<Rightarrow> bool" where
  "can_transition machine cur new \<longleftrightarrow> new \<in> set (machine cur)"

definition employee_machine :: "employment_status \<Rightarrow> employment_status list" where
  "employee_machine x = (case x of
     EMPLOYEE_ACTIVE \<Rightarrow> [EMPLOYEE_ON_LEAVE, EMPLOYEE_TERMINATED]
   | EMPLOYEE_ON_LEAVE \<Rightarrow> [EMPLOYEE_ACTIVE]
   | EMPLOYEE_TERMINATED \<Rightarrow> [])"

definition leave_machine :: "leave_status \<Rightarrow> leave_status list" where
  "leave_machine x = (case x of
     LEAVE_PENDING \<Rightarrow> [LEAVE_APPROVED, LEAVE_REJECTED, LEAVE_CANCELLED]
   | LEAVE_APPROVED \<Rightarrow> [LEAVE_CANCELLED]
   | LEAVE_REJECTED \<Rightarrow> []
   | LEAVE_CANCELLED \<Rightarrow> [])"

section \<open>Texts of the audit rows and events\<close>

definition employment_text :: "employment_status \<Rightarrow> string" where
  "employment_text x = (case x of EMPLOYEE_ACTIVE \<Rightarrow> ''active'' | EMPLOYEE_ON_LEAVE \<Rightarrow> ''on_leave''
   | EMPLOYEE_TERMINATED \<Rightarrow> ''terminated'')"

definition people_event :: "string \<Rightarrow> uuid \<Rightarrow> payload \<Rightarrow> unit service" where
  "people_event topic t details = apublish \<lparr>ev_topic = topic, ev_tenant = t, ev_payload = details\<rparr>"

definition department_part :: "uuid option \<Rightarrow> payload" where
  "department_part x = (case x of None \<Rightarrow> [] | Some i \<Rightarrow> [(''department_id'', PId i)])"

definition leave_payload :: "uuid \<Rightarrow> leave_request \<Rightarrow> payload" where
  "leave_payload i r = [(''request_id'', PId i), (''employee_id'', PId (lr_employee r)),
     (''leave_type'', PStr (lr_type r)), (''days'', PInt (lr_days r))]"

definition accrued_payload :: "uuid \<Rightarrow> string \<Rightarrow> int \<Rightarrow> int \<Rightarrow> payload" where
  "accrued_payload e c y qty = [(''employee_id'', PId e), (''leave_type'', PStr c), (''leave_year'', PInt y),
     (''qty'', PInt qty)]"

definition int_text :: "int \<Rightarrow> string" where
  "int_text n = (if n < 0 then ''-'' @ nat_text (nat (- n)) else nat_text (nat n))"

section \<open>Departments\<close>

definition create_department_service ::
  "string \<Rightarrow> uuid \<Rightarrow> uuid option \<Rightarrow> uuid option \<Rightarrow> department service" where
  "create_department_service name t manager actor =
     bindM fresh_id (\<lambda>i.
     bindM (catchM (create_department \<lparr>dp_id = i, dp_tenant = t, dp_name = name, dp_manager = manager, dp_active = True\<rparr>)
       (\<lambda>e. raiseM (if e \<in> {IntegrityError ''erp_departments_pkey'', IntegrityError ''uq_erp_departments_tenant_name''}
          then DuplicateRecordError else e))) (\<lambda>created.
     thenM (audit_by t actor ''hr.department.created'' (target ''department'' (dp_id created)) None)
     (thenM (people_event ''hr.department.created'' t [(''department_id'', PId (dp_id created)), (''name'', PStr (dp_name created))])
     (returnM created))))"

definition department_changes :: "department \<Rightarrow> department \<Rightarrow> payload" where
  "department_changes old new =
     (if dp_name old = dp_name new then [] else [(''name'', PStr (dp_name new))]) @
     (if dp_manager old = dp_manager new then [] else [(''manager_employee_id'', opt_id (dp_manager new))]) @
     (if dp_active old = dp_active new then [] else [(''is_active'', PBool (dp_active new))])"

definition update_department_service :: "department \<Rightarrow> uuid option \<Rightarrow> department service" where
  "update_department_service r actor =
     bindM (get_department (dp_tenant r) (dp_id r)) (\<lambda>found.
     bindM (the_or_raise ValueError found) (\<lambda>old.
     bindM (update_department r) (\<lambda>new.
     thenM (audit_by (dp_tenant new) actor ''hr.department.updated'' (target ''department'' (dp_id new))
       (Some (department_changes old r)))
     (thenM (people_event ''hr.department.updated'' (dp_tenant new)
       ((''department_id'', PId (dp_id new)) # department_changes old r))
     (returnM new)))))"

section \<open>Accrual\<close>

text \<open>The allotment of a year, pro rata in the year of hire.\<close>

definition remaining_days_in_year :: "date \<Rightarrow> int \<Rightarrow> int" where
  "remaining_days_in_year hired y = (if year_of hired < y then 365 else 365 - (day_of_year hired - 1))"

definition accrual_qty :: "int \<Rightarrow> date \<Rightarrow> int \<Rightarrow> int" where
  "accrual_qty annual hired y =
     round_half_up (prec28 (prec28 (of_int annual * of_int (remaining_days_in_year hired y)) / 365))"

definition accrual_movement :: "uuid \<Rightarrow> uuid \<Rightarrow> string \<Rightarrow> int \<Rightarrow> int \<Rightarrow> leave_movement service" where
  "accrual_movement t e c qty y =
     bindM fresh_id (\<lambda>i. bindM (getsM clk) (\<lambda>k.
     returnM \<lparr>lm_id = i, lm_tenant = t, lm_employee = e, lm_type = c, lm_qty = qty, lm_ref_type = ''accrual'',
       lm_ref_id = Some (int_text y), lm_reason = None, lm_at = instant k\<rparr>))"

text \<open>\<open>_accrue_annual\<close>: casual and sick leave of a new hire; the last movement written is returned.\<close>

definition accrue_for_hire :: "uuid \<Rightarrow> employee \<Rightarrow> int \<Rightarrow> leave_movement option \<Rightarrow> string \<times> int \<Rightarrow> leave_movement option service" where
  "accrue_for_hire t r y prior x = (case x of (c, annual) \<Rightarrow>
     let qty = accrual_qty annual (em_hired r) y in
     if qty < 1 then returnM prior else
     bindM (accrual_movement t (em_id r) c qty y) (\<lambda>m.
     bindM (accrue_leave_movement m) (\<lambda>written.
     returnM (case written of None \<Rightarrow> prior | Some w \<Rightarrow> Some w))))"

definition accrue_annual :: "uuid \<Rightarrow> employee \<Rightarrow> int \<Rightarrow> leave_movement option service" where
  "accrue_annual t r y =
     bindM (get_leave_policy t) (\<lambda>found. case found of
       None \<Rightarrow> returnM None
     | Some p \<Rightarrow>
         bindM (getsM clk) (\<lambda>k. if today k < lp_from p then returnM None else
         bindM (accrue_for_hire t r y None (''casual'', lp_casual p)) (\<lambda>a.
         accrue_for_hire t r y a (''sick'', lp_sick p))))"

section \<open>Employees\<close>

definition hire ::
  "(uuid \<Rightarrow> uuid \<Rightarrow> error option) \<Rightarrow> uuid \<Rightarrow> string \<Rightarrow> string \<Rightarrow> string option \<Rightarrow> string option \<Rightarrow> string \<Rightarrow> date \<Rightarrow>
   uuid option \<Rightarrow> uuid option \<Rightarrow> money option \<Rightarrow> uuid option \<Rightarrow> employee service" where
  "hire identity t first surname email phone title hired dept user salary actor =
     thenM (case user of None \<Rightarrow> returnM () | Some u \<Rightarrow> (case identity u t of None \<Rightarrow> returnM () | Some e \<Rightarrow> raiseM e))
     (bindM (next_value t ''employee'') (\<lambda>n.
     bindM fresh_id (\<lambda>i.
     bindM (create_employee \<lparr>em_id = i, em_tenant = t, em_number = ''EMP-'' @ nat_text n, em_first = first, em_last = surname,
        em_email = email, em_phone = phone, em_user = user, em_department = dept, em_title = title,
        em_status = EMPLOYEE_ACTIVE, em_hired = hired, em_terminated = None, em_bank_account = None, em_bank_name = None\<rparr>)
       (\<lambda>created.
     thenM (case salary of None \<Rightarrow> returnM ()
       | Some m \<Rightarrow> bindM fresh_id (\<lambda>k. thenM (create_compensation \<lparr>co_id = k, co_tenant = t, co_employee = em_id created,
           co_salary = amount m, co_currency = currency m, co_from = hired, co_active = True\<rparr>) (returnM ())))
     (bindM (accrue_annual t created (year_of hired)) (\<lambda>leave.
     thenM (audit_by t actor ''hr.employee.created'' (target ''employee'' (em_id created))
       (Some [(''employee_number'', PStr (em_number created)), (''hire_date'', PDate hired)]))
     (thenM (people_event ''hr.employee.created'' t
       ([(''employee_id'', PId (em_id created)), (''employee_number'', PStr (em_number created)),
         (''status'', PStr (employment_text (em_status created)))] @ department_part (em_department created)))
     (thenM (people_event ''hr.employee.onboarded'' t
       ([(''employee_id'', PId (em_id created)), (''hire_date'', PDate hired)] @ department_part (em_department created)))
     (thenM (case leave of None \<Rightarrow> returnM ()
       | Some m \<Rightarrow> people_event ''hr.leave.accrued'' t (accrued_payload (em_id created) (lm_type m) (year_of hired) (lm_qty m)))
     (returnM created))))))))))"

definition update_employee_service :: "employee \<Rightarrow> string list \<Rightarrow> uuid option \<Rightarrow> employee service" where
  "update_employee_service r names actor =
     thenM (requireM (em_status r \<noteq> EMPLOYEE_TERMINATED) EmployeeTerminatedError)
     (bindM (update_employee r) (\<lambda>new.
     thenM (audit_by (em_tenant new) actor ''hr.employee.updated'' (target ''employee'' (em_id new))
       (Some (map (\<lambda>f. (''fields'', PStr f)) names)))
     (thenM (people_event ''hr.employee.updated'' (em_tenant new)
       ((''employee_id'', PId (em_id new)) # map (\<lambda>f. (''changed'', PStr f)) names))
     (returnM new))))"

definition change_status :: "uuid \<Rightarrow> uuid \<Rightarrow> employment_status \<Rightarrow> uuid option \<Rightarrow> employee service" where
  "change_status t i st actor =
     bindM (get_employee t i) (\<lambda>found.
     bindM (the_or_raise ValueError found) (\<lambda>r.
     thenM (requireM (st \<noteq> EMPLOYEE_TERMINATED) ValueError)
     (thenM (requireM (em_status r \<noteq> EMPLOYEE_TERMINATED) EmployeeTerminatedError)
     (thenM (requireM (can_transition employee_machine (em_status r) st)
       (IllegalStateTransitionError ''Cannot transition employee''))
     (bindM (update_employee (r\<lparr>em_status := st\<rparr>)) (\<lambda>new.
     thenM (audit_by t actor ''hr.employee.updated'' (target ''employee'' (em_id new))
       (Some [(''fields'', PStr ''employment_status''), (''status'', PStr (employment_text st))]))
     (thenM (people_event ''hr.employee.updated'' t
       [(''employee_id'', PId (em_id new)), (''employment_status'', PStr (employment_text st))])
     (returnM new))))))))"

definition terminate :: "uuid \<Rightarrow> uuid \<Rightarrow> date \<Rightarrow> string option \<Rightarrow> uuid option \<Rightarrow> employee service" where
  "terminate t i day reason actor =
     bindM (get_employee t i) (\<lambda>found.
     bindM (the_or_raise ValueError found) (\<lambda>r.
     thenM (requireM (em_status r = EMPLOYEE_ACTIVE) (IllegalStateTransitionError ''only active employees can be terminated''))
     (thenM (requireM (em_hired r \<le> day) ValueError)
     (bindM (update_employee (r\<lparr>em_status := EMPLOYEE_TERMINATED, em_terminated := Some day\<rparr>)) (\<lambda>new.
     thenM (audit_by t actor ''hr.employee.terminated'' (target ''employee'' (em_id new))
       (Some [(''termination_date'', PDate day), (''reason'', opt_str reason)]))
     (thenM (people_event ''hr.employee.terminated'' t [(''employee_id'', PId (em_id new)), (''termination_date'', PDate day)])
     (returnM new)))))))"

section \<open>Leave\<close>

definition request_leave ::
  "uuid \<Rightarrow> uuid \<Rightarrow> string \<Rightarrow> date \<Rightarrow> date \<Rightarrow> string option \<Rightarrow> uuid option \<Rightarrow> leave_request service" where
  "request_leave t e c from_d to_d reason actor =
     bindM (getsM clk) (\<lambda>k.
     thenM (requireM (today k \<le> from_d) ValueError)
     (thenM (requireM (from_d \<le> to_d) ValueError)
     (bindM (get_leave_type t c) (\<lambda>ty.
     thenM (requireM (ty \<noteq> None) ValueError)
     (bindM (get_employee t e) (\<lambda>found.
     bindM (the_or_raise ValueError found) (\<lambda>r.
     thenM (requireM (em_status r \<noteq> EMPLOYEE_TERMINATED) EmployeeTerminatedError)
     (bindM fresh_id (\<lambda>i.
     bindM (create_leave_request \<lparr>lr_id = i, lr_tenant = t, lr_employee = e, lr_type = c, lr_start = from_d, lr_end = to_d,
        lr_days = to_d - from_d + 1, lr_status = LEAVE_PENDING, lr_reason = reason, lr_approved_by = None,
        lr_approved_at = None, lr_created = instant k\<rparr>) (\<lambda>created.
     thenM (audit_by t actor ''hr.leave.requested'' (target ''leave_request'' (lr_id created))
       (Some [(''days'', PInt (lr_days created)), (''leave_type'', PStr (lr_type created))]))
     (thenM (people_event ''hr.leave.requested'' t (leave_payload (lr_id created) created))
     (returnM created))))))))))))"

definition accrues :: "leave_type option \<Rightarrow> bool" where
  "accrues ty = (case ty of None \<Rightarrow> False | Some r \<Rightarrow> lt_accrual r)"

text \<open>The ledger row of a decision, the new balance, and its materialization for an accrual type.\<close>

definition book_leave ::
  "uuid \<Rightarrow> uuid \<Rightarrow> string \<Rightarrow> bool \<Rightarrow> int \<Rightarrow> string \<Rightarrow> string option \<Rightarrow> string option \<Rightarrow> int service" where
  "book_leave t e c accrual qty ref_type ref reason =
     bindM fresh_id (\<lambda>i. bindM (getsM clk) (\<lambda>k.
     thenM (add_leave_movement \<lparr>lm_id = i, lm_tenant = t, lm_employee = e, lm_type = c, lm_qty = qty,
        lm_ref_type = ref_type, lm_ref_id = ref, lm_reason = reason, lm_at = instant k\<rparr>)
     (bindM (recompute_balance t e c) (\<lambda>new.
     thenM (if accrual then bindM fresh_id (\<lambda>j. thenM (upsert_balance
          \<lparr>lb_id = j, lb_tenant = t, lb_employee = e, lb_type = c, lb_balance = new\<rparr>) (returnM ()))
        else returnM ())
     (returnM new)))))"

text \<open>
  The part of an approval after its guards: the conditional update of the request, then its booking. When
  the update finds the request no longer pending, the request is read again.
\<close>

definition approve_pending ::
  "uuid \<Rightarrow> uuid \<Rightarrow> leave_request \<Rightarrow> bool \<Rightarrow> uuid \<Rightarrow> uuid option \<Rightarrow> (leave_request \<times> int) service" where
  "approve_pending t i r accrual approver actor = (let e = lr_employee r; c = lr_type r in
     bindM (getsM clk) (\<lambda>k.
     bindM (transition_leave_status t i LEAVE_PENDING LEAVE_APPROVED (Some approver) (Some (instant k))) (\<lambda>moved. case moved of
       None \<Rightarrow>
         bindM (get_leave_request t i) (\<lambda>again.
         bindM (the_or_raise ValueError again) (\<lambda>q.
         bindM (recompute_balance t (lr_employee q) (lr_type q)) (\<lambda>b. returnM (q, b))))
     | Some q \<Rightarrow>
         bindM (book_leave t e c accrual (- lr_days r) ''approval'' (Some (uuid_text i)) None) (\<lambda>new.
         thenM (audit_by t actor ''hr.leave.approved'' (target ''leave_request'' i)
           (Some [(''days'', PInt (lr_days r)), (''leave_type'', PStr c), (''new_balance'', PInt new)]))
         (thenM (people_event ''hr.leave.approved'' t (leave_payload i r))
         (returnM (q, new)))))))"

definition approve_leave :: "uuid \<Rightarrow> uuid \<Rightarrow> uuid \<Rightarrow> uuid option \<Rightarrow> (leave_request \<times> int) service" where
  "approve_leave t i approver actor =
     bindM (get_leave_request t i) (\<lambda>found.
     bindM (the_or_raise ValueError found) (\<lambda>r.
     let e = lr_employee r; c = lr_type r in
     bindM (get_employee t e) (\<lambda>person.
     bindM (the_or_raise ValueError person) (\<lambda>em.
     thenM (requireM (em_status em \<noteq> EMPLOYEE_TERMINATED) EmployeeTerminatedError)
     (thenM (requireM (approver \<noteq> e) SelfApprovalForbiddenError)
     (if \<not> can_transition leave_machine (lr_status r) LEAVE_APPROVED then
        if lr_status r = LEAVE_APPROVED then bindM (recompute_balance t e c) (\<lambda>b. returnM (r, b))
        else raiseM (IllegalStateTransitionError ''leave request is not pending'')
      else
     bindM (get_leave_type t c) (\<lambda>ty.
     thenM (if accrues ty then
          thenM (lock_leave_balance t e c)
          (bindM (recompute_balance t e c) (\<lambda>b. requireM (0 \<le> b - lr_days r) LeaveBalanceExceededError))
        else returnM ())
     (approve_pending t i r (accrues ty) approver actor))))))))"

definition reject_leave :: "uuid \<Rightarrow> uuid \<Rightarrow> string option \<Rightarrow> uuid option \<Rightarrow> leave_request service" where
  "reject_leave t i reason actor =
     bindM (get_leave_request t i) (\<lambda>found.
     bindM (the_or_raise ValueError found) (\<lambda>r.
     thenM (requireM (can_transition leave_machine (lr_status r) LEAVE_REJECTED)
       (IllegalStateTransitionError ''only pending requests can be rejected''))
     (bindM (transition_leave_status t i LEAVE_PENDING LEAVE_REJECTED None None) (\<lambda>moved.
     bindM (the_or_raise (IllegalStateTransitionError ''leave request is not pending'') moved) (\<lambda>q.
     thenM (audit_by t actor ''hr.leave.rejected'' (target ''leave_request'' i) (Some [(''reason'', opt_str reason)]))
     (thenM (people_event ''hr.leave.rejected'' t
       ([(''request_id'', PId i), (''employee_id'', PId (lr_employee q))] @
        (case reason of None \<Rightarrow> [] | Some x \<Rightarrow> [(''reason'', PStr x)])))
     (returnM q)))))))"

definition cancelled_trail :: "uuid \<Rightarrow> uuid \<Rightarrow> uuid option \<Rightarrow> leave_request \<Rightarrow> int \<Rightarrow> unit service" where
  "cancelled_trail t i actor r new =
     thenM (audit_by t actor ''hr.leave.cancelled'' (target ''leave_request'' i)
       (Some [(''days'', PInt (lr_days r)), (''leave_type'', PStr (lr_type r)), (''new_balance'', PInt new)]))
     (people_event ''hr.leave.cancelled'' t (leave_payload i r))"

definition cancel_pending :: "uuid \<Rightarrow> uuid \<Rightarrow> leave_request \<Rightarrow> uuid option \<Rightarrow> (leave_request \<times> int) service" where
  "cancel_pending t i r actor =
     bindM (transition_leave_status t i LEAVE_PENDING LEAVE_CANCELLED None None) (\<lambda>moved.
     bindM (the_or_raise (IllegalStateTransitionError ''leave request is not pending'') moved) (\<lambda>q.
     bindM (recompute_balance t (lr_employee r) (lr_type r)) (\<lambda>new.
     thenM (cancelled_trail t i actor r new) (returnM (q, new)))))"

definition cancel_approved :: "uuid \<Rightarrow> uuid \<Rightarrow> leave_request \<Rightarrow> bool \<Rightarrow> uuid option \<Rightarrow> (leave_request \<times> int) service" where
  "cancel_approved t i r accrual actor =
     bindM (transition_leave_status t i LEAVE_APPROVED LEAVE_CANCELLED None None) (\<lambda>moved.
     bindM (the_or_raise (IllegalStateTransitionError ''leave request is not approved'') moved) (\<lambda>q.
     bindM (book_leave t (lr_employee r) (lr_type r) accrual (lr_days r) ''cancellation'' (Some (uuid_text i)) None) (\<lambda>new.
     thenM (cancelled_trail t i actor r new) (returnM (q, new)))))"

definition cancel_leave :: "uuid \<Rightarrow> uuid \<Rightarrow> uuid option \<Rightarrow> (leave_request \<times> int) service" where
  "cancel_leave t i actor =
     bindM (get_leave_request t i) (\<lambda>found.
     bindM (the_or_raise ValueError found) (\<lambda>r.
     let e = lr_employee r; c = lr_type r in
     thenM (requireM (can_transition leave_machine (lr_status r) LEAVE_CANCELLED)
       (IllegalStateTransitionError ''only pending or approved requests can be cancelled''))
     (if lr_status r = LEAVE_PENDING then cancel_pending t i r actor else
     bindM (get_leave_type t c) (\<lambda>ty.
     thenM (if accrues ty then lock_leave_balance t e c else returnM ())
     (cancel_approved t i r (accrues ty) actor)))))"

definition book_adjustment :: "uuid \<Rightarrow> uuid \<Rightarrow> string \<Rightarrow> bool \<Rightarrow> int \<Rightarrow> string \<Rightarrow> uuid option \<Rightarrow> int service" where
  "book_adjustment t e c accrual qty reason actor =
     bindM (book_leave t e c accrual qty ''adjustment'' None (Some reason)) (\<lambda>new.
     thenM (audit_by t actor ''hr.leave.balance.adjusted'' (target ''employee'' e)
       (Some [(''leave_type'', PStr c), (''qty'', PInt qty), (''reason'', PStr reason), (''new_balance'', PInt new)]))
     (thenM (people_event ''hr.leave.balance.adjusted'' t
       [(''employee_id'', PId e), (''leave_type'', PStr c), (''qty'', PInt qty), (''reason'', PStr reason)])
     (returnM new)))"

definition adjust_balance :: "uuid \<Rightarrow> uuid \<Rightarrow> string \<Rightarrow> int \<Rightarrow> string \<Rightarrow> uuid option \<Rightarrow> int service" where
  "adjust_balance t e c qty reason actor =
     thenM (requireM (qty \<noteq> 0) ValueError)
     (bindM (get_leave_type t c) (\<lambda>found.
     bindM (the_or_raise ValueError found) (\<lambda>ty.
     thenM (if lt_accrual ty then
          thenM (lock_leave_balance t e c)
          (bindM (recompute_balance t e c) (\<lambda>b. requireM (0 \<le> b + qty) LeaveBalanceExceededError))
        else returnM ())
     (book_adjustment t e c (lt_accrual ty) qty reason actor))))"

text \<open>The days a policy grants of a type; only casual and sick leave are driven by it.\<close>

definition policy_days :: "leave_policy \<Rightarrow> string \<Rightarrow> int option" where
  "policy_days p c = (if c = ''casual'' then Some (lp_casual p) else if c = ''sick'' then Some (lp_sick p) else None)"

definition accrue :: "uuid \<Rightarrow> uuid \<Rightarrow> string \<Rightarrow> int \<Rightarrow> uuid option \<Rightarrow> leave_movement option service" where
  "accrue t e c y actor =
     bindM (get_leave_type t c) (\<lambda>found.
     bindM (the_or_raise ValueError found) (\<lambda>ty.
     thenM (requireM (lt_accrual ty) ValueError)
     (bindM (get_leave_policy t) (\<lambda>policy. case policy of None \<Rightarrow> returnM None | Some p \<Rightarrow>
     bindM (getsM clk) (\<lambda>k. if today k < lp_from p then returnM None else
     (case policy_days p c of None \<Rightarrow> returnM None | Some annual \<Rightarrow>
     bindM (get_employee t e) (\<lambda>person.
     bindM (the_or_raise ValueError person) (\<lambda>r.
     let qty = accrual_qty annual (em_hired r) y in
     if qty < 1 then returnM None else
     bindM (accrual_movement t e c qty y) (\<lambda>m.
     bindM (accrue_leave_movement m) (\<lambda>written. case written of
       None \<Rightarrow> returnM None
     | Some w \<Rightarrow>
         thenM (audit_by t actor ''hr.leave.accrued'' (target ''employee'' e)
           (Some [(''leave_type'', PStr c), (''year'', PInt y), (''qty'', PInt qty)]))
         (thenM (people_event ''hr.leave.accrued'' t (accrued_payload e c y qty))
         (returnM (Some w)))))))))))))"

text \<open>A read of the balances first grants what the current year still owes.\<close>

definition list_balances_service :: "uuid \<Rightarrow> uuid \<Rightarrow> leave_balance list service" where
  "list_balances_service t e =
     bindM (getsM clk) (\<lambda>k.
     thenM (forM (\<lambda>c. thenM (accrue t e c (int (year k)) None) (returnM ())) [''casual'', ''sick''])
     (list_balances t e))"

definition update_leave_policy :: "uuid \<Rightarrow> int \<Rightarrow> int \<Rightarrow> date \<Rightarrow> uuid option \<Rightarrow> leave_policy service" where
  "update_leave_policy t casual sick from_d actor =
     thenM (requireM (0 \<le> casual) ValueError)
     (thenM (requireM (0 \<le> sick) ValueError)
     (bindM fresh_id (\<lambda>i.
     bindM (upsert_leave_policy \<lparr>lp_id = i, lp_tenant = t, lp_casual = casual, lp_sick = sick, lp_from = from_d,
        lp_last_year = None\<rparr>) (\<lambda>saved.
     thenM (audit_by t actor ''hr.leave.policy.updated'' (target ''tenant'' t)
       (Some [(''casual_days_per_year'', PInt casual), (''sick_days_per_year'', PInt sick), (''effective_from'', PDate from_d)]))
     (returnM saved)))))"

section \<open>Attendance\<close>

definition impact_of :: "attendance_status \<Rightarrow> pay_impact" where
  "impact_of x = (case x of ON_TIME \<Rightarrow> FULL_PAY | LATE \<Rightarrow> HALF_PAY | ABSENT \<Rightarrow> NO_PAY)"

definition attendance_text :: "attendance_status \<Rightarrow> string" where
  "attendance_text x = (case x of ON_TIME \<Rightarrow> ''on_time'' | LATE \<Rightarrow> ''late'' | ABSENT \<Rightarrow> ''absent'')"

definition impact_text :: "pay_impact \<Rightarrow> string" where
  "impact_text x = (case x of FULL_PAY \<Rightarrow> ''full'' | HALF_PAY \<Rightarrow> ''half'' | NO_PAY \<Rightarrow> ''none'')"

definition record_attendance ::
  "uuid \<Rightarrow> uuid \<Rightarrow> date \<Rightarrow> attendance_status \<Rightarrow> string option \<Rightarrow> uuid option \<Rightarrow> attendance_record service" where
  "record_attendance t e day st note actor =
     bindM (get_employee t e) (\<lambda>found.
     thenM (requireM (found \<noteq> None) ValueError)
     (bindM fresh_id (\<lambda>i. bindM (getsM clk) (\<lambda>k.
     bindM (upsert_attendance_record \<lparr>at_id = i, at_tenant = t, at_employee = e, at_date = day, at_status = st,
        at_impact = impact_of st, at_note = note, at_created = instant k\<rparr>) (\<lambda>saved.
     let details = [(''employee_id'', PId e), (''work_date'', PDate day), (''status'', PStr (attendance_text st)),
       (''pay_impact'', PStr (impact_text (impact_of st)))] in
     thenM (audit_by t actor ''hr.attendance.recorded'' (target ''attendance'' (at_id saved)) (Some details))
     (thenM (people_event ''hr.attendance.recorded'' t details)
     (returnM saved)))))))"

end
