(* ===== verification/Payroll_Amounts.thy ===== *)
theory Payroll_Amounts
  imports Payroll_Compute Hr_Service
begin

text \<open>
  What the pure computations guarantee: paid days are the employed days less unpaid leave, an entry's amounts
  are whole cents that add up, accrued leave stays between nothing and the year's allotment.
\<close>

section \<open>The decimal context\<close>

lemma pow10_less: "pow10 a < pow10 b \<Longrightarrow> a < b"
  using pow10_mono [of b a] by (cases "a < b") auto

lemma prec28_nonneg: "0 \<le> x \<Longrightarrow> 0 \<le> prec28 x"
proof -
  assume "0 \<le> x"
  then have "0 \<le> round_half_even (x * pow10 (27 - adjusted x))"
    using round_half_even_mono [of 0 "x * pow10 (27 - adjusted x)"] round_half_even_of_int [of 0] by simp
  then show ?thesis by (simp add: prec28_def Let_def)
qed

lemma prec28_mono:
  assumes "0 \<le> x" "x \<le> y"
  shows "prec28 x \<le> prec28 y"
proof (cases "x = 0")
  case True
  then show ?thesis using prec28_nonneg [of y] assms by (simp add: prec28_def)
next
  case False
  then have pos: "0 < x" "0 < y" using assms by auto
  have "pow10 (adjusted x) < pow10 (adjusted y + 1)"
    using adjusted_bounds(1) [of x] adjusted_bounds(2) [of y] pos assms(2) by simp
  then have le: "adjusted x \<le> adjusted y" using pow10_less by fastforce
  define k where "k = 27 - adjusted x"
  define l where "l = 27 - adjusted y"
  have px: "prec28 x = of_int (round_half_even (x * pow10 k)) / pow10 k"
    and py: "prec28 y = of_int (round_half_even (y * pow10 l)) / pow10 l"
    using pos by (simp_all add: prec28_def k_def l_def Let_def)
  show ?thesis
  proof (cases "adjusted x = adjusted y")
    case True
    then have "k = l" by (simp add: k_def l_def)
    have "round_half_even (x * pow10 k) \<le> round_half_even (y * pow10 k)"
      using assms(2) by (intro round_half_even_mono mult_right_mono) simp_all
    then show ?thesis unfolding px py \<open>k = l\<close> [symmetric] by (simp add: divide_right_mono)
  next
    case False
    then have lt: "adjusted x + 1 \<le> adjusted y" using le by simp
    have "x * pow10 k \<le> pow10 (adjusted x + 1) * pow10 k"
      using adjusted_bounds(2) [of x] pos by (intro mult_right_mono) simp_all
    also have "\<dots> = of_int (10 ^ 28)" using pow10_of_nat [of 28] by (simp add: pow10_add [symmetric] k_def)
    finally have "round_half_even (x * pow10 k) \<le> 10 ^ 28"
      using round_half_even_mono [of "x * pow10 k" "of_int (10 ^ 28)"] by (simp only: round_half_even_of_int)
    then have "of_int (round_half_even (x * pow10 k)) \<le> (of_int (10 ^ 28) :: rat)" by (simp only: of_int_le_iff)
    then have "prec28 x \<le> of_int (10 ^ 28) / pow10 k" unfolding px by (intro divide_right_mono) simp_all
    also have "\<dots> = pow10 (adjusted x + 1)" using pow10_of_nat [of 28] pow10_diff [of 28 k] by (simp add: k_def add.commute)
    also have "\<dots> \<le> pow10 (adjusted y)" using lt by (rule pow10_mono)
    also have "\<dots> = of_int (10 ^ 27) / pow10 l" using pow10_of_nat [of 27] pow10_diff [of 27 l] by (simp add: l_def)
    also have "\<dots> \<le> prec28 y"
    proof -
      have "of_int (10 ^ 27) = pow10 (adjusted y) * pow10 l" using pow10_of_nat [of 27] by (simp add: pow10_add [symmetric] l_def)
      also have "\<dots> \<le> y * pow10 l" using adjusted_bounds(1) [of y] pos by (intro mult_right_mono) simp_all
      finally have "10 ^ 27 \<le> round_half_even (y * pow10 l)"
        using round_half_even_mono [of "of_int (10 ^ 27)" "y * pow10 l"] by (simp only: round_half_even_of_int)
      then have "(of_int (10 ^ 27) :: rat) \<le> of_int (round_half_even (y * pow10 l))" by (simp only: of_int_le_iff)
      then show ?thesis unfolding py by (intro divide_right_mono) simp_all
    qed
    finally show ?thesis .
  qed
qed

section \<open>Accrued leave\<close>

text \<open>An allotment a 32-bit column holds.\<close>

lemma prec28_of_int: "\<bar>n\<bar> < 10 ^ 28 \<Longrightarrow> prec28 (of_int n) = of_int n"
proof -
  assume n: "\<bar>n\<bar> < 10 ^ 28"
  have "at_scale 0 (of_int n)" by (auto simp: at_scale_iff)
  moreover have "\<bar>of_int n :: rat\<bar> * 10 ^ 0 < 10 ^ 28" using n by (simp add: of_int_less_iff [where 'a = rat, symmetric])
  ultimately show ?thesis by (rule prec28_exact)
qed

lemma remaining_days_bounds: "0 \<le> remaining_days_in_year h y" "remaining_days_in_year h y \<le> 365"
  using day_of_year_bounds [of h] by (auto simp: remaining_days_in_year_def)

lemma remaining_days_later:
  "year_of h = year_of h' \<Longrightarrow> h \<le> h' \<Longrightarrow> remaining_days_in_year h' y \<le> remaining_days_in_year h y"
  by (simp add: remaining_days_in_year_def day_of_year_def)

lemma accrual_qty_mono:
  assumes n: "0 \<le> annual" "annual < 2 ^ 31"
    and r: "0 \<le> r" "r \<le> q" "q \<le> 365"
  shows "round_half_up (prec28 (prec28 (of_int annual * of_int r) / 365))
    \<le> round_half_up (prec28 (prec28 (of_int annual * of_int q) / 365))"
proof -
  have "0 \<le> of_int annual * (of_int r :: rat)" using n(1) r(1) by simp
  moreover have "of_int annual * of_int r \<le> of_int annual * (of_int q :: rat)"
    using n(1) r(2) by (intro mult_left_mono) simp_all
  ultimately show ?thesis
    by (intro round_half_up_mono prec28_mono divide_right_mono divide_nonneg_nonneg prec28_nonneg) simp_all
qed

lemma accrual_qty_ends:
  assumes n: "0 \<le> annual" "annual < 2 ^ 31"
  shows "round_half_up (prec28 (prec28 (of_int annual * of_int 0) / 365)) = 0"
    and "round_half_up (prec28 (prec28 (of_int annual * of_int 365) / 365)) = annual"
proof -
  have "prec28 (of_int 0) = of_int 0" by (rule prec28_of_int) simp
  then show "round_half_up (prec28 (prec28 (of_int annual * of_int 0) / 365)) = 0"
    using round_half_up_of_int [of 0] by simp
  have "\<bar>annual * 365\<bar> < 10 ^ 28" "\<bar>annual\<bar> < 10 ^ 28" using n by simp_all
  note exact = this [THEN prec28_of_int]
  have "prec28 (of_int annual * of_int 365) = of_int (annual * 365)" using exact(1) by simp
  moreover have "of_int (annual * 365) / 365 = (of_int annual :: rat)" by simp
  ultimately show "round_half_up (prec28 (prec28 (of_int annual * of_int 365) / 365)) = annual"
    using exact(2) by (simp only: round_half_up_of_int)
qed

text \<open>
  C40. Accrued leave never leaves its allotment: for a policy whose yearly days a 32-bit column holds, the days
  granted for a year lie between zero and the policy's, they are the policy's in full when the employee was hired
  in an earlier year, and of two employees hired in the same year the one hired later gets no more.
\<close>

theorem accrual_prorated:
  assumes "0 \<le> annual" "annual < 2 ^ 31" "h \<le> h'" "year_of h = year_of h'"
  shows "0 \<le> accrual_qty annual h y \<and> accrual_qty annual h y \<le> annual \<and>
    (if year_of h < y then accrual_qty annual h y = annual else True) \<and>
    accrual_qty annual h' y \<le> accrual_qty annual h y"
proof (intro conjI)
  show "0 \<le> accrual_qty annual h y"
    using accrual_qty_mono [OF assms(1,2), of 0 "remaining_days_in_year h y"] accrual_qty_ends(1) [OF assms(1,2)]
      remaining_days_bounds [of h y] by (simp add: accrual_qty_def)
  show "accrual_qty annual h y \<le> annual"
    using accrual_qty_mono [OF assms(1,2), of "remaining_days_in_year h y" 365] accrual_qty_ends(2) [OF assms(1,2)]
      remaining_days_bounds [of h y] by (simp add: accrual_qty_def)
  show "if year_of h < y then accrual_qty annual h y = annual else True"
    using accrual_qty_ends(2) [OF assms(1,2)] by (simp add: accrual_qty_def remaining_days_in_year_def)
  show "accrual_qty annual h' y \<le> accrual_qty annual h y"
    unfolding accrual_qty_def
    by (rule accrual_qty_mono [OF assms(1,2) remaining_days_bounds(1) remaining_days_later [OF assms(4,3)] remaining_days_bounds(2)])
qed

lemma accrual_prorated_witness: "accrual_qty 12 700000 1917 \<le> 12"
proof -
  have "year_of 700000 = year_of 700001" by code_simp
  then show ?thesis using accrual_prorated [of 12 700000 700001 1917, THEN conjunct2, THEN conjunct1] by simp
qed

section \<open>Paid days\<close>

lemma length_filter_interval: "length (filter (\<lambda>d. a \<le> d \<and> d \<le> b) [c..e]) = nat (min b e - max a c + 1)"
proof -
  have "length (filter (\<lambda>d. a \<le> d \<and> d \<le> b) [c..e]) = card ({d. a \<le> d \<and> d \<le> b} \<inter> {c..e})"
    by (simp add: distinct_length_filter)
  also have "{d. a \<le> d \<and> d \<le> b} \<inter> {c..e} = {max a c..min b e}" by auto
  finally show ?thesis by simp
qed

lemma employed_days:
  "int (length (filter (employed_on hired terminated) [start..end])) =
     max (min (case terminated of None \<Rightarrow> end | Some x \<Rightarrow> x) end - max (case hired of None \<Rightarrow> start | Some h \<Rightarrow> h) start + 1) 0"
proof -
  let ?a = "case hired of None \<Rightarrow> start | Some h \<Rightarrow> h" and ?b = "case terminated of None \<Rightarrow> end | Some x \<Rightarrow> x"
  have "filter (employed_on hired terminated) [start..end] = filter (\<lambda>d. ?a \<le> d \<and> d \<le> ?b) [start..end]"
    by (intro filter_cong) (auto simp: employed_on_def split: option.splits)
  then show ?thesis by (simp add: length_filter_interval)
qed

text \<open>
  C39. The paid days of an employee are counted: the two subtractions of the code (days before the hire, days after
  the termination) and the unpaid leave leave exactly the number of days of the period on which the
  employee is employed, less the unpaid ones and never below zero.
\<close>

theorem pay_days_counts:
  assumes "start \<le> end" and "case (hired, terminated) of (Some h, Some x) \<Rightarrow> h \<le> x + 1 | _ \<Rightarrow> True"
  shows "pay_days start end hired terminated unpaid =
    max (int (length (filter (employed_on hired terminated) [start..end])) - max unpaid 0) 0"
  using assms unfolding employed_days
  by (cases hired; cases terminated) (simp_all add: pay_days_def overlap_days_def Let_def max_def min_def)

lemma pay_days_counts_witness: "pay_days 1 30 (Some 11) (Some 25) 2 = 13"
  using pay_days_counts [of 1 30 "Some 11" "Some 25" 2] by (simp add: employed_on_def upto_rec1)

section \<open>One entry\<close>

definition cents :: "payroll_rounding \<Rightarrow> decimal \<Rightarrow> decimal" where
  "cents m x = of_int (round_mode m (x * 100)) / 100"

lemma round_half_up_error: "\<bar>of_int (round_half_up x) - x\<bar> \<le> 1"
  by (simp add: round_half_up_def) linarith

lemma round_mode_error: "\<bar>of_int (round_mode m x) - x\<bar> \<le> 1"
  using round_half_up_error [of x] by (cases m) (simp_all add: round_mode_def, linarith+)

lemma round_mode_mono: "x \<le> y \<Longrightarrow> round_mode m x \<le> round_mode m y"
  by (cases m) (simp_all add: round_mode_def round_half_up_mono ceiling_mono floor_mono)

lemma round_mode_of_int: "round_mode m (of_int n) = n"
  by (cases m) (simp_all add: round_mode_def)

lemma cents_error: "\<bar>cents m x - x\<bar> \<le> 1 / 100"
proof -
  have "\<bar>cents m x - x\<bar> = \<bar>of_int (round_mode m (x * 100)) - x * 100\<bar> / 100"
    by (simp add: cents_def field_simps abs_divide)
  also have "\<dots> \<le> 1 / 100" using round_mode_error [of m "x * 100"] by (intro divide_right_mono) simp_all
  finally show ?thesis .
qed

lemma cents_mono: "x \<le> y \<Longrightarrow> cents m x \<le> cents m y"
  by (simp add: cents_def divide_right_mono round_mode_mono)

lemma cents_scale [simp]: "at_scale 2 (cents m x)"
  by (auto simp: at_scale_iff cents_def)

lemma cents_exact: "at_scale 2 x \<Longrightarrow> cents m x = x"
  by (auto simp: at_scale_iff cents_def round_mode_of_int)

lemma cents_0 [simp]: "cents m 0 = 0"
  by (rule cents_exact) simp

lemma near_bound: "\<bar>a - b\<bar> \<le> e \<Longrightarrow> \<bar>b\<bar> \<le> c \<Longrightarrow> \<bar>a\<bar> \<le> c + e" for a b c e :: decimal
  by linarith

lemma near_trans: "\<bar>a - b\<bar> \<le> e \<Longrightarrow> \<bar>b - c\<bar> \<le> f \<Longrightarrow> \<bar>a - c\<bar> \<le> e + f" for a b c e f :: decimal
  by linarith

lemma quantize_cents: "\<bar>x\<bar> \<le> 10 ^ 20 \<Longrightarrow> quantize_mode m 2 x = Inr (cents m x)"
proof -
  assume x: "\<bar>x\<bar> \<le> 10 ^ 20"
  have "\<bar>cents m x\<bar> * 100 < 10 ^ 28" using near_bound [OF cents_error x, of m] by simp
  then show ?thesis by (simp add: quantize_mode_def cents_def)
qed

lemma Money_valid: "c \<in> set SUPPORTED_CURRENCIES \<Longrightarrow> Money x c = Inr \<lparr>amount = x, currency = c\<rparr>"
proof -
  have "list_all (\<lambda>c. upper (strip c) = c) SUPPORTED_CURRENCIES" by code_simp
  moreover assume "c \<in> set SUPPORTED_CURRENCIES"
  ultimately show ?thesis by (simp add: Money_def require_currency_def list_all_iff)
qed

text \<open>Sums of whole cents are exact; a small value stays small.\<close>

lemma prec28_cents: "at_scale 2 x \<Longrightarrow> \<bar>x\<bar> \<le> 10 ^ 20 \<Longrightarrow> prec28 x = x"
  by (rule prec28_exact, assumption) (simp add: power2_eq_square)

lemma prec28_near: "\<bar>x\<bar> \<le> 10 ^ 15 \<Longrightarrow> \<bar>prec28 x - x\<bar> \<le> 1 / 10 ^ 12"
  using prec28_error [of x] by simp

lemma adjustment_money:
  assumes "c \<in> set SUPPORTED_CURRENCIES" "adjustment_amount adjustments c = Inr a"
  shows "currency a = c \<and> at_scale 2 (amount a)"
  using assms
proof -
  obtain x where x: "money_rounded \<lparr>amount = x, currency = c\<rparr> 2 = Inr a"
    using assms by (auto simp: adjustment_amount_def Let_def Money_valid split: parsed.splits)
  then obtain y where y: "quantize_half_up 2 x = Inr y" "a = \<lparr>amount = y, currency = c\<rparr>"
    using assms(1) unfolding money_rounded_def by (cases "quantize_half_up 2 x") (simp_all add: Money_valid)
  then have "y = of_int (round_half_up (x * 10 ^ 2)) / 10 ^ 2"
    unfolding quantize_half_up_def Let_def by (metis sum.inject(2) sum.distinct(1))
  with y(2) show ?thesis unfolding at_scale_iff by auto
qed

text \<open>A rate of an amount in whole cents, rounded.\<close>

lemma rate_share:
  assumes g: "at_scale 2 g" "0 \<le> g" "g \<le> 10 ^ 15" and r: "0 \<le> r" "r \<le> 1"
  shows "quantize_mode m 2 (prec28 (g * r)) = Inr (cents m (prec28 (g * r)))"
    and "0 \<le> cents m (prec28 (g * r))" and "cents m (prec28 (g * r)) \<le> g"
proof -
  have "0 \<le> g * r" "g * r \<le> g" using g(2) r by (simp_all add: mult_left_le)
  then have le: "0 \<le> prec28 (g * r)" "prec28 (g * r) \<le> g"
    using prec28_mono [of "g * r" g] prec28_nonneg [of "g * r"] prec28_cents [of g] g by simp_all
  then show "quantize_mode m 2 (prec28 (g * r)) = Inr (cents m (prec28 (g * r)))"
    using g(3) by (intro quantize_cents) simp
  show "0 \<le> cents m (prec28 (g * r))" "cents m (prec28 (g * r)) \<le> g"
    using cents_mono [OF le(1), of m] cents_mono [OF le(2), of m] cents_exact [OF g(1)] by simp_all
qed

text \<open>The gross: the salary's share of the days, within a cent.\<close>

lemma gross_share:
  assumes b: "0 \<le> b" "b \<le> 10 ^ 14" and d: "0 \<le> days" "days \<le> n" "0 < n" "n \<le> 10 ^ 6"
  shows "\<bar>prec28 (prec28 (b * of_int days) / of_int n) - b * of_int days / of_int n\<bar> \<le> 1 / 10 ^ 11"
    and "0 \<le> prec28 (prec28 (b * of_int days) / of_int n)"
proof -
  have n: "0 < (of_int n :: rat)" "(of_int n :: rat) \<le> 10 ^ 6" "(of_int days :: rat) \<le> of_int n"
    using d of_int_le_iff [of n "10 ^ 6", where 'a = rat] by simp_all
  define x y where "x = b * of_int days" and "y = b * of_int days / (of_int n :: rat)"
  have x0: "0 \<le> x" using b d by (simp add: x_def)
  have "x \<le> b * of_int n" using b n by (simp add: x_def mult_left_mono)
  then have y: "0 \<le> y" "y \<le> b" using n x0 by (simp_all add: y_def x_def [symmetric] field_simps)
  have "\<bar>prec28 x - x\<bar> / of_int n \<le> (\<bar>x\<bar> / (2 * 10 ^ 27)) / of_int n"
    using prec28_error [of x] n by (intro divide_right_mono) simp_all
  then have e1: "\<bar>prec28 x / of_int n - y\<bar> \<le> \<bar>y\<bar> / (2 * 10 ^ 27)"
    using n by (simp add: y_def x_def abs_divide diff_divide_distrib [symmetric] abs_mult)
  then have e1': "\<bar>prec28 x / of_int n - y\<bar> \<le> 1 / 10 ^ 12" using y b by simp
  have "\<bar>y\<bar> \<le> 10 ^ 14" using y b by simp
  from near_bound [OF e1' this] have "\<bar>prec28 x / of_int n\<bar> \<le> 10 ^ 15" by (rule order_trans) simp
  from near_trans [OF prec28_near [OF this] e1']
  have "\<bar>prec28 (prec28 x / of_int n) - y\<bar> \<le> 1 / 10 ^ 11" by (rule order_trans) simp
  then show "\<bar>prec28 (prec28 (b * of_int days) / of_int n) - b * of_int days / of_int n\<bar> \<le> 1 / 10 ^ 11"
    by (simp only: x_def y_def)
  show "0 \<le> prec28 (prec28 (b * of_int days) / of_int n)"
    using x0 n unfolding x_def by (intro prec28_nonneg divide_nonneg_nonneg) simp_all
qed

lemma gross_full:
  assumes "at_scale 4 b" "0 \<le> b" "b \<le> 10 ^ 14" "0 < n" "n \<le> 10 ^ 6"
  shows "prec28 (prec28 (b * of_int n) / of_int n) = b"
proof -
  obtain k where k: "b = of_int k / 10 ^ 4" using assms(1) by (auto simp: at_scale_iff)
  have n: "0 < (of_int n :: rat)" "(of_int n :: rat) \<le> 10 ^ 6"
    using assms(4,5) of_int_le_iff [of n "10 ^ 6", where 'a = rat] by simp_all
  have "b * of_int n \<le> 10 ^ 14 * 10 ^ 6" using assms n by (intro mult_mono) simp_all
  then have "\<bar>b * of_int n\<bar> * 10 ^ 4 < 10 ^ 28" using assms(2) n by simp
  moreover have "at_scale 4 (b * of_int n)" unfolding at_scale_iff k by (intro exI [of _ "k * n"]) simp
  ultimately have "prec28 (b * of_int n) = b * of_int n" by (intro prec28_exact)
  moreover have "prec28 b = b" using assms by (intro prec28_exact [of 4]) simp_all
  ultimately show ?thesis using n by simp
qed

text \<open>
  C38. An entry is sound: for a salary of a supported currency, days within the period, rates between nought and one
  and an adjustment that parses, the computation returns three amounts of that currency in whole
  cents; gross is deductions plus net to the cent, it lies within a cent (and the rounding of the decimal
  context) of the salary's share of the days, a full period pays the rounded salary, and the
  deductions are the adjustment plus at most the gross for each of the two rates.
\<close>

theorem compute_entry_sound:
  assumes base: "valid_money base" "0 \<le> amount base" "amount base \<le> 10 ^ 14"
    and days: "0 \<le> days" "days \<le> n" "0 < n" "n \<le> 10 ^ 6"
    and rates: "0 \<le> pf_rate" "pf_rate \<le> 1" "0 \<le> tax_rate" "tax_rate \<le> 1"
    and adj: "adjustment_amount adjustments (currency base) = Inr a" "\<bar>amount a\<bar> \<le> 10 ^ 14"
  shows "\<exists>gross deductions net.
    compute_entry base days n pf_rate tax_rate mode adjustments = Inr (gross, deductions, net) \<and>
    (\<forall>m \<in> {gross, deductions, net}. currency m = currency base \<and> at_scale 2 (amount m)) \<and>
    amount gross = amount deductions + amount net \<and> 0 \<le> amount gross \<and>
    \<bar>amount gross - amount base * of_int days / of_int n\<bar> \<le> 1 / 100 + 1 / 10 ^ 11 \<and>
    (if days = n \<and> at_scale 4 (amount base) then amount gross = cents mode (amount base) else True) \<and>
    amount a \<le> amount deductions \<and> amount deductions \<le> amount a + 2 * amount gross"
proof -
  have c: "currency base \<in> set SUPPORTED_CURRENCIES" using base(1) by (simp add: valid_money_def)
  define share where "share = prec28 (prec28 (amount base * of_int days) / of_int n)"
  define g where "g = cents mode share"
  define pf where "pf = cents mode (prec28 (g * pf_rate))"
  define tx where "tx = cents mode (prec28 (g * tax_rate))"
  note near = gross_share [OF base(2,3) days, folded share_def]
  have n: "0 < (of_int n :: rat)" "(of_int days :: rat) \<le> of_int n" "0 \<le> (of_int days :: rat)" using days by simp_all
  have exact: "amount base * of_int days / of_int n \<le> 10 ^ 14" "0 \<le> amount base * of_int days / of_int n"
    using mult_mono [OF base(3) n(2)] base(2) n by (simp_all add: field_simps)
  then have ab: "\<bar>amount base * of_int days / of_int n\<bar> \<le> 10 ^ 14" by linarith
  from near_bound [OF near(1) this] have share: "\<bar>share\<bar> \<le> 10 ^ 15" by (rule order_trans) simp
  have close: "\<bar>g - amount base * of_int days / of_int n\<bar> \<le> 1 / 100 + 1 / 10 ^ 11"
    unfolding g_def by (rule near_trans [OF cents_error near(1)])
  from near_bound [OF this ab] have "\<bar>g\<bar> \<le> 10 ^ 15" by (rule order_trans) simp
  moreover have g0: "0 \<le> g" using cents_mono [OF near(2), of mode] by (simp add: g_def)
  ultimately have g: "at_scale 2 g" "0 \<le> g" "g \<le> 10 ^ 15" by (simp_all add: g_def)
  note p = rate_share [OF g rates(1,2), of mode, folded pf_def] and q = rate_share [OF g rates(3,4), of mode, folded tx_def]
  have small: "\<bar>share\<bar> \<le> 10 ^ 20" using share by (rule order_trans) simp
  have a: "currency a = currency base" "at_scale 2 (amount a)"
    using adjustment_money [OF c adj(1)] by simp_all
  have scales: "at_scale 2 pf" "at_scale 2 tx" by (simp_all add: pf_def tx_def)
  note [intro] = at_scale_add at_scale_diff
  note le = p(2,3) q(2,3) g(2,3) adj(2)
  have s1: "prec28 (g - pf) = g - pf" and s2: "prec28 (g - pf - tx) = g - pf - tx"
    and s3: "prec28 (g - pf - tx - amount a) = g - pf - tx - amount a"
    and s4: "prec28 (pf + tx) = pf + tx" and s5: "prec28 (pf + tx + amount a) = pf + tx + amount a"
    and s6: "quantize_mode mode 2 (g - pf - tx - amount a) = Inr (cents mode (g - pf - tx - amount a))"
    using le g(1) scales a(2) by (auto intro!: prec28_cents quantize_cents simp: abs_le_iff)
  have net: "cents mode (g - pf - tx - amount a) = g - pf - tx - amount a"
    using g(1) scales a(2) by (intro cents_exact) blast
  have r: "compute_entry base days n pf_rate tax_rate mode adjustments =
      Inr (\<lparr>amount = g, currency = currency base\<rparr>, \<lparr>amount = pf + tx + amount a, currency = currency base\<rparr>,
        \<lparr>amount = g - pf - tx - amount a, currency = currency base\<rparr>)"
    using days a(1) quantize_cents [OF small, of mode]
    by (simp add: compute_entry_def and_then_def adj(1) Money_valid [OF c] money_mul_def money_sub_def money_add_def
        assert_same_currency_def payroll_round_def p(1) q(1) s1 s2 s3 s4 s5 s6 net
        share_def [symmetric] g_def [symmetric] pf_def [symmetric] tx_def [symmetric])
  have full: "if days = n \<and> at_scale 4 (amount base) then g = cents mode (amount base) else True"
    using gross_full [OF _ base(2,3) days(3,4)] by (auto simp: g_def share_def)
  show ?thesis unfolding r
    by (intro exI conjI, rule refl) (use g close full le a(2) scales in auto)
qed

lemma compute_entry_sound_witness:
  "\<exists>gross deductions net. compute_entry \<lparr>amount = 3000, currency = ''USD''\<rparr> 20 30 (12 / 100) (1 / 10) ROUND_NEAREST
     (Some [(''amount'', PStr ''-250'')]) = Inr (gross, deductions, net) \<and> amount gross = amount deductions + amount net"
proof -
  have "adjustment_amount (Some [(''amount'', PStr ''-250'')]) ''USD'' = Inr \<lparr>amount = - 250, currency = ''USD''\<rparr>"
    by code_simp
  moreover have "valid_money \<lparr>amount = 3000, currency = ''USD''\<rparr>" by code_simp
  ultimately show ?thesis
    using compute_entry_sound [of "\<lparr>amount = 3000, currency = ''USD''\<rparr>" 20 30 "12 / 100" "1 / 10"
        "Some [(''amount'', PStr ''-250'')]" "\<lparr>amount = - 250, currency = ''USD''\<rparr>" ROUND_NEAREST]
    by auto
qed

end
