(* ===== verification/Payroll_Repository.thy ===== *)
theory Payroll_Repository
  imports Payroll_Compute
begin

text \<open>
  \<open>features/payroll/repository.py\<close>: settings, runs with their conditional status updates, entries, the
  roster, and payslip reviews. Runs and entries have no currency of their own: what is read back is
  tagged with the currency of the tenant's settings at that moment.
\<close>

section \<open>Settings\<close>

definition get_settings :: "uuid \<Rightarrow> payroll_setting option service" where
  "get_settings t = readM (\<lambda>d. select_one (\<lambda>r. ps_tenant r = t) (payroll_settings d))"

definition stored_settings :: "payroll_setting \<Rightarrow> payroll_setting" where
  "stored_settings r = r\<lparr>ps_pf_rate := numeric 4 (ps_pf_rate r), ps_tax_rate := numeric 4 (ps_tax_rate r),
     ps_drift := numeric 4 (ps_drift r)\<rparr>"

definition upsert_settings :: "payroll_setting \<Rightarrow> payroll_setting service" where
  "upsert_settings r = (let new = stored_settings r in
     thenM (fits_column 3 (ps_currency r))
     (bindM (get_settings (ps_tenant r)) (\<lambda>found. case found of
        None \<Rightarrow> thenM (writeM (\<lambda>d. d\<lparr>payroll_settings := payroll_settings d @ [new]\<rparr>)) (returnM new)
      | Some _ \<Rightarrow> thenM (writeM (\<lambda>d. d\<lparr>payroll_settings :=
            update_where (\<lambda>q. ps_tenant q = ps_tenant r) (\<lambda>_. new) (payroll_settings d)\<rparr>)) (returnM new))))"

definition tenant_currency :: "uuid \<Rightarrow> db \<Rightarrow> string" where
  "tenant_currency t d = (case select_one (\<lambda>r. ps_tenant r = t) (payroll_settings d) of None \<Rightarrow> ''USD'' | Some r \<Rightarrow> ps_currency r)"

definition currency_for :: "uuid \<Rightarrow> string service" where
  "currency_for t = readM (tenant_currency t)"

section \<open>Runs\<close>

definition run_key :: "uuid \<Rightarrow> uuid \<Rightarrow> payroll_run \<Rightarrow> bool" where
  "run_key t i r \<longleftrightarrow> pr_tenant r = t \<and> pr_id r = i"

text \<open>\<open>_run_from_orm\<close>: totals become money, which a currency out of the supported set refuses.\<close>

definition run_view :: "payroll_run \<Rightarrow> payroll_run service" where
  "run_view r = bindM (currency_for (pr_tenant r)) (\<lambda>cur.
     thenM (if pr_gross r = None \<and> pr_net r = None then returnM () else resultM (require_currency cur))
     (returnM r))"

definition run_view_option :: "payroll_run option \<Rightarrow> payroll_run option service" where
  "run_view_option x = (case x of None \<Rightarrow> returnM None | Some r \<Rightarrow> bindM (run_view r) (\<lambda>v. returnM (Some v)))"

definition same_period :: "payroll_run \<Rightarrow> payroll_run \<Rightarrow> bool" where
  "same_period r q \<longleftrightarrow> pr_tenant q = pr_tenant r \<and> pr_start q = pr_start r \<and> pr_end q = pr_end r \<and> pr_status q \<noteq> RUN_VOID"

definition insert_run :: "payroll_run \<Rightarrow> payroll_run service" where
  "insert_run r =
     thenM (fits_column 20 (pr_code r))
     (thenM (check_people ''erp_payroll_runs_pkey'' (\<lambda>p. \<forall>q \<in> set (payroll_runs p). \<not> run_key (pr_tenant r) (pr_id r) q))
     (thenM (check_people ''uq_erp_payroll_runs_tenant_code''
         (\<lambda>p. \<forall>q \<in> set (payroll_runs p). \<not> (pr_tenant q = pr_tenant r \<and> pr_code q = pr_code r)))
     (thenM (check_people ''uq_erp_payroll_runs_period_active'' (\<lambda>p. \<forall>q \<in> set (payroll_runs p). \<not> same_period r q))
     (thenM (write_people (\<lambda>p. p\<lparr>payroll_runs := payroll_runs p @ [r]\<rparr>))
     (run_view r)))))"

definition get_run :: "uuid \<Rightarrow> uuid \<Rightarrow> payroll_run option service" where
  "get_run t i = bindM (read_people (\<lambda>p. select_one (run_key t i) (payroll_runs p))) run_view_option"

definition list_runs :: "uuid \<Rightarrow> run_status option \<Rightarrow> nat \<Rightarrow> nat \<Rightarrow> payroll_run list service" where
  "list_runs t st limit offset = bindM (read_people (\<lambda>p. page offset limit (descending pr_start
     (filter (\<lambda>r. pr_tenant r = t \<and> (case st of None \<Rightarrow> True | Some x \<Rightarrow> pr_status r = x)) (payroll_runs p))))) (mapM run_view)"

definition list_voided_runs :: "uuid \<Rightarrow> date \<Rightarrow> payroll_run list service" where
  "list_voided_runs t since = bindM (read_people (\<lambda>p. descending pr_start
     (filter (\<lambda>r. pr_tenant r = t \<and> pr_status r = RUN_VOID \<and> since \<le> pr_start r) (payroll_runs p)))) (mapM run_view)"

definition run_overlaps :: "uuid \<Rightarrow> date \<Rightarrow> date \<Rightarrow> payroll_run \<Rightarrow> bool" where
  "run_overlaps t a b r \<longleftrightarrow> pr_tenant r = t \<and> pr_status r \<noteq> RUN_VOID \<and> pr_start r \<le> b \<and> a \<le> pr_end r"

definition first_of :: "'a list \<Rightarrow> 'a option" where
  "first_of xs = (case xs of [] \<Rightarrow> None | x # _ \<Rightarrow> Some x)"

definition find_overlapping_run :: "uuid \<Rightarrow> date \<Rightarrow> date \<Rightarrow> payroll_run option service" where
  "find_overlapping_run t a b = bindM (read_people (\<lambda>p. first_of (sort_key pr_start (filter (run_overlaps t a b) (payroll_runs p)))))
     run_view_option"

definition previous_run :: "uuid \<Rightarrow> date \<Rightarrow> payroll_run option service" where
  "previous_run t start = bindM (read_people (\<lambda>p. first_of (descending pr_end
     (filter (\<lambda>r. pr_tenant r = t \<and> pr_status r \<noteq> RUN_VOID \<and> pr_end r < start) (payroll_runs p))))) run_view_option"

text \<open>
  \<open>transition_run_status\<close>: an \<open>UPDATE\<close> conditional on the current status; \<open>change\<close> sets the columns that
  go with the new one. The reason of a void has the width of its column.
\<close>

definition run_fits :: "payroll_run \<Rightarrow> unit service" where
  "run_fits r = fits_optional 255 (pr_void_reason r)"

definition transition_run_status ::
  "uuid \<Rightarrow> uuid \<Rightarrow> run_status \<Rightarrow> run_status \<Rightarrow> (payroll_run \<Rightarrow> payroll_run) \<Rightarrow> payroll_run option service" where
  "transition_run_status t i from_st to_st change =
     (let guard = (\<lambda>r. run_key t i r \<and> pr_status r = from_st); moved = (\<lambda>r. change (r\<lparr>pr_status := to_st\<rparr>)) in
     bindM (read_people (\<lambda>p. select_one guard (payroll_runs p))) (\<lambda>found. case found of
        None \<Rightarrow> returnM None
      | Some r \<Rightarrow>
          thenM (run_fits (moved r))
          (thenM (write_people (\<lambda>p. p\<lparr>payroll_runs := update_where guard moved (payroll_runs p)\<rparr>))
          (run_view_option (Some (moved r))))))"

definition next_run_number :: "uuid \<Rightarrow> nat service" where
  "next_run_number t = next_value t ''payroll_run''"

definition set_run_je_bridge_status :: "uuid \<Rightarrow> uuid \<Rightarrow> bridge_status \<Rightarrow> payroll_run option service" where
  "set_run_je_bridge_status t i st =
     thenM (write_people (\<lambda>p. p\<lparr>payroll_runs := update_where (run_key t i) (\<lambda>r. r\<lparr>pr_bridge := st\<rparr>) (payroll_runs p)\<rparr>))
     (get_run t i)"

section \<open>Entries\<close>

definition entry_slot :: "uuid \<Rightarrow> uuid \<Rightarrow> uuid \<Rightarrow> payroll_entry \<Rightarrow> bool" where
  "entry_slot t run e r \<longleftrightarrow> pe_tenant r = t \<and> pe_run r = run \<and> pe_employee r = e"

definition payroll_entry_key :: "uuid \<Rightarrow> uuid \<Rightarrow> payroll_entry \<Rightarrow> bool" where
  "payroll_entry_key t i r \<longleftrightarrow> pe_tenant r = t \<and> pe_id r = i"

text \<open>\<open>_entry_from_orm\<close>.\<close>

definition entry_view :: "payroll_entry \<Rightarrow> computed_entry service" where
  "entry_view r = bindM (currency_for (pe_tenant r)) (\<lambda>cur.
     bindM (resultM (Money (pe_gross r) cur)) (\<lambda>m. returnM (r, currency m)))"

definition entry_view_option :: "payroll_entry option \<Rightarrow> computed_entry option service" where
  "entry_view_option x = (case x of None \<Rightarrow> returnM None | Some r \<Rightarrow> bindM (entry_view r) (\<lambda>v. returnM (Some v)))"

definition stored_amounts :: "payroll_entry \<Rightarrow> payroll_entry" where
  "stored_amounts r = r\<lparr>pe_base := numeric 4 (pe_base r), pe_gross := numeric 4 (pe_gross r),
     pe_deductions := numeric 4 (pe_deductions r), pe_net := numeric 4 (pe_net r)\<rparr>"

text \<open>The columns an update of an entry replaces.\<close>

definition entry_overwritten :: "payroll_entry \<Rightarrow> payroll_entry \<Rightarrow> payroll_entry" where
  "entry_overwritten new old = old\<lparr>pe_base := pe_base new, pe_days := pe_days new, pe_gross := pe_gross new,
     pe_deductions := pe_deductions new, pe_net := pe_net new, pe_adjustments := pe_adjustments new\<rparr>"

definition run_known :: "uuid \<Rightarrow> uuid \<Rightarrow> people_tables \<Rightarrow> bool" where
  "run_known t i p \<longleftrightarrow> (\<exists>r \<in> set (payroll_runs p). run_key t i r)"

definition upsert_entry :: "payroll_entry \<Rightarrow> unit service" where
  "upsert_entry e = (let r = stored_amounts e in
     thenM (fits_integer (pe_days r))
     (bindM (read_people (\<lambda>p. select_one (entry_slot (pe_tenant r) (pe_run r) (pe_employee r)) (payroll_entries p))) (\<lambda>found. case found of
        Some _ \<Rightarrow> write_people (\<lambda>p. p\<lparr>payroll_entries :=
            update_where (entry_slot (pe_tenant r) (pe_run r) (pe_employee r)) (entry_overwritten r) (payroll_entries p)\<rparr>)
      | None \<Rightarrow>
          thenM (check_people ''erp_payroll_entries_pkey''
              (\<lambda>p. \<forall>q \<in> set (payroll_entries p). \<not> payroll_entry_key (pe_tenant r) (pe_id r) q))
          (thenM (check_people ''fk_erp_payroll_entries_run'' (run_known (pe_tenant r) (pe_run r)))
          (thenM (check_people ''fk_erp_payroll_entries_employee'' (employee_known (pe_tenant r) (pe_employee r)))
          (write_people (\<lambda>p. p\<lparr>payroll_entries := payroll_entries p @ [r]\<rparr>)))))))"

definition upsert_entries :: "payroll_entry list \<Rightarrow> unit service" where
  "upsert_entries es = forM upsert_entry es"

definition list_entries :: "uuid \<Rightarrow> uuid \<Rightarrow> computed_entry list service" where
  "list_entries t run = bindM (read_people (\<lambda>p. sort_key pe_employee
     (filter (\<lambda>r. pe_tenant r = t \<and> pe_run r = run) (payroll_entries p)))) (mapM entry_view)"

definition get_entry :: "uuid \<Rightarrow> uuid \<Rightarrow> uuid \<Rightarrow> computed_entry option service" where
  "get_entry t run e = bindM (read_people (\<lambda>p. select_one (entry_slot t run e) (payroll_entries p))) entry_view_option"

definition get_entry_by_id :: "uuid \<Rightarrow> uuid \<Rightarrow> computed_entry option service" where
  "get_entry_by_id t i = bindM (read_people (\<lambda>p. select_one (payroll_entry_key t i) (payroll_entries p))) entry_view_option"

text \<open>The runs whose entries may still change; the condition is part of the statements that change them.\<close>

definition mutable_run :: "uuid \<Rightarrow> people_tables \<Rightarrow> uuid \<Rightarrow> bool" where
  "mutable_run t p i \<longleftrightarrow> (\<exists>r \<in> set (payroll_runs p). run_key t i r \<and> pr_status r \<in> {RUN_DRAFT, RUN_COMPUTED})"

definition update_entry :: "payroll_entry \<Rightarrow> computed_entry service" where
  "update_entry e = (let r = stored_amounts e in
     bindM (read_people (\<lambda>p. (select_one (\<lambda>q. payroll_entry_key (pe_tenant r) (pe_id r) q \<and> mutable_run (pe_tenant r) p (pe_run q)) (payroll_entries p))))
       (\<lambda>found. case found of
          None \<Rightarrow> raiseM PayrollEntryImmutableError
        | Some old \<Rightarrow>
            thenM (fits_integer (pe_days r))
            (thenM (write_people (\<lambda>p. p\<lparr>payroll_entries :=
                update_where (\<lambda>q. payroll_entry_key (pe_tenant r) (pe_id r) q \<and> mutable_run (pe_tenant r) p (pe_run q)) (entry_overwritten r) (payroll_entries p)\<rparr>))
            (entry_view (entry_overwritten r old)))))"

definition delete_entries_for_run :: "uuid \<Rightarrow> uuid \<Rightarrow> uuid list \<Rightarrow> nat service" where
  "delete_entries_for_run t run keep =
     bindM (read_people (\<lambda>p. length (filter (\<lambda>r. pe_tenant r = t \<and> pe_run r = run \<and> pe_employee r \<notin> set keep \<and> mutable_run t p run) (payroll_entries p))))
       (\<lambda>n.
     thenM (write_people (\<lambda>p. p\<lparr>payroll_entries :=
         filter (\<lambda>r. \<not> (pe_tenant r = t \<and> pe_run r = run \<and> pe_employee r \<notin> set keep \<and> mutable_run t p run)) (payroll_entries p)\<rparr>))
     (thenM (if n = 0 then bindM (read_people (\<lambda>p. mutable_run t p run)) (\<lambda>ok. requireM ok PayrollEntryImmutableError) else returnM ())
     (returnM n)))"

section \<open>Compensation history and roster\<close>

definition list_compensation :: "uuid \<Rightarrow> uuid \<Rightarrow> compensation list service" where
  "list_compensation t e = read_people (\<lambda>p. descending co_from
     (filter (\<lambda>r. co_tenant r = t \<and> co_employee r = e) (compensations p)))"

text \<open>Everyone hired by the end of the period who is not terminated, or was not before its start.\<close>

definition on_roster :: "uuid \<Rightarrow> date \<Rightarrow> date \<Rightarrow> employee \<Rightarrow> bool" where
  "on_roster t a b r \<longleftrightarrow> em_tenant r = t \<and> em_hired r \<le> b \<and>
     (em_status r \<noteq> EMPLOYEE_TERMINATED \<or> (case em_terminated r of None \<Rightarrow> False | Some x \<Rightarrow> a \<le> x))"

definition list_active_employees :: "uuid \<Rightarrow> date \<Rightarrow> date \<Rightarrow> employee list service" where
  "list_active_employees t a b = readM (\<lambda>d. sort_key (\<lambda>r. collation d (em_number r)) (filter (on_roster t a b) (employees (people d))))"

definition get_roster_employee :: "uuid \<Rightarrow> uuid \<Rightarrow> employee option service" where
  "get_roster_employee t i = read_people (\<lambda>p. select_one (employee_key t i) (employees p))"

definition active_departments :: "uuid \<Rightarrow> (uuid \<times> string) list service" where
  "active_departments t = readM (\<lambda>d. map (\<lambda>r. (dp_id r, dp_name r)) (sort_key (\<lambda>r. collation d (dp_name r))
     (filter (\<lambda>r. dp_tenant r = t \<and> dp_active r) (departments (people d)))))"

text \<open>
  The net of a run by department: each entry joins its employee's department. (The groups come in the order of
  the names; the caller only looks a department up.)
\<close>

definition department_nets :: "uuid \<Rightarrow> uuid \<Rightarrow> people_tables \<Rightarrow> (uuid option \<times> decimal) list" where
  "department_nets t run p =
     (let rows = concat (map (\<lambda>r. map (\<lambda>q. (em_department q, pe_net r))
            (filter (\<lambda>q. em_tenant q = pe_tenant r \<and> em_id q = pe_employee r) (employees p)))
          (filter (\<lambda>r. pe_tenant r = t \<and> pe_run r = run) (payroll_entries p))) in
      map (\<lambda>k. (k, sum_list (map snd (filter (\<lambda>x. fst x = k) rows)))) (remdups (map fst rows)))"

definition enrolled_benefit_elections :: "uuid \<Rightarrow> date \<Rightarrow> benefit_election list service" where
  "enrolled_benefit_elections t b = read_people (\<lambda>p. descending be_from
     (filter (\<lambda>r. be_tenant r = t \<and> be_status r = ''enrolled'' \<and> be_from r \<le> b) (benefit_elections p)))"

section \<open>Payslip reviews\<close>

record payslip =
  sl_tenant :: uuid
  sl_run :: uuid
  sl_employee :: uuid
  sl_number :: string
  sl_name :: string
  sl_gross :: decimal
  sl_deductions :: decimal
  sl_net :: decimal

definition review_key :: "uuid \<Rightarrow> uuid \<Rightarrow> payslip_review \<Rightarrow> bool" where
  "review_key t i r \<longleftrightarrow> rv_tenant r = t \<and> rv_id r = i"

definition review_view :: "payslip_review \<Rightarrow> payslip_review service" where
  "review_view r = bindM (currency_for (rv_tenant r)) (\<lambda>cur. thenM (resultM (require_currency cur)) (returnM r))"

definition review_view_option :: "payslip_review option \<Rightarrow> payslip_review option service" where
  "review_view_option x = (case x of None \<Rightarrow> returnM None | Some r \<Rightarrow> bindM (review_view r) (\<lambda>v. returnM (Some v)))"

definition same_version :: "payslip_review \<Rightarrow> payslip_review \<Rightarrow> bool" where
  "same_version r q \<longleftrightarrow> rv_tenant q = rv_tenant r \<and> rv_run q = rv_run r \<and> rv_employee q = rv_employee r \<and> rv_version q = rv_version r"

definition insert_review :: "payslip_review \<Rightarrow> payslip_review service" where
  "insert_review r =
     thenM (fits_column 32 (rv_number r))
     (thenM (fits_column 128 (rv_name r))
     (thenM (check_people ''erp_payslip_reviews_pkey'' (\<lambda>p. \<forall>q \<in> set (payslip_reviews p). \<not> review_key (rv_tenant r) (rv_id r) q))
     (thenM (check_people ''uq_erp_payslip_reviews_run_employee_version'' (\<lambda>p. \<forall>q \<in> set (payslip_reviews p). \<not> same_version r q))
     (thenM (check_people ''fk_erp_payslip_reviews_run'' (run_known (rv_tenant r) (rv_run r)))
     (thenM (check_people ''fk_erp_payslip_reviews_employee'' (employee_known (rv_tenant r) (rv_employee r)))
     (thenM (write_people (\<lambda>p. p\<lparr>payslip_reviews := payslip_reviews p @ [r]\<rparr>))
     (returnM r)))))))"

definition draft_review :: "uuid \<Rightarrow> payslip \<Rightarrow> nat \<Rightarrow> payslip_review" where
  "draft_review i x version = \<lparr>rv_id = i, rv_tenant = sl_tenant x, rv_run = sl_run x, rv_employee = sl_employee x,
     rv_number = sl_number x, rv_name = sl_name x, rv_gross = numeric 4 (sl_gross x), rv_deductions = numeric 4 (sl_deductions x),
     rv_net = numeric 4 (sl_net x), rv_status = REVIEW_DRAFT, rv_version = version, rv_reason = None, rv_reviewed_by = None,
     rv_reviewed_at = None, rv_rejected_by = None, rv_rejected_at = None\<rparr>"

text \<open>One payslip of \<open>materialize_payslip_reviews\<close>, with the employee's reviews of the run read before.\<close>

definition materialize_review :: "payslip_review list \<Rightarrow> payslip \<Rightarrow> unit service" where
  "materialize_review existing x =
     (let rows = filter (\<lambda>r. rv_employee r = sl_employee x) existing in
     case select_one (\<lambda>r. rv_status r = REVIEW_DRAFT) rows of
       Some d \<Rightarrow>
         thenM (fits_column 128 (sl_name x))
         (write_people (\<lambda>p. p\<lparr>payslip_reviews := update_where (review_key (rv_tenant d) (rv_id d))
           (\<lambda>r. r\<lparr>rv_gross := numeric 4 (sl_gross x), rv_deductions := numeric 4 (sl_deductions x), rv_net := numeric 4 (sl_net x),
              rv_name := sl_name x\<rparr>) (payslip_reviews p)\<rparr>))
     | None \<Rightarrow>
         bindM fresh_id (\<lambda>i. thenM (insert_review (draft_review i x (fold max (map rv_version rows) 0 + 1))) (returnM ())))"

definition materialize_payslip_reviews :: "uuid \<Rightarrow> uuid \<Rightarrow> payslip list \<Rightarrow> unit service" where
  "materialize_payslip_reviews t run xs =
     bindM (read_people (\<lambda>p. filter (\<lambda>r. rv_tenant r = t \<and> rv_run r = run) (payslip_reviews p))) (\<lambda>existing.
     forM (materialize_review existing) xs)"

definition list_payslip_reviews :: "uuid \<Rightarrow> review_status option \<Rightarrow> uuid option \<Rightarrow> nat \<Rightarrow> payslip_review list service" where
  "list_payslip_reviews t st run limit = bindM (readM (\<lambda>d. take limit (sort_key (\<lambda>r. collation d (rv_number r))
     (filter (\<lambda>r. rv_tenant r = t \<and> (case st of None \<Rightarrow> True | Some x \<Rightarrow> rv_status r = x) \<and>
       (case run of None \<Rightarrow> True | Some i \<Rightarrow> rv_run r = i)) (payslip_reviews (people d)))))) (mapM review_view)"

definition get_payslip_review :: "uuid \<Rightarrow> uuid \<Rightarrow> payslip_review option service" where
  "get_payslip_review t i = bindM (read_people (\<lambda>p. select_one (review_key t i) (payslip_reviews p))) review_view_option"

definition reviewed :: "review_status \<Rightarrow> uuid \<Rightarrow> int \<Rightarrow> string option \<Rightarrow> payslip_review \<Rightarrow> payslip_review" where
  "reviewed st who now reason r = (case st of
     REVIEW_APPROVED \<Rightarrow> r\<lparr>rv_status := st, rv_reviewed_by := Some who, rv_reviewed_at := Some now\<rparr>
   | REVIEW_REJECTED \<Rightarrow> r\<lparr>rv_status := st, rv_rejected_by := Some who, rv_rejected_at := Some now, rv_reason := reason\<rparr>
   | REVIEW_DRAFT \<Rightarrow> r\<lparr>rv_status := st\<rparr>)"

definition transition_payslip_review ::
  "uuid \<Rightarrow> uuid \<Rightarrow> review_status \<Rightarrow> review_status \<Rightarrow> uuid \<Rightarrow> int \<Rightarrow> string option \<Rightarrow> payslip_review option service" where
  "transition_payslip_review t i from_st to_st who now reason =
     (let guard = (\<lambda>r. review_key t i r \<and> rv_status r = from_st) in
     bindM (read_people (\<lambda>p. select_one guard (payslip_reviews p))) (\<lambda>found.
     thenM (write_people (\<lambda>p. p\<lparr>payslip_reviews := update_where guard (reviewed to_st who now reason) (payslip_reviews p)\<rparr>))
     (review_view_option (map_option (reviewed to_st who now reason) found))))"

definition bump_payslip_review_version :: "uuid \<Rightarrow> uuid \<Rightarrow> payslip_review option service" where
  "bump_payslip_review_version t i =
     bindM (read_people (\<lambda>p. select_one (review_key t i) (payslip_reviews p))) (\<lambda>found. case found of
       None \<Rightarrow> returnM None
     | Some source \<Rightarrow>
         bindM (review_view source) (\<lambda>cur.
         bindM fresh_id (\<lambda>k.
         bindM (insert_review (source\<lparr>rv_id := k, rv_status := REVIEW_DRAFT, rv_version := rv_version source + 1, rv_reason := None,
             rv_reviewed_by := None, rv_reviewed_at := None, rv_rejected_by := None, rv_rejected_at := None\<rparr>)) (\<lambda>new.
         returnM (Some new)))))"

end
