(* ===== verification/Payroll_Service.thy ===== *)
theory Payroll_Service
  imports Payroll_Repository Hr_Service Approval_Engine Billing_Service
begin

text \<open>
  \<open>PayrollService\<close> of \<open>features/payroll/service.py\<close> with the events of \<open>events/producers/payroll_events.py\<close> and
  the approval coordinator of \<open>features/payroll/approval.py\<close>: settings, the life of a run (created, computed at
  once or employee by employee, approved, paid, voided), adjustments of entries, payslip reviews, compensation
  and the read-only prediction. The leave ledger it is given is the HR service on the same session.
\<close>

section \<open>The life of a run\<close>

definition run_machine :: "run_status \<Rightarrow> run_status list" where
  "run_machine x = (case x of
     RUN_DRAFT \<Rightarrow> [RUN_COMPUTED, RUN_VOID]
   | RUN_COMPUTED \<Rightarrow> [RUN_COMPUTED, RUN_APPROVED, RUN_VOID]
   | RUN_APPROVED \<Rightarrow> [RUN_PAID, RUN_VOID]
   | RUN_PAID \<Rightarrow> []
   | RUN_VOID \<Rightarrow> [])"

definition is_computable :: "payroll_run \<Rightarrow> bool" where
  "is_computable r = can_transition run_machine (pr_status r) RUN_COMPUTED"

text \<open>A run by its id, in a state that allows the next one.\<close>

definition run_for :: "uuid \<Rightarrow> uuid \<Rightarrow> run_status \<Rightarrow> string \<Rightarrow> payroll_run service" where
  "run_for t i target_status refusal =
     bindM (get_run t i) (\<lambda>found.
     bindM (the_or_raise ValueError found) (\<lambda>r.
     thenM (requireM (can_transition run_machine (pr_status r) target_status) (IllegalStateTransitionError refusal))
     (returnM r)))"

definition computable_run :: "uuid \<Rightarrow> uuid \<Rightarrow> payroll_run service" where
  "computable_run t i = run_for t i RUN_COMPUTED ''only draft/computed runs can be (re)computed''"

definition set_if :: "'a option \<Rightarrow> 'a option \<Rightarrow> 'a option" where
  "set_if new old = (if new = None then old else new)"

section \<open>Settings and runs\<close>

definition rounding_text :: "payroll_rounding \<Rightarrow> string" where
  "rounding_text x = (case x of ROUND_NEAREST \<Rightarrow> ''nearest'' | ROUND_UP \<Rightarrow> ''up'' | ROUND_DOWN \<Rightarrow> ''down'')"

definition settings_changes :: "payroll_setting \<Rightarrow> payroll_setting \<Rightarrow> payload" where
  "settings_changes old new =
     (if ps_currency old = ps_currency new then [] else [(''default_currency'', PStr (ps_currency new))]) @
     (if ps_pf_rate old = ps_pf_rate new then [] else [(''pf_rate'', PDec (ps_pf_rate new))]) @
     (if ps_tax_rate old = ps_tax_rate new then [] else [(''tax_rate'', PDec (ps_tax_rate new))]) @
     (if ps_rounding old = ps_rounding new then [] else [(''rounding'', PStr (rounding_text (ps_rounding new)))]) @
     (if ps_automation old = ps_automation new then [] else [(''ai_automation_enabled'', PBool (ps_automation new))])"

definition update_settings :: "payroll_setting \<Rightarrow> uuid option \<Rightarrow> payroll_setting service" where
  "update_settings r actor =
     bindM (get_settings (ps_tenant r)) (\<lambda>existing.
     bindM (upsert_settings r) (\<lambda>updated.
     let changed = (case existing of None \<Rightarrow> [] | Some old \<Rightarrow> settings_changes old r) in
     thenM (audit_by (ps_tenant r) actor ''payroll.settings.updated'' (target ''settings'' (ps_tenant r)) (Some changed))
     (thenM (people_event ''payroll.settings.updated'' (ps_tenant r) changed)
     (returnM updated))))"

definition run_code :: "nat \<Rightarrow> string" where
  "run_code n = ''PR-'' @ nat_text n"

definition new_run :: "uuid \<Rightarrow> uuid \<Rightarrow> nat \<Rightarrow> date \<Rightarrow> date \<Rightarrow> payroll_run" where
  "new_run i t n a b = \<lparr>pr_id = i, pr_tenant = t, pr_code = run_code n, pr_start = a, pr_end = b, pr_status = RUN_DRAFT,
     pr_gross = None, pr_net = None, pr_computed_by = None, pr_approved_by = None, pr_paid_by = None, pr_computed_at = None,
     pr_approved_at = None, pr_paid_at = None, pr_void_reason = None, pr_skipped = None, pr_bridge = BRIDGE_NONE\<rparr>"

definition create_run :: "uuid \<Rightarrow> date \<Rightarrow> date \<Rightarrow> uuid option \<Rightarrow> payroll_run service" where
  "create_run t a b actor =
     thenM (requireM (a \<le> b) ValueError)
     (bindM (find_overlapping_run t a b) (\<lambda>other.
     thenM (requireM (other = None) PayrollPeriodConflictError)
     (bindM (next_run_number t) (\<lambda>n.
     bindM fresh_id (\<lambda>i.
     bindM (insert_run (new_run i t n a b)) (\<lambda>created.
     thenM (audit_by t actor ''payroll.run.created'' (target ''payroll_run'' (pr_id created))
       (Some [(''period_start'', PDate a), (''period_end'', PDate b)]))
     (thenM (people_event ''payroll.run.created'' t
       [(''run_id'', PId (pr_id created)), (''period_start'', PDate a), (''period_end'', PDate b)])
     (returnM created))))))))"

definition active_employees :: "uuid \<Rightarrow> uuid \<Rightarrow> employee list service" where
  "active_employees t i =
     bindM (get_run t i) (\<lambda>found. bindM (the_or_raise ValueError found) (\<lambda>r. list_active_employees t (pr_start r) (pr_end r)))"

section \<open>Computing a run\<close>

definition period_days :: "payroll_run \<Rightarrow> int" where
  "period_days r = pr_end r - pr_start r + 1"

text \<open>The annual accrual of one employee, for every type that accrues; of the roster, employee by employee.\<close>

definition accrue_types :: "uuid \<Rightarrow> uuid \<Rightarrow> int \<Rightarrow> string list \<Rightarrow> unit service" where
  "accrue_types t e y codes = forM (\<lambda>c. thenM (accrue t e c y None) (returnM ())) codes"

definition accrue_roster :: "uuid \<Rightarrow> payroll_run \<Rightarrow> employee list \<Rightarrow> unit service" where
  "accrue_roster t r staff =
     bindM (list_accrual_leave_types t) (\<lambda>codes. forM (\<lambda>e. accrue_types t (em_id e) (year_of (pr_start r)) codes) staff)"

definition payable_salary :: "uuid \<Rightarrow> uuid \<Rightarrow> date \<Rightarrow> money option service" where
  "payable_salary t e day =
     bindM (get_compensation t e day) (\<lambda>found. case found of
        None \<Rightarrow> returnM None
      | Some c \<Rightarrow> bindM (resultM (Money (co_salary c) (co_currency c))) (\<lambda>m. returnM (Some m)))"

definition paid_days_of :: "uuid \<Rightarrow> payroll_run \<Rightarrow> employee \<Rightarrow> (int \<times> int) service" where
  "paid_days_of t r e =
     bindM (approved_unpaid_days t (em_id e) (pr_start r) (pr_end r)) (\<lambda>unpaid.
     returnM (unpaid, pay_days (pr_start r) (pr_end r) (Some (em_hired e)) (em_terminated e) unpaid))"

definition no_days_reason :: "int \<Rightarrow> employee \<Rightarrow> string" where
  "no_days_reason unpaid e =
     (if 0 < unpaid then ''on unpaid leave for the full period''
      else if em_terminated e \<noteq> None then ''terminated mid-period''
      else ''no payable days in this period'')"

text \<open>The entry of an employee who is paid; a row computed before keeps its id and its adjustments.\<close>

definition build_entry ::
  "uuid \<Rightarrow> payroll_run \<Rightarrow> payroll_setting \<Rightarrow> uuid \<Rightarrow> money \<Rightarrow> int \<Rightarrow> payroll_entry option \<Rightarrow> computed_entry service" where
  "build_entry t r cfg e salary days existing =
     (let adjustments = (case existing of None \<Rightarrow> None | Some x \<Rightarrow> pe_adjustments x) in
     bindM (resultM (compute_entry salary days (period_days r) (ps_pf_rate cfg) (ps_tax_rate cfg) (ps_rounding cfg) adjustments))
       (\<lambda>(gross, deductions, net).
     bindM (case existing of None \<Rightarrow> fresh_id | Some x \<Rightarrow> returnM (pe_id x)) (\<lambda>i.
     returnM (\<lparr>pe_id = i, pe_tenant = t, pe_run = pr_id r, pe_employee = e, pe_base = amount salary, pe_days = days,
        pe_gross = amount gross, pe_deductions = amount deductions, pe_net = amount net, pe_adjustments = adjustments\<rparr>,
        currency gross))))"

text \<open>One turn of the roster loop: a skip record or an entry.\<close>

definition pay_employee ::
  "uuid \<Rightarrow> payroll_run \<Rightarrow> payroll_setting \<Rightarrow> computed_entry list \<Rightarrow> employee \<Rightarrow> (skip_record + computed_entry) service" where
  "pay_employee t r cfg existing e =
     bindM (payable_salary t (em_id e) (pr_end r)) (\<lambda>salary. case salary of
       None \<Rightarrow> returnM (Inl (skip_from_text (em_id e) ''no effective compensation'' (Some NO_COMPENSATION)))
     | Some m \<Rightarrow>
         bindM (paid_days_of t r e) (\<lambda>(unpaid, days).
         if days \<le> 0 then returnM (Inl (skip_from_text (em_id e) (no_days_reason unpaid e) None))
         else bindM (build_entry t r cfg (em_id e) m days (select_one (\<lambda>x. pe_employee x = em_id e) (map fst existing)))
           (\<lambda>x. returnM (Inr x))))"

definition skips_of :: "(skip_record + 'a) list \<Rightarrow> skip_record list" where
  "skips_of xs = concat (map (\<lambda>x. case x of Inl k \<Rightarrow> [k] | Inr _ \<Rightarrow> []) xs)"

definition paid_of :: "('a + 'b) list \<Rightarrow> 'b list" where
  "paid_of xs = concat (map (\<lambda>x. case x of Inl _ \<Rightarrow> [] | Inr e \<Rightarrow> [e]) xs)"

text \<open>Text the code takes for absent: \<open>not (a or b)\<close>.\<close>

definition present :: "string option \<Rightarrow> bool" where
  "present x \<longleftrightarrow> (case x of None \<Rightarrow> False | Some s \<Rightarrow> s \<noteq> [])"

definition risk_rows :: "employee list \<Rightarrow> uuid set \<Rightarrow> skip_record list \<Rightarrow> skip_record list" where
  "risk_rows staff computed records =
     map (\<lambda>e. skip_from_text (em_id e) ''missing bank details'' (Some MISSING_BANK_DETAILS))
       (filter (\<lambda>e. em_id e \<in> computed \<and> em_id e \<notin> sk_employee ` set records \<and>
          \<not> (present (em_bank_account e) \<or> present (em_bank_name e))) staff)"

definition append_bank_detail_risk_rows :: "uuid \<Rightarrow> payroll_run \<Rightarrow> uuid set \<Rightarrow> skip_record list \<Rightarrow> skip_record list service" where
  "append_bank_detail_risk_rows t r computed records =
     bindM (list_active_employees t (pr_start r) (pr_end r)) (\<lambda>staff. returnM (records @ risk_rows staff computed records))"

definition totals_or_zero :: "computed_entry list \<Rightarrow> string \<Rightarrow> error + (money \<times> money)" where
  "totals_or_zero es cur = (if es \<noteq> [] then compute_totals es
     else and_then (Money 0 cur) (\<lambda>g. and_then (Money 0 cur) (\<lambda>n. Inr (g, n))))"

definition payslip_of :: "employee \<Rightarrow> payroll_entry \<Rightarrow> payslip" where
  "payslip_of q x = \<lparr>sl_tenant = pe_tenant x, sl_run = pe_run x, sl_employee = pe_employee x, sl_number = em_number q,
     sl_name = strip (em_first q @ '' '' @ em_last q), sl_gross = pe_gross x, sl_deductions = pe_deductions x, sl_net = pe_net x\<rparr>"

definition payslips_for_run :: "uuid \<Rightarrow> uuid \<Rightarrow> payslip list service" where
  "payslips_for_run t run =
     bindM (list_entries t run) (\<lambda>es.
     bindM (mapM (\<lambda>x. bindM (get_roster_employee t (pe_employee (fst x))) (\<lambda>q.
         returnM (case q of None \<Rightarrow> [] | Some m \<Rightarrow> [payslip_of m (fst x)]))) es) (\<lambda>rows.
     returnM (sort_key sl_number (concat rows))))"

text \<open>The audit row's list of skips is given by the employees it names.\<close>

definition computed_details :: "nat \<Rightarrow> skip_record list \<Rightarrow> payload" where
  "computed_details n records = [(''entry_count'', PInt (int n)), (''skipped_count'', PInt (int (length records))),
     (''risk_count'', PInt (int (length (filter (\<lambda>k. sk_category k = RISK) records))))]"

text \<open>The end both ways of computing share: reviews, the move to \<open>computed\<close>, audit row and event.\<close>

definition mark_computed :: "uuid option \<Rightarrow> int \<Rightarrow> money \<Rightarrow> money \<Rightarrow> skip_record list \<Rightarrow> payroll_run \<Rightarrow> payroll_run" where
  "mark_computed actor now g n records r = r\<lparr>pr_computed_by := set_if actor (pr_computed_by r), pr_computed_at := Some now,
     pr_gross := Some (numeric 4 (amount g)), pr_net := Some (numeric 4 (amount n)), pr_skipped := Some records\<rparr>"

definition materialize_run :: "uuid \<Rightarrow> uuid \<Rightarrow> unit service" where
  "materialize_run t i = bindM (payslips_for_run t i) (\<lambda>xs. if xs = [] then returnM () else materialize_payslip_reviews t i xs)"

definition close_compute ::
  "uuid \<Rightarrow> payroll_run \<Rightarrow> uuid option \<Rightarrow> nat \<Rightarrow> money \<times> money \<Rightarrow> skip_record list \<Rightarrow> payload \<Rightarrow> payroll_run service" where
  "close_compute t r actor n totals records details =
     bindM (getsM clk) (\<lambda>k.
     bindM (transition_run_status t (pr_id r) (pr_status r) RUN_COMPUTED
       (mark_computed actor (instant k) (fst totals) (snd totals) records)) (\<lambda>moved.
     bindM (the_or_raise (IllegalStateTransitionError ''run is not in this state'') moved) (\<lambda>computed.
     thenM (audit_by t actor ''payroll.run.computed'' (target ''payroll_run'' (pr_id r)) (Some (computed_details n records @ details)))
     (thenM (people_event ''payroll.run.computed'' t
       [(''run_id'', PId (pr_id r)), (''period_start'', PDate (pr_start r)), (''period_end'', PDate (pr_end r)),
        (''total_gross'', PDec (amount (fst totals))), (''total_net'', PDec (amount (snd totals)))])
     (returnM computed)))))"

definition drop_stale :: "uuid \<Rightarrow> uuid \<Rightarrow> computed_entry list \<Rightarrow> computed_entry list \<Rightarrow> unit service" where
  "drop_stale t i existing es = (let keep = map (pe_employee \<circ> fst) es in
     if \<exists>x \<in> set existing. pe_employee (fst x) \<notin> set keep
     then thenM (delete_entries_for_run t i keep) (returnM ()) else returnM ())"

definition compute_run :: "uuid \<Rightarrow> uuid \<Rightarrow> uuid option \<Rightarrow> (payroll_run \<times> computed_entry list \<times> skip_record list) service" where
  "compute_run t i actor =
     bindM (computable_run t i) (\<lambda>r.
     bindM (get_settings t) (\<lambda>found.
     bindM (the_or_raise ValueError found) (\<lambda>cfg.
     bindM (list_active_employees t (pr_start r) (pr_end r)) (\<lambda>staff.
     thenM (accrue_roster t r staff)
     (bindM (list_entries t i) (\<lambda>existing.
     bindM (mapM (pay_employee t r cfg existing) staff) (\<lambda>results.
     let es = paid_of results in
     thenM (upsert_entries (map fst es))
     (thenM (drop_stale t i existing es)
     (bindM (append_bank_detail_risk_rows t r ((pe_employee \<circ> fst) ` set es) (skips_of results)) (\<lambda>records.
     bindM (resultM (totals_or_zero es (ps_currency cfg))) (\<lambda>totals.
     thenM (materialize_run t i)
     (bindM (close_compute t r actor (length es) totals records (map (\<lambda>k. (''skipped'', PId (sk_employee k))) records)) (\<lambda>computed.
     returnM (computed, es, records))))))))))))))"

text \<open>
  The batch engine's way: one employee at a time, then \<open>finalize_compute\<close>. \<open>estimate\<close> neither accrues nor
  writes, \<open>persist\<close> off computes without writing.
\<close>

definition compute_single :: "uuid \<Rightarrow> uuid \<Rightarrow> uuid \<Rightarrow> bool \<Rightarrow> bool \<Rightarrow> (computed_entry option \<times> string option) service" where
  "compute_single t i e persist estimate =
     bindM (computable_run t i) (\<lambda>r.
     bindM (get_settings t) (\<lambda>found.
     bindM (the_or_raise ValueError found) (\<lambda>cfg.
     bindM (list_active_employees t (pr_start r) (pr_end r)) (\<lambda>staff.
     case select_one (\<lambda>q. em_id q = e) staff of
       None \<Rightarrow> returnM (None, Some ''employee not on the active roster for this period'')
     | Some q \<Rightarrow>
     bindM (payable_salary t e (pr_end r)) (\<lambda>salary. case salary of
       None \<Rightarrow> returnM (None, Some ''no effective compensation'')
     | Some m \<Rightarrow>
     thenM (if estimate then returnM ()
        else bindM (list_accrual_leave_types t) (accrue_types t e (year_of (pr_start r))))
     (bindM (paid_days_of t r q) (\<lambda>(unpaid, days).
     if days \<le> 0 then returnM (None, Some (no_days_reason unpaid q)) else
     bindM (get_entry t i e) (\<lambda>existing.
     bindM (build_entry t r cfg e m days (map_option fst existing)) (\<lambda>x.
     thenM (if persist \<and> \<not> estimate then upsert_entries [fst x] else returnM ())
     (returnM (Some x, None)))))))))))"

definition reason_or_unknown :: "string option \<Rightarrow> string" where
  "reason_or_unknown x = (case x of None \<Rightarrow> ''unknown'' | Some s \<Rightarrow> if s = [] then ''unknown'' else s)"

definition finalize_compute :: "uuid \<Rightarrow> uuid \<Rightarrow> uuid option \<Rightarrow> (uuid \<times> string option) list \<Rightarrow> payroll_run service" where
  "finalize_compute t i actor skipped =
     bindM (computable_run t i) (\<lambda>r.
     bindM (get_settings t) (\<lambda>cfg.
     bindM (list_entries t i) (\<lambda>es.
     bindM (resultM (totals_or_zero es (case cfg of None \<Rightarrow> ''USD'' | Some c \<Rightarrow> ps_currency c))) (\<lambda>totals.
     thenM (materialize_run t i)
     (bindM (append_bank_detail_risk_rows t r ((pe_employee \<circ> fst) ` set es)
         (map (\<lambda>(e, why). skip_from_text e (reason_or_unknown why) None) skipped)) (\<lambda>records.
     close_compute t r actor (length es) totals records []))))))"

section \<open>Approval, payment, void\<close>

definition complete_approval :: "uuid \<Rightarrow> uuid \<Rightarrow> uuid option \<Rightarrow> uuid option \<Rightarrow> int \<Rightarrow> payroll_run service" where
  "complete_approval t i approver actor now =
     bindM (run_for t i RUN_APPROVED ''only computed runs can be approved'') (\<lambda>r.
     bindM (transition_run_status t i RUN_COMPUTED RUN_APPROVED
       (\<lambda>q. q\<lparr>pr_approved_by := set_if approver (pr_approved_by q), pr_approved_at := Some now\<rparr>)) (\<lambda>moved.
     bindM (the_or_raise (IllegalStateTransitionError ''run is not in computed state'') moved) (\<lambda>approved.
     thenM (audit_by t actor ''payroll.run.approved'' (target ''payroll_run'' i) None)
     (bindM (list_entries t i) (\<lambda>es.
     thenM (people_event ''payroll.run.approved'' t
       [(''run_id'', PId i), (''total_net'', PDec (case pr_net approved of None \<Rightarrow> 0 | Some x \<Rightarrow> x)),
        (''entry_count'', PInt (int (length es)))])
     (returnM approved))))))"

type_synonym payroll_approval = "uuid \<Rightarrow> uuid \<Rightarrow> uuid option \<Rightarrow> payroll_run \<Rightarrow> decimal \<Rightarrow> payroll_run service"

definition approve_run :: "payroll_approval option \<Rightarrow> uuid \<Rightarrow> uuid \<Rightarrow> uuid \<Rightarrow> uuid option \<Rightarrow> payroll_run service" where
  "approve_run approval t i approver actor =
     bindM (run_for t i RUN_APPROVED ''only computed runs can be approved'') (\<lambda>r.
     case approval of
       Some submit_for_approval \<Rightarrow> submit_for_approval t approver actor r (case pr_net r of None \<Rightarrow> 0 | Some x \<Rightarrow> x)
     | None \<Rightarrow> bindM (getsM clk) (\<lambda>k. complete_approval t i (Some approver) actor (instant k)))"

text \<open>\<open>PayrollApprovalResourcePort\<close> and \<open>PayrollRunApprovalCoordinator\<close>.\<close>

definition payroll_port :: "payroll_run resource_port" where
  "payroll_port = \<lparr>on_approved = (\<lambda>t rt res ty reason who. bindM (getsM clk) (\<lambda>k. complete_approval t res who who (instant k))),
     on_rejected = (\<lambda>t rt res reason. returnM ()), on_request_changes = (\<lambda>t rt res reason. returnM ())\<rparr>"

definition coordinator :: "ai_routing option \<Rightarrow> payroll_approval" where
  "coordinator ai t user actor r net =
     bindM (payroll_approval_engine_enabled t) (\<lambda>on.
     bindM (getsM clk) (\<lambda>k.
     if \<not> on then complete_approval t (pr_id r) (Some user) actor (instant k)
     else
     bindM (get_active t ''payroll_run'') (\<lambda>found.
     bindM (the_or_raise ApprovalDefinitionMissingError found) (\<lambda>active.
     let d = df_body active in
     thenM (requireM (valid_definition d) ValueError)
     (bindM (submit (Some payroll_port) t d (df_id active) ''payroll_run'' (pr_id r) (Some net) user) (\<lambda>res.
     if sr_auto_approved res then the_or_raise AssertionError (sr_outcome res)
     else
     bindM (nth_or_raise (sr_steps res) (wi_current (sr_instance res))) (\<lambda>waiting.
     bindM (nth_or_raise (wd_steps d) (wi_current (sr_instance res))) (\<lambda>x.
     thenM (if ws_routing x = AI_ASSISTED then
         bindM (step_assignee_ids t waiting) (\<lambda>eligible.
         thenM (suggest_and_record ai t (sr_instance res) waiting (Some net) (''payroll run '' @ pr_code r)
           (if eligible = [] then None else Some eligible)) (returnM ()))
       else returnM ())
     (returnM r)))))))))"

text \<open>What the decision endpoint runs for an approved payroll run, and the endpoint with it.\<close>

definition payroll_transition :: "uuid \<Rightarrow> uuid \<Rightarrow> uuid option \<Rightarrow> int \<Rightarrow> unit service" where
  "payroll_transition t i who now = request (complete_approval t i who who now)"

definition mark_paid :: "uuid \<Rightarrow> uuid \<Rightarrow> uuid \<Rightarrow> uuid option \<Rightarrow> payroll_run service" where
  "mark_paid t i payer actor =
     bindM (run_for t i RUN_PAID ''only approved runs can be marked paid'') (\<lambda>r.
     bindM (getsM clk) (\<lambda>k.
     bindM (transition_run_status t i RUN_APPROVED RUN_PAID
       (\<lambda>q. q\<lparr>pr_paid_by := Some payer, pr_paid_at := Some (instant k)\<rparr>)) (\<lambda>moved.
     bindM (the_or_raise (IllegalStateTransitionError ''run is not in approved state'') moved) (\<lambda>paid.
     thenM (audit_by t actor ''payroll.run.paid'' (target ''payroll_run'' i) None)
     (let net = (case pr_net paid of None \<Rightarrow> 0 | Some x \<Rightarrow> x) in
     thenM (people_event ''payroll.run.paid'' t [(''run_id'', PId i), (''total_net'', PDec net), (''paid_at'', PInt (instant k))])
     (case pr_gross paid of None \<Rightarrow> returnM paid | Some gross \<Rightarrow>
        if \<not> 0 < gross then returnM paid else
        bindM (get_settings t) (\<lambda>cfg. case cfg of None \<Rightarrow> returnM paid | Some c \<Rightarrow>
        if \<not> ps_je_bridge c then returnM paid else
        bindM (create_payroll_accrual_draft t i (today k) gross net) (\<lambda>booked.
        bindM (set_run_je_bridge_status t i (case booked of MissingAccounts _ \<Rightarrow> BRIDGE_PENDING | AccrualBooked _ \<Rightarrow> BRIDGE_DRAFT))
          (\<lambda>refreshed. returnM (case refreshed of None \<Rightarrow> paid | Some x \<Rightarrow> x))))))))))"

definition void_run :: "uuid \<Rightarrow> uuid \<Rightarrow> string option \<Rightarrow> uuid option \<Rightarrow> payroll_run service" where
  "void_run t i reason actor =
     bindM (run_for t i RUN_VOID ''paid runs cannot be voided'') (\<lambda>r.
     bindM (transition_run_status t i (pr_status r) RUN_VOID (\<lambda>q. q\<lparr>pr_void_reason := set_if reason (pr_void_reason q)\<rparr>)) (\<lambda>moved.
     bindM (the_or_raise (IllegalStateTransitionError ''run state changed concurrently'') moved) (\<lambda>voided.
     thenM (audit_by t actor ''payroll.run.voided'' (target ''payroll_run'' i) (Some [(''reason'', opt_str reason)]))
     (thenM (people_event ''payroll.run.voided'' t
       ((''run_id'', PId i) # (case reason of None \<Rightarrow> [] | Some x \<Rightarrow> [(''reason'', PStr x)])))
     (returnM voided)))))"

section \<open>Adjusting an entry\<close>

definition recompute_entry :: "uuid \<Rightarrow> payroll_run \<Rightarrow> computed_entry \<Rightarrow> payload option \<Rightarrow> computed_entry service" where
  "recompute_entry t r x adjustments =
     bindM (get_settings t) (\<lambda>cfg.
     bindM (resultM (Money (pe_base (fst x)) (snd x))) (\<lambda>base.
     bindM (resultM (compute_entry base (pe_days (fst x)) (period_days r)
       (case cfg of None \<Rightarrow> 0 | Some c \<Rightarrow> ps_pf_rate c) (case cfg of None \<Rightarrow> 0 | Some c \<Rightarrow> ps_tax_rate c)
       (case cfg of None \<Rightarrow> ROUND_NEAREST | Some c \<Rightarrow> ps_rounding c) adjustments)) (\<lambda>(gross, deductions, net).
     returnM ((fst x)\<lparr>pe_gross := amount gross, pe_deductions := amount deductions, pe_net := amount net,
       pe_adjustments := adjustments\<rparr>, snd x))))"

definition adjust_entry_by_id :: "uuid \<Rightarrow> uuid \<Rightarrow> uuid \<Rightarrow> payload \<Rightarrow> uuid option \<Rightarrow> computed_entry service" where
  "adjust_entry_by_id t run i adjustments actor =
     bindM (get_run t run) (\<lambda>found.
     bindM (the_or_raise ValueError found) (\<lambda>r.
     thenM (requireM (pr_status r \<notin> {RUN_APPROVED, RUN_PAID}) PayrollEntryImmutableError)
     (bindM (get_entry_by_id t i) (\<lambda>entry.
     bindM (the_or_raise ValueError entry) (\<lambda>x.
     thenM (requireM (pe_run (fst x) = run) ValueError)
     (let merged = merge_payload (case pe_adjustments (fst x) of None \<Rightarrow> [] | Some xs \<Rightarrow> xs) adjustments in
     bindM (recompute_entry t r x (Some merged)) (\<lambda>y.
     bindM (update_entry (fst y)) (\<lambda>updated.
     thenM (audit_by t actor ''payroll.entry.adjusted'' (target ''payroll_entry'' (pe_id (fst updated))) (Some adjustments))
     (thenM (people_event ''payroll.entry.adjusted'' t
       ([(''run_id'', PId run), (''employee_id'', PId (pe_employee (fst x)))] @ adjustments))
     (returnM updated))))))))))"

definition list_entries_service :: "uuid \<Rightarrow> uuid \<Rightarrow> uuid option \<Rightarrow> computed_entry list service" where
  "list_entries_service t run e = bindM (list_entries t run) (\<lambda>es.
     returnM (case e of None \<Rightarrow> es | Some i \<Rightarrow> filter (\<lambda>x. pe_employee (fst x) = i) es))"

definition list_run_payslips :: "uuid \<Rightarrow> uuid \<Rightarrow> payslip list service" where
  "list_run_payslips t run =
     bindM (get_run t run) (\<lambda>found. bindM (the_or_raise ValueError found) (\<lambda>r.
     if pr_status r \<notin> {RUN_COMPUTED, RUN_APPROVED, RUN_PAID} then returnM [] else payslips_for_run t run))"

section \<open>Payslip reviews\<close>

text \<open>
  \<open>notify\<close> is the delivery port (tenant, run, employee, version). A rejected payslip gets a new version,
  which is approved instead by a second call; that one finds a draft and does not call again.
\<close>

type_synonym notifier = "uuid \<Rightarrow> uuid \<Rightarrow> uuid \<Rightarrow> nat \<Rightarrow> unit service"

definition or_else :: "uuid option \<Rightarrow> uuid \<Rightarrow> uuid option" where
  "or_else x y = (if x = None then Some y else x)"

definition approve_review ::
  "(uuid \<Rightarrow> payslip_review service) \<Rightarrow> notifier option \<Rightarrow> uuid \<Rightarrow> uuid \<Rightarrow> uuid option \<Rightarrow> uuid \<Rightarrow> payslip_review service" where
  "approve_review again notify t approver actor i =
     bindM (get_payslip_review t i) (\<lambda>found.
     bindM (the_or_raise ValueError found) (\<lambda>review.
     case rv_status review of
       REVIEW_APPROVED \<Rightarrow> returnM review
     | REVIEW_REJECTED \<Rightarrow>
         bindM (bump_payslip_review_version t i) (\<lambda>bumped.
         bindM (the_or_raise ValueError bumped) (\<lambda>new. again (rv_id new)))
     | REVIEW_DRAFT \<Rightarrow>
         bindM (getsM clk) (\<lambda>k.
         bindM (transition_payslip_review t i REVIEW_DRAFT REVIEW_APPROVED approver (instant k) None) (\<lambda>moved.
         bindM (the_or_raise (IllegalStateTransitionError ''payslip is not in draft state'') moved) (\<lambda>approved.
         thenM (audit_by t (or_else actor approver) ''payroll.payslip.approved'' (target ''payslip'' i)
           (Some [(''run_id'', PId (rv_run review)), (''employee_id'', PId (rv_employee review)),
             (''version'', PInt (int (rv_version approved)))]))
         (thenM (case notify of None \<Rightarrow> returnM () | Some f \<Rightarrow> f t (rv_run review) (rv_employee review) (rv_version approved))
         (returnM approved)))))))"

definition approve_payslip :: "notifier option \<Rightarrow> uuid \<Rightarrow> uuid \<Rightarrow> uuid \<Rightarrow> uuid option \<Rightarrow> payslip_review service" where
  "approve_payslip notify t i approver actor =
     approve_review (approve_review (\<lambda>_. raiseM AssertionError) notify t approver actor) notify t approver actor i"

definition reject_payslip :: "uuid \<Rightarrow> uuid \<Rightarrow> uuid \<Rightarrow> string option \<Rightarrow> uuid option \<Rightarrow> payslip_review service" where
  "reject_payslip t i rejector reason actor =
     bindM (get_payslip_review t i) (\<lambda>found.
     bindM (the_or_raise ValueError found) (\<lambda>review.
     thenM (requireM (rv_status review = REVIEW_DRAFT) (IllegalStateTransitionError ''only draft payslips can be rejected''))
     (bindM (getsM clk) (\<lambda>k.
     bindM (transition_payslip_review t i REVIEW_DRAFT REVIEW_REJECTED rejector (instant k) reason) (\<lambda>moved.
     bindM (the_or_raise (IllegalStateTransitionError ''payslip is not in draft state'') moved) (\<lambda>rejected.
     thenM (audit_by t (or_else actor rejector) ''payroll.payslip.rejected'' (target ''payslip'' i)
       (Some [(''run_id'', PId (rv_run review)), (''employee_id'', PId (rv_employee review)),
         (''version'', PInt (int (rv_version rejected))), (''reason'', opt_str reason)]))
     (returnM rejected)))))))"

section \<open>Compensation\<close>

definition record_compensation :: "uuid \<Rightarrow> uuid \<Rightarrow> money \<Rightarrow> date \<Rightarrow> uuid option \<Rightarrow> compensation service" where
  "record_compensation t e salary from_d actor =
     bindM fresh_id (\<lambda>i.
     bindM (create_compensation \<lparr>co_id = i, co_tenant = t, co_employee = e, co_salary = amount salary, co_currency = currency salary,
        co_from = from_d, co_active = True\<rparr>) (\<lambda>created.
     thenM (audit_by t actor ''payroll.compensation.recorded'' (target ''compensation'' (co_id created))
       (Some [(''employee_id'', PId e), (''monthly_salary'', PDec (amount salary)), (''effective_from'', PDate from_d)]))
     (thenM (people_event ''payroll.compensation.recorded'' t
       [(''employee_id'', PId e), (''monthly_salary'', PDec (amount salary)), (''effective_from'', PDate from_d)])
     (returnM created))))"

end
