(* ===== verification/Hr_Ledger.thy ===== *)
theory Hr_Ledger
  imports Hr_Service
begin

text \<open>
  The leave ledger as an account: what was granted, what approved requests took, and the
  materialized balance. How the operations of the repository move it.
\<close>

section \<open>The account of one employee and leave type\<close>

definition accrual_type :: "uuid \<Rightarrow> string \<Rightarrow> people_tables \<Rightarrow> bool" where
  "accrual_type t c p = accrues (select_one (leave_type_key t c) (leave_types p))"

definition materialized :: "uuid \<Rightarrow> uuid \<Rightarrow> string \<Rightarrow> people_tables \<Rightarrow> int" where
  "materialized t e c p = (case select_one (balance_key t e c) (leave_balances p) of None \<Rightarrow> 0 | Some b \<Rightarrow> lb_balance b)"

definition grant_movement :: "leave_movement \<Rightarrow> bool" where
  "grant_movement m \<longleftrightarrow> lm_ref_type m \<in> {''accrual'', ''adjustment''}"

definition granted_days :: "uuid \<Rightarrow> uuid \<Rightarrow> string \<Rightarrow> people_tables \<Rightarrow> int" where
  "granted_days t e c p = sum_list (map lm_qty (filter (\<lambda>m. bucket_of t e c m \<and> grant_movement m) (leave_movements p)))"

definition takes :: "uuid \<Rightarrow> uuid \<Rightarrow> string \<Rightarrow> leave_request \<Rightarrow> bool" where
  "takes t e c r \<longleftrightarrow> lr_tenant r = t \<and> lr_employee r = e \<and> lr_type r = c \<and> lr_status r = LEAVE_APPROVED"

definition taken_days :: "uuid \<Rightarrow> uuid \<Rightarrow> string \<Rightarrow> people_tables \<Rightarrow> int" where
  "taken_days t e c p = sum_list (map lr_days (filter (takes t e c) (leave_requests p)))"

definition accrual_grants :: "uuid \<Rightarrow> uuid \<Rightarrow> string \<Rightarrow> string option \<Rightarrow> people_tables \<Rightarrow> leave_movement list" where
  "accrual_grants t e c y p =
     filter (\<lambda>m. bucket_of t e c m \<and> lm_ref_type m = ''accrual'' \<and> lm_ref_id m = y) (leave_movements p)"

definition request_id :: "leave_request \<Rightarrow> uuid \<times> uuid" where
  "request_id r = (lr_tenant r, lr_id r)"

definition account_balanced :: "uuid \<Rightarrow> uuid \<Rightarrow> string \<Rightarrow> people_tables \<Rightarrow> bool" where
  "account_balanced t e c p \<longleftrightarrow> leave_sum t e c p = granted_days t e c p - taken_days t e c p \<and>
     (accrual_type t c p \<longrightarrow> materialized t e c p = leave_sum t e c p \<and> 0 \<le> leave_sum t e c p)"

definition leave_wf :: "people_tables \<Rightarrow> bool" where
  "leave_wf p \<longleftrightarrow> distinct (map request_id (leave_requests p)) \<and> (\<forall>t e c. account_balanced t e c p) \<and>
     (\<forall>t e c y. length (accrual_grants t e c y p) \<le> 1)"

lemma leave_request_key_iff: "leave_request_key t i r \<longleftrightarrow> request_id r = (t, i)"
  by (auto simp: leave_request_key_def request_id_def)

lemma leave_wfD: "leave_wf p \<Longrightarrow> account_balanced t e c p"
  by (simp add: leave_wf_def)

text \<open>The tables the account does not look at.\<close>

lemma leave_wf_other [simp]:
  "leave_wf (p\<lparr>departments := x1\<rparr>) = leave_wf p"
  "leave_wf (p\<lparr>employees := x2\<rparr>) = leave_wf p"
  "leave_wf (p\<lparr>leave_policies := x3\<rparr>) = leave_wf p"
  "leave_wf (p\<lparr>attendance := x4\<rparr>) = leave_wf p"
  "leave_wf (p\<lparr>compensations := x5\<rparr>) = leave_wf p"
  "leave_wf (p\<lparr>payroll_runs := x6\<rparr>) = leave_wf p"
  "leave_wf (p\<lparr>payroll_entries := x7\<rparr>) = leave_wf p"
  "leave_wf (p\<lparr>payslip_reviews := x8\<rparr>) = leave_wf p"
  by (simp_all add: leave_wf_def account_balanced_def leave_sum_def granted_days_def taken_days_def accrual_type_def
      materialized_def accrual_grants_def)

section \<open>Moves of the account\<close>

definition posted :: "leave_movement \<Rightarrow> people_tables \<Rightarrow> people_tables" where
  "posted m p = p\<lparr>leave_movements := leave_movements p @ [m]\<rparr>"

definition seeded :: "uuid \<Rightarrow> uuid \<Rightarrow> string \<Rightarrow> uuid \<Rightarrow> people_tables \<Rightarrow> people_tables" where
  "seeded t e c i p = (case select_one (balance_key t e c) (leave_balances p) of Some _ \<Rightarrow> p
     | None \<Rightarrow> p\<lparr>leave_balances := leave_balances p @
         [\<lparr>lb_id = i, lb_tenant = t, lb_employee = e, lb_type = c, lb_balance = 0\<rparr>]\<rparr>)"

definition set_balance :: "uuid \<Rightarrow> uuid \<Rightarrow> string \<Rightarrow> int \<Rightarrow> uuid \<Rightarrow> people_tables \<Rightarrow> people_tables" where
  "set_balance t e c n i p = (case select_one (balance_key t e c) (leave_balances p) of
     Some _ \<Rightarrow> p\<lparr>leave_balances := update_where (balance_key t e c) (\<lambda>q. q\<lparr>lb_balance := n\<rparr>) (leave_balances p)\<rparr>
   | None \<Rightarrow> p\<lparr>leave_balances := leave_balances p @
       [\<lparr>lb_id = i, lb_tenant = t, lb_employee = e, lb_type = c, lb_balance = n\<rparr>]\<rparr>)"

definition decided_request :: "uuid \<Rightarrow> uuid \<Rightarrow> leave_status \<Rightarrow> leave_status \<Rightarrow> uuid option \<Rightarrow> int option \<Rightarrow> people_tables \<Rightarrow> people_tables" where
  "decided_request t i from_st to_st who now p = p\<lparr>leave_requests :=
     update_where (\<lambda>r. leave_request_key t i r \<and> lr_status r = from_st) (moved_request to_st who now) (leave_requests p)\<rparr>"

lemma moves_fields [simp]:
  "leave_requests (posted m p) = leave_requests p" "leave_types (posted m p) = leave_types p"
  "leave_balances (posted m p) = leave_balances p" "employees (posted m p) = employees p"
  "leave_movements (posted m p) = leave_movements p @ [m]"
  "leave_movements (seeded t e c i p) = leave_movements p" "leave_requests (seeded t e c i p) = leave_requests p"
  "leave_types (seeded t e c i p) = leave_types p" "employees (seeded t e c i p) = employees p"
  "leave_movements (set_balance t e c n i p) = leave_movements p" "leave_requests (set_balance t e c n i p) = leave_requests p"
  "leave_types (set_balance t e c n i p) = leave_types p" "employees (set_balance t e c n i p) = employees p"
  "leave_movements (decided_request t' i' f g w h p) = leave_movements p"
  "leave_types (decided_request t' i' f g w h p) = leave_types p"
  "leave_balances (decided_request t' i' f g w h p) = leave_balances p"
  "employees (decided_request t' i' f g w h p) = employees p"
  by (simp_all add: posted_def seeded_def set_balance_def decided_request_def split: option.split)

lemma ledger_same [simp]:
  "leave_sum t e c (seeded t' e' c' i p) = leave_sum t e c p"
  "leave_sum t e c (set_balance t' e' c' n i p) = leave_sum t e c p"
  "leave_sum t e c (decided_request t' i' f g w h p) = leave_sum t e c p"
  "granted_days t e c (seeded t' e' c' i p) = granted_days t e c p"
  "granted_days t e c (set_balance t' e' c' n i p) = granted_days t e c p"
  "granted_days t e c (decided_request t' i' f g w h p) = granted_days t e c p"
  "taken_days t e c (seeded t' e' c' i p) = taken_days t e c p"
  "taken_days t e c (set_balance t' e' c' n i p) = taken_days t e c p"
  "taken_days t e c (posted m p) = taken_days t e c p"
  "accrual_type t c (seeded t' e' c' i p) = accrual_type t c p"
  "accrual_type t c (set_balance t' e' c' n i p) = accrual_type t c p"
  "accrual_type t c (posted m p) = accrual_type t c p"
  "accrual_type t c (decided_request t' i' f g w h p) = accrual_type t c p"
  "accrual_grants t e c y (seeded t' e' c' i p) = accrual_grants t e c y p"
  "accrual_grants t e c y (set_balance t' e' c' n i p) = accrual_grants t e c y p"
  "accrual_grants t e c y (decided_request t' i' f g w h p) = accrual_grants t e c y p"
  "materialized t e c (posted m p) = materialized t e c p"
  "materialized t e c (decided_request t' i' f g w h p) = materialized t e c p"
  by (simp_all add: leave_sum_def granted_days_def taken_days_def accrual_type_def accrual_grants_def materialized_def)

lemma ledger_posted:
  "leave_sum t e c (posted m p) = leave_sum t e c p + (if bucket_of t e c m then lm_qty m else 0)"
  "granted_days t e c (posted m p) = granted_days t e c p + (if bucket_of t e c m \<and> grant_movement m then lm_qty m else 0)"
  by (simp_all add: leave_sum_def granted_days_def)

lemma grants_posted: "accrual_grants t e c y (posted m p) =
  accrual_grants t e c y p @ (if bucket_of t e c m \<and> lm_ref_type m = ''accrual'' \<and> lm_ref_id m = y then [m] else [])"
  by (simp add: accrual_grants_def)

lemma balance_key_other: "(t, e, c) \<noteq> (t', e', c') \<Longrightarrow> balance_key t e c b \<Longrightarrow> \<not> balance_key t' e' c' b"
  by (auto simp: balance_key_def)

lemma materialized_seeded [simp]: "materialized t e c (seeded t' e' c' i p) = materialized t e c p"
  by (cases "(t, e, c) = (t', e', c')")
    (auto simp: materialized_def seeded_def select_one_append balance_key_def split: option.split)

lemma materialized_set [simp]:
  "materialized t e c (set_balance t' e' c' n i p) = (if (t, e, c) = (t', e', c') then n else materialized t e c p)"
proof (cases "(t, e, c) = (t', e', c')")
  case True
  have "select_one (balance_key t e c) (update_where (balance_key t e c) (\<lambda>q. q\<lparr>lb_balance := n\<rparr>) rows) =
      map_option (\<lambda>q. q\<lparr>lb_balance := n\<rparr>) (select_one (balance_key t e c) rows)" for rows
    by (induction rows) (auto simp: balance_key_def)
  then show ?thesis using True
    by (auto simp: materialized_def set_balance_def select_one_append balance_key_def split: option.split)
next
  case False
  then have "select_one (balance_key t e c) (update_where (balance_key t' e' c') (\<lambda>q. q\<lparr>lb_balance := n\<rparr>) rows) =
      select_one (balance_key t e c) rows" for rows
    by (induction rows) (auto simp: balance_key_def)
  then show ?thesis using False
    by (auto simp: materialized_def set_balance_def select_one_append balance_key_def split: option.split)
qed

section \<open>Moves keep the account in order\<close>

definition booking :: "bool \<Rightarrow> uuid \<Rightarrow> uuid \<Rightarrow> string \<Rightarrow> int \<Rightarrow> uuid \<Rightarrow> leave_movement \<Rightarrow> people_tables \<Rightarrow> people_tables" where
  "booking acc t e c n i m p = (if acc then set_balance t e c n i (posted m p) else posted m p)"

lemma booking_fields [simp]:
  "leave_requests (booking acc t e c n i m p) = leave_requests p"
  "leave_types (booking acc t e c n i m p) = leave_types p"
  "employees (booking acc t e c n i m p) = employees p"
  "leave_movements (booking acc t e c n i m p) = leave_movements p @ [m]"
  "taken_days t' e' c' (booking acc t e c n i m p) = taken_days t' e' c' p"
  "accrual_type t' c' (booking acc t e c n i m p) = accrual_type t' c' p"
  by (simp_all add: booking_def)

lemma booking_account:
  "leave_sum t' e' c' (booking acc t e c n i m p) = leave_sum t' e' c' p + (if bucket_of t' e' c' m then lm_qty m else 0)"
  "granted_days t' e' c' (booking acc t e c n i m p) =
     granted_days t' e' c' p + (if bucket_of t' e' c' m \<and> grant_movement m then lm_qty m else 0)"
  "accrual_grants t' e' c' y (booking acc t e c n i m p) = accrual_grants t' e' c' y p @
     (if bucket_of t' e' c' m \<and> lm_ref_type m = ''accrual'' \<and> lm_ref_id m = y then [m] else [])"
  "materialized t' e' c' (booking acc t e c n i m p) =
     (if acc \<and> (t', e', c') = (t, e, c) then n else materialized t' e' c' p)"
  by (simp_all add: booking_def ledger_posted grants_posted)

lemma bucket_unique: "bucket_of t e c m \<Longrightarrow> bucket_of t' e' c' m \<longleftrightarrow> (t', e', c') = (t, e, c)"
  by (auto simp: bucket_of_def)

lemma leave_wf_seeded [simp]: "leave_wf (seeded t e c i p) = leave_wf p"
  by (simp add: leave_wf_def account_balanced_def)

text \<open>A grant: an accrual of a year not granted yet, or an adjustment.\<close>

lemma leave_wf_grant:
  assumes wf: "leave_wf p" and m: "bucket_of t e c m" "grant_movement m"
    and once: "lm_ref_type m = ''accrual'' \<Longrightarrow> accrual_grants t e c (lm_ref_id m) p = []"
    and n: "n = leave_sum t e c p + lm_qty m" "acc \<Longrightarrow> 0 \<le> n" "accrual_type t c p \<Longrightarrow> acc"
  shows "leave_wf (booking acc t e c n i m p)"
  unfolding leave_wf_def
proof (intro conjI allI)
  show "distinct (map request_id (leave_requests (booking acc t e c n i m p)))"
    using wf by (simp add: leave_wf_def)
  fix t' e' c' y
  show "account_balanced t' e' c' (booking acc t e c n i m p)"
    using leave_wfD [OF wf, of t' e' c'] m n
    by (auto simp: account_balanced_def booking_account bucket_unique [OF m(1)])
  show "length (accrual_grants t' e' c' y (booking acc t e c n i m p)) \<le> 1"
    using wf once by (auto simp: leave_wf_def booking_account bucket_unique [OF m(1)])
qed

lemma request_ids_decided [simp]:
  "map request_id (leave_requests (decided_request t i f g w h p)) = map request_id (leave_requests p)"
  by (auto simp: decided_request_def request_id_def moved_request_def intro!: map_update_where)

lemma moved_request_fields [simp]:
  "lr_days (moved_request g w h r) = lr_days r" "lr_status (moved_request g w h r) = g"
  "lr_tenant (moved_request g w h r) = lr_tenant r" "lr_id (moved_request g w h r) = lr_id r"
  "lr_employee (moved_request g w h r) = lr_employee r" "lr_type (moved_request g w h r) = lr_type r"
  by (simp_all add: moved_request_def)

text \<open>A decision moves one request: the days it takes are counted or given back.\<close>

lemma sum_filter_Cons: "sum_list (map h (filter P (y # ys))) = (if P y then h y else (0::int)) + sum_list (map h (filter P ys))"
  by simp

lemma taken_update:
  assumes "distinct (map request_id rows)" "select_one (leave_request_key t i) rows = Some r" "lr_status r = f"
  shows "sum_list (map lr_days (filter (takes t' e' c') (update_where (\<lambda>r. leave_request_key t i r \<and> lr_status r = f) (moved_request g w h) rows))) =
    sum_list (map lr_days (filter (takes t' e' c') rows)) +
    (if (t', e', c') = (t, lr_employee r, lr_type r)
     then (if g = LEAVE_APPROVED then lr_days r else 0) - (if f = LEAVE_APPROVED then lr_days r else 0) else 0)"
    (is "_ = _ + ?d")
  using assms(1,2)
proof (induction rows)
  case (Cons x xs)
  show ?case
  proof (cases "leave_request_key t i x")
    case True
    then have "\<not> leave_request_key t i y" if "y \<in> set xs" for y
      using Cons.prems(1) that by (force simp: leave_request_key_iff)
    then have "update_where (\<lambda>r. leave_request_key t i r \<and> lr_status r = f) (moved_request g w h) xs = xs"
      by (induction xs) auto
    then have L: "update_where (\<lambda>r. leave_request_key t i r \<and> lr_status r = f) (moved_request g w h) (x # xs) =
        moved_request g w h r # xs" and x: "x = r"
      using True Cons.prems(2) assms(3) by simp_all
    have T: "takes t' e' c' r \<longleftrightarrow> (t', e', c') = (t, lr_employee r, lr_type r) \<and> f = LEAVE_APPROVED"
      "takes t' e' c' (moved_request g' w h r) \<longleftrightarrow> (t', e', c') = (t, lr_employee r, lr_type r) \<and> g' = LEAVE_APPROVED" for g'
      using True assms(3) x by (auto simp: takes_def leave_request_key_def)
    show ?thesis
      unfolding L unfolding x sum_filter_Cons T moved_request_fields by simp
  next
    case False
    then have IH: "sum_list (map lr_days (filter (takes t' e' c')
          (update_where (\<lambda>r. leave_request_key t i r \<and> lr_status r = f) (moved_request g w h) xs))) =
        sum_list (map lr_days (filter (takes t' e' c') xs)) + ?d"
      using Cons.prems by (intro Cons.IH) simp_all
    show ?thesis
      unfolding update_where_Cons if_not_P [OF False] using False by (simp only: sum_filter_Cons IH simp_thms if_False add.assoc)
  qed
qed simp

lemma taken_decided:
  assumes "leave_wf p" "select_one (leave_request_key t i) (leave_requests p) = Some r" "lr_status r = f"
  shows "taken_days t' e' c' (decided_request t i f g w h p) = taken_days t' e' c' p +
    (if (t', e', c') = (t, lr_employee r, lr_type r)
     then (if g = LEAVE_APPROVED then lr_days r else 0) - (if f = LEAVE_APPROVED then lr_days r else 0) else 0)"
  using taken_update [OF _ assms(2,3)] assms(1) by (simp add: taken_days_def decided_request_def leave_wf_def)

lemma leave_wf_decided:
  assumes "leave_wf p" "select_one (leave_request_key t i) (leave_requests p) = Some r" "lr_status r = f"
    "f \<noteq> LEAVE_APPROVED" "g \<noteq> LEAVE_APPROVED"
  shows "leave_wf (decided_request t i f g w h p)"
proof -
  have "account_balanced t' e' c' p = account_balanced t' e' c' (decided_request t i f g w h p)" for t' e' c'
    using assms(4,5) by (simp add: account_balanced_def taken_decided [OF assms(1-3)])
  then show ?thesis using assms(1) by (simp add: leave_wf_def)
qed

lemma leave_wf_booked:
  assumes wf: "leave_wf p" and r: "select_one (leave_request_key t i) (leave_requests p) = Some r" "lr_status r = f"
    and m: "bucket_of t (lr_employee r) (lr_type r) m" "lm_ref_type m \<notin> {''accrual'', ''adjustment''}"
      "lm_qty m = (if f = LEAVE_APPROVED then lr_days r else 0) - (if g = LEAVE_APPROVED then lr_days r else 0)"
    and n: "n = leave_sum t (lr_employee r) (lr_type r) p + lm_qty m" "acc \<Longrightarrow> 0 \<le> n"
      "accrual_type t (lr_type r) p \<Longrightarrow> acc"
  shows "leave_wf (booking acc t (lr_employee r) (lr_type r) n j m (decided_request t i f g w h p))"
  unfolding leave_wf_def
proof (intro conjI allI)
  let ?p = "booking acc t (lr_employee r) (lr_type r) n j m (decided_request t i f g w h p)"
  show "distinct (map request_id (leave_requests ?p))"
    using wf by (simp add: leave_wf_def)
  fix t' e' c' y
  show "account_balanced t' e' c' ?p"
    using leave_wfD [OF wf, of t' e' c'] m(2,3) n
    by (auto simp: account_balanced_def booking_account bucket_unique [OF m(1)] grant_movement_def taken_decided [OF wf r])
  show "length (accrual_grants t' e' c' y ?p) \<le> 1"
    using wf m(2) by (auto simp: leave_wf_def booking_account bucket_unique [OF m(1)])
qed

section \<open>What the steps do\<close>

definition db_error :: "error \<Rightarrow> bool" where
  "db_error e \<longleftrightarrow> e = DataError \<or> (\<exists>c. e = IntegrityError c)"

lemma db_error_simps [simp]: "db_error DataError" "db_error (IntegrityError c)"
  by (simp_all add: db_error_def)

text \<open>A step that leaves the tables of people as \<open>p\<close> and touches nothing durable.\<close>

definition reached :: "sess \<Rightarrow> people_tables \<Rightarrow> sess \<Rightarrow> bool" where
  "reached s p u \<longleftrightarrow> people (work u) = p \<and> durable u = durable s \<and> clk u = clk s"

lemma reachedI: "people (work u) = p \<Longrightarrow> durable u = durable s \<Longrightarrow> clk u = clk s \<Longrightarrow> reached s p u"
  by (simp add: reached_def)

lemma wp_recompute [wp_simps]: "wp (recompute_balance t e c) Q E s = Q (leave_sum t e c (people (work s))) s"
  by (simp add: recompute_balance_def wp_simps)

lemma wp_get_leave [wp_simps]:
  "wp (get_leave_request t i) Q1 E1 s = Q1 (select_one (leave_request_key t i) (leave_requests (people (work s)))) s"
  "wp (get_leave_type t c) Q2 E2 s = Q2 (select_one (leave_type_key t c) (leave_types (people (work s)))) s"
  "wp (get_employee t i) Q3 E3 s = Q3 (map_option hr_view (select_one (employee_key t i) (employees (people (work s))))) s"
  "wp (get_leave_policy t) Q4 E4 s = Q4 (select_one (\<lambda>r. lp_tenant r = t) (leave_policies (people (work s)))) s"
  by (simp_all add: get_leave_request_def get_leave_type_def get_employee_def get_leave_policy_def wp_simps)

lemma lock_rule:
  assumes "\<And>u j. reached s (seeded t e c j (people (work s))) u \<Longrightarrow> Q () u"
    "\<And>err u. db_error err \<Longrightarrow> durable u = durable s \<Longrightarrow> E err u"
  shows "wp (lock_leave_balance t e c) Q E s"
  using assms by (cases "select_one (balance_key t e c) (leave_balances (people (work s)))")
    (simp_all add: lock_leave_balance_def balance_references_def wp_simps seeded_def reached_def)

lemma upsert_rule:
  assumes "\<And>u x. 0 \<le> lb_balance b \<Longrightarrow> reached s (set_balance (lb_tenant b) (lb_employee b) (lb_type b) (lb_balance b)
      (lb_id b) (people (work s))) u \<Longrightarrow> Q x u"
    "\<And>err u. db_error err \<Longrightarrow> durable u = durable s \<Longrightarrow> E err u"
  shows "wp (upsert_balance b) Q E s"
  using assms
  by (cases b; cases "select_one (balance_key (lb_tenant b) (lb_employee b) (lb_type b)) (leave_balances (people (work s)))")
    (simp_all add: upsert_balance_def balance_references_def Let_def wp_simps set_balance_def reached_def)

lemma movement_rule:
  assumes "\<And>u. reached s (posted m (people (work s))) u \<Longrightarrow> Q m u"
    "\<And>err u. db_error err \<Longrightarrow> durable u = durable s \<Longrightarrow> E err u"
  shows "wp (add_leave_movement m) Q E s"
  using assms by (simp add: add_leave_movement_def wp_simps posted_def reached_def split: option.split)

lemma transition_rule:
  assumes "\<And>u. reached s (decided_request t i f g w h (people (work s))) u \<Longrightarrow>
      Q (map_option (moved_request g w h) (select_one (\<lambda>r. leave_request_key t i r \<and> lr_status r = f) (leave_requests (people (work s))))) u"
  shows "wp (transition_leave_status t i f g w h) Q E s"
  using assms by (simp add: transition_leave_status_def Let_def wp_simps decided_request_def reached_def)

lemma book_rule:
  assumes ok: "\<And>m n j u. bucket_of t e c m \<Longrightarrow> lm_qty m = qty \<Longrightarrow> lm_ref_type m = rt \<Longrightarrow> lm_ref_id m = ref \<Longrightarrow>
      n = leave_sum t e c (people (work s)) + qty \<Longrightarrow> (acc \<Longrightarrow> 0 \<le> n) \<Longrightarrow>
      reached s (booking acc t e c n j m (people (work s))) u \<Longrightarrow> Q n u"
    and fail: "\<And>err u. db_error err \<Longrightarrow> durable u = durable s \<Longrightarrow> E err u"
  shows "wp (book_leave t e c acc qty rt ref reason) Q E s"
  unfolding book_leave_def wp_bind wp_then wp_fresh wp_gets
proof (rule movement_rule)
  let ?m = "\<lparr>lm_id = next_id s, lm_tenant = t, lm_employee = e, lm_type = c, lm_qty = qty, lm_ref_type = rt, lm_ref_id = ref,
    lm_reason = reason, lm_at = instant (clk (s\<lparr>next_id := Suc (next_id s)\<rparr>))\<rparr>"
  let ?n = "leave_sum t e c (people (work s)) + qty"
  have B: "bucket_of t e c ?m" by (simp add: bucket_of_def)
  fix u
  assume u: "reached (s\<lparr>next_id := Suc (next_id s)\<rparr>) (posted ?m (people (work (s\<lparr>next_id := Suc (next_id s)\<rparr>)))) u"
  then have n: "leave_sum t e c (people (work u)) = ?n" using B by (simp add: reached_def ledger_posted)
  show "wp (recompute_balance t e c) (\<lambda>new. wp (if acc then bindM fresh_id (\<lambda>j. thenM (upsert_balance
          \<lparr>lb_id = j, lb_tenant = t, lb_employee = e, lb_type = c, lb_balance = new\<rparr>) (returnM ())) else returnM ())
      (\<lambda>_. wp (returnM new) Q E) E) E u"
  proof (cases acc)
    case True
    have "Q ?n v" if "reached u (set_balance t e c ?n (next_id u) (people (work u))) v" "0 \<le> ?n" for v
      using that u B True by (intro ok [of ?m ?n]) (auto simp: reached_def booking_def)
    then show ?thesis
      unfolding wp_recompute n if_P [OF True] wp_bind wp_fresh wp_then wp_return
      by (intro upsert_rule) (use u in \<open>simp_all add: reached_def fail\<close>)
  next
    case False
    then show ?thesis
      unfolding wp_recompute n if_not_P [OF False] wp_return by (intro ok [of ?m ?n]) (use u B in \<open>auto simp: reached_def booking_def\<close>)
  qed
qed (simp add: fail)

lemma accrue_rule:
  assumes old: "granted m (people (work s)) \<Longrightarrow> Q None s"
    and new: "\<And>n i j u. \<not> granted m (people (work s)) \<Longrightarrow>
      n = leave_sum (lm_tenant m) (lm_employee m) (lm_type m) (people (work s)) + lm_qty m \<Longrightarrow> 0 \<le> n \<Longrightarrow>
      reached s (booking True (lm_tenant m) (lm_employee m) (lm_type m) n i m
        (seeded (lm_tenant m) (lm_employee m) (lm_type m) j (people (work s)))) u \<Longrightarrow> Q (Some m) u"
    and fail: "\<And>err u. db_error err \<Longrightarrow> durable u = durable s \<Longrightarrow> E err u"
  shows "wp (accrue_leave_movement m) Q E s"
proof (cases "granted m (people (work s))")
  case True
  then show ?thesis by (simp add: accrue_leave_movement_def Let_def wp_simps old)
next
  case False
  let ?t = "lm_tenant m" and ?e = "lm_employee m" and ?c = "lm_type m"
  have B: "bucket_of ?t ?e ?c m" by (simp add: bucket_of_def)
  have G: "\<not> granted m (seeded ?t ?e ?c j (people (work s)))" for j
    using False by (simp add: granted_def)
  show ?thesis
    unfolding accrue_leave_movement_def Let_def wp_bind wp_then wp_read_people wp_if if_not_P [OF False]
  proof (rule lock_rule)
    fix u j
    assume u: "reached s (seeded ?t ?e ?c j (people (work s))) u"
    have "wp (recompute_balance ?t ?e ?c) (\<lambda>a. wp fresh_id (\<lambda>i. wp (upsert_balance
          \<lparr>lb_id = i, lb_tenant = ?t, lb_employee = ?e, lb_type = ?c, lb_balance = a\<rparr>)
        (\<lambda>_. wp (returnM (Some m)) Q E) E) E) E v" if v: "reached u (posted m (people (work u))) v" for v
    proof -
      have n: "leave_sum ?t ?e ?c (people (work v)) = leave_sum ?t ?e ?c (people (work s)) + lm_qty m"
        using u v B by (simp add: reached_def ledger_posted)
      have "Q (Some m) w" if "0 \<le> leave_sum ?t ?e ?c (people (work v))"
        "reached v (set_balance ?t ?e ?c (leave_sum ?t ?e ?c (people (work v))) (next_id v) (people (work v))) w" for w
        using that u v unfolding n by (intro new [OF False refl]) (auto simp: reached_def booking_def)
      then show ?thesis
        unfolding wp_recompute wp_fresh wp_return by (intro upsert_rule) (use u v in \<open>simp_all add: reached_def fail\<close>)
    qed
    moreover have "people (work u) = seeded ?t ?e ?c j (people (work s))" "durable u = durable s"
      using u by (simp_all add: reached_def)
    ultimately show "if granted m (people (work u)) then wp (returnM None) Q E u
        else wp (add_leave_movement m) (\<lambda>_. wp (recompute_balance ?t ?e ?c) (\<lambda>a. wp fresh_id (\<lambda>i. wp (upsert_balance
          \<lparr>lb_id = i, lb_tenant = ?t, lb_employee = ?e, lb_type = ?c, lb_balance = a\<rparr>)
        (\<lambda>_. wp (returnM (Some m)) Q E) E) E) E) E u"
      by (simp only: G if_False) (rule movement_rule; simp add: fail)
  qed (rule fail)
qed

end
