(* ===== verification/Hr_Requests.thy ===== *)
theory Hr_Requests
  imports Hr_Ledger
begin

text \<open>
  The operations of the HR service on the leave account: what a decision does, and that every
  operation keeps the account in order.
\<close>

section \<open>Decisions\<close>

lemma select_one_also: "select_one P rows = Some r \<Longrightarrow> G r \<Longrightarrow> select_one (\<lambda>q. P q \<and> G q) rows = Some r"
  by (induction rows) (auto split: if_splits)

text \<open>Steps that only leave a trail: audit rows and events.\<close>

definition trail :: "unit service \<Rightarrow> bool" where
  "trail m \<longleftrightarrow> (\<forall>s. wp m (\<lambda>_ u. reached s (people (work s)) u) (\<lambda>_ _. False) s)"

lemma trail_rule:
  assumes "trail m" "\<And>u. reached s (people (work s)) u \<Longrightarrow> wp k Q E u"
  shows "wp (thenM m k) Q E s"
  unfolding wp_then by (rule wp_mono [OF assms(1) [unfolded trail_def, rule_format]]) (use assms(2) in auto)

lemma trail_steps: "trail (audit_by t a x y d)" "trail (people_event n t z)" "trail (cancelled_trail t i a r new)"
  by (simp_all add: trail_def reached_def cancelled_trail_def people_event_def wp_simps split: option.split)

text \<open>Why an approval is refused by the service, before the database has a say.\<close>

definition approval_refusal_of :: "uuid \<Rightarrow> uuid \<Rightarrow> uuid \<Rightarrow> people_tables \<Rightarrow> error option" where
  "approval_refusal_of t i approver p = (case select_one (leave_request_key t i) (leave_requests p) of
     None \<Rightarrow> Some ValueError
   | Some r \<Rightarrow> (case select_one (employee_key t (lr_employee r)) (employees p) of
       None \<Rightarrow> Some ValueError
     | Some em \<Rightarrow>
        if em_status em = EMPLOYEE_TERMINATED then Some EmployeeTerminatedError
        else if approver = lr_employee r then Some SelfApprovalForbiddenError
        else if lr_status r = LEAVE_APPROVED then None
        else if lr_status r \<noteq> LEAVE_PENDING then Some (IllegalStateTransitionError ''leave request is not pending'')
        else if accrual_type t (lr_type r) p \<and> leave_sum t (lr_employee r) (lr_type r) p < lr_days r
          then Some LeaveBalanceExceededError
        else None))"

text \<open>The part after the guards, from a session that has reached \<open>p\<close>.\<close>

lemma approve_pending_rule:
  assumes R: "select_one (leave_request_key t i) (leave_requests (people (work v))) = Some r" and P: "lr_status r = LEAVE_PENDING"
    and ok: "\<And>n j m u. bucket_of t (lr_employee r) (lr_type r) m \<Longrightarrow> lm_qty m = - lr_days r \<Longrightarrow> lm_ref_type m = ''approval'' \<Longrightarrow>
      n = leave_sum t (lr_employee r) (lr_type r) (people (work v)) - lr_days r \<Longrightarrow> (acc \<Longrightarrow> 0 \<le> n) \<Longrightarrow>
      reached v (booking acc t (lr_employee r) (lr_type r) n j m
        (decided_request t i LEAVE_PENDING LEAVE_APPROVED (Some approver) (Some (instant (clk v))) (people (work v)))) u \<Longrightarrow>
      Q (moved_request LEAVE_APPROVED (Some approver) (Some (instant (clk v))) r, n) u"
    and fail: "\<And>e u. db_error e \<Longrightarrow> durable u = durable v \<Longrightarrow> E e u"
  shows "wp (approve_pending t i r acc approver actor) Q E v"
  unfolding approve_pending_def Let_def wp_bind wp_gets
proof (rule transition_rule)
  fix u
  let ?p = "decided_request t i LEAVE_PENDING LEAVE_APPROVED (Some approver) (Some (instant (clk v))) (people (work v))"
  assume u: "reached v ?p u"
  have sel: "select_one (\<lambda>q. leave_request_key t i q \<and> lr_status q = LEAVE_PENDING) (leave_requests (people (work v))) = Some r"
    using select_one_also [OF R, of "\<lambda>q. lr_status q = LEAVE_PENDING"] P by simp
  show "wp (case map_option (moved_request LEAVE_APPROVED (Some approver) (Some (instant (clk v))))
        (select_one (\<lambda>q. leave_request_key t i q \<and> lr_status q = LEAVE_PENDING) (leave_requests (people (work v)))) of
       None \<Rightarrow>
         bindM (get_leave_request t i) (\<lambda>again.
         bindM (the_or_raise ValueError again) (\<lambda>q.
         bindM (recompute_balance t (lr_employee q) (lr_type q)) (\<lambda>b. returnM (q, b))))
     | Some q \<Rightarrow>
         bindM (book_leave t (lr_employee r) (lr_type r) acc (- lr_days r) ''approval'' (Some (uuid_text i)) None) (\<lambda>new.
         thenM (audit_by t actor ''hr.leave.approved'' (target ''leave_request'' i)
           (Some [(''days'', PInt (lr_days r)), (''leave_type'', PStr (lr_type r)), (''new_balance'', PInt new)]))
         (thenM (people_event ''hr.leave.approved'' t (leave_payload i r))
         (returnM (q, new))))) Q E u"
    unfolding sel option.map option.case wp_bind
  proof (rule book_rule)
    fix m n j w
    assume m: "bucket_of t (lr_employee r) (lr_type r) m" "lm_qty m = - lr_days r" "lm_ref_type m = ''approval''"
      and n: "n = leave_sum t (lr_employee r) (lr_type r) (people (work u)) + - lr_days r" "acc \<Longrightarrow> 0 \<le> n"
      and w: "reached u (booking acc t (lr_employee r) (lr_type r) n j m (people (work u))) w"
    show "wp (thenM (audit_by t actor ''hr.leave.approved'' (target ''leave_request'' i)
           (Some [(''days'', PInt (lr_days r)), (''leave_type'', PStr (lr_type r)), (''new_balance'', PInt n)]))
         (thenM (people_event ''hr.leave.approved'' t (leave_payload i r))
         (returnM (moved_request LEAVE_APPROVED (Some approver) (Some (instant (clk v))) r, n)))) Q E w"
      by (intro trail_rule trail_steps, unfold wp_return, rule ok [OF m _ n(2)])
        (use u w n(1) in \<open>auto simp: reached_def\<close>)
  qed (use u in \<open>simp add: fail reached_def\<close>)
qed

lemma approve_rule:
  assumes again: "\<And>r. select_one (leave_request_key t i) (leave_requests (people (work s))) = Some r \<Longrightarrow>
      lr_status r = LEAVE_APPROVED \<Longrightarrow> approval_refusal_of t i approver (people (work s)) = None \<Longrightarrow>
      Q (r, leave_sum t (lr_employee r) (lr_type r) (people (work s))) s"
    and new: "\<And>r n j m acc p u. select_one (leave_request_key t i) (leave_requests (people (work s))) = Some r \<Longrightarrow>
      lr_status r = LEAVE_PENDING \<Longrightarrow> approval_refusal_of t i approver (people (work s)) = None \<Longrightarrow>
      acc = accrual_type t (lr_type r) (people (work s)) \<Longrightarrow>
      p = people (work s) \<or> (\<exists>k. p = seeded t (lr_employee r) (lr_type r) k (people (work s))) \<Longrightarrow>
      bucket_of t (lr_employee r) (lr_type r) m \<Longrightarrow> lm_qty m = - lr_days r \<Longrightarrow> lm_ref_type m = ''approval'' \<Longrightarrow>
      n = leave_sum t (lr_employee r) (lr_type r) (people (work s)) - lr_days r \<Longrightarrow> (acc \<Longrightarrow> 0 \<le> n) \<Longrightarrow>
      reached s (booking acc t (lr_employee r) (lr_type r) n j m
        (decided_request t i LEAVE_PENDING LEAVE_APPROVED (Some approver) (Some (instant (clk s))) p)) u \<Longrightarrow>
      Q (moved_request LEAVE_APPROVED (Some approver) (Some (instant (clk s))) r, n) u"
    and fail: "\<And>e u. approval_refusal_of t i approver (people (work s)) = Some e \<or>
        approval_refusal_of t i approver (people (work s)) = None \<and> db_error e \<or>
        db_error e \<and> approval_refusal_of t i approver (people (work s)) = Some LeaveBalanceExceededError \<Longrightarrow> durable u = durable s \<Longrightarrow> E e u"
  shows "wp (approve_leave t i approver actor) Q E s"
proof (cases "select_one (leave_request_key t i) (leave_requests (people (work s)))")
  case None
  then show ?thesis
    by (simp add: approve_leave_def wp_simps fail approval_refusal_of_def)
next
  case (Some r)
  let ?p = "people (work s)" and ?e = "lr_employee r" and ?c = "lr_type r"
  note R = Some
  let ?early = "approval_refusal_of t i approver ?p \<noteq> None \<and> approval_refusal_of t i approver ?p \<noteq> Some LeaveBalanceExceededError
    \<or> lr_status r = LEAVE_APPROVED"
  show ?thesis
  proof (cases ?early)
    case True
    then show ?thesis using R again [OF R] fail [of _ s]
      by (auto simp: approve_leave_def wp_simps Let_def approval_refusal_of_def hr_view_def can_transition_def leave_machine_def
          split: option.splits if_splits leave_status.splits)
  next
    case False
    then obtain em where em: "select_one (employee_key t ?e) (employees ?p) = Some em" "em_status em \<noteq> EMPLOYEE_TERMINATED"
      and a: "approver \<noteq> ?e" and P: "lr_status r = LEAVE_PENDING"
      using R by (auto simp: approval_refusal_of_def split: option.splits if_splits)
    have refusal: "approval_refusal_of t i approver ?p =
        (if accrual_type t ?c ?p \<and> leave_sum t ?e ?c ?p < lr_days r then Some LeaveBalanceExceededError else None)"
      using R em a P by (simp add: approval_refusal_of_def)
    have rest: "wp (approve_pending t i r (accrual_type t ?c ?p) approver actor) Q E v"
      if v: "reached s p v" and p: "p = ?p \<or> (\<exists>k. p = seeded t ?e ?c k ?p)" and none: "approval_refusal_of t i approver ?p = None" for v p
    proof -
      have k: "clk v = clk s" "durable v = durable s" "people (work v) = p" using v by (simp_all add: reached_def)
      have "leave_requests p = leave_requests ?p" "leave_sum t ?e ?c p = leave_sum t ?e ?c ?p" using p by auto
      then show ?thesis
        by (intro approve_pending_rule) (use k R P none in \<open>auto simp: reached_def fail intro!: new [OF R P none refl p]\<close>)
    qed
    show ?thesis
    proof (cases "accrual_type t ?c ?p")
      case True
      have db: "db_error e \<Longrightarrow> durable u = durable s \<Longrightarrow> E e u" for e u
        using refusal by (intro fail) auto
      have locked: "(lr_days r \<le> leave_sum t ?e ?c (people (work v)) \<longrightarrow> wp (approve_pending t i r True approver actor) Q E v) \<and>
          (\<not> lr_days r \<le> leave_sum t ?e ?c (people (work v)) \<longrightarrow> E LeaveBalanceExceededError v)"
        if "reached s (seeded t ?e ?c j ?p) v" for v j
        using that rest [OF that disjI2 [OF exI [of _ j, OF refl]]] refusal True fail [of LeaveBalanceExceededError v] by (auto simp: reached_def)
      show ?thesis using True R em a P
        apply (simp add: approve_leave_def wp_simps Let_def hr_view_def can_transition_def leave_machine_def accrual_type_def)
        apply (rule lock_rule)
         apply (erule locked)
        apply (erule (1) db)
        done
    next
      case False
      then show ?thesis using R em a P refusal rest [of ?p s]
        by (simp add: approve_leave_def wp_simps Let_def hr_view_def can_transition_def leave_machine_def accrual_type_def reached_def)
    qed
  qed
qed

text \<open>Cancelling: a pending request is closed, an approved one also gives its days back.\<close>

lemma cancel_rule:
  assumes pending: "\<And>r u. select_one (leave_request_key t i) (leave_requests (people (work s))) = Some r \<Longrightarrow>
      lr_status r = LEAVE_PENDING \<Longrightarrow>
      reached s (decided_request t i LEAVE_PENDING LEAVE_CANCELLED None None (people (work s))) u \<Longrightarrow>
      Q (moved_request LEAVE_CANCELLED None None r, leave_sum t (lr_employee r) (lr_type r) (people (work s))) u"
    and approved: "\<And>r n j m acc p u. select_one (leave_request_key t i) (leave_requests (people (work s))) = Some r \<Longrightarrow>
      lr_status r = LEAVE_APPROVED \<Longrightarrow> acc = accrual_type t (lr_type r) (people (work s)) \<Longrightarrow>
      p = people (work s) \<or> (\<exists>k. p = seeded t (lr_employee r) (lr_type r) k (people (work s))) \<Longrightarrow>
      bucket_of t (lr_employee r) (lr_type r) m \<Longrightarrow> lm_qty m = lr_days r \<Longrightarrow> lm_ref_type m = ''cancellation'' \<Longrightarrow>
      n = leave_sum t (lr_employee r) (lr_type r) (people (work s)) + lr_days r \<Longrightarrow> (acc \<Longrightarrow> 0 \<le> n) \<Longrightarrow>
      reached s (booking acc t (lr_employee r) (lr_type r) n j m
        (decided_request t i LEAVE_APPROVED LEAVE_CANCELLED None None p)) u \<Longrightarrow>
      Q (moved_request LEAVE_CANCELLED None None r, n) u"
    and gone: "\<And>u. select_one (leave_request_key t i) (leave_requests (people (work s))) = None \<Longrightarrow> durable u = durable s \<Longrightarrow> E ValueError u"
    and closed: "\<And>r u. select_one (leave_request_key t i) (leave_requests (people (work s))) = Some r \<Longrightarrow>
      lr_status r \<in> {LEAVE_REJECTED, LEAVE_CANCELLED} \<Longrightarrow> durable u = durable s \<Longrightarrow>
      E (IllegalStateTransitionError ''only pending or approved requests can be cancelled'') u"
    and db: "\<And>r e u. select_one (leave_request_key t i) (leave_requests (people (work s))) = Some r \<Longrightarrow>
      lr_status r = LEAVE_APPROVED \<Longrightarrow> db_error e \<Longrightarrow> durable u = durable s \<Longrightarrow> E e u"
  shows "wp (cancel_leave t i actor) Q E s"
proof (cases "select_one (leave_request_key t i) (leave_requests (people (work s)))")
  case None
  then show ?thesis by (simp add: cancel_leave_def wp_simps gone)
next
  case (Some r)
  let ?e = "lr_employee r" and ?c = "lr_type r" and ?p = "people (work s)"
  consider "lr_status r \<in> {LEAVE_REJECTED, LEAVE_CANCELLED}" | "lr_status r = LEAVE_PENDING" | "lr_status r = LEAVE_APPROVED"
    by (cases "lr_status r") auto
  then show ?thesis
  proof cases
    case 1
    then show ?thesis using Some closed [OF Some 1, of s]
      by (auto simp: cancel_leave_def wp_simps Let_def can_transition_def leave_machine_def)
  next
    case 2
    have sel: "select_one (\<lambda>q. leave_request_key t i q \<and> lr_status q = LEAVE_PENDING) (leave_requests ?p) = Some r"
      using select_one_also [OF Some, of "\<lambda>q. lr_status q = LEAVE_PENDING"] 2 by simp
    have "wp (cancel_pending t i r actor) Q E s"
      unfolding cancel_pending_def wp_bind
      by (rule transition_rule, simp only: sel option.map wp_the_or_raise option.case wp_recompute, rule trail_rule, rule trail_steps)
        (use pending [OF Some 2] in \<open>auto simp: wp_return reached_def\<close>)
    then show ?thesis using Some 2
      by (simp add: cancel_leave_def wp_simps Let_def can_transition_def leave_machine_def)
  next
    case 3
    have step: "wp (cancel_approved t i r (accrual_type t ?c ?p) actor) Q E v"
      if v: "reached s p v" and p: "p = ?p \<or> (\<exists>k. p = seeded t ?e ?c k ?p)" for v p
      unfolding cancel_approved_def wp_bind
    proof (rule transition_rule)
      fix u
      assume u: "reached v (decided_request t i LEAVE_APPROVED LEAVE_CANCELLED None None (people (work v))) u"
      have lp: "leave_requests p = leave_requests ?p" "leave_sum t ?e ?c p = leave_sum t ?e ?c ?p" using p by auto
      have k: "clk v = clk s" "durable v = durable s" "people (work v) = p" using v by (simp_all add: reached_def)
      have sel: "select_one (\<lambda>q. leave_request_key t i q \<and> lr_status q = LEAVE_APPROVED) (leave_requests (people (work v))) = Some r"
        using select_one_also [OF Some, of "\<lambda>q. lr_status q = LEAVE_APPROVED"] 3 lp k by simp
      show "wp (the_or_raise (IllegalStateTransitionError ''leave request is not approved'')
          (map_option (moved_request LEAVE_CANCELLED None None)
            (select_one (\<lambda>q. leave_request_key t i q \<and> lr_status q = LEAVE_APPROVED) (leave_requests (people (work v))))))
          (\<lambda>q. wp (book_leave t ?e ?c (accrual_type t ?c ?p) (lr_days r) ''cancellation'' (Some (uuid_text i)) None)
            (\<lambda>new. wp (thenM (cancelled_trail t i actor r new) (returnM (q, new))) Q E) E) E u"
        unfolding sel option.map wp_the_or_raise option.case
      proof (rule book_rule)
        fix m n j w
        assume m: "bucket_of t ?e ?c m" "lm_qty m = lr_days r" "lm_ref_type m = ''cancellation''"
          and n: "n = leave_sum t ?e ?c (people (work u)) + lr_days r" "accrual_type t ?c ?p \<Longrightarrow> 0 \<le> n"
          and w: "reached u (booking (accrual_type t ?c ?p) t ?e ?c n j m (people (work u))) w"
        show "wp (thenM (cancelled_trail t i actor r n) (returnM (moved_request LEAVE_CANCELLED None None r, n))) Q E w"
          by (intro trail_rule trail_steps, unfold wp_return, rule approved [OF Some 3 refl p m _ n(2)])
            (use u w n(1) k lp in \<open>auto simp: reached_def\<close>)
      qed (use u k in \<open>simp add: db [OF Some 3] reached_def\<close>)
    qed
    show ?thesis
    proof (cases "accrual_type t ?c ?p")
      case True
      have locked: "wp (cancel_approved t i r True actor) Q E v" if "reached s (seeded t ?e ?c j ?p) v" for v j
        using step [OF that disjI2 [OF exI [of _ j, OF refl]]] True by simp
      show ?thesis using True Some 3
        apply (simp add: cancel_leave_def wp_simps Let_def can_transition_def leave_machine_def accrual_type_def)
        apply (rule lock_rule)
         apply (erule locked)
        apply (erule (1) db [OF Some 3])
        done
    next
      case False
      then show ?thesis using Some 3 step [of ?p s]
        by (simp add: cancel_leave_def wp_simps Let_def can_transition_def leave_machine_def accrual_type_def reached_def)
    qed
  qed
qed

section \<open>Every operation keeps the account\<close>

definition accounts_in_order :: "db \<Rightarrow> bool" where
  "accounts_in_order d \<longleftrightarrow> leave_wf (people d)"

interpretation leave_account: table_invariant accounts_in_order
  by unfold_locales (simp_all add: accounts_in_order_def)

lemma keeps_account_people [keeps_intros]: "keeps accounts_in_order (read_people f)"
  "keeps accounts_in_order (check_people c g)" "keeps accounts_in_order (fits_integer n)"
  "keeps accounts_in_order (fits_optional k x)" "keeps accounts_in_order (fits_column w txt)"
  by (simp_all add: keeps_def wp_simps split: option.split)

lemma keeps_account_write: "(\<And>p. leave_wf p \<Longrightarrow> leave_wf (f p)) \<Longrightarrow> keeps accounts_in_order (write_people f)"
  by (simp add: keeps_def wp_simps accounts_in_order_def)

lemma keeps_account_trail: "trail m \<Longrightarrow> keeps accounts_in_order m"
  by (rule keepsI, rule wp_mono [OF trail_def [THEN iffD1, rule_format]])
    (auto simp: reached_def accounts_in_order_def)

lemmas keeps_trails [keeps_intros] = trail_steps [THEN keeps_account_trail]

text \<open>From a rule of the previous sections: the account after a step is the one of the tables it reaches.\<close>

lemma in_order_after: "reached s p u \<Longrightarrow> accounts_in_order (durable s) \<Longrightarrow> leave_wf p \<Longrightarrow>
    accounts_in_order (work u) \<and> accounts_in_order (durable u)"
  by (simp add: accounts_in_order_def reached_def)

lemma keeps_approve: "keeps accounts_in_order (approve_leave t i approver actor)"
proof (rule keepsI, rule approve_rule)
  fix s r n j m acc p u
  assume s: "accounts_in_order (work s)" "accounts_in_order (durable s)"
    and r: "select_one (leave_request_key t i) (leave_requests (people (work s))) = Some r" "lr_status r = LEAVE_PENDING"
    and acc: "acc = accrual_type t (lr_type r) (people (work s))"
    and p: "p = people (work s) \<or> (\<exists>k. p = seeded t (lr_employee r) (lr_type r) k (people (work s)))"
    and m: "bucket_of t (lr_employee r) (lr_type r) m" "lm_qty m = - lr_days r" "lm_ref_type m = ''approval''"
    and n: "n = leave_sum t (lr_employee r) (lr_type r) (people (work s)) - lr_days r" "acc \<Longrightarrow> 0 \<le> n"
    and u: "reached s (booking acc t (lr_employee r) (lr_type r) n j m
        (decided_request t i LEAVE_PENDING LEAVE_APPROVED (Some approver) (Some (instant (clk s))) p)) u"
  have "leave_wf p" "select_one (leave_request_key t i) (leave_requests p) = Some r"
    using s p r by (auto simp: accounts_in_order_def)
  then have "leave_wf (booking acc t (lr_employee r) (lr_type r) n j m
        (decided_request t i LEAVE_PENDING LEAVE_APPROVED (Some approver) (Some (instant (clk s))) p))"
    using r(2) m n acc p by (intro leave_wf_booked) auto
  then show "accounts_in_order (work u) \<and> accounts_in_order (durable u)" using u s by (intro in_order_after)
qed (simp_all add: accounts_in_order_def)

lemma keeps_cancel: "keeps accounts_in_order (cancel_leave t i actor)"
proof (rule keepsI, rule cancel_rule)
  fix s r u
  assume s: "accounts_in_order (work s)" "accounts_in_order (durable s)"
    and r: "select_one (leave_request_key t i) (leave_requests (people (work s))) = Some r" "lr_status r = LEAVE_PENDING"
    and u: "reached s (decided_request t i LEAVE_PENDING LEAVE_CANCELLED None None (people (work s))) u"
  show "accounts_in_order (work u) \<and> accounts_in_order (durable u)"
    by (rule in_order_after [OF u s(2)], rule leave_wf_decided [OF _ r]) (use s in \<open>auto simp: accounts_in_order_def\<close>)
next
  fix s r n j m acc p u
  assume s: "accounts_in_order (work s)" "accounts_in_order (durable s)"
    and r: "select_one (leave_request_key t i) (leave_requests (people (work s))) = Some r" "lr_status r = LEAVE_APPROVED"
    and acc: "acc = accrual_type t (lr_type r) (people (work s))"
    and p: "p = people (work s) \<or> (\<exists>k. p = seeded t (lr_employee r) (lr_type r) k (people (work s)))"
    and m: "bucket_of t (lr_employee r) (lr_type r) m" "lm_qty m = lr_days r" "lm_ref_type m = ''cancellation''"
    and n: "n = leave_sum t (lr_employee r) (lr_type r) (people (work s)) + lr_days r" "acc \<Longrightarrow> 0 \<le> n"
    and u: "reached s (booking acc t (lr_employee r) (lr_type r) n j m
        (decided_request t i LEAVE_APPROVED LEAVE_CANCELLED None None p)) u"
  have "leave_wf p" "select_one (leave_request_key t i) (leave_requests p) = Some r"
    using s p r by (auto simp: accounts_in_order_def)
  then have "leave_wf (booking acc t (lr_employee r) (lr_type r) n j m
        (decided_request t i LEAVE_APPROVED LEAVE_CANCELLED None None p))"
    using r(2) m n acc p by (intro leave_wf_booked) auto
  then show "accounts_in_order (work u) \<and> accounts_in_order (durable u)" using u s by (intro in_order_after)
qed (simp_all add: accounts_in_order_def)

lemma keeps_accrue_movement:
  assumes "lm_ref_type m = ''accrual''"
  shows "keeps accounts_in_order (accrue_leave_movement m)"
proof (rule keepsI, rule accrue_rule)
  fix s n i j u
  let ?t = "lm_tenant m" and ?e = "lm_employee m" and ?c = "lm_type m"
  assume s: "accounts_in_order (work s)" "accounts_in_order (durable s)" and g: "\<not> granted m (people (work s))"
    and n: "n = leave_sum ?t ?e ?c (people (work s)) + lm_qty m" "0 \<le> n"
    and u: "reached s (booking True ?t ?e ?c n i m (seeded ?t ?e ?c j (people (work s)))) u"
  have "leave_wf (booking True ?t ?e ?c n i m (seeded ?t ?e ?c j (people (work s))))"
    using s g n assms
    by (intro leave_wf_grant) (auto simp: accounts_in_order_def bucket_of_def grant_movement_def granted_def accrual_grants_def filter_empty_conv)
  then show "accounts_in_order (work u) \<and> accounts_in_order (durable u)" using u s by (intro in_order_after)
qed (simp_all add: accounts_in_order_def)

lemma keeps_lock: "keeps accounts_in_order (lock_leave_balance t e c)"
  by (intro keepsI lock_rule) (auto simp: accounts_in_order_def reached_def)

lemma book_in_order:
  assumes s: "accounts_in_order (work s)" "accounts_in_order (durable s)" and acc: "accrual_type t c (people (work s)) \<Longrightarrow> acc"
  shows "wp (book_leave t e c acc qty ''adjustment'' ref reason) (\<lambda>_ u. accounts_in_order (work u) \<and> accounts_in_order (durable u))
    (\<lambda>_ u. accounts_in_order (durable u)) s"
proof (rule book_rule)
  fix m n j u
  assume m: "bucket_of t e c m" "lm_qty m = qty" "lm_ref_type m = ''adjustment''"
    and n: "n = leave_sum t e c (people (work s)) + qty" "acc \<Longrightarrow> 0 \<le> n"
    and u: "reached s (booking acc t e c n j m (people (work s))) u"
  have "leave_wf (booking acc t e c n j m (people (work s)))"
    using s m n acc by (intro leave_wf_grant) (auto simp: accounts_in_order_def grant_movement_def)
  then show "accounts_in_order (work u) \<and> accounts_in_order (durable u)" using u s by (intro in_order_after)
qed (use s in \<open>simp_all add: accounts_in_order_def\<close>)

lemma adjusted_in_order:
  assumes "accounts_in_order (work s)" "accounts_in_order (durable s)" "accrual_type t c (people (work s)) \<Longrightarrow> acc"
  shows "wp (book_adjustment t e c acc qty reason actor) (\<lambda>_ u. accounts_in_order (work u) \<and> accounts_in_order (durable u))
    (\<lambda>_ u. accounts_in_order (durable u)) s"
  unfolding book_adjustment_def wp_bind
  by (rule wp_mono [OF book_in_order [OF assms]]) (auto intro!: keepsD keeps_intros)

lemma keeps_adjust: "keeps accounts_in_order (adjust_balance t e c qty reason actor)"
proof (rule keepsI)
  fix s :: sess
  assume s: "accounts_in_order (work s)" "accounts_in_order (durable s)"
  show "wp (adjust_balance t e c qty reason actor) (\<lambda>_ u. accounts_in_order (work u) \<and> accounts_in_order (durable u))
    (\<lambda>_ u. accounts_in_order (durable u)) s"
  proof (cases "select_one (leave_type_key t c) (leave_types (people (work s)))")
    case None
    then show ?thesis using s by (simp add: adjust_balance_def wp_simps)
  next
    case (Some ty)
    then have acc: "accrual_type t c (people (work s)) = lt_accrual ty" by (simp add: accrual_type_def accrues_def)
    have locked: "(0 \<le> leave_sum t e c (people (work v)) + qty \<longrightarrow> wp (book_adjustment t e c True qty reason actor)
          (\<lambda>_ u. accounts_in_order (work u) \<and> accounts_in_order (durable u)) (\<lambda>_ u. accounts_in_order (durable u)) v) \<and>
        (\<not> 0 \<le> leave_sum t e c (people (work v)) + qty \<longrightarrow> accounts_in_order (durable v))"
      if "reached s (seeded t e c j (people (work s))) v" for v j
      using that s by (auto simp: reached_def accounts_in_order_def intro!: adjusted_in_order [unfolded accounts_in_order_def])
    show ?thesis
    proof (cases "lt_accrual ty")
      case True
      then show ?thesis using Some s
        apply (simp add: adjust_balance_def wp_simps)
        apply (intro impI lock_rule)
         apply (drule locked, simp)
        apply simp
        done
    next
      case False
      then show ?thesis using Some s adjusted_in_order [OF s, of t c False e qty reason actor] acc
        by (simp add: adjust_balance_def wp_simps)
    qed
  qed
qed

lemma keeps_leave_writes:
  "keeps accounts_in_order (create_department r1)" "keeps accounts_in_order (update_department r1)"
  "keeps accounts_in_order (create_employee r2)" "keeps accounts_in_order (update_employee r2)"
  "keeps accounts_in_order (create_compensation r3)" "keeps accounts_in_order (upsert_leave_policy r4)"
  "keeps accounts_in_order (upsert_attendance_record r5)"
  unfolding create_department_def update_department_def create_employee_def update_employee_def create_compensation_def
    upsert_leave_policy_def upsert_attendance_record_def get_department_def get_employee_def get_leave_policy_def employee_widths_def Let_def
  by (intro keeps_intros keeps_account_write; simp)+

lemma leave_wf_requested:
  assumes "leave_wf p" "lr_status r = LEAVE_PENDING" "\<forall>q \<in> set (leave_requests p). \<not> leave_request_key (lr_tenant r) (lr_id r) q"
  shows "leave_wf (p\<lparr>leave_requests := leave_requests p @ [r]\<rparr>)"
proof -
  have "request_id r \<notin> request_id ` set (leave_requests p)"
    using assms(3) by (auto simp: leave_request_key_iff request_id_def)
  moreover have "taken_days t e c (p\<lparr>leave_requests := leave_requests p @ [r]\<rparr>) = taken_days t e c p" for t e c
    using assms(2) by (simp add: taken_days_def takes_def)
  moreover have "account_balanced t e c (p\<lparr>leave_requests := leave_requests p @ [r]\<rparr>) = account_balanced t e c p" for t e c
    unfolding account_balanced_def calculation(2) by (simp add: leave_sum_def granted_days_def accrual_type_def materialized_def)
  ultimately show ?thesis
    using assms(1) by (simp add: leave_wf_def accrual_grants_def)
qed

lemma keeps_new_request: "lr_status r = LEAVE_PENDING \<Longrightarrow> keeps accounts_in_order (create_leave_request r)"
  unfolding keeps_def create_leave_request_def accounts_in_order_def
  by (simp add: wp_simps leave_wf_requested split: option.split)

lemma keeps_reject: "keeps accounts_in_order (reject_leave t i reason actor)"
proof (rule keepsI)
  fix s :: sess
  assume s: "accounts_in_order (work s)" "accounts_in_order (durable s)"
  show "wp (reject_leave t i reason actor) (\<lambda>_ u. accounts_in_order (work u) \<and> accounts_in_order (durable u))
    (\<lambda>_ u. accounts_in_order (durable u)) s"
  proof (cases "select_one (leave_request_key t i) (leave_requests (people (work s)))")
    case None
    then show ?thesis using s by (simp add: reject_leave_def wp_simps)
  next
    case (Some r)
    show ?thesis
    proof (cases "lr_status r = LEAVE_PENDING")
      case False
      then show ?thesis using Some s
        by (cases "lr_status r") (simp_all add: reject_leave_def wp_simps can_transition_def leave_machine_def)
    next
      case True
      have "leave_wf (decided_request t i LEAVE_PENDING LEAVE_REJECTED None None (people (work s)))"
        by (rule leave_wf_decided [OF _ Some True]) (use s in \<open>simp_all add: accounts_in_order_def\<close>)
      then have "accounts_in_order (work u) \<and> accounts_in_order (durable u)"
        if "reached s (decided_request t i LEAVE_PENDING LEAVE_REJECTED None None (people (work s))) u" for u
        using that s by (intro in_order_after)
      then show ?thesis using Some True s
        by (auto simp: reject_leave_def wp_bind wp_get_leave wp_then [of "requireM _ _"] wp_the_or_raise wp_require can_transition_def
            leave_machine_def wp_return reached_def intro!: transition_rule trail_rule trail_steps split: option.split)
    qed
  qed
qed

lemmas keeps_account = keeps_intros leave_account.audit_by_keeps leave_account.next_value_keeps keeps_leave_writes keeps_new_request
  keeps_lock keeps_accrue_movement

lemma yields_accrual: "yields (\<lambda>m. lm_ref_type m = ''accrual'') (accrual_movement t e c qty y)"
  unfolding accrual_movement_def by (intro yields_intros) simp

lemma keeps_accrual_movement: "keeps accounts_in_order (accrual_movement t e c qty y)"
  unfolding accrual_movement_def by (intro keeps_intros)

lemma keeps_accrual_steps:
  "keeps accounts_in_order (accrue_for_hire t r y prior x)" "keeps accounts_in_order (accrue t e c y actor)"
  unfolding accrue_for_hire_def accrue_def get_leave_type_def get_leave_policy_def get_employee_def Let_def
  by (intro keeps_intros keeps_bind_yields [OF keeps_accrual_movement yields_accrual] keeps_accrue_movement; assumption?)+

section \<open>The requests of the HR service\<close>

inductive hr_request :: "(uuid \<Rightarrow> uuid \<Rightarrow> error option) \<Rightarrow> unit service \<Rightarrow> bool" for identity where
  create_department: "hr_request identity (request (create_department_service name t manager actor))"
| update_department: "hr_request identity (request (update_department_service r actor))"
| list_departments: "hr_request identity (request (list_departments t include_inactive))"
| hire: "hr_request identity (request (hire identity t first surname email phone title hired dept user salary actor))"
| update_employee: "hr_request identity (request (update_employee_service e names actor))"
| change_status: "hr_request identity (request (change_status t i st actor))"
| terminate: "hr_request identity (request (terminate t i day reason actor))"
| list_employees: "hr_request identity (request (list_employees t statuses dept q limit offset))"
| request_leave: "hr_request identity (request (request_leave t e c from_d to_d reason actor))"
| approve_leave: "hr_request identity (request (approve_leave t i approver actor))"
| reject_leave: "hr_request identity (request (reject_leave t i reason actor))"
| cancel_leave: "hr_request identity (request (cancel_leave t i actor))"
| adjust_balance: "hr_request identity (request (adjust_balance t e c qty reason actor))"
| accrue: "hr_request identity (request (accrue t e c y actor))"
| list_balances: "hr_request identity (request (list_balances_service t e))"
| update_leave_policy: "hr_request identity (request (update_leave_policy t casual sick from_d actor))"
| record_attendance: "hr_request identity (request (record_attendance t e day st note actor))"

lemma keeps_hire: "keeps accounts_in_order (hire identity t first surname email phone title hired dept user salary actor)"
  unfolding hire_def accrue_annual_def get_leave_policy_def Let_def
  by (intro keeps_account keeps_accrual_steps)

lemma keeps_hr_request: "hr_request identity m \<Longrightarrow> keeps accounts_in_order m"
proof (induction rule: hr_request.induct)
qed (intro keeps_request; (unfold create_department_service_def update_department_service_def list_departments_def
    update_employee_service_def change_status_def terminate_def list_employees_def request_leave_def list_balances_service_def
    update_leave_policy_def record_attendance_def get_department_def get_leave_type_def get_employee_def list_balances_def Let_def)?;
    intro keeps_account keeps_accrual_steps keeps_approve keeps_reject keeps_cancel keeps_adjust keeps_hire; simp?)+

end
