(* ===== verification/Payroll_Ledger.thy ===== *)
theory Payroll_Ledger
  imports Payroll_Service Hr_Requests
begin

text \<open>
  What every payroll operation keeps. The service is proved once against the contract of an invariant on
  the tables of people (the locales \<open>people_invariant\<close>, \<open>pay_quiet\<close> and \<open>pay_kept\<close>); the invariant of the payroll
  tables, the leave account and the history of runs are instances of it.
\<close>

section \<open>Combining invariants\<close>

lemma keeps_conj:
  assumes "keeps P m" "keeps Q m"
  shows "keeps (\<lambda>d. P d \<and> Q d) m"
proof (rule keepsI)
  fix s :: sess
  assume s: "P (work s) \<and> Q (work s)" "P (durable s) \<and> Q (durable s)"
  have "wp m (\<lambda>a u. (P (work u) \<and> P (durable u)) \<and> (Q (work u) \<and> Q (durable u))) (\<lambda>e u. P (durable u) \<and> Q (durable u)) s"
    by (rule wp_conj) (use s in \<open>auto intro: keepsD [OF assms(1)] keepsD [OF assms(2)]\<close>)
  then show "wp m (\<lambda>_ u. (P (work u) \<and> Q (work u)) \<and> P (durable u) \<and> Q (durable u)) (\<lambda>_ u. P (durable u) \<and> Q (durable u)) s"
    by (rule wp_mono) auto
qed

text \<open>A request whose first reads decide what it may do: it starts with nothing written yet.\<close>

definition kept_request :: "(db \<Rightarrow> bool) \<Rightarrow> 'a service \<Rightarrow> bool" where
  "kept_request P m \<longleftrightarrow> (\<forall>s. work s = durable s \<longrightarrow> P (durable s) \<longrightarrow>
     wp m (\<lambda>_ u. P (work u) \<and> P (durable u)) (\<lambda>_ u. P (durable u)) s)"

lemma kept_requestI:
  "(\<And>s. work s = durable s \<Longrightarrow> P (durable s) \<Longrightarrow>
     wp m (\<lambda>_ u. P (work u) \<and> P (durable u)) (\<lambda>_ u. P (durable u)) s) \<Longrightarrow> kept_request P m"
  by (simp add: kept_request_def)

lemma kept_keeps: "keeps P m \<Longrightarrow> kept_request P m"
  by (simp add: kept_request_def keeps_def)

lemma kept_request_request: "kept_request P m \<Longrightarrow> kept_request P (request m)"
  unfolding kept_request_def request_def wp_then wp_return by simp

lemma run_request_kept:
  assumes "kept_request P m" "P (durable s)"
  shows "P (durable (snd (run_request m s)))"
proof -
  have "case run_request m s of (r, t) \<Rightarrow> P (durable t)"
    by (rule run_request_wp, rule wp_mono [OF assms(1) [unfolded kept_request_def, rule_format, of "begin_state s"]])
      (use assms(2) in auto)
  then show ?thesis by (simp add: case_prod_unfold)
qed

text \<open>After a first read, the rest keeps the invariant and what the read established.\<close>

lemma kept_rest:
  assumes "keeps (\<lambda>d. P d \<and> Q d) m" "P (work s)" "P (durable s)" "Q (work s)" "Q (durable s)"
  shows "wp m (\<lambda>_ u. P (work u) \<and> P (durable u)) (\<lambda>_ u. P (durable u)) s"
  by (rule wp_mono [OF keepsD [OF assms(1)]]) (use assms in auto)

section \<open>Invariants of the tables of people\<close>

locale people_invariant =
  fixes I :: "db \<Rightarrow> bool"
  assumes people_only: "I d \<Longrightarrow> people d' = people d \<Longrightarrow> I d'"
begin

lemma write_elsewhere: "(\<And>d. people (f d) = people d) \<Longrightarrow> keeps I (writeM f)"
  by (rule keeps_write, rule people_only) auto

lemma reads [keeps_intros]: "keeps I (read_people f)" "keeps I (read_approvals g)" "keeps I (check_people c ok)"
  "keeps I (check_approvals c ok')" "keeps I (fits_integer n)" "keeps I (fits_optional k x)" "keeps I (fits_column w txt)"
  by (simp_all add: keeps_def wp_simps split: option.split)

lemma shared [keeps_intros]:
  "keeps I (audit_by t a x y d)" "keeps I (people_event n t z)" "keeps I (next_value t nm)"
  "keeps I (write_approvals h)"
  unfolding audit_by_def people_event_def next_value_def bump_sequence_def write_approvals_def
  by (intro keeps_intros write_elsewhere; simp)+

lemma settings_kept: "keeps I (upsert_settings r)"
  unfolding upsert_settings_def get_settings_def Let_def by (intro keeps_intros write_elsewhere; simp)

lemma draft_kept: "keeps I (create_payroll_accrual_draft t run day gross net)"
  unfolding create_payroll_accrual_draft_def create_journal_entry_def flush_unique_def Let_def
  by (intro keeps_intros write_elsewhere; simp)+

lemma posting_kept: "keeps I (complete_posting t user i x)"
  unfolding complete_posting_def get_journal_entry_def get_journal_entry_row_def is_period_closed_def
    post_journal_entry_row_def flip_entry_def Let_def
  by (intro keeps_intros write_elsewhere; simp)+

section \<open>The approval engine\<close>

lemma approval_steps [keeps_intros]:
  "keeps I (record_transition x)" "keeps I (update_step_decision t i st who now dg)"
  "keeps I (update_instance_status t i ist n who' now)" "keeps I (get_instance t i)" "keeps I (list_steps t i)"
  "keeps I (create_instance t df ver rt res who' now specs)" "keeps I (step_assignee_ids t row)"
  "keeps I (delegator_for dgs t w row us act now)" "keeps I (payroll_approval_engine_enabled t)" "keeps I (get_active t rt)"
  unfolding record_transition_def update_step_decision_def guarded_step_update_def update_instance_status_def get_instance_def
    list_steps_def create_instance_def insert_steps_def step_checks_def step_assignee_ids_def resolve_role_members_def
    resolve_permission_members_def delegator_for_def list_grants_from_delegators_def payroll_approval_engine_enabled_def
    approval_engine_enabled_def get_tenant_flag_def get_active_def Let_def
  by (intro keeps_intros | cases "st_kind row"; simp; intro keeps_intros)+

lemma keeps_auto_route: "keeps I (auto_route t i amt now xs rows)"
  by (induction t i amt now xs rows rule: auto_route.induct) (auto intro!: keeps_intros)

lemma keeps_submit:
  assumes "\<And>t rt res ty reason who. keeps I (on_approved port t rt res ty reason who)"
  shows "keeps I (submit (Some port) t d def rt res amt who)"
  unfolding submit_def finish_submission_def Let_def option.case by (intro keeps_intros keeps_auto_route assms)

lemma keeps_decide:
  assumes "\<And>t rt res ty reason who. keeps I (on_approved port t rt res ty reason who)"
    "\<And>t rt res reason. keeps I (on_rejected port t rt res reason)"
    "\<And>t rt res reason. keeps I (on_request_changes port t rt res reason)"
  shows "keeps I (decide (Some port) dgs t i actor verb reason index)"
  unfolding decide_def advance_def tell_outcome_def Let_def option.case by (intro keeps_intros assms)

lemma keeps_suggestion: "keeps I (suggest_and_record ai t w row amt description allowed)"
  unfolding suggest_and_record_def Let_def by (intro keeps_intros)

end

section \<open>Steps of the payroll repository\<close>

text \<open>What a status change may do beside the status: the machine's moves, and the totals only with a computation.\<close>

definition same_identity :: "payroll_run \<Rightarrow> payroll_run \<Rightarrow> bool" where
  "same_identity r q \<longleftrightarrow> pr_id q = pr_id r \<and> pr_tenant q = pr_tenant r \<and> pr_start q = pr_start r \<and> pr_end q = pr_end r"

definition run_change :: "run_status \<Rightarrow> run_status \<Rightarrow> (payroll_run \<Rightarrow> payroll_run) \<Rightarrow> bool" where
  "run_change f g ch \<longleftrightarrow> can_transition run_machine f g \<and> (\<forall>r. same_identity r (ch r) \<and> pr_status (ch r) = pr_status r \<and>
     (if g = RUN_COMPUTED then pr_gross (ch r) \<noteq> None \<and> pr_net (ch r) \<noteq> None
      else pr_gross (ch r) = pr_gross r \<and> pr_net (ch r) = pr_net r))"

locale pay_quiet = people_invariant +
  assumes accrual: "keeps I (accrue t e c y actor)"
    and review: "keeps I (materialize_review vs x)"
    and review_decided: "keeps I (transition_payslip_review t i rf rg who now reason)"
    and review_bumped: "keeps I (bump_payslip_review_version t i)"
    and salary: "keeps I (create_compensation co)"
    and recomputed: "run_change f RUN_COMPUTED ch \<Longrightarrow> keeps I (transition_run_status t i f RUN_COMPUTED ch)"
    and dropped: "keeps I (delete_entries_for_run t i es)"
    and adjusted: "keeps I (update_entry en)"
    and bridged: "keeps I (set_run_je_bridge_status t i b)"
begin

lemma views [keeps_intros]: "keeps I (currency_for t)" "keeps I (run_view_option x)" "keeps I (run_view r)"
  "keeps I (entry_view en)" "keeps I (entry_view_option y)" "keeps I (review_view v)" "keeps I (review_view_option z)"
  unfolding currency_for_def run_view_option_def run_view_def entry_view_option_def entry_view_def review_view_option_def review_view_def
  by (intro keeps_intros)+

lemma run_reads [keeps_intros]:
  "keeps I (get_settings t)" "keeps I (get_run t i)" "keeps I (list_runs t st limit offset)" "keeps I (list_voided_runs t since)"
  "keeps I (find_overlapping_run t a b)" "keeps I (previous_run t a)" "keeps I (list_entries t i)" "keeps I (get_entry t i e)"
  "keeps I (get_entry_by_id t i)" "keeps I (list_compensation t e)" "keeps I (list_active_employees t a b)"
  "keeps I (get_roster_employee t e)" "keeps I (active_departments t)" "keeps I (list_payslip_reviews t rst run limit)"
  "keeps I (get_payslip_review t i)" "keeps I (get_compensation t e day)" "keeps I (approved_unpaid_days t e a b)"
  "keeps I (list_accrual_leave_types t)" "keeps I (enrolled_benefit_elections t b)"
  unfolding get_settings_def get_run_def list_runs_def list_voided_runs_def find_overlapping_run_def previous_run_def list_entries_def
    get_entry_def get_entry_by_id_def list_compensation_def list_active_employees_def get_roster_employee_def active_departments_def
    list_payslip_reviews_def get_payslip_review_def get_compensation_def approved_unpaid_days_def list_accrual_leave_types_def
    enrolled_benefit_elections_def
  by (intro keeps_intros)+

section \<open>Steps of a computation\<close>

lemma accruals [keeps_intros]: "keeps I (accrue_types t e y codes)" "keeps I (accrue_roster t r staff)"
  unfolding accrue_roster_def accrue_types_def by (intro keeps_intros accrual)+

lemma salaries [keeps_intros]: "keeps I (payable_salary t e day)" "keeps I (paid_days_of t r q)"
  "keeps I (build_entry t r cfg e m days old)" "keeps I (pay_employee t r cfg es q)"
  unfolding pay_employee_def build_entry_def payable_salary_def paid_days_of_def Let_def
  by (intro keeps_intros)+

lemma reviews [keeps_intros]: "keeps I (payslips_for_run t i)" "keeps I (materialize_run t i)"
  "keeps I (append_bank_detail_risk_rows t r computed ks)" "keeps I (drop_stale t i old es)"
  unfolding materialize_run_def materialize_payslip_reviews_def payslips_for_run_def append_bank_detail_risk_rows_def
    drop_stale_def Let_def
  by (intro keeps_intros review dropped)+

lemma change_computed: "can_transition run_machine f RUN_COMPUTED \<Longrightarrow> run_change f RUN_COMPUTED (mark_computed actor now g n ks)"
  by (simp add: run_change_def mark_computed_def same_identity_def)

lemma closing: "can_transition run_machine (pr_status r) RUN_COMPUTED \<Longrightarrow> keeps I (close_compute t r actor k totals ks details)"
  unfolding close_compute_def by (intro keeps_intros recomputed change_computed)

end

text \<open>
  The contract of an invariant: the moves of a run, a new run where none run_overlaps, and the entries of a run
  that is still open.
\<close>

locale pay_kept = pay_quiet +
  assumes moved: "run_change f g ch \<Longrightarrow> keeps I (transition_run_status t i f g ch)"
    and created: "I d \<Longrightarrow> a \<le> b \<Longrightarrow> \<forall>q \<in> set (payroll_runs (people d)). \<not> run_overlaps t a b q \<Longrightarrow>
      \<forall>q \<in> set (payroll_runs (people d)). \<not> run_key t i q \<Longrightarrow>
      I (d\<lparr>people := (people d)\<lparr>payroll_runs := payroll_runs (people d) @ [new_run i t n a b]\<rparr>\<rparr>)"
    and written: "pe_tenant en = t \<Longrightarrow> pe_run en = i \<Longrightarrow>
      keeps (\<lambda>d. I d \<and> mutable_run t (people d) i) (upsert_entry en)"

section \<open>An open run stays open\<close>

lemma mutable_frame [simp]:
  "mutable_run t (p\<lparr>departments := x1\<rparr>) i = mutable_run t p i" "mutable_run t (p\<lparr>employees := x2\<rparr>) i = mutable_run t p i"
  "mutable_run t (p\<lparr>leave_policies := x3\<rparr>) i = mutable_run t p i" "mutable_run t (p\<lparr>attendance := x4\<rparr>) i = mutable_run t p i"
  "mutable_run t (p\<lparr>compensations := x5\<rparr>) i = mutable_run t p i" "mutable_run t (p\<lparr>leave_movements := x6\<rparr>) i = mutable_run t p i"
  "mutable_run t (p\<lparr>payroll_entries := x7\<rparr>) i = mutable_run t p i" "mutable_run t (p\<lparr>payslip_reviews := x8\<rparr>) i = mutable_run t p i"
  "mutable_run t (p\<lparr>leave_balances := x9\<rparr>) i = mutable_run t p i" "mutable_run t (p\<lparr>leave_requests := x10\<rparr>) i = mutable_run t p i"
  by (simp_all add: mutable_run_def)

lemma keeps_people_write: "(\<And>p. J p \<Longrightarrow> J (f p)) \<Longrightarrow> keeps (\<lambda>d. J (people d)) (write_people f)"
  unfolding write_people_def by (rule keeps_write) simp

lemma people_invariantI: "people_invariant (\<lambda>d. J (people d))"
  by unfold_locales simp

text \<open>The repository operations written out; what remains are their writes.\<close>

lemmas accrual_defs = accrue_def accrual_movement_def accrue_leave_movement_def lock_leave_balance_def balance_references_def
  upsert_balance_def add_leave_movement_def recompute_balance_def get_leave_type_def get_leave_policy_def get_employee_def

lemmas review_defs = materialize_review_def insert_review_def transition_payslip_review_def bump_payslip_review_version_def
  review_view_option_def review_view_def currency_for_def

lemmas entry_defs = delete_entries_for_run_def update_entry_def set_run_je_bridge_status_def get_run_def run_view_option_def
  run_view_def entry_view_def currency_for_def

lemmas transition_defs = transition_run_status_def run_fits_def run_view_option_def run_view_def currency_for_def

lemma mutable_moved:
  assumes "run_change f RUN_COMPUTED ch" "mutable_run t p i"
  shows "mutable_run t (p\<lparr>payroll_runs := update_where (\<lambda>r. run_key t' i' r \<and> pr_status r = f)
    (\<lambda>r. ch (r\<lparr>pr_status := RUN_COMPUTED\<rparr>)) (payroll_runs p)\<rparr>) i"
proof -
  obtain r where r: "r \<in> set (payroll_runs p)" "run_key t i r" "pr_status r \<in> {RUN_DRAFT, RUN_COMPUTED}"
    using assms(2) by (auto simp: mutable_run_def)
  let ?f = "\<lambda>r. if run_key t' i' r \<and> pr_status r = f then ch (r\<lparr>pr_status := RUN_COMPUTED\<rparr>) else r"
  have "run_key t i (?f r) \<and> pr_status (?f r) \<in> {RUN_DRAFT, RUN_COMPUTED}"
    using assms(1) r(2,3) by (simp add: run_change_def same_identity_def run_key_def)
  moreover have "?f r \<in> ?f ` set (payroll_runs p)" using r(1) by (rule imageI)
  moreover have "payroll_runs (p\<lparr>payroll_runs := rows\<rparr>) = rows" for rows by simp
  ultimately show ?thesis unfolding mutable_run_def by (simp only: set_update_where) (intro bexI [of _ "?f r"])
qed

lemma mutable_bridged [simp]:
  "mutable_run t (p\<lparr>payroll_runs := update_where g (\<lambda>r. r\<lparr>pr_bridge := b\<rparr>) (payroll_runs p)\<rparr>) i = mutable_run t p i"
  by (auto simp: mutable_run_def bex_update_where run_key_def)

interpretation open_base: people_invariant "\<lambda>d. mutable_run t (people d) i" for t i
  by (rule people_invariantI)

lemma keeps_transition:
  assumes "\<And>p. J p \<Longrightarrow> J (p\<lparr>payroll_runs := update_where (\<lambda>r. run_key t i r \<and> pr_status r = f)
    (\<lambda>r. ch (r\<lparr>pr_status := g\<rparr>)) (payroll_runs p)\<rparr>)"
  shows "keeps (\<lambda>d. J (people d)) (transition_run_status t i f g ch)"
  unfolding keeps_def transition_defs Let_def
  by (simp add: wp_simps assms split: option.split sum.split)

interpretation open_run: pay_quiet "\<lambda>d. mutable_run t (people d) i" for t i
proof
  show "keeps (\<lambda>d. mutable_run t (people d) i) (accrue t' e c y actor)" for t' e c y actor
    unfolding accrual_defs Let_def by (intro keeps_intros keeps_people_write; simp)
  show "keeps (\<lambda>d. mutable_run t (people d) i) (materialize_review vs x)" for vs x
    unfolding review_defs Let_def by (intro keeps_intros keeps_people_write; simp)
  show "keeps (\<lambda>d. mutable_run t (people d) i) (transition_payslip_review t' i' f g who now reason)" for t' i' f g who now reason
    unfolding review_defs Let_def by (intro keeps_intros keeps_people_write; simp)
  show "keeps (\<lambda>d. mutable_run t (people d) i) (bump_payslip_review_version t' i')" for t' i'
    unfolding review_defs Let_def by (intro keeps_intros keeps_people_write; simp)
  show "keeps (\<lambda>d. mutable_run t (people d) i) (create_compensation co)" for co
    unfolding create_compensation_def Let_def by (intro keeps_intros keeps_people_write; simp)
  show "keeps (\<lambda>d. mutable_run t (people d) i) (transition_run_status t' i' f RUN_COMPUTED ch)"
    if "run_change f RUN_COMPUTED ch" for t' i' f ch
    by (rule keeps_transition) (rule mutable_moved [OF that])
  show "keeps (\<lambda>d. mutable_run t (people d) i) (delete_entries_for_run t' i' es)" for t' i' es
    unfolding entry_defs Let_def by (intro keeps_intros keeps_people_write; simp)
  show "keeps (\<lambda>d. mutable_run t (people d) i) (update_entry en)" for en
    unfolding entry_defs Let_def by (intro keeps_intros keeps_people_write; simp)
  show "keeps (\<lambda>d. mutable_run t (people d) i) (set_run_je_bridge_status t' i' b)" for t' i' b
    unfolding entry_defs Let_def by (intro keeps_intros keeps_people_write; simp)
qed

text \<open>So a kept invariant is kept together with a run being open.\<close>

sublocale pay_kept \<subseteq> at_run: pay_quiet "\<lambda>d. I d \<and> mutable_run t (people d) i" for t i
proof
  fix d d' :: db
  assume "I d \<and> mutable_run t (people d) i" "people d' = people d"
  then show "I d' \<and> mutable_run t (people d') i" using people_only [of d d'] by simp
qed (intro keeps_conj accrual review review_decided review_bumped salary recomputed dropped adjusted bridged
    open_run.accrual open_run.review open_run.review_decided open_run.review_bumped open_run.salary open_run.recomputed
    open_run.dropped open_run.adjusted open_run.bridged; assumption)+

end
