(* ===== verification/Payroll_Reports.thy ===== *)
theory Payroll_Reports
  imports Payroll_Service
begin

text \<open>
  The reads of \<open>PayrollService\<close> that compute: the prediction of a run against the previous period, and the
  monthly report of void causes.
\<close>

section \<open>Prediction\<close>

record department_projection =
  dj_department :: "uuid option"
  dj_name :: string
  dj_gross :: money
  dj_net :: money
  dj_count :: nat
  dj_previous :: "money option"
  dj_delta :: "decimal option"
  dj_drifted :: bool

record run_prediction =
  rp_run :: uuid
  rp_gross :: money
  rp_net :: money
  rp_threshold :: decimal
  rp_departments :: "department_projection list"
  rp_previous :: "payroll_run option"
  rp_skipped :: "skip_record list"

definition department_label :: "uuid option \<Rightarrow> (uuid \<times> string) list \<Rightarrow> string" where
  "department_label dept names = (case dept of None \<Rightarrow> ''Unassigned''
     | Some i \<Rightarrow> (case map_of names i of None \<Rightarrow> ''Unassigned'' | Some n \<Rightarrow> n))"

text \<open>The departments of the projected entries in the order of the report: by name, the unassigned last.\<close>

definition report_order :: "(uuid \<times> string) list \<Rightarrow> uuid option list \<Rightarrow> uuid option list" where
  "report_order names ds = (let keys = rev (remdups (rev ds)) in
     sort_key (\<lambda>d. department_label d names) (filter (\<lambda>d. d \<noteq> None) keys) @ filter (\<lambda>d. d = None) keys)"

definition drift_of :: "decimal \<Rightarrow> decimal \<Rightarrow> decimal \<Rightarrow> error + (decimal option \<times> bool)" where
  "drift_of threshold net prev = (if prev = 0 then Inr (None, False) else
     and_then (quantize_half_up 2 (prec28 (prec28 (prec28 (net - prev) / prev) * 100))) (\<lambda>delta.
     Inr (Some delta, prec28 (threshold * 100) < \<bar>delta\<bar>)))"

definition project_department ::
  "(uuid \<times> string) list \<Rightarrow> decimal \<Rightarrow> (uuid option \<times> decimal) list \<Rightarrow> string \<Rightarrow> uuid option \<Rightarrow> computed_entry list \<Rightarrow>
   error + department_projection" where
  "project_department names threshold previous cur dept es =
     and_then (sum_money (map entry_gross es) cur) (\<lambda>g.
     and_then (sum_money (map entry_net es) cur) (\<lambda>n.
     and_then (case map_of previous dept of None \<Rightarrow> Inr (None, False) | Some p \<Rightarrow> drift_of threshold (amount n) p) (\<lambda>(delta, drifted).
     and_then (case map_of previous dept of None \<Rightarrow> Inr None | Some p \<Rightarrow> and_then (Money p cur) (\<lambda>m. Inr (Some m))) (\<lambda>prev.
     Inr \<lparr>dj_department = dept, dj_name = department_label dept names, dj_gross = g, dj_net = n, dj_count = length es,
       dj_previous = prev, dj_delta = delta, dj_drifted = drifted\<rparr>))))"

definition predict_run :: "uuid \<Rightarrow> uuid \<Rightarrow> run_prediction service" where
  "predict_run t i =
     bindM (get_run t i) (\<lambda>found.
     bindM (the_or_raise ValueError found) (\<lambda>r.
     bindM (get_settings t) (\<lambda>cfg.
     let threshold = (case cfg of None \<Rightarrow> 1 / 10 | Some c \<Rightarrow> ps_drift c);
         cur = (case cfg of None \<Rightarrow> ''USD'' | Some c \<Rightarrow> ps_currency c) in
     bindM (list_active_employees t (pr_start r) (pr_end r)) (\<lambda>staff.
     bindM (active_departments t) (\<lambda>names.
     bindM (mapM (\<lambda>q. bindM (compute_single t i (em_id q) True True) (\<lambda>(entry, why).
         returnM (case entry of None \<Rightarrow> Inl (skip_from_text (em_id q) (reason_or_unknown why) None) | Some x \<Rightarrow> Inr x))) staff)
       (\<lambda>results.
     let es = paid_of results in
     bindM (resultM (totals_or_zero es cur)) (\<lambda>(g, n).
     bindM (previous_run t (pr_start r)) (\<lambda>prev.
     bindM (case prev of None \<Rightarrow> returnM [] | Some p \<Rightarrow> read_people (department_nets t (pr_id p))) (\<lambda>nets.
     let dept_of = (\<lambda>x. case map_of (map (\<lambda>q. (em_id q, em_department q)) staff) (pe_employee (fst x)) of None \<Rightarrow> None | Some d \<Rightarrow> d) in
     bindM (mapM (\<lambda>d. resultM (project_department names threshold nets (currency g) d (filter (\<lambda>x. dept_of x = d) es)))
         (report_order names (map dept_of es))) (\<lambda>departments.
     returnM \<lparr>rp_run = i, rp_gross = g, rp_net = n, rp_threshold = threshold, rp_departments = departments,
       rp_previous = prev, rp_skipped = skips_of results\<rparr>))))))))))"

section \<open>Void causes by month\<close>

definition month_start :: "date \<Rightarrow> date" where
  "month_start d = first_of_month (year_of d) (month_of d)"

definition add_months :: "date \<Rightarrow> int \<Rightarrow> date" where
  "add_months d delta = (let k = month_of d - 1 + delta in first_of_month (year_of d + k div 12) (k mod 12 + 1))"

lemma filter_sorted_prefix: "sorted xs \<Longrightarrow> filter (\<lambda>x. x < k) xs = takeWhile (\<lambda>x. x < (k::int)) xs"
proof (induction xs)
  case (Cons x xs)
  have "\<not> y < k" if "\<not> x < k" "y \<in> set xs" for y using Cons.prems that by fastforce
  then show ?case using Cons by (auto simp: filter_empty_conv)
qed simp

lemma month_starts_sorted: "sorted (month_starts y)" "length (month_starts y) = 12" "0 \<in> set (month_starts y)"
  by (simp_all add: month_starts_def Let_def)

lemma month_of_range: "1 \<le> month_of d" "month_of d \<le> 12"
proof -
  let ?xs = "month_starts (year_of d)" and ?P = "\<lambda>m. m < day_of_year d"
  have "length (filter ?P ?xs) \<le> 12" using length_filter_le [of ?P ?xs] month_starts_sorted(2) by simp
  then show "month_of d \<le> 12" by (simp add: month_of_def)
  have "0 \<in> set (filter ?P ?xs)" using day_of_year_bounds(1) [of d] by (simp add: month_starts_sorted(3))
  then have "filter ?P ?xs \<noteq> []" by (metis empty_iff list.set(1))
  then show "1 \<le> month_of d" by (simp add: month_of_def Suc_le_eq)
qed

lemma add_months_later: "d < add_months d 1"
proof (cases "month_of d = 12")
  case True
  have "first_of_month (year_of d + 1) 1 = days_before_year (year_of d + 1) + 1"
    by (simp add: first_of_month_def month_starts_def Let_def)
  then show ?thesis using year_of_bounds [of d] True by (simp add: add_months_def)
next
  case False
  let ?xs = "month_starts (year_of d)" and ?P = "\<lambda>m. m < day_of_year d"
  let ?n = "length (takeWhile ?P ?xs)"
  have n: "month_of d = int ?n"
    by (simp add: month_of_def filter_sorted_prefix [OF month_starts_sorted(1)])
  then have "?n < length ?xs" using month_of_range [of d] False month_starts_sorted(2) by simp
  then have "day_of_year d \<le> ?xs ! ?n" using nth_length_takeWhile [of ?P ?xs] by simp
  moreover have "add_months d 1 = days_before_year (year_of d) + ?xs ! ?n + 1"
    using month_of_range [of d] False n by (simp add: add_months_def first_of_month_def)
  ultimately show ?thesis by (simp add: day_of_year_def)
qed

text \<open>The \<open>while\<close> loop that lists the months up to the current one.\<close>

function months_from :: "date \<Rightarrow> date \<Rightarrow> date list" where
  "months_from cursor limit = (if cursor \<le> limit then cursor # months_from (add_months cursor 1) limit else [])"
  by pat_completeness auto
termination
  by (relation "measure (\<lambda>(cursor, limit). nat (limit + 1 - cursor))") (use add_months_later in \<open>auto simp: zless_nat_conj\<close>)

declare months_from.simps [simp del]

record void_report =
  vp_months :: "(date \<times> (void_category \<times> nat) list) list"
  vp_totals :: "(void_category \<times> nat) list"
  vp_unclassified :: "(uuid \<times> string \<times> date \<times> string) list"

definition void_categories :: "void_category list" where
  "void_categories = [VOID_DUPLICATE, VOID_WRONG_PERIOD, VOID_CORRECTION_NEEDED, VOID_UNCLASSIFIED]"

definition void_text :: "payroll_run \<Rightarrow> string" where
  "void_text r = (case pr_void_reason r of None \<Rightarrow> [] | Some x \<Rightarrow> x)"

definition void_cause :: "payroll_run \<Rightarrow> void_category" where
  "void_cause r = fst (classify_void_reason (void_text r))"

definition void_count :: "payroll_run list \<Rightarrow> void_category \<Rightarrow> date \<Rightarrow> nat" where
  "void_count runs c m = length (filter (\<lambda>r. month_start (pr_start r) = m \<and> void_cause r = c) runs)"

definition void_report_of :: "date list \<Rightarrow> payroll_run list \<Rightarrow> void_report" where
  "void_report_of months runs =
     \<lparr>vp_months = map (\<lambda>m. (m, map (\<lambda>c. (c, void_count runs c m)) void_categories)) months,
      vp_totals = map (\<lambda>c. (c, sum_list (map (void_count runs c) months))) void_categories,
      vp_unclassified = take 20 (descending (\<lambda>(i, txt, start, code). start)
        (map (\<lambda>r. (pr_id r, void_text r, pr_start r, pr_code r)) (filter (\<lambda>r. void_cause r = VOID_UNCLASSIFIED) runs)))\<rparr>"

definition void_reason_report :: "uuid \<Rightarrow> int \<Rightarrow> void_report service" where
  "void_reason_report t months =
     bindM (getsM clk) (\<lambda>k.
     let this = month_start (today k); start = add_months this (- (months - 1)) in
     bindM (list_voided_runs t start) (\<lambda>runs. returnM (void_report_of (months_from start this) runs)))"

end
