(* ===== verification/Payroll_Requests.thy ===== *)
theory Payroll_Requests
  imports Payroll_Ledger Payroll_Reports
begin

text \<open>
  Every operation of the payroll service keeps every invariant that fulfils the contract \<open>pay_kept\<close>: proved once,
  used for the leave account, for the payroll tables and for the history of runs.
\<close>

section \<open>Reading a run before changing it\<close>

lemma run_for_rule:
  assumes "\<And>r. r \<in> set (payroll_runs (people (work s))) \<Longrightarrow> run_key t i r \<Longrightarrow> can_transition run_machine (pr_status r) g \<Longrightarrow> Q r s"
    and "\<And>e. E e s"
  shows "wp (run_for t i g txt) Q E s"
  using assms select_one_SomeD [of "run_key t i" "payroll_runs (people (work s))"]
  by (auto simp: run_for_def get_run_def run_view_option_def run_view_def currency_for_def wp_simps split: option.split sum.split)

lemma yields_run_for: "yields (\<lambda>r. can_transition run_machine (pr_status r) g) (run_for t i g txt)"
  unfolding yields_def by (intro allI run_for_rule TrueI)

lemma computable_status: "can_transition run_machine st RUN_COMPUTED \<longleftrightarrow> st \<in> {RUN_DRAFT, RUN_COMPUTED}"
  by (cases st) (simp_all add: can_transition_def run_machine_def)

lemma computable_open: "r \<in> set (payroll_runs p) \<Longrightarrow> run_key t i r \<Longrightarrow> can_transition run_machine (pr_status r) RUN_COMPUTED \<Longrightarrow>
    mutable_run t p i \<and> pr_id r = i"
  by (auto simp: mutable_run_def computable_status run_key_def)

text \<open>The entries a computation writes are entries of its run.\<close>

definition entry_of :: "uuid \<Rightarrow> uuid \<Rightarrow> payroll_entry \<Rightarrow> bool" where
  "entry_of t i x \<longleftrightarrow> pe_tenant x = t \<and> pe_run x = i"

lemma yields_built: "yields (\<lambda>x. entry_of t (pr_id r) (fst x)) (build_entry t r cfg e m days old)"
  unfolding build_entry_def Let_def by (intro yields_intros) (simp add: entry_of_def)

definition paid_for :: "uuid \<Rightarrow> uuid \<Rightarrow> skip_record + computed_entry \<Rightarrow> bool" where
  "paid_for t i x \<longleftrightarrow> (case x of Inl _ \<Rightarrow> True | Inr e \<Rightarrow> entry_of t i (fst e))"

lemma yields_pay: "yields (paid_for t (pr_id r)) (pay_employee t r cfg es q)"
  unfolding pay_employee_def
  by (intro yields_bind_yields [OF yields_built] yields_option yields_if yields_intros; simp add: paid_for_def)

lemma paid_for_entries: "\<forall>x \<in> set results. paid_for t i x \<Longrightarrow> x \<in> set (paid_of results) \<Longrightarrow> entry_of t i (fst x)"
  by (auto simp: paid_of_def paid_for_def split: sum.splits)

section \<open>Computing\<close>

lemma change_approved: "run_change RUN_COMPUTED RUN_APPROVED (\<lambda>q. q\<lparr>pr_approved_by := set_if w (pr_approved_by q), pr_approved_at := n\<rparr>)"
  and change_paid: "run_change RUN_APPROVED RUN_PAID (\<lambda>q. q\<lparr>pr_paid_by := w, pr_paid_at := n\<rparr>)"
  and change_void: "can_transition run_machine f RUN_VOID \<Longrightarrow> run_change f RUN_VOID (\<lambda>q. q\<lparr>pr_void_reason := set_if w2 (pr_void_reason q)\<rparr>)"
  by (simp_all add: run_change_def same_identity_def can_transition_def run_machine_def)

lemma insert_run_rule:
  assumes "\<And>u. \<forall>q \<in> set (payroll_runs (people (work s))). \<not> run_key (pr_tenant r) (pr_id r) q \<Longrightarrow> durable u = durable s \<Longrightarrow>
      work u = (work s)\<lparr>people := (people (work s))\<lparr>payroll_runs := payroll_runs (people (work s)) @ [r]\<rparr>\<rparr> \<Longrightarrow> Q r u"
    and "\<And>e u. durable u = durable s \<Longrightarrow> E e u"
  shows "wp (insert_run r) Q E s"
  using assms by (simp add: insert_run_def run_view_def currency_for_def wp_simps split: sum.split)

lemma viewed_rule:
  assumes "Q x s" "\<And>e. E e s"
  shows "wp (run_view_option x) Q E s"
  using assms by (cases x) (simp_all add: run_view_option_def run_view_def currency_for_def wp_simps split: sum.split)

lemma overlapping_rule:
  assumes "\<And>x. (x = None \<longleftrightarrow> (\<forall>q \<in> set (payroll_runs (people (work s))). \<not> run_overlaps t a b q)) \<Longrightarrow> Q x s" "\<And>e. E e s"
  shows "wp (find_overlapping_run t a b) Q E s"
proof -
  have "first_of xs = None \<longleftrightarrow> xs = []" for xs :: "payroll_run list" by (cases xs) (simp_all add: first_of_def)
  moreover have "sort_key pr_start xs = [] \<longleftrightarrow> xs = []" for xs :: "payroll_run list" by (metis length_0_conv length_sort)
  ultimately have "first_of (sort_key pr_start (filter (run_overlaps t a b) rows)) = None \<longleftrightarrow>
      (\<forall>q \<in> set rows. \<not> run_overlaps t a b q)" for rows
    by (simp only: filter_empty_conv)
  note key = this [of "payroll_runs (people (work s))"]
  show ?thesis
    unfolding find_overlapping_run_def wp_bind wp_read_people
    by (intro viewed_rule assms key)
qed

context pay_kept begin

lemma keeps_run_for [keeps_intros]: "keeps I (run_for t i g txt)"
  unfolding run_for_def by (intro keeps_intros)

lemma keeps_upsert:
  assumes "\<And>x. x \<in> set es \<Longrightarrow> entry_of t i x"
  shows "keeps (\<lambda>d. I d \<and> mutable_run t (people d) i) (upsert_entries es)"
  unfolding upsert_entries_def using assms
proof (induction es)
  case (Cons x xs)
  then have "keeps (\<lambda>d. I d \<and> mutable_run t (people d) i) (upsert_entry x)" by (intro written) (auto simp: entry_of_def)
  with Cons show ?case by (auto intro!: keeps_intros)
qed (auto intro!: keeps_intros)

lemma kept_compute: "kept_request I (compute_run t i actor)"
proof (rule kept_requestI)
  fix s :: sess
  assume s: "work s = durable s" "I (durable s)"
  show "wp (compute_run t i actor) (\<lambda>_ u. I (work u) \<and> I (durable u)) (\<lambda>_ u. I (durable u)) s"
    unfolding compute_run_def computable_run_def wp_bind [of "run_for t i RUN_COMPUTED x" for x]
  proof (rule run_for_rule, goal_cases)
    case (1 r)
    note can = 1(3)
    have m: "mutable_run t (people (work s)) i" and id: "pr_id r = i" using computable_open [OF 1] by simp_all
    show ?case
    proof (rule kept_rest [where Q = "\<lambda>d. mutable_run t (people d) i"], goal_cases)
      case 1
      show ?case
        by ((rule keeps_bind_yields [OF keeps_mapM [OF at_run.salaries(4)] yields_mapM [OF yields_pay]] at_run.closing [OF can]
            | rule keeps_upsert, force simp: id dest: paid_for_entries
            | rule at_run.run_reads at_run.accruals at_run.reviews keeps_intros)+)
    qed (use s m in simp_all)
  qed (use s in simp)
qed

lemma kept_single: "kept_request I (compute_single t i e persist estimate)"
proof (rule kept_requestI)
  fix s :: sess
  assume s: "work s = durable s" "I (durable s)"
  show "wp (compute_single t i e persist estimate) (\<lambda>_ u. I (work u) \<and> I (durable u)) (\<lambda>_ u. I (durable u)) s"
    unfolding compute_single_def computable_run_def wp_bind [of "run_for t i RUN_COMPUTED x" for x]
  proof (rule run_for_rule, goal_cases)
    case (1 r)
    have m: "mutable_run t (people (work s)) i" and id: "pr_id r = i" using computable_open [OF 1] by simp_all
    show ?case
    proof (rule kept_rest [where Q = "\<lambda>d. mutable_run t (people d) i"], goal_cases)
      case 1
      show ?case
        by ((rule keeps_bind_yields [OF at_run.salaries(3) yields_built]
            | rule keeps_upsert, force simp: id
            | rule at_run.run_reads at_run.accruals at_run.salaries keeps_intros)+)
    qed (use s m in simp_all)
  qed (use s in simp)
qed

lemma keeps_estimate [keeps_intros]: "keeps I (compute_single t i e persist True)"
  unfolding compute_single_def computable_run_def simp_thms if_True if_False by (intro keeps_intros)

lemma kept_finalize: "keeps I (finalize_compute t i actor skipped)"
  unfolding finalize_compute_def computable_run_def
  by ((rule keeps_bind_yields [OF keeps_run_for yields_run_for] | rule closing, assumption | rule keeps_intros)+)

section \<open>The rest of a run's life\<close>

lemma keeps_new_run:
  assumes s: "I (work s)" "I (durable s)" "\<forall>q \<in> set (payroll_runs (people (work s))). \<not> run_overlaps t a b q" and "a \<le> b"
  shows "wp (insert_run (new_run i t n a b)) (\<lambda>_ u. I (work u) \<and> I (durable u)) (\<lambda>_ u. I (durable u)) s"
proof (rule insert_run_rule, goal_cases)
  case (1 u)
  then have "\<forall>q \<in> set (payroll_runs (people (work s))). \<not> run_key t i q" by (simp add: new_run_def)
  from created [OF s(1) assms(4) s(3) this] show ?case unfolding 1(2,3) using s(2) by blast
qed (use s in simp_all)

lemma kept_create: "kept_request I (create_run t a b actor)"
proof (rule kept_requestI)
  fix s :: sess
  assume s: "work s = durable s" "I (durable s)"
  let ?free = "\<lambda>d. \<forall>q \<in> set (payroll_runs (people d)). \<not> run_overlaps t a b q"
  have trail: "keeps I (thenM (audit_by t actor ''payroll.run.created'' (target ''payroll_run'' (pr_id c))
        (Some [(''period_start'', PDate a), (''period_end'', PDate b)]))
      (thenM (people_event ''payroll.run.created'' t
        [(''run_id'', PId (pr_id c)), (''period_start'', PDate a), (''period_end'', PDate b)]) (returnM c)))" for c
    by (intro keeps_intros)
  have free: "keeps (\<lambda>d. I d \<and> ?free d) (next_run_number t)"
    unfolding next_run_number_def
    by (rule people_invariant.shared(3)) (unfold_locales, use people_only in auto)
  have rest: "wp (bindM (next_run_number t) (\<lambda>n. bindM fresh_id (\<lambda>i. bindM (insert_run (new_run i t n a b)) (\<lambda>c.
      thenM (audit_by t actor ''payroll.run.created'' (target ''payroll_run'' (pr_id c))
        (Some [(''period_start'', PDate a), (''period_end'', PDate b)]))
      (thenM (people_event ''payroll.run.created'' t
        [(''run_id'', PId (pr_id c)), (''period_start'', PDate a), (''period_end'', PDate b)]) (returnM c))))))
      (\<lambda>_ u. I (work u) \<and> I (durable u)) (\<lambda>_ u. I (durable u)) s"
    if "?free (work s)" and ab: "a \<le> b"
  proof -
    have "wp (next_run_number t) (\<lambda>_ u. (I (work u) \<and> ?free (work u)) \<and> I (durable u) \<and> ?free (durable u))
        (\<lambda>_ u. I (durable u) \<and> ?free (durable u)) s"
      using that(1) s by (intro keepsD [OF free]) simp_all
    then show ?thesis
      unfolding wp_bind [of "next_run_number t"] wp_bind [of fresh_id] wp_fresh wp_bind [of "insert_run x" for x]
      by (rule wp_mono) (auto intro!: wp_mono [OF keeps_new_run] wp_mono [OF keepsD [OF trail]] ab)
  qed
  show "wp (create_run t a b actor) (\<lambda>_ u. I (work u) \<and> I (durable u)) (\<lambda>_ u. I (durable u)) s"
    unfolding create_run_def wp_then [of "requireM x e" for x e] wp_require wp_bind [of "find_overlapping_run t a b"]
    using s rest by (auto intro!: overlapping_rule simp: wp_then [of "requireM x e" for x e] wp_require)
qed

lemma keeps_complete [keeps_intros]: "keeps I (complete_approval t i approver actor now)"
  unfolding complete_approval_def by (intro keeps_intros moved change_approved)

lemma keeps_payroll_port:
  "keeps I (on_approved payroll_port t rt res ty reason who)" "keeps I (on_rejected payroll_port t rt res reason)"
  "keeps I (on_request_changes payroll_port t rt res reason)"
  unfolding payroll_port_def by (simp_all add: keeps_intros)

lemma keeps_approve_run: "keeps I (approve_run (map_option coordinator ai) t i approver actor)"
  unfolding approve_run_def coordinator_def Let_def nth_or_raise_def
  by (cases ai) (simp_all, (intro keeps_intros keeps_submit keeps_payroll_port keeps_suggestion)+)

lemma keeps_decide_route: "keeps I (decide_route payroll_transition t i actor verb reason)"
  unfolding decide_route_def
  by (intro keeps_decide) (simp_all add: dispatch_port_def payroll_transition_def keeps_intros keeps_request posting_kept)

lemma keeps_paid: "keeps I (mark_paid t i payer actor)"
  unfolding mark_paid_def Let_def by (intro keeps_intros moved change_paid draft_kept bridged)

lemma keeps_void: "keeps I (void_run t i reason actor)"
  unfolding void_run_def
  by ((rule keeps_bind_yields [OF keeps_run_for yields_run_for] | rule moved change_void, assumption | rule moved, rule change_void, assumption | rule keeps_intros)+)

lemma keeps_adjust_entry: "keeps I (adjust_entry_by_id t run i adjustments actor)"
  unfolding adjust_entry_by_id_def recompute_entry_def Let_def by (intro keeps_intros adjusted)

lemma keeps_update_settings: "keeps I (update_settings r actor)"
  unfolding update_settings_def Let_def by (intro keeps_intros settings_kept)

lemma keeps_review_case: "keeps I m \<Longrightarrow> keeps I k \<Longrightarrow> keeps I l \<Longrightarrow>
    keeps I (case x of REVIEW_DRAFT \<Rightarrow> m | REVIEW_APPROVED \<Rightarrow> k | REVIEW_REJECTED \<Rightarrow> l)"
  by (cases x) simp_all

lemma keeps_approve_payslip:
  assumes "\<And>f t run e v. notify = Some f \<Longrightarrow> keeps I (f t run e v)"
  shows "keeps I (approve_payslip notify t i approver actor)"
  unfolding approve_payslip_def approve_review_def
  by (intro keeps_intros keeps_review_case assms review_decided review_bumped)

lemma keeps_reject_payslip: "keeps I (reject_payslip t i rejector reason actor)"
  unfolding reject_payslip_def by (intro keeps_intros review_decided)

lemma keeps_record: "keeps I (record_compensation t e m from_d actor)"
  unfolding record_compensation_def by (intro keeps_intros salary)

lemma keeps_predict: "keeps I (predict_run t i)"
  unfolding predict_run_def Let_def by (intro keeps_intros)

lemma keeps_reports: "keeps I (void_reason_report t n)" "keeps I (list_run_payslips t run)" "keeps I (list_entries_service t run e)"
  "keeps I (active_employees t i)"
  unfolding void_reason_report_def list_run_payslips_def list_entries_service_def active_employees_def Let_def
  by (intro keeps_intros)+

end

section \<open>The requests of the payroll service\<close>

text \<open>
  The delivery port of an approved payslip is external: it leaves the tables alone. A run is approved directly or
  through the coordinator; a decision of the approval engine approves it through the endpoint.
\<close>

inductive payroll_request :: "unit service \<Rightarrow> bool" where
  update_settings: "payroll_request (request (update_settings cfg actor))"
| create_run: "payroll_request (request (create_run t a b actor))"
| compute_run: "payroll_request (request (compute_run t i actor))"
| compute_single: "payroll_request (request (compute_single t i e persist estimate))"
| finalize_compute: "payroll_request (request (finalize_compute t i actor skipped))"
| approve_run: "payroll_request (request (approve_run (map_option coordinator ai) t i approver actor))"
| decide: "payroll_request (request (decide_route payroll_transition t i who verb reason))"
| mark_paid: "payroll_request (request (mark_paid t i payer actor))"
| void_run: "payroll_request (request (void_run t i reason actor))"
| adjust_entry: "payroll_request (request (adjust_entry_by_id t i e adjustments actor))"
| approve_payslip: "(\<And>f t run e v I. notify = Some f \<Longrightarrow> keeps I (f t run e v)) \<Longrightarrow>
    payroll_request (request (approve_payslip notify t i approver actor))"
| reject_payslip: "payroll_request (request (reject_payslip t i rejector reason actor))"
| record_compensation: "payroll_request (request (record_compensation t e m from_d actor))"
| predict_run: "payroll_request (request (predict_run t i))"
| void_report: "payroll_request (request (void_reason_report t n))"
| list_payslips: "payroll_request (request (list_run_payslips t i))"
| list_entries: "payroll_request (request (list_entries_service t i eo))"
| active_employees: "payroll_request (request (active_employees t i))"

context pay_kept begin

lemma kept_payroll_request: "payroll_request m \<Longrightarrow> kept_request I m"
  by (erule payroll_request.cases)
    (auto intro!: kept_request_request kept_compute kept_single kept_create kept_keeps [OF keeps_approve_payslip]
      intro: kept_keeps keeps_update_settings kept_finalize keeps_approve_run keeps_decide_route keeps_paid keeps_void
        keeps_adjust_entry keeps_reject_payslip keeps_record keeps_predict keeps_reports)

end

section \<open>The leave account\<close>

interpretation leave_base: people_invariant accounts_in_order
  by unfold_locales (simp add: accounts_in_order_def)

lemma account_people_write: "(\<And>p. leave_wf p \<Longrightarrow> leave_wf (f p)) \<Longrightarrow> keeps accounts_in_order (write_people f)"
  by (rule keeps_account_write)

lemma account_transition: "keeps accounts_in_order (transition_run_status t i f g ch)"
  unfolding accounts_in_order_def [abs_def] by (rule keeps_transition) simp

interpretation leave_kept: pay_kept accounts_in_order
proof
  show "keeps accounts_in_order (accrue t e c y actor)" for t e c y actor by (rule keeps_accrual_steps)
  show "keeps accounts_in_order (materialize_review vs x)" for vs x
    unfolding review_defs Let_def by (intro keeps_intros account_people_write; simp)
  show "keeps accounts_in_order (transition_payslip_review t' i' f g who now reason)" for t' i' f g who now reason
    unfolding review_defs Let_def by (intro keeps_intros account_people_write; simp)
  show "keeps accounts_in_order (bump_payslip_review_version t' i')" for t' i'
    unfolding review_defs Let_def by (intro keeps_intros account_people_write; simp)
  show "keeps accounts_in_order (create_compensation co)" for co by (rule keeps_leave_writes)
  show "keeps accounts_in_order (transition_run_status t i f RUN_COMPUTED ch)" for t i f ch by (rule account_transition)
  show "keeps accounts_in_order (transition_run_status t i f g ch)" for t i f g ch by (rule account_transition)
  show "keeps accounts_in_order (delete_entries_for_run t' i' es)" for t' i' es
    unfolding entry_defs Let_def by (intro keeps_intros account_people_write; simp)
  show "keeps accounts_in_order (update_entry en)" for en
    unfolding entry_defs Let_def by (intro keeps_intros account_people_write; simp)
  show "keeps accounts_in_order (set_run_je_bridge_status t' i' b)" for t' i' b
    unfolding entry_defs Let_def by (intro keeps_intros account_people_write; simp)
  show "accounts_in_order (d\<lparr>people := (people d)\<lparr>payroll_runs := payroll_runs (people d) @ [new_run i t n a b]\<rparr>\<rparr>)"
    if "accounts_in_order d" for d i t n a b using that by (simp add: accounts_in_order_def)
  have upsert: "keeps accounts_in_order (upsert_entry en)" for en
    unfolding upsert_entry_def Let_def by (intro keeps_intros account_people_write; simp)
  have open_run: "keeps (\<lambda>d. mutable_run t (people d) i) (upsert_entry en)" for t i en
    unfolding upsert_entry_def Let_def by (intro keeps_intros keeps_people_write; simp)
  show "keeps (\<lambda>d. accounts_in_order d \<and> mutable_run t (people d) i) (upsert_entry en)" for t i en
    by (rule keeps_conj [OF upsert open_run])
qed

end
