(* ===== verification/Payroll_Invariants.thy ===== *)
theory Payroll_Invariants
  imports Payroll_Requests
begin

text \<open>
  The payroll tables in order (\<open>payroll_wf\<close>) and the history of their runs (\<open>run_history\<close>): what each write does to
  both, and their interpretations of the contract \<open>pay_kept\<close>.
\<close>

section \<open>Tables in order\<close>

definition run_id :: "payroll_run \<Rightarrow> uuid \<times> uuid" where
  "run_id r = (pr_tenant r, pr_id r)"

definition slot_of :: "payroll_entry \<Rightarrow> uuid \<times> uuid \<times> uuid" where
  "slot_of e = (pe_tenant e, pe_run e, pe_employee e)"

definition version_of :: "payslip_review \<Rightarrow> uuid \<times> uuid \<times> uuid \<times> nat" where
  "version_of v = (rv_tenant v, rv_run v, rv_employee v, rv_version v)"

definition run_clash :: "payroll_run \<Rightarrow> payroll_run \<Rightarrow> bool" where
  "run_clash r q \<longleftrightarrow> pr_status r \<noteq> RUN_VOID \<and> run_overlaps (pr_tenant r) (pr_start r) (pr_end r) q"

definition totalled :: "payroll_run \<Rightarrow> bool" where
  "totalled r \<longleftrightarrow> pr_start r \<le> pr_end r \<and>
     (pr_status r \<in> {RUN_COMPUTED, RUN_APPROVED, RUN_PAID} \<longrightarrow> pr_gross r \<noteq> None \<and> pr_net r \<noteq> None)"

definition entry_typed :: "payroll_entry \<Rightarrow> bool" where
  "entry_typed e \<longleftrightarrow> at_scale 4 (pe_base e) \<and> at_scale 4 (pe_gross e) \<and> at_scale 4 (pe_deductions e) \<and> at_scale 4 (pe_net e) \<and>
     - (2 ^ 31) \<le> pe_days e \<and> pe_days e < 2 ^ 31"

definition payroll_wf :: "people_tables \<Rightarrow> bool" where
  "payroll_wf p \<longleftrightarrow> distinct (map run_id (payroll_runs p)) \<and> (\<forall>r \<in> set (payroll_runs p). totalled r) \<and>
     (\<forall>r \<in> set (payroll_runs p). \<forall>q \<in> set (payroll_runs p). run_clash r q \<longrightarrow> run_id r = run_id q) \<and>
     distinct (map slot_of (payroll_entries p)) \<and> (\<forall>e \<in> set (payroll_entries p). entry_typed e) \<and>
     distinct (map version_of (payslip_reviews p))"

lemma run_key_iff: "run_key t i r \<longleftrightarrow> run_id r = (t, i)"
  by (auto simp: run_key_def run_id_def)

section \<open>The history of runs\<close>

definition run_at :: "uuid \<Rightarrow> uuid \<Rightarrow> people_tables \<Rightarrow> payroll_run option" where
  "run_at t i p = select_one (run_key t i) (payroll_runs p)"

definition sheet :: "uuid \<Rightarrow> uuid \<Rightarrow> people_tables \<Rightarrow> payroll_entry list" where
  "sheet t i p = filter (entry_of t i) (payroll_entries p)"

definition run_path :: "run_status \<Rightarrow> run_status \<Rightarrow> bool" where
  "run_path = (can_transition run_machine)\<^sup>*\<^sup>*"

definition frozen :: "payroll_run \<Rightarrow> bool" where
  "frozen r \<longleftrightarrow> pr_status r \<in> {RUN_APPROVED, RUN_PAID, RUN_VOID}"

definition follows :: "payroll_run \<Rightarrow> payroll_run \<Rightarrow> bool" where
  "follows r0 r \<longleftrightarrow> same_identity r0 r \<and> run_path (pr_status r0) (pr_status r) \<and>
     (frozen r0 \<longrightarrow> pr_gross r = pr_gross r0 \<and> pr_net r = pr_net r0)"

definition run_history :: "people_tables \<Rightarrow> people_tables \<Rightarrow> bool" where
  "run_history p0 p \<longleftrightarrow> (\<forall>t i r0. run_at t i p0 = Some r0 \<longrightarrow>
     (\<exists>r. run_at t i p = Some r \<and> follows r0 r \<and> (frozen r0 \<longrightarrow> sheet t i p = sheet t i p0)))"

lemma history_frame [simp]:
  "run_history p0 (p\<lparr>departments := x1\<rparr>) = run_history p0 p" "run_history p0 (p\<lparr>employees := x2\<rparr>) = run_history p0 p"
  "run_history p0 (p\<lparr>leave_policies := x3\<rparr>) = run_history p0 p" "run_history p0 (p\<lparr>attendance := x4\<rparr>) = run_history p0 p"
  "run_history p0 (p\<lparr>compensations := x5\<rparr>) = run_history p0 p" "run_history p0 (p\<lparr>leave_movements := x6\<rparr>) = run_history p0 p"
  "run_history p0 (p\<lparr>payslip_reviews := x7\<rparr>) = run_history p0 p" "run_history p0 (p\<lparr>leave_balances := x8\<rparr>) = run_history p0 p"
  "run_history p0 (p\<lparr>leave_requests := x9\<rparr>) = run_history p0 p"
  by (simp_all add: run_history_def run_at_def sheet_def)

lemma payroll_frame [simp]:
  "payroll_wf (p\<lparr>departments := x1\<rparr>) = payroll_wf p" "payroll_wf (p\<lparr>employees := x2\<rparr>) = payroll_wf p"
  "payroll_wf (p\<lparr>leave_policies := x3\<rparr>) = payroll_wf p" "payroll_wf (p\<lparr>attendance := x4\<rparr>) = payroll_wf p"
  "payroll_wf (p\<lparr>compensations := x5\<rparr>) = payroll_wf p" "payroll_wf (p\<lparr>leave_movements := x6\<rparr>) = payroll_wf p"
  "payroll_wf (p\<lparr>leave_balances := x8\<rparr>) = payroll_wf p" "payroll_wf (p\<lparr>leave_requests := x9\<rparr>) = payroll_wf p"
  by (simp_all add: payroll_wf_def)

lemma run_path_refl [simp]: "run_path x x"
  by (simp add: run_path_def)

lemma run_path_step: "run_path x y \<Longrightarrow> can_transition run_machine y z \<Longrightarrow> run_path x z"
  by (simp add: run_path_def rtranclp.rtrancl_into_rtrancl)

lemma frozen_path: "run_path x y \<Longrightarrow> x \<in> {RUN_APPROVED, RUN_PAID, RUN_VOID} \<Longrightarrow> y \<in> {RUN_APPROVED, RUN_PAID, RUN_VOID}"
  unfolding run_path_def
  by (induction rule: rtranclp_induct) (auto simp: can_transition_def run_machine_def split: run_status.splits)

lemma history_refl: "run_history p p"
  by (simp add: run_history_def follows_def same_identity_def)

lemma run_historyD: "run_history p0 p \<Longrightarrow> run_at t i p0 = Some r0 \<Longrightarrow>
    \<exists>r. run_at t i p = Some r \<and> follows r0 r \<and> (frozen r0 \<longrightarrow> sheet t i p = sheet t i p0)"
  by (simp add: run_history_def)

text \<open>A run of the past that was frozen is not open now.\<close>

lemma frozen_not_mutable:
  assumes "payroll_wf p" "run_history p0 p" "run_at t i p0 = Some r0" "frozen r0"
  shows "\<not> mutable_run t p i"
proof
  assume "mutable_run t p i"
  then obtain q where q: "q \<in> set (payroll_runs p)" "run_key t i q" "pr_status q \<in> {RUN_DRAFT, RUN_COMPUTED}"
    by (auto simp: mutable_run_def)
  obtain r where r: "run_at t i p = Some r" "follows r0 r" using run_historyD [OF assms(2,3)] by blast
  have "run_id r = run_id q" "r \<in> set (payroll_runs p)"
    using r(1) q(2) select_one_SomeD [of "run_key t i" "payroll_runs p" r] by (auto simp: run_at_def run_key_iff)
  then have "r = q" using assms(1) q(1) by (auto simp: payroll_wf_def distinct_map inj_on_def)
  moreover have "pr_status r \<in> {RUN_APPROVED, RUN_PAID, RUN_VOID}"
    using r(2) assms(4) frozen_path [of "pr_status r0" "pr_status r"] by (simp add: follows_def frozen_def)
  ultimately show False using q(3) by auto
qed

section \<open>Moves of runs\<close>

definition moved_runs :: "uuid \<Rightarrow> uuid \<Rightarrow> run_status \<Rightarrow> run_status \<Rightarrow> (payroll_run \<Rightarrow> payroll_run) \<Rightarrow> people_tables \<Rightarrow> people_tables" where
  "moved_runs t i f g ch p = p\<lparr>payroll_runs := update_where (\<lambda>r. run_key t i r \<and> pr_status r = f)
     (\<lambda>r. ch (r\<lparr>pr_status := g\<rparr>)) (payroll_runs p)\<rparr>"

text \<open>What one row becomes.\<close>

lemma moved_row:
  assumes "run_change f g ch"
  shows "same_identity r (ch (r\<lparr>pr_status := g\<rparr>))" "pr_status (ch (r\<lparr>pr_status := g\<rparr>)) = g" "can_transition run_machine f g"
    "run_id (ch (r\<lparr>pr_status := g\<rparr>)) = run_id r"
  using assms by (simp_all add: run_change_def same_identity_def run_id_def)

lemma moved_totalled: "run_change f g ch \<Longrightarrow> totalled r \<Longrightarrow> pr_status r = f \<Longrightarrow> totalled (ch (r\<lparr>pr_status := g\<rparr>))"
  using moved_row(1) [of f g ch r]
  by (auto simp: run_change_def totalled_def same_identity_def can_transition_def run_machine_def split: run_status.splits if_splits)

lemma moved_clash:
  assumes "run_change f g ch"
  shows "run_clash (if run_key t i r \<and> pr_status r = f then ch (r\<lparr>pr_status := g\<rparr>) else r)
    (if run_key t i q \<and> pr_status q = f then ch (q\<lparr>pr_status := g\<rparr>) else q) \<Longrightarrow> run_clash r q"
  using moved_row(1,2) [OF assms, of r] moved_row(1,2) [OF assms, of q] moved_row(3) [OF assms]
  by (cases f) (auto simp: run_clash_def run_overlaps_def same_identity_def can_transition_def run_machine_def split: if_splits)

lemma wf_moved:
  assumes ch: "run_change f g ch" and wf: "payroll_wf p"
  shows "payroll_wf (moved_runs t i f g ch p)"
proof -
  let ?F = "\<lambda>r. if run_key t i r \<and> pr_status r = f then ch (r\<lparr>pr_status := g\<rparr>) else r"
  have "payroll_runs (moved_runs t i f g ch p) =
      update_where (\<lambda>r. run_key t i r \<and> pr_status r = f) (\<lambda>r. ch (r\<lparr>pr_status := g\<rparr>)) (payroll_runs p)"
    by (simp add: moved_runs_def)
  then have rows: "set (payroll_runs (moved_runs t i f g ch p)) = ?F ` set (payroll_runs p)"
    by (simp only: set_update_where)
  have ids: "map run_id (payroll_runs (moved_runs t i f g ch p)) = map run_id (payroll_runs p)"
    by (simp add: moved_runs_def map_update_where moved_row(4) [OF ch])
  have "totalled (?F r)" if "r \<in> set (payroll_runs p)" for r
    using moved_totalled [OF ch, of r] wf that by (auto simp: payroll_wf_def)
  moreover have "run_id (?F r) = run_id (?F q)" if "r \<in> set (payroll_runs p)" "q \<in> set (payroll_runs p)" "run_clash (?F r) (?F q)" for r q
  proof -
    have "run_id r = run_id q" using moved_clash [OF ch that(3)] that(1,2) wf by (auto simp: payroll_wf_def)
    moreover have "run_id (?F x) = run_id x" for x using moved_row(4) [OF ch, of x] by simp
    ultimately show ?thesis by simp
  qed
  moreover have "payroll_entries (moved_runs t i f g ch p) = payroll_entries p" "payslip_reviews (moved_runs t i f g ch p) = payslip_reviews p"
    by (simp_all add: moved_runs_def)
  ultimately show ?thesis using wf unfolding payroll_wf_def rows ids by (simp only: ball_simps) blast
qed

lemma history_moved:
  assumes ch: "run_change f g ch" and h: "run_history p0 p"
  shows "run_history p0 (moved_runs t i f g ch p)"
  unfolding run_history_def
proof (intro allI impI)
  fix t' i' r0
  assume "run_at t' i' p0 = Some r0"
  from run_historyD [OF h this] obtain r where r: "run_at t' i' p = Some r" "follows r0 r"
    "frozen r0 \<longrightarrow> sheet t' i' p = sheet t' i' p0" by blast
  let ?r = "if run_key t i r \<and> pr_status r = f then ch (r\<lparr>pr_status := g\<rparr>) else r"
  have "run_at t' i' (moved_runs t i f g ch p) = Some ?r"
  proof -
    have "select_one (run_key t' i') (update_where (\<lambda>r. run_key t i r \<and> pr_status r = f) (\<lambda>r. ch (r\<lparr>pr_status := g\<rparr>)) (payroll_runs p)) =
        map_option (\<lambda>r. if run_key t i r \<and> pr_status r = f then ch (r\<lparr>pr_status := g\<rparr>) else r)
          (select_one (run_key t' i') (payroll_runs p))"
      by (rule select_one_update_where) (simp add: run_key_iff moved_row(4) [OF ch])
    then show ?thesis using r(1) by (simp add: run_at_def moved_runs_def)
  qed
  moreover have "follows r0 ?r"
  proof (cases "run_key t i r \<and> pr_status r = f")
    case True
    have "same_identity r0 (ch (r\<lparr>pr_status := g\<rparr>))"
      using r(2) moved_row(1) [OF ch, of r] by (simp add: follows_def same_identity_def)
    moreover have "run_path (pr_status r0) g"
      using r(2) True run_path_step moved_row(3) [OF ch] by (auto simp: follows_def)
    moreover have "pr_gross (ch (r\<lparr>pr_status := g\<rparr>)) = pr_gross r \<and> pr_net (ch (r\<lparr>pr_status := g\<rparr>)) = pr_net r" if "frozen r0"
    proof -
      have "f \<in> {RUN_APPROVED, RUN_PAID, RUN_VOID}"
        using r(2) True that frozen_path by (auto simp: follows_def frozen_def)
      then have "g \<noteq> RUN_COMPUTED" using moved_row(3) [OF ch] by (auto simp: can_transition_def run_machine_def)
      then show ?thesis using ch by (simp add: run_change_def)
    qed
    ultimately show ?thesis using True r(2) moved_row(2) [OF ch] by (simp add: follows_def)
  next
    case False
    then show ?thesis using r(2) by (simp only: if_False)
  qed
  moreover have "sheet t' i' (moved_runs t i f g ch p) = sheet t' i' p" by (simp add: sheet_def moved_runs_def)
  ultimately show "\<exists>r. run_at t' i' (moved_runs t i f g ch p) = Some r \<and> follows r0 r \<and>
      (frozen r0 \<longrightarrow> sheet t' i' (moved_runs t i f g ch p) = sheet t' i' p0)"
    using r(3) by auto
qed

text \<open>The bridge status of a run is neither in the tables' order nor in the history.\<close>

lemma bridged_runs:
  "payroll_wf p \<Longrightarrow> payroll_wf (p\<lparr>payroll_runs := update_where (run_key t i) (\<lambda>r. r\<lparr>pr_bridge := b\<rparr>) (payroll_runs p)\<rparr>)"
  "run_history p0 p \<Longrightarrow> run_history p0 (p\<lparr>payroll_runs := update_where (run_key t i) (\<lambda>r. r\<lparr>pr_bridge := b\<rparr>) (payroll_runs p)\<rparr>)"
proof -
  let ?g = "\<lambda>r. r\<lparr>pr_bridge := b\<rparr>"
  have ids: "map run_id (update_where (run_key t i) ?g rows) = map run_id rows" for rows
    by (rule map_update_where) (simp add: run_id_def)
  have "totalled (?g r) = totalled r" "run_clash (?g r) q = run_clash r q" "run_clash r (?g q) = run_clash r q" "run_id (?g r) = run_id r" for r q
    by (simp_all add: totalled_def run_clash_def run_overlaps_def run_id_def)
  then show "payroll_wf p \<Longrightarrow> payroll_wf (p\<lparr>payroll_runs := update_where (run_key t i) ?g (payroll_runs p)\<rparr>)"
    by (simp add: payroll_wf_def ids ball_update_where)
  have "select_one (run_key t' i') (update_where (run_key t i) ?g rows) =
      map_option (\<lambda>r. if run_key t i r then ?g r else r) (select_one (run_key t' i') rows)" for t' i' rows
    by (rule select_one_update_where) (simp add: run_key_def)
  then have at: "run_at t' i' (p\<lparr>payroll_runs := update_where (run_key t i) ?g (payroll_runs p)\<rparr>) =
      map_option (\<lambda>r. if run_key t i r then ?g r else r) (run_at t' i' p)" for t' i'
    by (simp add: run_at_def)
  have same: "follows r0 (if run_key t i r then ?g r else r) = follows r0 r" for r0 r by (simp add: follows_def same_identity_def)
  have sheets: "sheet t' i' (p\<lparr>payroll_runs := rows\<rparr>) = sheet t' i' p" for t' i' rows by (simp add: sheet_def)
  show "run_history p0 (p\<lparr>payroll_runs := update_where (run_key t i) ?g (payroll_runs p)\<rparr>)" if h: "run_history p0 p"
    unfolding run_history_def at sheets
  proof (intro allI impI)
    fix t' i' r0
    assume "run_at t' i' p0 = Some r0"
    from run_historyD [OF h this] obtain r where "run_at t' i' p = Some r" "follows r0 r" "frozen r0 \<longrightarrow> sheet t' i' p = sheet t' i' p0"
      by blast
    then show "\<exists>r. map_option (\<lambda>r. if run_key t i r then ?g r else r) (run_at t' i' p) = Some r \<and> follows r0 r \<and>
        (frozen r0 \<longrightarrow> sheet t' i' p = sheet t' i' p0)"
      by (intro exI [of _ "if run_key t i r then ?g r else r"]) (simp only: same option.map simp_thms)
  qed
qed

lemma wf_created:
  assumes wf: "payroll_wf p" and "a \<le> b" and free: "\<forall>q \<in> set (payroll_runs p). \<not> run_overlaps t a b q"
    and new: "\<forall>q \<in> set (payroll_runs p). \<not> run_key t i q"
  shows "payroll_wf (p\<lparr>payroll_runs := payroll_runs p @ [new_run i t n a b]\<rparr>)"
proof -
  let ?r = "new_run i t n a b"
  have id: "run_id ?r = (t, i)" by (simp add: new_run_def run_id_def)
  have "\<not> run_clash ?r q" "\<not> run_clash q ?r" if "q \<in> set (payroll_runs p)" for q
    using free that by (auto simp: run_clash_def run_overlaps_def new_run_def)
  moreover have "(t, i) \<notin> run_id ` set (payroll_runs p)" using new by (auto simp: run_key_iff)
  moreover have "totalled ?r" using assms(2) by (simp add: totalled_def new_run_def)
  ultimately show ?thesis using wf id by (simp add: payroll_wf_def ball_Un)
qed

lemma history_created:
  "run_history p0 p \<Longrightarrow> run_history p0 (p\<lparr>payroll_runs := payroll_runs p @ [r]\<rparr>)"
  by (fastforce simp: run_history_def run_at_def sheet_def select_one_append)

section \<open>Moves of entries\<close>

lemma overwritten [simp]: "slot_of (entry_overwritten e x) = slot_of x" "entry_of t i (entry_overwritten e x) = entry_of t i x"
  by (simp_all add: entry_overwritten_def slot_of_def entry_of_def)

lemma overwritten_typed: "- (2 ^ 31) \<le> pe_days e \<Longrightarrow> pe_days e < 2 ^ 31 \<Longrightarrow> entry_typed (entry_overwritten (stored_amounts e) x)"
  by (simp add: entry_typed_def entry_overwritten_def stored_amounts_def)

lemma stored_typed: "- (2 ^ 31) \<le> pe_days e \<Longrightarrow> pe_days e < 2 ^ 31 \<Longrightarrow> entry_typed (stored_amounts e)"
  by (simp add: entry_typed_def stored_amounts_def)

lemma stored_keys [simp]: "pe_tenant (stored_amounts e) = pe_tenant e" "pe_run (stored_amounts e) = pe_run e"
  "pe_employee (stored_amounts e) = pe_employee e" "pe_days (stored_amounts e) = pe_days e" "pe_id (stored_amounts e) = pe_id e"
  by (simp_all add: stored_amounts_def)

lemma wf_overwritten:
  "payroll_wf p \<Longrightarrow> - (2 ^ 31) \<le> pe_days e \<Longrightarrow> pe_days e < 2 ^ 31 \<Longrightarrow>
    payroll_wf (p\<lparr>payroll_entries := update_where g (entry_overwritten (stored_amounts e)) (payroll_entries p)\<rparr>)"
  by (simp add: payroll_wf_def map_update_where ball_update_where overwritten_typed)

lemma wf_added:
  "payroll_wf p \<Longrightarrow> - (2 ^ 31) \<le> pe_days e \<Longrightarrow> pe_days e < 2 ^ 31 \<Longrightarrow>
    select_one (entry_slot (pe_tenant e) (pe_run e) (pe_employee e)) (payroll_entries p) = None \<Longrightarrow>
    payroll_wf (p\<lparr>payroll_entries := payroll_entries p @ [stored_amounts e]\<rparr>)"
  by (auto simp: payroll_wf_def select_one_None stored_typed slot_of_def entry_slot_def)

lemma wf_filtered: "payroll_wf p \<Longrightarrow> payroll_wf (p\<lparr>payroll_entries := filter g (payroll_entries p)\<rparr>)"
  by (simp add: payroll_wf_def distinct_map_filter)

text \<open>A write of entries that only touches open runs leaves the sheets of frozen ones alone.\<close>

lemma history_entries:
  assumes h: "payroll_wf p" "run_history p0 p"
    and same: "\<And>t i. \<not> mutable_run t p i \<Longrightarrow> filter (entry_of t i) es = filter (entry_of t i) (payroll_entries p)"
  shows "run_history p0 (p\<lparr>payroll_entries := es\<rparr>)"
  unfolding run_history_def
proof (intro allI impI)
  fix t i r0
  assume r0: "run_at t i p0 = Some r0"
  from run_historyD [OF h(2) r0] obtain r where r: "run_at t i p = Some r" "follows r0 r"
    "frozen r0 \<longrightarrow> sheet t i p = sheet t i p0" by blast
  have "frozen r0 \<longrightarrow> filter (entry_of t i) es = sheet t i p"
    using same frozen_not_mutable [OF h r0] by (simp add: sheet_def)
  then show "\<exists>r. run_at t i (p\<lparr>payroll_entries := es\<rparr>) = Some r \<and> follows r0 r \<and>
      (frozen r0 \<longrightarrow> sheet t i (p\<lparr>payroll_entries := es\<rparr>) = sheet t i p0)"
    using r by (auto simp: run_at_def sheet_def)
qed

section \<open>Moves of reviews\<close>

lemma wf_reviews:
  "payroll_wf p \<Longrightarrow> (\<And>v. g v \<Longrightarrow> version_of (f v) = version_of v) \<Longrightarrow>
    payroll_wf (p\<lparr>payslip_reviews := update_where g f (payslip_reviews p)\<rparr>)"
  by (simp add: payroll_wf_def map_update_where)

lemma wf_reviewed:
  "payroll_wf p \<Longrightarrow> \<forall>q \<in> set (payslip_reviews p). \<not> same_version v q \<Longrightarrow>
    payroll_wf (p\<lparr>payslip_reviews := payslip_reviews p @ [v]\<rparr>)"
  by (auto simp: payroll_wf_def same_version_def version_of_def)

section \<open>The contract\<close>

definition pay_sound :: "people_tables \<Rightarrow> people_tables \<Rightarrow> bool" where
  "pay_sound p0 p \<longleftrightarrow> payroll_wf p \<and> run_history p0 p"

lemma sound_frame [simp]:
  "pay_sound p0 (p\<lparr>departments := x1\<rparr>) = pay_sound p0 p" "pay_sound p0 (p\<lparr>employees := x2\<rparr>) = pay_sound p0 p"
  "pay_sound p0 (p\<lparr>leave_policies := x3\<rparr>) = pay_sound p0 p" "pay_sound p0 (p\<lparr>attendance := x4\<rparr>) = pay_sound p0 p"
  "pay_sound p0 (p\<lparr>compensations := x5\<rparr>) = pay_sound p0 p" "pay_sound p0 (p\<lparr>leave_movements := x6\<rparr>) = pay_sound p0 p"
  "pay_sound p0 (p\<lparr>leave_balances := x8\<rparr>) = pay_sound p0 p" "pay_sound p0 (p\<lparr>leave_requests := x9\<rparr>) = pay_sound p0 p"
  by (simp_all add: pay_sound_def)

interpretation sound_base: people_invariant "\<lambda>d. pay_sound p0 (people d)" for p0
  by (rule people_invariantI)

lemma keeps_insert_review: "keeps (\<lambda>d. pay_sound p0 (people d)) (insert_review v)"
  unfolding keeps_def insert_review_def
  by (simp add: wp_simps pay_sound_def wf_reviewed)

lemma keeps_review_update: "(\<And>v. g v \<Longrightarrow> version_of (f v) = version_of v) \<Longrightarrow>
    keeps (\<lambda>d. pay_sound p0 (people d)) (write_people (\<lambda>p. p\<lparr>payslip_reviews := update_where g f (payslip_reviews p)\<rparr>))"
  by (rule keeps_people_write) (simp add: pay_sound_def wf_reviews)

lemma keeps_update_entry: "keeps (\<lambda>d. pay_sound p0 (people d)) (update_entry en)"
proof (rule keepsI)
  fix s :: sess
  let ?p = "people (work s)"
  assume s: "pay_sound p0 ?p" "pay_sound p0 (people (durable s))"
  let ?g = "\<lambda>q. payroll_entry_key (pe_tenant en) (pe_id en) q \<and> mutable_run (pe_tenant en) ?p (pe_run q)"
  have "filter (entry_of t i) (update_where ?g (entry_overwritten (stored_amounts en)) (payroll_entries ?p)) =
      filter (entry_of t i) (payroll_entries ?p)" if "\<not> mutable_run t ?p i" for t i
    by (rule filter_update_where_disjoint) (use that in \<open>auto simp: entry_of_def payroll_entry_key_def entry_overwritten_def\<close>)
  then have "pay_sound p0 (?p\<lparr>payroll_entries := update_where ?g (entry_overwritten (stored_amounts en)) (payroll_entries ?p)\<rparr>)"
    if "- (2 ^ 31) \<le> pe_days en" "pe_days en < 2 ^ 31"
    using s(1) that wf_overwritten [of ?p en ?g] history_entries [of ?p p0] by (simp add: pay_sound_def)
  then show "wp (update_entry en) (\<lambda>_ u. pay_sound p0 (people (work u)) \<and> pay_sound p0 (people (durable u)))
      (\<lambda>_ u. pay_sound p0 (people (durable u))) s"
    using s by (simp add: update_entry_def entry_view_def currency_for_def Let_def wp_simps split: option.split sum.split)
qed

lemma keeps_delete_entries: "keeps (\<lambda>d. pay_sound p0 (people d)) (delete_entries_for_run t i ks)"
proof -
  have "filter (entry_of t' i') (filter (\<lambda>r. \<not> (pe_tenant r = t \<and> pe_run r = i \<and> pe_employee r \<notin> set ks \<and> mutable_run t p i)) es) =
      filter (entry_of t' i') es" if "\<not> mutable_run t' p i'" for t' i' p es
    using that by (auto simp: entry_of_def intro!: filter_cong)
  then have "pay_sound p0 (p\<lparr>payroll_entries :=
      filter (\<lambda>r. \<not> (pe_tenant r = t \<and> pe_run r = i \<and> pe_employee r \<notin> set ks \<and> mutable_run t p i)) (payroll_entries p)\<rparr>)"
    if "pay_sound p0 p" for p
    using that wf_filtered history_entries [of p p0] by (simp add: pay_sound_def)
  then show ?thesis
    unfolding delete_entries_for_run_def by (intro keeps_intros keeps_people_write)
qed

lemma keeps_upsert_entry:
  assumes "pe_tenant en = t" "pe_run en = i"
  shows "keeps (\<lambda>d. pay_sound p0 (people d) \<and> mutable_run t (people d) i) (upsert_entry en)"
proof (rule keepsI)
  fix s :: sess
  let ?p = "people (work s)" and ?slot = "entry_slot (pe_tenant en) (pe_run en) (pe_employee en)"
  assume s: "pay_sound p0 ?p \<and> mutable_run t ?p i" "pay_sound p0 (people (durable s)) \<and> mutable_run t (people (durable s)) i"
  have other: "\<not> mutable_run t' ?p i' \<Longrightarrow> (t', i') \<noteq> (t, i)" for t' i' using s(1) by auto
  have "filter (entry_of t' i') (update_where ?slot (entry_overwritten (stored_amounts en)) (payroll_entries ?p)) =
      filter (entry_of t' i') (payroll_entries ?p)" if "\<not> mutable_run t' ?p i'" for t' i'
    by (rule filter_update_where_disjoint)
      (use other [OF that] assms in \<open>auto simp: entry_of_def entry_slot_def entry_overwritten_def\<close>)
  then have upd: "pay_sound p0 (?p\<lparr>payroll_entries := update_where ?slot (entry_overwritten (stored_amounts en)) (payroll_entries ?p)\<rparr>)"
    if "- (2 ^ 31) \<le> pe_days en" "pe_days en < 2 ^ 31"
    using s(1) that wf_overwritten [of ?p en ?slot] history_entries [of ?p p0] by (simp add: pay_sound_def)
  have "filter (entry_of t' i') (payroll_entries ?p @ [stored_amounts en]) = filter (entry_of t' i') (payroll_entries ?p)"
    if "\<not> mutable_run t' ?p i'" for t' i' using other [OF that] assms by (auto simp: entry_of_def)
  then have add: "pay_sound p0 (?p\<lparr>payroll_entries := payroll_entries ?p @ [stored_amounts en]\<rparr>)"
    if "- (2 ^ 31) \<le> pe_days en" "pe_days en < 2 ^ 31" "select_one ?slot (payroll_entries ?p) = None"
    using s(1) that wf_added [of ?p en] history_entries [of ?p p0] by (simp add: pay_sound_def)
  show "wp (upsert_entry en) (\<lambda>_ u. (pay_sound p0 (people (work u)) \<and> mutable_run t (people (work u)) i) \<and>
      pay_sound p0 (people (durable u)) \<and> mutable_run t (people (durable u)) i)
      (\<lambda>_ u. pay_sound p0 (people (durable u)) \<and> mutable_run t (people (durable u)) i) s"
    using s upd add by (simp add: upsert_entry_def Let_def wp_simps split: option.split)
qed

interpretation sound_kept: pay_kept "\<lambda>d. pay_sound p0 (people d)" for p0
proof
  show "keeps (\<lambda>d. pay_sound p0 (people d)) (accrue t e c y actor)" for t e c y actor
    unfolding accrual_defs Let_def by (intro keeps_intros keeps_people_write; simp)
  show "keeps (\<lambda>d. pay_sound p0 (people d)) (materialize_review vs x)" for vs x
    unfolding materialize_review_def Let_def
    by (intro keeps_intros keeps_insert_review keeps_review_update; simp add: version_of_def)
  show "keeps (\<lambda>d. pay_sound p0 (people d)) (transition_payslip_review t' i' f g who now reason)" for t' i' f g who now reason
    unfolding transition_payslip_review_def review_view_option_def review_view_def currency_for_def Let_def
    by (intro keeps_intros keeps_review_update; simp add: version_of_def reviewed_def split: review_status.split)
  show "keeps (\<lambda>d. pay_sound p0 (people d)) (bump_payslip_review_version t' i')" for t' i'
    unfolding bump_payslip_review_version_def review_view_def currency_for_def Let_def
    by (intro keeps_intros keeps_insert_review)
  show "keeps (\<lambda>d. pay_sound p0 (people d)) (create_compensation co)" for co
    unfolding create_compensation_def Let_def by (intro keeps_intros keeps_people_write; simp)
  have move: "keeps (\<lambda>d. pay_sound p0 (people d)) (transition_run_status t i f g ch)" if "run_change f g ch" for t i f g ch
    by (rule keeps_transition, fold moved_runs_def) (use that in \<open>simp add: pay_sound_def wf_moved history_moved\<close>)
  show "keeps (\<lambda>d. pay_sound p0 (people d)) (transition_run_status t i f RUN_COMPUTED ch)"
    if "run_change f RUN_COMPUTED ch" for t i f ch by (rule move [OF that])
  show "keeps (\<lambda>d. pay_sound p0 (people d)) (transition_run_status t i f g ch)" if "run_change f g ch" for t i f g ch
    by (rule move [OF that])
  show "keeps (\<lambda>d. pay_sound p0 (people d)) (delete_entries_for_run t' i' es)" for t' i' es by (rule keeps_delete_entries)
  show "keeps (\<lambda>d. pay_sound p0 (people d)) (update_entry en)" for en by (rule keeps_update_entry)
  show "keeps (\<lambda>d. pay_sound p0 (people d)) (set_run_je_bridge_status t' i' b)" for t' i' b
    unfolding set_run_je_bridge_status_def get_run_def run_view_option_def run_view_def currency_for_def
    by (intro keeps_intros keeps_people_write) (simp add: pay_sound_def bridged_runs)
  show "pay_sound p0 (people (d\<lparr>people := (people d)\<lparr>payroll_runs := payroll_runs (people d) @ [new_run i t n a b]\<rparr>\<rparr>))"
    if "pay_sound p0 (people d)" "a \<le> b" "\<forall>q \<in> set (payroll_runs (people d)). \<not> run_overlaps t a b q"
      "\<forall>q \<in> set (payroll_runs (people d)). \<not> run_key t i q" for d i t n a b
    using that by (simp add: pay_sound_def wf_created history_created)
  show "keeps (\<lambda>d. pay_sound p0 (people d) \<and> mutable_run t (people d) i) (upsert_entry en)"
    if "pe_tenant en = t" "pe_run en = i" for t i en by (rule keeps_upsert_entry [OF that])
qed

end
