(* ===== verification/Hr_Theorems.thy ===== *)
theory Hr_Theorems
  imports Hr_Requests
begin

text \<open>
  What the leave requests of the HR service do end to end, as runs of the session dependency that compare the
  tables before and after.
\<close>

section \<open>Approval\<close>




section \<open>Cancellation\<close>



lemma moved_request_simps [simp]:
  "lr_status (moved_request g w h r) = g" "lr_employee (moved_request g w h r) = lr_employee r"
  "lr_type (moved_request g w h r) = lr_type r" "lr_days (moved_request g w h r) = lr_days r"
  by (simp_all add: moved_request_def)


end
