(* ===== verification/People_Theorems.thy ===== *)
theory People_Theorems
  imports Payroll_Invariants Hr_Theorems
begin

text \<open>
  Human resources and payroll as one state machine: the requests of both services in any order, for any tenant and
  arguments, each at its own reading of the clock. What every reachable state satisfies, and how runs develop.
\<close>

section \<open>The machine\<close>

inductive people_request :: "(uuid \<Rightarrow> uuid \<Rightarrow> error option) \<Rightarrow> unit service \<Rightarrow> bool" for identity where
  hr: "hr_request identity m \<Longrightarrow> people_request identity m"
| payroll: "payroll_request m \<Longrightarrow> people_request identity m"

inductive people_step :: "(uuid \<Rightarrow> uuid \<Rightarrow> error option) \<Rightarrow> sess \<Rightarrow> sess \<Rightarrow> bool" for identity where
  step: "people_request identity m \<Longrightarrow> people_step identity s (snd (run_request m (s\<lparr>clk := now, ctx_user := who\<rparr>)))"

inductive_cases people_stepE: "people_step identity s s'"

definition people_run :: "(uuid \<Rightarrow> uuid \<Rightarrow> error option) \<Rightarrow> sess \<Rightarrow> sess \<Rightarrow> bool" where
  "people_run identity = (people_step identity)\<^sup>*\<^sup>*"

lemma people_run_kept:
  assumes "\<And>m. people_request identity m \<Longrightarrow> kept_request P m" "people_run identity s s'" "P (durable s)"
  shows "P (durable s')"
  using assms(2,3) unfolding people_run_def
proof (induction rule: rtranclp_induct)
  case (step u v)
  from step.hyps(2) show ?case
  proof (rule people_stepE)
    fix m now who
    assume "v = snd (run_request m (u\<lparr>clk := now, ctx_user := who\<rparr>))" "people_request identity m"
    then show ?thesis using run_request_kept [OF assms(1), of m "u\<lparr>clk := now, ctx_user := who\<rparr>"] step.IH assms(3) by simp
  qed
qed

section \<open>The requests of human resources leave payroll alone\<close>

lemmas hr_write_defs = create_department_def update_department_def get_department_def create_employee_def update_employee_def
  employee_widths_def get_employee_def create_compensation_def upsert_leave_policy_def get_leave_policy_def
  upsert_attendance_record_def create_leave_request_def get_leave_request_def transition_leave_status_def
  add_leave_movement_def recompute_balance_def balance_references_def lock_leave_balance_def upsert_balance_def
  accrue_leave_movement_def get_leave_type_def list_balances_def

lemma pay_hr_writes [keeps_intros]:
  "keeps (\<lambda>d. pay_sound p0 (people d)) (create_department r1)" "keeps (\<lambda>d. pay_sound p0 (people d)) (update_department r1)"
  "keeps (\<lambda>d. pay_sound p0 (people d)) (create_employee r2)" "keeps (\<lambda>d. pay_sound p0 (people d)) (update_employee r2)"
  "keeps (\<lambda>d. pay_sound p0 (people d)) (create_compensation r3)" "keeps (\<lambda>d. pay_sound p0 (people d)) (upsert_leave_policy r4)"
  "keeps (\<lambda>d. pay_sound p0 (people d)) (upsert_attendance_record r5)" "keeps (\<lambda>d. pay_sound p0 (people d)) (create_leave_request r6)"
  "keeps (\<lambda>d. pay_sound p0 (people d)) (transition_leave_status t i f g w h)" "keeps (\<lambda>d. pay_sound p0 (people d)) (add_leave_movement m)"
  "keeps (\<lambda>d. pay_sound p0 (people d)) (lock_leave_balance t e c)" "keeps (\<lambda>d. pay_sound p0 (people d)) (upsert_balance b)"
  "keeps (\<lambda>d. pay_sound p0 (people d)) (accrue_leave_movement m)"
  unfolding hr_write_defs Let_def by (intro keeps_intros keeps_people_write; simp)+

lemma pay_hr_steps [keeps_intros]:
  "keeps (\<lambda>d. pay_sound p0 (people d)) (accrual_movement t e c q y)" "keeps (\<lambda>d. pay_sound p0 (people d)) (book_leave t e c acc q rt ref why)"
  "keeps (\<lambda>d. pay_sound p0 (people d)) (cancelled_trail t i actor r n)"
  unfolding accrual_movement_def book_leave_def cancelled_trail_def recompute_balance_def by (intro keeps_intros)+

lemma pay_hr_request: "hr_request identity m \<Longrightarrow> keeps (\<lambda>d. pay_sound p0 (people d)) m"
proof (induction rule: hr_request.induct)
qed (intro keeps_request; (unfold create_department_service_def update_department_service_def list_departments_def
    update_employee_service_def change_status_def terminate_def list_employees_def request_leave_def list_balances_service_def
    update_leave_policy_def record_attendance_def hire_def accrue_annual_def accrue_for_hire_def accrue_def approve_leave_def approve_pending_def
    reject_leave_def cancel_leave_def cancel_pending_def cancel_approved_def adjust_balance_def book_adjustment_def
    recompute_balance_def get_leave_request_def get_leave_policy_def
    get_department_def get_leave_type_def get_employee_def list_balances_def Let_def)?;
    intro keeps_intros; simp?)+

lemma pay_request: "people_request identity m \<Longrightarrow> kept_request (\<lambda>d. pay_sound p0 (people d)) m"
  by (erule people_request.cases) (auto intro: kept_keeps pay_hr_request sound_kept.kept_payroll_request)

lemma account_request: "people_request identity m \<Longrightarrow> kept_request accounts_in_order m"
  by (erule people_request.cases) (auto intro: kept_keeps keeps_hr_request leave_kept.kept_payroll_request)

section \<open>Reachable states\<close>

text \<open>An office to start from: people, catalogue and policies, but no leave and no payroll yet.\<close>

definition new_office :: "people_tables \<Rightarrow> bool" where
  "new_office p \<longleftrightarrow> leave_requests p = [] \<and> leave_movements p = [] \<and> leave_balances p = [] \<and>
     payroll_runs p = [] \<and> payroll_entries p = [] \<and> payslip_reviews p = []"

lemma new_office_sound: "new_office p \<Longrightarrow> pay_sound p p" "new_office p \<Longrightarrow> leave_wf p"
  by (simp_all add: new_office_def pay_sound_def payroll_wf_def history_refl leave_wf_def account_balanced_def leave_sum_def
      granted_days_def taken_days_def materialized_def accrual_grants_def)

lemma people_run_pay: "people_run identity s s' \<Longrightarrow> pay_sound p0 (people (durable s)) \<Longrightarrow> pay_sound p0 (people (durable s'))"
  by (rule people_run_kept [OF pay_request])

lemma people_run_accounts: "people_run identity s s' \<Longrightarrow> accounts_in_order (durable s) \<Longrightarrow> accounts_in_order (durable s')"
  by (rule people_run_kept [OF account_request])

text \<open>
  C32. Whatever requests human resources and payroll serve, in whatever order, for any tenants and at any
  times, from an office without leave bookings: in every bucket (tenant, employee, leave type) the sum of the ledger is what was
  granted less the days of the approved requests, no year's accrual is granted twice, and for a type that
  accrues the stored balance is that sum and never negative.
\<close>

theorem leave_accounts_balance:
  assumes run: "people_run identity s s'" and start: "new_office (people (durable s))"
  shows "let p = people (durable s') in
    (\<forall>t e c. leave_sum t e c p = granted_days t e c p - taken_days t e c p \<and>
       (accrual_type t c p \<longrightarrow> materialized t e c p = leave_sum t e c p \<and> 0 \<le> leave_sum t e c p)) \<and>
    (\<forall>t e c y. length (accrual_grants t e c y p) \<le> 1)"
proof -
  have "accounts_in_order (durable s)"
    using new_office_sound(2) [OF start] by (simp add: accounts_in_order_def)
  with run have "accounts_in_order (durable s')" by (rule people_run_accounts)
  then show ?thesis unfolding accounts_in_order_def leave_wf_def account_balanced_def Let_def by blast
qed

text \<open>
  C35. The payroll tables stay well typed in every state human resources and payroll reach: a run has one row, its period
  is not empty, and its totals are present once it is computed; a run has at most one entry per employee, with amounts of
  the column's four decimals and days of its 32 bits; a payslip version exists once.
\<close>

theorem payroll_tables_typed:
  assumes run: "people_run identity s s'" and start: "new_office (people (durable s))"
  shows "let p = people (durable s') in
    distinct (map run_id (payroll_runs p)) \<and> distinct (map slot_of (payroll_entries p)) \<and> distinct (map version_of (payslip_reviews p)) \<and>
    (\<forall>r \<in> set (payroll_runs p). pr_start r \<le> pr_end r \<and>
       (pr_status r \<in> {RUN_COMPUTED, RUN_APPROVED, RUN_PAID} \<longrightarrow> pr_gross r \<noteq> None \<and> pr_net r \<noteq> None)) \<and>
    (\<forall>e \<in> set (payroll_entries p). (\<forall>x \<in> {pe_base e, pe_gross e, pe_deductions e, pe_net e}. at_scale 4 x) \<and>
       - (2 ^ 31) \<le> pe_days e \<and> pe_days e < 2 ^ 31)"
proof -
  have "payroll_wf (people (durable s'))"
    using people_run_pay [OF run new_office_sound(1) [OF start]] by (simp add: pay_sound_def)
  then show ?thesis by (simp add: payroll_wf_def totalled_def entry_typed_def Let_def)
qed

text \<open>
  C34. No two runs of a tenant that are not void ever cover the same day, in any state human resources and payroll
  reach: \<open>create_run\<close> refuses a period that overlaps one, and nothing else moves a period or revives a run.
\<close>

theorem runs_never_overlap:
  assumes run: "people_run identity s s'" and start: "new_office (people (durable s))"
    and r: "r \<in> set (payroll_runs (people (durable s')))" "pr_status r \<noteq> RUN_VOID"
    and q: "q \<in> set (payroll_runs (people (durable s')))" "pr_status q \<noteq> RUN_VOID"
    and two: "pr_tenant r = pr_tenant q" "r \<noteq> q"
  shows "pr_end r < pr_start q \<or> pr_end q < pr_start r"
proof (rule ccontr)
  assume "\<not> ?thesis"
  then have "run_clash r q" using r(2) q(2) two(1) by (simp add: run_clash_def run_overlaps_def)
  moreover have wf: "payroll_wf (people (durable s'))"
    using people_run_pay [OF run new_office_sound(1) [OF start]] by (simp add: pay_sound_def)
  ultimately have "run_id r = run_id q" using r(1) q(1) by (auto simp: payroll_wf_def)
  then have "r = q" using wf r(1) q(1) by (auto simp: payroll_wf_def distinct_map inj_on_def)
  with two(2) show False by simp
qed

text \<open>
  C33. Runs refine the abstract life of a run, \<open>draft\<close>, \<open>computed\<close> (as often as wanted), \<open>approved\<close>, \<open>paid\<close>, with \<open>void\<close> from any
  state but \<open>paid\<close>: between any two states that requests reach, a run is still there with its period, its
  status has moved along this machine, and once it is approved, paid or void neither its totals nor any row
  of its sheet changes again.
\<close>

theorem runs_follow_lifecycle:
  assumes first: "people_run identity s s1" and start: "new_office (people (durable s))" and then_run: "people_run identity s1 s2"
    and r: "run_at t i (people (durable s1)) = Some r"
  shows "\<exists>r'. run_at t i (people (durable s2)) = Some r' \<and> pr_start r' = pr_start r \<and> pr_end r' = pr_end r \<and>
    (can_transition run_machine)\<^sup>*\<^sup>* (pr_status r) (pr_status r') \<and>
    (if pr_status r \<in> {RUN_APPROVED, RUN_PAID, RUN_VOID}
     then pr_gross r' = pr_gross r \<and> pr_net r' = pr_net r \<and>
       sheet t i (people (durable s2)) = sheet t i (people (durable s1)) else True)"
proof -
  have "pay_sound (people (durable s1)) (people (durable s1))"
    using people_run_pay [OF first new_office_sound(1) [OF start]] by (simp add: pay_sound_def history_refl)
  from people_run_pay [OF then_run this] have "run_history (people (durable s1)) (people (durable s2))"
    by (simp add: pay_sound_def)
  from run_historyD [OF this r] obtain r' where now: "run_at t i (people (durable s2)) = Some r'" "follows r r'"
    and still: "frozen r \<Longrightarrow> sheet t i (people (durable s2)) = sheet t i (people (durable s1))" by blast
  show ?thesis
    by (rule exI [of _ r'], use now(2) still in \<open>simp only: now(1) follows_def same_identity_def run_path_def frozen_def split: if_split\<close>)
      simp
qed

section \<open>An office at work\<close>

definition new_firm :: sess where
  "new_firm = \<lparr>work = empty_db, durable = empty_db, ctx_buffer = None, fin_pending = [], published = [],
     next_id = 1000, number_seq = (\<lambda>_. 0), ctx_user = None, clk = \<lparr>instant = 8, today = 6, year = 2026\<rparr>\<rparr>"

definition january_opened :: sess where
  "january_opened = snd (run_request (request (create_run 7 1 31 None)) (new_firm\<lparr>clk := clk new_firm, ctx_user := None\<rparr>))"

definition january_voided :: sess where
  "january_voided = snd (run_request (request (void_run 7 1000 (Some ''wrong month'') None))
     (january_opened\<lparr>clk := clk new_firm, ctx_user := None\<rparr>))"

definition february_opened :: sess where
  "february_opened = snd (run_request (request (create_run 7 32 59 None)) (january_opened\<lparr>clk := clk new_firm, ctx_user := None\<rparr>))"

abbreviation nobody :: "uuid \<Rightarrow> uuid \<Rightarrow> error option" where
  "nobody \<equiv> (\<lambda>_ _. None)"

lemma firm_runs: "people_run nobody new_firm january_opened" "people_run nobody january_opened january_voided"
  "people_run nobody january_opened february_opened"
  unfolding people_run_def january_opened_def january_voided_def february_opened_def
  by (intro r_into_rtranclp people_step.step people_request.payroll payroll_request.create_run payroll_request.void_run)+

lemma firm_run: "people_run nobody new_firm january_voided" "people_run nobody new_firm february_opened"
  using firm_runs unfolding people_run_def by (blast intro: rtranclp_trans)+

lemma new_firm_office: "new_office (people (durable new_firm))"
  by (simp add: new_office_def new_firm_def empty_db_def no_people_def)

lemma run_texts: "nat_text (Suc 0) = ''1''" "nat_text (Suc (Suc 0)) = ''2''" "nat_text 2 = ''2''"
  by code_simp+

lemmas create_run_steps = request_def create_run_def find_overlapping_run_def first_of_def run_view_option_def next_run_number_def
  next_value_def run_texts bump_sequence_def sequence_value_def insert_run_def run_view_def currency_for_def wp_simps new_run_def
  run_code_def people_event_def sequence_key_def rows_matched_def Let_def

lemma january_state:
  "let s = january_opened in payroll_runs (people (durable s)) = [new_run 1000 7 1 1 31] \<and> next_id s = 1001 \<and>
     sequences (durable s) = [\<lparr>q_tenant = 7, q_entity = ''payroll_run'', q_value = 1\<rparr>]"
proof -
  have "case run_request (request (create_run 7 1 31 None)) (new_firm\<lparr>clk := clk new_firm, ctx_user := None\<rparr>) of
      (res, s) \<Rightarrow> payroll_runs (people (durable s)) = [new_run 1000 7 1 1 31] \<and> next_id s = 1001 \<and>
     sequences (durable s) = [\<lparr>q_tenant = 7, q_entity = ''payroll_run'', q_value = 1\<rparr>]"
    by (rule run_request_wp) (simp add: create_run_steps run_key_def new_firm_def empty_db_def no_people_def)
  then show ?thesis by (simp add: january_opened_def case_prod_unfold)
qed

lemma january_run: "run_at 7 1000 (people (durable january_opened)) = Some (new_run 1000 7 1 1 31)"
  using january_state by (simp add: Let_def run_at_def run_key_def new_run_def)

lemma february_runs: "payroll_runs (people (durable february_opened)) = [new_run 1000 7 1 1 31, new_run 1001 7 2 32 59]"
proof -
  have "case run_request (request (create_run 7 32 59 None)) (january_opened\<lparr>clk := clk new_firm, ctx_user := None\<rparr>) of
      (res, s) \<Rightarrow> payroll_runs (people (durable s)) = [new_run 1000 7 1 1 31, new_run 1001 7 2 32 59]"
    by (rule run_request_wp) (use january_state in \<open>simp add: create_run_steps run_key_def run_overlaps_def same_period_def\<close>)
  then show ?thesis by (simp add: february_opened_def case_prod_unfold)
qed

lemma leave_accounts_balance_witness:
  "leave_sum 7 4 ''annual'' (people (durable january_voided)) =
     granted_days 7 4 ''annual'' (people (durable january_voided)) - taken_days 7 4 ''annual'' (people (durable january_voided))"
  using leave_accounts_balance [OF firm_run(1) new_firm_office] by (simp only: Let_def)

lemma payroll_tables_typed_witness: "distinct (map run_id (payroll_runs (people (durable january_voided))))"
  using payroll_tables_typed [OF firm_run(1) new_firm_office] by (simp only: Let_def)

lemma runs_never_overlap_witness: "pr_end (new_run 1000 7 1 1 31) < pr_start (new_run 1001 7 2 32 59)"
proof -
  have "pr_end (new_run 1000 7 1 1 31) < pr_start (new_run 1001 7 2 32 59) \<or> pr_end (new_run 1001 7 2 32 59) < pr_start (new_run 1000 7 1 1 31)"
    by (rule runs_never_overlap [OF firm_run(2) new_firm_office]) (simp_all add: february_runs new_run_def)
  then show ?thesis by (simp add: new_run_def)
qed

lemma runs_follow_lifecycle_witness:
  "\<exists>r. run_at 7 1000 (people (durable january_voided)) = Some r \<and> (can_transition run_machine)\<^sup>*\<^sup>* RUN_DRAFT (pr_status r)"
  using runs_follow_lifecycle [OF firm_runs(1) new_firm_office firm_runs(2) january_run] by (auto simp: new_run_def)

end
