(* ===== verification/Spec2Isabelle.thy ===== *)
theory Spec2Isabelle
  imports Fulfilment_Theorems Approval_Advice Payroll_Amounts People_Theorems
begin

text \<open>
  A verification development of the core service of the Skyrict ERP (\<open>src/services/core/src/core\<close>).

  The program. The core service keeps a tenant's books, stock, orders, people and pay in one PostgreSQL
  database. A request opens a session (\<open>db/session.py\<close>), calls service methods, which call repositories,
  and commits or rolls back; events are buffered and published after the commit. Inventory
  (\<open>features/inventory\<close>) keeps stock levels beside an append-only movement ledger; sales
  (\<open>features/sales\<close>) takes orders through confirmation (credit check, reservation), fulfilment (invoice,
  stock, cost of goods) and cancellation; finance (\<open>features/finance\<close>) keeps the journal, invoices,
  payments and the inbox that matches incoming payments (\<open>payment_match.py\<close>); the approval engine
  (\<open>features/approval_workflow\<close>) routes a resource through the steps of a definition and tells the module that
  owns it; human resources (\<open>features/hr\<close>) keeps employees, the leave ledger and attendance; payroll
  (\<open>features/payroll\<close>) computes, approves, pays and voids runs from compensation and unpaid leave.

  The theories, in the order of their imports.

  Shared ground.
  \<^item> \<open>Skyrict_Prelude\<close>: exceptions as the datatype \<open>error\<close>; a service method as a function from the session
    to \<open>(error + 'a) \<times> session\<close>, so that an exception keeps what was written before it; the predicate
    transformer \<open>wp\<close> with the collection \<open>wp_simps\<close>; \<open>select_one\<close>, \<open>update_where\<close> and the other relational
    operations on lists of rows; \<open>quantize\<close> and \<open>numeric\<close> for \<open>Decimal.quantize\<close> and \<open>Numeric(p, s)\<close> columns.
  \<^item> \<open>Money_Values\<close>: \<open>Money\<close> of \<open>domain/value_objects.py\<close> and the 28 digit decimal context (\<open>prec28\<close>).
    \<open>Calendar\<close>: year, day and month of a \<open>date\<close> ordinal.
  \<^item> \<open>Erp_Tables\<close>: one record per table, one datatype per enumeration, the record \<open>db\<close> of all tables.
  \<^item> \<open>Db_Session\<close>: \<open>db/session.py\<close>, \<open>db/sequence_repository.py\<close>, the event buffer and the audit writer.
    \<open>run_request\<close> is the session dependency: begin, body, commit or roll back, publish or discard.

  Inventory. \<open>Inventory_Repository\<close> and \<open>Inventory_Service\<close> hold the operations of the two source files of
  these names (the same holds of every pair below); \<open>Inventory_Ledger\<close> the stock invariant (a level is the sum
  of its movements) and the effect of each write on the sums; \<open>Inventory_Specs\<close> a pure refusal function
  for each step; \<open>Inventory_Requests\<close> and \<open>Inventory_Orders\<close> the invariants of the requests and of whole orders, the
  latter through the locale \<open>line_step\<close>; \<open>Inventory_Theorems\<close> the properties.

  Finance. \<open>Finance_Repository\<close>, \<open>Billing_Repository\<close>, \<open>Finance_Service\<close>, \<open>Billing_Service\<close>: journal, accounts,
  periods, invoices, payments, accruals. \<open>Payment_Matching\<close>: the inbox. \<open>Finance_Ledger\<close> (double entry),
  \<open>Billing_Ledger\<close> (receivables), \<open>Matching_Ledger\<close>, \<open>Receipt_Links\<close> (receipts and their payments):
  the invariants, and what undoing a receipt removes. \<open>Finance_Requests\<close>, \<open>Finance_Invariants\<close>: every request
  keeps them. \<open>Finance_Theorems\<close>, \<open>Finance_Reports\<close>, \<open>Books_Theorems\<close>: the properties of requests, reports, inbox.

  Sales and the services together. \<open>Sales_Service\<close>; \<open>Trade_Invariants\<close>, \<open>Sales_Ledger\<close>: what sales requests keep, and
  the abstract life of an order; \<open>Erp_Machine\<close>: the requests of inventory, sales, finance and inbox in any order
  for any tenant, as an inductive step relation; \<open>Sales_Theorems\<close>, \<open>Fulfilment_Theorems\<close>: the properties.

  Approval. \<open>Approval_Repository\<close>, \<open>Approval_Engine\<close> (also the inbox, the advice of the AI service, the finance port and
  the decision endpoint); \<open>Approval_Ledger\<close>, \<open>Approval_Invariants\<close>: the staged form of instances, kept by every
  operation for any module that satisfies the locale \<open>resource_module\<close>; \<open>Approval_Theorems\<close>, \<open>Approval_Text\<close>,
  \<open>Approval_Advice\<close>: the properties.

  People and pay. \<open>Hr_Repository\<close>, \<open>Hr_Service\<close>; \<open>Hr_Ledger\<close>: the leave account (the balance is the sum of the ledger,
  grants once a year, approved requests taken once) and how each write moves it; \<open>Hr_Requests\<close>: every operation keeps
  it; \<open>Hr_Theorems\<close>: approval and cancellation of leave. \<open>Payroll_Compute\<close> (\<open>PayrollCompute\<close>, skip and void reasons),
  \<open>Payroll_Repository\<close>, \<open>Payroll_Service\<close> (with \<open>approval.py\<close>; \<open>payroll_transition\<close> is what the decision endpoint of the
  approval engine runs for a run), \<open>Payroll_Reports\<close>; \<open>Payroll_Amounts\<close>: the amounts of one entry, paid days, accruals;
  \<open>Payroll_Ledger\<close>: what a payroll write must satisfy to keep an invariant of people and pay; \<open>Payroll_Requests\<close>: every
  payroll request keeps such an invariant, and the leave account is one; \<open>Payroll_Invariants\<close>: the payroll tables in
  order and the history of runs are another; \<open>People_Theorems\<close>: both services as one step relation, and the properties
  of its reachable states.

  Correspondence. A repository method is a definition of its name (with the suffix \<open>_row\<close> or \<open>_service\<close> where
  repository and service share one); its \<open>SELECT\<close>, \<open>UPDATE\<close> and \<open>INSERT\<close> are \<open>select_one\<close>, \<open>update_where\<close> and appending a
  row, preceded by the checks of widths, check constraints, unique keys and foreign keys, in this order, as
  \<open>IntegrityError\<close> and \<open>DataError\<close>. Identifiers drawn by \<open>uuid4\<close> are consumed from a counter in the session,
  so they are new; the clock is read from the session. A Python exception is a value of \<open>error\<close>, \<open>raise\<close> is
  \<open>raiseM\<close>, \<open>if not ...: raise\<close> is \<open>requireM\<close>. Enumerations are datatypes with the members' names.

  Locales. \<open>table_invariant\<close>: an invariant of the tables and what keeps it; \<open>supply_invariant\<close>: one that also
  speaks of the identifiers still to come; \<open>inventory_kept\<close>, \<open>inventory_free\<close>, \<open>trade_invariant\<close>, \<open>sales_kept\<close>: the
  contracts between an invariant and the services that must keep it; \<open>line_step\<close>: one line of a whole-order
  operation; \<open>resource_module\<close>: the owner of an approved resource; \<open>people_invariant\<close>, \<open>pay_quiet\<close>, \<open>pay_kept\<close>: the same contract
  between an invariant of people and pay and the payroll service. Each is interpreted on the model's own definitions.

  Bounds and fuel. Loops are structural or have a termination proof (\<open>months_from\<close>); the one call of itself in the
  code (\<open>approve_payslip\<close> on a new version) is written as two levels, and the inner call finds a draft. Decimals are exact
  rationals; the 28 digit context is applied where an operation can exceed it (products, quotients), and a
  \<open>quantize\<close> that needs more digits raises. 32-bit columns and text widths are checked on write.

  Not modelled, and why. Concurrency inside the database: requests run one after the other, row locks are reads, and the
  conditional updates keep their conditions. HTTP, authentication, row-level security, logging. CRM beyond customers
  and timeline events, journal templates, budgets, assets, expenses, compliance, dashboards and the AI
  features: they add reads and forms around the modelled core. The answers of the AI service, the identity
  service's check of a user and the delivery of payslips are parameters. Payroll automation, documents,
  notifications, reporting, forecast, provisioning and seed data are peripheral; the identity and AI
  services and the web application are other programs.
\<close>

end
